(* ===== verification/Errors.thy ===== *)
theory Errors
  imports Main
begin

text \<open>
  The error vocabulary of \<open>src/k_slide/errors.py\<close>: the closed enumeration
  \<open>ErrorCode\<close> with its wire values, and the exceptions an operation of the model can end
  with. A \<open>KSlideError\<close> is identified by its code; its message and details are diagnostic
  text. The Python exceptions that the modelled code raises (or lets escape) without a
  \<open>KSlideError\<close> are separate constructors, so every raise is a value.
\<close>

section \<open>Error codes\<close>

datatype (plugins only: ) error_code =
    INPUT_NOT_FOUND
  | INPUT_UNSUPPORTED
  | INPUT_CORRUPT
  | INPUT_EMPTY
  | INPUT_TYPE_MISMATCH
  | INPUT_TOO_LARGE
  | INPUT_ARCHIVE_UNSAFE
  | PATH_OUTSIDE_ALLOWED_ROOT
  | RUN_NOT_FOUND
  | STATE_CORRUPT
  | INVALID_TRANSITION
  | SCHEMA_INVALID
  | CONFIG_INVALID
  | AUTHENTICATION_FAILED
  | VERIFICATION_FAILED
  | COMPLETION_BLOCKED
  | INSTALL_COLLISION
  | INSTALL_INVALID
  | RUNTIME_UNKNOWN
  | MODEL_UNKNOWN
  | PDF_RENDER_UNAVAILABLE
  | PPTX_RENDER_UNAVAILABLE
  | OCR_UNAVAILABLE
  | OCR_PROVIDER_UNAVAILABLE
  | CLASSIFICATION_POLICY_INVALID
  | CLASSIFICATION_POLICY_ROUTE_MISMATCH
  | CLASSIFICATION_POLICY_IDENTITY_MISMATCH
  | CLASSIFICATION_UNKNOWN
  | CLASSIFICATION_NOT_APPROVED
  | EGRESS_POLICY_INVALID
  | EGRESS_CAPABILITY_DENIED
  | EGRESS_ROUTE_MISMATCH
  | OPENCODE_BOOTSTRAP_INVALID
  | STALE_EVIDENCE
  | UNKNOWN_REGION
  | UNKNOWN_TABLE
  | UNKNOWN_TABLE_CELL
  | LEGACY_TABLE_CELL_MIGRATION_REQUIRED
  | UNKNOWN_SOURCE_ELEMENT
  | UNKNOWN_WORK_UNIT
  | WORK_UNIT_CONFLICT
  | WORK_UNIT_ALREADY_COMPLETE
  | EVIDENCE_INCOMPLETE
  | NORMALIZATION_FAILED
  | IMAGE_DECODE_FAILED
  | PDF_ENCRYPTED
  | PPTX_CONVERSION_TIMEOUT
  | RENDER_COUNT_MISMATCH
  | DUPLICATE_WORK_UNIT_ID
  | DUPLICATE_DOCUMENT_ID
  | DUPLICATE_SOURCE_ID
  | NUMERIC_MISMATCH
  | MODALITY_MISMATCH
  | REQUIRED_ENGLISH
  | CHART_INTERPRETATION_MISMATCH
  | VISUAL_RELATION_MISMATCH
  | TABLE_STRUCTURE_MISMATCH
  | CLAIM_UNSUPPORTED
  | CONFLICT_INVALID
  | CONFLICT_REFERENCE_INVALID
  | SUPERSESSION_INVALID
  | INSTALL_LOCAL_MODIFICATION
  | RESOURCE_LIMIT
  | RESOURCE_BUDGET_INVALID
  | RESOURCE_BUDGET_UNAVAILABLE
  | CAPACITY_LIMIT
  | RETENTION_INVALID
  | RETENTION_REFUSED
  | DELETION_INVALID
  | DELETION_BLOCKED
  | DELETION_PARTIAL
  | DELETION_TARGET_FAILED
  | DELETION_TARGET_CHANGED
  | LEGAL_HOLD_BLOCKED
  | LEGAL_HOLD_UNKNOWN
  | PRODUCTION_PROFILE_INVALID
  | SUPPORT_BUNDLE_INVALID
  | SUPPORT_AUTHORIZATION_INVALID
  | SUPPORT_AUTHORIZATION_DENIED
  | SUPPORT_AUTHORIZATION_EXPIRED
  | SUPPORT_AUTHORIZATION_REVOKED
  | SUPPORT_AUTHORITY_UNAVAILABLE
  | SUPPORT_CONTENT_UNAVAILABLE
  | SUPPORT_AUDIT_FAILED
  | EXECUTION_NOT_FOUND
  | EXECUTION_CONFLICT
  | EXECUTION_STALE
  | EXECUTION_UNSUPPORTED_VERSION
  | EXECUTION_INVALID
  | EXECUTION_ENVIRONMENT_MISMATCH
  | EXECUTION_AUTHORIZATION_REQUIRED
  | INTERNAL

primrec error_value :: "error_code \<Rightarrow> string" where
  "error_value INPUT_NOT_FOUND = ''KSLIDE_INPUT_NOT_FOUND''"
| "error_value INPUT_UNSUPPORTED = ''KSLIDE_INPUT_UNSUPPORTED''"
| "error_value INPUT_CORRUPT = ''KSLIDE_INPUT_CORRUPT''"
| "error_value INPUT_EMPTY = ''KSLIDE_INPUT_EMPTY''"
| "error_value INPUT_TYPE_MISMATCH = ''KSLIDE_INPUT_TYPE_MISMATCH''"
| "error_value INPUT_TOO_LARGE = ''KSLIDE_INPUT_TOO_LARGE''"
| "error_value INPUT_ARCHIVE_UNSAFE = ''KSLIDE_INPUT_ARCHIVE_UNSAFE''"
| "error_value PATH_OUTSIDE_ALLOWED_ROOT = ''KSLIDE_PATH_OUTSIDE_ALLOWED_ROOT''"
| "error_value RUN_NOT_FOUND = ''KSLIDE_RUN_NOT_FOUND''"
| "error_value STATE_CORRUPT = ''KSLIDE_STATE_CORRUPT''"
| "error_value INVALID_TRANSITION = ''KSLIDE_INVALID_STATE_TRANSITION''"
| "error_value SCHEMA_INVALID = ''KSLIDE_SCHEMA_INVALID''"
| "error_value CONFIG_INVALID = ''KSLIDE_CONFIG_INVALID''"
| "error_value AUTHENTICATION_FAILED = ''KSLIDE_AUTHENTICATION_FAILED''"
| "error_value VERIFICATION_FAILED = ''KSLIDE_VERIFICATION_FAILED''"
| "error_value COMPLETION_BLOCKED = ''KSLIDE_COMPLETION_BLOCKED''"
| "error_value INSTALL_COLLISION = ''KSLIDE_INSTALL_COLLISION''"
| "error_value INSTALL_INVALID = ''KSLIDE_INSTALL_INVALID''"
| "error_value RUNTIME_UNKNOWN = ''KSLIDE_RUNTIME_UNKNOWN''"
| "error_value MODEL_UNKNOWN = ''KSLIDE_MODEL_UNKNOWN''"
| "error_value PDF_RENDER_UNAVAILABLE = ''KSLIDE_PDF_RENDER_UNAVAILABLE''"
| "error_value PPTX_RENDER_UNAVAILABLE = ''KSLIDE_PPTX_RENDER_UNAVAILABLE''"
| "error_value OCR_UNAVAILABLE = ''KSLIDE_OCR_UNAVAILABLE''"
| "error_value OCR_PROVIDER_UNAVAILABLE = ''KSLIDE_OCR_PROVIDER_UNAVAILABLE''"
| "error_value CLASSIFICATION_POLICY_INVALID = ''KSLIDE_CLASSIFICATION_POLICY_INVALID''"
| "error_value CLASSIFICATION_POLICY_ROUTE_MISMATCH = ''KSLIDE_CLASSIFICATION_POLICY_ROUTE_MISMATCH''"
| "error_value CLASSIFICATION_POLICY_IDENTITY_MISMATCH = ''KSLIDE_CLASSIFICATION_POLICY_IDENTITY_MISMATCH''"
| "error_value CLASSIFICATION_UNKNOWN = ''KSLIDE_CLASSIFICATION_UNKNOWN''"
| "error_value CLASSIFICATION_NOT_APPROVED = ''KSLIDE_CLASSIFICATION_NOT_APPROVED''"
| "error_value EGRESS_POLICY_INVALID = ''KSLIDE_EGRESS_POLICY_INVALID''"
| "error_value EGRESS_CAPABILITY_DENIED = ''KSLIDE_EGRESS_CAPABILITY_DENIED''"
| "error_value EGRESS_ROUTE_MISMATCH = ''KSLIDE_EGRESS_ROUTE_MISMATCH''"
| "error_value OPENCODE_BOOTSTRAP_INVALID = ''KSLIDE_OPENCODE_BOOTSTRAP_INVALID''"
| "error_value STALE_EVIDENCE = ''KSLIDE_STALE_EVIDENCE''"
| "error_value UNKNOWN_REGION = ''KSLIDE_UNKNOWN_REGION''"
| "error_value UNKNOWN_TABLE = ''KSLIDE_UNKNOWN_TABLE''"
| "error_value UNKNOWN_TABLE_CELL = ''KSLIDE_UNKNOWN_TABLE_CELL''"
| "error_value LEGACY_TABLE_CELL_MIGRATION_REQUIRED = ''KSLIDE_LEGACY_TABLE_CELL_MIGRATION_REQUIRED''"
| "error_value UNKNOWN_SOURCE_ELEMENT = ''KSLIDE_UNKNOWN_SOURCE_ELEMENT''"
| "error_value UNKNOWN_WORK_UNIT = ''KSLIDE_UNKNOWN_WORK_UNIT''"
| "error_value WORK_UNIT_CONFLICT = ''KSLIDE_WORK_UNIT_CONFLICT''"
| "error_value WORK_UNIT_ALREADY_COMPLETE = ''KSLIDE_WORK_UNIT_ALREADY_COMPLETE''"
| "error_value EVIDENCE_INCOMPLETE = ''KSLIDE_EVIDENCE_INCOMPLETE''"
| "error_value NORMALIZATION_FAILED = ''KSLIDE_NORMALIZATION_FAILED''"
| "error_value IMAGE_DECODE_FAILED = ''KSLIDE_IMAGE_DECODE_FAILED''"
| "error_value PDF_ENCRYPTED = ''KSLIDE_PDF_ENCRYPTED''"
| "error_value PPTX_CONVERSION_TIMEOUT = ''KSLIDE_PPTX_CONVERSION_TIMEOUT''"
| "error_value RENDER_COUNT_MISMATCH = ''KSLIDE_RENDER_COUNT_MISMATCH''"
| "error_value DUPLICATE_WORK_UNIT_ID = ''KSLIDE_DUPLICATE_WORK_UNIT_ID''"
| "error_value DUPLICATE_DOCUMENT_ID = ''KSLIDE_DUPLICATE_DOCUMENT_ID''"
| "error_value DUPLICATE_SOURCE_ID = ''KSLIDE_DUPLICATE_SOURCE_ID''"
| "error_value NUMERIC_MISMATCH = ''KSLIDE_NUMERIC_MISMATCH''"
| "error_value MODALITY_MISMATCH = ''KSLIDE_MODALITY_MISMATCH''"
| "error_value REQUIRED_ENGLISH = ''KSLIDE_REQUIRED_ENGLISH''"
| "error_value CHART_INTERPRETATION_MISMATCH = ''KSLIDE_CHART_INTERPRETATION_MISMATCH''"
| "error_value VISUAL_RELATION_MISMATCH = ''KSLIDE_VISUAL_RELATION_MISMATCH''"
| "error_value TABLE_STRUCTURE_MISMATCH = ''KSLIDE_TABLE_STRUCTURE_MISMATCH''"
| "error_value CLAIM_UNSUPPORTED = ''KSLIDE_CLAIM_UNSUPPORTED''"
| "error_value CONFLICT_INVALID = ''KSLIDE_CONFLICT_INVALID''"
| "error_value CONFLICT_REFERENCE_INVALID = ''KSLIDE_CONFLICT_REFERENCE_INVALID''"
| "error_value SUPERSESSION_INVALID = ''KSLIDE_SUPERSESSION_INVALID''"
| "error_value INSTALL_LOCAL_MODIFICATION = ''KSLIDE_INSTALL_LOCAL_MODIFICATION''"
| "error_value RESOURCE_LIMIT = ''KSLIDE_RESOURCE_LIMIT''"
| "error_value RESOURCE_BUDGET_INVALID = ''KSLIDE_RESOURCE_BUDGET_INVALID''"
| "error_value RESOURCE_BUDGET_UNAVAILABLE = ''KSLIDE_RESOURCE_BUDGET_UNAVAILABLE''"
| "error_value CAPACITY_LIMIT = ''KSLIDE_CAPACITY_LIMIT''"
| "error_value RETENTION_INVALID = ''KSLIDE_RETENTION_INVALID''"
| "error_value RETENTION_REFUSED = ''KSLIDE_RETENTION_REFUSED''"
| "error_value DELETION_INVALID = ''KSLIDE_DELETION_INVALID''"
| "error_value DELETION_BLOCKED = ''KSLIDE_DELETION_BLOCKED''"
| "error_value DELETION_PARTIAL = ''KSLIDE_DELETION_PARTIAL''"
| "error_value DELETION_TARGET_FAILED = ''KSLIDE_DELETION_TARGET_FAILED''"
| "error_value DELETION_TARGET_CHANGED = ''KSLIDE_DELETION_TARGET_CHANGED''"
| "error_value LEGAL_HOLD_BLOCKED = ''KSLIDE_LEGAL_HOLD_BLOCKED''"
| "error_value LEGAL_HOLD_UNKNOWN = ''KSLIDE_LEGAL_HOLD_UNKNOWN''"
| "error_value PRODUCTION_PROFILE_INVALID = ''KSLIDE_PRODUCTION_PROFILE_INVALID''"
| "error_value SUPPORT_BUNDLE_INVALID = ''KSLIDE_SUPPORT_BUNDLE_INVALID''"
| "error_value SUPPORT_AUTHORIZATION_INVALID = ''KSLIDE_SUPPORT_AUTHORIZATION_INVALID''"
| "error_value SUPPORT_AUTHORIZATION_DENIED = ''KSLIDE_SUPPORT_AUTHORIZATION_DENIED''"
| "error_value SUPPORT_AUTHORIZATION_EXPIRED = ''KSLIDE_SUPPORT_AUTHORIZATION_EXPIRED''"
| "error_value SUPPORT_AUTHORIZATION_REVOKED = ''KSLIDE_SUPPORT_AUTHORIZATION_REVOKED''"
| "error_value SUPPORT_AUTHORITY_UNAVAILABLE = ''KSLIDE_SUPPORT_AUTHORITY_UNAVAILABLE''"
| "error_value SUPPORT_CONTENT_UNAVAILABLE = ''KSLIDE_SUPPORT_CONTENT_UNAVAILABLE''"
| "error_value SUPPORT_AUDIT_FAILED = ''KSLIDE_SUPPORT_AUDIT_FAILED''"
| "error_value EXECUTION_NOT_FOUND = ''KSLIDE_EXECUTION_NOT_FOUND''"
| "error_value EXECUTION_CONFLICT = ''KSLIDE_EXECUTION_CONFLICT''"
| "error_value EXECUTION_STALE = ''KSLIDE_EXECUTION_STALE''"
| "error_value EXECUTION_UNSUPPORTED_VERSION = ''KSLIDE_EXECUTION_UNSUPPORTED_VERSION''"
| "error_value EXECUTION_INVALID = ''KSLIDE_EXECUTION_INVALID''"
| "error_value EXECUTION_ENVIRONMENT_MISMATCH = ''KSLIDE_EXECUTION_ENVIRONMENT_MISMATCH''"
| "error_value EXECUTION_AUTHORIZATION_REQUIRED = ''KSLIDE_EXECUTION_AUTHORIZATION_REQUIRED''"
| "error_value INTERNAL = ''KSLIDE_INTERNAL''"

text \<open>
  \<open>ErrorCode\<close> is an enumeration: its members in declaration order, the position of each, and
  the executable equality that follows from them.
\<close>

definition error_members :: "error_code list" where
  "error_members = [
    INPUT_NOT_FOUND, INPUT_UNSUPPORTED, INPUT_CORRUPT, INPUT_EMPTY, INPUT_TYPE_MISMATCH, INPUT_TOO_LARGE, INPUT_ARCHIVE_UNSAFE, PATH_OUTSIDE_ALLOWED_ROOT, RUN_NOT_FOUND, STATE_CORRUPT, INVALID_TRANSITION, SCHEMA_INVALID, CONFIG_INVALID, AUTHENTICATION_FAILED, VERIFICATION_FAILED, COMPLETION_BLOCKED, INSTALL_COLLISION, INSTALL_INVALID, RUNTIME_UNKNOWN, MODEL_UNKNOWN, PDF_RENDER_UNAVAILABLE, PPTX_RENDER_UNAVAILABLE, OCR_UNAVAILABLE, OCR_PROVIDER_UNAVAILABLE, CLASSIFICATION_POLICY_INVALID, CLASSIFICATION_POLICY_ROUTE_MISMATCH, CLASSIFICATION_POLICY_IDENTITY_MISMATCH, CLASSIFICATION_UNKNOWN, CLASSIFICATION_NOT_APPROVED, EGRESS_POLICY_INVALID, EGRESS_CAPABILITY_DENIED, EGRESS_ROUTE_MISMATCH, OPENCODE_BOOTSTRAP_INVALID, STALE_EVIDENCE, UNKNOWN_REGION, UNKNOWN_TABLE, UNKNOWN_TABLE_CELL, LEGACY_TABLE_CELL_MIGRATION_REQUIRED, UNKNOWN_SOURCE_ELEMENT, UNKNOWN_WORK_UNIT, WORK_UNIT_CONFLICT, WORK_UNIT_ALREADY_COMPLETE, EVIDENCE_INCOMPLETE, NORMALIZATION_FAILED, IMAGE_DECODE_FAILED, PDF_ENCRYPTED, PPTX_CONVERSION_TIMEOUT, RENDER_COUNT_MISMATCH, DUPLICATE_WORK_UNIT_ID, DUPLICATE_DOCUMENT_ID, DUPLICATE_SOURCE_ID, NUMERIC_MISMATCH, MODALITY_MISMATCH, REQUIRED_ENGLISH, CHART_INTERPRETATION_MISMATCH, VISUAL_RELATION_MISMATCH, TABLE_STRUCTURE_MISMATCH, CLAIM_UNSUPPORTED, CONFLICT_INVALID, CONFLICT_REFERENCE_INVALID, SUPERSESSION_INVALID, INSTALL_LOCAL_MODIFICATION, RESOURCE_LIMIT, RESOURCE_BUDGET_INVALID, RESOURCE_BUDGET_UNAVAILABLE, CAPACITY_LIMIT, RETENTION_INVALID, RETENTION_REFUSED, DELETION_INVALID, DELETION_BLOCKED, DELETION_PARTIAL, DELETION_TARGET_FAILED, DELETION_TARGET_CHANGED, LEGAL_HOLD_BLOCKED, LEGAL_HOLD_UNKNOWN, PRODUCTION_PROFILE_INVALID, SUPPORT_BUNDLE_INVALID, SUPPORT_AUTHORIZATION_INVALID, SUPPORT_AUTHORIZATION_DENIED, SUPPORT_AUTHORIZATION_EXPIRED, SUPPORT_AUTHORIZATION_REVOKED, SUPPORT_AUTHORITY_UNAVAILABLE, SUPPORT_CONTENT_UNAVAILABLE, SUPPORT_AUDIT_FAILED, EXECUTION_NOT_FOUND, EXECUTION_CONFLICT, EXECUTION_STALE, EXECUTION_UNSUPPORTED_VERSION, EXECUTION_INVALID, EXECUTION_ENVIRONMENT_MISMATCH, EXECUTION_AUTHORIZATION_REQUIRED, INTERNAL]"

primrec error_index :: "error_code \<Rightarrow> nat" where
  "error_index INPUT_NOT_FOUND = 0"
| "error_index INPUT_UNSUPPORTED = 1"
| "error_index INPUT_CORRUPT = 2"
| "error_index INPUT_EMPTY = 3"
| "error_index INPUT_TYPE_MISMATCH = 4"
| "error_index INPUT_TOO_LARGE = 5"
| "error_index INPUT_ARCHIVE_UNSAFE = 6"
| "error_index PATH_OUTSIDE_ALLOWED_ROOT = 7"
| "error_index RUN_NOT_FOUND = 8"
| "error_index STATE_CORRUPT = 9"
| "error_index INVALID_TRANSITION = 10"
| "error_index SCHEMA_INVALID = 11"
| "error_index CONFIG_INVALID = 12"
| "error_index AUTHENTICATION_FAILED = 13"
| "error_index VERIFICATION_FAILED = 14"
| "error_index COMPLETION_BLOCKED = 15"
| "error_index INSTALL_COLLISION = 16"
| "error_index INSTALL_INVALID = 17"
| "error_index RUNTIME_UNKNOWN = 18"
| "error_index MODEL_UNKNOWN = 19"
| "error_index PDF_RENDER_UNAVAILABLE = 20"
| "error_index PPTX_RENDER_UNAVAILABLE = 21"
| "error_index OCR_UNAVAILABLE = 22"
| "error_index OCR_PROVIDER_UNAVAILABLE = 23"
| "error_index CLASSIFICATION_POLICY_INVALID = 24"
| "error_index CLASSIFICATION_POLICY_ROUTE_MISMATCH = 25"
| "error_index CLASSIFICATION_POLICY_IDENTITY_MISMATCH = 26"
| "error_index CLASSIFICATION_UNKNOWN = 27"
| "error_index CLASSIFICATION_NOT_APPROVED = 28"
| "error_index EGRESS_POLICY_INVALID = 29"
| "error_index EGRESS_CAPABILITY_DENIED = 30"
| "error_index EGRESS_ROUTE_MISMATCH = 31"
| "error_index OPENCODE_BOOTSTRAP_INVALID = 32"
| "error_index STALE_EVIDENCE = 33"
| "error_index UNKNOWN_REGION = 34"
| "error_index UNKNOWN_TABLE = 35"
| "error_index UNKNOWN_TABLE_CELL = 36"
| "error_index LEGACY_TABLE_CELL_MIGRATION_REQUIRED = 37"
| "error_index UNKNOWN_SOURCE_ELEMENT = 38"
| "error_index UNKNOWN_WORK_UNIT = 39"
| "error_index WORK_UNIT_CONFLICT = 40"
| "error_index WORK_UNIT_ALREADY_COMPLETE = 41"
| "error_index EVIDENCE_INCOMPLETE = 42"
| "error_index NORMALIZATION_FAILED = 43"
| "error_index IMAGE_DECODE_FAILED = 44"
| "error_index PDF_ENCRYPTED = 45"
| "error_index PPTX_CONVERSION_TIMEOUT = 46"
| "error_index RENDER_COUNT_MISMATCH = 47"
| "error_index DUPLICATE_WORK_UNIT_ID = 48"
| "error_index DUPLICATE_DOCUMENT_ID = 49"
| "error_index DUPLICATE_SOURCE_ID = 50"
| "error_index NUMERIC_MISMATCH = 51"
| "error_index MODALITY_MISMATCH = 52"
| "error_index REQUIRED_ENGLISH = 53"
| "error_index CHART_INTERPRETATION_MISMATCH = 54"
| "error_index VISUAL_RELATION_MISMATCH = 55"
| "error_index TABLE_STRUCTURE_MISMATCH = 56"
| "error_index CLAIM_UNSUPPORTED = 57"
| "error_index CONFLICT_INVALID = 58"
| "error_index CONFLICT_REFERENCE_INVALID = 59"
| "error_index SUPERSESSION_INVALID = 60"
| "error_index INSTALL_LOCAL_MODIFICATION = 61"
| "error_index RESOURCE_LIMIT = 62"
| "error_index RESOURCE_BUDGET_INVALID = 63"
| "error_index RESOURCE_BUDGET_UNAVAILABLE = 64"
| "error_index CAPACITY_LIMIT = 65"
| "error_index RETENTION_INVALID = 66"
| "error_index RETENTION_REFUSED = 67"
| "error_index DELETION_INVALID = 68"
| "error_index DELETION_BLOCKED = 69"
| "error_index DELETION_PARTIAL = 70"
| "error_index DELETION_TARGET_FAILED = 71"
| "error_index DELETION_TARGET_CHANGED = 72"
| "error_index LEGAL_HOLD_BLOCKED = 73"
| "error_index LEGAL_HOLD_UNKNOWN = 74"
| "error_index PRODUCTION_PROFILE_INVALID = 75"
| "error_index SUPPORT_BUNDLE_INVALID = 76"
| "error_index SUPPORT_AUTHORIZATION_INVALID = 77"
| "error_index SUPPORT_AUTHORIZATION_DENIED = 78"
| "error_index SUPPORT_AUTHORIZATION_EXPIRED = 79"
| "error_index SUPPORT_AUTHORIZATION_REVOKED = 80"
| "error_index SUPPORT_AUTHORITY_UNAVAILABLE = 81"
| "error_index SUPPORT_CONTENT_UNAVAILABLE = 82"
| "error_index SUPPORT_AUDIT_FAILED = 83"
| "error_index EXECUTION_NOT_FOUND = 84"
| "error_index EXECUTION_CONFLICT = 85"
| "error_index EXECUTION_STALE = 86"
| "error_index EXECUTION_UNSUPPORTED_VERSION = 87"
| "error_index EXECUTION_INVALID = 88"
| "error_index EXECUTION_ENVIRONMENT_MISMATCH = 89"
| "error_index EXECUTION_AUTHORIZATION_REQUIRED = 90"
| "error_index INTERNAL = 91"

lemma error_members_index: "error_members ! error_index c = c"
  by (cases c) (simp_all add: error_members_def)

lemma error_index_inject: "error_index a = error_index b \<longleftrightarrow> a = b"
  by (metis error_members_index)

instantiation error_code :: equal
begin

definition equal_error_code :: "error_code \<Rightarrow> error_code \<Rightarrow> bool" where
  "equal_error_code a b \<longleftrightarrow> error_index a = error_index b"

instance
  by standard (simp add: equal_error_code_def error_index_inject)

end

section \<open>Exceptions and results\<close>

datatype err =
    KSlideError error_code
  | PyTypeError
  | PyValueError
  | PyKeyError
  | PyOSError

type_synonym 'a res = "err + 'a"

end
