(* ===== verification/Prelude.thy ===== *)
theory Prelude
  imports Errors
begin

text \<open>
  Notions every component shares: sequencing of results (a Python statement that may raise,
  followed by the rest of the method), chains of guards (\<open>if bad: raise E\<close> one after the
  other), and the generic facts about results, options and association lists that carry the
  component proofs. The collections \<open>res_simps\<close> (results and guards) and \<open>op_defs\<close>
  (the operations a component unfolds) are filled as the library grows.
\<close>

named_theorems res_simps
named_theorems op_defs

section \<open>Results\<close>

fun bind_res :: "'e + 'a \<Rightarrow> ('a \<Rightarrow> 'e + 'b) \<Rightarrow> 'e + 'b" where
  "bind_res (Inl e) f = Inl e"
| "bind_res (Inr x) f = f x"

lemma bind_res_Inr_iff [res_simps]:
  "bind_res m f = Inr y \<longleftrightarrow> (\<exists>x. m = Inr x \<and> f x = Inr y)"
  by (cases m) auto

lemma bind_res_Inl_iff [res_simps]:
  "bind_res m f = Inl e \<longleftrightarrow> m = Inl e \<or> (\<exists>x. m = Inr x \<and> f x = Inl e)"
  by (cases m) auto

lemma bind_res_assoc: "bind_res (bind_res m f) g = bind_res m (\<lambda>x. bind_res (f x) g)"
  by (cases m) auto

lemma bind_res_cong [fundef_cong]:
  assumes "m = n" and "\<And>x. n = Inr x \<Longrightarrow> f x = g x"
  shows "bind_res m f = bind_res n g"
  using assms by (cases n) auto

definition is_ok :: "'e + 'a \<Rightarrow> bool" where
  "is_ok m \<longleftrightarrow> (case m of Inl _ \<Rightarrow> False | Inr _ \<Rightarrow> True)"

lemma is_ok_simps [simp]: "is_ok (Inr x)" "\<not> is_ok (Inl e)"
  by (simp_all add: is_ok_def)

lemma is_ok_iff: "is_ok m \<longleftrightarrow> (\<exists>x. m = Inr x)"
  by (cases m) simp_all

section \<open>Guard chains\<close>

text \<open>The first guard that fires is the exception; no guard firing lets the method go on.\<close>

fun guards :: "(bool \<times> 'e) list \<Rightarrow> 'e + unit" where
  "guards [] = Inr ()"
| "guards ((bad, e) # gs) = (if bad then Inl e else guards gs)"

lemma guards_ok_iff: "guards gs = Inr () \<longleftrightarrow> (\<forall>g \<in> set gs. \<not> fst g)"
  by (induction gs rule: guards.induct) auto

lemma bind_guards_Inr_iff:
  "bind_res (guards gs) (\<lambda>_. m) = Inr y \<longleftrightarrow> (\<forall>g \<in> set gs. \<not> fst g) \<and> m = Inr y"
  by (induction gs rule: guards.induct) auto

lemma guards_Inl_in: "guards gs = Inl e \<Longrightarrow> e \<in> snd ` set gs"
  by (induction gs rule: guards.induct) (auto split: if_splits)

lemma guards_append: "guards (gs @ hs) = bind_res (guards gs) (\<lambda>_. guards hs)"
  by (induction gs rule: guards.induct) auto

section \<open>Mapping a partial decoder over a list\<close>

fun map_res :: "('a \<Rightarrow> 'e + 'b) \<Rightarrow> 'a list \<Rightarrow> 'e + 'b list" where
  "map_res f [] = Inr []"
| "map_res f (x # xs) = bind_res (f x) (\<lambda>y. bind_res (map_res f xs) (\<lambda>ys. Inr (y # ys)))"

lemma map_res_map: "(\<And>x. x \<in> set xs \<Longrightarrow> f (g x) = Inr (h x)) \<Longrightarrow> map_res f (map g xs) = Inr (map h xs)"
  by (induction xs) auto

lemma map_res_length: "map_res f xs = Inr ys \<Longrightarrow> length ys = length xs"
  by (induction xs arbitrary: ys) (auto simp: res_simps)

lemma map_res_set: "map_res f xs = Inr ys \<Longrightarrow> y \<in> set ys \<Longrightarrow> \<exists>x \<in> set xs. f x = Inr y"
  by (induction xs arbitrary: ys) (auto simp: res_simps)

section \<open>First match in a sequence\<close>

text \<open>\<open>next((x for x in xs if p x), None)\<close>.\<close>

lemma find_Some_in: "find p xs = Some x \<Longrightarrow> x \<in> set xs \<and> p x"
  by (auto simp: find_Some_iff)

lemma find_append: "find p (xs @ ys) = (case find p xs of None \<Rightarrow> find p ys | Some x \<Rightarrow> Some x)"
  by (induction xs) auto

lemma distinct_map_find:
  "distinct (map f xs) \<Longrightarrow> x \<in> set xs \<Longrightarrow> find (\<lambda>y. f y = f x) xs = Some x"
  by (induction xs) auto

end
