(* ===== verification/Text.thy ===== *)
theory Text
  imports Prelude "HOL-Library.Sublist"
begin

text \<open>
  The regular expressions and word denylists that the contracts test strings with. A Python
  string is the list of its UTF-8 bytes; the patterns below only accept ASCII text, so bytes and
  code points agree on what they accept (\<open>\d\<close> is read as the ASCII digits). Every pattern is
  used with \<open>fullmatch\<close>.
\<close>

section \<open>Character classes\<close>

definition code_of :: "char \<Rightarrow> nat" where
  "code_of c = of_char c"

definition is_digit_char :: "char \<Rightarrow> bool" where
  "is_digit_char c \<longleftrightarrow> 48 \<le> code_of c \<and> code_of c \<le> 57"

definition is_upper_char :: "char \<Rightarrow> bool" where
  "is_upper_char c \<longleftrightarrow> 65 \<le> code_of c \<and> code_of c \<le> 90"

definition is_lower_char :: "char \<Rightarrow> bool" where
  "is_lower_char c \<longleftrightarrow> 97 \<le> code_of c \<and> code_of c \<le> 122"

definition is_alnum_char :: "char \<Rightarrow> bool" where
  "is_alnum_char c \<longleftrightarrow> is_upper_char c \<or> is_lower_char c \<or> is_digit_char c"

definition is_hex_char :: "char \<Rightarrow> bool" where
  "is_hex_char c \<longleftrightarrow> is_digit_char c \<or> (97 \<le> code_of c \<and> code_of c \<le> 102)"

text \<open>\<open>str.lower\<close> on an ASCII letter sets bit 5 of its code.\<close>

fun set_bit5 :: "char \<Rightarrow> char" where
  "set_bit5 (Char b0 b1 b2 b3 b4 b5 b6 b7) = Char b0 b1 b2 b3 b4 True b6 b7"

definition lower_char :: "char \<Rightarrow> char" where
  "lower_char c = (if is_upper_char c then set_bit5 c else c)"

section \<open>Patterns\<close>

text \<open>\<open>^[h][t]{0,n}$\<close>: one head character, then at most \<open>n\<close> tail characters.\<close>

fun head_tail_match :: "(char \<Rightarrow> bool) \<Rightarrow> (char \<Rightarrow> bool) \<Rightarrow> nat \<Rightarrow> string \<Rightarrow> bool" where
  "head_tail_match h t n [] = False"
| "head_tail_match h t n (c # cs) = (h c \<and> length cs \<le> n \<and> list_all t cs)"

definition matches_identifier :: "string \<Rightarrow> bool" where
  "matches_identifier =
     head_tail_match is_alnum_char (\<lambda>c. is_alnum_char c \<or> c \<in> set ''_.:-'') 127"

definition matches_phase :: "string \<Rightarrow> bool" where
  "matches_phase =
     head_tail_match is_upper_char
       (\<lambda>c. is_upper_char c \<or> is_digit_char c \<or> c \<in> set ''_.:-'') 63"

definition matches_metadata_key :: "string \<Rightarrow> bool" where
  "matches_metadata_key =
     head_tail_match is_lower_char
       (\<lambda>c. is_lower_char c \<or> is_digit_char c \<or> c \<in> set ''_.:-'') 63"

definition matches_sha256 :: "string \<Rightarrow> bool" where
  "matches_sha256 s \<longleftrightarrow> length s = 64 \<and> list_all is_hex_char s"

text \<open>A fixed shape: \<open>d\<close> stands for a digit, every other character for itself.\<close>

definition matches_shape :: "string \<Rightarrow> string \<Rightarrow> bool" where
  "matches_shape shape s \<longleftrightarrow>
     list_all2 (\<lambda>p c. if p = CHR ''d'' then is_digit_char c else c = p) shape s"

definition matches_timestamp :: "string \<Rightarrow> bool" where
  "matches_timestamp s \<longleftrightarrow>
     matches_shape ''dddd-dd-ddTdd:dd:dd'' (take 19 s) \<and>
     (case drop 19 s of
        [] \<Rightarrow> False
      | c # cs \<Rightarrow>
          (c = CHR ''Z'' \<and> cs = [])
          \<or> (c = CHR ''.'' \<and> length cs \<ge> 2 \<and> list_all is_digit_char (butlast cs)
              \<and> last cs = CHR ''Z''))"

section \<open>Denied words\<close>

text \<open>\<open>any(word in value.lower() for word in words)\<close>.\<close>

fun occurs_in :: "string \<Rightarrow> string \<Rightarrow> bool" where
  "occurs_in w [] = (w = [])"
| "occurs_in w (c # cs) = (take (length w) (c # cs) = w \<or> occurs_in w cs)"

definition contains_word :: "string list \<Rightarrow> string \<Rightarrow> bool" where
  "contains_word ws s \<longleftrightarrow> list_ex (\<lambda>w. occurs_in w (map lower_char s)) ws"

lemma occurs_in_sublist: "occurs_in w s \<longleftrightarrow> sublist w s"
proof (induction s)
  case Nil
  then show ?case by simp
next
  case (Cons c cs)
  have "take (length w) (c # cs) = w \<longleftrightarrow> prefix w (c # cs)"
    by (metis append_eq_conv_conj prefix_def take_is_prefix)
  with Cons show ?case by (simp add: sublist_Cons_right)
qed

lemma contains_word_mono: "set ws \<subseteq> set vs \<Longrightarrow> contains_word ws s \<Longrightarrow> contains_word vs s"
  by (auto simp: contains_word_def list_ex_iff)

lemma matches_identifier_nonempty: "matches_identifier s \<Longrightarrow> s \<noteq> []"
  by (cases s) (auto simp: matches_identifier_def)

lemma matches_identifier_length: "matches_identifier s \<Longrightarrow> length s \<le> 128"
  by (cases s) (auto simp: matches_identifier_def)

lemma matches_sha256_identifier: "matches_sha256 s \<Longrightarrow> s \<noteq> []"
  by (auto simp: matches_sha256_def)

text \<open>What a concrete string needs to be classified by the simplifier.\<close>

lemmas char_defs =
  code_of_def is_digit_char_def is_upper_char_def is_lower_char_def is_alnum_char_def
  is_hex_char_def lower_char_def

lemmas pattern_defs =
  matches_identifier_def matches_phase_def matches_metadata_key_def matches_sha256_def
  matches_shape_def matches_timestamp_def contains_word_def

end
