(* ===== verification/Json.thy ===== *)
theory Json
  imports Text "HOL-Library.Word"
begin

unbundle bit_operations_syntax

text \<open>
  Persisted records are JSON objects, identified by the SHA-256 of their canonical encoding
  (\<open>stable_revision\<close> in \<open>src/k_slide/evidence_ir.py\<close>). This theory has the JSON values
  the modelled records use (no floating-point numbers occur in them), the canonical
  \<open>json.dumps(..., ensure_ascii=False, sort_keys=True, separators=(",", ":"))\<close>, the
  \<open>hashlib.sha256(...).hexdigest()\<close> of a byte string, and the field access a decoder
  performs on a Python dict.
\<close>

section \<open>Values\<close>

datatype json =
    JNull
  | JBool bool
  | JInt int
  | JStr string
  | JArr "json list"
  | JObj "(string \<times> json) list"

text \<open>\<open>isinstance(value, int)\<close> holds of booleans too, which compare as 0 and 1.\<close>

fun json_int :: "json \<Rightarrow> int option" where
  "json_int (JInt i) = Some i"
| "json_int (JBool b) = Some (of_bool b)"
| "json_int _ = None"

fun json_str :: "json \<Rightarrow> string option" where
  "json_str (JStr s) = Some s"
| "json_str _ = None"

fun json_bool :: "json \<Rightarrow> bool option" where
  "json_bool (JBool b) = Some b"
| "json_bool _ = None"

definition json_opt_str :: "string option \<Rightarrow> json" where
  "json_opt_str s = (case s of None \<Rightarrow> JNull | Some x \<Rightarrow> JStr x)"

section \<open>Objects\<close>

definition keys_of :: "(string \<times> json) list \<Rightarrow> string set" where
  "keys_of kvs = fst ` set kvs"

definition field_or :: "json \<Rightarrow> string \<Rightarrow> (string \<times> json) list \<Rightarrow> json" where
  "field_or d k kvs = (case map_of kvs k of None \<Rightarrow> d | Some v \<Rightarrow> v)"

definition without_key :: "string \<Rightarrow> (string \<times> json) list \<Rightarrow> (string \<times> json) list" where
  "without_key k kvs = filter (\<lambda>kv. fst kv \<noteq> k) kvs"

lemma without_key_append_last:
  "k \<notin> keys_of kvs \<Longrightarrow> without_key k (kvs @ [(k, v)]) = kvs"
  by (force simp: without_key_def keys_of_def filter_id_conv)

lemma field_or_append_last:
  "k \<notin> keys_of kvs \<Longrightarrow> field_or d k (kvs @ [(k, v)]) = v"
  by (simp add: field_or_def keys_of_def map_add_def map_of_eq_None_iff[symmetric] split: option.splits)

section \<open>Canonical encoding\<close>

fun str_le :: "string \<Rightarrow> string \<Rightarrow> bool" where
  "str_le [] t = True"
| "str_le (c # cs) [] = False"
| "str_le (c # cs) (d # ds) =
     (code_of c < code_of d \<or> (c = d \<and> str_le cs ds))"

fun insert_field :: "string \<times> json \<Rightarrow> (string \<times> json) list \<Rightarrow> (string \<times> json) list" where
  "insert_field kv [] = [kv]"
| "insert_field kv (x # xs) =
     (if str_le (fst kv) (fst x) then kv # x # xs else x # insert_field kv xs)"

definition sort_fields :: "(string \<times> json) list \<Rightarrow> (string \<times> json) list" where
  "sort_fields kvs = foldr insert_field kvs []"

fun sort_keys :: "json \<Rightarrow> json" where
  "sort_keys (JArr vs) = JArr (map sort_keys vs)"
| "sort_keys (JObj kvs) = JObj (sort_fields (map (\<lambda>kv. (fst kv, sort_keys (snd kv))) kvs))"
| "sort_keys v = v"

definition digit_char :: "nat \<Rightarrow> char" where
  "digit_char n = char_of (48 + n mod 10)"

fun nat_text :: "nat \<Rightarrow> string" where
  "nat_text n = (if n < 10 then [digit_char n] else nat_text (n div 10) @ [digit_char n])"

declare nat_text.simps [simp del]

definition int_text :: "int \<Rightarrow> string" where
  "int_text i = (if i < 0 then CHR ''-'' # nat_text (nat (- i)) else nat_text (nat i))"

definition hex_digit :: "nat \<Rightarrow> char" where
  "hex_digit n = (if n mod 16 < 10 then char_of (48 + n mod 16) else char_of (87 + n mod 16))"

definition escape_char :: "char \<Rightarrow> string" where
  "escape_char c =
     (let n = code_of c in
      if n = 34 then [CHR 0x5C, CHR 0x22]
      else if n = 92 then [CHR 0x5C, CHR 0x5C]
      else if n = 10 then [CHR 0x5C, CHR ''n'']
      else if n = 13 then [CHR 0x5C, CHR ''r'']
      else if n = 9 then [CHR 0x5C, CHR ''t'']
      else if n = 12 then [CHR 0x5C, CHR ''f'']
      else if n = 8 then [CHR 0x5C, CHR ''b'']
      else if n < 32 then CHR 0x5C # ''u00'' @ [hex_digit (n div 16), hex_digit n]
      else [c])"

definition quote_text :: "string \<Rightarrow> string" where
  "quote_text s = [CHR 0x22] @ concat (map escape_char s) @ [CHR 0x22]"

fun join_commas :: "string list \<Rightarrow> string" where
  "join_commas [] = []"
| "join_commas [s] = s"
| "join_commas (s # t # ts) = s @ '','' @ join_commas (t # ts)"

fun encode_json :: "json \<Rightarrow> string" where
  "encode_json JNull = ''null''"
| "encode_json (JBool b) = (if b then ''true'' else ''false'')"
| "encode_json (JInt i) = int_text i"
| "encode_json (JStr s) = quote_text s"
| "encode_json (JArr vs) = ''['' @ join_commas (map encode_json vs) @ '']''"
| "encode_json (JObj kvs) =
     ''{'' @ join_commas (map (\<lambda>kv. quote_text (fst kv) @ '':'' @ encode_json (snd kv)) kvs) @ ''}''"

section \<open>SHA-256\<close>

type_synonym w32 = "32 word"

definition sha_k :: "w32 list" where
  "sha_k = [
    1116352408, 1899447441, 3049323471, 3921009573, 961987163, 1508970993, 2453635748, 2870763221,
    3624381080, 310598401, 607225278, 1426881987, 1925078388, 2162078206, 2614888103, 3248222580,
    3835390401, 4022224774, 264347078, 604807628, 770255983, 1249150122, 1555081692, 1996064986,
    2554220882, 2821834349, 2952996808, 3210313671, 3336571891, 3584528711, 113926993, 338241895,
    666307205, 773529912, 1294757372, 1396182291, 1695183700, 1986661051, 2177026350, 2456956037,
    2730485921, 2820302411, 3259730800, 3345764771, 3516065817, 3600352804, 4094571909, 275423344,
    430227734, 506948616, 659060556, 883997877, 958139571, 1322822218, 1537002063, 1747873779,
    1955562222, 2024104815, 2227730452, 2361852424, 2428436474, 2756734187, 3204031479, 3329325298]"

definition sha_init :: "w32 list" where
  "sha_init = [1779033703, 3144134277, 1013904242, 2773480762,
               1359893119, 2600822924, 528734635, 1541459225]"

definition byte_word :: "char \<Rightarrow> w32" where
  "byte_word c = of_nat (code_of c)"

fun words_of_bytes :: "string \<Rightarrow> w32 list" where
  "words_of_bytes (a # b # c # d # rest) =
     (push_bit 24 (byte_word a) OR push_bit 16 (byte_word b) OR push_bit 8 (byte_word c) OR byte_word d)
     # words_of_bytes rest"
| "words_of_bytes _ = []"

definition length_bytes :: "nat \<Rightarrow> string" where
  "length_bytes bits = map (\<lambda>i. char_of (bits div 256 ^ (7 - i) mod 256)) [0..<8]"

definition sha_pad :: "string \<Rightarrow> string" where
  "sha_pad s =
     s @ [char_of (128::nat)]
       @ replicate ((119 - length s mod 64) mod 64) (char_of (0::nat))
       @ length_bytes (8 * length s)"

definition sha_schedule :: "w32 list \<Rightarrow> w32 list" where
  "sha_schedule block =
     fold (\<lambda>i w.
       let a = w ! (i - 15); b = w ! (i - 2);
           s0 = word_rotr 7 a XOR word_rotr 18 a XOR drop_bit 3 a;
           s1 = word_rotr 17 b XOR word_rotr 19 b XOR drop_bit 10 b
       in w @ [w ! (i - 16) + s0 + w ! (i - 7) + s1]) [16..<64] block"

fun sha_round :: "w32 \<times> w32 \<Rightarrow> w32 list \<Rightarrow> w32 list" where
  "sha_round (k, w) [a, b, c, d, e, f, g, h] =
     (let s1 = word_rotr 6 e XOR word_rotr 11 e XOR word_rotr 25 e;
          ch = (e AND f) XOR (NOT e AND g);
          t1 = h + s1 + ch + k + w;
          s0 = word_rotr 2 a XOR word_rotr 13 a XOR word_rotr 22 a;
          maj = (a AND b) XOR (a AND c) XOR (b AND c)
      in [t1 + s0 + maj, a, b, c, d + t1, e, f, g])"
| "sha_round kw v = v"

fun sha_blocks :: "nat \<Rightarrow> w32 list \<Rightarrow> w32 list \<Rightarrow> w32 list" where
  "sha_blocks 0 ws hs = hs"
| "sha_blocks (Suc n) ws hs =
     sha_blocks n (drop 16 ws)
       (map2 (+) hs (fold sha_round (zip sha_k (sha_schedule (take 16 ws))) hs))"

definition hex_of_word :: "w32 \<Rightarrow> string" where
  "hex_of_word w = map (\<lambda>i. hex_digit (unat w div 16 ^ (7 - i))) [0..<8]"

definition sha256_hex :: "string \<Rightarrow> string" where
  "sha256_hex s =
     (let ws = words_of_bytes (sha_pad s)
      in concat (map hex_of_word (sha_blocks (length ws div 16) ws sha_init)))"

section \<open>Stable revisions\<close>

definition stable_revision :: "json \<Rightarrow> string" where
  "stable_revision v = sha256_hex (encode_json (sort_keys v))"

lemma is_hex_hex_digit: "is_hex_char (hex_digit n)"
proof -
  have m: "n mod 16 < 16" by simp
  have c: "code_of (char_of k) = k" if "k < 256" for k :: nat
    using that by (simp add: code_of_def)
  show ?thesis
    using m by (auto simp: hex_digit_def is_hex_char_def is_digit_char_def c)
qed

lemma length_sha_round: "length (sha_round kw v) = length v"
  by (induction kw v rule: sha_round.induct) (simp_all add: Let_def)

lemma length_fold_sha_round: "length (fold sha_round kws v) = length v"
  by (induction kws arbitrary: v) (simp_all add: length_sha_round)

lemma length_sha_blocks: "length (sha_blocks n ws hs) = length hs"
  by (induction n arbitrary: ws hs) (simp_all add: length_fold_sha_round)

lemma concat_hex_words:
  "length (concat (map hex_of_word ws)) = 8 * length ws \<and> list_all is_hex_char (concat (map hex_of_word ws))"
  by (induction ws) (auto simp: hex_of_word_def list_all_iff is_hex_hex_digit)

lemma stable_revision_sha256 [simp]: "matches_sha256 (stable_revision v)"
proof -
  have "length (sha_blocks n ws sha_init) = 8" for n ws
    by (simp add: length_sha_blocks sha_init_def)
  then show ?thesis
    using concat_hex_words
    by (simp add: stable_revision_def sha256_hex_def matches_sha256_def Let_def)
qed

lemma stable_revision_nonempty [simp]: "stable_revision v \<noteq> []"
  using stable_revision_sha256 [of v] by (auto simp: matches_sha256_def simp del: stable_revision_sha256)

section \<open>Canonical key order\<close>

lemma code_of_inject: "code_of c = code_of d \<longleftrightarrow> c = d"
  by (simp add: code_of_def)

lemma str_le_refl [simp]: "str_le s s"
  by (induction s) simp_all

lemma str_le_total: "str_le s t \<or> str_le t s"
proof (induction s t rule: str_le.induct)
  case (3 c cs d ds)
  then show ?case using code_of_inject [of c d] by auto
qed simp_all

lemma str_le_trans: "str_le s t \<Longrightarrow> str_le t u \<Longrightarrow> str_le s u"
proof (induction s t arbitrary: u rule: str_le.induct)
  case (3 c cs d ds)
  then show ?case by (cases u) auto
qed auto

definition fields_sorted :: "(string \<times> json) list \<Rightarrow> bool" where
  "fields_sorted = sorted_wrt (\<lambda>a b. str_le (fst a) (fst b))"

lemma set_insert_field [simp]: "set (insert_field kv xs) = insert kv (set xs)"
  by (induction kv xs rule: insert_field.induct) auto

lemma length_insert_field [simp]: "length (insert_field kv xs) = Suc (length xs)"
  by (induction kv xs rule: insert_field.induct) auto

lemma fields_sorted_insert: "fields_sorted xs \<Longrightarrow> fields_sorted (insert_field kv xs)"
proof (induction kv xs rule: insert_field.induct)
  case (1 kv)
  then show ?case by (simp add: fields_sorted_def)
next
  case (2 kv x xs)
  show ?case
  proof (cases "str_le (fst kv) (fst x)")
    case True
    with 2 show ?thesis by (auto simp: fields_sorted_def intro: str_le_trans)
  next
    case False
    with str_le_total have "str_le (fst x) (fst kv)" by blast
    with False 2 show ?thesis by (auto simp: fields_sorted_def)
  qed
qed

lemma set_sort_fields [simp]: "set (sort_fields xs) = set xs"
  by (induction xs) (simp_all add: sort_fields_def)

lemma length_sort_fields [simp]: "length (sort_fields xs) = length xs"
  by (induction xs) (simp_all add: sort_fields_def)

lemma fields_sorted_sort: "fields_sorted (sort_fields xs)"
proof (induction xs)
  case Nil
  then show ?case by (simp add: sort_fields_def fields_sorted_def)
next
  case (Cons x xs)
  then show ?case by (simp add: sort_fields_def fields_sorted_insert)
qed

lemma sort_fields_sorted: "fields_sorted xs \<Longrightarrow> sort_fields xs = xs"
proof (induction xs)
  case Nil
  then show ?case by (simp add: sort_fields_def)
next
  case (Cons x xs)
  then have "sort_fields xs = xs" and "\<forall>y \<in> set xs. str_le (fst x) (fst y)"
    by (simp_all add: fields_sorted_def)
  then show ?case by (cases xs) (simp_all add: sort_fields_def)
qed

lemma sort_fields_idem [simp]: "sort_fields (sort_fields xs) = sort_fields xs"
  by (rule sort_fields_sorted) (rule fields_sorted_sort)

end
