(* ===== verification/Run_State.thy ===== *)
theory Run_State
  imports Json
begin

text \<open>
  The engine's run state machine (\<open>src/k_slide/state.py\<close>): the phases of a run, the allowed
  transitions, the state record and its atomic transition. The clock reading that a transition
  stamps is an argument.
\<close>

section \<open>Phases\<close>

datatype run_phase =
    CREATED | INPUT_VALIDATED | NORMALIZING | NORMALIZED | EXTRACTING | EXTRACTED
  | TRANSLATING | TRANSLATED | VERIFYING | FAIL_REPAIRABLE | REPAIRING | NEEDS_REVIEW
  | VERIFIED | COMPLETE | FAILED_INPUT | FAILED_RUNTIME | FAILED_NORMALIZATION
  | FAILED_EXTRACTION | FAILED_SCHEMA | FAILED_INTERNAL

fun phase_value :: "run_phase \<Rightarrow> string" where
  "phase_value CREATED = ''CREATED''"
| "phase_value INPUT_VALIDATED = ''INPUT_VALIDATED''"
| "phase_value NORMALIZING = ''NORMALIZING''"
| "phase_value NORMALIZED = ''NORMALIZED''"
| "phase_value EXTRACTING = ''EXTRACTING''"
| "phase_value EXTRACTED = ''EXTRACTED''"
| "phase_value TRANSLATING = ''TRANSLATING''"
| "phase_value TRANSLATED = ''TRANSLATED''"
| "phase_value VERIFYING = ''VERIFYING''"
| "phase_value FAIL_REPAIRABLE = ''FAIL_REPAIRABLE''"
| "phase_value REPAIRING = ''REPAIRING''"
| "phase_value NEEDS_REVIEW = ''NEEDS_REVIEW''"
| "phase_value VERIFIED = ''VERIFIED''"
| "phase_value COMPLETE = ''COMPLETE''"
| "phase_value FAILED_INPUT = ''FAILED_INPUT''"
| "phase_value FAILED_RUNTIME = ''FAILED_RUNTIME''"
| "phase_value FAILED_NORMALIZATION = ''FAILED_NORMALIZATION''"
| "phase_value FAILED_EXTRACTION = ''FAILED_EXTRACTION''"
| "phase_value FAILED_SCHEMA = ''FAILED_SCHEMA''"
| "phase_value FAILED_INTERNAL = ''FAILED_INTERNAL''"

text \<open>The transition table \<open>_ALLOWED\<close>; a phase without an entry allows nothing.\<close>

fun allowed :: "run_phase \<Rightarrow> run_phase list" where
  "allowed CREATED = [INPUT_VALIDATED, FAILED_INPUT, FAILED_RUNTIME]"
| "allowed INPUT_VALIDATED = [NORMALIZING, NORMALIZED, FAILED_NORMALIZATION, FAILED_RUNTIME]"
| "allowed NORMALIZING = [NORMALIZED, FAILED_NORMALIZATION, FAILED_RUNTIME]"
| "allowed NORMALIZED = [EXTRACTING, EXTRACTED, FAILED_EXTRACTION, FAILED_RUNTIME]"
| "allowed EXTRACTING = [EXTRACTED, FAILED_EXTRACTION, FAILED_RUNTIME]"
| "allowed EXTRACTED = [TRANSLATING, FAILED_RUNTIME]"
| "allowed TRANSLATING =
     [TRANSLATING, TRANSLATED, VERIFYING, REPAIRING, FAIL_REPAIRABLE, NEEDS_REVIEW, FAILED_SCHEMA]"
| "allowed TRANSLATED = [TRANSLATING, VERIFYING, FAILED_SCHEMA]"
| "allowed VERIFYING = [VERIFIED, FAIL_REPAIRABLE, NEEDS_REVIEW, FAILED_INTERNAL]"
| "allowed FAIL_REPAIRABLE = [REPAIRING, NEEDS_REVIEW, VERIFYING]"
| "allowed REPAIRING = [TRANSLATING, VERIFYING, NEEDS_REVIEW, FAILED_SCHEMA]"
| "allowed NEEDS_REVIEW = [REPAIRING, VERIFYING, FAILED_SCHEMA]"
| "allowed VERIFIED = [COMPLETE, REPAIRING, VERIFYING, NEEDS_REVIEW]"
| "allowed COMPLETE = [VERIFYING, REPAIRING, COMPLETE]"
| "allowed FAILED_NORMALIZATION = [NORMALIZING, FAILED_NORMALIZATION, FAILED_RUNTIME]"
| "allowed FAILED_EXTRACTION = [EXTRACTING, FAILED_EXTRACTION, FAILED_RUNTIME]"
| "allowed _ = []"

fun terminal_phase :: "run_phase \<Rightarrow> bool" where
  "terminal_phase p \<longleftrightarrow>
     p \<in> set [COMPLETE, FAILED_INPUT, FAILED_RUNTIME, FAILED_NORMALIZATION, FAILED_EXTRACTION,
              FAILED_SCHEMA, FAILED_INTERNAL]"

definition operational_failure_phase :: "run_phase \<Rightarrow> bool" where
  "operational_failure_phase p \<longleftrightarrow>
     p \<in> set [FAILED_INPUT, FAILED_RUNTIME, FAILED_NORMALIZATION, FAILED_EXTRACTION,
              FAILED_SCHEMA, FAILED_INTERNAL]"

section \<open>The state and its transition\<close>

record run_state =
  rs_run_id :: string
  rs_mode :: string
  rs_phase :: run_phase
  rs_session_key :: "string option"
  rs_input_count :: int
  rs_current_work_unit :: "string option"
  rs_next_action :: "string option"
  rs_error_code :: "string option"
  rs_error_message :: "string option"
  rs_repair_attempts :: int
  rs_revision :: int
  rs_deletion_fence :: "string option"
  rs_classification_admission :: "json option"
  rs_schema_version :: string
  rs_created_at :: string
  rs_updated_at :: string

definition run_terminal :: "run_state \<Rightarrow> bool" where
  "run_terminal s \<longleftrightarrow> terminal_phase (rs_phase s)"

definition transition ::
  "run_state \<Rightarrow> run_phase \<Rightarrow> string option \<Rightarrow> string option \<Rightarrow> string option \<Rightarrow> string \<Rightarrow> run_state res"
where
  "transition s target next_action code message now =
     (if target = rs_phase s then Inr (s\<lparr>rs_updated_at := now\<rparr>)
      else if target \<notin> set (allowed (rs_phase s)) then Inl (KSlideError INVALID_TRANSITION)
      else Inr (s\<lparr>rs_phase := target, rs_next_action := next_action, rs_error_code := code,
                 rs_error_message := message, rs_updated_at := now\<rparr>))"

text \<open>A sequence of transition requests, as the engine issues them; the first refusal ends it.\<close>

fun transitions :: "run_state \<Rightarrow> run_phase list \<Rightarrow> string \<Rightarrow> run_state res" where
  "transitions s [] now = Inr s"
| "transitions s (p # ps) now =
     bind_res (transition s p None None None now) (\<lambda>s'. transitions s' ps now)"

section \<open>Lemmas\<close>

lemma phase_value_inject: "phase_value p = phase_value q \<longleftrightarrow> p = q"
  by (cases p; cases q) simp_all

lemma transition_phase:
  "transition s p a c m now = Inr s' \<Longrightarrow>
     rs_phase s' = p \<and> (p = rs_phase s \<or> p \<in> set (allowed (rs_phase s)))"
  by (auto simp: transition_def split: if_splits)

lemma transition_frame:
  "transition s p a c m now = Inr s' \<Longrightarrow>
     rs_run_id s' = rs_run_id s \<and> rs_mode s' = rs_mode s \<and> rs_revision s' = rs_revision s
     \<and> rs_created_at s' = rs_created_at s \<and> rs_deletion_fence s' = rs_deletion_fence s
     \<and> rs_updated_at s' = now"
  by (auto simp: transition_def split: if_splits)

lemma transition_ok_iff:
  "is_ok (transition s p a c m now) \<longleftrightarrow> p = rs_phase s \<or> p \<in> set (allowed (rs_phase s))"
  by (auto simp: transition_def)

text \<open>The phases a run passes through, the starting phase excluded.\<close>

fun phase_path :: "run_phase \<Rightarrow> run_phase list \<Rightarrow> bool" where
  "phase_path p [] = True"
| "phase_path p (q # qs) = ((q = p \<or> q \<in> set (allowed p)) \<and> phase_path q qs)"

lemma transitions_ok_iff: "is_ok (transitions s ps now) \<longleftrightarrow> phase_path (rs_phase s) ps"
proof (induction ps arbitrary: s)
  case Nil
  then show ?case by simp
next
  case (Cons p ps)
  show ?case
  proof (cases "transition s p None None None now")
    case (Inl e)
    then show ?thesis using transition_ok_iff [of s p None None None now] by simp
  next
    case (Inr s')
    with Cons [of s'] show ?thesis
      using transition_ok_iff [of s p None None None now] transition_phase [OF Inr] by simp
  qed
qed

lemma transitions_last_phase:
  "transitions s ps now = Inr s' \<Longrightarrow> rs_phase s' = last (rs_phase s # ps)"
proof (induction ps arbitrary: s)
  case Nil
  then show ?case by simp
next
  case (Cons p ps)
  then obtain t where t: "transition s p None None None now = Inr t" "transitions t ps now = Inr s'"
    by (auto simp: res_simps)
  with Cons.IH transition_phase [OF t(1)] show ?case by fastforce
qed

lemma phase_path_append:
  "phase_path p (qs @ rs) \<longleftrightarrow> phase_path p qs \<and> phase_path (last (p # qs)) rs"
  by (induction qs arbitrary: p) auto

lemma into_COMPLETE: "COMPLETE \<in> set (allowed p) \<Longrightarrow> p = VERIFIED \<or> p = COMPLETE"
  by (cases p) auto

lemma into_VERIFIED: "VERIFIED \<in> set (allowed p) \<Longrightarrow> p = VERIFYING"
  by (cases p) auto

text \<open>
  Before extraction has finished only the early phases can have been visited: everything from
  translation on lies behind \<open>EXTRACTED\<close>.
\<close>

definition early_phase :: "run_phase \<Rightarrow> bool" where
  "early_phase p \<longleftrightarrow>
     p \<in> {CREATED, INPUT_VALIDATED, NORMALIZING, NORMALIZED, EXTRACTING, FAILED_INPUT,
          FAILED_RUNTIME, FAILED_NORMALIZATION, FAILED_EXTRACTION}"

lemma early_step: "early_phase p \<Longrightarrow> q \<in> set (allowed p) \<Longrightarrow> early_phase q \<or> q = EXTRACTED"
  by (cases p) (auto simp: early_phase_def)

lemma leaves_early_through_EXTRACTED:
  "early_phase p \<Longrightarrow> phase_path p qs \<Longrightarrow> \<not> early_phase (last (p # qs)) \<Longrightarrow> EXTRACTED \<in> set qs"
proof (induction qs arbitrary: p)
  case Nil
  then show ?case by simp
next
  case (Cons q qs)
  show ?case
  proof (cases "q = EXTRACTED")
    case True
    then show ?thesis by simp
  next
    case False
    with Cons.prems early_step have "early_phase q" by auto
    moreover from Cons.prems have "phase_path q qs" "\<not> early_phase (last (q # qs))" by simp_all
    ultimately have "EXTRACTED \<in> set qs" by (rule Cons.IH)
    then show ?thesis by simp
  qed
qed

lemma reaches_VERIFIED_through_VERIFYING:
  "phase_path p qs \<Longrightarrow> VERIFIED \<in> set qs \<Longrightarrow> p \<noteq> VERIFIED \<Longrightarrow> p = VERIFYING \<or> VERIFYING \<in> set qs"
proof (induction qs arbitrary: p)
  case Nil
  then show ?case by simp
next
  case (Cons q qs)
  then show ?case by (auto dest: into_VERIFIED)
qed

lemma reaches_COMPLETE_through_VERIFIED:
  "phase_path p qs \<Longrightarrow> COMPLETE \<in> set qs \<Longrightarrow> p \<noteq> COMPLETE \<Longrightarrow> p = VERIFIED \<or> VERIFIED \<in> set qs"
proof (induction qs arbitrary: p)
  case Nil
  then show ?case by simp
next
  case (Cons q qs)
  then show ?case by (auto dest: into_COMPLETE)
qed

text \<open>
  A phase that can only be entered from one other is always preceded by it.
\<close>

lemma entered_from:
  assumes path: "phase_path p qs" and x: "x \<in> set qs" and "p \<noteq> x" and "p \<noteq> y"
    and only: "\<And>r. x \<in> set (allowed r) \<Longrightarrow> r = y \<or> r = x"
  obtains us vs where "qs = us @ y # x # vs" "phase_path p (us @ [y])"
proof -
  from split_list_first [OF x] obtain us vs where qs: "qs = us @ x # vs" and fresh: "x \<notin> set us"
    by blast
  from path have us: "phase_path p us" and step: "x = last (p # us) \<or> x \<in> set (allowed (last (p # us)))"
    by (simp_all add: qs phase_path_append)
  have "last (p # us) \<noteq> x" using fresh \<open>p \<noteq> x\<close> by (cases us rule: rev_cases) auto
  with step only have l: "last (p # us) = y" by blast
  with \<open>p \<noteq> y\<close> have "us \<noteq> []" by auto
  with l obtain us' where "us = us' @ [y]" by (cases us rule: rev_cases) auto
  with qs us that show thesis by simp
qed

lemma path_to_COMPLETE:
  assumes "early_phase p" and "phase_path p qs" and "last (p # qs) = COMPLETE"
  shows "subseq [EXTRACTED, VERIFYING, VERIFIED, COMPLETE] qs"
proof -
  from assms(1) have p: "p \<noteq> COMPLETE" "p \<noteq> VERIFIED" "p \<noteq> VERIFYING" by (auto simp: early_phase_def)
  with assms(3) have "COMPLETE \<in> set qs" by (cases qs rule: rev_cases) auto
  from entered_from [OF assms(2) this p(1,2) into_COMPLETE] obtain u1 v1 where
    q1: "qs = u1 @ VERIFIED # COMPLETE # v1" and path1: "phase_path p (u1 @ [VERIFIED])" by blast
  from entered_from [OF path1 _ p(2,3)] into_VERIFIED obtain u2 v2 where
    q2: "u1 @ [VERIFIED] = u2 @ VERIFYING # VERIFIED # v2" and path2: "phase_path p (u2 @ [VERIFYING])"
    by (metis in_set_conv_decomp)
  have "EXTRACTED \<in> set (u2 @ [VERIFYING])"
    using leaves_early_through_EXTRACTED [OF assms(1) path2] by (simp add: early_phase_def)
  then have ex: "subseq [EXTRACTED] u2" by (simp add: subseq_singleton_left)
  have "qs = u2 @ (VERIFYING # VERIFIED # v2) @ (COMPLETE # v1)" using q1 q2 by simp
  moreover have "subseq ([VERIFYING, VERIFIED] @ [COMPLETE]) ((VERIFYING # VERIFIED # v2) @ (COMPLETE # v1))"
    by (rule list_emb_append_mono) simp_all
  with ex have "subseq ([EXTRACTED] @ [VERIFYING, VERIFIED, COMPLETE])
      (u2 @ (VERIFYING # VERIFIED # v2) @ (COMPLETE # v1))"
    by (intro list_emb_append_mono) simp_all
  ultimately show ?thesis by simp
qed

definition dead_phase :: "run_phase \<Rightarrow> bool" where
  "dead_phase p \<longleftrightarrow> allowed p = []"

lemma dead_phase_iff:
  "dead_phase p \<longleftrightarrow> p \<in> {FAILED_INPUT, FAILED_RUNTIME, FAILED_SCHEMA, FAILED_INTERNAL}"
  by (cases p) (auto simp: dead_phase_def)

lemma dead_phase_path: "dead_phase p \<Longrightarrow> phase_path p qs \<Longrightarrow> set qs \<subseteq> {p}"
  by (induction qs arbitrary: p) (auto simp: dead_phase_def)

text \<open>A route to completion from every phase that is not dead.\<close>

fun route :: "run_phase \<Rightarrow> run_phase list" where
  "route CREATED = [INPUT_VALIDATED, NORMALIZED, EXTRACTED, TRANSLATING, VERIFYING, VERIFIED, COMPLETE]"
| "route INPUT_VALIDATED = [NORMALIZED, EXTRACTED, TRANSLATING, VERIFYING, VERIFIED, COMPLETE]"
| "route NORMALIZING = [NORMALIZED, EXTRACTED, TRANSLATING, VERIFYING, VERIFIED, COMPLETE]"
| "route FAILED_NORMALIZATION =
     [NORMALIZING, NORMALIZED, EXTRACTED, TRANSLATING, VERIFYING, VERIFIED, COMPLETE]"
| "route NORMALIZED = [EXTRACTED, TRANSLATING, VERIFYING, VERIFIED, COMPLETE]"
| "route EXTRACTING = [EXTRACTED, TRANSLATING, VERIFYING, VERIFIED, COMPLETE]"
| "route FAILED_EXTRACTION = [EXTRACTING, EXTRACTED, TRANSLATING, VERIFYING, VERIFIED, COMPLETE]"
| "route EXTRACTED = [TRANSLATING, VERIFYING, VERIFIED, COMPLETE]"
| "route VERIFYING = [VERIFIED, COMPLETE]"
| "route VERIFIED = [COMPLETE]"
| "route COMPLETE = []"
| "route _ = [VERIFYING, VERIFIED, COMPLETE]"

lemma route_path: "\<not> dead_phase p \<Longrightarrow> phase_path p (route p) \<and> last (p # route p) = COMPLETE"
  by (cases p) (auto simp: dead_phase_def)

end
