(* ===== verification/Environment.thy ===== *)
theory Environment
  imports Json
begin

text \<open>
  The run environment identity (\<open>src/k_slide/environment.py\<close>): the immutable, source-free
  contract that binds a run to its candidate, runtime, model, policies and schema versions; its
  validation, its persisted form and the comparison that refuses a resume under another
  environment. The identities of the built-in reference policies, which fill in for fields a
  legacy record lacks, are computed by the policy modules and are an argument here
  (\<open>env_reference\<close>).
\<close>

section \<open>Data\<close>

record environment =
  env_kslide_source_revision :: string
  env_candidate_identity :: string
  env_candidate_version :: string
  env_kslide_version :: string
  env_runtime_artifact_identity :: string
  env_runtime_image_identity :: string
  env_runtime_build_identity :: string
  env_runtime_manifest_sha256 :: string
  env_runtime_sbom_sha256 :: string
  env_target_model_identity :: string
  env_effective_model_identity :: string
  env_model_config_identity :: string
  env_semantic_config_identity :: string
  env_ocr_asset_identity :: string
  env_ocr_config_identity :: string
  env_ocr_provider :: string
  env_termbase_identity :: string
  env_termbase_version :: string
  env_inference_endpoint_identity :: string
  env_inference_route_identity :: string
  env_inference_data_policy_version :: string
  env_inference_data_policy_hash :: string
  env_inference_data_policy_identity :: string
  env_egress_policy_version :: string
  env_egress_policy_hash :: string
  env_egress_policy_identity :: string
  env_execution_contract_version :: string
  env_run_store_schema_version :: string
  env_evidence_ir_schema_version :: string
  env_translation_patch_schema_version :: string
  env_slide_ir_schema_version :: string
  env_identity_version :: string

record env_reference =
  ref_inference_route_identity :: string
  ref_inference_endpoint_identity :: string
  ref_inference_data_policy_version :: string
  ref_inference_data_policy_hash :: string
  ref_inference_data_policy_identity :: string
  ref_egress_policy_version :: string
  ref_egress_policy_hash :: string
  ref_egress_policy_identity :: string

section \<open>Field patterns\<close>

definition matches_sha40 :: "string \<Rightarrow> bool" where
  "matches_sha40 s \<longleftrightarrow> length s = 40 \<and> list_all is_hex_char s"

definition matches_image :: "string \<Rightarrow> bool" where
  "matches_image s \<longleftrightarrow> take 7 s = ''sha256:'' \<and> matches_sha256 (drop 7 s)"

definition matches_env_identity :: "string \<Rightarrow> bool" where
  "matches_env_identity =
     head_tail_match is_alnum_char (\<lambda>c. is_alnum_char c \<or> c \<in> set ''_.:/@+-'') 255"

text \<open>
  \<open>^[0-9]+\.[0-9]+(?:\.[0-9]+)?(?:[-+][A-Za-z0-9.-]+)?$\<close>: two or three dotted numbers, then
  an optional suffix introduced by a sign.
\<close>

definition version_suffix :: "string \<Rightarrow> bool" where
  "version_suffix s \<longleftrightarrow>
     (case s of
        [] \<Rightarrow> True
      | c # cs \<Rightarrow> c \<in> set ''-+'' \<and> cs \<noteq> []
          \<and> list_all (\<lambda>d. is_alnum_char d \<or> d \<in> set ''.-'') cs)"

definition dotted_number :: "string \<Rightarrow> string option" where
  "dotted_number s =
     (case s of
        [] \<Rightarrow> None
      | c # cs \<Rightarrow>
          if c = CHR ''.'' \<and> takeWhile is_digit_char cs \<noteq> []
          then Some (dropWhile is_digit_char cs) else None)"

definition matches_version :: "string \<Rightarrow> bool" where
  "matches_version s \<longleftrightarrow>
     takeWhile is_digit_char s \<noteq> [] \<and>
     (case dotted_number (dropWhile is_digit_char s) of
        None \<Rightarrow> False
      | Some t \<Rightarrow>
          version_suffix t
          \<or> (case dotted_number t of None \<Rightarrow> False | Some u \<Rightarrow> version_suffix u))"

definition env_forbidden :: "string list" where
  "env_forbidden = [''access'', ''secret'', ''token'', ''password'', ''credential'', ''source_text'',
     ''prompt'', ''translation'', ''content'']"

definition env_text_ok :: "string \<Rightarrow> bool" where
  "env_text_ok s \<longleftrightarrow> s \<noteq> [] \<and> matches_env_identity s \<and> \<not> contains_word env_forbidden s"

section \<open>Validation\<close>

text \<open>\<open>__post_init__\<close>: the checks in order, with the error each raises.\<close>

definition environment_checks :: "environment \<Rightarrow> (bool \<times> err) list" where
  "environment_checks e =
     [(env_identity_version e \<noteq> ''1.0'', KSlideError EXECUTION_UNSUPPORTED_VERSION),
      (\<not> matches_sha40 (env_kslide_source_revision e), KSlideError EXECUTION_INVALID)]
     @ map (\<lambda>s. (\<not> matches_sha256 s, KSlideError EXECUTION_INVALID))
        [env_candidate_identity e, env_runtime_artifact_identity e, env_runtime_build_identity e,
         env_runtime_manifest_sha256 e, env_runtime_sbom_sha256 e, env_model_config_identity e,
         env_semantic_config_identity e, env_ocr_asset_identity e, env_ocr_config_identity e,
         env_termbase_identity e, env_inference_endpoint_identity e]
     @ [(\<not> matches_image (env_runtime_image_identity e), KSlideError EXECUTION_INVALID)]
     @ map (\<lambda>s. (\<not> matches_version s, KSlideError EXECUTION_INVALID))
        [env_candidate_version e, env_kslide_version e, env_termbase_version e]
     @ map (\<lambda>s. (\<not> env_text_ok s, KSlideError EXECUTION_INVALID))
        [env_target_model_identity e, env_effective_model_identity e, env_ocr_provider e,
         env_inference_route_identity e, env_inference_data_policy_version e,
         env_egress_policy_version e]
     @ map (\<lambda>s. (\<not> matches_sha256 s, KSlideError EXECUTION_INVALID))
        [env_inference_data_policy_hash e, env_inference_data_policy_identity e,
         env_egress_policy_hash e, env_egress_policy_identity e]
     @ map (\<lambda>s. (\<not> matches_version s, KSlideError EXECUTION_INVALID))
        [env_execution_contract_version e, env_run_store_schema_version e,
         env_evidence_ir_schema_version e, env_translation_patch_schema_version e,
         env_slide_ir_schema_version e]"

definition environment_post_init :: "environment \<Rightarrow> environment res" where
  "environment_post_init e = bind_res (guards (environment_checks e)) (\<lambda>_. Inr e)"

definition valid_environment :: "environment \<Rightarrow> bool" where
  "valid_environment e \<longleftrightarrow> environment_post_init e = Inr e"

section \<open>Persisted form\<close>

definition env_fields :: "environment \<Rightarrow> (string \<times> string) list" where
  "env_fields e = [
     (''identity_version'', env_identity_version e),
     (''kslide_revision'', env_kslide_source_revision e),
     (''candidate_identity'', env_candidate_identity e),
     (''candidate_version'', env_candidate_version e),
     (''kslide_version'', env_kslide_version e),
     (''runtime_artifact_identity'', env_runtime_artifact_identity e),
     (''runtime_image_identity'', env_runtime_image_identity e),
     (''runtime_build_identity'', env_runtime_build_identity e),
     (''runtime_manifest_sha256'', env_runtime_manifest_sha256 e),
     (''runtime_sbom_sha256'', env_runtime_sbom_sha256 e),
     (''target_model_identity'', env_target_model_identity e),
     (''effective_model_identity'', env_effective_model_identity e),
     (''model_config_identity'', env_model_config_identity e),
     (''semantic_config_identity'', env_semantic_config_identity e),
     (''ocr_asset_identity'', env_ocr_asset_identity e),
     (''ocr_config_identity'', env_ocr_config_identity e),
     (''ocr_provider'', env_ocr_provider e),
     (''termbase_identity'', env_termbase_identity e),
     (''termbase_version'', env_termbase_version e),
     (''inference_endpoint_identity'', env_inference_endpoint_identity e),
     (''inference_route_identity'', env_inference_route_identity e),
     (''inference_data_policy_version'', env_inference_data_policy_version e),
     (''inference_data_policy_hash'', env_inference_data_policy_hash e),
     (''inference_data_policy_identity'', env_inference_data_policy_identity e),
     (''egress_policy_version'', env_egress_policy_version e),
     (''egress_policy_hash'', env_egress_policy_hash e),
     (''egress_policy_identity'', env_egress_policy_identity e),
     (''execution_contract_version'', env_execution_contract_version e),
     (''run_store_schema_version'', env_run_store_schema_version e),
     (''evidence_ir_schema_version'', env_evidence_ir_schema_version e),
     (''translation_patch_schema_version'', env_translation_patch_schema_version e),
     (''slide_ir_schema_version'', env_slide_ir_schema_version e)]"

definition env_as_dict :: "environment \<Rightarrow> json" where
  "env_as_dict e = JObj (map (\<lambda>(k, v). (k, JStr v)) (env_fields e))"

definition env_identity_sha256 :: "environment \<Rightarrow> string" where
  "env_identity_sha256 e = stable_revision (env_as_dict e)"

definition env_field_names :: "string list" where
  "env_field_names = [
    ''identity_version'', ''kslide_revision'', ''candidate_identity'', ''candidate_version'',
    ''kslide_version'', ''runtime_artifact_identity'', ''runtime_image_identity'',
    ''runtime_build_identity'', ''runtime_manifest_sha256'', ''runtime_sbom_sha256'',
    ''target_model_identity'', ''effective_model_identity'', ''model_config_identity'',
    ''semantic_config_identity'', ''ocr_asset_identity'', ''ocr_config_identity'',
    ''ocr_provider'', ''termbase_identity'', ''termbase_version'',
    ''inference_endpoint_identity'', ''inference_route_identity'',
    ''inference_data_policy_version'', ''inference_data_policy_hash'',
    ''inference_data_policy_identity'', ''egress_policy_version'', ''egress_policy_hash'',
    ''egress_policy_identity'', ''execution_contract_version'', ''run_store_schema_version'',
    ''evidence_ir_schema_version'', ''translation_patch_schema_version'',
    ''slide_ir_schema_version'']"

definition env_legacy_names :: "string list" where
  "env_legacy_names = [
    ''identity_version'', ''kslide_revision'', ''candidate_identity'', ''candidate_version'',
    ''kslide_version'', ''runtime_artifact_identity'', ''runtime_image_identity'',
    ''runtime_build_identity'', ''runtime_manifest_sha256'', ''runtime_sbom_sha256'',
    ''target_model_identity'', ''effective_model_identity'', ''model_config_identity'',
    ''semantic_config_identity'', ''ocr_asset_identity'', ''ocr_config_identity'',
    ''ocr_provider'', ''termbase_identity'', ''termbase_version'',
    ''execution_contract_version'', ''run_store_schema_version'', ''evidence_ir_schema_version'',
    ''translation_patch_schema_version'', ''slide_ir_schema_version'']"

text \<open>The fields a legacy record lacks are taken from the reference policies.\<close>

definition env_fill_reference ::
  "env_reference \<Rightarrow> (string \<times> json) list \<Rightarrow> (string \<times> json) list"
where
  "env_fill_reference ref kvs =
     (if map_of kvs ''inference_route_identity'' = None
      then kvs @ [
        (''inference_route_identity'', JStr (ref_inference_route_identity ref)),
        (''inference_endpoint_identity'', JStr (ref_inference_endpoint_identity ref)),
        (''inference_data_policy_version'', JStr (ref_inference_data_policy_version ref)),
        (''inference_data_policy_hash'', JStr (ref_inference_data_policy_hash ref)),
        (''inference_data_policy_identity'', JStr (ref_inference_data_policy_identity ref)),
        (''egress_policy_version'', JStr (ref_egress_policy_version ref)),
        (''egress_policy_hash'', JStr (ref_egress_policy_hash ref)),
        (''egress_policy_identity'', JStr (ref_egress_policy_identity ref))]
      else kvs)"

definition env_of_lookup :: "(string \<Rightarrow> string) \<Rightarrow> environment" where
  "env_of_lookup g = \<lparr>
     env_kslide_source_revision = g ''kslide_revision'',
     env_candidate_identity = g ''candidate_identity'',
     env_candidate_version = g ''candidate_version'',
     env_kslide_version = g ''kslide_version'',
     env_runtime_artifact_identity = g ''runtime_artifact_identity'',
     env_runtime_image_identity = g ''runtime_image_identity'',
     env_runtime_build_identity = g ''runtime_build_identity'',
     env_runtime_manifest_sha256 = g ''runtime_manifest_sha256'',
     env_runtime_sbom_sha256 = g ''runtime_sbom_sha256'',
     env_target_model_identity = g ''target_model_identity'',
     env_effective_model_identity = g ''effective_model_identity'',
     env_model_config_identity = g ''model_config_identity'',
     env_semantic_config_identity = g ''semantic_config_identity'',
     env_ocr_asset_identity = g ''ocr_asset_identity'',
     env_ocr_config_identity = g ''ocr_config_identity'',
     env_ocr_provider = g ''ocr_provider'',
     env_termbase_identity = g ''termbase_identity'',
     env_termbase_version = g ''termbase_version'',
     env_inference_endpoint_identity = g ''inference_endpoint_identity'',
     env_inference_route_identity = g ''inference_route_identity'',
     env_inference_data_policy_version = g ''inference_data_policy_version'',
     env_inference_data_policy_hash = g ''inference_data_policy_hash'',
     env_inference_data_policy_identity = g ''inference_data_policy_identity'',
     env_egress_policy_version = g ''egress_policy_version'',
     env_egress_policy_hash = g ''egress_policy_hash'',
     env_egress_policy_identity = g ''egress_policy_identity'',
     env_execution_contract_version = g ''execution_contract_version'',
     env_run_store_schema_version = g ''run_store_schema_version'',
     env_evidence_ir_schema_version = g ''evidence_ir_schema_version'',
     env_translation_patch_schema_version = g ''translation_patch_schema_version'',
     env_slide_ir_schema_version = g ''slide_ir_schema_version'',
     env_identity_version = g ''identity_version''\<rparr>"

text \<open>
  \<open>cls(**raw)\<close> on the decoded object: the version is compared first, every other check of
  \<open>__post_init__\<close> refuses a value that is not a string with the same error it gives to a
  malformed string.
\<close>

definition env_construct :: "(string \<times> json) list \<Rightarrow> environment res" where
  "env_construct raw =
     (if field_or JNull ''identity_version'' raw \<noteq> JStr ''1.0''
      then Inl (KSlideError EXECUTION_UNSUPPORTED_VERSION)
      else if \<not> list_all (\<lambda>k. json_str (field_or JNull k raw) \<noteq> None) env_field_names
      then Inl (KSlideError EXECUTION_INVALID)
      else environment_post_init
        (env_of_lookup (\<lambda>k. case json_str (field_or JNull k raw) of Some s \<Rightarrow> s | None \<Rightarrow> [])))"

definition env_from_dict :: "env_reference \<Rightarrow> json \<Rightarrow> environment res" where
  "env_from_dict ref v =
     (case v of
        JObj kvs \<Rightarrow>
          if keys_of kvs \<noteq> set env_field_names \<and> keys_of kvs \<noteq> set env_legacy_names
          then Inl (KSlideError STATE_CORRUPT)
          else env_construct (env_fill_reference ref kvs)
      | _ \<Rightarrow> Inl (KSlideError STATE_CORRUPT))"

section \<open>Comparison\<close>

definition environment_mismatch_fields ::
  "environment option \<Rightarrow> environment option \<Rightarrow> string list"
where
  "environment_mismatch_fields expected actual =
     (case (expected, actual) of
        (None, None) \<Rightarrow> []
      | (None, Some _) \<Rightarrow> [''run_environment_identity'']
      | (Some _, None) \<Rightarrow> [''current_environment_identity'']
      | (Some e, Some a) \<Rightarrow>
          map fst (filter (\<lambda>(k, v). map_of (env_fields a) k \<noteq> Some v) (env_fields e)))"

definition raise_environment_mismatch :: "environment option \<Rightarrow> environment option \<Rightarrow> unit res" where
  "raise_environment_mismatch expected actual =
     (if environment_mismatch_fields expected actual \<noteq> []
      then Inl (KSlideError EXECUTION_ENVIRONMENT_MISMATCH) else Inr ())"

section \<open>Lemmas\<close>

lemma map_fst_env_fields: "map fst (env_fields e) = env_field_names"
  by (simp add: env_fields_def env_field_names_def)

lemma distinct_env_field_names: "distinct env_field_names"
  by (simp add: env_field_names_def)

lemma map_of_env_fields:
  "map_of (env_fields a) k = Some v \<longleftrightarrow> (k, v) \<in> set (env_fields a)"
  using distinct_env_field_names map_fst_env_fields [of a] by (metis map_of_eq_Some_iff)

lemma env_of_fields: "env_of_lookup (\<lambda>k. the (map_of (env_fields e) k)) = e"
  by (simp add: env_of_lookup_def env_fields_def)

lemma env_fields_inject: "env_fields e = env_fields a \<longleftrightarrow> e = a"
  by (metis env_of_fields)

lemma mismatch_fields_nil_iff:
  "filter (\<lambda>(k, v). map_of (env_fields a) k \<noteq> Some v) (env_fields e) = [] \<longleftrightarrow> e = a"
proof
  assume none: "filter (\<lambda>(k, v). map_of (env_fields a) k \<noteq> Some v) (env_fields e) = []"
  have "the (map_of (env_fields e) k) = the (map_of (env_fields a) k)" if "k \<in> set env_field_names" for k
  proof -
    from that obtain v where "(k, v) \<in> set (env_fields e)"
      using map_fst_env_fields [of e] by (metis imageE list.set_map prod.collapse)
    moreover from this none have "(k, v) \<in> set (env_fields a)"
      by (auto simp: filter_empty_conv map_of_env_fields)
    ultimately have "map_of (env_fields e) k = Some v" and "map_of (env_fields a) k = Some v"
      by (simp_all add: map_of_env_fields)
    then show ?thesis by simp
  qed
  then have "env_of_lookup (\<lambda>k. the (map_of (env_fields e) k)) = env_of_lookup (\<lambda>k. the (map_of (env_fields a) k))"
    by (simp add: env_of_lookup_def env_field_names_def)
  then show "e = a" by (simp add: env_of_fields)
next
  assume "e = a"
  then show "filter (\<lambda>(k, v). map_of (env_fields a) k \<noteq> Some v) (env_fields e) = []"
    by (auto simp: filter_empty_conv map_of_env_fields)
qed

lemma raise_environment_mismatch_ok_iff:
  "raise_environment_mismatch e a = Inr () \<longleftrightarrow> e = a"
  by (cases e; cases a)
     (simp_all add: raise_environment_mismatch_def environment_mismatch_fields_def mismatch_fields_nil_iff)

lemma raise_environment_mismatch_cases:
  "raise_environment_mismatch e a =
     (if e = a then Inr () else Inl (KSlideError EXECUTION_ENVIRONMENT_MISMATCH))"
  using raise_environment_mismatch_ok_iff [of e a] by (auto simp: raise_environment_mismatch_def)

lemma environment_post_init_result: "environment_post_init e = Inr e' \<Longrightarrow> e' = e"
  by (auto simp: environment_post_init_def res_simps)

lemma valid_environment_version: "valid_environment e \<Longrightarrow> env_identity_version e = ''1.0''"
  by (auto simp: valid_environment_def environment_post_init_def environment_checks_def res_simps
      split: if_splits)

lemma field_or_env_dict:
  "k \<in> set env_field_names \<Longrightarrow>
     field_or JNull k (map (\<lambda>(k, v). (k, JStr v)) (env_fields e)) = JStr (the (map_of (env_fields e) k))"
proof -
  assume "k \<in> set env_field_names"
  then obtain v where v: "map_of (env_fields e) k = Some v"
    using map_fst_env_fields [of e] by (metis map_of_eq_None_iff not_None_eq list.set_map)
  have "map_of (map (\<lambda>(k, v). (k, JStr v)) kvs) k = map_option JStr (map_of kvs k)" for kvs
    by (induction kvs) auto
  with v show ?thesis by (simp add: field_or_def)
qed

lemma keys_of_env_dict: "keys_of (map (\<lambda>(k, v). (k, JStr v)) (env_fields e)) = set env_field_names"
  by (simp add: keys_of_def image_image case_prod_beta flip: map_fst_env_fields [of e])

lemma route_in_names: "''inference_route_identity'' \<in> set env_field_names"
  by (simp add: env_field_names_def)

lemma version_in_names: "''identity_version'' \<in> set env_field_names"
  by (simp add: env_field_names_def)

lemma env_from_dict_as_dict:
  assumes "valid_environment e"
  shows "env_from_dict ref (env_as_dict e) = Inr e"
proof -
  let ?raw = "map (\<lambda>(k, v). (k, JStr v)) (env_fields e)"
  have "map_of ?raw ''inference_route_identity'' \<noteq> None"
    using route_in_names keys_of_env_dict [of e] unfolding keys_of_def
    by (simp add: map_of_eq_None_iff)
  then have fill: "env_fill_reference ref ?raw = ?raw"
    by (simp add: env_fill_reference_def)
  have version: "the (map_of (env_fields e) ''identity_version'') = ''1.0''"
    using valid_environment_version [OF assms] by (simp add: env_fields_def)
  have lookup: "env_of_lookup (\<lambda>k. case json_str (field_or JNull k ?raw) of Some s \<Rightarrow> s | None \<Rightarrow> [])
      = env_of_lookup (\<lambda>k. the (map_of (env_fields e) k))"
    by (simp add: env_of_lookup_def field_or_env_dict env_field_names_def)
  show ?thesis
    using assms
    by (simp add: env_from_dict_def env_as_dict_def keys_of_env_dict fill env_construct_def
        field_or_env_dict version_in_names version list_all_iff lookup env_of_fields
        valid_environment_def)
qed

end
