(* ===== verification/Execution_Contract.thy ===== *)
theory Execution_Contract
  imports Run_State Environment
begin

text \<open>
  The versioned execution contract (\<open>src/k_slide/execution.py\<close>): the operational enumerations,
  the frozen data classes of a job with the validation their \<open>__post_init__\<close> performs, and the
  persisted form of checkpoints and jobs. A data class value of the model satisfies its
  \<open>wf_\<close> predicate, which is what constructing it in the code checks. Timestamps are
  \<open>string option\<close> (a null timestamp passes the code's check). A decoder refuses a value
  whose JSON type is not the one the encoder writes.
\<close>

section \<open>Enumerations\<close>

datatype exec_profile = WORKSPACE_LOCAL | DURABLE

datatype lifecycle = L_QUEUED | L_RUNNING | L_RETRYING | L_COMPLETED | L_CANCELED | L_PROCESSING_FAILED

datatype outcome = O_NONE | O_DONE | O_NEEDS_REVIEW | O_CANCELED | O_PROCESSING_FAILED

datatype resume = RE_ELIGIBLE | RE_NOT_ELIGIBLE

datatype disposition = RD_NONE | RD_RETRYABLE | RD_NOT_RETRYABLE | RD_EXHAUSTED

datatype failure_class = FC_RETRYABLE | FC_NOT_RETRYABLE | FC_SEMANTIC_REPAIR

datatype write_status = SW_ACCEPTED | SW_IDEMPOTENT | SW_STALE | SW_CONFLICT

definition profile_values :: "(string \<times> exec_profile) list" where
  "profile_values = [(''workspace_local'', WORKSPACE_LOCAL), (''durable'', DURABLE)]"

definition lifecycle_values :: "(string \<times> lifecycle) list" where
  "lifecycle_values = [(''QUEUED'', L_QUEUED), (''RUNNING'', L_RUNNING), (''RETRYING'', L_RETRYING),
     (''COMPLETED'', L_COMPLETED), (''CANCELED'', L_CANCELED),
     (''PROCESSING_FAILED'', L_PROCESSING_FAILED)]"

definition outcome_values :: "(string \<times> outcome) list" where
  "outcome_values = [(''NONE'', O_NONE), (''DONE'', O_DONE), (''NEEDS_REVIEW'', O_NEEDS_REVIEW),
     (''CANCELED'', O_CANCELED), (''PROCESSING_FAILED'', O_PROCESSING_FAILED)]"

definition resume_values :: "(string \<times> resume) list" where
  "resume_values = [(''ELIGIBLE'', RE_ELIGIBLE), (''NOT_ELIGIBLE'', RE_NOT_ELIGIBLE)]"

definition disposition_values :: "(string \<times> disposition) list" where
  "disposition_values = [(''NONE'', RD_NONE), (''RETRYABLE'', RD_RETRYABLE),
     (''NOT_RETRYABLE'', RD_NOT_RETRYABLE), (''EXHAUSTED'', RD_EXHAUSTED)]"

definition write_status_values :: "(string \<times> write_status) list" where
  "write_status_values = [(''ACCEPTED'', SW_ACCEPTED), (''IDEMPOTENT'', SW_IDEMPOTENT),
     (''STALE'', SW_STALE), (''CONFLICT'', SW_CONFLICT)]"

text \<open>\<open>member.value\<close> and \<open>Enum(value)\<close>, which raises \<open>ValueError\<close> on a foreign value.\<close>

fun value_in :: "(string \<times> 'a) list \<Rightarrow> 'a \<Rightarrow> string" where
  "value_in [] m = []"
| "value_in ((s, x) # xs) m = (if x = m then s else value_in xs m)"

definition member_of :: "(string \<times> 'a) list \<Rightarrow> json \<Rightarrow> 'a res" where
  "member_of vs v =
     (case v of
        JStr s \<Rightarrow> (case map_of vs s of Some x \<Rightarrow> Inr x | None \<Rightarrow> Inl PyValueError)
      | _ \<Rightarrow> Inl PyValueError)"

lemmas enum_value_defs =
  profile_values_def lifecycle_values_def outcome_values_def resume_values_def
  disposition_values_def write_status_values_def

lemma member_of_profile [simp]: "member_of profile_values (JStr (value_in profile_values x)) = Inr x"
  by (cases x) (simp_all add: member_of_def enum_value_defs)

lemma member_of_lifecycle [simp]:
  "member_of lifecycle_values (JStr (value_in lifecycle_values x)) = Inr x"
  by (cases x) (simp_all add: member_of_def enum_value_defs)

lemma member_of_outcome [simp]: "member_of outcome_values (JStr (value_in outcome_values x)) = Inr x"
  by (cases x) (simp_all add: member_of_def enum_value_defs)

lemma member_of_resume [simp]: "member_of resume_values (JStr (value_in resume_values x)) = Inr x"
  by (cases x) (simp_all add: member_of_def enum_value_defs)

lemma member_of_disposition [simp]:
  "member_of disposition_values (JStr (value_in disposition_values x)) = Inr x"
  by (cases x) (simp_all add: member_of_def enum_value_defs)

text \<open>\<open>except (KeyError, TypeError, ValueError): raise STATE_CORRUPT\<close>; a \<open>KSlideError\<close> passes.\<close>

fun catch_corrupt :: "'a res \<Rightarrow> 'a res" where
  "catch_corrupt (Inl (KSlideError c)) = Inl (KSlideError c)"
| "catch_corrupt (Inl _) = Inl (KSlideError STATE_CORRUPT)"
| "catch_corrupt (Inr x) = Inr x"

lemma catch_corrupt_Inr_iff [simp]: "catch_corrupt m = Inr x \<longleftrightarrow> m = Inr x"
proof (cases m)
  case (Inl e)
  then show ?thesis by (cases e) simp_all
qed simp

section \<open>Validated data classes\<close>

definition exec_forbidden_words :: "string list" where
  "exec_forbidden_words = [''access'', ''secret'', ''token'', ''password'', ''credential'',
     ''source'', ''content'', ''prompt'', ''translation'', ''text'', ''image'', ''path'', ''ocr'']"

definition error_code_words :: "string list" where
  "error_code_words = [''access'', ''secret'', ''token'', ''password'', ''credential'',
     ''source'', ''content'', ''prompt'', ''translation'', ''text'', ''image'', ''path'']"

text \<open>\<open>_error_code\<close>: accepted values only.\<close>

definition error_code_ok :: "string \<Rightarrow> bool" where
  "error_code_ok s \<longleftrightarrow> matches_phase s \<and> \<not> contains_word error_code_words s"

text \<open>\<open>_metadata\<close>, on the items of the mapping.\<close>

definition metadata_item_ok :: "string \<times> string \<Rightarrow> bool" where
  "metadata_item_ok kv \<longleftrightarrow>
     matches_metadata_key (fst kv) \<and> \<not> contains_word exec_forbidden_words (fst kv)
     \<and> matches_identifier (snd kv) \<and> \<not> contains_word exec_forbidden_words (snd kv)"

definition metadata_ok :: "(string \<times> string) list \<Rightarrow> bool" where
  "metadata_ok m \<longleftrightarrow> length m \<le> 8 \<and> list_all metadata_item_ok m"

definition timestamp_ok :: "string option \<Rightarrow> bool" where
  "timestamp_ok t \<longleftrightarrow> (case t of None \<Rightarrow> True | Some s \<Rightarrow> s = [] \<or> matches_timestamp s)"

abbreviation invalid :: err where
  "invalid \<equiv> KSlideError EXECUTION_INVALID"

abbreviation corrupt :: err where
  "corrupt \<equiv> KSlideError STATE_CORRUPT"

record store_ref =
  sr_scope_ref :: string
  sr_store_ref :: string

definition store_ref_post_init :: "store_ref \<Rightarrow> store_ref res" where
  "store_ref_post_init r = bind_res (guards [
     (\<not> matches_identifier (sr_scope_ref r), invalid),
     (\<not> matches_identifier (sr_store_ref r), invalid)]) (\<lambda>_. Inr r)"

definition store_ref_as_dict :: "store_ref \<Rightarrow> json" where
  "store_ref_as_dict r = JObj [
     (''scope_ref'', JStr (sr_scope_ref r)), (''store_ref'', JStr (sr_store_ref r))]"

record progress =
  pg_engine_stage :: string
  pg_completed_work_units :: int
  pg_total_work_units :: int
  pg_current_work_unit :: "string option"

definition progress_post_init :: "progress \<Rightarrow> progress res" where
  "progress_post_init p = bind_res (guards [
     (\<not> matches_phase (pg_engine_stage p), invalid),
     (pg_completed_work_units p < 0 \<or> pg_total_work_units p < 0
        \<or> pg_completed_work_units p > pg_total_work_units p
        \<or> pg_total_work_units p > 100000, invalid),
     (case pg_current_work_unit p of None \<Rightarrow> False | Some u \<Rightarrow> \<not> matches_identifier u, invalid)])
     (\<lambda>_. Inr p)"

definition progress_as_dict :: "progress \<Rightarrow> json" where
  "progress_as_dict p = JObj [
     (''engine_stage'', JStr (pg_engine_stage p)),
     (''completed_work_units'', JInt (pg_completed_work_units p)),
     (''total_work_units'', JInt (pg_total_work_units p)),
     (''current_work_unit'', json_opt_str (pg_current_work_unit p))]"

record cancellation =
  cn_requested :: bool
  cn_acknowledged :: bool
  cn_request_ref :: "string option"
  cn_requested_at :: "string option"
  cn_acknowledged_at :: "string option"

definition no_cancellation :: cancellation where
  "no_cancellation = \<lparr>cn_requested = False, cn_acknowledged = False, cn_request_ref = None,
     cn_requested_at = None, cn_acknowledged_at = None\<rparr>"

definition cancellation_post_init :: "cancellation \<Rightarrow> cancellation res" where
  "cancellation_post_init c = bind_res (guards [
     (cn_acknowledged c \<and> \<not> cn_requested c, invalid),
     (case cn_request_ref c of None \<Rightarrow> False | Some r \<Rightarrow> \<not> matches_identifier r, invalid),
     (cn_requested c \<and> cn_request_ref c = None, invalid),
     (\<not> timestamp_ok (cn_requested_at c), invalid),
     (\<not> timestamp_ok (cn_acknowledged_at c), invalid)]) (\<lambda>_. Inr c)"

definition cancellation_as_dict :: "cancellation \<Rightarrow> json" where
  "cancellation_as_dict c = JObj [
     (''requested'', JBool (cn_requested c)),
     (''acknowledged'', JBool (cn_acknowledged c)),
     (''request_ref'', json_opt_str (cn_request_ref c)),
     (''requested_at'', json_opt_str (cn_requested_at c)),
     (''acknowledged_at'', json_opt_str (cn_acknowledged_at c))]"

record retry_state =
  rt_attempt :: int
  rt_max_attempts :: int
  rt_disposition :: disposition
  rt_last_error_code :: "string option"

definition retry_post_init :: "retry_state \<Rightarrow> retry_state res" where
  "retry_post_init r = bind_res (guards [
     (rt_attempt r < 0 \<or> rt_max_attempts r < 1 \<or> rt_attempt r > rt_max_attempts r
        \<or> rt_max_attempts r > 32, invalid),
     (case rt_last_error_code r of None \<Rightarrow> False | Some e \<Rightarrow> \<not> error_code_ok e, invalid),
     (rt_disposition r = RD_EXHAUSTED \<and> rt_attempt r < rt_max_attempts r, invalid)])
     (\<lambda>_. Inr r)"

definition retry_as_dict :: "retry_state \<Rightarrow> json" where
  "retry_as_dict r = JObj [
     (''attempt'', JInt (rt_attempt r)),
     (''max_attempts'', JInt (rt_max_attempts r)),
     (''disposition'', JStr (value_in disposition_values (rt_disposition r))),
     (''last_error_code'', json_opt_str (rt_last_error_code r))]"

record result_marker =
  mk_operation_id :: string
  mk_result_kind :: string
  mk_result_sha256 :: string
  mk_attempt :: int
  mk_committed_at :: "string option"

definition marker_post_init :: "result_marker \<Rightarrow> result_marker res" where
  "marker_post_init m = bind_res (guards [
     (\<not> matches_identifier (mk_operation_id m), invalid),
     (\<not> matches_identifier (mk_result_kind m), invalid),
     (\<not> matches_sha256 (mk_result_sha256 m), invalid),
     (mk_attempt m < 0 \<or> mk_attempt m > 32, invalid),
     (\<not> timestamp_ok (mk_committed_at m), invalid)]) (\<lambda>_. Inr m)"

definition marker_as_dict :: "result_marker \<Rightarrow> json" where
  "marker_as_dict m = JObj [
     (''operation_id'', JStr (mk_operation_id m)),
     (''result_kind'', JStr (mk_result_kind m)),
     (''result_sha256'', JStr (mk_result_sha256 m)),
     (''attempt'', JInt (mk_attempt m)),
     (''committed_at'', json_opt_str (mk_committed_at m))]"

section \<open>Checkpoints\<close>

record checkpoint =
  ck_run_id :: string
  ck_job_id :: string
  ck_execution_id :: string
  ck_revision :: int
  ck_engine_phase :: string
  ck_progress :: progress
  ck_engine_state_revision :: int
  ck_queue_revision :: string
  ck_resume_eligibility :: resume
  ck_metadata :: "(string \<times> string) list"
  ck_checkpoint_sha256 :: string
  ck_schema_version :: string
  ck_environment_identity_sha256 :: string

definition metadata_json :: "(string \<times> string) list \<Rightarrow> (string \<times> json) list" where
  "metadata_json m = sort_fields (map (\<lambda>(k, v). (k, JStr v)) m)"

definition ck_base_fields :: "checkpoint \<Rightarrow> (string \<times> json) list" where
  "ck_base_fields c = [
     (''schema_version'', JStr (ck_schema_version c)),
     (''run_id'', JStr (ck_run_id c)),
     (''job_id'', JStr (ck_job_id c)),
     (''execution_id'', JStr (ck_execution_id c)),
     (''revision'', JInt (ck_revision c)),
     (''engine_phase'', JStr (ck_engine_phase c)),
     (''progress'', progress_as_dict (ck_progress c)),
     (''engine_state_revision'', JInt (ck_engine_state_revision c)),
     (''queue_revision'', JStr (ck_queue_revision c)),
     (''resume_eligibility'', JStr (value_in resume_values (ck_resume_eligibility c))),
     (''metadata'', JObj (metadata_json (ck_metadata c)))]"

definition ck_without_hash :: "checkpoint \<Rightarrow> (string \<times> json) list" where
  "ck_without_hash c = ck_base_fields c @
     (if ck_environment_identity_sha256 c \<noteq> []
      then [(''environment_identity_sha256'', JStr (ck_environment_identity_sha256 c))] else [])"

definition ck_computed_sha256 :: "checkpoint \<Rightarrow> string" where
  "ck_computed_sha256 c = stable_revision (JObj (ck_without_hash c))"

definition ck_as_dict :: "checkpoint \<Rightarrow> json" where
  "ck_as_dict c = JObj (ck_without_hash c @
     [(''checkpoint_sha256'',
        JStr (if ck_checkpoint_sha256 c = [] then ck_computed_sha256 c else ck_checkpoint_sha256 c))])"

definition checkpoint_post_init :: "checkpoint \<Rightarrow> checkpoint res" where
  "checkpoint_post_init c = bind_res (guards [
     (\<not> matches_identifier (ck_run_id c), invalid),
     (\<not> matches_identifier (ck_job_id c), invalid),
     (\<not> matches_identifier (ck_execution_id c), invalid),
     (ck_revision c < 0, invalid),
     (\<not> matches_phase (ck_engine_phase c), invalid),
     (ck_engine_state_revision c < 0, invalid),
     (ck_queue_revision c \<noteq> [] \<and> \<not> (matches_sha256 (ck_queue_revision c)
        \<or> matches_identifier (ck_queue_revision c)), invalid),
     (\<not> metadata_ok (ck_metadata c), invalid),
     (ck_checkpoint_sha256 c \<noteq> [] \<and> ck_checkpoint_sha256 c \<noteq> ck_computed_sha256 c, corrupt),
     (ck_environment_identity_sha256 c \<noteq> []
        \<and> \<not> matches_sha256 (ck_environment_identity_sha256 c), corrupt),
     (ck_schema_version c \<noteq> ''1.0'', KSlideError EXECUTION_UNSUPPORTED_VERSION)])
     (\<lambda>_. Inr c)"

definition checkpoint_initial ::
  "string \<Rightarrow> string \<Rightarrow> string \<Rightarrow> int \<Rightarrow> int \<Rightarrow> checkpoint res"
where
  "checkpoint_initial run_id job_id execution_id total_units engine_state_revision =
     bind_res (progress_post_init \<lparr>pg_engine_stage = phase_value CREATED,
         pg_completed_work_units = 0, pg_total_work_units = total_units, pg_current_work_unit = None\<rparr>)
       (\<lambda>p. checkpoint_post_init \<lparr>ck_run_id = run_id, ck_job_id = job_id,
          ck_execution_id = execution_id, ck_revision = 0, ck_engine_phase = phase_value CREATED,
          ck_progress = p, ck_engine_state_revision = engine_state_revision,
          ck_queue_revision = [], ck_resume_eligibility = RE_ELIGIBLE, ck_metadata = [],
          ck_checkpoint_sha256 = [], ck_schema_version = ''1.0'',
          ck_environment_identity_sha256 = []\<rparr>)"

section \<open>Jobs\<close>

record job =
  jb_run_id :: string
  jb_job_id :: string
  jb_execution_id :: string
  jb_profile :: exec_profile
  jb_store_ref :: store_ref
  jb_lifecycle :: lifecycle
  jb_revision :: int
  jb_checkpoint :: checkpoint
  jb_cancellation :: cancellation
  jb_retry :: retry_state
  jb_resume_eligibility :: resume
  jb_terminal_outcome :: outcome
  jb_created_at :: "string option"
  jb_updated_at :: "string option"
  jb_schema_version :: string
  jb_result_markers :: "result_marker list"
  jb_environment :: "environment option"

definition max_result_markers :: nat where
  "max_result_markers = 256"

definition job_ids :: "job \<Rightarrow> string \<times> string \<times> string" where
  "job_ids j = (jb_run_id j, jb_job_id j, jb_execution_id j)"

definition ck_ids :: "checkpoint \<Rightarrow> string \<times> string \<times> string" where
  "ck_ids c = (ck_run_id c, ck_job_id c, ck_execution_id c)"

text \<open>The binding of the checkpoint to the job's environment, which may complete the checkpoint.\<close>

definition bind_checkpoint :: "environment option \<Rightarrow> checkpoint \<Rightarrow> checkpoint res" where
  "bind_checkpoint env c =
     (case env of
        None \<Rightarrow> Inr c
      | Some e \<Rightarrow>
          if ck_environment_identity_sha256 c \<notin> set [[], env_identity_sha256 e] then Inl corrupt
          else if ck_environment_identity_sha256 c = []
          then checkpoint_post_init (c\<lparr>ck_environment_identity_sha256 := env_identity_sha256 e\<rparr>)
          else Inr c)"

definition job_checks :: "job \<Rightarrow> (bool \<times> err) list" where
  "job_checks j = [
     (\<not> timestamp_ok (jb_created_at j), invalid),
     (\<not> timestamp_ok (jb_updated_at j), invalid),
     (jb_lifecycle j = L_CANCELED
        \<and> (\<not> cn_acknowledged (jb_cancellation j) \<or> jb_terminal_outcome j \<noteq> O_CANCELED), corrupt),
     (jb_lifecycle j = L_PROCESSING_FAILED \<and> jb_terminal_outcome j \<noteq> O_PROCESSING_FAILED, corrupt),
     (jb_lifecycle j = L_COMPLETED
        \<and> jb_terminal_outcome j \<notin> set [O_DONE, O_NEEDS_REVIEW], corrupt),
     (jb_lifecycle j \<in> set [L_QUEUED, L_RUNNING, L_RETRYING]
        \<and> jb_terminal_outcome j \<noteq> O_NONE, corrupt),
     (jb_lifecycle j = L_CANCELED \<and> jb_terminal_outcome j = O_NEEDS_REVIEW, corrupt),
     (length (jb_result_markers j) > max_result_markers, invalid),
     (\<not> distinct (map mk_operation_id (jb_result_markers j)), corrupt),
     (jb_schema_version j \<noteq> ''1.0'', KSlideError EXECUTION_UNSUPPORTED_VERSION)]"

definition job_post_init :: "job \<Rightarrow> job res" where
  "job_post_init j =
     bind_res (guards [
       (\<not> matches_identifier (jb_run_id j), invalid),
       (\<not> matches_identifier (jb_job_id j), invalid),
       (\<not> matches_identifier (jb_execution_id j), invalid),
       (jb_revision j < 0, invalid),
       (ck_ids (jb_checkpoint j) \<noteq> job_ids j, corrupt)])
     (\<lambda>_. bind_res (bind_checkpoint (jb_environment j) (jb_checkpoint j))
     (\<lambda>c. bind_res (guards (job_checks j)) (\<lambda>_. Inr (j\<lparr>jb_checkpoint := c\<rparr>))))"

definition job_new ::
  "string \<Rightarrow> exec_profile \<Rightarrow> string \<Rightarrow> string \<Rightarrow> string option \<Rightarrow> string option \<Rightarrow> int \<Rightarrow> int \<Rightarrow> int
    \<Rightarrow> environment option \<Rightarrow> string \<Rightarrow> job res"
where
  "job_new run_id prof scope_ref store_ref job_id execution_id total_units max_attempts
      engine_state_revision env now =
     (let jid = (case job_id of None \<Rightarrow> ''job-'' @ run_id
                              | Some i \<Rightarrow> if i = [] then ''job-'' @ run_id else i);
          eid = (case execution_id of None \<Rightarrow> ''execution-'' @ run_id
                              | Some i \<Rightarrow> if i = [] then ''execution-'' @ run_id else i)
      in bind_res (checkpoint_initial run_id jid eid total_units engine_state_revision) (\<lambda>c.
         bind_res (store_ref_post_init \<lparr>sr_scope_ref = scope_ref, sr_store_ref = store_ref\<rparr>) (\<lambda>sr.
         bind_res (retry_post_init \<lparr>rt_attempt = 0, rt_max_attempts = max_attempts,
                     rt_disposition = RD_NONE, rt_last_error_code = None\<rparr>) (\<lambda>rt.
         job_post_init \<lparr>jb_run_id = run_id, jb_job_id = jid, jb_execution_id = eid,
           jb_profile = prof, jb_store_ref = sr, jb_lifecycle = L_QUEUED, jb_revision = 0,
           jb_checkpoint = c, jb_cancellation = no_cancellation, jb_retry = rt,
           jb_resume_eligibility = RE_ELIGIBLE, jb_terminal_outcome = O_NONE,
           jb_created_at = Some now, jb_updated_at = Some now, jb_schema_version = ''1.0'',
           jb_result_markers = [], jb_environment = env\<rparr>))))"

definition job_base_fields :: "job \<Rightarrow> (string \<times> json) list" where
  "job_base_fields j = [
     (''schema_version'', JStr (jb_schema_version j)),
     (''run_id'', JStr (jb_run_id j)),
     (''job_id'', JStr (jb_job_id j)),
     (''execution_id'', JStr (jb_execution_id j)),
     (''profile'', JStr (value_in profile_values (jb_profile j))),
     (''store_ref'', store_ref_as_dict (jb_store_ref j)),
     (''lifecycle'', JStr (value_in lifecycle_values (jb_lifecycle j))),
     (''revision'', JInt (jb_revision j)),
     (''checkpoint'', ck_as_dict (jb_checkpoint j)),
     (''cancellation'', cancellation_as_dict (jb_cancellation j)),
     (''retry'', retry_as_dict (jb_retry j)),
     (''resume_eligibility'', JStr (value_in resume_values (jb_resume_eligibility j))),
     (''terminal_outcome'', JStr (value_in outcome_values (jb_terminal_outcome j))),
     (''created_at'', json_opt_str (jb_created_at j)),
     (''updated_at'', json_opt_str (jb_updated_at j)),
     (''result_markers'', JArr (map marker_as_dict (jb_result_markers j)))]"

definition job_without_hash :: "job \<Rightarrow> (string \<times> json) list" where
  "job_without_hash j = job_base_fields j @
     (case jb_environment j of None \<Rightarrow> [] | Some e \<Rightarrow> [(''environment_identity'', env_as_dict e)])"

definition job_as_dict :: "job \<Rightarrow> json" where
  "job_as_dict j = JObj (job_without_hash j @
     [(''record_sha256'', JStr (stable_revision (JObj (job_without_hash j))))])"

end
