(* ===== verification/Execution_Codec.thy ===== *)
theory Execution_Codec
  imports Execution_Contract
begin

text \<open>
  Decoding of persisted checkpoints and jobs (\<open>_checkpoint_from_dict\<close>, \<open>_job_from_dict\<close> of
  \<open>src/k_slide/execution.py\<close>) and the round trip with their encoders. The \<open>raw_\<close> readers give
  a value of a foreign JSON type a stand-in that the data class refuses at the same check and
  with the same error as the code's \<open>isinstance\<close> test does.
\<close>

section \<open>Reading raw fields\<close>

definition raw_str :: "json \<Rightarrow> string" where
  "raw_str v = (case json_str v of Some s \<Rightarrow> s | None \<Rightarrow> [])"

definition raw_int :: "json \<Rightarrow> int" where
  "raw_int v = (case json_int v of Some i \<Rightarrow> i | None \<Rightarrow> -1)"

definition raw_opt_str :: "json \<Rightarrow> string option" where
  "raw_opt_str v = (case v of JNull \<Rightarrow> None | JStr s \<Rightarrow> Some s | _ \<Rightarrow> Some ''?'')"

definition raw_opt_identifier :: "json \<Rightarrow> string option" where
  "raw_opt_identifier v = (case v of JNull \<Rightarrow> None | _ \<Rightarrow> Some (raw_str v))"

fun json_falsy :: "json \<Rightarrow> bool" where
  "json_falsy JNull = True"
| "json_falsy (JBool b) = (\<not> b)"
| "json_falsy (JInt i) = (i = 0)"
| "json_falsy (JStr s) = (s = [])"
| "json_falsy (JArr vs) = (vs = [])"
| "json_falsy (JObj kvs) = (kvs = [])"

definition raw_metadata :: "json \<Rightarrow> (string \<times> string) list" where
  "raw_metadata v =
     (if json_falsy v then []
      else case v of JObj kvs \<Rightarrow> map (\<lambda>(k, w). (k, raw_str w)) kvs | _ \<Rightarrow> [([], [])])"

definition raw_hash :: "json \<Rightarrow> string" where
  "raw_hash v = (if json_falsy v then [] else case json_str v of Some s \<Rightarrow> s | None \<Rightarrow> ''?'')"

section \<open>Component decoders\<close>

definition progress_names :: "string list" where
  "progress_names = [''engine_stage'', ''completed_work_units'', ''total_work_units'',
     ''current_work_unit'']"

definition progress_from_dict :: "json \<Rightarrow> progress res" where
  "progress_from_dict v =
     (case v of
        JObj kvs \<Rightarrow>
          if keys_of kvs \<noteq> set progress_names then Inl corrupt
          else if json_int (field_or JNull ''completed_work_units'' kvs) = None
               \<or> json_int (field_or JNull ''total_work_units'' kvs) = None then Inl invalid
          else progress_post_init \<lparr>
            pg_engine_stage = raw_str (field_or JNull ''engine_stage'' kvs),
            pg_completed_work_units = raw_int (field_or JNull ''completed_work_units'' kvs),
            pg_total_work_units = raw_int (field_or JNull ''total_work_units'' kvs),
            pg_current_work_unit = raw_opt_identifier (field_or JNull ''current_work_unit'' kvs)\<rparr>
      | _ \<Rightarrow> Inl corrupt)"

definition store_ref_from_dict :: "json \<Rightarrow> store_ref res" where
  "store_ref_from_dict v =
     (case v of
        JObj kvs \<Rightarrow>
          if keys_of kvs \<noteq> set [''scope_ref'', ''store_ref''] then Inl corrupt
          else store_ref_post_init \<lparr>
            sr_scope_ref = raw_str (field_or JNull ''scope_ref'' kvs),
            sr_store_ref = raw_str (field_or JNull ''store_ref'' kvs)\<rparr>
      | _ \<Rightarrow> Inl corrupt)"

definition cancellation_names :: "string list" where
  "cancellation_names = [''requested'', ''acknowledged'', ''request_ref'', ''requested_at'',
     ''acknowledged_at'']"

definition cancellation_from_dict :: "json \<Rightarrow> cancellation res" where
  "cancellation_from_dict v =
     (case v of
        JObj kvs \<Rightarrow>
          if keys_of kvs \<noteq> set cancellation_names then Inl corrupt
          else (case (json_bool (field_or JNull ''requested'' kvs),
                      json_bool (field_or JNull ''acknowledged'' kvs)) of
             (Some req, Some ack) \<Rightarrow> cancellation_post_init \<lparr>
               cn_requested = req, cn_acknowledged = ack,
               cn_request_ref = raw_opt_identifier (field_or JNull ''request_ref'' kvs),
               cn_requested_at = raw_opt_str (field_or JNull ''requested_at'' kvs),
               cn_acknowledged_at = raw_opt_str (field_or JNull ''acknowledged_at'' kvs)\<rparr>
           | _ \<Rightarrow> Inl invalid)
      | _ \<Rightarrow> Inl corrupt)"

definition retry_names :: "string list" where
  "retry_names = [''attempt'', ''max_attempts'', ''disposition'', ''last_error_code'']"

definition retry_from_dict :: "json \<Rightarrow> retry_state res" where
  "retry_from_dict v =
     (case v of
        JObj kvs \<Rightarrow>
          if keys_of kvs \<noteq> set retry_names then Inl corrupt
          else bind_res (member_of disposition_values (field_or JNull ''disposition'' kvs))
            (\<lambda>d. retry_post_init \<lparr>
               rt_attempt = raw_int (field_or JNull ''attempt'' kvs),
               rt_max_attempts = raw_int (field_or JNull ''max_attempts'' kvs),
               rt_disposition = d,
               rt_last_error_code = raw_opt_identifier (field_or JNull ''last_error_code'' kvs)\<rparr>)
      | _ \<Rightarrow> Inl corrupt)"

definition marker_names :: "string list" where
  "marker_names = [''operation_id'', ''result_kind'', ''result_sha256'', ''attempt'', ''committed_at'']"

definition marker_from_dict :: "json \<Rightarrow> result_marker res" where
  "marker_from_dict v =
     (case v of
        JObj kvs \<Rightarrow>
          if keys_of kvs \<noteq> set marker_names then Inl corrupt
          else
            (let m = \<lparr>mk_operation_id = raw_str (field_or JNull ''operation_id'' kvs),
                      mk_result_kind = raw_str (field_or JNull ''result_kind'' kvs),
                      mk_result_sha256 = raw_str (field_or JNull ''result_sha256'' kvs),
                      mk_attempt = raw_int (field_or JNull ''attempt'' kvs),
                      mk_committed_at = raw_opt_str (field_or JNull ''committed_at'' kvs)\<rparr>
             in if json_str (field_or JNull ''result_sha256'' kvs) = None
                then bind_res (guards [(\<not> matches_identifier (mk_operation_id m), invalid),
                                       (\<not> matches_identifier (mk_result_kind m), invalid)])
                       (\<lambda>_. Inl PyTypeError)
                else marker_post_init m)
      | _ \<Rightarrow> Inl corrupt)"

section \<open>Checkpoints\<close>

definition checkpoint_base_names :: "string list" where
  "checkpoint_base_names = [''schema_version'', ''run_id'', ''job_id'', ''execution_id'',
     ''revision'', ''engine_phase'', ''progress'', ''engine_state_revision'', ''queue_revision'',
     ''resume_eligibility'', ''metadata'']"

definition checkpoint_names :: "string list" where
  "checkpoint_names = checkpoint_base_names @ [''checkpoint_sha256'']"

definition raw_checkpoint :: "(string \<times> json) list \<Rightarrow> progress \<Rightarrow> resume \<Rightarrow> checkpoint" where
  "raw_checkpoint kvs p r = \<lparr>
     ck_run_id = raw_str (field_or JNull ''run_id'' kvs),
     ck_job_id = raw_str (field_or JNull ''job_id'' kvs),
     ck_execution_id = raw_str (field_or JNull ''execution_id'' kvs),
     ck_revision = raw_int (field_or JNull ''revision'' kvs),
     ck_engine_phase = raw_str (field_or JNull ''engine_phase'' kvs),
     ck_progress = p,
     ck_engine_state_revision = raw_int (field_or JNull ''engine_state_revision'' kvs),
     ck_queue_revision = raw_str (field_or JNull ''queue_revision'' kvs),
     ck_resume_eligibility = r,
     ck_metadata = raw_metadata (field_or JNull ''metadata'' kvs),
     ck_checkpoint_sha256 = raw_hash (field_or JNull ''checkpoint_sha256'' kvs),
     ck_schema_version = raw_str (field_or JNull ''schema_version'' kvs),
     ck_environment_identity_sha256 =
       (case map_of kvs ''environment_identity_sha256'' of
          None \<Rightarrow> []
        | Some v \<Rightarrow> (case json_str v of Some s \<Rightarrow> s | None \<Rightarrow> ''?''))\<rparr>"

definition checkpoint_from_dict :: "json \<Rightarrow> checkpoint res" where
  "checkpoint_from_dict v =
     (case v of
        JObj kvs \<Rightarrow>
          if field_or JNull ''schema_version'' kvs \<noteq> JStr ''1.0''
          then Inl (KSlideError EXECUTION_UNSUPPORTED_VERSION)
          else if keys_of kvs \<noteq> set checkpoint_names
               \<and> keys_of kvs \<noteq> set (''environment_identity_sha256'' # checkpoint_names)
          then Inl corrupt
          else bind_res (progress_from_dict (field_or JNull ''progress'' kvs)) (\<lambda>p.
            catch_corrupt (bind_res (member_of resume_values (field_or JNull ''resume_eligibility'' kvs))
              (\<lambda>r. let c = raw_checkpoint kvs p r in
                 if json_str (field_or JNull ''queue_revision'' kvs) = None
                 then bind_res (guards [
                     (\<not> matches_identifier (ck_run_id c), invalid),
                     (\<not> matches_identifier (ck_job_id c), invalid),
                     (\<not> matches_identifier (ck_execution_id c), invalid),
                     (ck_revision c < 0, invalid),
                     (\<not> matches_phase (ck_engine_phase c), invalid),
                     (ck_engine_state_revision c < 0, invalid)]) (\<lambda>_. Inl PyTypeError)
                 else checkpoint_post_init c)))
      | _ \<Rightarrow> Inl corrupt)"

section \<open>Jobs\<close>

definition job_base_names :: "string list" where
  "job_base_names = [''schema_version'', ''run_id'', ''job_id'', ''execution_id'', ''profile'',
     ''store_ref'', ''lifecycle'', ''revision'', ''checkpoint'', ''cancellation'', ''retry'',
     ''resume_eligibility'', ''terminal_outcome'', ''created_at'', ''updated_at'',
     ''result_markers'']"

definition job_names :: "string list" where
  "job_names = job_base_names @ [''record_sha256'']"

definition job_construct :: "env_reference \<Rightarrow> (string \<times> json) list \<Rightarrow> result_marker list \<Rightarrow> job res" where
  "job_construct ref kvs markers =
     bind_res (member_of profile_values (field_or JNull ''profile'' kvs)) (\<lambda>prof.
     bind_res (store_ref_from_dict (field_or JNull ''store_ref'' kvs)) (\<lambda>sr.
     bind_res (member_of lifecycle_values (field_or JNull ''lifecycle'' kvs)) (\<lambda>lc.
     bind_res (checkpoint_from_dict (field_or JNull ''checkpoint'' kvs)) (\<lambda>c.
     bind_res (cancellation_from_dict (field_or JNull ''cancellation'' kvs)) (\<lambda>cn.
     bind_res (retry_from_dict (field_or JNull ''retry'' kvs)) (\<lambda>rt.
     bind_res (member_of resume_values (field_or JNull ''resume_eligibility'' kvs)) (\<lambda>re.
     bind_res (member_of outcome_values (field_or JNull ''terminal_outcome'' kvs)) (\<lambda>oc.
     bind_res (case field_or JNull ''environment_identity'' kvs of
                 JNull \<Rightarrow> Inr None
               | ev \<Rightarrow> bind_res (env_from_dict ref ev) (\<lambda>e. Inr (Some e))) (\<lambda>env.
       job_post_init \<lparr>
         jb_run_id = raw_str (field_or JNull ''run_id'' kvs),
         jb_job_id = raw_str (field_or JNull ''job_id'' kvs),
         jb_execution_id = raw_str (field_or JNull ''execution_id'' kvs),
         jb_profile = prof, jb_store_ref = sr, jb_lifecycle = lc,
         jb_revision = raw_int (field_or JNull ''revision'' kvs),
         jb_checkpoint = c, jb_cancellation = cn, jb_retry = rt,
         jb_resume_eligibility = re, jb_terminal_outcome = oc,
         jb_created_at = raw_opt_str (field_or JNull ''created_at'' kvs),
         jb_updated_at = raw_opt_str (field_or JNull ''updated_at'' kvs),
         jb_schema_version = raw_str (field_or JNull ''schema_version'' kvs),
         jb_result_markers = markers, jb_environment = env\<rparr>)))))))))"

fun is_obj_with :: "string list \<Rightarrow> json \<Rightarrow> bool" where
  "is_obj_with names (JObj kvs) = (keys_of kvs = set names)"
| "is_obj_with names _ = False"

definition job_from_dict :: "env_reference \<Rightarrow> json \<Rightarrow> job res" where
  "job_from_dict ref v =
     (case v of
        JObj kvs \<Rightarrow>
          bind_res (guards [
            (field_or JNull ''schema_version'' kvs \<noteq> JStr ''1.0'',
               KSlideError EXECUTION_UNSUPPORTED_VERSION),
            (keys_of kvs \<noteq> set job_names
               \<and> keys_of kvs \<noteq> set (''environment_identity'' # job_names), corrupt),
            (field_or JNull ''record_sha256'' kvs
               \<noteq> JStr (stable_revision (JObj (without_key ''record_sha256'' kvs))), corrupt),
            (\<not> is_obj_with [''scope_ref'', ''store_ref''] (field_or JNull ''store_ref'' kvs), corrupt),
            (\<not> is_obj_with cancellation_names (field_or JNull ''cancellation'' kvs), corrupt),
            (\<not> is_obj_with retry_names (field_or JNull ''retry'' kvs), corrupt)])
          (\<lambda>_. case field_or JNull ''result_markers'' kvs of
             JArr ms \<Rightarrow>
               bind_res (map_res (\<lambda>m. catch_corrupt (marker_from_dict m)) ms)
                 (\<lambda>markers. catch_corrupt (job_construct ref kvs markers))
           | _ \<Rightarrow> Inl corrupt)
      | _ \<Rightarrow> Inl corrupt)"

section \<open>Normal forms\<close>

text \<open>
  What reading back gives: the metadata in key order and the computed checkpoint hash filled in.
  Both leave the encoding unchanged.
\<close>

definition sort_metadata :: "(string \<times> string) list \<Rightarrow> (string \<times> string) list" where
  "sort_metadata m = map (\<lambda>(k, w). (k, raw_str w)) (metadata_json m)"

definition norm_checkpoint :: "checkpoint \<Rightarrow> checkpoint" where
  "norm_checkpoint c = c\<lparr>ck_metadata := sort_metadata (ck_metadata c),
                         ck_checkpoint_sha256 := ck_computed_sha256 c\<rparr>"

definition norm_job :: "job \<Rightarrow> job" where
  "norm_job j = j\<lparr>jb_checkpoint := norm_checkpoint (jb_checkpoint j)\<rparr>"

text \<open>Values that the data classes accept: what construction in the code guarantees.\<close>

definition wf_checkpoint :: "checkpoint \<Rightarrow> bool" where
  "wf_checkpoint c \<longleftrightarrow>
     checkpoint_post_init c = Inr c \<and> progress_post_init (ck_progress c) = Inr (ck_progress c)"

definition wf_marker :: "result_marker \<Rightarrow> bool" where
  "wf_marker m \<longleftrightarrow> marker_post_init m = Inr m"

definition wf_job :: "job \<Rightarrow> bool" where
  "wf_job j \<longleftrightarrow>
     job_post_init j = Inr j \<and> wf_checkpoint (jb_checkpoint j)
     \<and> store_ref_post_init (jb_store_ref j) = Inr (jb_store_ref j)
     \<and> cancellation_post_init (jb_cancellation j) = Inr (jb_cancellation j)
     \<and> retry_post_init (jb_retry j) = Inr (jb_retry j)
     \<and> list_all wf_marker (jb_result_markers j)
     \<and> (case jb_environment j of None \<Rightarrow> True | Some e \<Rightarrow> valid_environment e)"

section \<open>Round trips\<close>

lemma raw_str_JStr [simp]: "raw_str (JStr s) = s"
  by (simp add: raw_str_def)

lemma raw_int_JInt [simp]: "raw_int (JInt i) = i"
  by (simp add: raw_int_def)

lemma raw_opt_str_inverse [simp]: "raw_opt_str (json_opt_str s) = s"
  by (cases s) (simp_all add: raw_opt_str_def json_opt_str_def)

lemma raw_opt_identifier_inverse [simp]: "raw_opt_identifier (json_opt_str s) = s"
  by (cases s) (simp_all add: raw_opt_identifier_def json_opt_str_def)

lemma raw_hash_JStr [simp]: "raw_hash (JStr s) = s"
  by (simp add: raw_hash_def)

lemma progress_round_trip: "progress_from_dict (progress_as_dict p) = progress_post_init p"
  by (cases p) (simp add: progress_from_dict_def progress_as_dict_def progress_names_def keys_of_def field_or_def)

lemma store_ref_round_trip: "store_ref_from_dict (store_ref_as_dict r) = store_ref_post_init r"
  by (cases r) (simp add: store_ref_from_dict_def store_ref_as_dict_def keys_of_def field_or_def)

lemma cancellation_round_trip:
  "cancellation_from_dict (cancellation_as_dict c) = cancellation_post_init c"
  by (cases c) (simp add: cancellation_from_dict_def cancellation_as_dict_def cancellation_names_def keys_of_def
      field_or_def)

lemma retry_round_trip: "retry_from_dict (retry_as_dict r) = retry_post_init r"
  by (cases r) (simp add: retry_from_dict_def retry_as_dict_def retry_names_def keys_of_def field_or_def)

lemma marker_round_trip: "marker_from_dict (marker_as_dict m) = marker_post_init m"
  by (cases m) (simp add: marker_from_dict_def marker_as_dict_def marker_names_def keys_of_def field_or_def
      Let_def)

lemma post_init_results:
  "progress_post_init p = Inr p' \<Longrightarrow> p' = p"
  "store_ref_post_init r = Inr r' \<Longrightarrow> r' = r"
  "cancellation_post_init c = Inr c' \<Longrightarrow> c' = c"
  "retry_post_init t = Inr t' \<Longrightarrow> t' = t"
  "marker_post_init m = Inr m' \<Longrightarrow> m' = m"
  "checkpoint_post_init k = Inr k' \<Longrightarrow> k' = k"
  by (auto simp: progress_post_init_def store_ref_post_init_def cancellation_post_init_def
      retry_post_init_def marker_post_init_def checkpoint_post_init_def bind_res_Inr_iff)

text \<open>Metadata.\<close>

lemma metadata_json_strings: "kv \<in> set (metadata_json m) \<Longrightarrow> \<exists>w. snd kv = JStr w"
  by (auto simp: metadata_json_def)

lemma metadata_json_sort [simp]: "metadata_json (sort_metadata m) = metadata_json m"
proof -
  have "map (\<lambda>(k, w). (k, JStr w)) (map (\<lambda>(k, w). (k, raw_str w)) kvs) = kvs"
    if "\<And>kv. kv \<in> set kvs \<Longrightarrow> \<exists>w. snd kv = JStr w" for kvs
    using that by (induction kvs) force+
  from this [OF metadata_json_strings]
  have "map (\<lambda>(k, w). (k, JStr w)) (sort_metadata m) = metadata_json m"
    by (simp add: sort_metadata_def)
  then show ?thesis by (simp add: metadata_json_def)
qed

lemma sort_metadata_idem [simp]: "sort_metadata (sort_metadata m) = sort_metadata m"
  by (simp add: sort_metadata_def) (simp flip: sort_metadata_def)

lemma set_sort_metadata [simp]: "set (sort_metadata m) = set m"
  by (force simp: sort_metadata_def metadata_json_def)

lemma length_sort_metadata [simp]: "length (sort_metadata m) = length m"
  by (simp add: sort_metadata_def metadata_json_def)

lemma metadata_ok_sort [simp]: "metadata_ok (sort_metadata m) = metadata_ok m"
  by (simp add: metadata_ok_def list_all_iff)

lemma raw_metadata_json: "raw_metadata (JObj (metadata_json m)) = sort_metadata m"
  by (simp add: raw_metadata_def sort_metadata_def)

text \<open>Checkpoints.\<close>

lemma ck_without_hash_norm [simp]: "ck_without_hash (norm_checkpoint c) = ck_without_hash c"
  by (simp add: ck_without_hash_def ck_base_fields_def norm_checkpoint_def)

lemma ck_computed_norm [simp]: "ck_computed_sha256 (norm_checkpoint c) = ck_computed_sha256 c"
  by (simp add: ck_computed_sha256_def)

lemma norm_checkpoint_select [simp]:
  "ck_run_id (norm_checkpoint c) = ck_run_id c"
  "ck_job_id (norm_checkpoint c) = ck_job_id c"
  "ck_execution_id (norm_checkpoint c) = ck_execution_id c"
  "ck_revision (norm_checkpoint c) = ck_revision c"
  "ck_engine_phase (norm_checkpoint c) = ck_engine_phase c"
  "ck_progress (norm_checkpoint c) = ck_progress c"
  "ck_engine_state_revision (norm_checkpoint c) = ck_engine_state_revision c"
  "ck_queue_revision (norm_checkpoint c) = ck_queue_revision c"
  "ck_resume_eligibility (norm_checkpoint c) = ck_resume_eligibility c"
  "ck_schema_version (norm_checkpoint c) = ck_schema_version c"
  "ck_environment_identity_sha256 (norm_checkpoint c) = ck_environment_identity_sha256 c"
  "ck_metadata (norm_checkpoint c) = sort_metadata (ck_metadata c)"
  "ck_checkpoint_sha256 (norm_checkpoint c) = ck_computed_sha256 c"
  by (simp_all add: norm_checkpoint_def)

lemma ck_computed_nonempty [simp]: "ck_computed_sha256 c \<noteq> []"
  by (simp add: ck_computed_sha256_def)

lemma checkpoint_post_init_iff:
  "checkpoint_post_init c = Inr k \<longleftrightarrow>
     k = c \<and> matches_identifier (ck_run_id c) \<and> matches_identifier (ck_job_id c)
     \<and> matches_identifier (ck_execution_id c) \<and> 0 \<le> ck_revision c
     \<and> matches_phase (ck_engine_phase c) \<and> 0 \<le> ck_engine_state_revision c
     \<and> (ck_queue_revision c = [] \<or> matches_sha256 (ck_queue_revision c)
          \<or> matches_identifier (ck_queue_revision c))
     \<and> metadata_ok (ck_metadata c)
     \<and> (ck_checkpoint_sha256 c = [] \<or> ck_checkpoint_sha256 c = ck_computed_sha256 c)
     \<and> (ck_environment_identity_sha256 c = []
          \<or> matches_sha256 (ck_environment_identity_sha256 c))
     \<and> ck_schema_version c = ''1.0''"
  by (auto simp: checkpoint_post_init_def bind_guards_Inr_iff simp del: guards.simps)

lemma wf_checkpoint_hash:
  "wf_checkpoint c \<Longrightarrow> ck_checkpoint_sha256 c = [] \<or> ck_checkpoint_sha256 c = ck_computed_sha256 c"
  by (auto simp: wf_checkpoint_def checkpoint_post_init_iff)

lemma ck_as_dict_wf:
  "wf_checkpoint c \<Longrightarrow>
     ck_as_dict c = JObj (ck_without_hash c @ [(''checkpoint_sha256'', JStr (ck_computed_sha256 c))])"
  using wf_checkpoint_hash [of c] by (auto simp: ck_as_dict_def)

lemma ck_as_dict_norm: "wf_checkpoint c \<Longrightarrow> ck_as_dict (norm_checkpoint c) = ck_as_dict c"
  by (simp add: ck_as_dict_wf ck_as_dict_def [of "norm_checkpoint c"])

lemma norm_checkpoint_idem [simp]: "norm_checkpoint (norm_checkpoint c) = norm_checkpoint c"
  by (rule checkpoint.equality) simp_all

lemma wf_checkpoint_norm [simp]: "wf_checkpoint c \<Longrightarrow> wf_checkpoint (norm_checkpoint c)"
  by (simp add: wf_checkpoint_def checkpoint_post_init_iff)

lemma raw_checkpoint_encoded:
  assumes "wf_checkpoint c"
  shows "raw_checkpoint (ck_without_hash c @ [(''checkpoint_sha256'', JStr (ck_computed_sha256 c))])
      (ck_progress c) (ck_resume_eligibility c) = norm_checkpoint c"
  by (cases "ck_environment_identity_sha256 c = []"; cases c)
     (simp_all add: raw_checkpoint_def ck_without_hash_def ck_base_fields_def field_or_def
       raw_metadata_json norm_checkpoint_def)

lemma keys_of_checkpoint:
  "keys_of (ck_without_hash c @ [(''checkpoint_sha256'', v)]) =
     (if ck_environment_identity_sha256 c = [] then set checkpoint_names
      else set (''environment_identity_sha256'' # checkpoint_names))"
proof -
  have "fst ` set (ck_base_fields c) = set checkpoint_base_names"
    by (simp add: ck_base_fields_def checkpoint_base_names_def)
  then show ?thesis by (auto simp: keys_of_def ck_without_hash_def checkpoint_names_def image_Un)
qed

lemma checkpoint_round_trip:
  assumes "wf_checkpoint c"
  shows "checkpoint_from_dict (ck_as_dict c) = Inr (norm_checkpoint c)"
proof -
  let ?kvs = "ck_without_hash c @ [(''checkpoint_sha256'', JStr (ck_computed_sha256 c))]"
  have version: "field_or JNull ''schema_version'' ?kvs = JStr ''1.0''"
    using assms
    by (simp add: field_or_def ck_without_hash_def ck_base_fields_def wf_checkpoint_def
        checkpoint_post_init_iff)
  have p: "progress_from_dict (field_or JNull ''progress'' ?kvs) = Inr (ck_progress c)"
    using assms
    by (simp add: field_or_def ck_without_hash_def ck_base_fields_def progress_round_trip
        wf_checkpoint_def)
  have r: "field_or JNull ''resume_eligibility'' ?kvs
      = JStr (value_in resume_values (ck_resume_eligibility c))"
    by (simp add: field_or_def ck_without_hash_def ck_base_fields_def)
  have q: "field_or JNull ''queue_revision'' ?kvs = JStr (ck_queue_revision c)"
    by (simp add: field_or_def ck_without_hash_def ck_base_fields_def)
  have "checkpoint_post_init (norm_checkpoint c) = Inr (norm_checkpoint c)"
    using wf_checkpoint_norm [OF assms] by (simp add: wf_checkpoint_def)
  then show ?thesis
    using assms
    by (simp add: checkpoint_from_dict_def ck_as_dict_wf version keys_of_checkpoint p r q
        raw_checkpoint_encoded Let_def)
qed

text \<open>Jobs.\<close>

lemma job_post_init_iff:
  "job_post_init j = Inr k \<longleftrightarrow>
     matches_identifier (jb_run_id j) \<and> matches_identifier (jb_job_id j)
     \<and> matches_identifier (jb_execution_id j) \<and> 0 \<le> jb_revision j
     \<and> ck_ids (jb_checkpoint j) = job_ids j
     \<and> (\<exists>c. bind_checkpoint (jb_environment j) (jb_checkpoint j) = Inr c
            \<and> (\<forall>g \<in> set (job_checks j). \<not> fst g) \<and> k = j\<lparr>jb_checkpoint := c\<rparr>)"
  by (auto simp: job_post_init_def bind_guards_Inr_iff bind_res_Inr_iff [of "bind_checkpoint _ _"]
      simp del: guards.simps)

lemma bind_checkpoint_norm:
  "bind_checkpoint env c = Inr c \<Longrightarrow> bind_checkpoint env (norm_checkpoint c) = Inr (norm_checkpoint c)"
proof (cases env)
  case None
  then show "bind_checkpoint env c = Inr c \<Longrightarrow> ?thesis" by (simp add: bind_checkpoint_def)
next
  case (Some e)
  let ?s = "env_identity_sha256 e"
  assume bound: "bind_checkpoint env c = Inr c"
  have "ck_environment_identity_sha256 c \<noteq> []"
  proof
    assume empty: "ck_environment_identity_sha256 c = []"
    with bound Some have "checkpoint_post_init (c\<lparr>ck_environment_identity_sha256 := ?s\<rparr>) = Inr c"
      by (simp add: bind_checkpoint_def)
    then have "c = c\<lparr>ck_environment_identity_sha256 := ?s\<rparr>" by (rule post_init_results)
    then have "ck_environment_identity_sha256 c = ?s"
      by (metis checkpoint.select_convs(13) checkpoint.surjective checkpoint.update_convs(13))
    with empty show False by (simp add: env_identity_sha256_def)
  qed
  with bound Some show ?thesis by (auto simp: bind_checkpoint_def split: if_splits)
qed

lemma wf_job_post_init: "wf_job j \<Longrightarrow> job_post_init j = Inr j"
  by (simp add: wf_job_def)

lemma wf_job_bind: "wf_job j \<Longrightarrow> bind_checkpoint (jb_environment j) (jb_checkpoint j) = Inr (jb_checkpoint j)"
  by (cases j) (auto dest!: wf_job_post_init simp: job_post_init_iff)

lemma norm_job_select [simp]:
  "jb_run_id (norm_job j) = jb_run_id j"
  "jb_job_id (norm_job j) = jb_job_id j"
  "jb_execution_id (norm_job j) = jb_execution_id j"
  "jb_profile (norm_job j) = jb_profile j"
  "jb_store_ref (norm_job j) = jb_store_ref j"
  "jb_lifecycle (norm_job j) = jb_lifecycle j"
  "jb_revision (norm_job j) = jb_revision j"
  "jb_checkpoint (norm_job j) = norm_checkpoint (jb_checkpoint j)"
  "jb_cancellation (norm_job j) = jb_cancellation j"
  "jb_retry (norm_job j) = jb_retry j"
  "jb_resume_eligibility (norm_job j) = jb_resume_eligibility j"
  "jb_terminal_outcome (norm_job j) = jb_terminal_outcome j"
  "jb_created_at (norm_job j) = jb_created_at j"
  "jb_updated_at (norm_job j) = jb_updated_at j"
  "jb_schema_version (norm_job j) = jb_schema_version j"
  "jb_result_markers (norm_job j) = jb_result_markers j"
  "jb_environment (norm_job j) = jb_environment j"
  by (simp_all add: norm_job_def)

lemma norm_job_idem [simp]: "norm_job (norm_job j) = norm_job j"
  by (simp add: norm_job_def)

lemma job_post_init_norm:
  assumes "wf_job j"
  shows "job_post_init (norm_job j) = Inr (norm_job j)"
proof -
  have "bind_checkpoint (jb_environment j) (norm_checkpoint (jb_checkpoint j))
      = Inr (norm_checkpoint (jb_checkpoint j))"
    using assms by (intro bind_checkpoint_norm wf_job_bind)
  moreover have "job_checks (norm_job j) = job_checks j"
    by (simp add: job_checks_def)
  moreover have "(norm_job j)\<lparr>jb_checkpoint := norm_checkpoint (jb_checkpoint j)\<rparr> = norm_job j"
    by (simp add: norm_job_def)
  ultimately show ?thesis
    using wf_job_post_init [OF assms]
    by (auto simp: job_post_init_iff ck_ids_def job_ids_def)
qed

lemma wf_job_norm [simp]: "wf_job j \<Longrightarrow> wf_job (norm_job j)"
  using job_post_init_norm [of j] by (simp add: wf_job_def)

lemma job_without_hash_norm: "wf_job j \<Longrightarrow> job_without_hash (norm_job j) = job_without_hash j"
  by (simp add: job_without_hash_def job_base_fields_def ck_as_dict_norm wf_job_def)

lemma job_as_dict_norm: "wf_job j \<Longrightarrow> job_as_dict (norm_job j) = job_as_dict j"
  by (simp add: job_as_dict_def job_without_hash_norm)

definition encoded_job :: "job \<Rightarrow> (string \<times> json) list" where
  "encoded_job j = job_without_hash j @
     [(''record_sha256'', JStr (stable_revision (JObj (job_without_hash j))))]"

lemma job_as_dict_encoded: "job_as_dict j = JObj (encoded_job j)"
  by (simp add: job_as_dict_def encoded_job_def)

lemma keys_of_encoded_job:
  "keys_of (encoded_job j) =
     (if jb_environment j = None then set job_names else set (''environment_identity'' # job_names))"
proof -
  have "fst ` set (job_base_fields j) = set job_base_names"
    by (simp add: job_base_fields_def job_base_names_def)
  then show ?thesis
    by (auto simp: keys_of_def encoded_job_def job_without_hash_def job_names_def image_Un
        split: option.splits)
qed

lemma encoded_job_fields [simp]:
  "field_or JNull ''schema_version'' (encoded_job j) = JStr (jb_schema_version j)"
  "field_or JNull ''run_id'' (encoded_job j) = JStr (jb_run_id j)"
  "field_or JNull ''job_id'' (encoded_job j) = JStr (jb_job_id j)"
  "field_or JNull ''execution_id'' (encoded_job j) = JStr (jb_execution_id j)"
  "field_or JNull ''profile'' (encoded_job j) = JStr (value_in profile_values (jb_profile j))"
  "field_or JNull ''store_ref'' (encoded_job j) = store_ref_as_dict (jb_store_ref j)"
  "field_or JNull ''lifecycle'' (encoded_job j) = JStr (value_in lifecycle_values (jb_lifecycle j))"
  "field_or JNull ''revision'' (encoded_job j) = JInt (jb_revision j)"
  "field_or JNull ''checkpoint'' (encoded_job j) = ck_as_dict (jb_checkpoint j)"
  "field_or JNull ''cancellation'' (encoded_job j) = cancellation_as_dict (jb_cancellation j)"
  "field_or JNull ''retry'' (encoded_job j) = retry_as_dict (jb_retry j)"
  "field_or JNull ''resume_eligibility'' (encoded_job j)
     = JStr (value_in resume_values (jb_resume_eligibility j))"
  "field_or JNull ''terminal_outcome'' (encoded_job j)
     = JStr (value_in outcome_values (jb_terminal_outcome j))"
  "field_or JNull ''created_at'' (encoded_job j) = json_opt_str (jb_created_at j)"
  "field_or JNull ''updated_at'' (encoded_job j) = json_opt_str (jb_updated_at j)"
  "field_or JNull ''result_markers'' (encoded_job j) = JArr (map marker_as_dict (jb_result_markers j))"
  by (simp_all add: encoded_job_def job_without_hash_def job_base_fields_def field_or_def)

lemma encoded_job_environment [simp]:
  "field_or JNull ''environment_identity'' (encoded_job j) =
     (case jb_environment j of None \<Rightarrow> JNull | Some e \<Rightarrow> env_as_dict e)"
  by (simp add: encoded_job_def job_without_hash_def job_base_fields_def field_or_def
      split: option.splits)

lemma encoded_job_hash [simp]:
  "field_or JNull ''record_sha256'' (encoded_job j)
     = JStr (stable_revision (JObj (without_key ''record_sha256'' (encoded_job j))))"
proof -
  have "''record_sha256'' \<notin> keys_of (job_without_hash j)"
    by (auto simp: keys_of_def job_without_hash_def job_base_fields_def split: option.splits)
  then show ?thesis
    by (simp add: encoded_job_def without_key_append_last field_or_append_last)
qed

lemma encoded_component_shapes [simp]:
  "is_obj_with [''scope_ref'', ''store_ref''] (store_ref_as_dict sr)"
  "is_obj_with cancellation_names (cancellation_as_dict cn)"
  "is_obj_with retry_names (retry_as_dict rt)"
  by (simp_all add: store_ref_as_dict_def cancellation_as_dict_def cancellation_names_def
      retry_as_dict_def retry_names_def keys_of_def)

lemma markers_round_trip:
  "list_all wf_marker ms \<Longrightarrow>
     map_res (\<lambda>m. catch_corrupt (marker_from_dict m)) (map marker_as_dict ms) = Inr ms"
  using map_res_map [of ms "\<lambda>m. catch_corrupt (marker_from_dict m)" marker_as_dict id]
  by (simp add: marker_round_trip list_all_iff wf_marker_def)

lemma env_field_round_trip:
  "(case env of None \<Rightarrow> True | Some e \<Rightarrow> valid_environment e) \<Longrightarrow>
   (case (case env of None \<Rightarrow> JNull | Some e \<Rightarrow> env_as_dict e) of
      JNull \<Rightarrow> Inr None | ev \<Rightarrow> bind_res (env_from_dict ref ev) (\<lambda>e. Inr (Some e))) = Inr env"
  by (cases env) (simp_all add: env_as_dict_def env_from_dict_as_dict [unfolded env_as_dict_def])

lemma job_construct_encoded:
  assumes wf: "wf_job j"
  shows "job_construct ref (encoded_job j) (jb_result_markers j) = Inr (norm_job j)"
proof -
  from wf have parts:
    "store_ref_post_init (jb_store_ref j) = Inr (jb_store_ref j)"
    "cancellation_post_init (jb_cancellation j) = Inr (jb_cancellation j)"
    "retry_post_init (jb_retry j) = Inr (jb_retry j)"
    "wf_checkpoint (jb_checkpoint j)"
    "case jb_environment j of None \<Rightarrow> True | Some e \<Rightarrow> valid_environment e"
    by (simp_all add: wf_job_def)
  have rebuilt: "\<lparr>jb_run_id = jb_run_id j, jb_job_id = jb_job_id j, jb_execution_id = jb_execution_id j,
      jb_profile = jb_profile j, jb_store_ref = jb_store_ref j, jb_lifecycle = jb_lifecycle j,
      jb_revision = jb_revision j, jb_checkpoint = norm_checkpoint (jb_checkpoint j),
      jb_cancellation = jb_cancellation j, jb_retry = jb_retry j,
      jb_resume_eligibility = jb_resume_eligibility j, jb_terminal_outcome = jb_terminal_outcome j,
      jb_created_at = jb_created_at j, jb_updated_at = jb_updated_at j,
      jb_schema_version = jb_schema_version j, jb_result_markers = jb_result_markers j,
      jb_environment = jb_environment j\<rparr> = norm_job j"
    by (rule job.equality) simp_all
  show ?thesis
    by (simp add: job_construct_def store_ref_round_trip cancellation_round_trip retry_round_trip
        checkpoint_round_trip parts env_field_round_trip [OF parts(5)] rebuilt
        job_post_init_norm [OF wf])
qed

lemma wf_job_version: "wf_job j \<Longrightarrow> jb_schema_version j = ''1.0''"
  by (auto simp: wf_job_def job_post_init_iff job_checks_def)

lemma job_decode_encode:
  assumes "wf_job j"
  shows "job_from_dict ref (job_as_dict j) = Inr (norm_job j)"
proof -
  have "list_all wf_marker (jb_result_markers j)"
    using assms by (simp add: wf_job_def)
  then show ?thesis
    by (simp add: job_from_dict_def job_as_dict_encoded wf_job_version [OF assms]
        keys_of_encoded_job markers_round_trip job_construct_encoded [OF assms])
qed

text \<open>What decoding accepts is well formed and carries its own hash.\<close>

lemma job_from_dict_hash:
  assumes "job_from_dict ref (JObj kvs) = Inr j"
  shows "field_or JNull ''record_sha256'' kvs
      = JStr (stable_revision (JObj (without_key ''record_sha256'' kvs)))"
  using assms by (auto simp: job_from_dict_def bind_res_Inr_iff split: if_splits)

lemma checkpoint_from_dict_wf:
  assumes "checkpoint_from_dict v = Inr c"
  shows "wf_checkpoint c"
proof -
  from assms obtain kvs p r where
    p: "progress_from_dict (field_or JNull ''progress'' kvs) = Inr p"
    and c: "checkpoint_post_init (raw_checkpoint kvs p r) = Inr c"
    by (auto simp: checkpoint_from_dict_def bind_res_Inr_iff Let_def split: json.splits if_splits)
  from p have "progress_post_init p = Inr p"
    by (auto simp: progress_from_dict_def dest: post_init_results(1) split: json.splits if_splits)
  moreover from c have "c = raw_checkpoint kvs p r" by (rule post_init_results)
  moreover have "ck_progress (raw_checkpoint kvs p r) = p" by (simp add: raw_checkpoint_def)
  ultimately show ?thesis using c by (simp add: wf_checkpoint_def)
qed

lemma bind_checkpoint_idem:
  assumes "bind_checkpoint env c = Inr d" and "wf_checkpoint c"
  shows "bind_checkpoint env d = Inr d" and "wf_checkpoint d" and "ck_ids d = ck_ids c"
  using assms
  by (auto simp: bind_checkpoint_def env_identity_sha256_def wf_checkpoint_def ck_ids_def
      dest: post_init_results(6) split: option.splits if_splits)

lemma job_post_init_idem:
  assumes "job_post_init j = Inr k" and "wf_checkpoint (jb_checkpoint j)"
  shows "job_post_init k = Inr k" and "wf_checkpoint (jb_checkpoint k)"
proof -
  from assms(1) obtain c where c: "bind_checkpoint (jb_environment j) (jb_checkpoint j) = Inr c"
    and k: "k = j\<lparr>jb_checkpoint := c\<rparr>"
    by (auto simp: job_post_init_iff)
  from bind_checkpoint_idem [OF c assms(2)] assms(1) k
  show "job_post_init k = Inr k" and "wf_checkpoint (jb_checkpoint k)"
    by (auto simp: job_post_init_iff job_checks_def job_ids_def)
qed

lemma from_dict_post_init:
  "store_ref_from_dict v = Inr sr \<Longrightarrow> store_ref_post_init sr = Inr sr"
  "cancellation_from_dict v = Inr cn \<Longrightarrow> cancellation_post_init cn = Inr cn"
  "retry_from_dict v = Inr rt \<Longrightarrow> retry_post_init rt = Inr rt"
  "marker_from_dict v = Inr m \<Longrightarrow> marker_post_init m = Inr m"
  by (auto simp: store_ref_from_dict_def cancellation_from_dict_def retry_from_dict_def
      marker_from_dict_def bind_res_Inr_iff Let_def dest: post_init_results
      split: json.splits if_splits option.splits)

lemma env_from_dict_valid: "env_from_dict ref v = Inr e \<Longrightarrow> valid_environment e"
  by (auto simp: env_from_dict_def env_construct_def valid_environment_def
      dest: environment_post_init_result split: json.splits if_splits)

lemma env_field_valid:
  "(case v of JNull \<Rightarrow> Inr None | ev \<Rightarrow> bind_res (env_from_dict ref ev) (\<lambda>e. Inr (Some e))) = Inr env
   \<Longrightarrow> (case env of None \<Rightarrow> True | Some e \<Rightarrow> valid_environment e)"
  by (cases v) (auto simp: bind_res_Inr_iff dest: env_from_dict_valid)

lemma job_construct_wf:
  assumes "job_construct ref kvs ms = Inr j" and "list_all wf_marker ms"
  shows "wf_job j"
proof -
  from assms(1) obtain j0 where
    j0: "job_post_init j0 = Inr j" "jb_result_markers j0 = ms"
    and parts: "wf_checkpoint (jb_checkpoint j0)"
      "store_ref_post_init (jb_store_ref j0) = Inr (jb_store_ref j0)"
      "cancellation_post_init (jb_cancellation j0) = Inr (jb_cancellation j0)"
      "retry_post_init (jb_retry j0) = Inr (jb_retry j0)"
      "case jb_environment j0 of None \<Rightarrow> True | Some e \<Rightarrow> valid_environment e"
    unfolding job_construct_def bind_res_Inr_iff
    by (elim exE conjE) (rule that, assumption,
        simp_all add: from_dict_post_init checkpoint_from_dict_wf env_field_valid)
  from j0(1) obtain c where "j = j0\<lparr>jb_checkpoint := c\<rparr>" by (auto simp: job_post_init_iff)
  with job_post_init_idem [OF j0(1) parts(1)] parts j0(2) assms(2) show ?thesis
    by (simp add: wf_job_def)
qed

lemma job_from_dict_wf:
  assumes "job_from_dict ref v = Inr j"
  shows "wf_job j"
proof -
  from assms obtain kvs ms markers where
    m: "map_res (\<lambda>m. catch_corrupt (marker_from_dict m)) ms = Inr markers"
    and j: "job_construct ref kvs markers = Inr j"
    unfolding job_from_dict_def
    by (auto simp: bind_guards_Inr_iff bind_res_Inr_iff [of "map_res _ _"]
        simp del: guards.simps split: json.splits)
  from map_res_set [OF m] have "list_all wf_marker markers"
    by (auto simp: list_all_iff wf_marker_def dest: from_dict_post_init(4))
  with j show ?thesis by (rule job_construct_wf)
qed

end
