(* ===== verification/Storage_Guard.thy ===== *)
theory Storage_Guard
  imports Execution_Codec
begin

text \<open>
  The write barrier of a run workspace (\<open>workspace_mutation_guard\<close> of
  \<open>src/k_slide/storage.py\<close>): product writes are refused once a deletion lifecycle has entered
  its fence, which is recorded in a fence file beside the run and in the run state itself.
\<close>

text \<open>What the guard can find at a path; a symbolic link resolves to an existing file or not.\<close>

datatype fs_node = Absent | Link bool | Unreadable | Contents json

record workspace =
  ws_name :: string
  ws_is_link :: bool
  ws_fence_file :: fs_node
  ws_state_file :: fs_node

text \<open>\<open>value in {"A", "B"}\<close>: a list or an object is unhashable.\<close>

definition json_in_strings :: "json \<Rightarrow> string list \<Rightarrow> bool res" where
  "json_in_strings v names =
     (case v of
        JArr _ \<Rightarrow> Inl PyTypeError
      | JObj _ \<Rightarrow> Inl PyTypeError
      | JStr s \<Rightarrow> Inr (s \<in> set names)
      | _ \<Rightarrow> Inr False)"

definition check_fence_file :: "workspace \<Rightarrow> unit res" where
  "check_fence_file w =
     (case ws_fence_file w of
        Absent \<Rightarrow> Inr ()
      | Link _ \<Rightarrow> Inl (KSlideError PATH_OUTSIDE_ALLOWED_ROOT)
      | Unreadable \<Rightarrow> Inl corrupt
      | Contents v \<Rightarrow>
          (case v of
             JObj kvs \<Rightarrow>
               if field_or JNull ''run_ref'' kvs \<noteq> JStr (ws_name w) then Inl corrupt
               else bind_res (json_in_strings (field_or JNull ''state'' kvs)
                                [''IN_PROGRESS'', ''PARTIAL''])
                 (\<lambda>known. Inl (if known then KSlideError EXECUTION_CONFLICT else corrupt))
           | _ \<Rightarrow> Inl corrupt))"

definition check_state_file :: "workspace \<Rightarrow> unit res" where
  "check_state_file w =
     (case ws_state_file w of
        Absent \<Rightarrow> Inr ()
      | Link resolves \<Rightarrow>
          if resolves then Inl (KSlideError PATH_OUTSIDE_ALLOWED_ROOT) else Inr ()
      | Unreadable \<Rightarrow> Inr ()
      | Contents v \<Rightarrow>
          (case v of
             JObj kvs \<Rightarrow>
               bind_res (json_in_strings (field_or JNull ''deletion_fence'' kvs)
                           [''IN_PROGRESS'', ''PARTIAL''])
                 (\<lambda>fenced. if fenced then Inl (KSlideError EXECUTION_CONFLICT) else Inr ())
           | _ \<Rightarrow> Inr ()))"

definition workspace_mutation_guard :: "workspace \<Rightarrow> unit res" where
  "workspace_mutation_guard w =
     (if ws_is_link w then Inl (KSlideError PATH_OUTSIDE_ALLOWED_ROOT)
      else bind_res (check_fence_file w) (\<lambda>_. check_state_file w))"

text \<open>\<open>_workspace_deletion_fenced\<close> of \<open>src/k_slide/execution.py\<close>: only the conflict means fenced.\<close>

definition workspace_deletion_fenced :: "workspace \<Rightarrow> bool res" where
  "workspace_deletion_fenced w =
     (case workspace_mutation_guard w of
        Inr _ \<Rightarrow> Inr False
      | Inl e \<Rightarrow> if e = KSlideError EXECUTION_CONFLICT then Inr True else Inl e)"

text \<open>A deletion that has begun, as its fence file or the run state records it.\<close>

definition deletion_recorded :: "workspace \<Rightarrow> bool" where
  "deletion_recorded w \<longleftrightarrow>
     (\<exists>kvs. ws_fence_file w = Contents (JObj kvs)
        \<and> field_or JNull ''run_ref'' kvs = JStr (ws_name w)
        \<and> field_or JNull ''state'' kvs \<in> {JStr ''IN_PROGRESS'', JStr ''PARTIAL''})
     \<or> (\<exists>kvs. ws_state_file w = Contents (JObj kvs)
        \<and> field_or JNull ''deletion_fence'' kvs \<in> {JStr ''IN_PROGRESS'', JStr ''PARTIAL''})"

lemma guard_refuses_recorded_deletion:
  "deletion_recorded w \<Longrightarrow> \<not> is_ok (workspace_mutation_guard w)"
  by (auto simp: deletion_recorded_def workspace_mutation_guard_def check_fence_file_def
      check_state_file_def json_in_strings_def is_ok_iff bind_res_Inr_iff
      split: fs_node.splits json.splits if_splits)

text \<open>Any fence file at all blocks writes, a damaged one included.\<close>

lemma guard_refuses_fence_file:
  "ws_fence_file w \<noteq> Absent \<Longrightarrow> \<not> is_ok (workspace_mutation_guard w)"
  by (auto simp: workspace_mutation_guard_def check_fence_file_def json_in_strings_def is_ok_iff
      bind_res_Inr_iff split: fs_node.splits json.splits if_splits)

lemma guard_conflict_is_fence:
  "workspace_mutation_guard w = Inl (KSlideError EXECUTION_CONFLICT) \<Longrightarrow> deletion_recorded w"
  by (auto simp: deletion_recorded_def workspace_mutation_guard_def check_fence_file_def
      check_state_file_def json_in_strings_def bind_res_Inl_iff
      split: fs_node.splits json.splits if_splits)

end
