(* ===== verification/Run_Store.thy ===== *)
theory Run_Store
  imports Storage_Guard "HOL-Library.AList"
begin

text \<open>
  The run-store adapters (\<open>_FilesystemRunStore\<close>, \<open>WorkspaceRunStore\<close> and
  \<open>DurableTestRunStore\<close> of \<open>src/k_slide/execution.py\<close>): job files under an adapter root and the
  compare-and-set operations on them. A store keeps its profile, the job files by the file's name
  and, for the workspace adapter, the workspace its deletion fence is read from. Every operation
  returns its result and the store afterwards; the file replacement is atomic. Clock readings are
  arguments, one for each reading the code takes.

  An operation of the code that loads the current job, decides and commits is modelled by a
  plan (the decision, a function of the job that was loaded) and \<open>run_plan\<close>, which performs the
  load and the commit; the two are separate critical sections of the code.
\<close>

section \<open>State\<close>

datatype job_file = FileUnreadable | FileJson json

record run_store =
  st_profile :: exec_profile
  st_files :: "(string \<times> job_file) list"
  st_workspace :: workspace

type_synonym write_result = "write_status \<times> job"
type_synonym 'a store_op = "run_store \<Rightarrow> 'a res \<times> run_store"

definition path_for :: "run_store \<Rightarrow> string \<Rightarrow> string" where
  "path_for s job_id =
     (case st_profile s of
        WORKSPACE_LOCAL \<Rightarrow> ''EXECUTION_JOB.json''
      | DURABLE \<Rightarrow> ''jobs/'' @ job_id @ ''.json'')"

text \<open>\<open>_mutation\<close>: the lock is held around the caller's block; this is what may refuse it.\<close>

definition mutation :: "run_store \<Rightarrow> string \<Rightarrow> unit res" where
  "mutation s job_id =
     (case st_profile s of
        WORKSPACE_LOCAL \<Rightarrow>
          bind_res (workspace_deletion_fenced (st_workspace s))
            (\<lambda>fenced. if fenced then Inl (KSlideError EXECUTION_CONFLICT) else Inr ())
      | DURABLE \<Rightarrow> if matches_identifier job_id then Inr () else Inl invalid)"

section \<open>Reading and writing\<close>

definition read_job :: "env_reference \<Rightarrow> job_file \<Rightarrow> job res" where
  "read_job ref f =
     (case f of
        FileUnreadable \<Rightarrow> Inl corrupt
      | FileJson v \<Rightarrow>
          (case job_from_dict ref v of
             Inr j \<Rightarrow> Inr j
           | Inl e \<Rightarrow>
               if e = KSlideError EXECUTION_UNSUPPORTED_VERSION then Inl e else Inl corrupt))"

definition store_load :: "env_reference \<Rightarrow> string \<Rightarrow> run_store \<Rightarrow> job res" where
  "store_load ref job_id s =
     (if \<not> matches_identifier job_id then Inl invalid
      else bind_res (mutation s job_id) (\<lambda>_.
        case map_of (st_files s) (path_for s job_id) of
          None \<Rightarrow> Inl (KSlideError EXECUTION_NOT_FOUND)
        | Some f \<Rightarrow> bind_res (read_job ref f) (\<lambda>j.
            if jb_job_id j \<noteq> job_id \<or> jb_profile j \<noteq> st_profile s
            then Inl (KSlideError EXECUTION_CONFLICT) else Inr j)))"

definition load_checkpoint :: "env_reference \<Rightarrow> string \<Rightarrow> run_store \<Rightarrow> checkpoint res" where
  "load_checkpoint ref job_id s = bind_res (store_load ref job_id s) (\<lambda>j. Inr (jb_checkpoint j))"

definition store_write :: "job \<Rightarrow> run_store \<Rightarrow> run_store" where
  "store_write j s =
     s\<lparr>st_files := AList.update (path_for s (jb_job_id j)) (FileJson (job_as_dict j)) (st_files s)\<rparr>"

definition store_create :: "env_reference \<Rightarrow> job \<Rightarrow> write_result store_op" where
  "store_create ref j s =
     (if jb_profile j \<noteq> st_profile s then (Inl invalid, s)
      else if \<not> matches_identifier (jb_job_id j) then (Inl invalid, s)
      else case mutation s (jb_job_id j) of
        Inl e \<Rightarrow> (Inl e, s)
      | Inr _ \<Rightarrow>
          (case map_of (st_files s) (path_for s (jb_job_id j)) of
             Some f \<Rightarrow>
               (case read_job ref f of
                  Inl e \<Rightarrow> (Inl e, s)
                | Inr existing \<Rightarrow>
                    if job_as_dict existing = job_as_dict j
                    then (Inr (SW_IDEMPOTENT, existing), s)
                    else (Inr (SW_CONFLICT, existing), s))
           | None \<Rightarrow> (Inr (SW_ACCEPTED, j), store_write j s)))"

definition commit_job :: "env_reference \<Rightarrow> job \<Rightarrow> int \<Rightarrow> write_result store_op" where
  "commit_job ref j expected s =
     (case mutation s (jb_job_id j) of
        Inl e \<Rightarrow> (Inl e, s)
      | Inr _ \<Rightarrow>
          if \<not> matches_identifier (jb_job_id j) then (Inl invalid, s)
          else case map_of (st_files s) (path_for s (jb_job_id j)) of
            None \<Rightarrow> (Inl (KSlideError EXECUTION_NOT_FOUND), s)
          | Some f \<Rightarrow>
              (case read_job ref f of
                 Inl e \<Rightarrow> (Inl e, s)
               | Inr current \<Rightarrow>
                   if job_as_dict current = job_as_dict j then (Inr (SW_IDEMPOTENT, current), s)
                   else if expected \<noteq> jb_revision current then (Inr (SW_STALE, current), s)
                   else if jb_revision j \<noteq> jb_revision current + 1
                   then (Inr (SW_CONFLICT, current), s)
                   else if jb_profile j \<noteq> st_profile s then (Inr (SW_CONFLICT, current), s)
                   else if jb_environment j \<noteq> jb_environment current
                   then (Inr (SW_CONFLICT, current), s)
                   else (Inr (SW_ACCEPTED, j), store_write j s)))"

section \<open>Plans\<close>

datatype plan = Raise err | Reply write_status | Commit job

text \<open>\<open>replace(current, ...)\<close> validates the candidate before it is committed.\<close>

definition commit_candidate :: "job \<Rightarrow> plan" where
  "commit_candidate j = (case job_post_init j of Inl e \<Rightarrow> Raise e | Inr k \<Rightarrow> Commit k)"

definition run_plan :: "env_reference \<Rightarrow> string \<Rightarrow> (job \<Rightarrow> plan) \<Rightarrow> write_result store_op" where
  "run_plan ref job_id plan s =
     (case store_load ref job_id s of
        Inl e \<Rightarrow> (Inl e, s)
      | Inr current \<Rightarrow>
          (case plan current of
             Raise e \<Rightarrow> (Inl e, s)
           | Reply st \<Rightarrow> (Inr (st, current), s)
           | Commit candidate \<Rightarrow> commit_job ref candidate (jb_revision current) s))"

definition check_checkpoint_environment :: "job \<Rightarrow> checkpoint \<Rightarrow> unit res" where
  "check_checkpoint_environment current c =
     (let expected = (case jb_environment current of None \<Rightarrow> [] | Some e \<Rightarrow> env_identity_sha256 e)
      in if ck_environment_identity_sha256 c \<noteq> expected
         then Inl (KSlideError EXECUTION_ENVIRONMENT_MISMATCH) else Inr ())"

definition plan_checkpoint :: "checkpoint \<Rightarrow> int \<Rightarrow> string \<Rightarrow> job \<Rightarrow> plan" where
  "plan_checkpoint c expected now current =
     (case check_checkpoint_environment current c of
        Inl e \<Rightarrow> Raise e
      | Inr _ \<Rightarrow>
          if ck_as_dict c = ck_as_dict (jb_checkpoint current) then Reply SW_IDEMPOTENT
          else if expected \<noteq> jb_revision current then Reply SW_STALE
          else if ck_revision c \<noteq> ck_revision (jb_checkpoint current) + 1 then Reply SW_CONFLICT
          else (case checkpoint_post_init (c\<lparr>ck_checkpoint_sha256 := ck_computed_sha256 c\<rparr>) of
             Inl e \<Rightarrow> Raise e
           | Inr normalized \<Rightarrow>
               commit_candidate (current\<lparr>jb_checkpoint := normalized,
                 jb_revision := jb_revision current + 1, jb_updated_at := Some now\<rparr>)))"

definition plan_step :: "checkpoint \<Rightarrow> result_marker \<Rightarrow> int \<Rightarrow> string \<Rightarrow> job \<Rightarrow> plan" where
  "plan_step c marker expected now current =
     (case check_checkpoint_environment current c of
        Inl e \<Rightarrow> Raise e
      | Inr _ \<Rightarrow>
          (case find (\<lambda>m. mk_operation_id m = mk_operation_id marker) (jb_result_markers current) of
             Some existing \<Rightarrow>
               if marker_as_dict existing = marker_as_dict marker
                  \<and> ck_as_dict (jb_checkpoint current) = ck_as_dict c
               then Reply SW_IDEMPOTENT else Reply SW_CONFLICT
           | None \<Rightarrow>
               if expected \<noteq> jb_revision current then Reply SW_STALE
               else if ck_revision c \<noteq> ck_revision (jb_checkpoint current) + 1
               then Reply SW_CONFLICT
               else (case checkpoint_post_init (c\<lparr>ck_checkpoint_sha256 := ck_computed_sha256 c\<rparr>) of
                  Inl e \<Rightarrow> Raise e
                | Inr normalized \<Rightarrow>
                    commit_candidate (current\<lparr>jb_checkpoint := normalized,
                      jb_result_markers := jb_result_markers current @ [marker],
                      jb_revision := jb_revision current + 1, jb_updated_at := Some now\<rparr>))))"

definition ended_lifecycle :: "lifecycle \<Rightarrow> bool" where
  "ended_lifecycle l \<longleftrightarrow> l \<in> set [L_COMPLETED, L_CANCELED, L_PROCESSING_FAILED]"

definition plan_cancel_request :: "int option \<Rightarrow> string \<Rightarrow> string \<Rightarrow> job \<Rightarrow> plan" where
  "plan_cancel_request expected t1 t2 current =
     (if cn_requested (jb_cancellation current) then Reply SW_IDEMPOTENT
      else if ended_lifecycle (jb_lifecycle current) then Reply SW_CONFLICT
      else if expected \<noteq> None \<and> expected \<noteq> Some (jb_revision current) then Reply SW_STALE
      else (case cancellation_post_init \<lparr>cn_requested = True, cn_acknowledged = False,
               cn_request_ref = Some (''cancel-'' @ jb_job_id current),
               cn_requested_at = Some t1, cn_acknowledged_at = None\<rparr> of
          Inl e \<Rightarrow> Raise e
        | Inr cn \<Rightarrow>
            commit_candidate (current\<lparr>jb_cancellation := cn,
              jb_revision := jb_revision current + 1, jb_updated_at := Some t2\<rparr>)))"

definition plan_cancel_ack :: "int \<Rightarrow> bool \<Rightarrow> string \<Rightarrow> string \<Rightarrow> job \<Rightarrow> plan" where
  "plan_cancel_ack expected safe_boundary t1 t2 current =
     (if cn_acknowledged (jb_cancellation current) then Reply SW_IDEMPOTENT
      else if \<not> cn_requested (jb_cancellation current) then Reply SW_CONFLICT
      else if \<not> safe_boundary then Reply SW_CONFLICT
      else if expected \<noteq> jb_revision current then Reply SW_STALE
      else (case cancellation_post_init ((jb_cancellation current)\<lparr>cn_acknowledged := True,
               cn_acknowledged_at := Some t1\<rparr>) of
          Inl e \<Rightarrow> Raise e
        | Inr cn \<Rightarrow>
            commit_candidate (current\<lparr>jb_cancellation := cn, jb_lifecycle := L_CANCELED,
              jb_resume_eligibility := RE_NOT_ELIGIBLE, jb_terminal_outcome := O_CANCELED,
              jb_revision := jb_revision current + 1, jb_updated_at := Some t2\<rparr>)))"

text \<open>The lifecycle table \<open>_OPERATIONAL_TRANSITIONS\<close>.\<close>

fun operational_transitions :: "lifecycle \<Rightarrow> lifecycle list" where
  "operational_transitions L_QUEUED = [L_RUNNING, L_CANCELED, L_PROCESSING_FAILED]"
| "operational_transitions L_RUNNING = [L_RETRYING, L_COMPLETED, L_CANCELED, L_PROCESSING_FAILED]"
| "operational_transitions L_RETRYING =
     [L_RUNNING, L_RETRYING, L_COMPLETED, L_CANCELED, L_PROCESSING_FAILED]"
| "operational_transitions L_COMPLETED = [L_RETRYING]"
| "operational_transitions L_CANCELED = []"
| "operational_transitions L_PROCESSING_FAILED = []"

definition plan_operational ::
  "int \<Rightarrow> lifecycle \<Rightarrow> outcome \<Rightarrow> resume option \<Rightarrow> string \<Rightarrow> job \<Rightarrow> plan"
where
  "plan_operational expected lc oc re now current =
     (if jb_lifecycle current = lc \<and> jb_terminal_outcome current = oc then Reply SW_IDEMPOTENT
      else if expected \<noteq> jb_revision current then Reply SW_STALE
      else if lc \<notin> set (operational_transitions (jb_lifecycle current)) then Reply SW_CONFLICT
      else if lc = L_COMPLETED \<and> oc \<notin> set [O_DONE, O_NEEDS_REVIEW] then Reply SW_CONFLICT
      else
        (let oc' = (if lc = L_PROCESSING_FAILED then O_PROCESSING_FAILED else oc);
             re' = (if lc = L_PROCESSING_FAILED then Some RE_NOT_ELIGIBLE else re)
         in commit_candidate (current\<lparr>jb_lifecycle := lc, jb_terminal_outcome := oc',
              jb_resume_eligibility :=
                (case re' of Some r \<Rightarrow> r | None \<Rightarrow> jb_resume_eligibility current),
              jb_revision := jb_revision current + 1, jb_updated_at := Some now\<rparr>)))"

text \<open>\<open>classify_operational_failure\<close>, on the wire value of the code.\<close>

definition classify_operational_failure :: "string \<Rightarrow> failure_class" where
  "classify_operational_failure value =
     (if value \<in> set [error_value VERIFICATION_FAILED, error_value COMPLETION_BLOCKED,
                      error_value STALE_EVIDENCE]
      then FC_SEMANTIC_REPAIR
      else if value \<in> set [error_value INTERNAL, error_value RUNTIME_UNKNOWN,
                           error_value PPTX_CONVERSION_TIMEOUT]
      then FC_RETRYABLE
      else FC_NOT_RETRYABLE)"

definition retried :: "retry_state \<Rightarrow> failure_class \<Rightarrow> string \<Rightarrow> retry_state" where
  "retried r fc code =
     (let next_attempt = rt_attempt r + 1 in
      if fc = FC_RETRYABLE \<and> next_attempt < rt_max_attempts r
      then r\<lparr>rt_attempt := next_attempt, rt_disposition := RD_RETRYABLE,
             rt_last_error_code := Some code\<rparr>
      else if fc = FC_RETRYABLE
      then r\<lparr>rt_attempt := rt_max_attempts r, rt_disposition := RD_EXHAUSTED,
             rt_last_error_code := Some code\<rparr>
      else r\<lparr>rt_disposition := RD_NOT_RETRYABLE, rt_last_error_code := Some code\<rparr>)"

definition plan_retry :: "int \<Rightarrow> string \<Rightarrow> string \<Rightarrow> job \<Rightarrow> plan" where
  "plan_retry expected code now current =
     (if jb_lifecycle current = L_PROCESSING_FAILED
         \<and> rt_disposition (jb_retry current) = RD_EXHAUSTED
      then Reply SW_IDEMPOTENT
      else if jb_lifecycle current \<in> set [L_CANCELED, L_COMPLETED] then Reply SW_CONFLICT
      else
        (let fc = classify_operational_failure code in
         if fc = FC_SEMANTIC_REPAIR then Raise invalid
         else if expected \<noteq> jb_revision current then Reply SW_STALE
         else if \<not> error_code_ok code then Raise invalid
         else (case retry_post_init (retried (jb_retry current) fc code) of
             Inl e \<Rightarrow> Raise e
           | Inr rt \<Rightarrow>
               if fc = FC_RETRYABLE \<and> rt_attempt (jb_retry current) + 1 < rt_max_attempts (jb_retry current)
               then commit_candidate (current\<lparr>jb_retry := rt, jb_lifecycle := L_RETRYING,
                 jb_revision := jb_revision current + 1, jb_updated_at := Some now\<rparr>)
               else commit_candidate (current\<lparr>jb_retry := rt, jb_lifecycle := L_PROCESSING_FAILED,
                 jb_resume_eligibility := RE_NOT_ELIGIBLE,
                 jb_terminal_outcome := O_PROCESSING_FAILED,
                 jb_revision := jb_revision current + 1, jb_updated_at := Some now\<rparr>))))"

definition plan_result :: "result_marker \<Rightarrow> int \<Rightarrow> string \<Rightarrow> job \<Rightarrow> plan" where
  "plan_result marker expected now current =
     (case find (\<lambda>m. mk_operation_id m = mk_operation_id marker) (jb_result_markers current) of
        Some existing \<Rightarrow>
          if marker_as_dict existing = marker_as_dict marker
          then Reply SW_IDEMPOTENT else Reply SW_CONFLICT
      | None \<Rightarrow>
          if expected \<noteq> jb_revision current then Reply SW_STALE
          else if length (jb_result_markers current) \<ge> max_result_markers then Reply SW_CONFLICT
          else commit_candidate (current\<lparr>
            jb_result_markers := jb_result_markers current @ [marker],
            jb_revision := jb_revision current + 1, jb_updated_at := Some now\<rparr>))"

section \<open>Operations\<close>

definition commit_checkpoint :: "env_reference \<Rightarrow> checkpoint \<Rightarrow> int \<Rightarrow> string \<Rightarrow> write_result store_op" where
  "commit_checkpoint ref c expected now =
     run_plan ref (ck_job_id c) (plan_checkpoint c expected now)"

definition commit_step ::
  "env_reference \<Rightarrow> checkpoint \<Rightarrow> result_marker \<Rightarrow> int \<Rightarrow> string \<Rightarrow> write_result store_op"
where
  "commit_step ref c marker expected now =
     run_plan ref (ck_job_id c) (plan_step c marker expected now)"

definition request_cancellation ::
  "env_reference \<Rightarrow> string \<Rightarrow> int option \<Rightarrow> string \<Rightarrow> string \<Rightarrow> write_result store_op"
where
  "request_cancellation ref job_id expected t1 t2 =
     run_plan ref job_id (plan_cancel_request expected t1 t2)"

definition acknowledge_cancellation ::
  "env_reference \<Rightarrow> string \<Rightarrow> int \<Rightarrow> bool \<Rightarrow> string \<Rightarrow> string \<Rightarrow> write_result store_op"
where
  "acknowledge_cancellation ref job_id expected safe_boundary t1 t2 =
     run_plan ref job_id (plan_cancel_ack expected safe_boundary t1 t2)"

definition transition_operational ::
  "env_reference \<Rightarrow> string \<Rightarrow> int \<Rightarrow> lifecycle \<Rightarrow> outcome \<Rightarrow> resume option \<Rightarrow> string
    \<Rightarrow> write_result store_op"
where
  "transition_operational ref job_id expected lc oc re now =
     run_plan ref job_id (plan_operational expected lc oc re now)"

definition record_retry ::
  "env_reference \<Rightarrow> string \<Rightarrow> int \<Rightarrow> string \<Rightarrow> string \<Rightarrow> write_result store_op"
where
  "record_retry ref job_id expected code now = run_plan ref job_id (plan_retry expected code now)"

definition commit_result ::
  "env_reference \<Rightarrow> string \<Rightarrow> result_marker \<Rightarrow> int \<Rightarrow> string \<Rightarrow> write_result store_op"
where
  "commit_result ref job_id marker expected now =
     run_plan ref job_id (plan_result marker expected now)"

lemmas [op_defs] =
  commit_checkpoint_def commit_step_def request_cancellation_def acknowledge_cancellation_def
  transition_operational_def record_retry_def commit_result_def

end
