(* ===== verification/Run_Store_Laws.thy ===== *)
theory Run_Store_Laws
  imports Run_Store
begin

text \<open>
  What the run-store adapters promise. Every operation that changes a job plans a successor of the
  job it loaded (\<open>succeeds\<close>): same identity, the next revision, no committed result marker lost,
  and a lifecycle move of the operational table; the acknowledged cancellation and the retry of a
  job that has not started are the two moves made without consulting that table. The
  compare-and-set contract (\<open>cas_store\<close>) is what the controller, the worker and the interleaved
  clients rely on; the filesystem adapters are an interpretation of it.
\<close>

section \<open>Successor jobs\<close>

definition lifecycle_move :: "job \<Rightarrow> job \<Rightarrow> bool" where
  "lifecycle_move j k \<longleftrightarrow>
     jb_lifecycle k = jb_lifecycle j
     \<or> jb_lifecycle k \<in> set (operational_transitions (jb_lifecycle j))
     \<or> (jb_lifecycle k = L_CANCELED \<and> cn_requested (jb_cancellation j))
     \<or> (jb_lifecycle j = L_QUEUED \<and> jb_lifecycle k = L_RETRYING)"

definition same_identity :: "job \<Rightarrow> job \<Rightarrow> bool" where
  "same_identity j k \<longleftrightarrow>
     job_ids k = job_ids j \<and> jb_profile k = jb_profile j \<and> jb_store_ref k = jb_store_ref j
     \<and> jb_environment k = jb_environment j \<and> jb_created_at k = jb_created_at j"

definition succeeds :: "job \<Rightarrow> job \<Rightarrow> bool" where
  "succeeds j k \<longleftrightarrow>
     wf_job k \<and> same_identity j k \<and> jb_revision k = jb_revision j + 1
     \<and> prefix (jb_result_markers j) (jb_result_markers k) \<and> lifecycle_move j k"

definition sound_plan :: "(job \<Rightarrow> plan) \<Rightarrow> bool" where
  "sound_plan plan \<longleftrightarrow>
     (\<forall>j k. wf_job j \<longrightarrow> plan j = Commit k \<longrightarrow> succeeds j k) \<and> (\<forall>j. plan j \<noteq> Reply SW_ACCEPTED)"

lemma commit_candidate_not_reply [simp]: "commit_candidate j \<noteq> Reply st"
  by (simp add: commit_candidate_def split: sum.splits)

lemma plans_reply_refusals [simp]:
  "plan_checkpoint c e now j \<noteq> Reply SW_ACCEPTED"
  "plan_step c m e now j \<noteq> Reply SW_ACCEPTED"
  "plan_cancel_request oe t1 t2 j \<noteq> Reply SW_ACCEPTED"
  "plan_cancel_ack e safe t1 t2 j \<noteq> Reply SW_ACCEPTED"
  "plan_operational e lc oc re now j \<noteq> Reply SW_ACCEPTED"
  "plan_retry e code now j \<noteq> Reply SW_ACCEPTED"
  "plan_result m e now j \<noteq> Reply SW_ACCEPTED"
  by (simp_all add: plan_checkpoint_def plan_step_def plan_cancel_request_def plan_cancel_ack_def
      plan_operational_def plan_retry_def plan_result_def Let_def split: sum.splits option.splits)

lemma sound_planI:
  assumes "\<And>j k. wf_job j \<Longrightarrow> plan j = Commit k \<Longrightarrow> succeeds j k"
    and "\<And>j. plan j \<noteq> Reply SW_ACCEPTED"
  shows "sound_plan plan"
  using assms by (simp add: sound_plan_def)

lemma commit_candidate_iff: "commit_candidate j = Commit k \<longleftrightarrow> job_post_init j = Inr k"
  by (simp add: commit_candidate_def split: sum.splits)

lemma commit_candidate_wf:
  assumes "commit_candidate j = Commit k"
    and "wf_checkpoint (jb_checkpoint j)"
    and "store_ref_post_init (jb_store_ref j) = Inr (jb_store_ref j)"
    and "cancellation_post_init (jb_cancellation j) = Inr (jb_cancellation j)"
    and "retry_post_init (jb_retry j) = Inr (jb_retry j)"
    and "list_all wf_marker (jb_result_markers j)"
    and "case jb_environment j of None \<Rightarrow> True | Some e \<Rightarrow> valid_environment e"
  shows "wf_job k" and "\<exists>c. k = j\<lparr>jb_checkpoint := c\<rparr>"
proof -
  from assms(1) have k: "job_post_init j = Inr k" by (simp add: commit_candidate_iff)
  then show "\<exists>c. k = j\<lparr>jb_checkpoint := c\<rparr>" by (auto simp: job_post_init_iff)
  with job_post_init_idem [OF k assms(2)] assms(3-7) show "wf_job k"
    by (auto simp: wf_job_def)
qed

text \<open>A candidate built from a well-formed job succeeds it when its parts do.\<close>

lemma candidate_succeeds:
  assumes c: "commit_candidate j' = Commit k" and wf: "wf_job j"
    and parts: "wf_checkpoint (jb_checkpoint j')"
      "cancellation_post_init (jb_cancellation j') = Inr (jb_cancellation j')"
      "retry_post_init (jb_retry j') = Inr (jb_retry j')"
      "list_all wf_marker (jb_result_markers j')"
    and same: "same_identity j j'" and rev: "jb_revision j' = jb_revision j + 1"
    and markers: "prefix (jb_result_markers j) (jb_result_markers j')"
    and move: "lifecycle_move j j'"
  shows "succeeds j k"
proof -
  from wf same have "store_ref_post_init (jb_store_ref j') = Inr (jb_store_ref j')"
    and "case jb_environment j' of None \<Rightarrow> True | Some e \<Rightarrow> valid_environment e"
    by (simp_all add: wf_job_def same_identity_def)
  from commit_candidate_wf [OF c parts(1) this(1) parts(2-4) this(2)] same rev markers move
  show ?thesis
    by (auto simp: succeeds_def same_identity_def job_ids_def lifecycle_move_def)
qed

lemma wf_job_parts:
  assumes "wf_job j"
  shows "wf_checkpoint (jb_checkpoint j)"
    and "cancellation_post_init (jb_cancellation j) = Inr (jb_cancellation j)"
    and "retry_post_init (jb_retry j) = Inr (jb_retry j)"
    and "list_all wf_marker (jb_result_markers j)"
  using assms by (simp_all add: wf_job_def)

lemma same_identity_updates [simp]:
  "same_identity j (j\<lparr>jb_lifecycle := a, jb_revision := r, jb_updated_at := t\<rparr>)"
  "same_identity j (j\<lparr>jb_checkpoint := c, jb_revision := r, jb_updated_at := t\<rparr>)"
  "same_identity j (j\<lparr>jb_checkpoint := c, jb_result_markers := ms, jb_revision := r, jb_updated_at := t\<rparr>)"
  "same_identity j (j\<lparr>jb_cancellation := cn, jb_revision := r, jb_updated_at := t\<rparr>)"
  "same_identity j (j\<lparr>jb_cancellation := cn, jb_lifecycle := a, jb_resume_eligibility := e,
     jb_terminal_outcome := tr, jb_revision := r, jb_updated_at := t\<rparr>)"
  "same_identity j (j\<lparr>jb_lifecycle := a, jb_terminal_outcome := tr, jb_resume_eligibility := e,
     jb_revision := r, jb_updated_at := t\<rparr>)"
  "same_identity j (j\<lparr>jb_retry := rt, jb_lifecycle := a, jb_revision := r, jb_updated_at := t\<rparr>)"
  "same_identity j (j\<lparr>jb_retry := rt, jb_lifecycle := a, jb_resume_eligibility := e,
     jb_terminal_outcome := tr, jb_revision := r, jb_updated_at := t\<rparr>)"
  "same_identity j (j\<lparr>jb_result_markers := ms, jb_revision := r, jb_updated_at := t\<rparr>)"
  by (simp_all add: same_identity_def job_ids_def)

lemma stamped_checkpoint_wf:
  assumes "wf_checkpoint c"
    and "checkpoint_post_init (c\<lparr>ck_checkpoint_sha256 := ck_computed_sha256 c\<rparr>) = Inr d"
  shows "wf_checkpoint d"
proof -
  from assms(2) have d: "d = c\<lparr>ck_checkpoint_sha256 := ck_computed_sha256 c\<rparr>" by (rule post_init_results)
  with assms show ?thesis by (simp add: wf_checkpoint_def)
qed

section \<open>Every plan is sound\<close>

lemma sound_plan_checkpoint:
  assumes "wf_checkpoint c"
  shows "sound_plan (plan_checkpoint c expected now)"
proof (rule sound_planI)
  fix j k
  assume wf: "wf_job j" and "plan_checkpoint c expected now j = Commit k"
  then obtain d where
    d: "checkpoint_post_init (c\<lparr>ck_checkpoint_sha256 := ck_computed_sha256 c\<rparr>) = Inr d"
    and k: "commit_candidate (j\<lparr>jb_checkpoint := d, jb_revision := jb_revision j + 1,
      jb_updated_at := Some now\<rparr>) = Commit k"
    by (auto simp: plan_checkpoint_def split: sum.splits if_splits)
  show "succeeds j k"
    by (rule candidate_succeeds [OF k wf])
      (use wf_job_parts [OF wf] stamped_checkpoint_wf [OF assms d] in \<open>simp_all add: lifecycle_move_def\<close>)
qed simp

lemma sound_plan_step:
  assumes "wf_checkpoint c" and "wf_marker m"
  shows "sound_plan (plan_step c m expected now)"
proof (rule sound_planI)
  fix j k
  assume wf: "wf_job j" and "plan_step c m expected now j = Commit k"
  then obtain d where
    d: "checkpoint_post_init (c\<lparr>ck_checkpoint_sha256 := ck_computed_sha256 c\<rparr>) = Inr d"
    and k: "commit_candidate (j\<lparr>jb_checkpoint := d, jb_result_markers := jb_result_markers j @ [m],
      jb_revision := jb_revision j + 1, jb_updated_at := Some now\<rparr>) = Commit k"
    by (auto simp: plan_step_def split: sum.splits if_splits option.splits)
  show "succeeds j k"
    by (rule candidate_succeeds [OF k wf])
      (use wf_job_parts [OF wf] stamped_checkpoint_wf [OF assms(1) d] assms(2) in
        \<open>simp_all add: lifecycle_move_def\<close>)
qed simp

lemma sound_plan_cancel_request: "sound_plan (plan_cancel_request expected t1 t2)"
proof (rule sound_planI)
  fix j k
  assume wf: "wf_job j" and "plan_cancel_request expected t1 t2 j = Commit k"
  then obtain cn0 cn where cn: "cancellation_post_init cn0 = Inr cn"
    and k: "commit_candidate (j\<lparr>jb_cancellation := cn, jb_revision := jb_revision j + 1,
      jb_updated_at := Some t2\<rparr>) = Commit k"
    by (auto simp: plan_cancel_request_def split: sum.splits if_splits)
  from cn have "cancellation_post_init cn = Inr cn" by (metis post_init_results(3))
  then show "succeeds j k"
    by (intro candidate_succeeds [OF k wf])
      (use wf_job_parts [OF wf] in \<open>simp_all add: lifecycle_move_def\<close>)
qed simp

lemma sound_plan_cancel_ack: "sound_plan (plan_cancel_ack expected safe t1 t2)"
proof (rule sound_planI)
  fix j k
  assume wf: "wf_job j" and "plan_cancel_ack expected safe t1 t2 j = Commit k"
  then obtain cn where req: "cn_requested (jb_cancellation j)"
    and cn: "cancellation_post_init ((jb_cancellation j)\<lparr>cn_acknowledged := True,
      cn_acknowledged_at := Some t1\<rparr>) = Inr cn"
    and k: "commit_candidate (j\<lparr>jb_cancellation := cn, jb_lifecycle := L_CANCELED,
      jb_resume_eligibility := RE_NOT_ELIGIBLE, jb_terminal_outcome := O_CANCELED,
      jb_revision := jb_revision j + 1, jb_updated_at := Some t2\<rparr>) = Commit k"
    by (auto simp: plan_cancel_ack_def split: sum.splits if_splits)
  from cn have "cancellation_post_init cn = Inr cn" by (metis post_init_results(3))
  then show "succeeds j k"
    by (intro candidate_succeeds [OF k wf])
      (use wf_job_parts [OF wf] req in \<open>simp_all add: lifecycle_move_def\<close>)
qed simp

lemma sound_plan_operational: "sound_plan (plan_operational expected lc oc re now)"
proof (rule sound_planI)
  fix j k
  assume wf: "wf_job j" and "plan_operational expected lc oc re now j = Commit k"
  then obtain oc' re' where move: "lc \<in> set (operational_transitions (jb_lifecycle j))"
    and k: "commit_candidate (j\<lparr>jb_lifecycle := lc, jb_terminal_outcome := oc',
      jb_resume_eligibility := re', jb_revision := jb_revision j + 1,
      jb_updated_at := Some now\<rparr>) = Commit k"
    by (auto simp: plan_operational_def Let_def split: if_splits)
  then show "succeeds j k"
    by (intro candidate_succeeds [OF k wf])
      (use wf_job_parts [OF wf] in \<open>simp_all add: lifecycle_move_def\<close>)
qed simp

lemma sound_plan_result:
  assumes "wf_marker m"
  shows "sound_plan (plan_result m expected now)"
proof (rule sound_planI)
  fix j k
  assume wf: "wf_job j" and "plan_result m expected now j = Commit k"
  then have k: "commit_candidate (j\<lparr>jb_result_markers := jb_result_markers j @ [m],
      jb_revision := jb_revision j + 1, jb_updated_at := Some now\<rparr>) = Commit k"
    by (auto simp: plan_result_def split: if_splits option.splits)
  then show "succeeds j k"
    by (intro candidate_succeeds [OF k wf])
      (use wf_job_parts [OF wf] assms in \<open>simp_all add: lifecycle_move_def\<close>)
qed simp

text \<open>
  A retry of a job that has failed for good would leave its terminal outcome behind, which the
  data class refuses; so the lifecycle table holds here although no guard of the method names it.
\<close>

text \<open>The outcome a job may carry in each lifecycle state.\<close>

fun outcomes_of :: "lifecycle \<Rightarrow> outcome list" where
  "outcomes_of L_CANCELED = [O_CANCELED]"
| "outcomes_of L_PROCESSING_FAILED = [O_PROCESSING_FAILED]"
| "outcomes_of L_COMPLETED = [O_DONE, O_NEEDS_REVIEW]"
| "outcomes_of _ = [O_NONE]"

lemma job_checks_outcome:
  "\<forall>g \<in> set (job_checks j). \<not> fst g \<Longrightarrow> jb_terminal_outcome j \<in> set (outcomes_of (jb_lifecycle j))"
  by (cases "jb_lifecycle j") (simp_all add: job_checks_def)

lemma job_post_init_outcome:
  "job_post_init j = Inr k \<Longrightarrow> jb_terminal_outcome j \<in> set (outcomes_of (jb_lifecycle j))"
  by (elim job_post_init_iff [THEN iffD1, elim_format] exE conjE) (rule job_checks_outcome)

lemma wf_job_outcome: "wf_job j \<Longrightarrow> jb_terminal_outcome j \<in> set (outcomes_of (jb_lifecycle j))"
  by (rule job_post_init_outcome [OF wf_job_post_init])

lemma retry_candidate_move:
  assumes "commit_candidate (j\<lparr>jb_retry := rt, jb_lifecycle := L_RETRYING, jb_revision := r,
      jb_updated_at := t\<rparr>) = Commit k"
    and "wf_job j"
  shows "jb_lifecycle j \<notin> set [L_COMPLETED, L_CANCELED, L_PROCESSING_FAILED]"
  using job_post_init_outcome [OF assms(1) [unfolded commit_candidate_iff]] wf_job_outcome [OF assms(2)]
  by (cases "jb_lifecycle j") auto

text \<open>The two candidates \<open>record_retry\<close> builds.\<close>

definition retry_again :: "job \<Rightarrow> retry_state \<Rightarrow> string \<Rightarrow> job" where
  "retry_again j rt now = j\<lparr>jb_retry := rt, jb_lifecycle := L_RETRYING,
     jb_revision := jb_revision j + 1, jb_updated_at := Some now\<rparr>"

definition retry_failed :: "job \<Rightarrow> retry_state \<Rightarrow> string \<Rightarrow> job" where
  "retry_failed j rt now = j\<lparr>jb_retry := rt, jb_lifecycle := L_PROCESSING_FAILED,
     jb_resume_eligibility := RE_NOT_ELIGIBLE, jb_terminal_outcome := O_PROCESSING_FAILED,
     jb_revision := jb_revision j + 1, jb_updated_at := Some now\<rparr>"

definition retry_allowed :: "job \<Rightarrow> string \<Rightarrow> bool" where
  "retry_allowed j code \<longleftrightarrow> classify_operational_failure code = FC_RETRYABLE
     \<and> rt_attempt (jb_retry j) + 1 < rt_max_attempts (jb_retry j)"

lemma plan_retry_commit:
  assumes "plan_retry expected code now j = Commit k"
  obtains rt where
    "retry_post_init (retried (jb_retry j) (classify_operational_failure code) code) = Inr rt"
    "expected = jb_revision j" "error_code_ok code" "jb_lifecycle j \<notin> {L_CANCELED, L_COMPLETED}"
    "commit_candidate (if retry_allowed j code then retry_again j rt now else retry_failed j rt now)
       = Commit k"
proof -
  let ?r = "retry_post_init (retried (jb_retry j) (classify_operational_failure code) code)"
  note * = assms [unfolded plan_retry_def Let_def, folded retry_allowed_def retry_again_def retry_failed_def]
  have "expected = jb_revision j \<and> error_code_ok code \<and> jb_lifecycle j \<notin> {L_CANCELED, L_COMPLETED}"
    using * by (simp split: if_splits)
  moreover obtain rt where rt: "?r = Inr rt"
    using * by (cases ?r) (simp_all split: if_splits)
  moreover have "commit_candidate
      (if retry_allowed j code then retry_again j rt now else retry_failed j rt now) = Commit k"
    using * by (simp add: rt split: if_splits)
  ultimately show thesis using that by blast
qed

lemma retry_successor:
  assumes "retry_post_init rt = Inr rt"
  shows "wf_job j \<Longrightarrow> commit_candidate (retry_again j rt now) = Commit k \<Longrightarrow> succeeds j k"
    and "wf_job j \<Longrightarrow> jb_lifecycle j \<notin> {L_CANCELED, L_COMPLETED} \<Longrightarrow>
      commit_candidate (retry_failed j rt now) = Commit k \<Longrightarrow> succeeds j k"
proof -
  assume wf: "wf_job j"
  assume k: "commit_candidate (retry_again j rt now) = Commit k"
  have "lifecycle_move j (retry_again j rt now)"
    using retry_candidate_move [OF k [unfolded retry_again_def] wf]
    by (cases "jb_lifecycle j") (auto simp: lifecycle_move_def retry_again_def)
  then show "succeeds j k"
    by (intro candidate_succeeds [OF k wf]) (use wf_job_parts [OF wf] assms in \<open>simp_all add: retry_again_def\<close>)
next
  assume wf: "wf_job j" and not_ended: "jb_lifecycle j \<notin> {L_CANCELED, L_COMPLETED}"
  assume k: "commit_candidate (retry_failed j rt now) = Commit k"
  have "lifecycle_move j (retry_failed j rt now)"
    using not_ended by (cases "jb_lifecycle j") (auto simp: lifecycle_move_def retry_failed_def)
  then show "succeeds j k"
    by (intro candidate_succeeds [OF k wf]) (use wf_job_parts [OF wf] assms in \<open>simp_all add: retry_failed_def\<close>)
qed

lemma sound_plan_retry: "sound_plan (plan_retry expected code now)"
proof (rule sound_planI)
  fix j k
  assume wf: "wf_job j" and "plan_retry expected code now j = Commit k"
  from plan_retry_commit [OF this(2)] obtain rt where
    rt: "retry_post_init (retried (jb_retry j) (classify_operational_failure code) code) = Inr rt"
    and not_ended: "jb_lifecycle j \<notin> {L_CANCELED, L_COMPLETED}"
    and k: "commit_candidate
      (if retry_allowed j code then retry_again j rt now else retry_failed j rt now) = Commit k"
    by blast
  from rt have "retry_post_init rt = Inr rt" by (metis post_init_results(4))
  from retry_successor [OF this wf] not_ended k show "succeeds j k"
    by (cases "retry_allowed j code") simp_all
qed simp

lemmas sound_plans =
  sound_plan_checkpoint sound_plan_step sound_plan_cancel_request sound_plan_cancel_ack
  sound_plan_operational sound_plan_retry sound_plan_result

section \<open>Loading and committing\<close>

lemma read_job_wf: "read_job ref f = Inr j \<Longrightarrow> wf_job j"
  by (auto simp: read_job_def intro: job_from_dict_wf split: job_file.splits sum.splits if_splits)

lemma read_written [simp]: "wf_job j \<Longrightarrow> read_job ref (FileJson (job_as_dict j)) = Inr (norm_job j)"
  by (simp add: read_job_def job_decode_encode)

lemma job_as_dict_revision:
  "job_as_dict j = job_as_dict k \<Longrightarrow> jb_revision j = jb_revision k"
  using encoded_job_fields(8) [of j] encoded_job_fields(8) [of k] by (simp add: job_as_dict_encoded)

lemma matches_identifier_jobs [simp]:
  "path_for s a = path_for s b \<longleftrightarrow> st_profile s = WORKSPACE_LOCAL \<or> a = b"
  by (auto simp: path_for_def split: exec_profile.splits)

lemma store_write_select [simp]:
  "st_profile (store_write j s) = st_profile s"
  "st_workspace (store_write j s) = st_workspace s"
  "path_for (store_write j s) = path_for s"
  "mutation (store_write j s) = mutation s"
  "map_of (st_files (store_write j s)) = (map_of (st_files s))(path_for s (jb_job_id j) \<mapsto> FileJson (job_as_dict j))"
  by (auto simp: store_write_def path_for_def mutation_def update_conv' fun_eq_iff split: exec_profile.splits)

lemma store_load_iff:
  "store_load ref job_id s = Inr j \<longleftrightarrow>
     matches_identifier job_id \<and> mutation s job_id = Inr ()
     \<and> (\<exists>f. map_of (st_files s) (path_for s job_id) = Some f \<and> read_job ref f = Inr j)
     \<and> jb_job_id j = job_id \<and> jb_profile j = st_profile s"
  by (auto simp: store_load_def bind_res_Inr_iff split: option.splits)

lemma store_load_wf: "store_load ref job_id s = Inr j \<Longrightarrow> wf_job j"
  by (auto simp: store_load_iff intro: read_job_wf)

text \<open>The compare-and-set, seen from the outcome.\<close>

definition commit_replaces :: "env_reference \<Rightarrow> job \<Rightarrow> int \<Rightarrow> run_store \<Rightarrow> job \<Rightarrow> bool" where
  "commit_replaces ref j expected s current \<longleftrightarrow>
     mutation s (jb_job_id j) = Inr () \<and> matches_identifier (jb_job_id j)
     \<and> (\<exists>f. map_of (st_files s) (path_for s (jb_job_id j)) = Some f \<and> read_job ref f = Inr current)
     \<and> job_as_dict current \<noteq> job_as_dict j \<and> expected = jb_revision current
     \<and> jb_revision j = jb_revision current + 1 \<and> jb_profile j = st_profile s
     \<and> jb_environment j = jb_environment current"

lemma commit_job_cases:
  assumes "commit_job ref j expected s = (r, s')"
  obtains (replaced) current where "r = Inr (SW_ACCEPTED, j)" "s' = store_write j s"
      "commit_replaces ref j expected s current"
  | (refused) "s' = s" "\<And>k. r \<noteq> Inr (SW_ACCEPTED, k)"
      "\<And>current. \<not> commit_replaces ref j expected s current"
proof (cases "\<exists>current. commit_replaces ref j expected s current")
  case True
  then obtain current where "commit_replaces ref j expected s current" ..
  moreover from this have "commit_job ref j expected s = (Inr (SW_ACCEPTED, j), store_write j s)"
    by (auto simp: commit_job_def commit_replaces_def)
  ultimately show thesis using assms replaced by simp
next
  case False
  then have "s' = s \<and> (\<forall>k. r \<noteq> Inr (SW_ACCEPTED, k))"
    using assms
    by (auto simp: commit_job_def commit_replaces_def split: sum.splits option.splits if_splits)
  with False show thesis using refused by blast
qed

lemma load_after_write:
  assumes "wf_job j" and "jb_profile j = st_profile s" and "matches_identifier (jb_job_id j)"
    and "mutation s (jb_job_id j) = Inr ()"
  shows "store_load ref (jb_job_id j) (store_write j s) = Inr (norm_job j)"
  using assms by (simp add: store_load_iff)

lemma load_other_after_write:
  assumes "st_profile s = DURABLE" and "job_id \<noteq> jb_job_id j"
  shows "store_load ref job_id (store_write j s) = store_load ref job_id s"
  using assms by (simp add: store_load_def cong: option.case_cong)

section \<open>The compare-and-set contract\<close>

text \<open>
  What a client of a run store may rely on for one job: reading and conditional replacement.
  \<open>mine\<close> says which candidates are versions of that job.
\<close>

locale cas_store =
  fixes load :: "'s \<Rightarrow> job res"
    and commit :: "job \<Rightarrow> int \<Rightarrow> 's \<Rightarrow> write_result res \<times> 's"
    and mine :: "job \<Rightarrow> bool"
  assumes load_wf: "load s = Inr j \<Longrightarrow> wf_job j"
    and load_mine: "load s = Inr j \<Longrightarrow> same_identity j k \<Longrightarrow> mine k"
    and commit_refused: "commit j e s = (r, s') \<Longrightarrow> (\<And>k. r \<noteq> Inr (SW_ACCEPTED, k)) \<Longrightarrow> s' = s"
    and commit_accepted: "commit j e s = (Inr (SW_ACCEPTED, k), s') \<Longrightarrow> wf_job j \<Longrightarrow> mine j \<Longrightarrow>
      load s = Inr cur \<Longrightarrow>
      k = j \<and> e = jb_revision cur \<and> load s' = Inr (norm_job j)"
    and commit_accepts: "load s = Inr cur \<Longrightarrow> succeeds cur j \<Longrightarrow>
      \<exists>s'. commit j (jb_revision cur) s = (Inr (SW_ACCEPTED, j), s')"

text \<open>Load, decide, commit at the revision that was loaded.\<close>

definition cas_update ::
  "('s \<Rightarrow> job res) \<Rightarrow> (job \<Rightarrow> int \<Rightarrow> 's \<Rightarrow> write_result res \<times> 's) \<Rightarrow> (job \<Rightarrow> plan) \<Rightarrow> 's
    \<Rightarrow> write_result res \<times> 's"
where
  "cas_update load commit plan s =
     (case load s of
        Inl e \<Rightarrow> (Inl e, s)
      | Inr current \<Rightarrow>
          (case plan current of
             Raise e \<Rightarrow> (Inl e, s)
           | Reply st \<Rightarrow> (Inr (st, current), s)
           | Commit candidate \<Rightarrow> commit candidate (jb_revision current) s))"

fun cas_updates ::
  "('s \<Rightarrow> job res) \<Rightarrow> (job \<Rightarrow> int \<Rightarrow> 's \<Rightarrow> write_result res \<times> 's) \<Rightarrow> (job \<Rightarrow> plan) list \<Rightarrow> 's
    \<Rightarrow> write_result res list \<times> 's"
where
  "cas_updates load commit [] s = ([], s)"
| "cas_updates load commit (p # ps) s =
     (let (r, s1) = cas_update load commit p s; (rs, s2) = cas_updates load commit ps s1
      in (r # rs, s2))"

fun was_accepted :: "write_result res \<Rightarrow> bool" where
  "was_accepted (Inr (SW_ACCEPTED, _)) = True"
| "was_accepted _ = False"

lemma was_accepted_iff: "was_accepted r \<longleftrightarrow> (\<exists>k. r = Inr (SW_ACCEPTED, k))"
  by (cases r rule: was_accepted.cases) auto

text \<open>What a later version of a job keeps of an earlier one.\<close>

definition evolves :: "job \<Rightarrow> job \<Rightarrow> bool" where
  "evolves j k \<longleftrightarrow>
     same_identity j k \<and> jb_revision j \<le> jb_revision k
     \<and> prefix (jb_result_markers j) (jb_result_markers k)"

lemma evolves_refl [simp]: "evolves j j"
  by (simp add: evolves_def same_identity_def)

lemma same_identity_sym: "same_identity j k \<Longrightarrow> same_identity k j"
  by (simp add: same_identity_def)

lemma same_identity_trans: "same_identity i j \<Longrightarrow> same_identity j k \<Longrightarrow> same_identity i k"
  by (simp add: same_identity_def)

lemma evolves_trans: "evolves i j \<Longrightarrow> evolves j k \<Longrightarrow> evolves i k"
  by (auto simp: evolves_def same_identity_def)

lemma succeeds_evolves: "succeeds j k \<Longrightarrow> evolves j (norm_job k)"
  by (auto simp: evolves_def succeeds_def same_identity_def job_ids_def)

context cas_store
begin

lemma update_cases:
  assumes "cas_update load commit plan s = (r, s')" and "sound_plan plan"
  obtains (accepted) cur k where "r = Inr (SW_ACCEPTED, k)" "load s = Inr cur" "plan cur = Commit k"
      "succeeds cur k" "load s' = Inr (norm_job k)"
  | (refused) "\<not> was_accepted r" "s' = s" "\<And>st k. r = Inr (st, k) \<Longrightarrow> load s = Inr k"
proof (cases "load s")
  case (Inl e)
  with assms(1) show thesis by (auto intro!: refused simp: cas_update_def)
next
  case (Inr cur)
  note loaded = this
  show thesis
  proof (cases "plan cur")
    case (Raise e)
    with assms(1) loaded show thesis by (auto intro!: refused simp: cas_update_def)
  next
    case (Reply st)
    with assms have "st \<noteq> SW_ACCEPTED" by (auto simp: sound_plan_def)
    with Reply assms(1) loaded show thesis
      by (intro refused) (auto simp: cas_update_def was_accepted_iff)
  next
    case (Commit k)
    with loaded assms(2) have k: "succeeds cur k" by (auto simp: sound_plan_def dest: load_wf)
    then obtain s1 where "commit k (jb_revision cur) s = (Inr (SW_ACCEPTED, k), s1)"
      using commit_accepts [OF loaded] by blast
    moreover from this have "load s1 = Inr (norm_job k)"
      using commit_accepted [OF _ _ _ loaded] load_mine [OF loaded] k by (auto simp: succeeds_def)
    ultimately show thesis
      using assms(1) loaded Commit k by (intro accepted) (auto simp: cas_update_def)
  qed
qed

text \<open>Any sequence of sound updates moves the job forward, once per accepted write.\<close>

lemma updates_advance:
  assumes "cas_updates load commit plans s = (rs, s')" and "\<forall>p \<in> set plans. sound_plan p"
    and "load s = Inr j"
  shows "\<exists>k. load s' = Inr k \<and> evolves j k
    \<and> jb_revision k = jb_revision j + int (length (filter was_accepted rs))"
  using assms
proof (induction plans arbitrary: s j rs)
  case Nil
  then show ?case by simp
next
  case (Cons p plans)
  obtain r s1 where one: "cas_update load commit p s = (r, s1)" by (cases "cas_update load commit p s")
  obtain rs' where rest: "cas_updates load commit plans s1 = (rs', s')" and rs: "rs = r # rs'"
    using Cons.prems(1) one by (auto split: prod.splits)
  have "sound_plan p" using Cons.prems(2) by simp
  with one show ?case
  proof (cases rule: update_cases)
    case (accepted cur k)
    then have k: "succeeds j k" using Cons.prems(3) by simp
    moreover obtain m where "load s' = Inr m" "evolves (norm_job k) m"
      "jb_revision m = jb_revision k + int (length (filter was_accepted rs'))"
      using Cons.IH [OF rest _ accepted(5)] Cons.prems(2) by auto
    moreover from this have "evolves j m" using evolves_trans [OF succeeds_evolves [OF k]] by blast
    ultimately show ?thesis using accepted(1) by (simp add: rs succeeds_def)
  next
    case refused
    then show ?thesis using Cons.IH [OF rest _ Cons.prems(3)[folded refused(2)]] Cons.prems(2) by (auto simp: rs)
  qed
qed

end

section \<open>The filesystem adapters keep the contract\<close>

lemma run_plan_update: "run_plan ref job_id = cas_update (store_load ref job_id) (commit_job ref)"
  by (simp add: fun_eq_iff run_plan_def cas_update_def)

lemma succeeds_same_job:
  "succeeds j k \<Longrightarrow> jb_job_id k = jb_job_id j \<and> jb_profile k = jb_profile j
     \<and> jb_environment k = jb_environment j \<and> job_as_dict j \<noteq> job_as_dict k"
  by (auto simp: succeeds_def same_identity_def job_ids_def dest: job_as_dict_revision)

interpretation fs: cas_store "store_load ref job_id" "commit_job ref" "\<lambda>j. jb_job_id j = job_id"
  for ref job_id
proof
  fix s j assume "store_load ref job_id s = Inr j"
  then show "wf_job j" by (rule store_load_wf)
next
  fix s j k assume "store_load ref job_id s = Inr j" and "same_identity j k"
  then show "jb_job_id k = job_id" by (auto simp: store_load_iff same_identity_def job_ids_def)
next
  fix j e s r s' assume "commit_job ref j e s = (r, s')" and "\<And>k. r \<noteq> Inr (SW_ACCEPTED, k)"
  then show "s' = s" by (cases rule: commit_job_cases) auto
next
  fix j e s k s' cur
  assume "commit_job ref j e s = (Inr (SW_ACCEPTED, k), s')" and j: "wf_job j" "jb_job_id j = job_id"
    and cur: "store_load ref job_id s = Inr cur"
  then show "k = j \<and> e = jb_revision cur \<and> store_load ref job_id s' = Inr (norm_job j)"
  proof (cases rule: commit_job_cases)
    case (replaced current)
    with cur j have "current = cur" by (auto simp: commit_replaces_def store_load_iff)
    with replaced load_after_write [OF j(1)] j show ?thesis by (auto simp: commit_replaces_def)
  qed blast
next
  fix s cur j assume cur: "store_load ref job_id s = Inr cur" and "succeeds cur j"
  from succeeds_same_job [OF this(2)] this have "commit_replaces ref j (jb_revision cur) s cur"
    by (auto simp: commit_replaces_def store_load_iff succeeds_def)
  moreover obtain r s' where c: "commit_job ref j (jb_revision cur) s = (r, s')"
    by (cases "commit_job ref j (jb_revision cur) s")
  ultimately show "\<exists>s'. commit_job ref j (jb_revision cur) s = (Inr (SW_ACCEPTED, j), s')"
    by (cases rule: commit_job_cases [OF c]) auto
qed

text \<open>Writes to one job of the durable adapter leave every other job alone.\<close>

lemma run_plan_frame:
  assumes "st_profile s = DURABLE" and "sound_plan plan" and "run_plan ref job_id plan s = (r, s')"
    and "other \<noteq> job_id"
  shows "store_load ref other s' = store_load ref other s"
proof (cases "store_load ref job_id s")
  case (Inl e)
  with assms(3) show ?thesis by (simp add: run_plan_def)
next
  case (Inr cur)
  show ?thesis
  proof (cases "plan cur")
    case (Commit k)
    from Commit assms(2) store_load_wf [OF Inr] have "succeeds cur k" by (simp add: sound_plan_def)
    with Inr have "jb_job_id k = job_id" by (auto simp: store_load_iff dest: succeeds_same_job)
    moreover from Inr Commit assms(3) have c: "commit_job ref k (jb_revision cur) s = (r, s')"
      by (simp add: run_plan_def)
    ultimately show ?thesis
      by (cases rule: commit_job_cases [OF c]) (use assms(1,4) in \<open>auto simp: load_other_after_write\<close>)
  qed (use assms(3) Inr in \<open>simp_all add: run_plan_def\<close>)
qed

end
