(* ===== verification/Store_Interleaving.thy ===== *)
theory Store_Interleaving
  imports Run_Store_Laws
begin

text \<open>
  Clients of one job interleaved at the granularity of the code's critical sections: an operation
  loads the job under the lock, releases it, decides, and commits under the lock again, so any
  number of other operations may commit in between. The reachable states keep every client's
  pending commit and a log of the accepted ones; the invariant is that each accepted commit was
  planned against exactly the version it replaces.
\<close>

record 's shared =
  sh_store :: 's
  sh_pending :: "nat \<rightharpoonup> job \<times> job"
  sh_log :: "(job \<times> job) list"

inductive client_step ::
  "('s \<Rightarrow> job res) \<Rightarrow> (job \<Rightarrow> int \<Rightarrow> 's \<Rightarrow> write_result res \<times> 's) \<Rightarrow> 's shared \<Rightarrow> 's shared \<Rightarrow> bool"
  for load commit
where
  Begin: "sh_pending y c = None \<Longrightarrow> load (sh_store y) = Inr cur \<Longrightarrow> sound_plan plan \<Longrightarrow>
    plan cur = Commit k \<Longrightarrow>
    client_step load commit y (y\<lparr>sh_pending := (sh_pending y)(c \<mapsto> (cur, k))\<rparr>)"
| Win: "sh_pending y c = Some (base, k) \<Longrightarrow>
    commit k (jb_revision base) (sh_store y) = (Inr (SW_ACCEPTED, m), s') \<Longrightarrow>
    client_step load commit y
      (y\<lparr>sh_store := s', sh_pending := (sh_pending y)(c := None), sh_log := sh_log y @ [(base, k)]\<rparr>)"
| Lose: "sh_pending y c = Some (base, k) \<Longrightarrow>
    commit k (jb_revision base) (sh_store y) = (r, s') \<Longrightarrow> \<not> was_accepted r \<Longrightarrow>
    client_step load commit y (y\<lparr>sh_store := s', sh_pending := (sh_pending y)(c := None)\<rparr>)"
| Crash: "client_step load commit y (y\<lparr>sh_pending := (sh_pending y)(c := None)\<rparr>)"

inductive reachable ::
  "('s \<Rightarrow> job res) \<Rightarrow> (job \<Rightarrow> int \<Rightarrow> 's \<Rightarrow> write_result res \<times> 's) \<Rightarrow> 's \<Rightarrow> 's shared \<Rightarrow> bool"
  for load commit s0
where
  Start: "reachable load commit s0 \<lparr>sh_store = s0, sh_pending = Map.empty, sh_log = []\<rparr>"
| Step: "reachable load commit s0 y \<Longrightarrow> client_step load commit y z \<Longrightarrow> reachable load commit s0 z"

text \<open>The versions the job has gone through, and the log as a serial history of them.\<close>

definition versions :: "job \<Rightarrow> (job \<times> job) list \<Rightarrow> job list" where
  "versions j0 log = j0 # map (norm_job \<circ> snd) log"

definition link :: "job \<Rightarrow> job \<times> job \<Rightarrow> bool" where
  "link v w \<longleftrightarrow> fst w = v \<and> succeeds v (snd w)"

definition serial :: "job \<Rightarrow> (job \<times> job) list \<Rightarrow> bool" where
  "serial j0 log \<longleftrightarrow> (\<forall>i < length log. link (versions j0 log ! i) (log ! i))"

lemma versions_simps [simp]:
  "versions j0 [] = [j0]"
  "versions j0 (log @ [w]) = versions j0 log @ [norm_job (snd w)]"
  "length (versions j0 log) = Suc (length log)"
  "versions j0 log \<noteq> []"
  by (simp_all add: versions_def)

lemma serial_Nil [simp]: "serial j0 []"
  by (simp add: serial_def)

lemma serial_snoc:
  "serial j0 (log @ [w]) \<longleftrightarrow> serial j0 log \<and> link (last (versions j0 log)) w"
proof -
  have "link (versions j0 (log @ [w]) ! i) ((log @ [w]) ! i) \<longleftrightarrow>
      (if i = length log then link (last (versions j0 log)) w
       else link (versions j0 log ! i) (log ! i))" if "i < Suc (length log)" for i
    using that by (simp add: nth_append last_conv_nth)
  then show ?thesis
    unfolding serial_def by (auto simp: less_Suc_eq simp del: versions_simps(2))
qed

lemma serial_revision:
  "serial j0 log \<Longrightarrow> i \<le> length log \<Longrightarrow> jb_revision (versions j0 log ! i) = jb_revision j0 + int i"
proof (induction log arbitrary: i rule: rev_induct)
  case Nil
  then show ?case by simp
next
  case (snoc w log)
  from snoc.prems(1) have s: "serial j0 log" "succeeds (last (versions j0 log)) (snd w)"
    by (simp_all add: serial_snoc link_def)
  show ?case
  proof (cases "i \<le> length log")
    case True
    then show ?thesis using snoc.IH [OF s(1) True] by (simp add: nth_append)
  next
    case False
    then have "i = Suc (length log)" using snoc.prems(2) by simp
    moreover have "jb_revision (last (versions j0 log)) = jb_revision j0 + int (length log)"
      using snoc.IH [OF s(1), of "length log"] by (simp add: last_conv_nth)
    ultimately show ?thesis using s(2) by (simp add: nth_append succeeds_def)
  qed
qed

lemma serial_distinct_versions:
  assumes "serial j0 log" and "a \<in> set (versions j0 log)" and "b \<in> set (versions j0 log)"
    and "jb_revision a = jb_revision b"
  shows "a = b"
proof -
  from assms(2,3) obtain i j where "i \<le> length log" "versions j0 log ! i = a"
    and "j \<le> length log" "versions j0 log ! j = b"
    by (auto simp: in_set_conv_nth less_Suc_eq_le)
  with serial_revision [OF assms(1), of i] serial_revision [OF assms(1), of j] assms(4)
  show ?thesis by auto
qed

lemma serial_identity: "serial j0 log \<Longrightarrow> v \<in> set (versions j0 log) \<Longrightarrow> same_identity j0 v"
proof (induction log arbitrary: v rule: rev_induct)
  case Nil
  then show ?case by (simp add: same_identity_def)
next
  case (snoc w log)
  from snoc.prems(1) have s: "serial j0 log" "succeeds (last (versions j0 log)) (snd w)"
    by (simp_all add: serial_snoc link_def)
  have "same_identity j0 (last (versions j0 log))" using snoc.IH [OF s(1)] by simp
  from same_identity_trans [OF this] succeeds_evolves [OF s(2)]
  have "same_identity j0 (norm_job (snd w))" by (simp add: evolves_def)
  with snoc.IH [OF s(1)] snoc.prems(2) show ?case by auto
qed

text \<open>The invariant.\<close>

definition no_lost_update :: "('s \<Rightarrow> job res) \<Rightarrow> job \<Rightarrow> 's shared \<Rightarrow> bool" where
  "no_lost_update load j0 y \<longleftrightarrow>
     serial j0 (sh_log y) \<and> load (sh_store y) = Inr (last (versions j0 (sh_log y)))
     \<and> (\<forall>c b k. sh_pending y c = Some (b, k) \<longrightarrow> b \<in> set (versions j0 (sh_log y)) \<and> succeeds b k)"

context cas_store
begin

lemma begin_invariant:
  assumes "no_lost_update load j0 y" and "load (sh_store y) = Inr cur" and "sound_plan plan"
    and "plan cur = Commit k"
  shows "no_lost_update load j0 (y\<lparr>sh_pending := (sh_pending y)(c \<mapsto> (cur, k))\<rparr>)"
proof -
  have "succeeds cur k" using assms(3,4) load_wf [OF assms(2)] by (simp add: sound_plan_def)
  then show ?thesis using assms(1,2) by (auto simp: no_lost_update_def)
qed

lemma win_invariant:
  assumes inv: "no_lost_update load j0 y" and pending: "sh_pending y c = Some (base, k)"
    and win: "commit k (jb_revision base) (sh_store y) = (Inr (SW_ACCEPTED, m), s')"
  shows "no_lost_update load j0
    (y\<lparr>sh_store := s', sh_pending := (sh_pending y)(c := None), sh_log := sh_log y @ [(base, k)]\<rparr>)"
proof -
  let ?vs = "versions j0 (sh_log y)"
  from inv pending have base: "base \<in> set ?vs" and k: "succeeds base k"
    and now: "load (sh_store y) = Inr (last ?vs)" and log: "serial j0 (sh_log y)"
    by (auto simp: no_lost_update_def)
  have "same_identity j0 (last ?vs)" "same_identity j0 base"
    using serial_identity [OF log] base by simp_all
  with k have "same_identity (last ?vs) k"
    by (meson same_identity_sym same_identity_trans succeeds_def)
  then have "mine k" by (rule load_mine [OF now])
  from commit_accepted [OF win _ this now] k
  have rev: "jb_revision base = jb_revision (last ?vs)" and after: "load s' = Inr (norm_job k)"
    by (auto simp: succeeds_def)
  have "base = last ?vs" by (rule serial_distinct_versions [OF log base _ rev]) simp
  with inv k after show ?thesis
    by (auto simp: no_lost_update_def serial_snoc link_def)
qed

lemma step_invariant:
  assumes "client_step load commit y z" and inv: "no_lost_update load j0 y"
  shows "no_lost_update load j0 z"
  using assms(1)
proof cases
  case (Begin c cur plan k)
  with inv show ?thesis by (simp add: begin_invariant)
next
  case (Win c base k m s')
  with inv show ?thesis by (simp add: win_invariant)
next
  case (Lose c base k r s')
  then have "s' = sh_store y" using commit_refused by (auto simp: was_accepted_iff)
  with Lose inv show ?thesis by (auto simp: no_lost_update_def)
next
  case (Crash c)
  with inv show ?thesis by (auto simp: no_lost_update_def)
qed

lemma reachable_invariant:
  assumes "reachable load commit s0 y" and "load s0 = Inr j0"
  shows "no_lost_update load j0 y"
  using assms
proof induction
  case Start
  then show ?case by (simp add: no_lost_update_def)
next
  case (Step y z)
  then show ?case by (blast intro: step_invariant)
qed

end

text \<open>Over the file store: a serial history, and the job at its end.\<close>

lemma file_store_serial:
  assumes "reachable (store_load ref job_id) (commit_job ref) s0 y"
    and "store_load ref job_id s0 = Inr j0"
  shows "serial j0 (sh_log y)
    \<and> store_load ref job_id (sh_store y) = Inr (last (versions j0 (sh_log y)))"
  using fs.reachable_invariant [OF assms] by (simp add: no_lost_update_def)

end
