(* ===== verification/Store_Refinement.thy ===== *)
theory Store_Refinement
  imports Run_Store_Laws
begin

text \<open>
  The abstract specification of the durable adapter: a finite map from job identifiers to jobs
  with conditional creation and replacement. The adapter's directory of job files refines it, for
  a directory in which every file holds the job its name says (\<open>store_ok\<close>), which the
  operations preserve.
\<close>

type_synonym job_map = "string \<rightharpoonup> job"

definition spec_create :: "job \<Rightarrow> job_map \<Rightarrow> write_result option \<times> job_map" where
  "spec_create j m =
     (if jb_profile j \<noteq> DURABLE then (None, m)
      else case m (jb_job_id j) of
        Some existing \<Rightarrow>
          (Some (if job_as_dict existing = job_as_dict j then SW_IDEMPOTENT else SW_CONFLICT, existing), m)
      | None \<Rightarrow> (Some (SW_ACCEPTED, j), m(jb_job_id j \<mapsto> norm_job j)))"

definition spec_commit :: "job \<Rightarrow> int \<Rightarrow> job_map \<Rightarrow> write_result option \<times> job_map" where
  "spec_commit j expected m =
     (case m (jb_job_id j) of
        None \<Rightarrow> (None, m)
      | Some current \<Rightarrow>
          if job_as_dict current = job_as_dict j then (Some (SW_IDEMPOTENT, current), m)
          else if expected \<noteq> jb_revision current then (Some (SW_STALE, current), m)
          else if jb_revision j = jb_revision current + 1 \<and> jb_profile j = DURABLE
            \<and> jb_environment j = jb_environment current
          then (Some (SW_ACCEPTED, j), m(jb_job_id j \<mapsto> norm_job j))
          else (Some (SW_CONFLICT, current), m))"

definition store_ok :: "env_reference \<Rightarrow> run_store \<Rightarrow> bool" where
  "store_ok ref s \<longleftrightarrow> st_profile s = DURABLE \<and>
     (\<forall>p f. map_of (st_files s) p = Some f \<longrightarrow>
        (\<exists>j. read_job ref f = Inr j \<and> jb_profile j = DURABLE \<and> p = path_for s (jb_job_id j)))"

fun right :: "'e + 'a \<Rightarrow> 'a option" where
  "right (Inl _) = None"
| "right (Inr x) = Some x"

definition abs_jobs :: "env_reference \<Rightarrow> run_store \<Rightarrow> job_map" where
  "abs_jobs ref s = (\<lambda>job_id. right (store_load ref job_id s))"

definition abs_op :: "env_reference \<Rightarrow> write_result res \<times> run_store \<Rightarrow> write_result option \<times> job_map" where
  "abs_op ref p = (right (fst p), abs_jobs ref (snd p))"

lemma wf_job_identifier: "wf_job j \<Longrightarrow> matches_identifier (jb_job_id j)"
  using wf_job_post_init [of j] by (simp add: job_post_init_iff)

lemma mutation_durable:
  "st_profile s = DURABLE \<Longrightarrow> mutation s job_id = (if matches_identifier job_id then Inr () else Inl invalid)"
  by (simp add: mutation_def)

lemma store_ok_lookup:
  assumes "store_ok ref s" and "matches_identifier job_id"
  shows "abs_jobs ref s job_id =
    (case map_of (st_files s) (path_for s job_id) of None \<Rightarrow> None | Some f \<Rightarrow> right (read_job ref f))"
    (is ?view)
    and "map_of (st_files s) (path_for s job_id) = Some f \<Longrightarrow> \<exists>j. read_job ref f = Inr j \<and> jb_job_id j = job_id"
proof -
  have d: "st_profile s = DURABLE" using assms(1) by (simp add: store_ok_def)
  have held: "\<exists>j. read_job ref f = Inr j \<and> jb_job_id j = job_id \<and> jb_profile j = DURABLE"
    if "map_of (st_files s) (path_for s job_id) = Some f" for f
    using assms(1) that by (fastforce simp: store_ok_def)
  then show "map_of (st_files s) (path_for s job_id) = Some f \<Longrightarrow> \<exists>j. read_job ref f = Inr j \<and> jb_job_id j = job_id"
    by blast
  show ?view
  proof (cases "map_of (st_files s) (path_for s job_id)")
    case None
    then show ?thesis using assms(2) by (simp add: abs_jobs_def store_load_def mutation_durable d)
  next
    case (Some f)
    then show ?thesis
      using assms(2) held [OF Some] by (auto simp: abs_jobs_def store_load_def mutation_durable d)
  qed
qed

lemma store_ok_write:
  assumes "store_ok ref s" and "wf_job j" and "jb_profile j = DURABLE"
  shows "store_ok ref (store_write j s)"
    and "abs_jobs ref (store_write j s) = (abs_jobs ref s)(jb_job_id j \<mapsto> norm_job j)"
proof -
  have d: "st_profile s = DURABLE" using assms(1) by (simp add: store_ok_def)
  show "store_ok ref (store_write j s)"
    using assms by (auto simp: store_ok_def)
  show "abs_jobs ref (store_write j s) = (abs_jobs ref s)(jb_job_id j \<mapsto> norm_job j)"
  proof
    fix job_id
    show "abs_jobs ref (store_write j s) job_id = ((abs_jobs ref s)(jb_job_id j \<mapsto> norm_job j)) job_id"
      using assms(2,3) d
      by (cases "job_id = jb_job_id j")
        (simp_all add: abs_jobs_def load_after_write load_other_after_write wf_job_identifier mutation_durable)
  qed
qed

lemma create_refines:
  assumes ok: "store_ok ref s" and wf: "wf_job j"
  shows "abs_op ref (store_create ref j s) = spec_create j (abs_jobs ref s)"
    and "store_ok ref (snd (store_create ref j s))"
proof -
  have d: "st_profile s = DURABLE" using ok by (simp add: store_ok_def)
  note id = wf_job_identifier [OF wf]
  note * = store_ok_lookup [OF ok id] store_ok_write [OF ok wf]
  show "abs_op ref (store_create ref j s) = spec_create j (abs_jobs ref s)"
    using * id
    by (auto simp: abs_op_def store_create_def spec_create_def d mutation_durable
        split: option.splits sum.splits)
  show "store_ok ref (snd (store_create ref j s))"
    using * id ok by (auto simp: store_create_def d mutation_durable split: option.splits sum.splits)
qed

lemma commit_refines:
  assumes ok: "store_ok ref s" and wf: "wf_job j"
  shows "abs_op ref (commit_job ref j expected s) = spec_commit j expected (abs_jobs ref s)"
    and "store_ok ref (snd (commit_job ref j expected s))"
proof -
  have d: "st_profile s = DURABLE" using ok by (simp add: store_ok_def)
  note id = wf_job_identifier [OF wf]
  note * = store_ok_lookup [OF ok id] store_ok_write [OF ok wf]
  show "abs_op ref (commit_job ref j expected s) = spec_commit j expected (abs_jobs ref s)"
    using * id
    by (auto simp: abs_op_def commit_job_def spec_commit_def d mutation_durable
        split: option.splits sum.splits)
  show "store_ok ref (snd (commit_job ref j expected s))"
    using * id ok by (auto simp: commit_job_def d mutation_durable split: option.splits sum.splits)
qed

end
