(* ===== verification/Work_Queue.thy ===== *)
theory Work_Queue
  imports Json
begin

text \<open>
  The persisted queue of work units of a run (\<open>src/k_slide/queue.py\<close>): units, selection of the
  next one, validation, content-addressed revision and the queue a new run starts with.
\<close>

section \<open>Data\<close>

datatype work_unit_status =
    WU_PENDING | WU_NORMALIZED | WU_EXTRACTED | WU_READY | WU_TRANSLATING | WU_TRANSLATED
  | WU_VERIFY_FAILED | WU_REPAIRING | WU_VERIFIED | WU_NEEDS_REVIEW | WU_FAILED

fun wu_status_value :: "work_unit_status \<Rightarrow> string" where
  "wu_status_value WU_PENDING = ''PENDING''"
| "wu_status_value WU_NORMALIZED = ''NORMALIZED''"
| "wu_status_value WU_EXTRACTED = ''EXTRACTED''"
| "wu_status_value WU_READY = ''READY''"
| "wu_status_value WU_TRANSLATING = ''TRANSLATING''"
| "wu_status_value WU_TRANSLATED = ''TRANSLATED''"
| "wu_status_value WU_VERIFY_FAILED = ''VERIFY_FAILED''"
| "wu_status_value WU_REPAIRING = ''REPAIRING''"
| "wu_status_value WU_VERIFIED = ''VERIFIED''"
| "wu_status_value WU_NEEDS_REVIEW = ''NEEDS_REVIEW''"
| "wu_status_value WU_FAILED = ''FAILED''"

record work_unit =
  wu_id :: string
  wu_document_id :: string
  wu_source_input_id :: string
  wu_source_index :: int
  wu_kind :: string
  wu_status :: work_unit_status
  wu_evidence_revision :: "string option"
  wu_translation_revision :: "string option"
  wu_canonical_ir_sha256 :: "string option"
  wu_translation_attempts :: int
  wu_repair_attempts :: int
  wu_verification_status :: string
  wu_revision :: int
  wu_created_at :: string
  wu_updated_at :: string

definition wu_as_dict :: "work_unit \<Rightarrow> json" where
  "wu_as_dict u = JObj [
     (''work_unit_id'', JStr (wu_id u)),
     (''document_id'', JStr (wu_document_id u)),
     (''source_input_id'', JStr (wu_source_input_id u)),
     (''source_index'', JInt (wu_source_index u)),
     (''kind'', JStr (wu_kind u)),
     (''status'', JStr (wu_status_value (wu_status u))),
     (''evidence_revision'', json_opt_str (wu_evidence_revision u)),
     (''translation_revision'', json_opt_str (wu_translation_revision u)),
     (''canonical_ir_sha256'', json_opt_str (wu_canonical_ir_sha256 u)),
     (''translation_attempts'', JInt (wu_translation_attempts u)),
     (''repair_attempts'', JInt (wu_repair_attempts u)),
     (''verification_status'', JStr (wu_verification_status u)),
     (''revision'', JInt (wu_revision u)),
     (''created_at'', JStr (wu_created_at u)),
     (''updated_at'', JStr (wu_updated_at u))]"

record work_queue =
  wq_run_id :: string
  wq_work_units :: "work_unit list"
  wq_queue_revision :: string
  wq_schema_version :: string

definition wq_without_revision :: "work_queue \<Rightarrow> json" where
  "wq_without_revision q = JObj [
     (''schema_version'', JStr (wq_schema_version q)),
     (''run_id'', JStr (wq_run_id q)),
     (''work_units'', JArr (map wu_as_dict (wq_work_units q)))]"

definition computed_revision :: "work_queue \<Rightarrow> string" where
  "computed_revision q = stable_revision (wq_without_revision q)"

definition wq_as_dict :: "work_queue \<Rightarrow> json" where
  "wq_as_dict q = JObj [
     (''schema_version'', JStr (wq_schema_version q)),
     (''run_id'', JStr (wq_run_id q)),
     (''work_units'', JArr (map wu_as_dict (wq_work_units q))),
     (''queue_revision'',
        JStr (if wq_queue_revision q = '''' then computed_revision q else wq_queue_revision q))]"

definition refresh_revision :: "work_queue \<Rightarrow> work_queue" where
  "refresh_revision q = q\<lparr>wq_queue_revision := computed_revision q\<rparr>"

section \<open>Operations\<close>

definition wq_get :: "work_queue \<Rightarrow> string \<Rightarrow> work_unit res" where
  "wq_get q i =
     (case find (\<lambda>u. wu_id u = i) (wq_work_units q) of
        Some u \<Rightarrow> Inr u
      | None \<Rightarrow> Inl (KSlideError UNKNOWN_WORK_UNIT))"

datatype next_result = NR_READY | NR_REPAIR_READY | NR_NEEDS_REVIEW | NR_ALL_TRANSLATED | NR_NOT_READY

definition next_unit :: "work_queue \<Rightarrow> next_result \<times> work_unit option" where
  "next_unit q =
     (case find (\<lambda>u. wu_status u = WU_READY) (wq_work_units q) of
        Some u \<Rightarrow> (NR_READY, Some u)
      | None \<Rightarrow>
          (case find (\<lambda>u. wu_status u \<in> set [WU_VERIFY_FAILED, WU_REPAIRING]) (wq_work_units q) of
             Some u \<Rightarrow> (NR_REPAIR_READY, Some u)
           | None \<Rightarrow>
               if list_ex (\<lambda>u. wu_status u = WU_NEEDS_REVIEW) (wq_work_units q)
               then (NR_NEEDS_REVIEW, None)
               else if list_all (\<lambda>u. wu_status u \<in> set [WU_TRANSLATED, WU_VERIFIED]) (wq_work_units q)
                       \<and> wq_work_units q \<noteq> []
               then (NR_ALL_TRANSLATED, None)
               else (NR_NOT_READY, None)))"

definition validate_queue :: "work_queue \<Rightarrow> unit res" where
  "validate_queue q = guards [
     (\<not> distinct (map wu_id (wq_work_units q)), KSlideError DUPLICATE_WORK_UNIT_ID),
     (wq_run_id q = '''', KSlideError STATE_CORRUPT)]"

text \<open>\<open>save_queue\<close> up to the file write: what is written, or the refusal.\<close>

definition save_queue :: "work_queue \<Rightarrow> (work_queue \<times> json) res" where
  "save_queue q =
     bind_res (validate_queue q) (\<lambda>_.
       let q' = refresh_revision q in Inr (q', wq_as_dict q'))"

text \<open>\<open>f"{n:0wd}"\<close>: decimal, padded with zeros to the width.\<close>

definition pad_nat :: "nat \<Rightarrow> nat \<Rightarrow> string" where
  "pad_nat w n = replicate (w - length (nat_text n)) (CHR ''0'') @ nat_text n"

definition created_unit :: "string \<Rightarrow> nat \<Rightarrow> work_unit" where
  "created_unit now i = \<lparr>
     wu_id = ''doc-'' @ pad_nat 3 i @ ''-input-'' @ pad_nat 4 i,
     wu_document_id = ''doc-'' @ pad_nat 3 i,
     wu_source_input_id = ''source-'' @ pad_nat 3 i,
     wu_source_index = int i - 1,
     wu_kind = ''input'',
     wu_status = WU_PENDING,
     wu_evidence_revision = None,
     wu_translation_revision = None,
     wu_canonical_ir_sha256 = None,
     wu_translation_attempts = 0,
     wu_repair_attempts = 0,
     wu_verification_status = ''NOT_RUN'',
     wu_revision = 0,
     wu_created_at = now,
     wu_updated_at = now\<rparr>"

definition create_queue :: "string \<Rightarrow> nat \<Rightarrow> string \<Rightarrow> work_queue res" where
  "create_queue run_id input_count now =
     (let q = \<lparr>wq_run_id = run_id,
               wq_work_units = map (created_unit now) [1..<Suc input_count],
               wq_queue_revision = '''',
               wq_schema_version = ''1.0''\<rparr>
      in bind_res (validate_queue q) (\<lambda>_. Inr (refresh_revision q)))"

section \<open>Lemmas\<close>

lemma without_revision_refresh [simp]:
  "wq_without_revision (q\<lparr>wq_queue_revision := r\<rparr>) = wq_without_revision q"
  by (simp add: wq_without_revision_def)

lemma refresh_revision_select [simp]:
  "wq_work_units (refresh_revision q) = wq_work_units q"
  "wq_run_id (refresh_revision q) = wq_run_id q"
  "wq_queue_revision (refresh_revision q) = computed_revision q"
  by (simp_all add: refresh_revision_def)

lemma computed_revision_refresh [simp]: "computed_revision (refresh_revision q) = computed_revision q"
  by (simp add: computed_revision_def refresh_revision_def)

lemma validate_queue_ok_iff:
  "validate_queue q = Inr () \<longleftrightarrow> distinct (map wu_id (wq_work_units q)) \<and> wq_run_id q \<noteq> ''''"
  by (auto simp: validate_queue_def)

lemma next_unit_pending:
  assumes "\<forall>u \<in> set (wq_work_units q). wu_status u = WU_PENDING"
  shows "next_unit q = (NR_NOT_READY, None)"
proof -
  have none: "find p (wq_work_units q) = None" if "\<And>u. wu_status u = WU_PENDING \<Longrightarrow> \<not> p u" for p
    using assms that by (auto simp: find_None_iff)
  have "find (\<lambda>u. wu_status u = WU_READY) (wq_work_units q) = None"
    and "find (\<lambda>u. wu_status u \<in> set [WU_VERIFY_FAILED, WU_REPAIRING]) (wq_work_units q) = None"
    by (auto intro: none)
  moreover have "\<not> list_ex (\<lambda>u. wu_status u = WU_NEEDS_REVIEW) (wq_work_units q)"
    using assms by (auto simp: list_ex_iff)
  moreover have "\<not> (list_all (\<lambda>u. wu_status u \<in> set [WU_TRANSLATED, WU_VERIFIED]) (wq_work_units q)
      \<and> wq_work_units q \<noteq> [])"
    using assms by (cases "wq_work_units q") auto
  ultimately show ?thesis by (simp only: next_unit_def option.case if_False simp_thms)
qed

lemma wq_get_ok:
  assumes "wq_get q i = Inr u"
  shows "u \<in> set (wq_work_units q)" and "wu_id u = i"
  using assms by (auto simp: wq_get_def split: option.splits dest!: find_Some_in)

text \<open>Decimal numerals determine the number, with or without leading zeros.\<close>

definition digit_val :: "char \<Rightarrow> nat" where
  "digit_val c = code_of c - 48"

definition decimal_val :: "string \<Rightarrow> nat" where
  "decimal_val s = foldl (\<lambda>v c. 10 * v + digit_val c) 0 s"

lemma digit_val_digit_char [simp]: "digit_val (digit_char n) = n mod 10"
proof -
  have "48 + n mod 10 < 256" using mod_less_divisor [of 10 n] by linarith
  then show ?thesis by (simp add: digit_val_def digit_char_def code_of_def)
qed

lemma decimal_val_nat_text: "decimal_val (nat_text n) = n"
proof (induction n rule: nat_text.induct)
  case (1 n)
  show ?case
  proof (cases "n < 10")
    case True
    then show ?thesis by (simp add: nat_text.simps [of n] decimal_val_def)
  next
    case False
    with 1 have "decimal_val (nat_text (n div 10)) = n div 10" by simp
    with False show ?thesis
      by (subst nat_text.simps) (simp add: decimal_val_def)
  qed
qed

lemma decimal_val_zeros: "decimal_val (replicate k (CHR ''0'') @ s) = decimal_val s"
proof (induction k)
  case 0
  then show ?case by simp
next
  case (Suc k)
  have "digit_val (CHR ''0'') = 0" by (simp add: digit_val_def code_of_def)
  with Suc show ?case by (simp add: decimal_val_def)
qed

lemma decimal_val_pad_nat [simp]: "decimal_val (pad_nat w n) = n"
  by (simp add: pad_nat_def decimal_val_zeros decimal_val_nat_text)

lemma pad_nat_inject [simp]: "pad_nat w m = pad_nat w n \<longleftrightarrow> m = n"
  by (metis decimal_val_pad_nat)

lemma nat_text_digits: "list_all is_digit_char (nat_text n)"
proof (induction n rule: nat_text.induct)
  case (1 n)
  have "is_digit_char (digit_char n)"
  proof -
    have "n mod 10 < 10" by simp
    then show ?thesis by (simp add: digit_char_def is_digit_char_def code_of_def)
  qed
  with 1 show ?case by (cases "n < 10") (simp_all add: nat_text.simps [of n])
qed

lemma nat_text_length: "n < 10 ^ k \<Longrightarrow> 0 < k \<Longrightarrow> length (nat_text n) \<le> k"
proof (induction n arbitrary: k rule: nat_text.induct)
  case (1 n)
  show ?case
  proof (cases "n < 10")
    case True
    with 1(3) show ?thesis by (simp add: nat_text.simps [of n])
  next
    case False
    obtain l where k: "k = Suc l" using 1(3) by (cases k) auto
    have "l \<noteq> 0" using False 1(2) k by (cases l) auto
    moreover have "n div 10 < 10 ^ l" using 1(2) k by (simp add: less_mult_imp_div_less mult.commute)
    ultimately have "length (nat_text (n div 10)) \<le> l" using 1(1) [OF False] by simp
    with False k show ?thesis by (simp add: nat_text.simps [of n])
  qed
qed

lemma digit_not_dash: "CHR ''-'' \<notin> set (nat_text n)"
proof (induction n rule: nat_text.induct)
  case (1 n)
  have d: "digit_char n \<noteq> CHR ''-''"
  proof
    assume "digit_char n = CHR ''-''"
    then have "code_of (digit_char n) = code_of (CHR ''-'')" by simp
    moreover have "code_of (digit_char n) = 48 + n mod 10"
    proof -
      have "48 + n mod 10 < 256" using mod_less_divisor [of 10 n] by linarith
      then show ?thesis by (simp add: digit_char_def code_of_def)
    qed
    ultimately show False by (simp add: code_of_def)
  qed
  with 1 show ?case by (subst nat_text.simps) auto
qed

lemma dash_free_prefix:
  assumes "s @ CHR ''-'' # t = s' @ CHR ''-'' # t'" and "CHR ''-'' \<notin> set s" and "CHR ''-'' \<notin> set s'"
  shows "s = s'"
  using assms
proof (induction s arbitrary: s')
  case Nil
  then show ?case by (cases s') auto
next
  case (Cons c cs)
  then show ?case by (cases s') auto
qed

lemma pad_nat_no_dash: "CHR ''-'' \<notin> set (pad_nat w n)"
  by (auto simp: pad_nat_def digit_not_dash)

lemma created_unit_id_inject: "wu_id (created_unit now i) = wu_id (created_unit now j) \<longleftrightarrow> i = j"
proof
  assume "wu_id (created_unit now i) = wu_id (created_unit now j)"
  then have "pad_nat 3 i @ CHR ''-'' # (''input-'' @ pad_nat 4 i)
      = pad_nat 3 j @ CHR ''-'' # (''input-'' @ pad_nat 4 j)"
    by (simp add: created_unit_def)
  then have "pad_nat 3 i = pad_nat 3 j"
    by (rule dash_free_prefix) (rule pad_nat_no_dash)+
  then show "i = j" by simp
qed simp

lemma created_ids_distinct: "distinct (map wu_id (map (created_unit now) xs)) \<longleftrightarrow> distinct xs"
proof -
  have "inj (\<lambda>i. wu_id (created_unit now i))"
    by (rule injI) (simp add: created_unit_id_inject)
  then have "inj_on (\<lambda>i. wu_id (created_unit now i)) (set xs)"
    by (rule inj_on_subset) simp
  then show ?thesis by (simp add: distinct_map comp_def)
qed

end
