(* ===== verification/Controller.thy ===== *)
theory Controller
  imports Run_Store_Laws Work_Queue
begin

text \<open>
  The execution controller of \<open>src/k_slide/execution.py\<close>: one engine step of a job over any run
  store (\<open>ExecutionController.run_step\<close>), and the reflection of the engine's own state into the
  execution record of a workspace (\<open>sync_workspace_execution\<close>). The store is the record of the
  operations the \<open>RunStore\<close> protocol names; the engine is a function of the checkpoint and the
  operation identifier that may raise. The clock is a function from the number of the reading to
  the timestamp it returned.
\<close>

section \<open>The store protocol\<close>

record 's store_ops =
  op_load :: "string \<Rightarrow> 's \<Rightarrow> job res"
  op_commit_checkpoint :: "checkpoint \<Rightarrow> int \<Rightarrow> string \<Rightarrow> 's \<Rightarrow> write_result res \<times> 's"
  op_commit_step :: "checkpoint \<Rightarrow> result_marker \<Rightarrow> int \<Rightarrow> string \<Rightarrow> 's \<Rightarrow> write_result res \<times> 's"
  op_request_cancellation :: "string \<Rightarrow> int option \<Rightarrow> string \<Rightarrow> string \<Rightarrow> 's \<Rightarrow> write_result res \<times> 's"
  op_acknowledge :: "string \<Rightarrow> int \<Rightarrow> bool \<Rightarrow> string \<Rightarrow> string \<Rightarrow> 's \<Rightarrow> write_result res \<times> 's"
  op_transition ::
    "string \<Rightarrow> int \<Rightarrow> lifecycle \<Rightarrow> outcome \<Rightarrow> resume option \<Rightarrow> string \<Rightarrow> 's \<Rightarrow> write_result res \<times> 's"
  op_record_retry :: "string \<Rightarrow> int \<Rightarrow> string \<Rightarrow> string \<Rightarrow> 's \<Rightarrow> write_result res \<times> 's"
  op_commit_result :: "string \<Rightarrow> result_marker \<Rightarrow> int \<Rightarrow> string \<Rightarrow> 's \<Rightarrow> write_result res \<times> 's"

definition file_store_ops :: "env_reference \<Rightarrow> run_store store_ops" where
  "file_store_ops ref = \<lparr>
     op_load = store_load ref,
     op_commit_checkpoint = commit_checkpoint ref,
     op_commit_step = commit_step ref,
     op_request_cancellation = request_cancellation ref,
     op_acknowledge = acknowledge_cancellation ref,
     op_transition = transition_operational ref,
     op_record_retry = record_retry ref,
     op_commit_result = commit_result ref\<rparr>"

text \<open>\<open>StoreWriteResult.accepted\<close>.\<close>

definition sw_accepted :: "write_status \<Rightarrow> bool" where
  "sw_accepted st \<longleftrightarrow> st \<in> set [SW_ACCEPTED, SW_IDEMPOTENT]"

type_synonym engine = "checkpoint \<Rightarrow> string \<Rightarrow> (checkpoint \<times> result_marker option) res"
type_synonym clock = "nat \<Rightarrow> string"

record controller_result =
  cr_status :: string
  cr_job :: job
  cr_engine_called :: bool

section \<open>One step\<close>

text \<open>
  \<open>result = store.op(...)\<close>; a refusal ends the step with its status, an accepted write goes on
  with the job the store returned.
\<close>

definition and_then ::
  "write_result res \<times> 's \<Rightarrow> (job \<Rightarrow> 's \<Rightarrow> controller_result res \<times> 's) \<Rightarrow> controller_result res \<times> 's"
where
  "and_then p k =
     (case p of
        (Inl e, s) \<Rightarrow> (Inl e, s)
      | (Inr (st, j), s) \<Rightarrow>
          if sw_accepted st then k j s
          else (Inr \<lparr>cr_status = value_in write_status_values st, cr_job = j,
                     cr_engine_called = False\<rparr>, s))"

text \<open>The engine's result, checked and committed.\<close>

definition commit_engine_result ::
  "'s store_ops \<Rightarrow> job \<Rightarrow> string \<Rightarrow> checkpoint \<Rightarrow> result_marker option \<Rightarrow> clock \<Rightarrow> 's
    \<Rightarrow> controller_result res \<times> 's"
where
  "commit_engine_result ops j operation_id c marker clock s =
     (if ck_job_id c \<noteq> jb_job_id j \<or> ck_run_id c \<noteq> jb_run_id j \<or> ck_execution_id c \<noteq> jb_execution_id j
      then (Inl invalid, s)
      else if ck_revision c \<noteq> ck_revision (jb_checkpoint j) + 1 then (Inl invalid, s)
      else case marker of
        Some m \<Rightarrow>
          if mk_operation_id m \<noteq> operation_id then (Inl invalid, s)
          else (case op_commit_step ops c m (jb_revision j) (clock 4) s of
             (Inl e, s') \<Rightarrow> (Inl e, s')
           | (Inr (st, j'), s') \<Rightarrow>
               if sw_accepted st
               then (Inr \<lparr>cr_status = ''ACCEPTED'', cr_job = j', cr_engine_called = True\<rparr>, s')
               else if st = SW_STALE
                 \<and> list_ex (\<lambda>x. mk_operation_id x = operation_id) (jb_result_markers j')
               then (Inr \<lparr>cr_status = ''REPLAYED'', cr_job = j', cr_engine_called = False\<rparr>, s')
               else (Inr \<lparr>cr_status = value_in write_status_values st, cr_job = j',
                          cr_engine_called = False\<rparr>, s'))
      | None \<Rightarrow>
          (case op_commit_checkpoint ops c (jb_revision j) (clock 4) s of
             (Inl e, s') \<Rightarrow> (Inl e, s')
           | (Inr (st, j'), s') \<Rightarrow>
               if sw_accepted st
               then (Inr \<lparr>cr_status = ''ACCEPTED'', cr_job = j', cr_engine_called = True\<rparr>, s')
               else (Inr \<lparr>cr_status = value_in write_status_values st, cr_job = j',
                          cr_engine_called = True\<rparr>, s')))"

definition execute_step ::
  "'s store_ops \<Rightarrow> string \<Rightarrow> engine \<Rightarrow> clock \<Rightarrow> job \<Rightarrow> 's \<Rightarrow> controller_result res \<times> 's"
where
  "execute_step ops operation_id step clock j s =
     (if jb_lifecycle j \<notin> set [L_RUNNING, L_RETRYING]
      then (Inr \<lparr>cr_status = ''CONFLICT'', cr_job = j, cr_engine_called = False\<rparr>, s)
      else case step (jb_checkpoint j) operation_id of
        Inl e \<Rightarrow> (Inl e, s)
      | Inr (c, marker) \<Rightarrow> commit_engine_result ops j operation_id c marker clock s)"

definition start_job ::
  "'s store_ops \<Rightarrow> string \<Rightarrow> string \<Rightarrow> engine \<Rightarrow> clock \<Rightarrow> job \<Rightarrow> 's \<Rightarrow> controller_result res \<times> 's"
where
  "start_job ops job_id operation_id step clock j s =
     (if jb_lifecycle j = L_QUEUED
      then and_then (op_transition ops job_id (jb_revision j) L_RUNNING O_NONE None (clock 3) s)
             (execute_step ops operation_id step clock)
      else execute_step ops operation_id step clock j s)"

definition run_step ::
  "'s store_ops \<Rightarrow> environment option \<Rightarrow> string \<Rightarrow> string \<Rightarrow> engine \<Rightarrow> environment option \<Rightarrow> clock \<Rightarrow> 's
    \<Rightarrow> controller_result res \<times> 's"
where
  "run_step ops own_env job_id operation_id step env clock s =
     (if \<not> matches_identifier operation_id then (Inl invalid, s)
      else case op_load ops job_id s of
        Inl e \<Rightarrow> (Inl e, s)
      | Inr j \<Rightarrow>
          (case raise_environment_mismatch (jb_environment j)
                  (case env of None \<Rightarrow> own_env | Some _ \<Rightarrow> env) of
             Inl e \<Rightarrow> (Inl e, s)
           | Inr _ \<Rightarrow>
               if cn_requested (jb_cancellation j) then
                 (if cn_acknowledged (jb_cancellation j)
                  then (Inr \<lparr>cr_status = ''CANCELED'', cr_job = j, cr_engine_called = False\<rparr>, s)
                  else and_then
                    (op_acknowledge ops job_id (jb_revision j) True (clock 0) (clock 1) s)
                    (\<lambda>j' s'. (Inr \<lparr>cr_status = ''CANCELED'', cr_job = j', cr_engine_called = False\<rparr>, s')))
               else if list_ex (\<lambda>m. mk_operation_id m = operation_id) (jb_result_markers j)
               then (Inr \<lparr>cr_status = ''REPLAYED'', cr_job = j, cr_engine_called = False\<rparr>, s)
               else if jb_resume_eligibility j = RE_NOT_ELIGIBLE
               then (Inr \<lparr>cr_status = ''CONFLICT'', cr_job = j, cr_engine_called = False\<rparr>, s)
               else if jb_lifecycle j = L_COMPLETED \<and> jb_terminal_outcome j = O_NEEDS_REVIEW
               then and_then
                 (op_transition ops job_id (jb_revision j) L_RETRYING O_NONE None (clock 2) s)
                 (start_job ops job_id operation_id step clock)
               else start_job ops job_id operation_id step clock j s))"

section \<open>Reflecting the engine's state\<close>

definition new_execution_job ::
  "string \<Rightarrow> exec_profile \<Rightarrow> string \<Rightarrow> string \<Rightarrow> int \<Rightarrow> int \<Rightarrow> int \<Rightarrow> environment option \<Rightarrow> string \<Rightarrow> job res"
where
  "new_execution_job run_id prof scope_ref store_ref total_units max_attempts engine_rev env now =
     job_new run_id prof scope_ref store_ref None None total_units max_attempts engine_rev env now"

definition operational_for_phase :: "run_phase \<Rightarrow> lifecycle \<times> outcome \<times> resume" where
  "operational_for_phase p =
     (if p = COMPLETE then (L_COMPLETED, O_DONE, RE_NOT_ELIGIBLE)
      else if p = NEEDS_REVIEW then (L_COMPLETED, O_NEEDS_REVIEW, RE_ELIGIBLE)
      else if p \<in> set [FAILED_INPUT, FAILED_RUNTIME, FAILED_NORMALIZATION, FAILED_EXTRACTION,
                       FAILED_SCHEMA, FAILED_INTERNAL]
      then (L_PROCESSING_FAILED, O_PROCESSING_FAILED, RE_NOT_ELIGIBLE)
      else if p = CREATED then (L_QUEUED, O_NONE, RE_ELIGIBLE)
      else if p \<in> set [FAIL_REPAIRABLE, REPAIRING] then (L_RETRYING, O_NONE, RE_ELIGIBLE)
      else (L_RUNNING, O_NONE, RE_ELIGIBLE))"

definition checkpoint_for_engine :: "job \<Rightarrow> run_state \<Rightarrow> work_queue option \<Rightarrow> checkpoint res" where
  "checkpoint_for_engine j state queue =
     (let tot = (case queue of Some q \<Rightarrow> int (length (wq_work_units q)) | None \<Rightarrow> rs_input_count state);
          completed = (case queue of
             Some q \<Rightarrow> int (length (filter (\<lambda>u. wu_status_value (wu_status u) \<in> set [''TRANSLATED'', ''VERIFIED''])
                                           (wq_work_units q)))
           | None \<Rightarrow> 0);
          queue_revision = (case queue of Some q \<Rightarrow> wq_queue_revision q | None \<Rightarrow> [])
      in bind_res (progress_post_init \<lparr>pg_engine_stage = phase_value (rs_phase state),
             pg_completed_work_units = completed, pg_total_work_units = tot,
             pg_current_work_unit = rs_current_work_unit state\<rparr>) (\<lambda>p.
         checkpoint_post_init ((jb_checkpoint j)\<lparr>
             ck_revision := ck_revision (jb_checkpoint j) + 1,
             ck_engine_phase := phase_value (rs_phase state),
             ck_progress := p,
             ck_engine_state_revision := rs_revision state,
             ck_queue_revision := queue_revision,
             ck_resume_eligibility := snd (snd (operational_for_phase (rs_phase state))),
             ck_checkpoint_sha256 := []\<rparr>)))"

definition same_checkpoint :: "checkpoint \<Rightarrow> checkpoint \<Rightarrow> bool" where
  "same_checkpoint c d \<longleftrightarrow>
     ck_engine_phase c = ck_engine_phase d \<and> ck_progress c = ck_progress d
     \<and> ck_engine_state_revision c = ck_engine_state_revision d
     \<and> ck_queue_revision c = ck_queue_revision d
     \<and> ck_resume_eligibility c = ck_resume_eligibility d"

text \<open>\<open>ensure_workspace_environment_compatible\<close>, given the effective environment and the policy check.\<close>

definition ensure_environment ::
  "env_reference \<Rightarrow> run_state \<Rightarrow> environment \<Rightarrow> unit res \<Rightarrow> run_store \<Rightarrow> job res"
where
  "ensure_environment ref state effective policy_check s =
     bind_res (store_load ref (''job-'' @ rs_run_id state) s) (\<lambda>j.
     bind_res (raise_environment_mismatch (jb_environment j) (Some effective)) (\<lambda>_.
       if operational_failure_phase (rs_phase state) then Inr j
       else bind_res policy_check (\<lambda>_. Inr j)))"

abbreviation stale :: err where
  "stale \<equiv> KSlideError EXECUTION_STALE"

definition sync_checkpoint ::
  "env_reference \<Rightarrow> checkpoint \<Rightarrow> job \<Rightarrow> clock \<Rightarrow> run_store \<Rightarrow> job res \<times> run_store"
where
  "sync_checkpoint ref desired current clock s =
     (if same_checkpoint desired (jb_checkpoint current) then (Inr current, s)
      else case commit_checkpoint ref desired (jb_revision current) (clock 0) s of
        (Inl e, s') \<Rightarrow> (Inl e, s')
      | (Inr (st, j), s') \<Rightarrow> if sw_accepted st then (Inr j, s') else (Inl stale, s'))"

definition sync_lifecycle ::
  "env_reference \<Rightarrow> run_phase \<Rightarrow> job \<Rightarrow> clock \<Rightarrow> run_store \<Rightarrow> job res \<times> run_store"
where
  "sync_lifecycle ref phase current clock s =
     (case operational_for_phase phase of
        (lc, oc, re) \<Rightarrow>
          if (jb_lifecycle current, jb_terminal_outcome current, jb_resume_eligibility current) = (lc, oc, re)
          then (Inr current, s)
          else case transition_operational ref (jb_job_id current) (jb_revision current) lc oc (Some re)
                 (clock 1) s of
            (Inl e, s') \<Rightarrow> (Inl e, s')
          | (Inr (st, j), s') \<Rightarrow> if sw_accepted st then (Inr j, s') else (Inl stale, s'))"

definition sync_workspace_execution ::
  "env_reference \<Rightarrow> run_state \<Rightarrow> work_queue option \<Rightarrow> environment \<Rightarrow> unit res \<Rightarrow> clock \<Rightarrow> run_store
    \<Rightarrow> job res \<times> run_store"
where
  "sync_workspace_execution ref state queue effective policy_check clock s =
     (case ensure_environment ref state effective policy_check s of
        Inl e \<Rightarrow> (Inl e, s)
      | Inr current \<Rightarrow>
          (case checkpoint_for_engine current state queue of
             Inl e \<Rightarrow> (Inl e, s)
           | Inr desired \<Rightarrow>
               (case sync_checkpoint ref desired current clock s of
                  (Inl e, s') \<Rightarrow> (Inl e, s')
                | (Inr j, s') \<Rightarrow> sync_lifecycle ref (rs_phase state) j clock s')))"

definition execution_metadata :: "job \<Rightarrow> json" where
  "execution_metadata j = JObj [
     (''contract_version'', JStr (jb_schema_version j)),
     (''run_id'', JStr (jb_run_id j)),
     (''job_id'', JStr (jb_job_id j)),
     (''execution_id'', JStr (jb_execution_id j)),
     (''profile'', JStr (value_in profile_values (jb_profile j))),
     (''lifecycle'', JStr (value_in lifecycle_values (jb_lifecycle j))),
     (''revision'', JInt (jb_revision j)),
     (''checkpoint_revision'', JInt (ck_revision (jb_checkpoint j))),
     (''checkpoint_sha256'',
        (case ck_as_dict (jb_checkpoint j) of
           JObj kvs \<Rightarrow> field_or JNull ''checkpoint_sha256'' kvs | v \<Rightarrow> v)),
     (''engine_phase'', JStr (ck_engine_phase (jb_checkpoint j))),
     (''progress'', progress_as_dict (ck_progress (jb_checkpoint j))),
     (''resume_eligibility'', JStr (value_in resume_values (jb_resume_eligibility j))),
     (''terminal_outcome'', JStr (value_in outcome_values (jb_terminal_outcome j))),
     (''cancellation'', cancellation_as_dict (jb_cancellation j)),
     (''retry'', retry_as_dict (jb_retry j)),
     (''committed_result_count'', JInt (int (length (jb_result_markers j)))),
     (''environment_identity'',
        (case jb_environment j of None \<Rightarrow> JNull | Some e \<Rightarrow> env_as_dict e)),
     (''environment_identity_sha256'',
        (case jb_environment j of None \<Rightarrow> JNull | Some e \<Rightarrow> JStr (env_identity_sha256 e)))]"

end
