(* ===== verification/Controller_Laws.thy ===== *)
theory Controller_Laws
  imports Controller
begin

text \<open>
  What one controller step does to a job, proved once for every store that keeps the
  \<open>RunStore\<close> contract (\<open>run_store_contract\<close>): the job only moves forward, a committed operation is
  never executed again, and a step that reports an accepted result has committed its marker. The
  file stores are an interpretation.
\<close>

text \<open>
  An operation that, on a job that can be loaded, either commits a successor of the job (and then
  reports it, or raises in what it does after the write) or leaves the job as it was.
\<close>

definition well_behaved ::
  "('s \<Rightarrow> job res) \<Rightarrow> ('s \<Rightarrow> write_result res \<times> 's) \<Rightarrow> bool"
where
  "well_behaved load f \<longleftrightarrow>
     (\<forall>s cur r s'. load s = Inr cur \<longrightarrow> f s = (r, s') \<longrightarrow>
        (\<exists>k. (r = Inr (SW_ACCEPTED, k) \<or> (\<exists>e. r = Inl e)) \<and> succeeds cur k \<and> load s' = Inr (norm_job k))
        \<or> (\<not> was_accepted r \<and> load s' = Inr cur \<and> (\<forall>st k. r = Inr (st, k) \<longrightarrow> k = cur)))"

text \<open>Engines return values of the data classes.\<close>

definition wf_engine :: "engine \<Rightarrow> bool" where
  "wf_engine step \<longleftrightarrow>
     (\<forall>c op d m. wf_checkpoint c \<longrightarrow> step c op = Inr (d, m) \<longrightarrow>
        wf_checkpoint d \<and> (case m of None \<Rightarrow> True | Some x \<Rightarrow> wf_marker x))"

lemma commit_engine_result_cases:
  assumes "commit_engine_result ops j op c m clock s = (r, s')"
  obtains (refused) "s' = s"
  | (with_marker) x r1 where "m = Some x" "ck_job_id c = jb_job_id j" "mk_operation_id x = op"
      "op_commit_step ops c x (jb_revision j) (clock 4) s = (r1, s')"
  | (without_marker) r1 where "m = None" "ck_job_id c = jb_job_id j"
      "op_commit_checkpoint ops c (jb_revision j) (clock 4) s = (r1, s')"
proof (cases "s' = s")
  case True
  then show thesis by (rule refused)
next
  case False
  with assms have id: "ck_job_id c = jb_job_id j"
    by (auto simp: commit_engine_result_def split: if_splits)
  show thesis
  proof (cases m)
    case None
    with assms False show thesis
      by (intro without_marker [OF None id, of "fst (op_commit_checkpoint ops c (jb_revision j) (clock 4) s)"])
        (auto simp: commit_engine_result_def prod_eq_iff split: if_splits prod.splits sum.splits)
  next
    case (Some x)
    with assms False have "mk_operation_id x = op"
      by (auto simp: commit_engine_result_def split: if_splits)
    with Some assms False show thesis
      by (intro with_marker [OF Some id, of "fst (op_commit_step ops c x (jb_revision j) (clock 4) s)"])
        (auto simp: commit_engine_result_def prod_eq_iff split: if_splits prod.splits sum.splits)
  qed
qed

text \<open>
  What an accepted step leaves behind: the marker of its operation, in the job the store holds.
\<close>

definition committed :: "('s \<Rightarrow> job res) \<Rightarrow> string \<Rightarrow> 's \<Rightarrow> bool" where
  "committed load op s \<longleftrightarrow> (\<exists>k. load s = Inr k
     \<and> (\<exists>m \<in> set (jb_result_markers k). mk_operation_id m = op))"

definition marks :: "engine \<Rightarrow> string \<Rightarrow> bool" where
  "marks step op \<longleftrightarrow> (\<forall>c d m. step c op = Inr (d, m) \<longrightarrow> m \<noteq> None)"

locale run_store_contract =
  fixes ops :: "'s store_ops" and job_id :: string
  assumes load_wf: "op_load ops job_id s = Inr j \<Longrightarrow> wf_job j \<and> jb_job_id j = job_id"
    and transition_behaves: "well_behaved (op_load ops job_id) (op_transition ops job_id e lc oc re t)"
    and acknowledge_behaves: "well_behaved (op_load ops job_id) (op_acknowledge ops job_id e safe t1 t2)"
    and retry_behaves: "well_behaved (op_load ops job_id) (op_record_retry ops job_id e code t)"
    and step_behaves: "wf_checkpoint c \<Longrightarrow> wf_marker m \<Longrightarrow> ck_job_id c = job_id \<Longrightarrow>
      well_behaved (op_load ops job_id) (op_commit_step ops c m e t)"
    and checkpoint_behaves: "wf_checkpoint c \<Longrightarrow> ck_job_id c = job_id \<Longrightarrow>
      well_behaved (op_load ops job_id) (op_commit_checkpoint ops c e t)"
    and step_keeps_marker: "op_commit_step ops c m e t s = (Inr (st, k), s') \<Longrightarrow> sw_accepted st \<Longrightarrow>
      \<exists>x \<in> set (jb_result_markers k). mk_operation_id x = mk_operation_id m"
begin

lemma write_evolves:
  assumes "well_behaved (op_load ops job_id) f" and "f s = (r, s')" and "op_load ops job_id s = Inr j"
  shows "\<exists>k. op_load ops job_id s' = Inr k \<and> evolves j k"
  using assms unfolding well_behaved_def by (fastforce intro: succeeds_evolves)

text \<open>The job an accepted or idempotent write returns is the one the store then holds.\<close>

lemma write_result_job:
  assumes "well_behaved (op_load ops job_id) f" and "f s = (Inr (st, j'), s')" and "op_load ops job_id s = Inr j"
  shows "\<exists>k. op_load ops job_id s' = Inr k \<and> (k = j' \<or> k = norm_job j') \<and> wf_job j'"
  using assms unfolding well_behaved_def by (fastforce simp: succeeds_def dest: load_wf)

lemma commit_engine_result_evolves:
  assumes run: "commit_engine_result ops j op c m clock s = (r, s')" and "op_load ops job_id s = Inr j0"
    and "jb_job_id j = job_id" and "wf_checkpoint c"
    and "case m of None \<Rightarrow> True | Some x \<Rightarrow> wf_marker x"
  shows "\<exists>k. op_load ops job_id s' = Inr k \<and> evolves j0 k"
  using run
proof (cases rule: commit_engine_result_cases)
  case refused
  with assms(2) show ?thesis by simp
next
  case (with_marker x r1)
  with assms(5) write_evolves [OF step_behaves [OF assms(4)] _ assms(2)] assms(3)
  show ?thesis by auto
next
  case (without_marker r1)
  with write_evolves [OF checkpoint_behaves [OF assms(4)] _ assms(2)] assms(3)
  show ?thesis by auto
qed

lemma execute_step_evolves:
  assumes "execute_step ops op step clock j s = (r, s')" and "op_load ops job_id s = Inr j0"
    and "wf_job j" and "jb_job_id j = job_id" and "wf_engine step"
  shows "\<exists>k. op_load ops job_id s' = Inr k \<and> evolves j0 k"
proof (cases "\<exists>c m. step (jb_checkpoint j) op = Inr (c, m) \<and> jb_lifecycle j \<in> set [L_RUNNING, L_RETRYING]")
  case True
  then obtain c m where cm: "step (jb_checkpoint j) op = Inr (c, m)"
    and "jb_lifecycle j \<in> set [L_RUNNING, L_RETRYING]" by blast
  with assms(1) have "commit_engine_result ops j op c m clock s = (r, s')"
    by (auto simp: execute_step_def)
  moreover have "wf_checkpoint c \<and> (case m of None \<Rightarrow> True | Some x \<Rightarrow> wf_marker x)"
    using assms(5) cm wf_job_parts(1) [OF assms(3)] unfolding wf_engine_def by blast
  ultimately show ?thesis using commit_engine_result_evolves [OF _ assms(2,4)] by blast
next
  case False
  with assms(1,2) have "s' = s" by (auto simp: execute_step_def split: if_splits sum.splits prod.splits)
  with assms(2) show ?thesis by simp
qed

text \<open>A write followed by more of the step.\<close>

lemma and_then_evolves:
  assumes "and_then (f s) k = (r, s')" and "well_behaved (op_load ops job_id) f"
    and "op_load ops job_id s = Inr j0"
    and "\<And>j1 j s1. f s = (Inr j1, s1) \<Longrightarrow> op_load ops job_id s1 = Inr j \<Longrightarrow> wf_job (snd j1) \<Longrightarrow>
      jb_job_id (snd j1) = job_id \<Longrightarrow> k (snd j1) s1 = (r, s') \<Longrightarrow>
      \<exists>m. op_load ops job_id s' = Inr m \<and> evolves j m"
  shows "\<exists>m. op_load ops job_id s' = Inr m \<and> evolves j0 m"
proof -
  obtain r1 s1 where one: "f s = (r1, s1)" by (cases "f s")
  from write_evolves [OF assms(2) one assms(3)] obtain j where
    j: "op_load ops job_id s1 = Inr j" "evolves j0 j" by blast
  show ?thesis
  proof (cases "s' = s1")
    case True
    with j show ?thesis by blast
  next
    case False
    with assms(1) one obtain st j1 where r1: "r1 = Inr (st, j1)" and rest: "k j1 s1 = (r, s')"
      by (auto simp: and_then_def split: sum.splits prod.splits if_splits)
    from write_result_job [OF assms(2) one [unfolded r1] assms(3)] load_wf [OF j(1)] j(1)
    have "wf_job j1" "jb_job_id j1 = job_id" by auto
    with assms(4) [of "(st, j1)" s1 j] one r1 j(1) rest obtain m where
      "op_load ops job_id s' = Inr m" "evolves j m" by auto
    with j(2) evolves_trans show ?thesis by blast
  qed
qed

lemma start_job_evolves:
  assumes "start_job ops job_id op step clock j s = (r, s')" and "op_load ops job_id s = Inr j0"
    and "wf_job j" and "jb_job_id j = job_id" and "wf_engine step"
  shows "\<exists>k. op_load ops job_id s' = Inr k \<and> evolves j0 k"
proof (cases "jb_lifecycle j = L_QUEUED")
  case True
  with assms(1) have "and_then (op_transition ops job_id (jb_revision j) L_RUNNING O_NONE None (clock 3) s)
      (execute_step ops op step clock) = (r, s')"
    by (simp add: start_job_def)
  from and_then_evolves [OF this transition_behaves assms(2)] show ?thesis
    using execute_step_evolves [OF _ _ _ _ assms(5)] by blast
next
  case False
  with assms(1) have "execute_step ops op step clock j s = (r, s')" by (simp add: start_job_def)
  from execute_step_evolves [OF this assms(2-5)] show ?thesis .
qed

lemma run_step_evolves:
  assumes "run_step ops own job_id op step env clock s = (r, s')" and "op_load ops job_id s = Inr j0"
    and "wf_engine step"
  shows "\<exists>k. op_load ops job_id s' = Inr k \<and> evolves j0 k"
proof -
  note wf = load_wf [OF assms(2)]
  let ?ack = "and_then (op_acknowledge ops job_id (jb_revision j0) True (clock 0) (clock 1) s)
      (\<lambda>j' s'. (Inr \<lparr>cr_status = ''CANCELED'', cr_job = j', cr_engine_called = False\<rparr>, s'))"
  let ?resume = "and_then (op_transition ops job_id (jb_revision j0) L_RETRYING O_NONE None (clock 2) s)
      (start_job ops job_id op step clock)"
  consider "s' = s" | "?ack = (r, s')" | "?resume = (r, s')"
    | "start_job ops job_id op step clock j0 s = (r, s')"
    using assms(1,2) unfolding run_step_def by (auto split: if_splits sum.splits)
  then show ?thesis
  proof cases
    case 1
    with assms(2) show ?thesis by simp
  next
    case 2
    from and_then_evolves [OF this acknowledge_behaves assms(2)] show ?thesis by auto
  next
    case 3
    from and_then_evolves [OF this transition_behaves assms(2)] show ?thesis
      using start_job_evolves [OF _ _ _ _ assms(3)] by blast
  next
    case 4
    from start_job_evolves [OF this assms(2) _ _ assms(3)] wf show ?thesis by simp
  qed
qed

lemma commit_engine_result_accepted:
  assumes run: "commit_engine_result ops j op c (Some x) clock s = (Inr cr, s')"
    and "cr_status cr = ''ACCEPTED''" and "jb_job_id j = job_id"
    and "wf_checkpoint c" and "wf_marker x" and "op_load ops job_id s = Inr j0"
  shows "committed (op_load ops job_id) op s'"
proof -
  from run assms(2) obtain st j' where
    ok: "sw_accepted st" "op_commit_step ops c x (jb_revision j) (clock 4) s = (Inr (st, j'), s')"
    and id: "ck_job_id c = job_id" "mk_operation_id x = op"
    using assms(3)
    by (auto simp: commit_engine_result_def write_status_values_def sw_accepted_def
        split: if_splits prod.splits sum.splits write_status.splits)
  from step_keeps_marker [OF ok(2) ok(1)] id(2)
  have "\<exists>m \<in> set (jb_result_markers j'). mk_operation_id m = op" by simp
  moreover obtain k where "op_load ops job_id s' = Inr k" "k = j' \<or> k = norm_job j'"
    using write_result_job [OF step_behaves [OF assms(4,5) id(1)] ok(2) assms(6)] by blast
  ultimately show ?thesis unfolding committed_def by auto
qed

lemma execute_step_accepted:
  assumes run: "execute_step ops op step clock j s = (Inr cr, s')"
    and "cr_status cr = ''ACCEPTED''" and "wf_job j" and "jb_job_id j = job_id"
    and "wf_engine step" and "marks step op" and "op_load ops job_id s = Inr j0"
  shows "committed (op_load ops job_id) op s'"
proof -
  from run assms(2) obtain c m where cm: "step (jb_checkpoint j) op = Inr (c, m)"
    and c: "commit_engine_result ops j op c m clock s = (Inr cr, s')"
    by (auto simp: execute_step_def split: if_splits sum.splits)
  from cm assms(6) obtain x where x: "m = Some x" unfolding marks_def by blast
  have "wf_checkpoint c \<and> (case m of None \<Rightarrow> True | Some y \<Rightarrow> wf_marker y)"
    using assms(5) cm wf_job_parts(1) [OF assms(3)] unfolding wf_engine_def by blast
  with x have "wf_checkpoint c" "wf_marker x" by simp_all
  with commit_engine_result_accepted [OF c [unfolded x] assms(2,4) _ _ assms(7)] show ?thesis by blast
qed

lemma and_then_accepted:
  assumes "and_then (f s) k = (Inr cr, s')" and "cr_status cr = ''ACCEPTED''"
    and "well_behaved (op_load ops job_id) f" and "op_load ops job_id s = Inr j0"
    and "\<And>j s1 j1. wf_job j \<Longrightarrow> jb_job_id j = job_id \<Longrightarrow> op_load ops job_id s1 = Inr j1 \<Longrightarrow>
      k j s1 = (Inr cr, s') \<Longrightarrow> committed (op_load ops job_id) op s'"
  shows "committed (op_load ops job_id) op s'"
proof -
  obtain st j1 s1 where one: "f s = (Inr (st, j1), s1)" and rest: "k j1 s1 = (Inr cr, s')"
    using assms(1,2)
    by (auto simp: and_then_def sw_accepted_def write_status_values_def
        split: prod.splits sum.splits if_splits write_status.splits)
  from write_result_job [OF assms(3) one assms(4)] obtain k where
    k: "op_load ops job_id s1 = Inr k" "k = j1 \<or> k = norm_job j1" and j1: "wf_job j1" by blast
  with load_wf [of s1 k] have "jb_job_id j1 = job_id" by auto
  from assms(5) [OF j1 this k(1) rest] show ?thesis .
qed

lemma start_job_accepted:
  assumes run: "start_job ops job_id op step clock j s = (Inr cr, s')"
    and "cr_status cr = ''ACCEPTED''" and "wf_job j" and "jb_job_id j = job_id"
    and "wf_engine step" and "marks step op" and "op_load ops job_id s = Inr j0"
  shows "committed (op_load ops job_id) op s'"
proof (cases "jb_lifecycle j = L_QUEUED")
  case True
  with run have "and_then (op_transition ops job_id (jb_revision j) L_RUNNING O_NONE None (clock 3) s)
      (execute_step ops op step clock) = (Inr cr, s')"
    by (simp add: start_job_def)
  from and_then_accepted [OF this assms(2) transition_behaves assms(7)] show ?thesis
    using execute_step_accepted [OF _ assms(2) _ _ assms(5,6)] by blast
next
  case False
  with run have "execute_step ops op step clock j s = (Inr cr, s')" by (simp add: start_job_def)
  from execute_step_accepted [OF this assms(2-7)] show ?thesis .
qed

lemma run_step_accepted:
  assumes run: "run_step ops own job_id op step env clock s = (Inr cr, s')"
    and "cr_status cr = ''ACCEPTED''" and "wf_engine step" and "marks step op"
  shows "committed (op_load ops job_id) op s'"
proof -
  from run obtain j where j: "op_load ops job_id s = Inr j"
    by (auto simp: run_step_def split: if_splits sum.splits)
  let ?ack = "and_then (op_acknowledge ops job_id (jb_revision j) True (clock 0) (clock 1) s)
      (\<lambda>j' s'. (Inr \<lparr>cr_status = ''CANCELED'', cr_job = j', cr_engine_called = False\<rparr>, s'))"
  let ?resume = "and_then (op_transition ops job_id (jb_revision j) L_RETRYING O_NONE None (clock 2) s)
      (start_job ops job_id op step clock)"
  consider "?ack = (Inr cr, s')" | "?resume = (Inr cr, s')"
    | "start_job ops job_id op step clock j s = (Inr cr, s')"
    using run assms(2) j unfolding run_step_def by (auto split: if_splits sum.splits)
  then show ?thesis
  proof cases
    case 1
    with assms(2) show ?thesis
      by (auto simp: and_then_def sw_accepted_def write_status_values_def
          split: prod.splits sum.splits if_splits write_status.splits)
  next
    case 2
    from and_then_accepted [OF this assms(2) transition_behaves j] show ?thesis
      using start_job_accepted [OF _ assms(2) _ _ assms(3,4)] by blast
  next
    case 3
    from start_job_accepted [OF this assms(2) _ _ assms(3,4) j] load_wf [OF j] show ?thesis by blast
  qed
qed

text \<open>Replay: an operation whose marker is committed is not executed again and writes nothing.\<close>

lemma run_step_replay:
  assumes "op_load ops job_id s = Inr j" and "matches_identifier op"
    and "jb_environment j = (case env of None \<Rightarrow> own | Some _ \<Rightarrow> env)"
    and "\<not> cn_requested (jb_cancellation j)"
    and "\<exists>m \<in> set (jb_result_markers j). mk_operation_id m = op"
  shows "run_step ops own job_id op step env clock s =
    (Inr \<lparr>cr_status = ''REPLAYED'', cr_job = j, cr_engine_called = False\<rparr>, s)"
  using assms
  by (auto simp: run_step_def raise_environment_mismatch_cases list_ex_iff)

end

section \<open>The file stores\<close>

lemma run_plan_behaves:
  assumes "sound_plan plan"
  shows "well_behaved (store_load ref job_id) (run_plan ref job_id plan)"
  unfolding well_behaved_def
proof (intro allI impI)
  fix s cur r s'
  assume load: "store_load ref job_id s = Inr cur" and p: "run_plan ref job_id plan s = (r, s')"
  from p [unfolded run_plan_update] assms
  show "(\<exists>k. (r = Inr (SW_ACCEPTED, k) \<or> (\<exists>e. r = Inl e)) \<and> succeeds cur k \<and> store_load ref job_id s' = Inr (norm_job k))
    \<or> (\<not> was_accepted r \<and> store_load ref job_id s' = Inr cur \<and> (\<forall>st k. r = Inr (st, k) \<longrightarrow> k = cur))"
  proof (cases rule: fs.update_cases)
    case (accepted cur' k)
    with load show ?thesis by auto
  next
    case refused
    with load show ?thesis by auto
  qed
qed

lemma find_marker:
  "find (\<lambda>x. mk_operation_id x = op) ms = Some x \<Longrightarrow> x \<in> set ms \<and> mk_operation_id x = op"
  by (rule find_Some_in)

lemma commit_candidate_markers:
  "commit_candidate j = Commit k \<Longrightarrow> jb_result_markers k = jb_result_markers j"
  by (auto simp: commit_candidate_iff job_post_init_iff)

lemma marker_as_dict_id: "marker_as_dict x = marker_as_dict y \<Longrightarrow> mk_operation_id x = mk_operation_id y"
  by (simp add: marker_as_dict_def)

lemma job_as_dict_markers:
  assumes "job_as_dict k = job_as_dict j" and m: "m \<in> set (jb_result_markers j)"
  shows "\<exists>x \<in> set (jb_result_markers k). mk_operation_id x = mk_operation_id m"
proof -
  have "map marker_as_dict (jb_result_markers k) = map marker_as_dict (jb_result_markers j)"
    using assms(1) encoded_job_fields(16) [of k] encoded_job_fields(16) [of j]
    by (simp add: job_as_dict_encoded)
  from arg_cong [OF this, of set]
  have "marker_as_dict ` set (jb_result_markers k) = marker_as_dict ` set (jb_result_markers j)"
    by (simp only: set_map)
  with m have "marker_as_dict m \<in> marker_as_dict ` set (jb_result_markers k)" by (simp only: imageI)
  then show ?thesis by (elim imageE) (rule bexI, erule marker_as_dict_id [symmetric])
qed

lemma commit_job_result:
  assumes c: "commit_job ref j e s = (Inr (st, k), s')" and "sw_accepted st"
  shows "job_as_dict k = job_as_dict j \<or> k = j"
  using c
proof (cases rule: commit_job_cases)
  case (replaced current)
  then show ?thesis by simp
next
  case refused
  with assms have "st = SW_IDEMPOTENT" by (auto simp: sw_accepted_def)
  with c show ?thesis
    unfolding commit_job_def by (simp split: sum.splits option.splits if_split_asm)
qed

lemma commit_step_marker:
  assumes "commit_step ref c m e t s = (Inr (st, k), s')" and "sw_accepted st"
  shows "\<exists>x \<in> set (jb_result_markers k). mk_operation_id x = mk_operation_id m"
proof -
  from assms(1) obtain cur where cur: "store_load ref (ck_job_id c) s = Inr cur"
    by (auto simp: commit_step_def run_plan_def split: sum.splits)
  show ?thesis
  proof (cases "plan_step c m e t cur")
    case (Raise err)
    with assms(1) cur show ?thesis by (simp add: commit_step_def run_plan_def)
  next
    case (Reply st')
    with plans_reply_refusals(2) [of c m e t cur] assms cur have "k = cur" and "st' = SW_IDEMPOTENT"
      by (auto simp: commit_step_def run_plan_def sw_accepted_def)
    with Reply show ?thesis
      by (fastforce simp: plan_step_def dest: find_marker split: sum.splits option.splits if_splits)
  next
    case (Commit cand)
    then have m: "m \<in> set (jb_result_markers cand)"
      by (auto simp: plan_step_def dest!: commit_candidate_markers split: sum.splits option.splits if_splits)
    have "commit_job ref cand (jb_revision cur) s = (Inr (st, k), s')"
      using assms(1) cur Commit by (simp add: commit_step_def run_plan_def)
    from commit_job_result [OF this assms(2)] have "job_as_dict k = job_as_dict cand \<or> k = cand" .
    then show ?thesis
    proof
      assume "job_as_dict k = job_as_dict cand"
      from job_as_dict_markers [OF this m] show ?thesis .
    next
      assume "k = cand"
      with m show ?thesis by auto
    qed
  qed
qed

lemma file_store_ops_select [simp]:
  "op_load (file_store_ops ref) = store_load ref"
  "op_commit_checkpoint (file_store_ops ref) = commit_checkpoint ref"
  "op_commit_step (file_store_ops ref) = commit_step ref"
  "op_request_cancellation (file_store_ops ref) = request_cancellation ref"
  "op_acknowledge (file_store_ops ref) = acknowledge_cancellation ref"
  "op_transition (file_store_ops ref) = transition_operational ref"
  "op_record_retry (file_store_ops ref) = record_retry ref"
  "op_commit_result (file_store_ops ref) = commit_result ref"
  by (simp_all add: file_store_ops_def)

interpretation file_ops: run_store_contract "file_store_ops ref" job_id for ref job_id
proof unfold_locales
  fix s j assume "op_load (file_store_ops ref) job_id s = Inr j"
  then show "wf_job j \<and> jb_job_id j = job_id" using store_load_wf by (simp add: store_load_iff) blast
next
  fix c m e t s st k s'
  assume "op_commit_step (file_store_ops ref) c m e t s = (Inr (st, k), s')" and "sw_accepted st"
  then show "\<exists>x \<in> set (jb_result_markers k). mk_operation_id x = mk_operation_id m"
    by (simp add: commit_step_marker)
qed (auto simp: transition_operational_def acknowledge_cancellation_def record_retry_def
    commit_step_def commit_checkpoint_def intro: run_plan_behaves sound_plans)

end
