(* ===== verification/Samples.thy ===== *)
theory Samples
  imports Store_Interleaving Store_Refinement Controller_Laws
begin

text \<open>
  Concrete jobs, stores and engines at which the properties are evaluated: one job of a durable
  store in each lifecycle state, before any engine step.
\<close>

definition sample_ref :: env_reference where
  "sample_ref = \<lparr>ref_inference_route_identity = ''route'', ref_inference_endpoint_identity = ''endpoint'',
     ref_inference_data_policy_version = ''1.0'', ref_inference_data_policy_hash = [],
     ref_inference_data_policy_identity = ''policy'',
     ref_egress_policy_version = ''1.0'', ref_egress_policy_hash = [],
     ref_egress_policy_identity = ''egress''\<rparr>"

definition sample_outcome :: "lifecycle \<Rightarrow> outcome" where
  "sample_outcome lc =
     (case lc of L_COMPLETED \<Rightarrow> O_NEEDS_REVIEW | L_CANCELED \<Rightarrow> O_CANCELED
        | L_PROCESSING_FAILED \<Rightarrow> O_PROCESSING_FAILED | _ \<Rightarrow> O_NONE)"

definition sample_cancellation :: "lifecycle \<Rightarrow> cancellation" where
  "sample_cancellation lc =
     (if lc = L_CANCELED
      then \<lparr>cn_requested = True, cn_acknowledged = True, cn_request_ref = Some ''cancel-job-1'',
            cn_requested_at = None, cn_acknowledged_at = None\<rparr>
      else no_cancellation)"

definition sample_progress :: "nat \<Rightarrow> progress" where
  "sample_progress done_units = \<lparr>pg_engine_stage = ''TRANSLATING'',
     pg_completed_work_units = int done_units, pg_total_work_units = 2,
     pg_current_work_unit = None\<rparr>"

definition sample_checkpoint :: "nat \<Rightarrow> checkpoint" where
  "sample_checkpoint n = \<lparr>ck_run_id = ''run-1'', ck_job_id = ''job-1'', ck_execution_id = ''execution-1'',
     ck_revision = int n, ck_engine_phase = ''TRANSLATING'', ck_progress = sample_progress (min n 2),
     ck_engine_state_revision = 0, ck_queue_revision = [], ck_resume_eligibility = RE_ELIGIBLE,
     ck_metadata = [], ck_checkpoint_sha256 = [], ck_schema_version = ''1.0'',
     ck_environment_identity_sha256 = []\<rparr>"

definition sample_job :: "exec_profile \<Rightarrow> lifecycle \<Rightarrow> job" where
  "sample_job prof lc = \<lparr>jb_run_id = ''run-1'', jb_job_id = ''job-1'', jb_execution_id = ''execution-1'',
     jb_profile = prof, jb_store_ref = \<lparr>sr_scope_ref = ''scope-1'', sr_store_ref = ''store-1''\<rparr>,
     jb_lifecycle = lc, jb_revision = 0, jb_checkpoint = sample_checkpoint 0,
     jb_cancellation = sample_cancellation lc,
     jb_retry = \<lparr>rt_attempt = 0, rt_max_attempts = 3, rt_disposition = RD_NONE,
                 rt_last_error_code = None\<rparr>,
     jb_resume_eligibility = RE_ELIGIBLE, jb_terminal_outcome = sample_outcome lc,
     jb_created_at = None, jb_updated_at = None, jb_schema_version = ''1.0'',
     jb_result_markers = [], jb_environment = None\<rparr>"

definition sample_marker :: "string \<Rightarrow> result_marker" where
  "sample_marker op = \<lparr>mk_operation_id = op, mk_result_kind = ''kind-1'',
     mk_result_sha256 = replicate 64 (CHR ''0''), mk_attempt = 0, mk_committed_at = None\<rparr>"

definition sample_store :: "lifecycle \<Rightarrow> run_store" where
  "sample_store lc = \<lparr>st_profile = DURABLE,
     st_files = [(''jobs/job-1.json'', FileJson (job_as_dict (sample_job DURABLE lc)))],
     st_workspace = \<lparr>ws_name = ''run-1'', ws_is_link = False, ws_fence_file = Absent,
                     ws_state_file = Absent\<rparr>\<rparr>"

abbreviation sample_loaded :: "lifecycle \<Rightarrow> job" where
  "sample_loaded lc \<equiv> norm_job (sample_job DURABLE lc)"

abbreviation noon :: string where
  "noon \<equiv> ''2024-01-01T12:00:00Z''"

lemma wf_sample_checkpoint: "wf_checkpoint (sample_checkpoint n)"
  by (simp add: wf_checkpoint_def checkpoint_post_init_iff sample_checkpoint_def sample_progress_def
      progress_post_init_def metadata_ok_def pattern_defs char_defs)

lemma wf_sample_marker: "matches_identifier op \<Longrightarrow> wf_marker (sample_marker op)"
  by (simp add: wf_marker_def marker_post_init_def sample_marker_def timestamp_ok_def
      list_all_iff pattern_defs char_defs)

lemma wf_sample_job: "wf_job (sample_job prof lc)"
proof -
  have checks: "\<forall>g \<in> set (job_checks (sample_job prof lc)). \<not> fst g"
    by (cases lc) (simp_all add: job_checks_def sample_job_def sample_outcome_def timestamp_ok_def
        sample_cancellation_def max_result_markers_def)
  have "job_post_init (sample_job prof lc) = Inr (sample_job prof lc)"
    unfolding job_post_init_iff using checks
    by (simp add: sample_job_def sample_checkpoint_def ck_ids_def job_ids_def bind_checkpoint_def
        pattern_defs char_defs)
  moreover have "cancellation_post_init (sample_cancellation lc) = Inr (sample_cancellation lc)"
    by (simp add: cancellation_post_init_def sample_cancellation_def no_cancellation_def
        timestamp_ok_def pattern_defs char_defs)
  ultimately show ?thesis
    using wf_sample_checkpoint
    by (simp add: wf_job_def sample_job_def store_ref_post_init_def retry_post_init_def
        pattern_defs char_defs)
qed

lemma sample_identifier: "matches_identifier ''job-1''"
  by (simp add: pattern_defs char_defs)

lemma load_sample: "store_load ref ''job-1'' (sample_store lc) = Inr (sample_loaded lc)"
  using wf_sample_job [of DURABLE lc]
  by (simp add: store_load_iff sample_store_def mutation_def path_for_def sample_identifier)
    (simp add: sample_job_def)

lemma sample_store_ok: "store_ok ref (sample_store lc)"
  using wf_sample_job [of DURABLE lc]
  by (simp add: store_ok_def sample_store_def path_for_def) (simp add: sample_job_def)

end
