(* ===== verification/Engine_Properties.thy ===== *)
theory Engine_Properties
  imports Samples
begin

text \<open>
  Properties of the local engine's state: the run's phase machine, the queue of work units and the
  environment identity a run is bound to.
\<close>

section \<open>The phase machine\<close>

definition sample_state :: "run_phase \<Rightarrow> run_state" where
  "sample_state p = \<lparr>rs_run_id = ''run-1'', rs_mode = ''translate'', rs_phase = p,
     rs_session_key = None, rs_input_count = 1, rs_current_work_unit = None, rs_next_action = None,
     rs_error_code = None, rs_error_message = None, rs_repair_attempts = 0, rs_revision = 0,
     rs_deletion_fence = None, rs_classification_admission = None, rs_schema_version = ''1.0'',
     rs_created_at = noon, rs_updated_at = noon\<rparr>"

text \<open>
  A run that has not yet extracted its evidence can complete only after extraction,
  verification and a verified state, in that order, whatever sequence of transitions is requested.
\<close>

theorem completion_requires_verified_evidence:
  assumes "early_phase (rs_phase s)" and "transitions s ps now = Inr s'" and "rs_phase s' = COMPLETE"
  shows "subseq [EXTRACTED, VERIFYING, VERIFIED, COMPLETE] ps"
proof (rule path_to_COMPLETE [OF assms(1)])
  show "phase_path (rs_phase s) ps"
    using assms(2) transitions_ok_iff [of s ps now] by simp
  show "last (rs_phase s # ps) = COMPLETE"
    using transitions_last_phase [OF assms(2)] assms(3) by simp
qed

theorem completion_requires_verified_evidence_witness:
  "subseq [EXTRACTED, VERIFYING, VERIFIED, COMPLETE] (route CREATED)"
proof -
  obtain s' where run: "transitions (sample_state CREATED) (route CREATED) noon = Inr s'"
    using transitions_ok_iff [of "sample_state CREATED" "route CREATED" noon]
    by (auto simp: sample_state_def is_ok_iff)
  show ?thesis
    by (rule completion_requires_verified_evidence [OF _ run])
      (use transitions_last_phase [OF run] in \<open>simp_all add: sample_state_def early_phase_def\<close>)
qed

text \<open>
  A run is stuck for good in exactly four phases (failed input, runtime, schema or internal):
  from these no sequence of requests leaves the phase, and from every other phase the requests of
  \<open>route\<close> are all accepted and end in completion.
\<close>

theorem only_four_phases_are_dead:
  "(if rs_phase s \<in> {FAILED_INPUT, FAILED_RUNTIME, FAILED_SCHEMA, FAILED_INTERNAL}
    then \<forall>ps now. case transitions s ps now of Inr s' \<Rightarrow> rs_phase s' = rs_phase s | Inl _ \<Rightarrow> True
    else \<exists>s'. transitions s (route (rs_phase s)) now = Inr s' \<and> rs_phase s' = COMPLETE)"
proof (cases "dead_phase (rs_phase s)")
  case True
  have "rs_phase s' = rs_phase s" if "transitions s ps t = Inr s'" for ps t s'
  proof -
    have "phase_path (rs_phase s) ps" using that transitions_ok_iff [of s ps t] by simp
    from dead_phase_path [OF True this] transitions_last_phase [OF that] last_in_set [of "rs_phase s # ps"]
    show ?thesis by auto
  qed
  with True show ?thesis by (auto simp: dead_phase_iff split: sum.splits)
next
  case False
  from route_path [OF this] transitions_ok_iff [of s "route (rs_phase s)" now]
  obtain s' where "transitions s (route (rs_phase s)) now = Inr s'" by (auto simp: is_ok_iff)
  moreover from this have "rs_phase s' = COMPLETE"
    using transitions_last_phase route_path [OF False] by metis
  ultimately show ?thesis using False by (auto simp: dead_phase_iff)
qed

section \<open>The work queue\<close>

text \<open>
  The queue of a new run is valid for any number of inputs: one pending unit per input, with
  pairwise different identifiers although the numbers are only padded to three and four digits,
  and a revision that is the hash of its own content; only an empty run identifier is refused.
\<close>

theorem created_queue_is_valid:
  "(if run_id = [] then create_queue run_id n now = Inl (KSlideError STATE_CORRUPT)
    else \<exists>q. create_queue run_id n now = Inr q \<and> validate_queue q = Inr ()
      \<and> length (wq_work_units q) = n \<and> distinct (map wu_id (wq_work_units q))
      \<and> list_all (\<lambda>u. wu_status u = WU_PENDING) (wq_work_units q)
      \<and> wq_queue_revision q = computed_revision q
      \<and> next_unit q = (NR_NOT_READY, None))"
proof -
  let ?units = "map (created_unit now) [1..<Suc n]"
  let ?q = "\<lparr>wq_run_id = run_id, wq_work_units = ?units, wq_queue_revision = [],
      wq_schema_version = ''1.0''\<rparr>"
  have ids: "distinct (map wu_id ?units)" by (simp only: created_ids_distinct distinct_upt)
  have pending: "\<forall>u \<in> set ?units. wu_status u = WU_PENDING" by (auto simp: created_unit_def)
  show ?thesis
  proof (cases "run_id = []")
    case True
    with ids show ?thesis by (simp add: create_queue_def validate_queue_def Let_def)
  next
    case False
    then have ok: "validate_queue ?q = Inr ()" using ids by (simp add: validate_queue_ok_iff)
    then have "create_queue run_id n now = Inr (refresh_revision ?q)"
      by (simp add: create_queue_def Let_def)
    moreover have "next_unit (refresh_revision ?q) = (NR_NOT_READY, None)"
      using pending by (intro next_unit_pending) simp
    moreover have "validate_queue (refresh_revision ?q) = Inr ()"
      using ok by (simp add: validate_queue_ok_iff del: upt_Suc)
    moreover have "list_all (\<lambda>u. wu_status u = WU_PENDING) ?units"
      using pending by (simp only: list_all_iff)
    moreover have "length ?units = n" by simp
    ultimately show ?thesis
      using False ids
      by (auto simp del: upt_Suc intro!: exI [of _ "refresh_revision ?q"])
  qed
qed

text \<open>
  The next unit is the first ready one of the queue; a unit waiting for repair is offered only
  when no unit is ready, review is reported only when nothing can be worked on, and the queue
  counts as translated only when it is non-empty and every unit is translated or verified.
\<close>

theorem next_unit_priority:
  "(case next_unit q of
      (NR_READY, Some u) \<Rightarrow>
        (\<exists>before after. wq_work_units q = before @ u # after \<and> wu_status u = WU_READY
           \<and> (\<forall>v \<in> set before. wu_status v \<noteq> WU_READY))
    | (NR_REPAIR_READY, Some u) \<Rightarrow>
        u \<in> set (wq_work_units q) \<and> wu_status u \<in> {WU_VERIFY_FAILED, WU_REPAIRING}
        \<and> (\<forall>v \<in> set (wq_work_units q). wu_status v \<noteq> WU_READY)
    | (NR_NEEDS_REVIEW, None) \<Rightarrow>
        (\<exists>u \<in> set (wq_work_units q). wu_status u = WU_NEEDS_REVIEW)
        \<and> (\<forall>v \<in> set (wq_work_units q). wu_status v \<notin> {WU_READY, WU_VERIFY_FAILED, WU_REPAIRING})
    | (NR_ALL_TRANSLATED, None) \<Rightarrow>
        wq_work_units q \<noteq> [] \<and> (\<forall>v \<in> set (wq_work_units q). wu_status v \<in> {WU_TRANSLATED, WU_VERIFIED})
    | (NR_NOT_READY, None) \<Rightarrow>
        wq_work_units q = [] \<or> (\<exists>v \<in> set (wq_work_units q). wu_status v \<notin> {WU_TRANSLATED, WU_VERIFIED})
    | _ \<Rightarrow> False)"
proof (cases "find (\<lambda>u. wu_status u = WU_READY) (wq_work_units q)")
  case (Some u)
  then obtain i where i: "i < length (wq_work_units q)" "wq_work_units q ! i = u" "wu_status u = WU_READY"
    "\<forall>j < i. wu_status (wq_work_units q ! j) \<noteq> WU_READY"
    by (auto simp: find_Some_iff)
  then have "wq_work_units q = take i (wq_work_units q) @ u # drop (Suc i) (wq_work_units q)"
    by (metis id_take_nth_drop)
  moreover have "\<forall>v \<in> set (take i (wq_work_units q)). wu_status v \<noteq> WU_READY"
    using i by (auto simp: in_set_conv_nth)
  ultimately show ?thesis using Some i(3) by (auto simp: next_unit_def)
next
  case None
  note ready = this
  show ?thesis
  proof (cases "find (\<lambda>u. wu_status u \<in> set [WU_VERIFY_FAILED, WU_REPAIRING]) (wq_work_units q)")
    case (Some u)
    have "next_unit q = (NR_REPAIR_READY, Some u)"
      by (simp only: next_unit_def option.case ready Some)
    with find_Some_in [OF Some] ready show ?thesis by (auto simp: find_None_iff)
  next
    case None
    let ?review = "list_ex (\<lambda>u. wu_status u = WU_NEEDS_REVIEW) (wq_work_units q)"
    let ?done = "list_all (\<lambda>u. wu_status u \<in> set [WU_TRANSLATED, WU_VERIFIED]) (wq_work_units q)
      \<and> wq_work_units q \<noteq> []"
    have "next_unit q = (if ?review then (NR_NEEDS_REVIEW, None)
        else if ?done then (NR_ALL_TRANSLATED, None) else (NR_NOT_READY, None))"
      by (simp only: next_unit_def option.case ready None)
    with None ready show ?thesis by (auto simp: find_None_iff list_ex_iff list_all_iff)
  qed
qed

definition sample_queue :: work_queue where
  "sample_queue = \<lparr>wq_run_id = ''run-1'',
     wq_work_units = [(created_unit noon 1)\<lparr>wu_status := WU_VERIFY_FAILED\<rparr>,
                      (created_unit noon 2)\<lparr>wu_status := WU_READY\<rparr>],
     wq_queue_revision = [], wq_schema_version = ''1.0''\<rparr>"

theorem next_unit_priority_witness:
  "\<exists>before after. wq_work_units sample_queue = before @ (created_unit noon 2)\<lparr>wu_status := WU_READY\<rparr> # after
     \<and> (\<forall>v \<in> set before. wu_status v \<noteq> WU_READY)"
proof -
  have "next_unit sample_queue = (NR_READY, Some ((created_unit noon 2)\<lparr>wu_status := WU_READY\<rparr>))"
    by (simp add: next_unit_def sample_queue_def)
  with next_unit_priority [of sample_queue] show ?thesis by auto
qed

section \<open>The environment\<close>

text \<open>
  A run may be resumed only in the environment it is bound to: the comparison accepts exactly
  equal identities (a run without a binding only a caller without one), and every other pair is
  refused as a mismatch.
\<close>

theorem resume_requires_the_bound_environment:
  "raise_environment_mismatch expected actual =
     (if expected = actual then Inr () else Inl (KSlideError EXECUTION_ENVIRONMENT_MISMATCH))"
  by (rule raise_environment_mismatch_cases)

end
