(* ===== verification/Store_Requests.thy ===== *)
theory Store_Requests
  imports Run_Store_Laws
begin

text \<open>
  The mutating operations of a run store as values, so that properties can speak of arbitrary
  sequences of them, and what such sequences do to the job: it advances once per accepted request,
  a canceled job stays canceled, a failed job stays failed unless its cancellation was requested,
  retries are counted, and nothing is written while a deletion is fenced.
\<close>

datatype request =
    Req_Checkpoint checkpoint int string
  | Req_Step checkpoint result_marker int string
  | Req_Cancel "int option" string string
  | Req_Acknowledge int bool string string
  | Req_Transition int lifecycle outcome "resume option" string
  | Req_Retry int string string
  | Req_Result result_marker int string

fun request_plan :: "request \<Rightarrow> job \<Rightarrow> plan" where
  "request_plan (Req_Checkpoint c e t) = plan_checkpoint c e t"
| "request_plan (Req_Step c m e t) = plan_step c m e t"
| "request_plan (Req_Cancel e t1 t2) = plan_cancel_request e t1 t2"
| "request_plan (Req_Acknowledge e safe t1 t2) = plan_cancel_ack e safe t1 t2"
| "request_plan (Req_Transition e lc oc re t) = plan_operational e lc oc re t"
| "request_plan (Req_Retry e code t) = plan_retry e code t"
| "request_plan (Req_Result m e t) = plan_result m e t"

text \<open>A request on the job with the given identifier, by the method the code has for it.\<close>

fun perform :: "env_reference \<Rightarrow> string \<Rightarrow> request \<Rightarrow> write_result store_op" where
  "perform ref job_id (Req_Checkpoint c e t) = commit_checkpoint ref (c\<lparr>ck_job_id := job_id\<rparr>) e t"
| "perform ref job_id (Req_Step c m e t) = commit_step ref (c\<lparr>ck_job_id := job_id\<rparr>) m e t"
| "perform ref job_id (Req_Cancel e t1 t2) = request_cancellation ref job_id e t1 t2"
| "perform ref job_id (Req_Acknowledge e safe t1 t2) = acknowledge_cancellation ref job_id e safe t1 t2"
| "perform ref job_id (Req_Transition e lc oc re t) = transition_operational ref job_id e lc oc re t"
| "perform ref job_id (Req_Retry e code t) = record_retry ref job_id e code t"
| "perform ref job_id (Req_Result m e t) = commit_result ref job_id m e t"

text \<open>Arguments that are values of the data classes, about the job itself.\<close>

fun wf_request :: "string \<Rightarrow> request \<Rightarrow> bool" where
  "wf_request job_id (Req_Checkpoint c e t) \<longleftrightarrow> wf_checkpoint c \<and> ck_job_id c = job_id"
| "wf_request job_id (Req_Step c m e t) \<longleftrightarrow> wf_checkpoint c \<and> ck_job_id c = job_id \<and> wf_marker m"
| "wf_request job_id (Req_Result m e t) \<longleftrightarrow> wf_marker m"
| "wf_request job_id _ \<longleftrightarrow> True"

fun perform_all :: "env_reference \<Rightarrow> string \<Rightarrow> request list \<Rightarrow> run_store \<Rightarrow> write_result res list \<times> run_store" where
  "perform_all ref job_id [] s = ([], s)"
| "perform_all ref job_id (q # qs) s =
     (let (r, s1) = perform ref job_id q s; (rs, s2) = perform_all ref job_id qs s1 in (r # rs, s2))"

lemma sound_request: "wf_request job_id q \<Longrightarrow> sound_plan (request_plan q)"
  by (cases q) (auto intro: sound_plans)

lemma ck_job_id_same: "ck_job_id c = job_id \<Longrightarrow> c\<lparr>ck_job_id := job_id\<rparr> = c"
  by (cases c) simp

lemma perform_plan: "wf_request job_id q \<Longrightarrow> perform ref job_id q = run_plan ref job_id (request_plan q)"
  by (cases q) (auto simp: op_defs ck_job_id_same)

lemma perform_updates:
  "\<forall>q \<in> set qs. wf_request job_id q \<Longrightarrow>
     perform_all ref job_id qs s = cas_updates (store_load ref job_id) (commit_job ref) (map request_plan qs) s"
  by (induction qs arbitrary: s)
    (simp_all add: perform_plan run_plan_update case_prod_beta Let_def)

lemma perform_all_advances:
  assumes "\<forall>q \<in> set qs. wf_request job_id q" and "perform_all ref job_id qs s = (rs, s')"
    and "store_load ref job_id s = Inr j"
  shows "\<exists>k. store_load ref job_id s' = Inr k \<and> evolves j k
    \<and> jb_revision k = jb_revision j + int (length (filter was_accepted rs))"
  using fs.updates_advance [of ref job_id "map request_plan qs" s rs s' j] assms sound_request
  by (auto simp: perform_updates [OF assms(1)])

section \<open>Invariants of a request carry over to sequences\<close>

lemma perform_cases:
  assumes "perform ref job_id q s = (r, s')" and "wf_request job_id q"
  obtains (accepted) cur k where "r = Inr (SW_ACCEPTED, k)" "store_load ref job_id s = Inr cur"
      "request_plan q cur = Commit k" "succeeds cur k" "store_load ref job_id s' = Inr (norm_job k)"
  | (refused) "\<not> was_accepted r" "s' = s" "\<And>st k. r = Inr (st, k) \<Longrightarrow> store_load ref job_id s = Inr k"
proof -
  have "cas_update (store_load ref job_id) (commit_job ref) (request_plan q) s = (r, s')"
    using assms by (simp add: perform_plan run_plan_update)
  from this sound_request [OF assms(2)] show thesis
  proof (cases rule: fs.update_cases)
    case accepted
    then show thesis by (rule that(1))
  next
    case refused
    then show thesis by (rule that(2))
  qed
qed

lemma perform_all_invariant:
  assumes "\<forall>q \<in> set qs. wf_request job_id q" and "perform_all ref job_id qs s = (rs, s')"
    and "store_load ref job_id s = Inr j" and "P j"
    and step: "\<And>q cur k. wf_job cur \<Longrightarrow> P cur \<Longrightarrow> request_plan q cur = Commit k \<Longrightarrow> succeeds cur k \<Longrightarrow> P (norm_job k)"
  shows "\<exists>k. store_load ref job_id s' = Inr k \<and> P k"
  using assms(1-4)
proof (induction qs arbitrary: s rs j)
  case Nil
  then show ?case by simp
next
  case (Cons q qs)
  obtain r s1 rs' where one: "perform ref job_id q s = (r, s1)"
    and rest: "perform_all ref job_id qs s1 = (rs', s')"
    using Cons.prems(2) by (auto split: prod.splits)
  have q: "wf_request job_id q" using Cons.prems(1) by simp
  from one q show ?case
  proof (cases rule: perform_cases)
    case (accepted cur k)
    then have "P (norm_job k)"
      using step [of cur q k] Cons.prems(3,4) store_load_wf by auto
    with Cons.IH [OF _ rest accepted(5)] Cons.prems(1) show ?thesis by simp
  next
    case refused
    with Cons.IH [OF _ rest] Cons.prems show ?thesis by simp
  qed
qed

section \<open>What a request does to the lifecycle\<close>

lemma commit_candidate_select:
  assumes "commit_candidate j = Commit k"
  shows "jb_lifecycle k = jb_lifecycle j" "jb_retry k = jb_retry j"
    "jb_terminal_outcome k = jb_terminal_outcome j" "jb_cancellation k = jb_cancellation j"
    "jb_resume_eligibility k = jb_resume_eligibility j" "jb_result_markers k = jb_result_markers j"
    "jb_revision k = jb_revision j"
  using assms by (auto simp: commit_candidate_iff job_post_init_iff)

text \<open>Only these requests change the lifecycle, the cancellation or the retry state.\<close>

lemma request_cancellation_kept:
  assumes "request_plan q cur = Commit k" and "cn_requested (jb_cancellation cur)"
  shows "cn_requested (jb_cancellation k)"
proof (cases q)
  case (Req_Acknowledge e safe t1 t2)
  with assms show ?thesis
    by (auto simp: plan_cancel_ack_def dest!: commit_candidate_select(4) post_init_results(3)
        split: if_splits sum.splits)
next
  case (Req_Retry e code t)
  with assms show ?thesis
    by (auto elim!: plan_retry_commit dest!: commit_candidate_select(4)
        simp: retry_again_def retry_failed_def split: if_splits)
qed (use assms in \<open>auto simp: plan_checkpoint_def plan_step_def plan_cancel_request_def
    plan_operational_def plan_result_def Let_def dest!: commit_candidate_select(4)
    split: if_splits sum.splits option.splits\<close>)

lemma request_unrequested:
  assumes "request_plan q cur = Commit k" and "\<not> cn_requested (jb_cancellation cur)"
    and "ended_lifecycle (jb_lifecycle cur)"
  shows "\<not> cn_requested (jb_cancellation k)"
proof (cases q)
  case (Req_Retry e code t)
  with assms show ?thesis
    by (auto elim!: plan_retry_commit dest!: commit_candidate_select(4)
        simp: retry_again_def retry_failed_def split: if_splits)
qed (use assms in \<open>auto simp: plan_checkpoint_def plan_step_def plan_cancel_request_def
    plan_cancel_ack_def plan_operational_def plan_result_def Let_def dest!: commit_candidate_select(4)
    split: if_splits sum.splits option.splits\<close>)

lemma canceled_stays:
  assumes "wf_job cur" and "jb_lifecycle cur = L_CANCELED" and "succeeds cur k"
  shows "jb_lifecycle k = L_CANCELED \<and> jb_terminal_outcome k = O_CANCELED"
proof -
  have "jb_lifecycle k = L_CANCELED" using assms(2,3) by (auto simp: succeeds_def lifecycle_move_def)
  with wf_job_outcome [of k] assms(3) show ?thesis by (auto simp: succeeds_def)
qed

lemma failed_stays:
  assumes "jb_lifecycle cur = L_PROCESSING_FAILED" and "\<not> cn_requested (jb_cancellation cur)"
    and "succeeds cur k" and "request_plan q cur = Commit k"
  shows "jb_lifecycle k = L_PROCESSING_FAILED \<and> jb_terminal_outcome k = O_PROCESSING_FAILED
    \<and> \<not> cn_requested (jb_cancellation k)"
proof -
  have "jb_lifecycle k = L_PROCESSING_FAILED"
    using assms(1-3) by (auto simp: succeeds_def lifecycle_move_def)
  with wf_job_outcome [of k] assms request_unrequested [OF assms(4,2)] show ?thesis
    by (auto simp: succeeds_def ended_lifecycle_def)
qed

section \<open>The deletion fence\<close>

lemma fenced_mutation:
  assumes "st_profile s = WORKSPACE_LOCAL" and "deletion_recorded (st_workspace s)"
  shows "\<exists>e. mutation s job_id = Inl e"
  using guard_refuses_recorded_deletion [OF assms(2)] assms(1)
  by (auto simp: mutation_def workspace_deletion_fenced_def is_ok_iff bind_res_Inl_iff
      split: sum.splits)

lemma fenced_load:
  "st_profile s = WORKSPACE_LOCAL \<Longrightarrow> deletion_recorded (st_workspace s) \<Longrightarrow>
     \<exists>e. store_load ref job_id s = Inl e"
  using fenced_mutation [of s job_id] by (auto simp: store_load_def)

lemma fenced_plan:
  assumes "st_profile s = WORKSPACE_LOCAL" and "deletion_recorded (st_workspace s)"
  shows "\<exists>e. run_plan ref job_id plan s = (Inl e, s)"
  using fenced_load [OF assms, of ref job_id] by (auto simp: run_plan_def)

section \<open>Retries\<close>

text \<open>\<open>record_retry\<close> as a committed change of the job.\<close>

lemma retry_commit_state:
  assumes "plan_retry e code t cur = Commit k"
  shows "jb_retry k = retried (jb_retry cur) (classify_operational_failure code) code
    \<and> (if retry_allowed cur code then jb_lifecycle k = L_RETRYING
       else jb_lifecycle k = L_PROCESSING_FAILED \<and> jb_terminal_outcome k = O_PROCESSING_FAILED
         \<and> jb_resume_eligibility k = RE_NOT_ELIGIBLE)"
proof -
  from assms obtain rt where
    rt: "retry_post_init (retried (jb_retry cur) (classify_operational_failure code) code) = Inr rt"
    and k: "commit_candidate (if retry_allowed cur code then retry_again cur rt t else retry_failed cur rt t)
      = Commit k"
    by (rule plan_retry_commit)
  from post_init_results(4) [OF rt] commit_candidate_select [OF k] show ?thesis
    by (simp add: retry_again_def retry_failed_def split: if_splits)
qed

lemma retried_attempt:
  assumes "retry_post_init r = Inr r"
  shows "rt_attempt r \<le> rt_attempt (retried r fc code)"
    and "rt_max_attempts (retried r fc code) = rt_max_attempts r"
  using assms by (auto simp: retried_def Let_def retry_post_init_def bind_guards_Inr_iff simp del: guards.simps)

lemma request_retry_state:
  assumes "request_plan q cur = Commit k" and "wf_job cur"
  shows "rt_attempt (jb_retry cur) \<le> rt_attempt (jb_retry k)
    \<and> rt_max_attempts (jb_retry k) = rt_max_attempts (jb_retry cur)"
proof (cases q)
  case (Req_Retry e code t)
  with assms retry_commit_state [of e code t cur k] wf_job_parts(3) [OF assms(2)]
  show ?thesis by (simp add: retried_attempt)
qed (use assms in \<open>auto simp: plan_checkpoint_def plan_step_def plan_cancel_request_def
    plan_cancel_ack_def plan_operational_def plan_result_def Let_def dest!: commit_candidate_select(2)
    split: if_splits sum.splits option.splits\<close>)

text \<open>An accepted retry that lets the job go on.\<close>

fun granted :: "request \<times> write_result res \<Rightarrow> bool" where
  "granted (Req_Retry _ _ _, Inr (SW_ACCEPTED, k)) \<longleftrightarrow> jb_lifecycle k = L_RETRYING"
| "granted _ \<longleftrightarrow> False"

lemma granted_accepted: "granted (q, r) \<Longrightarrow> was_accepted r"
  by (cases "(q, r)" rule: granted.cases) auto

lemma granted_counts:
  assumes "granted (q, Inr (SW_ACCEPTED, k))" and "request_plan q cur = Commit k"
  shows "rt_attempt (jb_retry k) = rt_attempt (jb_retry cur) + 1
    \<and> rt_attempt (jb_retry k) < rt_max_attempts (jb_retry cur)"
proof -
  from assms(1) obtain e code t where q: "q = Req_Retry e code t" and "jb_lifecycle k = L_RETRYING"
    by (cases "(q, Inr (SW_ACCEPTED, k) :: write_result res)" rule: granted.cases) auto
  with assms(2) retry_commit_state [of e code t cur k] show ?thesis
    by (auto simp: retry_allowed_def retried_def Let_def split: if_splits)
qed

lemma granted_bound:
  assumes "\<forall>q \<in> set qs. wf_request job_id q" and "perform_all ref job_id qs s = (rs, s')"
    and "store_load ref job_id s = Inr j"
  shows "int (length (filter granted (zip qs rs)))
    \<le> max 0 (rt_max_attempts (jb_retry j) - 1 - rt_attempt (jb_retry j))"
  using assms
proof (induction qs arbitrary: s rs j)
  case Nil
  then show ?case by simp
next
  case (Cons q qs)
  obtain r s1 rs' where one: "perform ref job_id q s = (r, s1)"
    and rest: "perform_all ref job_id qs s1 = (rs', s')" and rs: "rs = r # rs'"
    using Cons.prems(2) by (auto split: prod.splits)
  have q: "wf_request job_id q" using Cons.prems(1) by simp
  from one q show ?case
  proof (cases rule: perform_cases)
    case (accepted cur k)
    then have j: "cur = j" using Cons.prems(3) by simp
    have "int (length (filter granted (zip qs rs')))
        \<le> max 0 (rt_max_attempts (jb_retry k) - 1 - rt_attempt (jb_retry k))"
      using Cons.IH [OF _ rest accepted(5)] Cons.prems(1) by simp
    with granted_counts [of q k j] request_retry_state [OF accepted(3) [unfolded j]]
      store_load_wf [OF Cons.prems(3)] accepted(1,3) j
    show ?thesis by (auto simp: rs)
  next
    case refused
    then show ?thesis
      using Cons.IH [OF _ rest Cons.prems(3) [folded refused(2)]] Cons.prems(1) granted_accepted [of q r]
      by (auto simp: rs)
  qed
qed

section \<open>Candidates that differ in their operational state\<close>

lemma variant_ok:
  assumes wf: "wf_job j" and "job_ids j' = job_ids j" "jb_checkpoint j' = jb_checkpoint j"
      "jb_environment j' = jb_environment j" "jb_revision j \<le> jb_revision j'"
    and checks: "\<forall>g \<in> set (job_checks j'). \<not> fst g"
  shows "job_post_init j' = Inr j'"
proof -
  from wf_job_post_init [OF wf] have old: "job_post_init j = Inr j" .
  have "bind_checkpoint (jb_environment j') (jb_checkpoint j') = Inr (jb_checkpoint j')"
    using wf_job_bind [OF wf] assms(3,4) by simp
  with old assms show ?thesis by (auto simp: job_post_init_iff job_ids_def)
qed

lemma candidate_ok:
  assumes "wf_job j" and "job_ids j' = job_ids j" "jb_checkpoint j' = jb_checkpoint j"
      "jb_environment j' = jb_environment j" "jb_revision j' = jb_revision j + 1"
    and "\<forall>g \<in> set (job_checks j'). \<not> fst g"
  shows "commit_candidate j' = Commit j'"
  using variant_ok [OF assms(1-4) _ assms(6)] assms(5) by (simp add: commit_candidate_iff)

lemma wf_job_checks:
  assumes "wf_job j"
  shows "timestamp_ok (jb_created_at j)" "timestamp_ok (jb_updated_at j)"
    "length (jb_result_markers j) \<le> max_result_markers"
    "distinct (map mk_operation_id (jb_result_markers j))" "jb_schema_version j = ''1.0''"
  using wf_job_post_init [OF assms] by (auto simp: job_post_init_iff job_checks_def)

lemma run_plan_commits:
  assumes "store_load ref job_id s = Inr j" and "sound_plan plan" and "plan j = Commit k"
  shows "\<exists>s'. run_plan ref job_id plan s = (Inr (SW_ACCEPTED, k), s')
    \<and> store_load ref job_id s' = Inr (norm_job k)"
proof -
  obtain r s' where run: "run_plan ref job_id plan s = (r, s')" by (cases "run_plan ref job_id plan s")
  then have u: "cas_update (store_load ref job_id) (commit_job ref) plan s = (r, s')"
    by (simp add: run_plan_update)
  have "succeeds j k" using assms store_load_wf [OF assms(1)] by (simp add: sound_plan_def)
  from fs.commit_accepts [OF assms(1) this] obtain s1 where
    "commit_job ref k (jb_revision j) s = (Inr (SW_ACCEPTED, k), s1)" by blast
  with run assms(1,3) have "r = Inr (SW_ACCEPTED, k)" by (simp add: run_plan_def)
  with u assms(2) run show ?thesis
    by (auto elim!: fs.update_cases)
qed

text \<open>A failure recorded at the current revision of a job that has not ended is accepted.\<close>

lemma retried_ok:
  assumes "retry_post_init r = Inr r" and "error_code_ok code"
  shows "retry_post_init (retried r fc code) = Inr (retried r fc code)"
  using assms by (auto simp: retried_def Let_def retry_post_init_def bind_guards_Inr_iff simp del: guards.simps)

lemma retry_accepted:
  assumes "store_load ref job_id s = Inr j" and "jb_lifecycle j \<in> {L_QUEUED, L_RUNNING, L_RETRYING}"
    and "error_code_ok code" and "classify_operational_failure code \<noteq> FC_SEMANTIC_REPAIR"
    and "matches_timestamp t"
  shows "\<exists>k s'. record_retry ref job_id (jb_revision j) code t s = (Inr (SW_ACCEPTED, k), s')
    \<and> store_load ref job_id s' = Inr (norm_job k) \<and> plan_retry (jb_revision j) code t j = Commit k"
proof -
  have wf: "wf_job j" by (rule store_load_wf [OF assms(1)])
  let ?rt = "retried (jb_retry j) (classify_operational_failure code) code"
  let ?k = "if retry_allowed j code then retry_again j ?rt t else retry_failed j ?rt t"
  have "\<forall>g \<in> set (job_checks (retry_again j ?rt t)). \<not> fst g"
    and "\<forall>g \<in> set (job_checks (retry_failed j ?rt t)). \<not> fst g"
    using wf_job_checks [OF wf] wf_job_outcome [OF wf] assms(2,5)
    by (auto simp: job_checks_def retry_again_def retry_failed_def timestamp_ok_def)
  then have "commit_candidate ?k = Commit ?k"
    by (intro candidate_ok [OF wf]) (simp_all add: retry_again_def retry_failed_def job_ids_def)
  then have "plan_retry (jb_revision j) code t j = Commit ?k"
    using assms(2-4) retried_ok [OF wf_job_parts(3) [OF wf] assms(3)]
    by (auto simp: plan_retry_def Let_def retry_allowed_def retry_again_def retry_failed_def)
  with run_plan_commits [OF assms(1) sound_plan_retry this] show ?thesis
    by (auto simp: record_retry_def)
qed

end
