(* ===== verification/Execution_Properties.thy ===== *)
theory Execution_Properties
  imports Samples Store_Requests
begin

text \<open>
  Properties of the execution records, the run stores and the controller.
\<close>

section \<open>Records\<close>

text \<open>
  Every job the data classes accept survives the store's JSON form: decoding what the encoder
  wrote gives the job back (metadata in canonical order, checkpoint hash filled in), and encoding
  that again gives the same JSON, so comparisons of encodings are stable across a restart.
\<close>

theorem job_json_round_trip:
  assumes "wf_job j"
  shows "job_from_dict ref (job_as_dict j) = Inr (norm_job j) \<and> job_as_dict (norm_job j) = job_as_dict j"
  using assms by (simp add: job_decode_encode job_as_dict_norm)

theorem job_json_round_trip_witness:
  "job_from_dict sample_ref (job_as_dict (sample_job DURABLE L_RUNNING)) = Inr (sample_loaded L_RUNNING)"
  using job_json_round_trip [OF wf_sample_job [of DURABLE L_RUNNING]] by blast

text \<open>
  Whatever JSON object a store file holds, a job is read from it only when the object carries
  the hash of its other members, and the job read is one the data classes accept: its checkpoint
  belongs to it and to its environment, its outcome fits its lifecycle, and its result markers
  have different operations.
\<close>

theorem decoded_jobs_are_sealed_and_well_formed:
  assumes "job_from_dict ref (JObj kvs) = Inr j"
  shows "field_or JNull ''record_sha256'' kvs
      = JStr (stable_revision (JObj (without_key ''record_sha256'' kvs)))
    \<and> wf_job j \<and> ck_ids (jb_checkpoint j) = job_ids j
    \<and> jb_terminal_outcome j \<in> set (outcomes_of (jb_lifecycle j))
    \<and> distinct (map mk_operation_id (jb_result_markers j))"
proof -
  have wf: "wf_job j" using assms by (rule job_from_dict_wf)
  have "ck_ids (jb_checkpoint j) = job_ids j \<and> distinct (map mk_operation_id (jb_result_markers j))"
    using wf_job_post_init [OF wf] by (auto simp: job_post_init_iff job_checks_def)
  with wf wf_job_outcome [OF wf] job_from_dict_hash [OF assms] show ?thesis by blast
qed

theorem decoded_jobs_are_sealed_and_well_formed_witness:
  "field_or JNull ''record_sha256'' (encoded_job (sample_job DURABLE L_QUEUED))
     = JStr (stable_revision (JObj (without_key ''record_sha256'' (encoded_job (sample_job DURABLE L_QUEUED)))))"
  by (rule conjunct1 [OF decoded_jobs_are_sealed_and_well_formed])
    (use job_decode_encode [OF wf_sample_job [of DURABLE L_QUEUED]] in \<open>simp add: job_as_dict_encoded\<close>)

section \<open>Compare and set\<close>

text \<open>
  C32: Any sequence of store operations on a job, whatever their arguments and timestamps, leaves a
  job that is a later version of the first: same identifiers, profile, store and environment, no
  committed result marker lost or reordered, and a revision that has grown by exactly the number
  of accepted operations.
\<close>

theorem store_operations_only_advance:
  assumes "\<forall>q \<in> set qs. wf_request job_id q" and "perform_all ref job_id qs s = (rs, s')"
    and "store_load ref job_id s = Inr j"
  shows "\<exists>k. store_load ref job_id s' = Inr k \<and> same_identity j k
    \<and> prefix (jb_result_markers j) (jb_result_markers k)
    \<and> jb_revision k = jb_revision j + int (length (filter was_accepted rs))"
  using perform_all_advances [OF assms] by (auto simp: evolves_def)

theorem store_operations_only_advance_witness:
  "\<exists>k. store_load sample_ref ''job-1'' (snd (perform_all sample_ref ''job-1''
       [Req_Retry 0 ''KSLIDE_INTERNAL'' noon, Req_Cancel None noon noon] (sample_store L_RUNNING))) = Inr k
     \<and> same_identity (sample_loaded L_RUNNING) k"
  using store_operations_only_advance [of "[Req_Retry 0 ''KSLIDE_INTERNAL'' noon, Req_Cancel None noon noon]"
      "''job-1''" sample_ref "sample_store L_RUNNING" _ _ "sample_loaded L_RUNNING"] load_sample
  by (metis empty_iff empty_set prod.collapse set_ConsD wf_request.simps(4) wf_request.simps(7))

text \<open>
  C1: Interleaved clients lose no update. Clients load the job, decide and commit with other
  clients' commits in between, or stop half way; in every reachable state the accepted commits
  form one serial history in which each was computed from exactly the version it replaced, and
  the store holds the last of them.
\<close>

theorem interleaved_commits_are_serial:
  assumes "reachable (store_load ref job_id) (commit_job ref) s0 y"
    and "store_load ref job_id s0 = Inr j0"
  shows "(\<forall>i < length (sh_log y). fst (sh_log y ! i) = versions j0 (sh_log y) ! i
        \<and> succeeds (fst (sh_log y ! i)) (snd (sh_log y ! i)))
    \<and> store_load ref job_id (sh_store y) = Inr (last (versions j0 (sh_log y)))"
  using file_store_serial [OF assms] by (auto simp: serial_def link_def)

lemma sample_start:
  "\<exists>k. plan_operational 0 L_RUNNING O_NONE None noon (sample_loaded L_QUEUED) = Commit k"
proof -
  have "ck_environment_identity_sha256 (norm_checkpoint (sample_checkpoint 0)) = []"
    by (simp add: sample_checkpoint_def)
  then have "\<exists>k. job_post_init ((sample_loaded L_QUEUED)\<lparr>jb_lifecycle := L_RUNNING,
      jb_terminal_outcome := O_NONE, jb_resume_eligibility := RE_ELIGIBLE, jb_revision := 1,
      jb_updated_at := Some noon\<rparr>) = Inr k"
    using wf_job_post_init [OF wf_sample_job [of DURABLE L_RUNNING]]
    by (auto simp: job_post_init_iff sample_job_def ck_ids_def job_ids_def bind_checkpoint_def
        job_checks_def timestamp_ok_def sample_outcome_def sample_cancellation_def pattern_defs char_defs)
  then show ?thesis
    by (simp add: plan_operational_def Let_def commit_candidate_iff)
      (simp add: sample_job_def sample_outcome_def)
qed

theorem interleaved_commits_are_serial_witness:
  "\<exists>y :: run_store shared. length (sh_log y) = 1
     \<and> store_load sample_ref ''job-1'' (sh_store y) = Inr (last (versions (sample_loaded L_QUEUED) (sh_log y)))"
proof -
  let ?load = "store_load sample_ref ''job-1''" and ?commit = "commit_job sample_ref"
  let ?s0 = "sample_store L_QUEUED" and ?j0 = "sample_loaded L_QUEUED"
  let ?y0 = "\<lparr>sh_store = ?s0, sh_pending = Map.empty, sh_log = []\<rparr>"
  obtain k where k: "plan_operational 0 L_RUNNING O_NONE None noon ?j0 = Commit k"
    using sample_start by blast
  have "succeeds ?j0 k"
    using sound_plan_operational k wf_sample_job by (auto simp: sound_plan_def)
  then obtain s' where win: "?commit k (jb_revision ?j0) ?s0 = (Inr (SW_ACCEPTED, k), s')"
    using fs.commit_accepts [OF load_sample] by blast
  let ?y1 = "?y0\<lparr>sh_pending := Map.empty(0 \<mapsto> (?j0, k))\<rparr>"
  let ?y2 = "?y1\<lparr>sh_store := s', sh_pending := (sh_pending ?y1)(0 := None), sh_log := [(?j0, k)]\<rparr>"
  have "client_step ?load ?commit ?y0 ?y1"
    using client_step.Begin [OF _ _ sound_plan_operational k, of ?y0 0 ?load ?commit] load_sample by simp
  moreover have "client_step ?load ?commit ?y1 ?y2"
    using client_step.Win [of ?y1 0 ?j0 k ?commit k s' ?load] win by simp
  ultimately have r: "reachable ?load ?commit ?s0 ?y2"
    by (blast intro: reachable.intros)
  have "length (sh_log ?y2) = 1" by simp
  with conjunct2 [OF interleaved_commits_are_serial [OF r load_sample]] show ?thesis by blast
qed

text \<open>
  C2: The durable adapter's directory of job files implements a map from job identifiers to jobs
  with conditional creation and replacement: reading the directory as that map, creating and
  committing give the map's result and the map's next state, and the directory stays readable.
\<close>

theorem durable_store_refines_job_map:
  assumes "store_ok ref s" and "wf_job j"
  shows "abs_op ref (store_create ref j s) = spec_create j (abs_jobs ref s)
    \<and> abs_op ref (commit_job ref j expected s) = spec_commit j expected (abs_jobs ref s)
    \<and> store_ok ref (snd (store_create ref j s)) \<and> store_ok ref (snd (commit_job ref j expected s))"
  using create_refines [OF assms] commit_refines [OF assms] by blast

theorem durable_store_refines_job_map_witness:
  "abs_op sample_ref (store_create sample_ref (sample_job DURABLE L_QUEUED) (sample_store L_RUNNING))
     = spec_create (sample_job DURABLE L_QUEUED) (abs_jobs sample_ref (sample_store L_RUNNING))"
  using durable_store_refines_job_map [OF sample_store_ok wf_sample_job] by blast

section \<open>Deletion, cancellation, failure\<close>

text \<open>
  Once a deletion of a workspace run has begun, as its fence file or the run state records it,
  no operation of the workspace store succeeds: each raises and leaves every file as it was.
\<close>

theorem deletion_fence_stops_every_write:
  assumes "st_profile s = WORKSPACE_LOCAL" and "deletion_recorded (st_workspace s)"
  shows "(\<forall>job_id q. \<exists>e. perform ref job_id q s = (Inl e, s))
    \<and> (\<forall>j. \<exists>e. store_create ref j s = (Inl e, s))
    \<and> (\<forall>j expected. \<exists>e. commit_job ref j expected s = (Inl e, s))
    \<and> (\<forall>job_id. \<exists>e. store_load ref job_id s = Inl e)"
proof (intro conjI allI)
  show "\<exists>e. perform ref job_id q s = (Inl e, s)" for job_id q
    by (cases q) (auto simp: op_defs intro: fenced_plan [OF assms])
  show "\<exists>e. store_create ref j s = (Inl e, s)" for j
    using fenced_mutation [OF assms, of "jb_job_id j"] by (auto simp: store_create_def)
  show "\<exists>e. commit_job ref j expected s = (Inl e, s)" for j expected
    using fenced_mutation [OF assms, of "jb_job_id j"] by (auto simp: commit_job_def)
  show "\<exists>e. store_load ref job_id s = Inl e" for job_id
    by (rule fenced_load [OF assms])
qed

definition fenced_store :: run_store where
  "fenced_store = \<lparr>st_profile = WORKSPACE_LOCAL,
     st_files = [(''EXECUTION_JOB.json'', FileJson (job_as_dict (sample_job WORKSPACE_LOCAL L_RUNNING)))],
     st_workspace = \<lparr>ws_name = ''run-1'', ws_is_link = False,
       ws_fence_file = Contents (JObj [(''run_ref'', JStr ''run-1''), (''state'', JStr ''IN_PROGRESS'')]),
       ws_state_file = Absent\<rparr>\<rparr>"

theorem deletion_fence_stops_every_write_witness:
  "\<exists>e. perform sample_ref ''job-1'' (Req_Cancel None noon noon) fenced_store = (Inl e, fenced_store)"
proof -
  have "st_profile fenced_store = WORKSPACE_LOCAL" by (simp add: fenced_store_def)
  moreover have "deletion_recorded (st_workspace fenced_store)"
    by (simp add: fenced_store_def deletion_recorded_def field_or_def)
  ultimately show ?thesis using deletion_fence_stops_every_write by blast
qed

text \<open>
  A canceled job stays canceled, with its outcome, through any later sequence of operations;
  and a job that failed for good stays failed unless its cancellation had been requested before.
\<close>

theorem ended_jobs_stay_ended:
  assumes "\<forall>q \<in> set qs. wf_request job_id q" and "perform_all ref job_id qs s = (rs, s')"
    and "store_load ref job_id s = Inr j"
    and "jb_lifecycle j = L_CANCELED
      \<or> (jb_lifecycle j = L_PROCESSING_FAILED \<and> \<not> cn_requested (jb_cancellation j))"
  shows "\<exists>k. store_load ref job_id s' = Inr k \<and> jb_lifecycle k = jb_lifecycle j
    \<and> jb_terminal_outcome k = jb_terminal_outcome j"
proof -
  have wf: "wf_job j" by (rule store_load_wf [OF assms(3)])
  from assms(4) show ?thesis
  proof
    assume "jb_lifecycle j = L_CANCELED"
    with perform_all_invariant [OF assms(1-3), of "\<lambda>k. jb_lifecycle k = L_CANCELED \<and> jb_terminal_outcome k = O_CANCELED"]
      canceled_stays wf_job_outcome [OF wf]
    show ?thesis by auto
  next
    assume failed: "jb_lifecycle j = L_PROCESSING_FAILED \<and> \<not> cn_requested (jb_cancellation j)"
    let ?P = "\<lambda>k. jb_lifecycle k = L_PROCESSING_FAILED \<and> jb_terminal_outcome k = O_PROCESSING_FAILED
      \<and> \<not> cn_requested (jb_cancellation k)"
    have "\<exists>k. store_load ref job_id s' = Inr k \<and> ?P k"
      by (rule perform_all_invariant [OF assms(1-3)])
        (use failed wf_job_outcome [OF wf] failed_stays in auto)
    with failed wf_job_outcome [OF wf] show ?thesis by auto
  qed
qed

theorem ended_jobs_stay_ended_witness:
  "\<exists>k. store_load sample_ref ''job-1'' (snd (perform_all sample_ref ''job-1''
       [Req_Retry 0 ''KSLIDE_INTERNAL'' noon, Req_Transition 0 L_RUNNING O_NONE None noon]
       (sample_store L_CANCELED))) = Inr k \<and> jb_lifecycle k = L_CANCELED"
  using ended_jobs_stay_ended [of "[Req_Retry 0 ''KSLIDE_INTERNAL'' noon, Req_Transition 0 L_RUNNING O_NONE None noon]"
      "''job-1''" sample_ref "sample_store L_CANCELED" _ _ "sample_loaded L_CANCELED"] load_sample
  by (cases "perform_all sample_ref ''job-1'' [Req_Retry 0 ''KSLIDE_INTERNAL'' noon,
        Req_Transition 0 L_RUNNING O_NONE None noon] (sample_store L_CANCELED)")
    (auto simp: sample_job_def simp del: perform_all.simps)

section \<open>Operational retry\<close>

text \<open>
  Retrying is bounded: over any sequence of operations on a job, the retries that let it go on
  number at most its configured attempts minus one, minus those already used.
\<close>

theorem retries_are_bounded:
  assumes "\<forall>q \<in> set qs. wf_request job_id q" and "perform_all ref job_id qs s = (rs, s')"
    and "store_load ref job_id s = Inr j"
  shows "int (length (filter granted (zip qs rs)))
    \<le> max 0 (rt_max_attempts (jb_retry j) - 1 - rt_attempt (jb_retry j))"
  by (rule granted_bound [OF assms])

definition ten_retries :: "request list" where
  "ten_retries = map (\<lambda>i. Req_Retry (int i) ''KSLIDE_INTERNAL'' noon) [0..<10]"

theorem retries_are_bounded_witness:
  "length (filter granted (zip ten_retries (fst (perform_all sample_ref ''job-1'' ten_retries (sample_store L_RUNNING))))) \<le> 2"
proof -
  obtain rs s' where run: "perform_all sample_ref ''job-1'' ten_retries (sample_store L_RUNNING) = (rs, s')"
    by fastforce
  have "\<forall>q \<in> set ten_retries. wf_request ''job-1'' q" by (simp add: ten_retries_def)
  from retries_are_bounded [OF this run load_sample] run show ?thesis by (simp add: sample_job_def)
qed

text \<open>
  One recorded failure, on every branch: a retryable code with attempts left counts one
  attempt and leaves the job retrying; otherwise the job has failed for good, is not eligible to
  resume, and a retryable code leaves the attempts exhausted.
\<close>

theorem recorded_failure:
  assumes "store_load ref job_id s = Inr j" and "jb_lifecycle j \<in> {L_QUEUED, L_RUNNING, L_RETRYING}"
    and "error_code_ok code" and "classify_operational_failure code \<noteq> FC_SEMANTIC_REPAIR"
    and "matches_timestamp t"
  shows "\<exists>k s'. record_retry ref job_id (jb_revision j) code t s = (Inr (SW_ACCEPTED, k), s')
    \<and> store_load ref job_id s' = Inr (norm_job k)
    \<and> rt_last_error_code (jb_retry k) = Some code
    \<and> (if classify_operational_failure code = FC_RETRYABLE
          \<and> rt_attempt (jb_retry j) + 1 < rt_max_attempts (jb_retry j)
       then jb_lifecycle k = L_RETRYING \<and> rt_attempt (jb_retry k) = rt_attempt (jb_retry j) + 1
       else jb_lifecycle k = L_PROCESSING_FAILED \<and> jb_terminal_outcome k = O_PROCESSING_FAILED
         \<and> jb_resume_eligibility k = RE_NOT_ELIGIBLE
         \<and> rt_disposition (jb_retry k) =
             (if classify_operational_failure code = FC_RETRYABLE then RD_EXHAUSTED else RD_NOT_RETRYABLE))"
proof -
  from retry_accepted [OF assms] obtain k s' where
    k: "record_retry ref job_id (jb_revision j) code t s = (Inr (SW_ACCEPTED, k), s')"
      "store_load ref job_id s' = Inr (norm_job k)"
    and plan: "plan_retry (jb_revision j) code t j = Commit k" by blast
  from retry_commit_state [OF plan] k show ?thesis
    by (intro exI [of _ k] exI [of _ s']) (auto simp: retry_allowed_def retried_def Let_def)
qed

theorem recorded_failure_witness:
  "\<exists>k s'. record_retry sample_ref ''job-1'' 0 ''KSLIDE_INTERNAL'' noon (sample_store L_RUNNING) = (Inr (SW_ACCEPTED, k), s')
     \<and> jb_lifecycle k = L_RETRYING \<and> rt_attempt (jb_retry k) = 1"
proof -
  have t: "matches_timestamp noon" by (simp add: pattern_defs char_defs)
  have c: "error_code_ok ''KSLIDE_INTERNAL''"
    by (simp add: error_code_ok_def error_code_words_def pattern_defs char_defs)
  have f: "classify_operational_failure ''KSLIDE_INTERNAL'' = FC_RETRYABLE"
    by (simp add: classify_operational_failure_def)
  show ?thesis
    using recorded_failure [OF load_sample [of sample_ref L_RUNNING] _ c _ t] f by (auto simp: sample_job_def)
qed

text \<open>The error codes a retry record refuses, because of a word they contain.\<close>

definition unrecordable_codes :: "error_code list" where
  "unrecordable_codes = [PATH_OUTSIDE_ALLOWED_ROOT, UNKNOWN_SOURCE_ELEMENT, IMAGE_DECODE_FAILED,
     DUPLICATE_SOURCE_ID, RESOURCE_LIMIT, RESOURCE_BUDGET_INVALID, RESOURCE_BUDGET_UNAVAILABLE,
     SUPPORT_CONTENT_UNAVAILABLE]"

text \<open>
  Exactly eight of the program's own error codes cannot be recorded as the failure of a job
  (among them the resource limit, whose name contains the denied word \<open>source\<close>): for these, and
  only for these of the codes that are not repaired semantically, \<open>record_retry\<close> raises
  \<open>EXECUTION_INVALID\<close> at the current revision of a running job and the job stays as it was.
\<close>

theorem unrecordable_failures:
  assumes "store_load ref job_id s = Inr j" and "jb_lifecycle j \<in> {L_QUEUED, L_RUNNING, L_RETRYING}"
  shows "(c \<in> set unrecordable_codes \<longrightarrow>
      record_retry ref job_id (jb_revision j) (error_value c) t s = (Inl invalid, s))
    \<and> (error_code_ok (error_value c) \<longleftrightarrow> c \<notin> set unrecordable_codes)"
proof -
  have codes: "error_code_ok (error_value c) \<longleftrightarrow> c \<notin> set unrecordable_codes"
    by (cases c) (simp_all add: error_code_ok_def error_code_words_def unrecordable_codes_def
        pattern_defs char_defs)
  have "classify_operational_failure (error_value c) \<noteq> FC_SEMANTIC_REPAIR" if "c \<in> set unrecordable_codes"
    using that by (auto simp: unrecordable_codes_def classify_operational_failure_def)
  with codes assms show ?thesis
    by (auto simp: record_retry_def run_plan_def plan_retry_def Let_def)
qed

theorem unrecordable_failures_witness:
  "record_retry sample_ref ''job-1'' 0 ''KSLIDE_RESOURCE_LIMIT'' noon (sample_store L_RUNNING)
     = (Inl invalid, sample_store L_RUNNING)"
  using unrecordable_failures [OF load_sample [of sample_ref L_RUNNING], of RESOURCE_LIMIT noon]
  by (simp add: unrecordable_codes_def sample_job_def)

end
