(* ===== verification/Controller_Properties.thy ===== *)
theory Controller_Properties
  imports Samples Store_Requests
begin

text \<open>
  Properties of the controller's engine step, of cancellation, and of the reflection of the local
  engine's state into the execution record.
\<close>

section \<open>Exactly once\<close>

definition sample_engine :: engine where
  "sample_engine c op =
     (if matches_identifier op
      then Inr (sample_checkpoint (nat (ck_revision c) + 1), Some (sample_marker op))
      else Inl invalid)"

lemma wf_sample_engine: "wf_engine sample_engine"
  by (auto simp: wf_engine_def sample_engine_def wf_sample_checkpoint wf_sample_marker)

lemma marks_sample_engine: "marks sample_engine op"
  by (simp add: marks_def sample_engine_def)

text \<open>
  A controller step leaves a later version of the same job in the store, whatever the engine
  does (succeed, raise, answer for another job or skip a revision) and whatever the step answers:
  committed results are never lost, the identity never changes.
\<close>

theorem controller_step_only_advances:
  assumes "run_step (file_store_ops ref) own job_id op step env clock s = (r, s')"
    and "store_load ref job_id s = Inr j" and "wf_engine step"
  shows "\<exists>k. store_load ref job_id s' = Inr k \<and> same_identity j k
    \<and> jb_revision j \<le> jb_revision k \<and> prefix (jb_result_markers j) (jb_result_markers k)"
  using file_ops.run_step_evolves [OF assms(1)] assms(2,3) by (auto simp: evolves_def)


section \<open>Progress\<close>

text \<open>The candidate of an engine step is accepted by the data class when its parts are.\<close>

lemma step_candidate_ok:
  assumes wf: "wf_job j" and ids: "ck_ids d = job_ids j"
    and env: "ck_environment_identity_sha256 d
      = (case jb_environment j of None \<Rightarrow> [] | Some e \<Rightarrow> env_identity_sha256 e)"
    and fresh: "op \<notin> mk_operation_id ` set (jb_result_markers j)" "mk_operation_id m = op"
    and room: "length (jb_result_markers j) < max_result_markers" and now: "matches_timestamp now"
  shows "\<exists>k. commit_candidate (j\<lparr>jb_checkpoint := d, jb_result_markers := jb_result_markers j @ [m],
      jb_revision := jb_revision j + 1, jb_updated_at := Some now\<rparr>) = Commit k
    \<and> jb_checkpoint k = d \<and> jb_result_markers k = jb_result_markers j @ [m]"
proof -
  let ?j = "j\<lparr>jb_checkpoint := d, jb_result_markers := jb_result_markers j @ [m],
      jb_revision := jb_revision j + 1, jb_updated_at := Some now\<rparr>"
  have old: "job_post_init j = Inr j" by (rule wf_job_post_init [OF wf])
  have bound: "bind_checkpoint (jb_environment j) d = Inr d"
    using env by (auto simp: bind_checkpoint_def env_identity_sha256_def split: option.splits)
  have "\<forall>g \<in> set (job_checks ?j). \<not> fst g"
    using old fresh room now by (auto simp: job_post_init_iff job_checks_def timestamp_ok_def)
  with old ids bound have "job_post_init ?j = Inr ?j"
    by (auto simp: job_post_init_iff ck_ids_def job_ids_def)
  then show ?thesis by (auto simp: commit_candidate_iff)
qed

lemma step_accepted:
  assumes load: "store_load ref job_id s = Inr j"
    and c: "wf_checkpoint c" "ck_ids c = job_ids j" "ck_revision c = ck_revision (jb_checkpoint j) + 1"
    and env: "ck_environment_identity_sha256 c
      = (case jb_environment j of None \<Rightarrow> [] | Some e \<Rightarrow> env_identity_sha256 e)"
    and m: "wf_marker m" "mk_operation_id m \<notin> mk_operation_id ` set (jb_result_markers j)"
    and room: "length (jb_result_markers j) < max_result_markers" and now: "matches_timestamp now"
  shows "\<exists>k s'. commit_step ref c m (jb_revision j) now s = (Inr (SW_ACCEPTED, k), s')
    \<and> store_load ref job_id s' = Inr (norm_job k)
    \<and> ck_without_hash (jb_checkpoint k) = ck_without_hash c
    \<and> jb_result_markers k = jb_result_markers j @ [m] \<and> jb_revision k = jb_revision j + 1
    \<and> jb_lifecycle k = jb_lifecycle j"
proof -
  let ?d = "c\<lparr>ck_checkpoint_sha256 := ck_computed_sha256 c\<rparr>"
  have id: "ck_job_id c = job_id" using load c(2) by (auto simp: store_load_iff ck_ids_def job_ids_def)
  have hash: "ck_computed_sha256 ?d = ck_computed_sha256 c" "ck_without_hash ?d = ck_without_hash c"
    by (simp_all add: ck_computed_sha256_def ck_without_hash_def ck_base_fields_def)
  have d: "checkpoint_post_init ?d = Inr ?d"
    using c(1) by (simp add: wf_checkpoint_def checkpoint_post_init_iff hash)
  obtain k where k: "commit_candidate (j\<lparr>jb_checkpoint := ?d,
      jb_result_markers := jb_result_markers j @ [m], jb_revision := jb_revision j + 1,
      jb_updated_at := Some now\<rparr>) = Commit k"
    "jb_checkpoint k = ?d" "jb_result_markers k = jb_result_markers j @ [m]"
    using step_candidate_ok [OF store_load_wf [OF load], of ?d _ m now] c(2) env m(2) room now
    by (auto simp: ck_ids_def)
  have "find (\<lambda>x. mk_operation_id x = mk_operation_id m) (jb_result_markers j) = None"
    using m(2) by (auto simp: find_None_iff image_iff)
  with k(1) d c(3) env have plan: "plan_step c m (jb_revision j) now j = Commit k"
    by (simp add: plan_step_def check_checkpoint_environment_def)
  have "succeeds j k"
    using sound_plan_step [OF c(1) m(1)] plan store_load_wf [OF load] by (simp add: sound_plan_def)
  from fs.commit_accepts [OF load this] obtain s' where
    s': "commit_job ref k (jb_revision j) s = (Inr (SW_ACCEPTED, k), s')" by blast
  then have "run_plan ref job_id (plan_step c m (jb_revision j) now) s = (Inr (SW_ACCEPTED, k), s')"
    using load plan by (simp add: run_plan_def)
  moreover have "store_load ref job_id s' = Inr (norm_job k)"
    using fs.commit_accepted [OF s' _ _ load] \<open>succeeds j k\<close> load
    by (auto simp: succeeds_def same_identity_def job_ids_def store_load_iff)
  ultimately show ?thesis
    using k hash \<open>succeeds j k\<close> commit_candidate_select(1) [OF k(1)]
    by (auto simp: commit_step_def id succeeds_def)
qed

lemma engine_step_commits:
  assumes "store_load ref job_id s = Inr j" and "jb_environment j = own"
    and "\<not> cn_requested (jb_cancellation j)" and "jb_resume_eligibility j = RE_ELIGIBLE"
    and "jb_lifecycle j \<in> {L_RUNNING, L_RETRYING}"
    and "matches_identifier op" and "op \<notin> mk_operation_id ` set (jb_result_markers j)"
    and "length (jb_result_markers j) < max_result_markers" and "matches_timestamp (clock 4)"
    and "step (jb_checkpoint j) op = Inr (c, Some m)"
    and "wf_checkpoint c" and "ck_ids c = job_ids j"
    and "ck_revision c = ck_revision (jb_checkpoint j) + 1"
    and "ck_environment_identity_sha256 c
      = (case own of None \<Rightarrow> [] | Some e \<Rightarrow> env_identity_sha256 e)"
    and "wf_marker m" and "mk_operation_id m = op"
  shows "\<exists>k s'. run_step (file_store_ops ref) own job_id op step None clock s
      = (Inr \<lparr>cr_status = ''ACCEPTED'', cr_job = k, cr_engine_called = True\<rparr>, s')
    \<and> store_load ref job_id s' = Inr (norm_job k)
    \<and> ck_without_hash (jb_checkpoint k) = ck_without_hash c
    \<and> jb_result_markers k = jb_result_markers j @ [m] \<and> jb_revision k = jb_revision j + 1"
proof -
  obtain k s' where step: "commit_step ref c m (jb_revision j) (clock 4) s = (Inr (SW_ACCEPTED, k), s')"
    and after: "store_load ref job_id s' = Inr (norm_job k)"
      "ck_without_hash (jb_checkpoint k) = ck_without_hash c"
      "jb_result_markers k = jb_result_markers j @ [m]" "jb_revision k = jb_revision j + 1"
    using step_accepted [OF assms(1,11,12,13), of m "clock 4"] assms by auto
  have ids: "ck_job_id c = jb_job_id j" "ck_run_id c = jb_run_id j" "ck_execution_id c = jb_execution_id j"
    using assms(12) by (auto simp: ck_ids_def job_ids_def)
  have "execute_step (file_store_ops ref) op step clock j s
      = (Inr \<lparr>cr_status = ''ACCEPTED'', cr_job = k, cr_engine_called = True\<rparr>, s')"
    using assms(5,10,13,16) ids step
    by (auto simp: execute_step_def commit_engine_result_def sw_accepted_def)
  moreover have "\<not> list_ex (\<lambda>x. mk_operation_id x = op) (jb_result_markers j)"
    using assms(7) by (auto simp: list_ex_iff image_iff)
  ultimately have "run_step (file_store_ops ref) own job_id op step None clock s
      = (Inr \<lparr>cr_status = ''ACCEPTED'', cr_job = k, cr_engine_called = True\<rparr>, s')"
    using assms(1-6) by (auto simp: run_step_def start_job_def raise_environment_mismatch_cases)
  with after show ?thesis by blast
qed

text \<open>
  C33: A running job progresses: when it is loaded in its environment, not canceled, eligible and
  has room for another marker, an engine result for the next revision is accepted by the step and
  the store then holds exactly that checkpoint and the old markers followed by the new one.
\<close>

theorem engine_results_are_committed:
  assumes "store_load ref job_id s = Inr j" and "jb_environment j = own"
    and "\<not> cn_requested (jb_cancellation j)" and "jb_resume_eligibility j = RE_ELIGIBLE"
    and "jb_lifecycle j \<in> {L_RUNNING, L_RETRYING}"
    and "matches_identifier op" and "op \<notin> mk_operation_id ` set (jb_result_markers j)"
    and "length (jb_result_markers j) < max_result_markers" and "matches_timestamp (clock 4)"
    and "step (jb_checkpoint j) op = Inr (c, Some m)"
    and "wf_checkpoint c" and "ck_ids c = job_ids j"
    and "ck_revision c = ck_revision (jb_checkpoint j) + 1"
    and "ck_environment_identity_sha256 c
      = (case own of None \<Rightarrow> [] | Some e \<Rightarrow> env_identity_sha256 e)"
    and "wf_marker m" and "mk_operation_id m = op"
  shows "\<exists>k s'. run_step (file_store_ops ref) own job_id op step None clock s
      = (Inr \<lparr>cr_status = ''ACCEPTED'', cr_job = k, cr_engine_called = True\<rparr>, s')
    \<and> store_load ref job_id s' = Inr (norm_job k)
    \<and> ck_without_hash (jb_checkpoint k) = ck_without_hash c
    \<and> jb_result_markers k = jb_result_markers j @ [m] \<and> jb_revision k = jb_revision j + 1"
  by (rule engine_step_commits [where clock = clock and step = step, OF assms])

lemma noon_timestamp: "matches_timestamp noon"
  by (simp add: pattern_defs char_defs)

lemma op_identifier: "matches_identifier ''op-1''"
  by (simp add: pattern_defs char_defs)

lemmas sample_selectors = sample_job_def sample_checkpoint_def sample_cancellation_def
  no_cancellation_def sample_outcome_def sample_marker_def sample_engine_def

lemma sample_step_inputs:
  "jb_environment (sample_loaded L_RUNNING) = None"
  "\<not> cn_requested (jb_cancellation (sample_loaded L_RUNNING))"
  "jb_resume_eligibility (sample_loaded L_RUNNING) = RE_ELIGIBLE"
  "jb_lifecycle (sample_loaded L_RUNNING) \<in> {L_RUNNING, L_RETRYING}"
  "op \<notin> mk_operation_id ` set (jb_result_markers (sample_loaded L_RUNNING))"
  "length (jb_result_markers (sample_loaded L_RUNNING)) < max_result_markers"
  "sample_engine (jb_checkpoint (sample_loaded L_RUNNING)) ''op-1''
     = Inr (sample_checkpoint 1, Some (sample_marker ''op-1''))"
  "ck_ids (sample_checkpoint 1) = job_ids (sample_loaded L_RUNNING)"
  "ck_revision (sample_checkpoint 1) = ck_revision (jb_checkpoint (sample_loaded L_RUNNING)) + 1"
  "ck_environment_identity_sha256 (sample_checkpoint 1)
     = (case None of None \<Rightarrow> [] | Some e \<Rightarrow> env_identity_sha256 e)"
  "mk_operation_id (sample_marker ''op-1'') = ''op-1''"
  by (simp_all add: sample_selectors max_result_markers_def ck_ids_def job_ids_def op_identifier)

theorem engine_results_are_committed_witness:
  "\<exists>k s'. run_step (file_store_ops sample_ref) None ''job-1'' ''op-1'' sample_engine None (\<lambda>_. noon) (sample_store L_RUNNING)
      = (Inr \<lparr>cr_status = ''ACCEPTED'', cr_job = k, cr_engine_called = True\<rparr>, s')
    \<and> jb_result_markers k = [sample_marker ''op-1'']"
  using engine_results_are_committed [where clock = "\<lambda>_. noon" and step = sample_engine,
      OF load_sample sample_step_inputs(1-4) op_identifier
      sample_step_inputs(5,6) noon_timestamp sample_step_inputs(7) wf_sample_checkpoint
      sample_step_inputs(8-10) wf_sample_marker [OF op_identifier] sample_step_inputs(11), of sample_ref]
  by (auto simp: sample_job_def)

lemma sample_step:
  "\<exists>k s'. run_step (file_store_ops ref) None ''job-1'' ''op-1'' sample_engine None (\<lambda>_. noon) (sample_store L_RUNNING)
      = (Inr \<lparr>cr_status = ''ACCEPTED'', cr_job = k, cr_engine_called = True\<rparr>, s')"
  using engine_step_commits [where clock = "\<lambda>_. noon" and step = sample_engine,
      OF load_sample sample_step_inputs(1-4) op_identifier
      sample_step_inputs(5,6) noon_timestamp sample_step_inputs(7) wf_sample_checkpoint
      sample_step_inputs(8-10) wf_sample_marker [OF op_identifier] sample_step_inputs(11), of ref]
  by blast


theorem controller_step_only_advances_witness:
  "\<exists>s' k. store_load sample_ref ''job-1'' s' = Inr k \<and> same_identity (sample_loaded L_RUNNING) k"
proof -
  obtain k s' where run: "run_step (file_store_ops sample_ref) None ''job-1'' ''op-1'' sample_engine None (\<lambda>_. noon)
      (sample_store L_RUNNING) = (Inr \<lparr>cr_status = ''ACCEPTED'', cr_job = k, cr_engine_called = True\<rparr>, s')"
    using sample_step by blast
  from controller_step_only_advances [OF run load_sample wf_sample_engine] show ?thesis by blast
qed

end
