(* ===== verification/Lifecycle_Properties.thy ===== *)
theory Lifecycle_Properties
  imports Samples Store_Requests
begin

text \<open>
  Properties of cancellation, of the bound on result markers, and of the reflection of the local
  engine's phase into the lifecycle of the execution record.
\<close>

section \<open>Cancellation\<close>

lemma cancel_identifier:
  assumes "matches_identifier i"
  shows "matches_identifier (''cancel-'' @ i) \<longleftrightarrow> length i \<le> 121"
proof -
  from assms obtain c cs where i: "i = c # cs" "is_alnum_char c"
    and tail: "list_all (\<lambda>c. is_alnum_char c \<or> c \<in> set ''_.:-'') cs"
    by (cases i) (simp_all add: matches_identifier_def)
  then show ?thesis by (simp add: matches_identifier_def char_defs) linarith
qed

text \<open>
  A cancellation request on a job that has not ended is accepted and recorded, for every job
  identifier of at most 121 characters; for the longer identifiers that jobs may also have (up to
  128) the request reference exceeds the identifier limit, so the request raises and the job can
  never be canceled.
\<close>

theorem cancellation_request:
  assumes "store_load ref job_id s = Inr j" and "\<not> cn_requested (jb_cancellation j)"
    and "\<not> ended_lifecycle (jb_lifecycle j)"
    and "matches_timestamp t1" and "matches_timestamp t2"
  shows "if length job_id \<le> 121
    then \<exists>k s'. request_cancellation ref job_id None t1 t2 s = (Inr (SW_ACCEPTED, k), s')
      \<and> store_load ref job_id s' = Inr (norm_job k) \<and> cn_requested (jb_cancellation k)
      \<and> jb_lifecycle k = jb_lifecycle j
    else request_cancellation ref job_id None t1 t2 s = (Inl invalid, s)"
proof -
  have wf: "wf_job j" by (rule store_load_wf [OF assms(1)])
  have id: "jb_job_id j = job_id" "matches_identifier job_id" using assms(1) by (auto simp: store_load_iff)
  let ?cn = "\<lparr>cn_requested = True, cn_acknowledged = False, cn_request_ref = Some (''cancel-'' @ job_id),
      cn_requested_at = Some t1, cn_acknowledged_at = None\<rparr>"
  let ?k = "j\<lparr>jb_cancellation := ?cn, jb_revision := jb_revision j + 1, jb_updated_at := Some t2\<rparr>"
  have cn: "cancellation_post_init ?cn = (if length job_id \<le> 121 then Inr ?cn else Inl invalid)"
    using assms(4) cancel_identifier [OF id(2)] by (simp add: cancellation_post_init_def timestamp_ok_def)
  show ?thesis
  proof (cases "length job_id \<le> 121")
    case True
    have "\<forall>g \<in> set (job_checks ?k). \<not> fst g"
      using wf_job_checks [OF wf] wf_job_outcome [OF wf] assms(3,5)
      by (cases "jb_lifecycle j") (auto simp: job_checks_def timestamp_ok_def ended_lifecycle_def)
    then have "commit_candidate ?k = Commit ?k"
      by (intro candidate_ok [OF wf]) (simp_all add: job_ids_def)
    then have "plan_cancel_request None t1 t2 j = Commit ?k"
      using assms(2,3) cn True id(1) by (simp add: plan_cancel_request_def)
    from run_plan_commits [OF assms(1) sound_plan_cancel_request this] True show ?thesis
      by (auto simp: request_cancellation_def)
  next
    case False
    then have "plan_cancel_request None t1 t2 j = Raise invalid"
      using assms(2,3) cn id(1) by (simp add: plan_cancel_request_def)
    with assms(1) False show ?thesis by (simp add: request_cancellation_def run_plan_def)
  qed
qed

theorem cancellation_request_witness:
  "\<exists>k s'. request_cancellation sample_ref ''job-1'' None noon noon (sample_store L_RUNNING) = (Inr (SW_ACCEPTED, k), s')
     \<and> cn_requested (jb_cancellation k)"
proof -
  have t: "matches_timestamp noon" by (simp add: pattern_defs char_defs)
  from cancellation_request [OF load_sample [of sample_ref L_RUNNING] _ _ t t] show ?thesis
    by (auto simp: sample_job_def sample_cancellation_def no_cancellation_def ended_lifecycle_def)
qed

text \<open>
  Acknowledging a requested cancellation at a safe boundary always ends the job as canceled
  and not eligible to resume, from every lifecycle state: a job that has meanwhile completed or
  failed for good is turned into a canceled one, which the operational transition table does not
  allow for either.
\<close>

theorem acknowledged_cancellation_ends_every_job:
  assumes "store_load ref job_id s = Inr j" and "cn_requested (jb_cancellation j)"
    and "\<not> cn_acknowledged (jb_cancellation j)"
    and "matches_timestamp t1" and "matches_timestamp t2"
  shows "\<exists>k s'. acknowledge_cancellation ref job_id (jb_revision j) True t1 t2 s
      = (Inr (SW_ACCEPTED, k), s')
    \<and> store_load ref job_id s' = Inr (norm_job k)
    \<and> jb_lifecycle k = L_CANCELED \<and> jb_terminal_outcome k = O_CANCELED
    \<and> jb_resume_eligibility k = RE_NOT_ELIGIBLE"
proof -
  have wf: "wf_job j" by (rule store_load_wf [OF assms(1)])
  let ?cn = "(jb_cancellation j)\<lparr>cn_acknowledged := True, cn_acknowledged_at := Some t1\<rparr>"
  let ?k = "j\<lparr>jb_cancellation := ?cn, jb_lifecycle := L_CANCELED,
      jb_resume_eligibility := RE_NOT_ELIGIBLE, jb_terminal_outcome := O_CANCELED,
      jb_revision := jb_revision j + 1, jb_updated_at := Some t2\<rparr>"
  have cn: "cancellation_post_init ?cn = Inr ?cn"
    using wf_job_parts(2) [OF wf] assms(2,4)
    by (auto simp: cancellation_post_init_def bind_guards_Inr_iff timestamp_ok_def simp del: guards.simps)
  have "\<forall>g \<in> set (job_checks ?k). \<not> fst g"
    using wf_job_checks [OF wf] assms(5) by (auto simp: job_checks_def timestamp_ok_def)
  then have "commit_candidate ?k = Commit ?k"
    by (intro candidate_ok [OF wf]) (simp_all add: job_ids_def)
  then have "plan_cancel_ack (jb_revision j) True t1 t2 j = Commit ?k"
    using assms(2,3) cn by (simp add: plan_cancel_ack_def)
  from run_plan_commits [OF assms(1) sound_plan_cancel_ack this] show ?thesis
    by (auto simp: acknowledge_cancellation_def)
qed

text \<open>A failed job whose cancellation had been requested.\<close>

definition late_job :: job where
  "late_job = (sample_job DURABLE L_PROCESSING_FAILED)\<lparr>jb_cancellation :=
     \<lparr>cn_requested = True, cn_acknowledged = False, cn_request_ref = Some ''cancel-job-1'',
      cn_requested_at = None, cn_acknowledged_at = None\<rparr>\<rparr>"

definition store_of :: "job \<Rightarrow> run_store" where
  "store_of j = (sample_store L_RUNNING)\<lparr>st_files := [(''jobs/'' @ jb_job_id j @ ''.json'', FileJson (job_as_dict j))]\<rparr>"

lemma load_store_of:
  "wf_job j \<Longrightarrow> jb_profile j = DURABLE \<Longrightarrow> store_load ref (jb_job_id j) (store_of j) = Inr (norm_job j)"
  using wf_job_identifier [of j]
  by (simp add: store_load_iff store_of_def sample_store_def mutation_def path_for_def)

lemma wf_late_job: "wf_job late_job"
proof -
  have "\<forall>g \<in> set (job_checks late_job). \<not> fst g"
    by (simp add: late_job_def job_checks_def sample_job_def sample_outcome_def timestamp_ok_def
        max_result_markers_def)
  then have "job_post_init late_job = Inr late_job"
    by (intro variant_ok [OF wf_sample_job [of DURABLE L_PROCESSING_FAILED]])
      (simp_all add: late_job_def job_ids_def)
  then show ?thesis
    using wf_sample_job [of DURABLE L_PROCESSING_FAILED]
    by (simp add: wf_job_def late_job_def cancellation_post_init_def timestamp_ok_def pattern_defs char_defs)
qed

theorem acknowledged_cancellation_ends_every_job_witness:
  "\<exists>k s'. acknowledge_cancellation sample_ref ''job-1'' 0 True noon noon (store_of late_job) = (Inr (SW_ACCEPTED, k), s')
     \<and> jb_lifecycle late_job = L_PROCESSING_FAILED \<and> jb_lifecycle k = L_CANCELED"
proof -
  have t: "matches_timestamp noon" by (simp add: pattern_defs char_defs)
  have l: "store_load sample_ref ''job-1'' (store_of late_job) = Inr (norm_job late_job)"
    using load_store_of [OF wf_late_job] by (simp add: late_job_def sample_job_def)
  from acknowledged_cancellation_ends_every_job [OF l _ _ t t] show ?thesis
    by (auto simp: late_job_def sample_job_def)
qed

section \<open>Result markers\<close>

text \<open>
  A job holds at most 256 result markers. The next engine step of a job that has them all is
  refused: \<open>commit_result\<close> reports a conflict, but \<open>commit_step\<close> raises \<open>EXECUTION_INVALID\<close>; both
  leave the job as it was.
\<close>

theorem marker_limit:
  assumes "store_load ref job_id s = Inr j" and "length (jb_result_markers j) = max_result_markers"
    and "ck_job_id c = job_id" and "ck_revision c = ck_revision (jb_checkpoint j) + 1"
    and "wf_checkpoint c" and "ck_ids c = job_ids j"
    and "ck_environment_identity_sha256 c
      = (case jb_environment j of None \<Rightarrow> [] | Some e \<Rightarrow> env_identity_sha256 e)"
    and "mk_operation_id m \<notin> mk_operation_id ` set (jb_result_markers j)"
    and "matches_timestamp now"
  shows "commit_step ref c m (jb_revision j) now s = (Inl invalid, s)
    \<and> commit_result ref job_id m (jb_revision j) now s = (Inr (SW_CONFLICT, j), s)"
proof -
  have wf: "wf_job j" by (rule store_load_wf [OF assms(1)])
  have none: "find (\<lambda>x. mk_operation_id x = mk_operation_id m) (jb_result_markers j) = None"
    using assms(8) by (auto simp: find_None_iff image_iff)
  let ?d = "c\<lparr>ck_checkpoint_sha256 := ck_computed_sha256 c\<rparr>"
  have hash: "ck_computed_sha256 ?d = ck_computed_sha256 c"
    by (simp add: ck_computed_sha256_def ck_without_hash_def ck_base_fields_def)
  have d: "checkpoint_post_init ?d = Inr ?d"
    using assms(5) by (simp add: wf_checkpoint_def checkpoint_post_init_iff hash)
  let ?k = "j\<lparr>jb_checkpoint := ?d, jb_result_markers := jb_result_markers j @ [m],
      jb_revision := jb_revision j + 1, jb_updated_at := Some now\<rparr>"
  have bound: "bind_checkpoint (jb_environment j) ?d = Inr ?d"
    using assms(7) by (auto simp: bind_checkpoint_def env_identity_sha256_def split: option.splits)
  have outcome: "jb_terminal_outcome j \<in> set (outcomes_of (jb_lifecycle j))" by (rule wf_job_outcome [OF wf])
  have acked: "jb_lifecycle j = L_CANCELED \<longrightarrow> cn_acknowledged (jb_cancellation j)"
    using wf_job_post_init [OF wf] by (auto simp: job_post_init_iff job_checks_def)
  have "guards (job_checks ?k) = Inl invalid"
    using wf_job_checks [OF wf] outcome acked assms(2,9)
    by (cases "jb_lifecycle j") (auto simp: job_checks_def timestamp_ok_def)
  moreover have "ck_ids ?d = job_ids j" using assms(6) by (simp add: ck_ids_def)
  ultimately have "job_post_init ?k = Inl invalid"
    using wf_job_post_init [OF wf] bound by (auto simp: job_post_init_def job_post_init_iff job_ids_def)
  then have "plan_step c m (jb_revision j) now j = Raise invalid"
    using none d assms(4,7) by (simp add: plan_step_def check_checkpoint_environment_def commit_candidate_def)
  moreover have "plan_result m (jb_revision j) now j = Reply SW_CONFLICT"
    using none assms(2) by (simp add: plan_result_def)
  ultimately show ?thesis
    using assms(1,3) by (simp add: commit_step_def commit_result_def run_plan_def)
qed

definition hex_digits :: string where
  "hex_digits = ''0123456789abcdef''"

definition full_markers :: "result_marker list" where
  "full_markers = map (\<lambda>(a, b). sample_marker [a, b]) (List.product hex_digits hex_digits)"

definition full_job :: job where
  "full_job = (sample_job DURABLE L_RUNNING)\<lparr>jb_result_markers := full_markers\<rparr>"

lemma full_markers_facts:
  "length full_markers = max_result_markers"
  "distinct (map mk_operation_id full_markers)"
  "list_all wf_marker full_markers"
  "''op-1'' \<notin> mk_operation_id ` set full_markers"
proof -
  show "length full_markers = max_result_markers"
    by (simp add: full_markers_def max_result_markers_def hex_digits_def)
  have "map mk_operation_id full_markers = map (\<lambda>(a, b). [a, b]) (List.product hex_digits hex_digits)"
    by (simp add: full_markers_def case_prod_beta' comp_def sample_marker_def)
  moreover have "distinct (map (\<lambda>(a, b). [a, b]) (List.product hex_digits hex_digits))"
    by (auto simp: distinct_map intro!: distinct_product inj_onI) (simp_all add: hex_digits_def)
  ultimately show "distinct (map mk_operation_id full_markers)" by simp
  have "\<forall>c \<in> set hex_digits. is_alnum_char c" by (simp add: hex_digits_def char_defs)
  then have "matches_identifier [a, b]" if "a \<in> set hex_digits" "b \<in> set hex_digits" for a b
    using that by (simp add: matches_identifier_def)
  then have "wf_marker (sample_marker [a, b])" if "a \<in> set hex_digits" "b \<in> set hex_digits" for a b
    using that wf_sample_marker by blast
  then show "list_all wf_marker full_markers"
    unfolding full_markers_def list_all_iff by auto
  show "''op-1'' \<notin> mk_operation_id ` set full_markers"
    by (auto simp: full_markers_def sample_marker_def)
qed

lemma wf_full_job: "wf_job full_job"
proof -
  have "\<forall>g \<in> set (job_checks full_job). \<not> fst g"
    using full_markers_facts(1,2)
    by (simp add: full_job_def job_checks_def sample_job_def sample_outcome_def timestamp_ok_def)
  then have "job_post_init full_job = Inr full_job"
    by (intro variant_ok [OF wf_sample_job [of DURABLE L_RUNNING]])
      (simp_all add: full_job_def job_ids_def)
  then show ?thesis
    using wf_sample_job [of DURABLE L_RUNNING] full_markers_facts(3) by (simp add: wf_job_def full_job_def)
qed

theorem marker_limit_witness:
  "commit_step sample_ref (sample_checkpoint 1) (sample_marker ''op-1'') 0 noon (store_of full_job)
     = (Inl invalid, store_of full_job)"
proof -
  have t: "matches_timestamp noon" by (simp add: pattern_defs char_defs)
  have l: "store_load sample_ref ''job-1'' (store_of full_job) = Inr (norm_job full_job)"
    using load_store_of [OF wf_full_job] by (simp add: full_job_def sample_job_def)
  have "length (jb_result_markers (norm_job full_job)) = max_result_markers"
    and "mk_operation_id (sample_marker ''op-1'') \<notin> mk_operation_id ` set (jb_result_markers (norm_job full_job))"
    using full_markers_facts(1,4) by (simp_all add: full_job_def sample_marker_def)
  moreover have "ck_job_id (sample_checkpoint 1) = ''job-1''"
    "ck_revision (sample_checkpoint 1) = ck_revision (jb_checkpoint (norm_job full_job)) + 1"
    "ck_ids (sample_checkpoint 1) = job_ids (norm_job full_job)"
    "ck_environment_identity_sha256 (sample_checkpoint 1) = (case jb_environment (norm_job full_job) of
       None \<Rightarrow> [] | Some e \<Rightarrow> env_identity_sha256 e)"
    "jb_revision (norm_job full_job) = 0"
    by (simp_all add: full_job_def sample_job_def sample_checkpoint_def ck_ids_def job_ids_def)
  ultimately show ?thesis
    using marker_limit [OF l, of "sample_checkpoint 1" "sample_marker ''op-1''" noon] wf_sample_checkpoint t
    by simp
qed

section \<open>The record and the engine's phase\<close>

definition reflects :: "run_phase \<Rightarrow> job \<Rightarrow> bool" where
  "reflects p j \<longleftrightarrow> (case operational_for_phase p of (lc, oc, re) \<Rightarrow>
     jb_lifecycle j = lc \<and> jb_terminal_outcome j = oc)"

lemma operational_outcome:
  "operational_for_phase p = (lc, oc, re) \<Longrightarrow> oc \<in> set (outcomes_of lc) \<and> lc \<noteq> L_CANCELED
    \<and> (lc = L_PROCESSING_FAILED \<longrightarrow> oc = O_PROCESSING_FAILED \<and> re = RE_NOT_ELIGIBLE)"
  by (auto simp: operational_for_phase_def split: if_splits)

lemma reflect_move:
  assumes load: "store_load ref (jb_job_id j) s = Inr j" and t: "matches_timestamp (clock 1)"
    and target: "operational_for_phase p = (lc, oc, re)" and "\<not> reflects p j"
    and move: "lc \<in> set (operational_transitions (jb_lifecycle j))"
  shows "\<exists>k s'. sync_lifecycle ref p j clock s = (Inr k, s')
    \<and> store_load ref (jb_job_id j) s' = Inr (norm_job k) \<and> reflects p k"
proof -
  have wf: "wf_job j" by (rule store_load_wf [OF load])
  let ?k = "j\<lparr>jb_lifecycle := lc, jb_terminal_outcome := oc, jb_resume_eligibility := re,
      jb_revision := jb_revision j + 1, jb_updated_at := Some (clock 1)\<rparr>"
  note o = operational_outcome [OF target]
  have "\<forall>g \<in> set (job_checks ?k). \<not> fst g"
    using wf_job_checks [OF wf] o t by (cases lc) (auto simp: job_checks_def timestamp_ok_def)
  then have cand: "commit_candidate ?k = Commit ?k"
    by (intro candidate_ok [OF wf]) (simp_all add: job_ids_def)
  have "plan_operational (jb_revision j) lc oc (Some re) (clock 1) j = Commit ?k"
    using assms(4) target move o cand
    by (cases "lc = L_PROCESSING_FAILED"; cases "lc = L_COMPLETED")
      (auto simp: plan_operational_def Let_def reflects_def)
  from run_plan_commits [OF load sound_plan_operational this] obtain s' where
    "transition_operational ref (jb_job_id j) (jb_revision j) lc oc (Some re) (clock 1) s
      = (Inr (SW_ACCEPTED, ?k), s')"
    and "store_load ref (jb_job_id j) s' = Inr (norm_job ?k)"
    by (auto simp: transition_operational_def)
  then show ?thesis
    using assms(4) target
    by (intro exI [of _ ?k] exI [of _ s']) (auto simp: sync_lifecycle_def reflects_def sw_accepted_def)
qed

lemma reflect_refused:
  assumes load: "store_load ref (jb_job_id j) s = Inr j"
    and target: "operational_for_phase p = (lc, oc, re)" and "\<not> reflects p j"
    and move: "lc \<notin> set (operational_transitions (jb_lifecycle j))"
  shows "sync_lifecycle ref p j clock s = (Inl stale, s)"
proof -
  have "plan_operational (jb_revision j) lc oc (Some re) (clock 1) j = Reply SW_CONFLICT"
    using assms by (auto simp: plan_operational_def reflects_def)
  with load target assms(3) show ?thesis
    by (auto simp: sync_lifecycle_def transition_operational_def run_plan_def reflects_def sw_accepted_def)
qed

text \<open>The moves of the engine that the lifecycle table does not know.\<close>

definition untracked_moves :: "(run_phase \<times> run_phase) list" where
  "untracked_moves = [(NEEDS_REVIEW, VERIFYING), (NEEDS_REVIEW, FAILED_SCHEMA), (COMPLETE, VERIFYING),
     (FAILED_NORMALIZATION, NORMALIZING), (FAILED_EXTRACTION, EXTRACTING)]"

lemma reflect_same:
  assumes load: "store_load ref (jb_job_id j) s = Inr j" and "reflects p j"
  shows "sync_lifecycle ref p j clock s = (Inr j, s)"
proof -
  obtain lc oc re where target: "operational_for_phase p = (lc, oc, re)" by (metis prod_cases3)
  then have "plan_operational (jb_revision j) lc oc (Some re) (clock 1) j = Reply SW_IDEMPOTENT"
    using assms(2) by (simp add: plan_operational_def reflects_def)
  with load target show ?thesis
    by (auto simp: sync_lifecycle_def transition_operational_def run_plan_def sw_accepted_def)
qed

lemma engine_moves:
  assumes "q \<in> set (allowed p)" and "reflects p j"
  shows "(p, q) \<in> set untracked_moves \<longleftrightarrow>
    \<not> reflects q j \<and> fst (operational_for_phase q) \<notin> set (operational_transitions (jb_lifecycle j))"
  using assms
  by (cases p) (auto simp: untracked_moves_def reflects_def operational_for_phase_def)

text \<open>
  The execution record follows the engine except for exactly five of the phase transitions
  the engine allows: when the record reflects phase \<open>p\<close> and the engine has moved to \<open>q\<close>, the
  synchronisation brings the record to \<open>q\<close>, but after a review or a completed run is verified
  again, a reviewed run fails its schema, or a failed normalization or extraction is retried, it
  raises \<open>EXECUTION_STALE\<close> and leaves the record behind.
\<close>

theorem record_follows_engine:
  assumes "store_load ref (jb_job_id j) s = Inr j" and "reflects p j" and "q \<in> set (allowed p)"
    and "matches_timestamp (clock 1)"
  shows "if (p, q) \<in> set untracked_moves
    then sync_lifecycle ref q j clock s = (Inl stale, s)
    else \<exists>k k' s'. sync_lifecycle ref q j clock s = (Inr k, s')
      \<and> store_load ref (jb_job_id j) s' = Inr k' \<and> reflects q k'"
proof -
  obtain lc oc re where target: "operational_for_phase q = (lc, oc, re)" by (metis prod_cases3)
  note moves = engine_moves [OF assms(3,2), unfolded target fst_conv]
  consider "reflects q j" | "\<not> reflects q j" "lc \<in> set (operational_transitions (jb_lifecycle j))"
    | "\<not> reflects q j" "lc \<notin> set (operational_transitions (jb_lifecycle j))" by blast
  then show ?thesis
  proof cases
    case 1
    then show ?thesis using moves reflect_same [OF assms(1)] assms(1) by auto
  next
    case 2
    from reflect_move [where clock = clock, OF assms(1,4) target 2] obtain k s' where
      "sync_lifecycle ref q j clock s = (Inr k, s')"
      "store_load ref (jb_job_id j) s' = Inr (norm_job k)" "reflects q k" by blast
    moreover from this have "reflects q (norm_job k)" by (simp add: reflects_def)
    ultimately show ?thesis using moves 2 by auto
  next
    case 3
    then show ?thesis using moves reflect_refused [OF assms(1) target 3] by simp
  qed
qed

theorem record_follows_engine_witness:
  "sync_lifecycle sample_ref VERIFYING (sample_loaded L_COMPLETED) (\<lambda>_. noon) (sample_store L_COMPLETED)
     = (Inl stale, sample_store L_COMPLETED)"
proof -
  have t: "matches_timestamp ((\<lambda>_. noon) 1)" by (simp add: pattern_defs char_defs)
  have r: "reflects NEEDS_REVIEW (sample_loaded L_COMPLETED)"
    by (simp add: reflects_def operational_for_phase_def sample_job_def sample_outcome_def)
  have l: "store_load sample_ref (jb_job_id (sample_loaded L_COMPLETED)) (sample_store L_COMPLETED)
      = Inr (sample_loaded L_COMPLETED)"
    using load_sample [of sample_ref L_COMPLETED] by (simp add: sample_job_def)
  have "VERIFYING \<in> set (allowed NEEDS_REVIEW)" by simp
  from record_follows_engine [where clock = "\<lambda>_. noon", OF l r this t] show ?thesis
    by (simp add: untracked_moves_def)
qed

end
