(* ===== verification/Paas_Types.thy ===== *)
theory Paas_Types
  imports Controller
begin

text \<open>
  The data of the durable job service (\<open>src/k_slide/paas.py\<close>): authorized scopes, opaque artifact
  references, runtime and job identities, submission requests, and the views the service returns,
  with the validation and the JSON form of each. The construction of a data class is the
  \<open>_post_init\<close> function of its fields. As elsewhere, the \<open>raw_\<close> readers give a value of a foreign JSON
  type a stand-in that the data class refuses with the code's error.
\<close>

section \<open>Opaque identifiers\<close>

definition matches_paas_identifier :: "string \<Rightarrow> bool" where
  "matches_paas_identifier =
     head_tail_match is_alnum_char (\<lambda>c. is_alnum_char c \<or> c \<in> set ''_.:/-'') 255"

definition paas_forbidden :: "string list" where
  "paas_forbidden = [''access'', ''secret'', ''token'', ''password'', ''credential'', ''source'',
     ''content'', ''prompt'']"

definition safe_identity :: "string \<Rightarrow> bool" where
  "safe_identity s \<longleftrightarrow> matches_paas_identifier s \<and> \<not> contains_word paas_forbidden s"

definition strict_identifier :: "string \<Rightarrow> bool" where
  "strict_identifier s \<longleftrightarrow> matches_identifier s \<and> \<not> contains_word paas_forbidden s"

definition paas_timestamp_ok :: "json \<Rightarrow> bool" where
  "paas_timestamp_ok v = (case json_str v of Some s \<Rightarrow> matches_timestamp s | None \<Rightarrow> False)"

abbreviation scoped_not_found :: err where
  "scoped_not_found \<equiv> KSlideError EXECUTION_NOT_FOUND"

abbreviation authorization_required :: err where
  "authorization_required \<equiv> KSlideError EXECUTION_AUTHORIZATION_REQUIRED"

abbreviation unsupported_version :: err where
  "unsupported_version \<equiv> KSlideError EXECUTION_UNSUPPORTED_VERSION"

abbreviation conflict :: err where
  "conflict \<equiv> KSlideError EXECUTION_CONFLICT"

lemma strict_identifier_safe: "strict_identifier s \<Longrightarrow> safe_identity s"
  by (cases s) (auto simp: strict_identifier_def safe_identity_def matches_identifier_def
      matches_paas_identifier_def list_all_iff)

section \<open>Authorized scopes\<close>

record scope_context =
  sc_user_ref :: string
  sc_workspace_ref :: string
  sc_scope_ref :: string

definition derived_scope_ref :: "string \<Rightarrow> string \<Rightarrow> string" where
  "derived_scope_ref user workspace = ''scope-'' @ take 32 (stable_revision (JObj [
     (''user_ref'', JStr user), (''workspace_ref'', JStr workspace)]))"

definition scope_context_post_init :: "string \<Rightarrow> string \<Rightarrow> string option \<Rightarrow> scope_context res" where
  "scope_context_post_init user workspace scope_ref =
     bind_res (guards [(\<not> safe_identity user, invalid), (\<not> safe_identity workspace, invalid)]) (\<lambda>_.
       let ref = (case scope_ref of
                    None \<Rightarrow> derived_scope_ref user workspace
                  | Some s \<Rightarrow> if s = [] then derived_scope_ref user workspace else s)
       in if \<not> safe_identity ref then Inl invalid
          else Inr \<lparr>sc_user_ref = user, sc_workspace_ref = workspace, sc_scope_ref = ref\<rparr>)"

definition scope_context_as_dict :: "scope_context \<Rightarrow> json" where
  "scope_context_as_dict c = JObj [
     (''user_ref'', JStr (sc_user_ref c)),
     (''workspace_ref'', JStr (sc_workspace_ref c)),
     (''scope_ref'', JStr (sc_scope_ref c))]"

definition raw_scope_ref :: "json \<Rightarrow> string option" where
  "raw_scope_ref v =
     (if json_falsy v then None else case json_str v of Some s \<Rightarrow> Some s | None \<Rightarrow> Some ''?'')"

definition scope_context_from_dict :: "json \<Rightarrow> scope_context res" where
  "scope_context_from_dict v =
     (case v of
        JObj kvs \<Rightarrow>
          if keys_of kvs \<noteq> set [''user_ref'', ''workspace_ref'', ''scope_ref''] then Inl corrupt
          else scope_context_post_init (raw_str (field_or JNull ''user_ref'' kvs))
                 (raw_str (field_or JNull ''workspace_ref'' kvs))
                 (raw_scope_ref (field_or JNull ''scope_ref'' kvs))
      | _ \<Rightarrow> Inl corrupt)"

section \<open>Admission policy\<close>

record admission_policy =
  ap_max_active :: int
  ap_max_queued :: int

definition admission_policy_post_init :: "admission_policy \<Rightarrow> admission_policy res" where
  "admission_policy_post_init p = bind_res (guards [
     (ap_max_active p \<noteq> 1, invalid),
     (ap_max_queued p < 1 \<or> ap_max_queued p > 100000, invalid)]) (\<lambda>_. Inr p)"

definition default_admission_policy :: admission_policy where
  "default_admission_policy = \<lparr>ap_max_active = 1, ap_max_queued = 16\<rparr>"

section \<open>Artifact references\<close>

datatype storage_plane = PL_SCRATCH | PL_DURABLE | PL_TELEMETRY

definition plane_values :: "(string \<times> storage_plane) list" where
  "plane_values = [(''ephemeral_processing_scratch'', PL_SCRATCH),
     (''durable_user_workspace_run_data'', PL_DURABLE),
     (''central_non_content_operational_telemetry'', PL_TELEMETRY)]"

record artifact_refs =
  ar_scope_ref :: string
  ar_store_ref :: string
  ar_run_ref :: string
  ar_result_ref :: string
  ar_evidence_ref :: string
  ar_plane :: storage_plane
  ar_contract_version :: string

definition artifact_identity_checks :: "artifact_refs \<Rightarrow> (bool \<times> err) list" where
  "artifact_identity_checks r = [
     (\<not> safe_identity (ar_scope_ref r), invalid),
     (\<not> safe_identity (ar_store_ref r), invalid),
     (\<not> safe_identity (ar_run_ref r), invalid),
     (\<not> safe_identity (ar_result_ref r), invalid),
     (\<not> safe_identity (ar_evidence_ref r), invalid)]"

definition artifact_refs_post_init :: "artifact_refs \<Rightarrow> artifact_refs res" where
  "artifact_refs_post_init r = bind_res (guards (artifact_identity_checks r @ [
     (ar_plane r \<noteq> PL_DURABLE, invalid),
     (ar_contract_version r \<noteq> ''1.0'', unsupported_version)])) (\<lambda>_. Inr r)"

definition artifact_refs_as_dict :: "artifact_refs \<Rightarrow> json" where
  "artifact_refs_as_dict r = JObj [
     (''scope_ref'', JStr (ar_scope_ref r)),
     (''store_ref'', JStr (ar_store_ref r)),
     (''run_ref'', JStr (ar_run_ref r)),
     (''result_ref'', JStr (ar_result_ref r)),
     (''evidence_ref'', JStr (ar_evidence_ref r)),
     (''plane'', JStr (value_in plane_values (ar_plane r))),
     (''storage_contract_version'', JStr (ar_contract_version r))]"

definition artifact_required :: "string list" where
  "artifact_required = [''scope_ref'', ''store_ref'', ''run_ref'', ''result_ref'', ''evidence_ref'']"

text \<open>An unsupported plane is refused after the identity checks.\<close>

definition artifact_refs_from_dict :: "json \<Rightarrow> artifact_refs res" where
  "artifact_refs_from_dict v =
     (case v of
        JObj kvs \<Rightarrow>
          if \<not> keys_of kvs \<subseteq> set (artifact_required @ [''plane'', ''storage_contract_version''])
             \<or> \<not> set artifact_required \<subseteq> keys_of kvs
          then Inl corrupt
          else
            (let r = \<lparr>ar_scope_ref = raw_str (field_or JNull ''scope_ref'' kvs),
                      ar_store_ref = raw_str (field_or JNull ''store_ref'' kvs),
                      ar_run_ref = raw_str (field_or JNull ''run_ref'' kvs),
                      ar_result_ref = raw_str (field_or JNull ''result_ref'' kvs),
                      ar_evidence_ref = raw_str (field_or JNull ''evidence_ref'' kvs),
                      ar_plane = PL_DURABLE,
                      ar_contract_version =
                        raw_str (field_or (JStr ''1.0'') ''storage_contract_version'' kvs)\<rparr>
             in bind_res (guards (artifact_identity_checks r)) (\<lambda>_.
                case member_of plane_values
                       (field_or (JStr (value_in plane_values PL_DURABLE)) ''plane'' kvs) of
                  Inl _ \<Rightarrow> Inl invalid
                | Inr p \<Rightarrow> artifact_refs_post_init (r\<lparr>ar_plane := p\<rparr>)))
      | _ \<Rightarrow> Inl corrupt)"

section \<open>Runtime identity\<close>

record runtime_identity =
  ri_runtime_ref :: string
  ri_model_identity :: string
  ri_ocr_identity :: string
  ri_termbase_identity :: string
  ri_engine_contract_version :: string
  ri_environment :: "environment option"

definition runtime_identity_post_init :: "runtime_identity \<Rightarrow> runtime_identity res" where
  "runtime_identity_post_init r = bind_res (guards [
     (\<not> safe_identity (ri_runtime_ref r), invalid),
     (\<not> safe_identity (ri_model_identity r), invalid),
     (\<not> safe_identity (ri_ocr_identity r), invalid),
     (\<not> safe_identity (ri_termbase_identity r), invalid),
     (\<not> safe_identity (ri_engine_contract_version r), invalid),
     (ri_engine_contract_version r \<noteq> ''1.0'', unsupported_version)]) (\<lambda>_. Inr r)"

definition runtime_environment :: "runtime_identity \<Rightarrow> environment res" where
  "runtime_environment r = (case ri_environment r of None \<Rightarrow> Inl invalid | Some e \<Rightarrow> Inr e)"

definition runtime_as_dict :: "runtime_identity \<Rightarrow> json" where
  "runtime_as_dict r = JObj [
     (''runtime_ref'', JStr (ri_runtime_ref r)),
     (''model_identity'', JStr (ri_model_identity r)),
     (''ocr_identity'', JStr (ri_ocr_identity r)),
     (''termbase_identity'', JStr (ri_termbase_identity r)),
     (''engine_contract_version'', JStr (ri_engine_contract_version r))]"

definition runtime_names :: "string list" where
  "runtime_names = [''runtime_ref'', ''model_identity'', ''ocr_identity'', ''termbase_identity'',
     ''engine_contract_version'']"

definition runtime_from_dict :: "env_reference \<Rightarrow> json \<Rightarrow> runtime_identity res" where
  "runtime_from_dict ref v =
     (case v of
        JObj kvs \<Rightarrow>
          if keys_of kvs \<noteq> set runtime_names
             \<and> keys_of kvs \<noteq> set (''environment_identity'' # runtime_names) then Inl corrupt
          else catch_corrupt (bind_res
            (case map_of kvs ''environment_identity'' of
               None \<Rightarrow> Inr None
             | Some ev \<Rightarrow> bind_res (env_from_dict ref ev) (\<lambda>e. Inr (Some e))) (\<lambda>env.
             runtime_identity_post_init \<lparr>
               ri_runtime_ref = raw_str (field_or JNull ''runtime_ref'' kvs),
               ri_model_identity = raw_str (field_or JNull ''model_identity'' kvs),
               ri_ocr_identity = raw_str (field_or JNull ''ocr_identity'' kvs),
               ri_termbase_identity = raw_str (field_or JNull ''termbase_identity'' kvs),
               ri_engine_contract_version = raw_str (field_or JNull ''engine_contract_version'' kvs),
               ri_environment = env\<rparr>))
      | _ \<Rightarrow> Inl corrupt)"

text \<open>\<open>from_runtime_metadata\<close>, given the model identity the runtime reports.\<close>

definition runtime_from_metadata ::
  "string option \<Rightarrow> string \<Rightarrow> string \<Rightarrow> string \<Rightarrow> environment option \<Rightarrow> runtime_identity res"
where
  "runtime_from_metadata reported_model runtime_ref ocr termbase env =
     (case reported_model of
        None \<Rightarrow> Inl (KSlideError MODEL_UNKNOWN)
      | Some model \<Rightarrow>
          if model = [] then Inl (KSlideError MODEL_UNKNOWN)
          else runtime_identity_post_init \<lparr>ri_runtime_ref = runtime_ref, ri_model_identity = model,
                 ri_ocr_identity = ocr, ri_termbase_identity = termbase,
                 ri_engine_contract_version = ''1.0'', ri_environment = env\<rparr>)"

definition same_runtime_identity :: "runtime_identity \<Rightarrow> runtime_identity \<Rightarrow> bool" where
  "same_runtime_identity a b \<longleftrightarrow> runtime_as_dict a = runtime_as_dict b"

section \<open>Job identity\<close>

record job_identity =
  di_run_id :: string
  di_job_id :: string
  di_execution_id :: string
  di_scope_ref :: string
  di_store_ref :: string
  di_contract_version :: string

definition identity_post_init :: "job_identity \<Rightarrow> job_identity res" where
  "identity_post_init d = bind_res (guards [
     (\<not> strict_identifier (di_run_id d), invalid),
     (\<not> strict_identifier (di_job_id d), invalid),
     (\<not> strict_identifier (di_execution_id d), invalid),
     (\<not> matches_identifier (di_scope_ref d), invalid),
     (\<not> matches_identifier (di_store_ref d), invalid),
     (di_contract_version d \<noteq> ''1.0'', unsupported_version)]) (\<lambda>_. Inr d)"

definition identity_of_job :: "job \<Rightarrow> job_identity" where
  "identity_of_job j = \<lparr>di_run_id = jb_run_id j, di_job_id = jb_job_id j,
     di_execution_id = jb_execution_id j, di_scope_ref = sr_scope_ref (jb_store_ref j),
     di_store_ref = sr_store_ref (jb_store_ref j), di_contract_version = ''1.0''\<rparr>"

definition identity_from_job :: "job \<Rightarrow> job_identity res" where
  "identity_from_job j = identity_post_init (identity_of_job j)"

definition identity_as_dict :: "job_identity \<Rightarrow> json" where
  "identity_as_dict d = JObj [
     (''contract_version'', JStr (di_contract_version d)),
     (''run_id'', JStr (di_run_id d)),
     (''job_id'', JStr (di_job_id d)),
     (''execution_id'', JStr (di_execution_id d)),
     (''scope_ref'', JStr (di_scope_ref d)),
     (''store_ref'', JStr (di_store_ref d))]"

definition identity_names :: "string list" where
  "identity_names = [''contract_version'', ''run_id'', ''job_id'', ''execution_id'', ''scope_ref'',
     ''store_ref'']"

definition identity_from_dict :: "json \<Rightarrow> job_identity res" where
  "identity_from_dict v =
     (case v of
        JObj kvs \<Rightarrow>
          if keys_of kvs \<noteq> set identity_names then Inl corrupt
          else identity_post_init \<lparr>
            di_run_id = raw_str (field_or JNull ''run_id'' kvs),
            di_job_id = raw_str (field_or JNull ''job_id'' kvs),
            di_execution_id = raw_str (field_or JNull ''execution_id'' kvs),
            di_scope_ref = raw_str (field_or JNull ''scope_ref'' kvs),
            di_store_ref = raw_str (field_or JNull ''store_ref'' kvs),
            di_contract_version = raw_str (field_or JNull ''contract_version'' kvs)\<rparr>
      | _ \<Rightarrow> Inl corrupt)"

text \<open>\<open>_validate_scoped_identity\<close>: what may cross the scoped boundary.\<close>

definition validate_scoped_identity :: "job_identity \<Rightarrow> unit res" where
  "validate_scoped_identity d = guards [
     (\<not> safe_identity (di_run_id d), invalid),
     (\<not> safe_identity (di_job_id d), invalid),
     (\<not> safe_identity (di_execution_id d), invalid),
     (\<not> safe_identity (di_scope_ref d), invalid),
     (\<not> safe_identity (di_store_ref d), invalid)]"

section \<open>Submission requests\<close>

record job_request =
  rq_run_id :: string
  rq_scope_ref :: string
  rq_store_ref :: string
  rq_runtime :: runtime_identity
  rq_total_work_units :: int
  rq_max_attempts :: int
  rq_engine_state_revision :: int
  rq_job_id :: "string option"
  rq_execution_id :: "string option"
  rq_scope_context :: "scope_context option"
  rq_authorization :: "scope_context option"
  rq_environment :: "environment option"

definition request_post_init :: "job_request \<Rightarrow> job_request res" where
  "request_post_init q =
     bind_res (guards [
       (\<not> strict_identifier (rq_run_id q), invalid),
       (\<not> matches_identifier (rq_scope_ref q), invalid),
       (\<not> matches_identifier (rq_store_ref q), invalid)]) (\<lambda>_.
     bind_res (runtime_environment (rq_runtime q)) (\<lambda>derived.
     bind_res (guards [
       (rq_environment q \<noteq> None \<and> rq_environment q \<noteq> Some derived,
          KSlideError EXECUTION_ENVIRONMENT_MISMATCH),
       (rq_total_work_units q < 0 \<or> rq_total_work_units q > 100000, invalid),
       (rq_max_attempts q < 1 \<or> rq_max_attempts q > 32, invalid),
       (rq_engine_state_revision q < 0, invalid),
       (case rq_job_id q of None \<Rightarrow> False | Some i \<Rightarrow> \<not> strict_identifier i, invalid),
       (case rq_execution_id q of None \<Rightarrow> False | Some i \<Rightarrow> \<not> strict_identifier i, invalid),
       (rq_scope_context q \<noteq> None \<and> rq_authorization q \<noteq> None
          \<and> rq_scope_context q \<noteq> rq_authorization q, invalid)])
     (\<lambda>_. Inr (q\<lparr>rq_environment := Some derived\<rparr>))))"

end
