(* ===== verification/Paas_Records.thy ===== *)
theory Paas_Records
  imports Paas_Types
begin

text \<open>
  The views the durable job service returns (status, receipts, claims, worker results, queue
  entries) and the records it persists (admission records, the scope's admission state, the
  unscoped job record), with their JSON forms and decoders (\<open>src/k_slide/paas.py\<close>).
\<close>

section \<open>Views\<close>

record job_status =
  js_identity :: job_identity
  js_lifecycle :: lifecycle
  js_outcome :: outcome
  js_resume :: resume
  js_revision :: int
  js_checkpoint_revision :: int
  js_checkpoint_sha256 :: json
  js_engine_phase :: string
  js_progress :: json
  js_cancellation :: json
  js_retry :: json
  js_references :: "artifact_refs option"
  js_environment :: "(json \<times> string) option"

definition status_from_job :: "job \<Rightarrow> artifact_refs option \<Rightarrow> job_status res" where
  "status_from_job j references =
     bind_res (identity_from_job j) (\<lambda>identity. Inr \<lparr>
       js_identity = identity,
       js_lifecycle = jb_lifecycle j,
       js_outcome = jb_terminal_outcome j,
       js_resume = jb_resume_eligibility j,
       js_revision = jb_revision j,
       js_checkpoint_revision = ck_revision (jb_checkpoint j),
       js_checkpoint_sha256 =
         (case execution_metadata j of
            JObj kvs \<Rightarrow> field_or JNull ''checkpoint_sha256'' kvs | v \<Rightarrow> v),
       js_engine_phase = ck_engine_phase (jb_checkpoint j),
       js_progress = progress_as_dict (ck_progress (jb_checkpoint j)),
       js_cancellation = cancellation_as_dict (jb_cancellation j),
       js_retry = retry_as_dict (jb_retry j),
       js_references = references,
       js_environment = map_option (\<lambda>e. (env_as_dict e, env_identity_sha256 e)) (jb_environment j)\<rparr>)"

definition status_fields :: "job_status \<Rightarrow> (string \<times> json) list" where
  "status_fields s = [
     (''contract_version'', JStr ''1.0''),
     (''identity'', identity_as_dict (js_identity s)),
     (''operational_state'', JStr (value_in lifecycle_values (js_lifecycle s))),
     (''terminal_outcome'', JStr (value_in outcome_values (js_outcome s))),
     (''resume_eligibility'', JStr (value_in resume_values (js_resume s))),
     (''revision'', JInt (js_revision s)),
     (''checkpoint_revision'', JInt (js_checkpoint_revision s)),
     (''checkpoint_sha256'', js_checkpoint_sha256 s),
     (''engine_phase'', JStr (js_engine_phase s)),
     (''progress'', js_progress s),
     (''cancellation'', js_cancellation s),
     (''retry'', js_retry s)]
   @ (case js_references s of None \<Rightarrow> [] | Some r \<Rightarrow> [(''references'', artifact_refs_as_dict r)])
   @ (case js_environment s of None \<Rightarrow> []
      | Some (e, h) \<Rightarrow> [(''environment_identity'', e), (''environment_identity_sha256'', JStr h)])"

definition status_as_dict :: "job_status \<Rightarrow> json" where
  "status_as_dict s = JObj (status_fields s)"

record receipt =
  rc_status :: write_status
  rc_identity :: job_identity
  rc_references :: "artifact_refs option"

definition receipt_as_dict :: "receipt \<Rightarrow> json" where
  "receipt_as_dict r = JObj ([
     (''status'', JStr (value_in write_status_values (rc_status r))),
     (''identity'', identity_as_dict (rc_identity r))]
   @ (case rc_references r of None \<Rightarrow> [] | Some a \<Rightarrow> [(''references'', artifact_refs_as_dict a)]))"

record claim =
  cl_identity :: job_identity
  cl_job :: job
  cl_claim_ref :: string
  cl_references :: "artifact_refs option"

definition claim_as_dict :: "claim \<Rightarrow> json res" where
  "claim_as_dict c =
     bind_res (status_from_job (cl_job c) (cl_references c)) (\<lambda>s. Inr (JObj ([
       (''claim_ref'', JStr (cl_claim_ref c)),
       (''status'', status_as_dict s)]
     @ (case cl_references c of None \<Rightarrow> [] | Some a \<Rightarrow> [(''references'', artifact_refs_as_dict a)]))))"

record worker_result =
  wr_status :: string
  wr_job :: job
  wr_engine_called :: bool
  wr_failure_class :: "failure_class option"
  wr_references :: "artifact_refs option"

definition failure_class_values :: "(string \<times> failure_class) list" where
  "failure_class_values = [(''RETRYABLE'', FC_RETRYABLE), (''NOT_RETRYABLE'', FC_NOT_RETRYABLE),
     (''SEMANTIC_REPAIR'', FC_SEMANTIC_REPAIR)]"

definition worker_result_as_dict :: "worker_result \<Rightarrow> json res" where
  "worker_result_as_dict w =
     bind_res (status_from_job (wr_job w) (wr_references w)) (\<lambda>s. Inr (JObj (status_fields s @ [
       (''status'', JStr (wr_status w)),
       (''engine_called'', JBool (wr_engine_called w))]
     @ (case wr_failure_class w of None \<Rightarrow> []
        | Some f \<Rightarrow> [(''failure_class'', JStr (value_in failure_class_values f))]))))"

datatype admission_state = AD_ACTIVE | AD_QUEUED | AD_TERMINAL

definition admission_values :: "(string \<times> admission_state) list" where
  "admission_values = [(''ACTIVE'', AD_ACTIVE), (''QUEUED'', AD_QUEUED), (''TERMINAL'', AD_TERMINAL)]"

record queue_entry =
  qe_sequence :: int
  qe_identity :: job_identity
  qe_lifecycle :: lifecycle
  qe_admission :: admission_state
  qe_references :: artifact_refs

definition qe_active :: "queue_entry \<Rightarrow> bool" where
  "qe_active e \<longleftrightarrow> qe_admission e = AD_ACTIVE"

definition queue_entry_as_dict :: "queue_entry \<Rightarrow> json" where
  "queue_entry_as_dict e = JObj [
     (''sequence'', JInt (qe_sequence e)),
     (''identity'', identity_as_dict (qe_identity e)),
     (''lifecycle'', JStr (value_in lifecycle_values (qe_lifecycle e))),
     (''admission_state'', JStr (value_in admission_values (qe_admission e))),
     (''active'', JBool (qe_active e)),
     (''references'', artifact_refs_as_dict (qe_references e))]"

record queue_status =
  qs_scope :: scope_context
  qs_revision :: int
  qs_active_job_id :: "string option"
  qs_entries :: "queue_entry list"

definition qs_queued :: "queue_status \<Rightarrow> queue_entry list" where
  "qs_queued q = filter (\<lambda>e. qe_admission e = AD_QUEUED) (qs_entries q)"

definition qs_active :: "queue_status \<Rightarrow> queue_entry option" where
  "qs_active q = find qe_active (qs_entries q)"

definition qs_active_run_id :: "queue_status \<Rightarrow> string option" where
  "qs_active_run_id q = map_option (\<lambda>e. di_run_id (qe_identity e)) (qs_active q)"

definition queue_status_as_dict :: "queue_status \<Rightarrow> json" where
  "queue_status_as_dict q = JObj [
     (''contract_version'', JStr ''1.0''),
     (''scope'', scope_context_as_dict (qs_scope q)),
     (''revision'', JInt (qs_revision q)),
     (''active_job_id'', json_opt_str (qs_active_job_id q)),
     (''active_heavy_job_id'', json_opt_str (qs_active_job_id q)),
     (''active_run_id'', json_opt_str (qs_active_run_id q)),
     (''entries'', JArr (map queue_entry_as_dict (qs_entries q)))]"

section \<open>Queue records and the admission state\<close>

record queue_record =
  sq_sequence :: int
  sq_identity :: job_identity
  sq_references :: artifact_refs

definition queue_record_as_dict :: "queue_record \<Rightarrow> json" where
  "queue_record_as_dict e = JObj [
     (''sequence'', JInt (sq_sequence e)),
     (''identity'', identity_as_dict (sq_identity e)),
     (''references'', artifact_refs_as_dict (sq_references e))]"

definition queue_record_from_dict :: "json \<Rightarrow> queue_record res" where
  "queue_record_from_dict v =
     (case v of
        JObj kvs \<Rightarrow>
          if keys_of kvs \<noteq> set [''sequence'', ''identity'', ''references''] then Inl corrupt
          else (case json_int (field_or JNull ''sequence'' kvs) of
             None \<Rightarrow> Inl corrupt
           | Some n \<Rightarrow>
               if n < 1 then Inl corrupt
               else bind_res (identity_from_dict (field_or JNull ''identity'' kvs)) (\<lambda>d.
                    bind_res (artifact_refs_from_dict (field_or JNull ''references'' kvs)) (\<lambda>r.
                    bind_res (validate_scoped_identity d) (\<lambda>_.
                      if ar_scope_ref r \<noteq> di_scope_ref d \<or> ar_store_ref r \<noteq> di_store_ref d
                      then Inl corrupt
                      else Inr \<lparr>sq_sequence = n, sq_identity = d, sq_references = r\<rparr>))))
      | _ \<Rightarrow> Inl corrupt)"

record control_state =
  sk_scope :: scope_context
  sk_revision :: int
  sk_next_sequence :: int
  sk_active_job_id :: "string option"
  sk_entries :: "queue_record list"
  sk_schema_version :: string

definition control_without_hash :: "control_state \<Rightarrow> (string \<times> json) list" where
  "control_without_hash s = [
     (''schema_version'', JStr (sk_schema_version s)),
     (''scope'', scope_context_as_dict (sk_scope s)),
     (''revision'', JInt (sk_revision s)),
     (''next_sequence'', JInt (sk_next_sequence s)),
     (''active_job_id'', json_opt_str (sk_active_job_id s)),
     (''entries'', JArr (map queue_record_as_dict (sk_entries s)))]"

definition control_as_dict :: "control_state \<Rightarrow> json" where
  "control_as_dict s = JObj (control_without_hash s @
     [(''state_sha256'', JStr (stable_revision (JObj (control_without_hash s))))])"

definition max_sequence :: "int list \<Rightarrow> int" where
  "max_sequence ns = foldr max ns 0"

text \<open>Iterating over a JSON value: a string or an object yields no queue entry.\<close>

definition control_entries :: "json \<Rightarrow> queue_record list res" where
  "control_entries v =
     (case v of
        JArr vs \<Rightarrow> map_res queue_record_from_dict vs
      | JStr s \<Rightarrow> if s = [] then Inr [] else Inl corrupt
      | JObj kvs \<Rightarrow> if kvs = [] then Inr [] else Inl corrupt
      | _ \<Rightarrow> Inl corrupt)"

definition control_names :: "string list" where
  "control_names = [''schema_version'', ''scope'', ''revision'', ''next_sequence'', ''active_job_id'',
     ''entries'']"

definition control_checks ::
  "scope_context \<Rightarrow> queue_record list \<Rightarrow> string option \<Rightarrow> int \<Rightarrow> (bool \<times> err) list"
where
  "control_checks ctx entries active next_sequence =
     (let sequences = map sq_sequence entries;
          job_ids = map (\<lambda>e. di_job_id (sq_identity e)) entries in [
        (\<not> sorted sequences \<or> \<not> distinct sequences \<or> \<not> distinct job_ids, corrupt),
        (list_ex (\<lambda>e. di_scope_ref (sq_identity e) \<noteq> sc_scope_ref ctx) entries, corrupt),
        (case active of None \<Rightarrow> False | Some a \<Rightarrow> \<not> strict_identifier a, invalid),
        (case active of None \<Rightarrow> False | Some a \<Rightarrow> a \<notin> set job_ids, corrupt),
        (next_sequence \<le> max_sequence sequences, corrupt)])"

definition control_from_dict :: "json \<Rightarrow> control_state res" where
  "control_from_dict v =
     (case v of
        JObj kvs \<Rightarrow>
          bind_res (guards [
            (keys_of kvs \<noteq> set (''state_sha256'' # control_names), corrupt),
            (field_or JNull ''state_sha256'' kvs
               \<noteq> JStr (stable_revision (JObj (without_key ''state_sha256'' kvs))), corrupt),
            (field_or JNull ''schema_version'' kvs \<noteq> JStr ''1.0'', unsupported_version),
            (raw_int (field_or JNull ''revision'' kvs) < 0, corrupt),
            (raw_int (field_or JNull ''next_sequence'' kvs) < 1, corrupt)]) (\<lambda>_.
          bind_res (scope_context_from_dict (field_or JNull ''scope'' kvs)) (\<lambda>ctx.
          bind_res (control_entries (field_or JNull ''entries'' kvs)) (\<lambda>entries.
            let active = raw_opt_identifier (field_or JNull ''active_job_id'' kvs);
                next_sequence = raw_int (field_or JNull ''next_sequence'' kvs) in
            bind_res (guards (control_checks ctx entries active next_sequence)) (\<lambda>_. Inr \<lparr>
              sk_scope = ctx, sk_revision = raw_int (field_or JNull ''revision'' kvs),
              sk_next_sequence = next_sequence, sk_active_job_id = active, sk_entries = entries,
              sk_schema_version = ''1.0''\<rparr>))))
      | _ \<Rightarrow> Inl corrupt)"

section \<open>Admission records\<close>

record scoped_record =
  sj_identity :: job_identity
  sj_runtime :: runtime_identity
  sj_environment :: environment
  sj_submitted_at :: string
  sj_sequence :: int
  sj_scope :: scope_context
  sj_references :: artifact_refs
  sj_fingerprint :: "string option"
  sj_schema_version :: string

definition scoped_record_fields :: "scoped_record \<Rightarrow> (string \<times> json) list" where
  "scoped_record_fields r = [
     (''schema_version'', JStr (sj_schema_version r)),
     (''identity'', identity_as_dict (sj_identity r)),
     (''runtime_identity'', runtime_as_dict (sj_runtime r)),
     (''environment_identity'', env_as_dict (sj_environment r)),
     (''submitted_at'', JStr (sj_submitted_at r)),
     (''admission_sequence'', JInt (sj_sequence r)),
     (''scope'', scope_context_as_dict (sj_scope r)),
     (''references'', artifact_refs_as_dict (sj_references r))]
   @ (case sj_fingerprint r of None \<Rightarrow> [] | Some f \<Rightarrow> [(''submission_fingerprint'', JStr f)])"

definition scoped_record_as_dict :: "scoped_record \<Rightarrow> json" where
  "scoped_record_as_dict r = JObj (scoped_record_fields r @
     [(''record_sha256'', JStr (stable_revision (JObj (scoped_record_fields r))))])"

definition scoped_record_names :: "string list" where
  "scoped_record_names = [''schema_version'', ''identity'', ''runtime_identity'',
     ''environment_identity'', ''submitted_at'', ''admission_sequence'', ''scope'', ''references'',
     ''record_sha256'']"

definition scoped_record_from_dict :: "env_reference \<Rightarrow> json \<Rightarrow> scoped_record res" where
  "scoped_record_from_dict ref v =
     (case v of
        JObj kvs \<Rightarrow>
          bind_res (guards [
            (keys_of kvs \<noteq> set scoped_record_names
               \<and> keys_of kvs \<noteq> set (''submission_fingerprint'' # scoped_record_names), corrupt),
            (field_or JNull ''record_sha256'' kvs
               \<noteq> JStr (stable_revision (JObj (without_key ''record_sha256'' kvs))), corrupt),
            (field_or JNull ''schema_version'' kvs \<noteq> JStr ''1.0'', unsupported_version),
            (raw_int (field_or JNull ''admission_sequence'' kvs) < 1, corrupt),
            (case raw_opt_identifier (field_or JNull ''submission_fingerprint'' kvs) of
               None \<Rightarrow> False | Some f \<Rightarrow> \<not> matches_sha256 f, corrupt)]) (\<lambda>_.
          bind_res (catch_corrupt (
            bind_res (identity_from_dict (field_or JNull ''identity'' kvs)) (\<lambda>d.
            bind_res (runtime_from_dict ref (field_or JNull ''runtime_identity'' kvs)) (\<lambda>rt.
            bind_res (env_from_dict ref (field_or JNull ''environment_identity'' kvs)) (\<lambda>env.
            bind_res (scope_context_from_dict (field_or JNull ''scope'' kvs)) (\<lambda>ctx.
            bind_res (artifact_refs_from_dict (field_or JNull ''references'' kvs)) (\<lambda>refs.
            bind_res (validate_scoped_identity d) (\<lambda>_.
              if di_scope_ref d \<noteq> sc_scope_ref ctx \<or> ar_scope_ref refs \<noteq> sc_scope_ref ctx
                 \<or> ar_store_ref refs \<noteq> di_store_ref d
              then Inl corrupt
              else Inr \<lparr>
                sj_identity = d, sj_runtime = rt, sj_environment = env,
                sj_submitted_at = raw_str (field_or JNull ''submitted_at'' kvs),
                sj_sequence = raw_int (field_or JNull ''admission_sequence'' kvs),
                sj_scope = ctx, sj_references = refs,
                sj_fingerprint = raw_opt_identifier (field_or JNull ''submission_fingerprint'' kvs),
                sj_schema_version = ''1.0''\<rparr>))))))))
          (\<lambda>r. if \<not> paas_timestamp_ok (field_or JNull ''submitted_at'' kvs) then Inl corrupt else Inr r))
      | _ \<Rightarrow> Inl corrupt)"

definition submission_fingerprint :: "job \<Rightarrow> runtime_identity \<Rightarrow> string res" where
  "submission_fingerprint j rt =
     bind_res (identity_from_job j) (\<lambda>d.
     bind_res (case jb_environment j of Some e \<Rightarrow> Inr e | None \<Rightarrow> runtime_environment rt) (\<lambda>e.
       Inr (stable_revision (JObj [
         (''identity'', identity_as_dict d),
         (''runtime_identity'', runtime_as_dict rt),
         (''environment_identity'', env_as_dict e),
         (''total_work_units'', JInt (pg_total_work_units (ck_progress (jb_checkpoint j)))),
         (''max_attempts'', JInt (rt_max_attempts (jb_retry j))),
         (''engine_state_revision'', JInt (ck_engine_state_revision (jb_checkpoint j)))]))))"

section \<open>Unscoped job records\<close>

record job_record =
  pj_identity :: job_identity
  pj_runtime :: runtime_identity
  pj_environment :: environment
  pj_submitted_at :: string
  pj_schema_version :: string

definition job_record_fields :: "job_record \<Rightarrow> (string \<times> json) list" where
  "job_record_fields r = [
     (''schema_version'', JStr (pj_schema_version r)),
     (''identity'', identity_as_dict (pj_identity r)),
     (''runtime_identity'', runtime_as_dict (pj_runtime r)),
     (''environment_identity'', env_as_dict (pj_environment r)),
     (''submitted_at'', JStr (pj_submitted_at r))]"

definition job_record_as_dict :: "job_record \<Rightarrow> json" where
  "job_record_as_dict r = JObj (job_record_fields r @
     [(''record_sha256'', JStr (stable_revision (JObj (job_record_fields r))))])"

definition job_record_names :: "string list" where
  "job_record_names = [''schema_version'', ''identity'', ''runtime_identity'',
     ''environment_identity'', ''submitted_at'', ''record_sha256'']"

definition job_record_from_dict :: "env_reference \<Rightarrow> json \<Rightarrow> job_record res" where
  "job_record_from_dict ref v =
     (case v of
        JObj kvs \<Rightarrow>
          bind_res (guards [
            (keys_of kvs \<noteq> set job_record_names, corrupt),
            (field_or JNull ''record_sha256'' kvs
               \<noteq> JStr (stable_revision (JObj (without_key ''record_sha256'' kvs))), corrupt),
            (field_or JNull ''schema_version'' kvs \<noteq> JStr ''1.0'', unsupported_version)]) (\<lambda>_.
          bind_res (identity_from_dict (field_or JNull ''identity'' kvs)) (\<lambda>d.
          bind_res (runtime_from_dict ref (field_or JNull ''runtime_identity'' kvs)) (\<lambda>rt.
          bind_res (env_from_dict ref (field_or JNull ''environment_identity'' kvs)) (\<lambda>env.
            if \<not> paas_timestamp_ok (field_or JNull ''submitted_at'' kvs) then Inl corrupt
            else Inr \<lparr>pj_identity = d, pj_runtime = rt, pj_environment = env,
                       pj_submitted_at = raw_str (field_or JNull ''submitted_at'' kvs),
                       pj_schema_version = ''1.0''\<rparr>))))
      | _ \<Rightarrow> Inl corrupt)"

end
