(* ===== verification/Paas_Codec.thy ===== *)
theory Paas_Codec
  imports Paas_Records
begin

text \<open>
  Round trips of the records the durable job service persists: what is written is read back, and
  what is read satisfies the checks of its data class. Reading an admission record back loses the
  environment inside the runtime identity, which its JSON form does not contain.
\<close>

section \<open>Well-formed values\<close>

definition wf_scope :: "scope_context \<Rightarrow> bool" where
  "wf_scope c \<longleftrightarrow>
     safe_identity (sc_user_ref c) \<and> safe_identity (sc_workspace_ref c) \<and> safe_identity (sc_scope_ref c)"

definition wf_identity :: "job_identity \<Rightarrow> bool" where
  "wf_identity d \<longleftrightarrow> identity_post_init d = Inr d"

definition wf_refs :: "artifact_refs \<Rightarrow> bool" where
  "wf_refs r \<longleftrightarrow> artifact_refs_post_init r = Inr r"

definition wf_runtime :: "runtime_identity \<Rightarrow> bool" where
  "wf_runtime r \<longleftrightarrow> runtime_identity_post_init r = Inr r"

definition wf_queue_record :: "queue_record \<Rightarrow> bool" where
  "wf_queue_record e \<longleftrightarrow>
     1 \<le> sq_sequence e \<and> wf_identity (sq_identity e) \<and> wf_refs (sq_references e)
     \<and> validate_scoped_identity (sq_identity e) = Inr ()
     \<and> ar_scope_ref (sq_references e) = di_scope_ref (sq_identity e)
     \<and> ar_store_ref (sq_references e) = di_store_ref (sq_identity e)"

definition wf_control :: "control_state \<Rightarrow> bool" where
  "wf_control s \<longleftrightarrow>
     sk_schema_version s = ''1.0'' \<and> 0 \<le> sk_revision s \<and> 1 \<le> sk_next_sequence s
     \<and> wf_scope (sk_scope s) \<and> list_all wf_queue_record (sk_entries s)
     \<and> (\<forall>g \<in> set (control_checks (sk_scope s) (sk_entries s) (sk_active_job_id s) (sk_next_sequence s)).
          \<not> fst g)"

definition wf_scoped_record :: "scoped_record \<Rightarrow> bool" where
  "wf_scoped_record r \<longleftrightarrow>
     sj_schema_version r = ''1.0'' \<and> 1 \<le> sj_sequence r
     \<and> wf_identity (sj_identity r) \<and> validate_scoped_identity (sj_identity r) = Inr ()
     \<and> wf_runtime (sj_runtime r) \<and> valid_environment (sj_environment r)
     \<and> wf_scope (sj_scope r) \<and> wf_refs (sj_references r)
     \<and> di_scope_ref (sj_identity r) = sc_scope_ref (sj_scope r)
     \<and> ar_scope_ref (sj_references r) = sc_scope_ref (sj_scope r)
     \<and> ar_store_ref (sj_references r) = di_store_ref (sj_identity r)
     \<and> matches_timestamp (sj_submitted_at r)
     \<and> (case sj_fingerprint r of None \<Rightarrow> True | Some f \<Rightarrow> matches_sha256 f)"

definition stored_runtime :: "runtime_identity \<Rightarrow> runtime_identity" where
  "stored_runtime rt = rt\<lparr>ri_environment := None\<rparr>"

definition stored_record :: "scoped_record \<Rightarrow> scoped_record" where
  "stored_record r = r\<lparr>sj_runtime := stored_runtime (sj_runtime r)\<rparr>"

section \<open>Constructors return their argument\<close>

lemma paas_post_init_results:
  "identity_post_init d = Inr d' \<Longrightarrow> d' = d"
  "artifact_refs_post_init r = Inr r' \<Longrightarrow> r' = r"
  "runtime_identity_post_init t = Inr t' \<Longrightarrow> t' = t"
  "admission_policy_post_init p = Inr p' \<Longrightarrow> p' = p"
  by (simp_all add: identity_post_init_def artifact_refs_post_init_def runtime_identity_post_init_def
      admission_policy_post_init_def bind_guards_Inr_iff del: guards.simps)

lemma scope_context_post_init_iff:
  "scope_context_post_init u w r = Inr c \<longleftrightarrow>
     wf_scope c \<and> sc_user_ref c = u \<and> sc_workspace_ref c = w
     \<and> sc_scope_ref c = (case r of None \<Rightarrow> derived_scope_ref u w
                          | Some s \<Rightarrow> if s = [] then derived_scope_ref u w else s)"
  by (cases c) (auto simp: scope_context_post_init_def wf_scope_def bind_guards_Inr_iff Let_def
      simp del: guards.simps)

lemma safe_identity_nonempty: "safe_identity s \<Longrightarrow> s \<noteq> []"
  by (auto simp: safe_identity_def matches_paas_identifier_def)

lemma raw_scope_ref_JStr [simp]: "raw_scope_ref (JStr s) = (if s = [] then None else Some s)"
  by (simp add: raw_scope_ref_def)

section \<open>Round trips\<close>

lemma scope_round_trip: "wf_scope c \<Longrightarrow> scope_context_from_dict (scope_context_as_dict c) = Inr c"
  using safe_identity_nonempty
  by (auto simp: scope_context_from_dict_def scope_context_as_dict_def keys_of_def field_or_def
      scope_context_post_init_iff wf_scope_def raw_str_def)

lemma identity_round_trip: "wf_identity d \<Longrightarrow> identity_from_dict (identity_as_dict d) = Inr d"
  by (cases d) (simp add: identity_from_dict_def identity_as_dict_def identity_names_def keys_of_def field_or_def
      raw_str_def wf_identity_def)

lemma refs_checks: "wf_refs r \<Longrightarrow> guards (artifact_identity_checks r) = Inr ()"
  by (auto simp: wf_refs_def artifact_refs_post_init_def guards_append bind_res_Inr_iff simp del: guards.simps)

lemma member_of_plane [simp]: "member_of plane_values (JStr (value_in plane_values p)) = Inr p"
  by (cases p) (simp_all add: member_of_def plane_values_def)

lemma refs_round_trip: "wf_refs r \<Longrightarrow> artifact_refs_from_dict (artifact_refs_as_dict r) = Inr r"
proof -
  assume wf: "wf_refs r"
  have "artifact_identity_checks (r\<lparr>ar_plane := PL_DURABLE\<rparr>) = artifact_identity_checks r"
    by (simp add: artifact_identity_checks_def)
  with refs_checks [OF wf] have checks:
    "guards (artifact_identity_checks (r\<lparr>ar_plane := PL_DURABLE\<rparr>)) = Inr ()" by simp
  have raw: "\<lparr>ar_scope_ref = ar_scope_ref r, ar_store_ref = ar_store_ref r, ar_run_ref = ar_run_ref r,
      ar_result_ref = ar_result_ref r, ar_evidence_ref = ar_evidence_ref r, ar_plane = PL_DURABLE,
      ar_contract_version = ar_contract_version r\<rparr> = r\<lparr>ar_plane := PL_DURABLE\<rparr>"
    by simp
  have "r\<lparr>ar_plane := ar_plane r\<rparr> = r" by simp
  with wf checks show ?thesis
    by (simp add: artifact_refs_from_dict_def artifact_refs_as_dict_def artifact_required_def
        keys_of_def field_or_def raw_str_def raw Let_def wf_refs_def del: guards.simps)
qed

lemma runtime_post_init_env:
  "runtime_identity_post_init (rt\<lparr>ri_environment := e\<rparr>) =
     bind_res (runtime_identity_post_init rt) (\<lambda>_. Inr (rt\<lparr>ri_environment := e\<rparr>))"
  by (simp add: runtime_identity_post_init_def)

lemma runtime_round_trip:
  "wf_runtime rt \<Longrightarrow> runtime_from_dict ref (runtime_as_dict rt) = Inr (stored_runtime rt)"
  using runtime_post_init_env [where rt = rt and e = None]
  by (cases rt) (simp add: runtime_from_dict_def runtime_as_dict_def runtime_names_def keys_of_def
      field_or_def raw_str_def wf_runtime_def stored_runtime_def)

lemma queue_record_round_trip:
  "wf_queue_record e \<Longrightarrow> queue_record_from_dict (queue_record_as_dict e) = Inr e"
  by (simp add: queue_record_from_dict_def queue_record_as_dict_def keys_of_def field_or_def
      wf_queue_record_def identity_round_trip refs_round_trip)

lemma raw_opt_identifier_opt [simp]: "raw_opt_identifier (json_opt_str s) = s"
  by (cases s) (simp_all add: raw_opt_identifier_def json_opt_str_def raw_str_def)

lemma control_entries_encoded:
  "list_all wf_queue_record es \<Longrightarrow> control_entries (JArr (map queue_record_as_dict es)) = Inr es"
  using map_res_map [of es queue_record_from_dict queue_record_as_dict id]
  by (simp add: control_entries_def queue_record_round_trip list_all_iff)

lemma control_encoded_fields [simp]:
  "field_or JNull ''schema_version'' (control_without_hash s @ [(''state_sha256'', JStr h)]) = JStr (sk_schema_version s)"
  "field_or JNull ''scope'' (control_without_hash s @ [(''state_sha256'', JStr h)]) = scope_context_as_dict (sk_scope s)"
  "field_or JNull ''revision'' (control_without_hash s @ [(''state_sha256'', JStr h)]) = JInt (sk_revision s)"
  "field_or JNull ''next_sequence'' (control_without_hash s @ [(''state_sha256'', JStr h)]) = JInt (sk_next_sequence s)"
  "field_or JNull ''active_job_id'' (control_without_hash s @ [(''state_sha256'', JStr h)]) = json_opt_str (sk_active_job_id s)"
  "field_or JNull ''entries'' (control_without_hash s @ [(''state_sha256'', JStr h)]) = JArr (map queue_record_as_dict (sk_entries s))"
  "field_or JNull ''state_sha256'' (control_without_hash s @ [(''state_sha256'', JStr h)]) = JStr h"
  "without_key ''state_sha256'' (control_without_hash s @ [(''state_sha256'', JStr h)]) = control_without_hash s"
  "keys_of (control_without_hash s @ [(''state_sha256'', JStr h)]) = set (''state_sha256'' # control_names)"
  by (auto simp: control_without_hash_def field_or_def without_key_def keys_of_def control_names_def)

lemma control_round_trip:
  assumes "wf_control s"
  shows "control_from_dict (control_as_dict s) = Inr s"
proof -
  from assms have checks: "guards (control_checks (sk_scope s) (sk_entries s) (sk_active_job_id s)
      (sk_next_sequence s)) = Inr ()"
    by (simp add: wf_control_def guards_ok_iff)
  have "s = \<lparr>sk_scope = sk_scope s, sk_revision = sk_revision s, sk_next_sequence = sk_next_sequence s,
      sk_active_job_id = sk_active_job_id s, sk_entries = sk_entries s, sk_schema_version = ''1.0''\<rparr>"
    using assms by (simp add: wf_control_def)
  with assms checks show ?thesis
    by (simp add: control_from_dict_def control_as_dict_def wf_control_def scope_round_trip
        control_entries_encoded Let_def)
qed

section \<open>Decoded values are well formed\<close>

lemma scope_from_dict_wf: "scope_context_from_dict v = Inr c \<Longrightarrow> wf_scope c"
  by (auto simp: scope_context_from_dict_def scope_context_post_init_iff split: json.splits if_splits)

lemma identity_from_dict_wf: "identity_from_dict v = Inr d \<Longrightarrow> wf_identity d"
  by (auto simp: identity_from_dict_def wf_identity_def dest: paas_post_init_results
      split: json.splits if_splits)

lemma refs_from_dict_wf: "artifact_refs_from_dict v = Inr r \<Longrightarrow> wf_refs r"
  by (auto simp: artifact_refs_from_dict_def wf_refs_def Let_def bind_guards_Inr_iff
      dest: paas_post_init_results simp del: guards.simps split: json.splits if_splits sum.splits)

lemma runtime_from_dict_wf: "runtime_from_dict ref v = Inr rt \<Longrightarrow> wf_runtime rt"
  by (auto simp: runtime_from_dict_def wf_runtime_def bind_res_Inr_iff dest: paas_post_init_results
      split: json.splits if_splits option.splits)

lemma queue_record_from_dict_wf:
  assumes "queue_record_from_dict v = Inr e"
  shows "wf_queue_record e"
proof -
  from assms obtain kvs n d r where "1 \<le> n"
    and d: "identity_from_dict (field_or JNull ''identity'' kvs) = Inr d"
    and r: "artifact_refs_from_dict (field_or JNull ''references'' kvs) = Inr r"
    and "validate_scoped_identity d = Inr ()" "ar_scope_ref r = di_scope_ref d"
      "ar_store_ref r = di_store_ref d" "e = \<lparr>sq_sequence = n, sq_identity = d, sq_references = r\<rparr>"
    unfolding queue_record_from_dict_def
    by (simp add: bind_res_Inr_iff split: json.split_asm if_split_asm option.split_asm) force
  with identity_from_dict_wf [OF d] refs_from_dict_wf [OF r] show ?thesis
    by (simp add: wf_queue_record_def)
qed

lemma control_from_dict_wf:
  assumes "control_from_dict v = Inr s"
  shows "wf_control s"
proof -
  from assms obtain kvs ctx es where
    ctx: "scope_context_from_dict (field_or JNull ''scope'' kvs) = Inr ctx"
    and es: "control_entries (field_or JNull ''entries'' kvs) = Inr es"
    and rest: "guards (control_checks ctx es (raw_opt_identifier (field_or JNull ''active_job_id'' kvs))
        (raw_int (field_or JNull ''next_sequence'' kvs))) = Inr ()"
      "s = \<lparr>sk_scope = ctx, sk_revision = raw_int (field_or JNull ''revision'' kvs),
        sk_next_sequence = raw_int (field_or JNull ''next_sequence'' kvs),
        sk_active_job_id = raw_opt_identifier (field_or JNull ''active_job_id'' kvs),
        sk_entries = es, sk_schema_version = ''1.0''\<rparr>"
      "0 \<le> raw_int (field_or JNull ''revision'' kvs)"
      "1 \<le> raw_int (field_or JNull ''next_sequence'' kvs)"
    by (auto simp: control_from_dict_def bind_res_Inr_iff Let_def split: json.splits if_splits)
  have "list_all wf_queue_record es"
    using es by (auto simp: control_entries_def list_all_iff dest: map_res_set
        intro: queue_record_from_dict_wf split: json.splits if_splits)
  with ctx rest scope_from_dict_wf show ?thesis
    by (auto simp: wf_control_def guards_ok_iff)
qed

section \<open>Admission records\<close>

lemma scoped_record_fields_select [simp]:
  "field_or JNull ''schema_version'' (scoped_record_fields r @ [(''record_sha256'', JStr h)]) = JStr (sj_schema_version r)"
  "field_or JNull ''identity'' (scoped_record_fields r @ [(''record_sha256'', JStr h)]) = identity_as_dict (sj_identity r)"
  "field_or JNull ''runtime_identity'' (scoped_record_fields r @ [(''record_sha256'', JStr h)]) = runtime_as_dict (sj_runtime r)"
  "field_or JNull ''environment_identity'' (scoped_record_fields r @ [(''record_sha256'', JStr h)]) = env_as_dict (sj_environment r)"
  "field_or JNull ''submitted_at'' (scoped_record_fields r @ [(''record_sha256'', JStr h)]) = JStr (sj_submitted_at r)"
  "field_or JNull ''admission_sequence'' (scoped_record_fields r @ [(''record_sha256'', JStr h)]) = JInt (sj_sequence r)"
  "field_or JNull ''scope'' (scoped_record_fields r @ [(''record_sha256'', JStr h)]) = scope_context_as_dict (sj_scope r)"
  "field_or JNull ''references'' (scoped_record_fields r @ [(''record_sha256'', JStr h)]) = artifact_refs_as_dict (sj_references r)"
  "field_or JNull ''submission_fingerprint'' (scoped_record_fields r @ [(''record_sha256'', JStr h)]) = json_opt_str (sj_fingerprint r)"
  "field_or JNull ''record_sha256'' (scoped_record_fields r @ [(''record_sha256'', JStr h)]) = JStr h"
  "without_key ''record_sha256'' (scoped_record_fields r @ [(''record_sha256'', JStr h)]) = scoped_record_fields r"
  by (auto simp: scoped_record_fields_def field_or_def without_key_def json_opt_str_def split: option.splits)

lemma keys_of_scoped_record:
  "keys_of (scoped_record_fields r @ [(''record_sha256'', JStr h)]) =
     (case sj_fingerprint r of None \<Rightarrow> set scoped_record_names
      | Some f \<Rightarrow> set (''submission_fingerprint'' # scoped_record_names))"
  by (auto simp: scoped_record_fields_def keys_of_def scoped_record_names_def split: option.splits)

lemma scoped_record_round_trip:
  assumes "wf_scoped_record r"
  shows "scoped_record_from_dict ref (scoped_record_as_dict r) = Inr (stored_record r)"
proof -
  have "stored_record r = \<lparr>sj_identity = sj_identity r, sj_runtime = stored_runtime (sj_runtime r),
      sj_environment = sj_environment r, sj_submitted_at = sj_submitted_at r, sj_sequence = sj_sequence r,
      sj_scope = sj_scope r, sj_references = sj_references r, sj_fingerprint = sj_fingerprint r,
      sj_schema_version = ''1.0''\<rparr>"
    using assms by (simp add: stored_record_def wf_scoped_record_def)
  with assms show ?thesis
    by (cases "sj_fingerprint r")
      (simp_all add: scoped_record_from_dict_def scoped_record_as_dict_def wf_scoped_record_def
        keys_of_scoped_record identity_round_trip runtime_round_trip scope_round_trip refs_round_trip
        env_from_dict_as_dict paas_timestamp_ok_def raw_str_def json_opt_str_def raw_opt_identifier_def)
qed

lemma scoped_record_from_dict_wf:
  assumes "scoped_record_from_dict ref v = Inr r"
  shows "wf_scoped_record r"
proof -
  from assms obtain kvs d rt env ctx refs where
    d: "identity_from_dict (field_or JNull ''identity'' kvs) = Inr d"
    and rt: "runtime_from_dict ref (field_or JNull ''runtime_identity'' kvs) = Inr rt"
    and env: "env_from_dict ref (field_or JNull ''environment_identity'' kvs) = Inr env"
    and ctx: "scope_context_from_dict (field_or JNull ''scope'' kvs) = Inr ctx"
    and refs: "artifact_refs_from_dict (field_or JNull ''references'' kvs) = Inr refs"
    and rest: "validate_scoped_identity d = Inr ()" "di_scope_ref d = sc_scope_ref ctx"
      "ar_scope_ref refs = sc_scope_ref ctx" "ar_store_ref refs = di_store_ref d"
      "paas_timestamp_ok (field_or JNull ''submitted_at'' kvs)"
      "1 \<le> raw_int (field_or JNull ''admission_sequence'' kvs)"
      "case raw_opt_identifier (field_or JNull ''submission_fingerprint'' kvs) of
         None \<Rightarrow> True | Some f \<Rightarrow> matches_sha256 f"
    and r: "r = \<lparr>sj_identity = d, sj_runtime = rt, sj_environment = env,
      sj_submitted_at = raw_str (field_or JNull ''submitted_at'' kvs),
      sj_sequence = raw_int (field_or JNull ''admission_sequence'' kvs),
      sj_scope = ctx, sj_references = refs,
      sj_fingerprint = raw_opt_identifier (field_or JNull ''submission_fingerprint'' kvs),
      sj_schema_version = ''1.0''\<rparr>"
    unfolding scoped_record_from_dict_def
    by (simp add: bind_res_Inr_iff split: json.split_asm if_split_asm option.split_asm)
  from rest(5) have "matches_timestamp (raw_str (field_or JNull ''submitted_at'' kvs))"
    by (auto simp: paas_timestamp_ok_def raw_str_def split: option.splits)
  with identity_from_dict_wf [OF d] runtime_from_dict_wf [OF rt] env_from_dict_valid [OF env]
    scope_from_dict_wf [OF ctx] refs_from_dict_wf [OF refs] rest r
  show ?thesis by (simp add: wf_scoped_record_def)
qed

end
