(* ===== verification/Paas_Admission.thy ===== *)
theory Paas_Admission
  imports Paas_Codec "HOL-Library.Char_ord" "HOL-Library.List_Lexorder" "HOL-Library.Product_Lexorder"
begin

text \<open>
  The durable admission state of one authorized scope (\<open>ReferencePaaSJobService\<close> of
  \<open>src/k_slide/paas.py\<close>): the admission records, the two mirrors of the control state, the scope's
  run store and its deletion audits, with reading, recovery, normalization and persistence. Every
  operation runs under the scope lock, so an operation is a function of the scope directory. A
  deletion audit is represented by what reading and decoding its file gives; the storage layout's
  path checks are not modelled.
\<close>

section \<open>The scope directory\<close>

datatype deletion_state = DS_PLANNED | DS_IN_PROGRESS | DS_BLOCKED | DS_PARTIAL | DS_COMPLETE

datatype audit_node =
    AuditLink
  | AuditUnreadable
  | AuditRecord (audit_scope: string) (audit_run: string) (audit_state: deletion_state)

datatype audit_root = NoAudits | AuditRootLink | Audits "audit_node list"

record scope_dir =
  sd_records :: "(string \<times> job_file) list"
  sd_control :: "job_file option"
  sd_queue :: "job_file option"
  sd_store :: run_store
  sd_audits :: audit_root

type_synonym 'a scope_op = "scope_dir \<Rightarrow> 'a res \<times> scope_dir"

text \<open>Sequencing: a step that raises ends the operation, keeping what was written.\<close>

definition then_op :: "('s \<Rightarrow> 'a res \<times> 's) \<Rightarrow> ('a \<Rightarrow> 's \<Rightarrow> 'b res \<times> 's) \<Rightarrow> 's \<Rightarrow> 'b res \<times> 's" where
  "then_op m f s = (case m s of (Inl e, s') \<Rightarrow> (Inl e, s') | (Inr x, s') \<Rightarrow> f x s')"

definition reads :: "('s \<Rightarrow> 'a res) \<Rightarrow> 's \<Rightarrow> 'a res \<times> 's" where
  "reads f s = (f s, s)"

definition returns :: "'a res \<Rightarrow> 's \<Rightarrow> 'a res \<times> 's" where
  "returns r s = (r, s)"

definition on_store :: "'a store_op \<Rightarrow> 'a scope_op" where
  "on_store f s = (case f (sd_store s) of (r, st) \<Rightarrow> (r, s\<lparr>sd_store := st\<rparr>))"

lemma then_op_simps [simp]:
  "m s = (Inl e, s') \<Longrightarrow> then_op m f s = (Inl e, s')"
  "m s = (Inr x, s') \<Longrightarrow> then_op m f s = f x s'"
  "then_op (reads g) f s = (case g s of Inl e \<Rightarrow> (Inl e, s) | Inr x \<Rightarrow> f x s)"
  "then_op (returns r) f s = (case r of Inl e \<Rightarrow> (Inl e, s) | Inr x \<Rightarrow> f x s)"
  by (simp_all add: then_op_def reads_def returns_def)

lemma scope_op_simps [simp]: "reads g s = (g s, s)" "returns r s = (r, s)"
  by (simp_all add: reads_def returns_def)

section \<open>Scope namespaces\<close>

definition scope_key :: "scope_context \<Rightarrow> string" where
  "scope_key ctx = take 40 (stable_revision (JObj [
     (''user_ref'', JStr (sc_user_ref ctx)),
     (''workspace_ref'', JStr (sc_workspace_ref ctx)),
     (''scope_ref'', JStr (sc_scope_ref ctx))]))"

definition scoped_references :: "scope_context \<Rightarrow> job_identity \<Rightarrow> artifact_refs res" where
  "scoped_references ctx d =
     (let prefix = ''scoped/'' @ scope_key ctx @ ''/jobs/'' @ di_job_id d in
      artifact_refs_post_init \<lparr>
        ar_scope_ref = di_scope_ref d, ar_store_ref = di_store_ref d,
        ar_run_ref = prefix @ ''/run/'' @ di_run_id d,
        ar_result_ref = prefix @ ''/result'', ar_evidence_ref = prefix @ ''/evidence'',
        ar_plane = PL_DURABLE, ar_contract_version = ''1.0''\<rparr>)"

text \<open>\<open>_deletion_fenced\<close>: the audits are read in directory order until one refuses.\<close>

fun audits_fence :: "string \<Rightarrow> string \<Rightarrow> audit_node list \<Rightarrow> unit res" where
  "audits_fence scope run [] = Inr ()"
| "audits_fence scope run (AuditLink # as) = Inl (KSlideError PATH_OUTSIDE_ALLOWED_ROOT)"
| "audits_fence scope run (AuditUnreadable # as) = Inl corrupt"
| "audits_fence scope run (AuditRecord sc r st # as) =
     (if sc = scope \<and> r = run \<and> st \<in> set [DS_IN_PROGRESS, DS_PARTIAL] then Inl conflict
      else audits_fence scope run as)"

definition deletion_fenced :: "scope_context \<Rightarrow> string \<Rightarrow> scope_dir \<Rightarrow> unit res" where
  "deletion_fenced ctx run_ref s =
     (case sd_audits s of
        AuditRootLink \<Rightarrow> Inl (KSlideError PATH_OUTSIDE_ALLOWED_ROOT)
      | NoAudits \<Rightarrow> Inr ()
      | Audits as \<Rightarrow> audits_fence (sc_scope_ref ctx) run_ref as)"

section \<open>Admission records\<close>

text \<open>\<open>except KSlideError\<close>: an unsupported version is raised again, anything else is corruption.\<close>

definition record_error :: "err \<Rightarrow> err" where
  "record_error e = (if e = unsupported_version then e else corrupt)"

definition read_scoped_record ::
  "env_reference \<Rightarrow> scope_context \<Rightarrow> string \<Rightarrow> scope_dir \<Rightarrow> scoped_record res"
where
  "read_scoped_record ref ctx job_id s =
     (if \<not> strict_identifier job_id then Inl invalid
      else case map_of (sd_records s) job_id of
        None \<Rightarrow> Inl scoped_not_found
      | Some f \<Rightarrow>
          (case (case f of
                   FileUnreadable \<Rightarrow> Inl corrupt
                 | FileJson v \<Rightarrow>
                     bind_res (scoped_record_from_dict ref v) (\<lambda>r.
                       if di_job_id (sj_identity r) \<noteq> job_id then Inl corrupt
                       else if sj_scope r \<noteq> ctx then Inl corrupt
                       else bind_res (scoped_references ctx (sj_identity r)) (\<lambda>refs.
                         if sj_references r \<noteq> refs then Inl corrupt else Inr r))) of
             Inl e \<Rightarrow> Inl (record_error e)
           | Inr r \<Rightarrow> Inr r))"

text \<open>The record files in the order of their names, \<open>sorted(jobs_root.glob("*.json"))\<close>.\<close>

definition record_stems :: "scope_dir \<Rightarrow> string list" where
  "record_stems s = sort_key (\<lambda>stem. stem @ ''.json'') (map fst (sd_records s))"

fun collect_records ::
  "env_reference \<Rightarrow> scope_context \<Rightarrow> scope_dir \<Rightarrow> (string \<times> scoped_record) list \<Rightarrow> string list
    \<Rightarrow> (string \<times> scoped_record) list res"
where
  "collect_records ref ctx s acc [] = Inr acc"
| "collect_records ref ctx s acc (stem # stems) =
     bind_res (read_scoped_record ref ctx stem s) (\<lambda>r.
       if sj_scope r \<noteq> ctx then Inl corrupt
       else if di_job_id (sj_identity r) \<in> set (map fst acc) then Inl corrupt
       else collect_records ref ctx s (acc @ [(di_job_id (sj_identity r), r)]) stems)"

definition read_scoped_records ::
  "env_reference \<Rightarrow> scope_context \<Rightarrow> scope_dir \<Rightarrow> (string \<times> scoped_record) list res"
where
  "read_scoped_records ref ctx s =
     bind_res (collect_records ref ctx s [] (record_stems s)) (\<lambda>records.
       if list_ex (\<lambda>p. p \<notin> set (map (\<lambda>(id, r). path_for (sd_store s) id) records))
            (map fst (st_files (sd_store s)))
       then Inl corrupt
       else if \<not> distinct (map (\<lambda>(id, r). sj_sequence r) records) then Inl corrupt
       else Inr records)"

definition entry_of :: "scoped_record \<Rightarrow> queue_record" where
  "entry_of r = \<lparr>sq_sequence = sj_sequence r, sq_identity = sj_identity r,
     sq_references = sj_references r\<rparr>"

definition entry_key :: "queue_record \<Rightarrow> int \<times> string" where
  "entry_key e = (sq_sequence e, di_job_id (sq_identity e))"

section \<open>The control state\<close>

definition recover_scoped_state ::
  "env_reference \<Rightarrow> scope_context \<Rightarrow> scope_dir \<Rightarrow> control_state res"
where
  "recover_scoped_state ref ctx s =
     bind_res (read_scoped_records ref ctx s) (\<lambda>records.
       let entries = sort_key entry_key (map (\<lambda>(id, r). entry_of r) records) in
       Inr \<lparr>sk_scope = ctx, sk_revision = 0,
            sk_next_sequence = max_sequence (map sq_sequence entries) + 1,
            sk_active_job_id = None, sk_entries = entries, sk_schema_version = ''1.0''\<rparr>)"

definition read_state_file :: "job_file \<Rightarrow> control_state res" where
  "read_state_file f =
     (case f of FileUnreadable \<Rightarrow> Inl corrupt | FileJson v \<Rightarrow> catch_corrupt (control_from_dict v))"

text \<open>The queue file mirrors the control file, which is written first.\<close>

definition reconcile_mirrors ::
  "scope_context \<Rightarrow> control_state \<Rightarrow> job_file \<Rightarrow> control_state res"
where
  "reconcile_mirrors ctx state queue_file =
     bind_res (read_state_file queue_file) (\<lambda>queue_state.
       if sk_scope queue_state \<noteq> ctx then Inl conflict
       else if control_as_dict queue_state \<noteq> control_as_dict state then
         (if sk_revision queue_state = sk_revision state then Inl corrupt
          else if sk_revision queue_state > sk_revision state then Inr queue_state
          else Inr state)
       else Inr state)"

definition load_scoped_state ::
  "env_reference \<Rightarrow> scope_context \<Rightarrow> scope_dir \<Rightarrow> control_state res"
where
  "load_scoped_state ref ctx s =
     (case (sd_control s, sd_queue s) of
        (None, None) \<Rightarrow> recover_scoped_state ref ctx s
      | (None, Some q) \<Rightarrow>
          bind_res (read_state_file q) (\<lambda>state.
            if sk_scope state \<noteq> ctx then Inl conflict else Inr state)
      | (Some c, mirror) \<Rightarrow>
          bind_res (read_state_file c) (\<lambda>state.
            if sk_scope state \<noteq> ctx then Inl conflict
            else case mirror of None \<Rightarrow> Inr state | Some q \<Rightarrow> reconcile_mirrors ctx state q))"

definition write_control_file :: "control_state \<Rightarrow> unit scope_op" where
  "write_control_file state s = (Inr (), s\<lparr>sd_control := Some (FileJson (control_as_dict state))\<rparr>)"

definition write_queue_file :: "control_state \<Rightarrow> unit scope_op" where
  "write_queue_file state s = (Inr (), s\<lparr>sd_queue := Some (FileJson (control_as_dict state))\<rparr>)"

definition persist_scoped_state :: "control_state \<Rightarrow> unit scope_op" where
  "persist_scoped_state state = then_op (write_control_file state) (\<lambda>_. write_queue_file state)"

lemma persist_scoped_state_eq:
  "persist_scoped_state state s =
     (Inr (), s\<lparr>sd_control := Some (FileJson (control_as_dict state)),
                sd_queue := Some (FileJson (control_as_dict state))\<rparr>)"
  by (simp add: persist_scoped_state_def write_control_file_def write_queue_file_def then_op_def)

text \<open>Two readable mirrors that are equal as JSON values.\<close>

definition mirrors_match :: "scope_dir \<Rightarrow> bool" where
  "mirrors_match s =
     (case (sd_control s, sd_queue s) of
        (Some (FileJson a), Some (FileJson b)) \<Rightarrow> sort_keys a = sort_keys b
      | _ \<Rightarrow> False)"

definition persist_if_needed :: "control_state \<Rightarrow> control_state \<Rightarrow> unit scope_op" where
  "persist_if_needed state raw_state s =
     (if control_as_dict state \<noteq> control_as_dict raw_state \<or> \<not> mirrors_match s
      then persist_scoped_state state s else (Inr (), s))"

section \<open>Jobs of the scope\<close>

definition terminal_for_admission :: "job \<Rightarrow> bool" where
  "terminal_for_admission j \<longleftrightarrow>
     jb_lifecycle j \<in> set [L_CANCELED, L_PROCESSING_FAILED, L_COMPLETED]"

text \<open>
  \<open>any(word in str(serialized).lower() for word in words)\<close>: in the text of a Python literal every
  key and every string stands between quotes, and the words are letters, so a word occurs in the
  text when it occurs in a key or in a string. The literals \<open>True\<close>, \<open>False\<close>, \<open>None\<close> and the digits
  contain none.
\<close>

fun json_mentions :: "string list \<Rightarrow> json \<Rightarrow> bool" where
  "json_mentions ws (JStr s) = contains_word ws s"
| "json_mentions ws (JArr vs) = list_ex (json_mentions ws) vs"
| "json_mentions ws (JObj kvs) = list_ex (\<lambda>kv. contains_word ws (fst kv) \<or> json_mentions ws (snd kv)) kvs"
| "json_mentions ws _ = False"

definition job_control_json :: "job \<Rightarrow> json" where
  "job_control_json j =
     (case job_as_dict j of JObj kvs \<Rightarrow> JObj (without_key ''environment_identity'' kvs) | v \<Rightarrow> v)"

definition validate_scoped_job :: "job \<Rightarrow> unit res" where
  "validate_scoped_job j =
     (if jb_profile j \<noteq> DURABLE then Inl invalid
      else bind_res (identity_from_job j) (\<lambda>d.
           bind_res (validate_scoped_identity d) (\<lambda>_.
             if json_mentions paas_forbidden (job_control_json j) then Inl invalid else Inr ())))"

definition check_scoped_job :: "job \<Rightarrow> job_identity \<Rightarrow> scoped_record \<Rightarrow> unit res" where
  "check_scoped_job j d r =
     bind_res (validate_scoped_job j) (\<lambda>_.
     bind_res (identity_from_job j) (\<lambda>own.
       if own \<noteq> d \<or> sj_identity r \<noteq> d then Inl scoped_not_found
       else bind_res (scoped_references (sj_scope r) d) (\<lambda>refs.
         if sj_references r \<noteq> refs then Inl scoped_not_found
         else if jb_environment j \<noteq> Some (sj_environment r)
         then Inl (KSlideError EXECUTION_ENVIRONMENT_MISMATCH)
         else Inr ())))"

text \<open>\<open>store.load\<close> where a missing job is an admission that awaits its store.\<close>

definition load_pending :: "env_reference \<Rightarrow> string \<Rightarrow> run_store \<Rightarrow> job option res" where
  "load_pending ref job_id st =
     (case store_load ref job_id st of
        Inr j \<Rightarrow> Inr (Some j)
      | Inl e \<Rightarrow> if e = scoped_not_found then Inr None else Inl e)"

section \<open>Normalization\<close>

text \<open>The entries of the state, each checked against its admission record.\<close>

fun check_entries ::
  "(string \<times> scoped_record) list \<Rightarrow> queue_record list \<Rightarrow> queue_record list \<Rightarrow> queue_record list res"
where
  "check_entries records seen [] = Inr seen"
| "check_entries records seen (e # es) =
     (case map_of records (di_job_id (sq_identity e)) of
        None \<Rightarrow> Inl corrupt
      | Some r \<Rightarrow>
          if sj_identity r \<noteq> sq_identity e \<or> sj_references r \<noteq> sq_references e then Inl corrupt
          else if di_job_id (sq_identity e) \<in> set (map (\<lambda>x. di_job_id (sq_identity x)) seen)
          then Inl corrupt
          else check_entries records (seen @ [e]) es)"

text \<open>The admissions the state does not know yet are added.\<close>

fun adopt_records ::
  "queue_record list \<Rightarrow> (string \<times> scoped_record) list \<Rightarrow> queue_record list res"
where
  "adopt_records es [] = Inr es"
| "adopt_records es ((job_id, r) # records) =
     (case find (\<lambda>e. di_job_id (sq_identity e) = job_id) es of
        Some existing \<Rightarrow> if existing \<noteq> entry_of r then Inl corrupt else adopt_records es records
      | None \<Rightarrow> adopt_records (es @ [entry_of r]) records)"

definition load_entry_job ::
  "env_reference \<Rightarrow> (string \<times> scoped_record) list \<Rightarrow> run_store \<Rightarrow> queue_record
    \<Rightarrow> (string \<times> job option) res"
where
  "load_entry_job ref records st e =
     bind_res (load_pending ref (di_job_id (sq_identity e)) st) (\<lambda>found.
       case found of
         None \<Rightarrow> Inr (di_job_id (sq_identity e), None)
       | Some j \<Rightarrow>
           (case map_of records (di_job_id (sq_identity e)) of
              None \<Rightarrow> Inl PyKeyError
            | Some r \<Rightarrow> bind_res (check_scoped_job j (sq_identity e) r)
                (\<lambda>_. Inr (di_job_id (sq_identity e), Some j))))"

text \<open>The first unfinished job, unless an admission before it still awaits its store.\<close>

fun first_active :: "(string \<times> job option) list \<Rightarrow> string option" where
  "first_active [] = None"
| "first_active ((job_id, None) # xs) = None"
| "first_active ((job_id, Some j) # xs) =
     (if terminal_for_admission j then first_active xs else Some job_id)"

definition normalize_scoped_state ::
  "env_reference \<Rightarrow> control_state \<Rightarrow> scope_dir \<Rightarrow> control_state res"
where
  "normalize_scoped_state ref state s =
     bind_res (read_scoped_records ref (sk_scope state) s) (\<lambda>records.
     bind_res (check_entries records [] (sk_entries state)) (\<lambda>known.
     bind_res (adopt_records known records) (\<lambda>merged.
       let entries = sort_key entry_key merged;
           sequences = map sq_sequence entries in
       if \<not> distinct sequences then Inl corrupt
       else bind_res (map_res (load_entry_job ref records (sd_store s)) entries) (\<lambda>jobs.
         let active = first_active jobs;
             next_sequence = max (sk_next_sequence state) (max_sequence sequences + 1) in
         if entries = sk_entries state \<and> active = sk_active_job_id state
            \<and> next_sequence = sk_next_sequence state
         then Inr state
         else Inr (state\<lparr>sk_revision := sk_revision state + 1, sk_active_job_id := active,
                         sk_entries := entries, sk_next_sequence := next_sequence\<rparr>)))))"

text \<open>\<open>self._normalize_scoped_state(self._load_scoped_state(scope_context))\<close>, with the loaded state.\<close>

definition load_normalized ::
  "env_reference \<Rightarrow> scope_context \<Rightarrow> scope_dir \<Rightarrow> (control_state \<times> control_state) res"
where
  "load_normalized ref ctx s =
     bind_res (load_scoped_state ref ctx s) (\<lambda>raw.
     bind_res (normalize_scoped_state ref raw s) (\<lambda>state. Inr (raw, state)))"

end
