(* ===== verification/Paas_Scope.thy ===== *)
theory Paas_Scope
  imports Paas_Admission
begin

text \<open>
  The operations of the durable job service inside one authorized scope
  (\<open>ReferencePaaSJobService\<close> and \<open>ScopedPaaSRunStore\<close> of \<open>src/k_slide/paas.py\<close>): submission,
  claiming, cancellation, the queue view, references, and the store view a worker is given. The
  parameter \<open>ref\<close> is the reference environment the decoders complete legacy records with.
\<close>

section \<open>Resolution\<close>

datatype identity_arg = ByIdentity job_identity | ByName string

definition resolve_scoped_identity ::
  "env_reference \<Rightarrow> scope_context \<Rightarrow> identity_arg \<Rightarrow> scope_dir \<Rightarrow> (job_identity \<times> scoped_record) res"
where
  "resolve_scoped_identity ref ctx arg s =
     (case arg of
        ByIdentity d \<Rightarrow>
          if validate_scoped_identity d \<noteq> Inr () then Inl scoped_not_found
          else if di_scope_ref d \<noteq> sc_scope_ref ctx then Inl scoped_not_found
          else bind_res (read_scoped_record ref ctx (di_job_id d) s) (\<lambda>r.
            if sj_identity r \<noteq> d then Inl scoped_not_found else Inr (d, r))
      | ByName n \<Rightarrow>
          bind_res (read_scoped_record ref ctx n s) (\<lambda>r. Inr (sj_identity r, r)))"

text \<open>The resolved job, loaded and checked: the prologue of every view of a job.\<close>

definition resolved_job ::
  "env_reference \<Rightarrow> scope_context \<Rightarrow> identity_arg \<Rightarrow> scope_dir
    \<Rightarrow> (job_identity \<times> scoped_record \<times> job) res"
where
  "resolved_job ref ctx arg s =
     bind_res (resolve_scoped_identity ref ctx arg s) (\<lambda>(d, r).
     bind_res (store_load ref (di_job_id d) (sd_store s)) (\<lambda>j.
     bind_res (check_scoped_job j d r) (\<lambda>_. Inr (d, r, j))))"

definition inspect_scoped ::
  "env_reference \<Rightarrow> scope_context \<Rightarrow> identity_arg \<Rightarrow> scope_dir \<Rightarrow> job_status res"
where
  "inspect_scoped ref ctx arg s =
     bind_res (resolved_job ref ctx arg s) (\<lambda>(d, r, j). status_from_job j (Some (sj_references r)))"

definition resolve_references_scoped ::
  "env_reference \<Rightarrow> scope_context \<Rightarrow> identity_arg \<Rightarrow> scope_dir \<Rightarrow> artifact_refs res"
where
  "resolve_references_scoped ref ctx arg s =
     bind_res (resolved_job ref ctx arg s) (\<lambda>(d, r, j). Inr (sj_references r))"

section \<open>Submission\<close>

definition bind_environment :: "job \<Rightarrow> runtime_identity \<Rightarrow> (job \<times> environment) res" where
  "bind_environment j rt =
     bind_res (runtime_environment rt) (\<lambda>e.
       case jb_environment j of
         None \<Rightarrow> bind_res (job_post_init (j\<lparr>jb_environment := Some e\<rparr>)) (\<lambda>k. Inr (k, e))
       | Some own \<Rightarrow> if own \<noteq> e then Inl (KSlideError EXECUTION_ENVIRONMENT_MISMATCH) else Inr (j, e))"

definition same_submission :: "job \<Rightarrow> job \<Rightarrow> bool res" where
  "same_submission existing candidate =
     bind_res (identity_from_job existing) (\<lambda>a.
     bind_res (identity_from_job candidate) (\<lambda>b. Inr
       (a = b \<and> jb_profile existing = DURABLE
        \<and> pg_total_work_units (ck_progress (jb_checkpoint existing))
            = pg_total_work_units (ck_progress (jb_checkpoint candidate))
        \<and> rt_max_attempts (jb_retry existing) = rt_max_attempts (jb_retry candidate)
        \<and> jb_environment existing = jb_environment candidate)))"

definition same_scoped_submission :: "job \<Rightarrow> job \<Rightarrow> scoped_record \<Rightarrow> runtime_identity \<Rightarrow> bool res" where
  "same_scoped_submission existing candidate r rt =
     bind_res (same_submission existing candidate) (\<lambda>same.
       if \<not> same \<or> \<not> same_runtime_identity (sj_runtime r) rt then Inr False
       else bind_res (runtime_environment rt) (\<lambda>e.
         if sj_environment r \<noteq> e then Inr False
         else case sj_fingerprint r of
           None \<Rightarrow> Inr True
         | Some f \<Rightarrow> bind_res (submission_fingerprint candidate rt) (\<lambda>g. Inr (f = g))))"

definition same_scoped_admission :: "scoped_record \<Rightarrow> job \<Rightarrow> runtime_identity \<Rightarrow> bool res" where
  "same_scoped_admission r candidate rt =
     bind_res (runtime_environment rt) (\<lambda>e.
       if sj_environment r \<noteq> e then Inr False
       else case sj_fingerprint r of
         None \<Rightarrow> Inr False
       | Some f \<Rightarrow> bind_res (submission_fingerprint candidate rt) (\<lambda>g. Inr (f = g)))"

definition write_record :: "scoped_record \<Rightarrow> unit scope_op" where
  "write_record r s =
     (Inr (), s\<lparr>sd_records := AList.update (di_job_id (sj_identity r))
                  (FileJson (scoped_record_as_dict r)) (sd_records s)\<rparr>)"

definition receipt_of :: "write_status \<Rightarrow> job_identity \<Rightarrow> artifact_refs \<Rightarrow> receipt res" where
  "receipt_of st d refs = Inr \<lparr>rc_status = st, rc_identity = d, rc_references = Some refs\<rparr>"

text \<open>A record exists: the submission is repeated, or completes an interrupted one.\<close>

definition complete_admission ::
  "env_reference \<Rightarrow> control_state \<Rightarrow> scoped_record \<Rightarrow> job \<Rightarrow> job_identity \<Rightarrow> artifact_refs \<Rightarrow> receipt scope_op"
where
  "complete_admission ref state r j d refs =
     then_op (on_store (store_create ref j)) (\<lambda>(st, stored).
       if st = SW_CONFLICT then returns (receipt_of SW_CONFLICT (sj_identity r) (sj_references r))
       else
         (let entry = \<lparr>sq_sequence = sj_sequence r, sq_identity = d, sq_references = sj_references r\<rparr>;
              others = filter (\<lambda>e. di_job_id (sq_identity e) \<noteq> di_job_id d) (sk_entries state) in
          then_op (reads (normalize_scoped_state ref (state\<lparr>sk_entries := others @ [entry],
                     sk_next_sequence := max (sk_next_sequence state) (sj_sequence r + 1)\<rparr>)))
            (\<lambda>reconciled.
               then_op (if control_as_dict reconciled \<noteq> control_as_dict state
                        then persist_scoped_state reconciled else returns (Inr ()))
                 (\<lambda>_. returns (receipt_of SW_ACCEPTED d refs)))))"

definition resubmit ::
  "env_reference \<Rightarrow> scope_context \<Rightarrow> control_state \<Rightarrow> job \<Rightarrow> runtime_identity \<Rightarrow> job_identity
    \<Rightarrow> artifact_refs \<Rightarrow> receipt scope_op"
where
  "resubmit ref ctx state j rt d refs =
     then_op (reads (read_scoped_record ref ctx (di_job_id d))) (\<lambda>r.
     then_op (reads (\<lambda>s. load_pending ref (di_job_id d) (sd_store s))) (\<lambda>found.
       case found of
         None \<Rightarrow>
           if sj_identity r \<noteq> d
           then returns (receipt_of SW_CONFLICT (sj_identity r) (sj_references r))
           else then_op (returns (same_scoped_admission r j rt)) (\<lambda>same.
             if \<not> same then returns (receipt_of SW_CONFLICT (sj_identity r) (sj_references r))
             else complete_admission ref state r j d refs)
       | Some existing \<Rightarrow>
           then_op (returns (check_scoped_job existing (sj_identity r) r)) (\<lambda>_.
           then_op (returns (same_scoped_submission existing j r rt)) (\<lambda>same.
             returns (receipt_of (if same then SW_IDEMPOTENT else SW_CONFLICT)
                        (sj_identity r) (sj_references r))))))"

text \<open>The admissions that wait: not active, and not finished.\<close>

fun count_queued :: "env_reference \<Rightarrow> run_store \<Rightarrow> string option \<Rightarrow> queue_record list \<Rightarrow> nat res" where
  "count_queued ref st active [] = Inr 0"
| "count_queued ref st active (e # es) =
     (if Some (di_job_id (sq_identity e)) = active then count_queued ref st active es
      else bind_res (load_pending ref (di_job_id (sq_identity e)) st) (\<lambda>found.
           bind_res (count_queued ref st active es) (\<lambda>n.
             Inr (case found of None \<Rightarrow> n + 1
                  | Some j \<Rightarrow> if terminal_for_admission j then n else n + 1))))"

definition admit ::
  "env_reference \<Rightarrow> scope_context \<Rightarrow> control_state \<Rightarrow> job \<Rightarrow> runtime_identity \<Rightarrow> environment
    \<Rightarrow> job_identity \<Rightarrow> artifact_refs \<Rightarrow> string \<Rightarrow> receipt scope_op"
where
  "admit ref ctx state j rt env d refs now =
     then_op (returns (submission_fingerprint j rt)) (\<lambda>fingerprint.
     then_op (reads (\<lambda>s. load_pending ref (di_job_id d) (sd_store s))) (\<lambda>orphaned.
       if orphaned \<noteq> None then returns (receipt_of SW_CONFLICT d refs)
       else
         (let sequence = sk_next_sequence state;
              r = \<lparr>sj_identity = d, sj_runtime = rt, sj_environment = env, sj_submitted_at = now,
                   sj_sequence = sequence, sj_scope = ctx, sj_references = refs,
                   sj_fingerprint = Some fingerprint, sj_schema_version = ''1.0''\<rparr>;
              entry = \<lparr>sq_sequence = sequence, sq_identity = d, sq_references = refs\<rparr> in
          then_op (write_record r) (\<lambda>_.
          then_op (on_store (store_create ref j)) (\<lambda>(st, stored).
            if st = SW_CONFLICT then
              then_op (reads (\<lambda>s. store_load ref (di_job_id d) (sd_store s))) (\<lambda>existing.
              then_op (reads (read_scoped_record ref ctx (di_job_id d))) (\<lambda>existing_record.
              then_op (returns (same_scoped_submission existing j existing_record rt)) (\<lambda>same.
                returns (receipt_of (if same then SW_IDEMPOTENT else SW_CONFLICT)
                  (sj_identity existing_record) (sj_references existing_record)))))
            else
              then_op (reads (normalize_scoped_state ref (state\<lparr>sk_next_sequence := sequence + 1,
                         sk_entries := sk_entries state @ [entry]\<rparr>))) (\<lambda>next_state.
              then_op (persist_scoped_state next_state) (\<lambda>_.
                returns (receipt_of st d refs))))))))"

definition submit_locked ::
  "env_reference \<Rightarrow> admission_policy \<Rightarrow> scope_context \<Rightarrow> job \<Rightarrow> runtime_identity \<Rightarrow> environment
    \<Rightarrow> job_identity \<Rightarrow> artifact_refs \<Rightarrow> string \<Rightarrow> receipt scope_op"
where
  "submit_locked ref pol ctx j rt env d refs now =
     then_op (reads (load_normalized ref ctx)) (\<lambda>(raw, state).
     then_op (persist_if_needed state raw) (\<lambda>_.
     then_op (reads (\<lambda>s. Inr (map_of (sd_records s) (di_job_id d)))) (\<lambda>held.
       if held \<noteq> None then resubmit ref ctx state j rt d refs
       else then_op (reads (\<lambda>s. count_queued ref (sd_store s) (sk_active_job_id state) (sk_entries state)))
         (\<lambda>queued. if int queued \<ge> ap_max_queued pol then returns (Inl (KSlideError CAPACITY_LIMIT))
                   else admit ref ctx state j rt env d refs now))))"

definition submit_scoped ::
  "env_reference \<Rightarrow> admission_policy \<Rightarrow> scope_context \<Rightarrow> job \<Rightarrow> runtime_identity \<Rightarrow> string \<Rightarrow> receipt scope_op"
where
  "submit_scoped ref pol ctx job0 rt now s =
     (if sc_scope_ref ctx \<noteq> sr_scope_ref (jb_store_ref job0) then (Inl conflict, s)
      else case bind_res (bind_environment job0 rt) (\<lambda>(j, env).
             bind_res (validate_scoped_job j) (\<lambda>_.
             bind_res (identity_from_job j) (\<lambda>d.
             bind_res (scoped_references ctx d) (\<lambda>refs.
             bind_res (deletion_fenced ctx (di_run_id d) s) (\<lambda>_. Inr (j, env, d, refs)))))) of
        Inl e \<Rightarrow> (Inl e, s)
      | Inr (j, env, d, refs) \<Rightarrow> submit_locked ref pol ctx j rt env d refs now s)"

section \<open>The heavy slot\<close>

text \<open>The first unfinished job of the queue other than the one given.\<close>

fun next_active :: "env_reference \<Rightarrow> run_store \<Rightarrow> string \<Rightarrow> queue_record list \<Rightarrow> string option res" where
  "next_active ref st skip [] = Inr None"
| "next_active ref st skip (e # es) =
     (if di_job_id (sq_identity e) = skip then next_active ref st skip es
      else bind_res (store_load ref (di_job_id (sq_identity e)) st) (\<lambda>candidate.
        if terminal_for_admission candidate then next_active ref st skip es
        else Inr (Some (di_job_id (sq_identity e)))))"

definition release_scoped_slot :: "env_reference \<Rightarrow> scope_context \<Rightarrow> job \<Rightarrow> unit scope_op" where
  "release_scoped_slot ref ctx j =
     then_op (reads (load_normalized ref ctx)) (\<lambda>(raw, state).
       if sk_active_job_id state \<noteq> Some (jb_job_id j) then persist_if_needed state raw
       else then_op (reads (\<lambda>s. next_active ref (sd_store s) (jb_job_id j) (sk_entries state)))
         (\<lambda>active. persist_scoped_state (state\<lparr>sk_revision := sk_revision state + 1,
                                               sk_active_job_id := active\<rparr>)))"

section \<open>The store view of a worker\<close>

record store_view =
  vw_context :: scope_context
  vw_identity :: job_identity
  vw_record :: scoped_record

definition binding_guard :: "env_reference \<Rightarrow> store_view \<Rightarrow> scope_dir \<Rightarrow> unit res" where
  "binding_guard ref v s =
     bind_res (read_scoped_record ref (vw_context v) (di_job_id (vw_identity v)) s) (\<lambda>current.
       if current \<noteq> vw_record v \<or> sj_identity current \<noteq> vw_identity v
          \<or> sj_scope current \<noteq> vw_context v
       then Inl scoped_not_found else Inr ())"

definition view_guard :: "env_reference \<Rightarrow> store_view \<Rightarrow> string \<Rightarrow> scope_dir \<Rightarrow> unit res" where
  "view_guard ref v job_id s =
     (if job_id \<noteq> di_job_id (vw_identity v) then Inl scoped_not_found
      else bind_res (binding_guard ref v s)
             (\<lambda>_. deletion_fenced (vw_context v) (di_run_id (vw_identity v)) s))"

definition view_load :: "env_reference \<Rightarrow> store_view \<Rightarrow> string \<Rightarrow> scope_dir \<Rightarrow> job res" where
  "view_load ref v job_id s =
     bind_res (view_guard ref v job_id s) (\<lambda>_.
     bind_res (store_load ref job_id (sd_store s)) (\<lambda>j.
     bind_res (identity_from_job j) (\<lambda>d.
       if d \<noteq> vw_identity v then Inl scoped_not_found else Inr j)))"

text \<open>\<open>_finish\<close>: an accepted write that ends the job releases the slot.\<close>

definition view_finish :: "env_reference \<Rightarrow> store_view \<Rightarrow> write_result \<Rightarrow> write_result scope_op" where
  "view_finish ref v result =
     (if sw_accepted (fst result) \<and> terminal_for_admission (snd result)
      then then_op (release_scoped_slot ref (vw_context v) (snd result)) (\<lambda>_. returns (Inr result))
      else returns (Inr result))"

definition view_write ::
  "env_reference \<Rightarrow> store_view \<Rightarrow> string \<Rightarrow> write_result store_op \<Rightarrow> write_result scope_op"
where
  "view_write ref v job_id f =
     then_op (reads (view_guard ref v job_id)) (\<lambda>_. then_op (on_store f) (view_finish ref v))"

definition view_create :: "env_reference \<Rightarrow> store_view \<Rightarrow> job \<Rightarrow> write_result scope_op" where
  "view_create ref v j = view_write ref v (jb_job_id j) (store_create ref j)"

definition view_commit_job :: "env_reference \<Rightarrow> store_view \<Rightarrow> job \<Rightarrow> int \<Rightarrow> write_result scope_op" where
  "view_commit_job ref v j expected = view_write ref v (jb_job_id j) (commit_job ref j expected)"

definition view_store_ops :: "env_reference \<Rightarrow> store_view \<Rightarrow> scope_dir store_ops" where
  "view_store_ops ref v = \<lparr>
     op_load = view_load ref v,
     op_commit_checkpoint = (\<lambda>c e t. view_write ref v (ck_job_id c) (commit_checkpoint ref c e t)),
     op_commit_step = (\<lambda>c m e t. view_write ref v (ck_job_id c) (commit_step ref c m e t)),
     op_request_cancellation = (\<lambda>job_id e t1 t2.
        view_write ref v job_id (request_cancellation ref job_id e t1 t2)),
     op_acknowledge = (\<lambda>job_id e safe t1 t2.
        view_write ref v job_id (acknowledge_cancellation ref job_id e safe t1 t2)),
     op_transition = (\<lambda>job_id e lc oc re t.
        view_write ref v job_id (transition_operational ref job_id e lc oc re t)),
     op_record_retry = (\<lambda>job_id e code t.
        view_write ref v job_id (record_retry ref job_id e code t)),
     op_commit_result = (\<lambda>job_id m e t.
        view_write ref v job_id (commit_result ref job_id m e t))\<rparr>"

definition open_scoped_store ::
  "env_reference \<Rightarrow> scope_context \<Rightarrow> identity_arg \<Rightarrow> scope_dir \<Rightarrow> store_view res"
where
  "open_scoped_store ref ctx arg s =
     bind_res (resolved_job ref ctx arg s) (\<lambda>(d, r, j).
       Inr \<lparr>vw_context = ctx, vw_identity = d, vw_record = r\<rparr>)"

end
