(* ===== verification/Paas_Service.thy ===== *)
theory Paas_Service
  imports Paas_Scope
begin

text \<open>
  Claiming, cancellation and the queue view inside a scope, the unscoped compatibility layout, and
  the service and controller that dispatch to them by the authorized scope context
  (\<open>ReferencePaaSJobService\<close> and \<open>PaaSController\<close> of \<open>src/k_slide/paas.py\<close>).
\<close>

section \<open>Claims\<close>

definition claim_reference :: "job \<Rightarrow> string \<Rightarrow> job_identity \<Rightarrow> string res" where
  "claim_reference j worker_id d =
     (let state = (if jb_lifecycle j = L_RUNNING then ''reattach'' else ''claim'');
          text = state @ ''-'' @ worker_id @ ''-'' @ take 16 (stable_revision (identity_as_dict d))
      in if safe_identity text then Inr text else Inl invalid)"

text \<open>The worker's runtime against the binding of the job's record.\<close>

definition check_runtime_binding :: "environment \<Rightarrow> runtime_identity \<Rightarrow> runtime_identity \<Rightarrow> unit res" where
  "check_runtime_binding bound recorded rt =
     bind_res (runtime_environment rt) (\<lambda>e.
     bind_res (raise_environment_mismatch (Some bound) (Some e)) (\<lambda>_.
       if same_runtime_identity recorded rt then Inr () else Inl conflict))"

definition check_job_environment :: "job \<Rightarrow> runtime_identity \<Rightarrow> unit res" where
  "check_job_environment j rt =
     bind_res (runtime_environment rt) (\<lambda>e. raise_environment_mismatch (jb_environment j) (Some e))"

text \<open>A review may resume only when everything admitted before it is finished.\<close>

fun no_earlier_work :: "env_reference \<Rightarrow> run_store \<Rightarrow> string \<Rightarrow> queue_record list \<Rightarrow> unit res" where
  "no_earlier_work ref st job_id [] = Inr ()"
| "no_earlier_work ref st job_id (e # es) =
     (if di_job_id (sq_identity e) = job_id then Inr ()
      else case store_load ref (di_job_id (sq_identity e)) st of
        Inl err \<Rightarrow> if err = scoped_not_found then Inl conflict else Inl err
      | Inr earlier \<Rightarrow>
          if terminal_for_admission earlier then no_earlier_work ref st job_id es else Inl conflict)"

definition awaits_review :: "job \<Rightarrow> bool" where
  "awaits_review j \<longleftrightarrow> jb_lifecycle j = L_COMPLETED \<and> jb_terminal_outcome j = O_NEEDS_REVIEW"

definition resume_review ::
  "env_reference \<Rightarrow> control_state \<Rightarrow> job_identity \<Rightarrow> job \<Rightarrow> string \<Rightarrow> (job \<times> control_state) scope_op"
where
  "resume_review ref state d j now =
     (if jb_resume_eligibility j \<noteq> RE_ELIGIBLE then returns (Inl conflict)
      else if sk_active_job_id state \<notin> set [None, Some (di_job_id d)] then returns (Inl conflict)
      else then_op (reads (\<lambda>s. no_earlier_work ref (sd_store s) (di_job_id d) (sk_entries state))) (\<lambda>_.
           then_op (on_store (transition_operational ref (di_job_id d) (jb_revision j) L_RETRYING
                      O_NONE None now)) (\<lambda>(st, resumed).
             if \<not> sw_accepted st then returns (Inl conflict)
             else
               (let state' = state\<lparr>sk_revision := sk_revision state + 1,
                                   sk_active_job_id := Some (di_job_id d)\<rparr> in
                then_op (persist_scoped_state state') (\<lambda>_. returns (Inr (resumed, state')))))))"

definition claim_scoped ::
  "env_reference \<Rightarrow> scope_context \<Rightarrow> identity_arg \<Rightarrow> string \<Rightarrow> runtime_identity \<Rightarrow> string \<Rightarrow> claim scope_op"
where
  "claim_scoped ref ctx arg worker_id rt now =
     (if \<not> strict_identifier worker_id then returns (Inl invalid)
      else then_op (returns (runtime_environment rt)) (\<lambda>_.
      then_op (reads (resolve_scoped_identity ref ctx arg)) (\<lambda>(d, r).
      then_op (reads (deletion_fenced ctx (di_run_id d))) (\<lambda>_.
      then_op (returns (check_runtime_binding (sj_environment r) (sj_runtime r) rt)) (\<lambda>_.
      then_op (reads (\<lambda>s. store_load ref (di_job_id d) (sd_store s))) (\<lambda>j.
      then_op (returns (check_scoped_job j d r)) (\<lambda>_.
      then_op (returns (check_job_environment j rt)) (\<lambda>_.
      then_op (reads (load_normalized ref ctx)) (\<lambda>(raw, state).
      then_op (persist_if_needed state raw) (\<lambda>_.
      then_op (if awaits_review j then resume_review ref state d j now
               else returns (Inr (j, state))) (\<lambda>(j', state').
        if \<not> terminal_for_admission j' \<and> sk_active_job_id state' \<noteq> Some (di_job_id d)
        then returns (Inl conflict)
        else then_op (returns (claim_reference j' worker_id d)) (\<lambda>claim_ref.
          returns (Inr \<lparr>cl_identity = d, cl_job = j', cl_claim_ref = claim_ref,
                        cl_references = Some (sj_references r)\<rparr>)))))))))))))"

text \<open>\<open>_claim_next_scoped\<close>: when the active job is finished, the next unfinished one takes the slot.\<close>

definition advance_active ::
  "env_reference \<Rightarrow> scope_context \<Rightarrow> control_state \<Rightarrow> string \<Rightarrow> scoped_record \<Rightarrow> job
    \<Rightarrow> (control_state \<times> scoped_record \<times> job) scope_op"
where
  "advance_active ref ctx state active r j =
     (if \<not> terminal_for_admission j then returns (Inr (state, r, j))
      else then_op (reads (\<lambda>s. next_active ref (sd_store s) active (sk_entries state))) (\<lambda>next.
        case next of
          None \<Rightarrow> returns (Inl scoped_not_found)
        | Some n \<Rightarrow>
            then_op (reads (read_scoped_record ref ctx n)) (\<lambda>r'.
            then_op (reads (\<lambda>s. store_load ref n (sd_store s))) (\<lambda>j'.
              returns (Inr (state\<lparr>sk_revision := sk_revision state + 1, sk_active_job_id := Some n\<rparr>,
                            r', j'))))))"

definition claim_next_scoped ::
  "env_reference \<Rightarrow> scope_context \<Rightarrow> string \<Rightarrow> runtime_identity \<Rightarrow> claim scope_op"
where
  "claim_next_scoped ref ctx worker_id rt =
     (if \<not> strict_identifier worker_id then returns (Inl invalid)
      else then_op (returns (runtime_environment rt)) (\<lambda>_.
      then_op (reads (load_normalized ref ctx)) (\<lambda>(raw, state).
        case sk_active_job_id state of
          None \<Rightarrow> returns (Inl scoped_not_found)
        | Some active \<Rightarrow>
            then_op (reads (read_scoped_record ref ctx active)) (\<lambda>r.
            then_op (reads (\<lambda>s. store_load ref active (sd_store s))) (\<lambda>j.
            then_op (reads (deletion_fenced ctx (di_run_id (sj_identity r)))) (\<lambda>_.
            then_op (advance_active ref ctx state active r j) (\<lambda>(state', r', j').
            then_op (returns (check_runtime_binding (sj_environment r') (sj_runtime r') rt)) (\<lambda>_.
            then_op (returns (check_scoped_job j' (sj_identity r') r')) (\<lambda>_.
            then_op (returns (check_job_environment j' rt)) (\<lambda>_.
            then_op (persist_if_needed state' raw) (\<lambda>_.
            then_op (returns (claim_reference j' worker_id (sj_identity r'))) (\<lambda>claim_ref.
              returns (Inr \<lparr>cl_identity = sj_identity r', cl_job = j', cl_claim_ref = claim_ref,
                            cl_references = Some (sj_references r')\<rparr>)))))))))))))"

section \<open>Cancellation\<close>

text \<open>A queued job that does not hold the slot is canceled at once.\<close>

definition acknowledge_queued ::
  "env_reference \<Rightarrow> scope_context \<Rightarrow> job_identity \<Rightarrow> clock \<Rightarrow> write_result \<Rightarrow> write_result scope_op"
where
  "acknowledge_queued ref ctx d clock requested =
     (if \<not> sw_accepted (fst requested) \<or> jb_lifecycle (snd requested) \<noteq> L_QUEUED
      then returns (Inr requested)
      else then_op (reads (load_normalized ref ctx)) (\<lambda>(raw, state).
        if sk_active_job_id state = Some (di_job_id d)
           \<or> cn_acknowledged (jb_cancellation (snd requested))
        then returns (Inr requested)
        else then_op (on_store (acknowledge_cancellation ref (di_job_id d)
                        (jb_revision (snd requested)) True (clock 2) (clock 3))) (\<lambda>acknowledged.
          returns (Inr (if sw_accepted (fst acknowledged) then acknowledged else requested)))))"

definition settle_canceled ::
  "env_reference \<Rightarrow> scope_context \<Rightarrow> job_identity \<Rightarrow> write_result \<Rightarrow> unit scope_op"
where
  "settle_canceled ref ctx d requested =
     (if \<not> sw_accepted (fst requested) \<or> \<not> terminal_for_admission (snd requested)
      then returns (Inr ())
      else then_op (reads (load_normalized ref ctx)) (\<lambda>(raw, normalized).
        if sk_active_job_id normalized = Some (di_job_id d)
        then then_op (reads (\<lambda>s. next_active ref (sd_store s) (di_job_id d) (sk_entries normalized)))
          (\<lambda>active. persist_scoped_state (normalized\<lparr>sk_revision := sk_revision normalized + 1,
                                                      sk_active_job_id := active\<rparr>))
        else if control_as_dict normalized \<noteq> control_as_dict raw
        then persist_scoped_state normalized
        else returns (Inr ())))"

definition request_cancellation_scoped ::
  "env_reference \<Rightarrow> scope_context \<Rightarrow> identity_arg \<Rightarrow> clock \<Rightarrow> job_status scope_op"
where
  "request_cancellation_scoped ref ctx arg clock =
     then_op (reads (resolve_scoped_identity ref ctx arg)) (\<lambda>(d, r).
     then_op (reads (deletion_fenced ctx (di_run_id d))) (\<lambda>_.
     then_op (reads (\<lambda>s. store_load ref (di_job_id d) (sd_store s))) (\<lambda>current.
     then_op (returns (check_scoped_job current d r)) (\<lambda>_.
     then_op (on_store (request_cancellation ref (di_job_id d) None (clock 0) (clock 1))) (\<lambda>first.
     then_op (acknowledge_queued ref ctx d clock first) (\<lambda>requested.
     then_op (settle_canceled ref ctx d requested) (\<lambda>_.
       returns (status_from_job (snd requested) (Some (sj_references r))))))))))"

section \<open>The queue view\<close>

definition entry_view ::
  "env_reference \<Rightarrow> scope_context \<Rightarrow> control_state \<Rightarrow> scope_dir \<Rightarrow> queue_record \<Rightarrow> queue_entry res"
where
  "entry_view ref ctx state s e =
     bind_res (read_scoped_record ref ctx (di_job_id (sq_identity e)) s) (\<lambda>r.
     bind_res (load_pending ref (di_job_id (sq_identity e)) (sd_store s)) (\<lambda>found.
       case found of
         None \<Rightarrow> Inr \<lparr>qe_sequence = sq_sequence e, qe_identity = sq_identity e,
             qe_lifecycle = L_QUEUED, qe_admission = AD_QUEUED, qe_references = sj_references r\<rparr>
       | Some j \<Rightarrow> bind_res (check_scoped_job j (sq_identity e) r) (\<lambda>_. Inr
           \<lparr>qe_sequence = sq_sequence e, qe_identity = sq_identity e,
            qe_lifecycle = jb_lifecycle j,
            qe_admission =
              (if terminal_for_admission j then AD_TERMINAL
               else if sk_active_job_id state = Some (di_job_id (sq_identity e)) then AD_ACTIVE
               else AD_QUEUED),
            qe_references = sj_references r\<rparr>)))"

definition queue_scoped :: "env_reference \<Rightarrow> scope_context \<Rightarrow> queue_status scope_op" where
  "queue_scoped ref ctx =
     then_op (reads (load_normalized ref ctx)) (\<lambda>(raw, state).
     then_op (persist_if_needed state raw) (\<lambda>_.
     then_op (reads (\<lambda>s. map_res (entry_view ref ctx state s) (sk_entries state))) (\<lambda>entries.
       returns (Inr \<lparr>qs_scope = ctx, qs_revision = sk_revision state,
                     qs_active_job_id = sk_active_job_id state, qs_entries = entries\<rparr>))))"

section \<open>The unscoped compatibility layout\<close>

record compat_dir =
  cd_records :: "(string \<times> job_file) list"
  cd_store :: run_store

definition read_job_record :: "env_reference \<Rightarrow> string \<Rightarrow> compat_dir \<Rightarrow> job_record res" where
  "read_job_record ref job_id s =
     (if \<not> strict_identifier job_id then Inl invalid
      else case map_of (cd_records s) job_id of
        None \<Rightarrow> Inl scoped_not_found
      | Some FileUnreadable \<Rightarrow> Inl corrupt
      | Some (FileJson v) \<Rightarrow> job_record_from_dict ref v)"

definition compat_identity :: "env_reference \<Rightarrow> identity_arg \<Rightarrow> compat_dir \<Rightarrow> job_identity res" where
  "compat_identity ref arg s =
     (case arg of
        ByIdentity d \<Rightarrow>
          bind_res (read_job_record ref (di_job_id d) s) (\<lambda>r.
            if pj_identity r \<noteq> d then Inl conflict else Inr d)
      | ByName n \<Rightarrow> bind_res (read_job_record ref n s) (\<lambda>r. Inr (pj_identity r)))"

definition check_job_identity :: "job \<Rightarrow> job_identity \<Rightarrow> unit res" where
  "check_job_identity j d =
     bind_res (identity_from_job j) (\<lambda>own.
       if own \<noteq> d \<or> jb_profile j \<noteq> DURABLE then Inl conflict else Inr ())"

definition compat_receipt :: "write_status \<Rightarrow> job_identity \<Rightarrow> receipt" where
  "compat_receipt st d = \<lparr>rc_status = st, rc_identity = d, rc_references = None\<rparr>"

definition compat_record_new ::
  "env_reference \<Rightarrow> job \<Rightarrow> runtime_identity \<Rightarrow> environment \<Rightarrow> job_identity \<Rightarrow> string \<Rightarrow> compat_dir
    \<Rightarrow> receipt res \<times> compat_dir"
where
  "compat_record_new ref j rt env d now s =
     (case store_create ref j (cd_store s) of
        (Inl e, st) \<Rightarrow> (Inl e, s\<lparr>cd_store := st\<rparr>)
      | (Inr (status, stored), st) \<Rightarrow>
          (let s' = s\<lparr>cd_store := st\<rparr>;
               written = s'\<lparr>cd_records := AList.update (di_job_id d) (FileJson (job_record_as_dict
                   \<lparr>pj_identity = d, pj_runtime = rt, pj_environment = env, pj_submitted_at = now,
                    pj_schema_version = ''1.0''\<rparr>)) (cd_records s')\<rparr> in
           if status \<noteq> SW_CONFLICT then (Inr (compat_receipt status d), written)
           else case store_load ref (di_job_id d) st of
             Inl _ \<Rightarrow> (Inr (compat_receipt SW_CONFLICT d), s')
           | Inr existing \<Rightarrow>
               (case same_submission existing j of
                  Inl e \<Rightarrow> (Inl e, s')
                | Inr same \<Rightarrow> if \<not> same then (Inr (compat_receipt SW_CONFLICT d), s')
                              else (Inr (compat_receipt SW_IDEMPOTENT d), written))))"

definition compat_submit ::
  "env_reference \<Rightarrow> job \<Rightarrow> runtime_identity \<Rightarrow> environment \<Rightarrow> string \<Rightarrow> compat_dir
    \<Rightarrow> receipt res \<times> compat_dir"
where
  "compat_submit ref j rt env now s =
     (if jb_profile j \<noteq> DURABLE then (Inl invalid, s)
      else case identity_from_job j of
        Inl e \<Rightarrow> (Inl e, s)
      | Inr d \<Rightarrow>
          if map_of (cd_records s) (di_job_id d) = None then compat_record_new ref j rt env d now s
          else
            (bind_res (read_job_record ref (di_job_id d) s) (\<lambda>r.
               if pj_identity r \<noteq> d \<or> \<not> same_runtime_identity (pj_runtime r) rt
                  \<or> pj_environment r \<noteq> env
               then Inr (compat_receipt SW_CONFLICT (pj_identity r))
               else bind_res (store_load ref (di_job_id d) (cd_store s)) (\<lambda>existing.
                    bind_res (same_submission existing j) (\<lambda>same.
                      Inr (compat_receipt (if same then SW_IDEMPOTENT else SW_CONFLICT)
                             (pj_identity r))))), s))"

definition compat_inspect :: "env_reference \<Rightarrow> identity_arg \<Rightarrow> compat_dir \<Rightarrow> job_status res" where
  "compat_inspect ref arg s =
     bind_res (compat_identity ref arg s) (\<lambda>d.
     bind_res (store_load ref (di_job_id d) (cd_store s)) (\<lambda>j.
     bind_res (check_job_identity j d) (\<lambda>_. status_from_job j None)))"

definition compat_cancel ::
  "env_reference \<Rightarrow> identity_arg \<Rightarrow> clock \<Rightarrow> compat_dir \<Rightarrow> job_status res \<times> compat_dir"
where
  "compat_cancel ref arg clock s =
     (case bind_res (compat_identity ref arg s) (\<lambda>d.
             bind_res (store_load ref (di_job_id d) (cd_store s)) (\<lambda>j.
             bind_res (check_job_identity j d) (\<lambda>_. Inr d))) of
        Inl e \<Rightarrow> (Inl e, s)
      | Inr d \<Rightarrow>
          (case request_cancellation ref (di_job_id d) None (clock 0) (clock 1) (cd_store s) of
             (Inl e, st) \<Rightarrow> (Inl e, s\<lparr>cd_store := st\<rparr>)
           | (Inr _, st) \<Rightarrow>
               (compat_inspect ref (ByIdentity d) (s\<lparr>cd_store := st\<rparr>), s\<lparr>cd_store := st\<rparr>)))"

definition compat_claim ::
  "env_reference \<Rightarrow> identity_arg \<Rightarrow> string \<Rightarrow> runtime_identity \<Rightarrow> compat_dir \<Rightarrow> claim res"
where
  "compat_claim ref arg worker_id rt s =
     bind_res (runtime_environment rt) (\<lambda>_.
     if \<not> strict_identifier worker_id then Inl invalid
     else bind_res (compat_identity ref arg s) (\<lambda>d.
          bind_res (read_job_record ref (di_job_id d) s) (\<lambda>r.
          bind_res (check_runtime_binding (pj_environment r) (pj_runtime r) rt) (\<lambda>_.
          bind_res (store_load ref (di_job_id d) (cd_store s)) (\<lambda>j.
          bind_res (check_job_identity j d) (\<lambda>_.
          bind_res (check_job_environment j rt) (\<lambda>_.
          bind_res (claim_reference j worker_id d) (\<lambda>claim_ref.
            Inr \<lparr>cl_identity = d, cl_job = j, cl_claim_ref = claim_ref, cl_references = None\<rparr>))))))))"

text \<open>\<open>claim_next\<close> without a scope: the first unfinished record in the order of the file names.\<close>

fun compat_claim_first ::
  "env_reference \<Rightarrow> string \<Rightarrow> runtime_identity \<Rightarrow> compat_dir \<Rightarrow> string list \<Rightarrow> claim res"
where
  "compat_claim_first ref worker_id rt s [] = Inl scoped_not_found"
| "compat_claim_first ref worker_id rt s (stem # stems) =
     bind_res (read_job_record ref stem s) (\<lambda>r.
     bind_res (store_load ref (di_job_id (pj_identity r)) (cd_store s)) (\<lambda>j.
       if jb_lifecycle j \<in> set [L_QUEUED, L_RUNNING, L_RETRYING]
       then compat_claim ref (ByIdentity (pj_identity r)) worker_id rt s
       else compat_claim_first ref worker_id rt s stems))"

definition compat_claim_next ::
  "env_reference \<Rightarrow> string \<Rightarrow> runtime_identity \<Rightarrow> compat_dir \<Rightarrow> claim res"
where
  "compat_claim_next ref worker_id rt s =
     compat_claim_first ref worker_id rt s
       (sort_key (\<lambda>stem. stem @ ''.json'') (map fst (cd_records s)))"

end
