(* ===== verification/Paas_Worker.thy ===== *)
theory Paas_Worker
  imports Paas_Service
begin

text \<open>
  The service protocol with its reference implementation, the interactive controller and the
  restartable worker (\<open>PaaSJobService\<close>, \<open>ReferencePaaSJobService\<close>, \<open>PaaSController\<close>, \<open>PaaSWorker\<close> and
  \<open>ReferenceWorkerEngine\<close> of \<open>src/k_slide/paas.py\<close>). A service is the record of the operations its
  clients call, over a state of its own; the reference service keeps one directory per scope and the
  compatibility layout.
\<close>

section \<open>The service protocol\<close>

record 's job_service =
  sv_submit :: "job \<Rightarrow> runtime_identity \<Rightarrow> scope_context option \<Rightarrow> string \<Rightarrow> 's \<Rightarrow> receipt res \<times> 's"
  sv_inspect :: "identity_arg \<Rightarrow> scope_context option \<Rightarrow> 's \<Rightarrow> job_status res"
  sv_cancel :: "identity_arg \<Rightarrow> scope_context option \<Rightarrow> clock \<Rightarrow> 's \<Rightarrow> job_status res \<times> 's"
  sv_claim :: "identity_arg \<Rightarrow> string \<Rightarrow> runtime_identity \<Rightarrow> scope_context option \<Rightarrow> string \<Rightarrow> 's
     \<Rightarrow> claim res \<times> 's"
  sv_claim_next :: "string \<Rightarrow> runtime_identity \<Rightarrow> scope_context option \<Rightarrow> 's \<Rightarrow> claim res \<times> 's"
  sv_open_store :: "job_identity \<Rightarrow> scope_context option \<Rightarrow> 's \<Rightarrow> 's store_ops res"
  sv_queue :: "scope_context option \<Rightarrow> 's \<Rightarrow> queue_status res \<times> 's"

section \<open>The reference service\<close>

record service_config =
  sf_policy :: admission_policy
  sf_context :: "scope_context option"
  sf_compat :: bool

record service_state =
  ss_scopes :: "string \<Rightarrow> scope_dir"
  ss_compat :: compat_dir

definition service_new ::
  "admission_policy option \<Rightarrow> scope_context option \<Rightarrow> scope_context option \<Rightarrow> bool \<Rightarrow> service_config res"
where
  "service_new pol scope auth compat_mode =
     (if scope \<noteq> None \<and> auth \<noteq> None \<and> scope \<noteq> auth then Inl invalid
      else Inr \<lparr>sf_policy = (case pol of Some p \<Rightarrow> p | None \<Rightarrow> default_admission_policy),
                sf_context = (case scope of Some c \<Rightarrow> Some c | None \<Rightarrow> auth),
                sf_compat = compat_mode\<rparr>)"

definition effective_scope :: "service_config \<Rightarrow> scope_context option \<Rightarrow> scope_context option res" where
  "effective_scope cfg given =
     (case sf_context cfg of
        Some own \<Rightarrow>
          if given \<noteq> None \<and> given \<noteq> Some own then Inl scoped_not_found else Inr (Some own)
      | None \<Rightarrow>
          (case given of
             Some c \<Rightarrow> Inr (Some c)
           | None \<Rightarrow> if sf_compat cfg then Inr None else Inl authorization_required))"

definition in_scope :: "scope_context \<Rightarrow> 'a scope_op \<Rightarrow> service_state \<Rightarrow> 'a res \<times> service_state" where
  "in_scope ctx f s =
     (case f (ss_scopes s (scope_key ctx)) of
        (r, d) \<Rightarrow> (r, s\<lparr>ss_scopes := (ss_scopes s)(scope_key ctx := d)\<rparr>))"

definition in_compat ::
  "(compat_dir \<Rightarrow> 'a res \<times> compat_dir) \<Rightarrow> service_state \<Rightarrow> 'a res \<times> service_state"
where
  "in_compat f s = (case f (ss_compat s) of (r, d) \<Rightarrow> (r, s\<lparr>ss_compat := d\<rparr>))"

text \<open>A store of a part of the state is a store of the whole.\<close>

definition lift_store_ops ::
  "('t \<Rightarrow> 's) \<Rightarrow> ('s \<Rightarrow> 't \<Rightarrow> 't) \<Rightarrow> 's store_ops \<Rightarrow> 't store_ops"
where
  "lift_store_ops get put ops =
     (let lift = (\<lambda>f t. case f (get t) of (r, s) \<Rightarrow> (r, put s t)) in \<lparr>
     op_load = (\<lambda>job_id t. op_load ops job_id (get t)),
     op_commit_checkpoint = (\<lambda>c e n. lift (op_commit_checkpoint ops c e n)),
     op_commit_step = (\<lambda>c m e n. lift (op_commit_step ops c m e n)),
     op_request_cancellation = (\<lambda>i e a b. lift (op_request_cancellation ops i e a b)),
     op_acknowledge = (\<lambda>i e b x y. lift (op_acknowledge ops i e b x y)),
     op_transition = (\<lambda>i e lc oc re n. lift (op_transition ops i e lc oc re n)),
     op_record_retry = (\<lambda>i e c n. lift (op_record_retry ops i e c n)),
     op_commit_result = (\<lambda>i m e n. lift (op_commit_result ops i m e n))\<rparr>)"

definition scope_store_ops ::
  "env_reference \<Rightarrow> scope_context \<Rightarrow> store_view \<Rightarrow> service_state store_ops"
where
  "scope_store_ops ref ctx v =
     lift_store_ops (\<lambda>s. ss_scopes s (scope_key ctx))
       (\<lambda>d s. s\<lparr>ss_scopes := (ss_scopes s)(scope_key ctx := d)\<rparr>) (view_store_ops ref v)"

definition compat_store_ops :: "env_reference \<Rightarrow> service_state store_ops" where
  "compat_store_ops ref =
     lift_store_ops (\<lambda>s. cd_store (ss_compat s))
       (\<lambda>st s. s\<lparr>ss_compat := (ss_compat s)\<lparr>cd_store := st\<rparr>\<rparr>) (file_store_ops ref)"

definition service_submit ::
  "env_reference \<Rightarrow> service_config \<Rightarrow> job \<Rightarrow> runtime_identity \<Rightarrow> scope_context option \<Rightarrow> string
    \<Rightarrow> service_state \<Rightarrow> receipt res \<times> service_state"
where
  "service_submit ref cfg job0 rt given now s =
     (case bind_environment job0 rt of
        Inl e \<Rightarrow> (Inl e, s)
      | Inr (j, env) \<Rightarrow>
          (case effective_scope cfg given of
             Inl e \<Rightarrow> (Inl e, s)
           | Inr (Some ctx) \<Rightarrow> in_scope ctx (submit_scoped ref (sf_policy cfg) ctx j rt now) s
           | Inr None \<Rightarrow> in_compat (compat_submit ref j rt env now) s))"

definition service_inspect ::
  "env_reference \<Rightarrow> service_config \<Rightarrow> identity_arg \<Rightarrow> scope_context option \<Rightarrow> service_state \<Rightarrow> job_status res"
where
  "service_inspect ref cfg arg given s =
     bind_res (effective_scope cfg given) (\<lambda>scope.
       case scope of
         Some ctx \<Rightarrow> inspect_scoped ref ctx arg (ss_scopes s (scope_key ctx))
       | None \<Rightarrow> compat_inspect ref arg (ss_compat s))"

definition service_cancel ::
  "env_reference \<Rightarrow> service_config \<Rightarrow> identity_arg \<Rightarrow> scope_context option \<Rightarrow> clock \<Rightarrow> service_state
    \<Rightarrow> job_status res \<times> service_state"
where
  "service_cancel ref cfg arg given clock s =
     (case effective_scope cfg given of
        Inl e \<Rightarrow> (Inl e, s)
      | Inr (Some ctx) \<Rightarrow> in_scope ctx (request_cancellation_scoped ref ctx arg clock) s
      | Inr None \<Rightarrow> in_compat (compat_cancel ref arg clock) s)"

definition service_claim ::
  "env_reference \<Rightarrow> service_config \<Rightarrow> identity_arg \<Rightarrow> string \<Rightarrow> runtime_identity \<Rightarrow> scope_context option
    \<Rightarrow> string \<Rightarrow> service_state \<Rightarrow> claim res \<times> service_state"
where
  "service_claim ref cfg arg worker_id rt given now s =
     (case runtime_environment rt of
        Inl e \<Rightarrow> (Inl e, s)
      | Inr _ \<Rightarrow>
          (case effective_scope cfg given of
             Inl e \<Rightarrow> (Inl e, s)
           | Inr (Some ctx) \<Rightarrow> in_scope ctx (claim_scoped ref ctx arg worker_id rt now) s
           | Inr None \<Rightarrow> (compat_claim ref arg worker_id rt (ss_compat s), s)))"

definition service_claim_next ::
  "env_reference \<Rightarrow> service_config \<Rightarrow> string \<Rightarrow> runtime_identity \<Rightarrow> scope_context option \<Rightarrow> service_state
    \<Rightarrow> claim res \<times> service_state"
where
  "service_claim_next ref cfg worker_id rt given s =
     (case effective_scope cfg given of
        Inl e \<Rightarrow> (Inl e, s)
      | Inr (Some ctx) \<Rightarrow> in_scope ctx (claim_next_scoped ref ctx worker_id rt) s
      | Inr None \<Rightarrow> (compat_claim_next ref worker_id rt (ss_compat s), s))"

definition service_open_store ::
  "env_reference \<Rightarrow> service_config \<Rightarrow> job_identity \<Rightarrow> scope_context option \<Rightarrow> service_state
    \<Rightarrow> service_state store_ops res"
where
  "service_open_store ref cfg d given s =
     bind_res (effective_scope cfg given) (\<lambda>scope.
       case scope of
         Some ctx \<Rightarrow>
           bind_res (open_scoped_store ref ctx (ByIdentity d) (ss_scopes s (scope_key ctx)))
             (\<lambda>v. Inr (scope_store_ops ref ctx v))
       | None \<Rightarrow>
           bind_res (compat_identity ref (ByIdentity d) (ss_compat s)) (\<lambda>_. Inr (compat_store_ops ref)))"

definition service_queue ::
  "env_reference \<Rightarrow> service_config \<Rightarrow> scope_context option \<Rightarrow> service_state
    \<Rightarrow> queue_status res \<times> service_state"
where
  "service_queue ref cfg given s =
     (case effective_scope cfg given of
        Inl e \<Rightarrow> (Inl e, s)
      | Inr None \<Rightarrow> (Inl authorization_required, s)
      | Inr (Some ctx) \<Rightarrow> in_scope ctx (queue_scoped ref ctx) s)"

definition service_references ::
  "env_reference \<Rightarrow> service_config \<Rightarrow> identity_arg \<Rightarrow> scope_context option \<Rightarrow> service_state
    \<Rightarrow> artifact_refs res"
where
  "service_references ref cfg arg given s =
     bind_res (effective_scope cfg given) (\<lambda>scope.
       case scope of
         None \<Rightarrow> Inl authorization_required
       | Some ctx \<Rightarrow> resolve_references_scoped ref ctx arg (ss_scopes s (scope_key ctx)))"

definition service_resolve_result ::
  "env_reference \<Rightarrow> service_config \<Rightarrow> identity_arg \<Rightarrow> scope_context option \<Rightarrow> service_state \<Rightarrow> string res"
where
  "service_resolve_result ref cfg arg given s =
     bind_res (service_references ref cfg arg given s) (\<lambda>r. Inr (ar_result_ref r))"

definition service_resolve_evidence ::
  "env_reference \<Rightarrow> service_config \<Rightarrow> identity_arg \<Rightarrow> scope_context option \<Rightarrow> service_state \<Rightarrow> string res"
where
  "service_resolve_evidence ref cfg arg given s =
     bind_res (service_references ref cfg arg given s) (\<lambda>r. Inr (ar_evidence_ref r))"

definition reference_service :: "env_reference \<Rightarrow> service_config \<Rightarrow> service_state job_service" where
  "reference_service ref cfg = \<lparr>
     sv_submit = service_submit ref cfg,
     sv_inspect = service_inspect ref cfg,
     sv_cancel = service_cancel ref cfg,
     sv_claim = service_claim ref cfg,
     sv_claim_next = service_claim_next ref cfg,
     sv_open_store = service_open_store ref cfg,
     sv_queue = service_queue ref cfg\<rparr>"

section \<open>The controller\<close>

record controller_config =
  kc_context :: "scope_context option"
  kc_reference_mode :: bool

definition controller_new ::
  "scope_context option \<Rightarrow> scope_context option \<Rightarrow> bool \<Rightarrow> scope_context option \<Rightarrow> bool
    \<Rightarrow> controller_config res"
where
  "controller_new scope auth reference_mode service_context service_compat =
     (if scope \<noteq> None \<and> auth \<noteq> None \<and> scope \<noteq> auth then Inl invalid
      else Inr \<lparr>kc_context = (case scope of Some c \<Rightarrow> Some c | None \<Rightarrow>
                  (case auth of Some c \<Rightarrow> Some c | None \<Rightarrow> service_context)),
                kc_reference_mode = (reference_mode \<or> service_compat)\<rparr>)"

definition controller_context ::
  "controller_config \<Rightarrow> scope_context option \<Rightarrow> scope_context option res"
where
  "controller_context k request_context =
     (case kc_context k of
        Some own \<Rightarrow>
          if request_context \<noteq> None \<and> request_context \<noteq> Some own then Inl scoped_not_found
          else Inr (Some own)
      | None \<Rightarrow>
          if request_context \<noteq> None \<and> kc_reference_mode k then Inr request_context
          else if kc_reference_mode k then Inr None
          else Inl authorization_required)"

definition controller_submit ::
  "'s job_service \<Rightarrow> controller_config \<Rightarrow> job_request \<Rightarrow> string \<Rightarrow> string \<Rightarrow> 's \<Rightarrow> receipt res \<times> 's"
where
  "controller_submit svc k q created now s =
     (case bind_res (job_new (rq_run_id q) DURABLE (rq_scope_ref q) (rq_store_ref q) (rq_job_id q)
             (rq_execution_id q) (rq_total_work_units q) (rq_max_attempts q)
             (rq_engine_state_revision q) (rq_environment q) created) (\<lambda>j.
           bind_res (controller_context k (case rq_scope_context q of
               Some c \<Rightarrow> Some c | None \<Rightarrow> rq_authorization q)) (\<lambda>ctx. Inr (j, ctx))) of
        Inl e \<Rightarrow> (Inl e, s)
      | Inr (j, ctx) \<Rightarrow> sv_submit svc j (rq_runtime q) ctx now s)"

definition controller_status ::
  "'s job_service \<Rightarrow> controller_config \<Rightarrow> identity_arg \<Rightarrow> 's \<Rightarrow> job_status res"
where
  "controller_status svc k arg s =
     bind_res (controller_context k None) (\<lambda>ctx. sv_inspect svc arg ctx s)"

definition controller_cancel ::
  "'s job_service \<Rightarrow> controller_config \<Rightarrow> identity_arg \<Rightarrow> clock \<Rightarrow> 's \<Rightarrow> job_status res \<times> 's"
where
  "controller_cancel svc k arg clock s =
     (case controller_context k None of
        Inl e \<Rightarrow> (Inl e, s)
      | Inr ctx \<Rightarrow> sv_cancel svc arg ctx clock s)"

definition controller_queue ::
  "'s job_service \<Rightarrow> controller_config \<Rightarrow> 's \<Rightarrow> queue_status res \<times> 's"
where
  "controller_queue svc k s =
     (case controller_context k None of
        Inl e \<Rightarrow> (Inl e, s)
      | Inr None \<Rightarrow> (Inl authorization_required, s)
      | Inr (Some ctx) \<Rightarrow> sv_queue svc (Some ctx) s)"

section \<open>The worker\<close>

record worker =
  wk_id :: string
  wk_runtime :: runtime_identity
  wk_scope :: "scope_context option"
  wk_reference_mode :: bool

definition worker_new ::
  "string \<Rightarrow> runtime_identity \<Rightarrow> scope_context option \<Rightarrow> scope_context option \<Rightarrow> bool
    \<Rightarrow> scope_context option \<Rightarrow> bool \<Rightarrow> worker res"
where
  "worker_new worker_id rt scope auth reference_mode service_context service_compat =
     (if \<not> strict_identifier worker_id then Inl invalid
      else bind_res (runtime_environment rt) (\<lambda>_.
        if scope \<noteq> None \<and> auth \<noteq> None \<and> scope \<noteq> auth then Inl invalid
        else
          (let own = (case scope of Some c \<Rightarrow> Some c | None \<Rightarrow>
                       (case auth of Some c \<Rightarrow> Some c | None \<Rightarrow> service_context));
               mode = (reference_mode \<or> service_compat) in
           if own = None \<and> \<not> mode then Inl authorization_required
           else Inr \<lparr>wk_id = worker_id, wk_runtime = rt, wk_scope = own, wk_reference_mode = mode\<rparr>)))"

text \<open>The engine binding: an optional choice of the operation, and the step.\<close>

record worker_engine =
  we_operation_id :: "(job \<Rightarrow> string res) option"
  we_step :: engine

definition default_operation_id :: "job \<Rightarrow> string" where
  "default_operation_id j =
     jb_execution_id j @ ''-step-'' @ int_text (ck_revision (jb_checkpoint j) + 1)"

definition engine_operation_id :: "worker_engine \<Rightarrow> job \<Rightarrow> string res" where
  "engine_operation_id e j =
     bind_res (case we_operation_id e of Some f \<Rightarrow> f j | None \<Rightarrow> Inr (default_operation_id j)) (\<lambda>v.
       if safe_identity v then Inr v else Inl invalid)"

definition terminal_status :: "job \<Rightarrow> string option" where
  "terminal_status j =
     (case jb_lifecycle j of
        L_CANCELED \<Rightarrow> Some ''CANCELED''
      | L_PROCESSING_FAILED \<Rightarrow> Some ''PROCESSING_FAILED''
      | L_COMPLETED \<Rightarrow> Some (value_in outcome_values (jb_terminal_outcome j))
      | _ \<Rightarrow> None)"

definition worker_result ::
  "string \<Rightarrow> job \<Rightarrow> bool \<Rightarrow> failure_class option \<Rightarrow> artifact_refs option \<Rightarrow> worker_result"
where
  "worker_result status j called fc refs = \<lparr>wr_status = status, wr_job = j, wr_engine_called = called,
     wr_failure_class = fc, wr_references = refs\<rparr>"

text \<open>A store write reported as a worker result: \<open>status\<close> when accepted, its own status otherwise.\<close>

definition report ::
  "string \<Rightarrow> bool \<Rightarrow> artifact_refs option \<Rightarrow> write_result res \<times> 's \<Rightarrow> worker_result res \<times> 's"
where
  "report status called refs p =
     (case p of
        (Inl e, s) \<Rightarrow> (Inl e, s)
      | (Inr (st, j), s) \<Rightarrow>
          (Inr (worker_result (if sw_accepted st then status else value_in write_status_values st)
                  j called None refs), s))"

definition acknowledge_pending ::
  "'s store_ops \<Rightarrow> job \<Rightarrow> bool \<Rightarrow> artifact_refs option \<Rightarrow> clock \<Rightarrow> 's \<Rightarrow> worker_result res \<times> 's"
where
  "acknowledge_pending ops current called refs clock s =
     report ''CANCELED'' called refs
       (op_acknowledge ops (jb_job_id current) (jb_revision current) True (clock 5) (clock 6) s)"

definition cancel_pending :: "job \<Rightarrow> bool" where
  "cancel_pending j \<longleftrightarrow> cn_requested (jb_cancellation j) \<and> \<not> cn_acknowledged (jb_cancellation j)"

definition reconcile ::
  "'s store_ops \<Rightarrow> job \<Rightarrow> string \<Rightarrow> bool \<Rightarrow> artifact_refs option \<Rightarrow> clock \<Rightarrow> 's
    \<Rightarrow> worker_result res \<times> 's"
where
  "reconcile ops j accepted_status called refs clock s =
     (case op_load ops (jb_job_id j) s of
        Inl e \<Rightarrow> (Inl e, s)
      | Inr current \<Rightarrow>
          if cancel_pending current then acknowledge_pending ops current called refs clock s
          else if jb_lifecycle current \<in> set [L_RUNNING, L_RETRYING]
                  \<and> ck_engine_phase (jb_checkpoint current) = phase_value COMPLETE
          then report ''DONE'' called refs
            (op_transition ops (jb_job_id current) (jb_revision current) L_COMPLETED O_DONE
               (Some RE_NOT_ELIGIBLE) (clock 7) s)
          else if jb_lifecycle current \<in> set [L_RUNNING, L_RETRYING]
                  \<and> ck_engine_phase (jb_checkpoint current) = phase_value NEEDS_REVIEW
          then report ''NEEDS_REVIEW'' called refs
            (op_transition ops (jb_job_id current) (jb_revision current) L_COMPLETED O_NEEDS_REVIEW
               (Some RE_ELIGIBLE) (clock 7) s)
          else (Inr (worker_result accepted_status current called None refs), s))"

definition error_code_of :: "err \<Rightarrow> error_code" where
  "error_code_of e = (case e of KSlideError c \<Rightarrow> c | _ \<Rightarrow> INTERNAL)"

definition record_failure ::
  "'s store_ops \<Rightarrow> job \<Rightarrow> err \<Rightarrow> artifact_refs option \<Rightarrow> clock \<Rightarrow> 's \<Rightarrow> worker_result res \<times> 's"
where
  "record_failure ops j failure refs clock s =
     (case op_load ops (jb_job_id j) s of
        Inl e \<Rightarrow> (Inl e, s)
      | Inr current \<Rightarrow>
          if cancel_pending current then acknowledge_pending ops current False refs clock s
          else
            (let code = error_code_of failure;
                 fc = classify_operational_failure (error_value code) in
             if fc = FC_SEMANTIC_REPAIR
             then (Inr (worker_result ''SEMANTIC_REPAIR'' current False (Some fc) refs), s)
             else if code = EXECUTION_STALE
             then (Inr (worker_result ''STALE'' current False (Some fc) refs), s)
             else case op_record_retry ops (jb_job_id current) (jb_revision current)
                         (error_value code) (clock 7) s of
               (Inl (KSlideError _), s') \<Rightarrow>
                 (case op_load ops (jb_job_id current) s' of
                    Inl e \<Rightarrow> (Inl e, s')
                  | Inr latest \<Rightarrow> (Inr (worker_result ''STALE'' latest False (Some fc) refs), s'))
             | (Inl e, s') \<Rightarrow> (Inl e, s')
             | (Inr (st, recorded), s') \<Rightarrow>
                 (Inr (worker_result
                    (if jb_lifecycle recorded = L_RETRYING then ''RETRYING'' else ''PROCESSING_FAILED'')
                    recorded False (Some fc) refs), s')))"

text \<open>The guarded part of a step: whatever it raises is recorded as a failure of the job.\<close>

definition worker_step ::
  "worker \<Rightarrow> worker_engine \<Rightarrow> 's store_ops \<Rightarrow> job \<Rightarrow> artifact_refs option \<Rightarrow> clock \<Rightarrow> 's
    \<Rightarrow> worker_result res \<times> 's"
where
  "worker_step w e ops j refs clock s =
     (case bind_res (op_load ops (jb_job_id j) s) (\<lambda>k.
             bind_res (engine_operation_id e k) (\<lambda>operation_id.
             bind_res (runtime_environment (wk_runtime w)) (\<lambda>env. Inr (operation_id, env)))) of
        Inl failure \<Rightarrow> record_failure ops j failure refs clock s
      | Inr (operation_id, env) \<Rightarrow>
          (case run_step ops (Some env) (jb_job_id j) operation_id (we_step e) None clock s of
             (Inl failure, s') \<Rightarrow> record_failure ops j failure refs clock s'
           | (Inr cr, s') \<Rightarrow>
               if cr_status cr \<in> set [''CANCELED'', ''CONFLICT'', ''STALE'']
               then (Inr (worker_result (cr_status cr) (cr_job cr) (cr_engine_called cr) None refs), s')
               else reconcile ops (cr_job cr) (cr_status cr) (cr_engine_called cr) refs clock s'))"

text \<open>A refused write ends the run with its status; an accepted one goes on.\<close>

definition continue_with ::
  "artifact_refs option \<Rightarrow> write_result res \<times> 's \<Rightarrow> (job \<Rightarrow> 's \<Rightarrow> worker_result res \<times> 's)
    \<Rightarrow> worker_result res \<times> 's"
where
  "continue_with refs p k =
     (case p of
        (Inl e, s) \<Rightarrow> (Inl e, s)
      | (Inr (st, j), s) \<Rightarrow>
          if sw_accepted st then k j s
          else (Inr (worker_result (value_in write_status_values st) j False None refs), s))"

definition run_claimed ::
  "worker \<Rightarrow> worker_engine \<Rightarrow> 's store_ops \<Rightarrow> claim \<Rightarrow> clock \<Rightarrow> 's \<Rightarrow> worker_result res \<times> 's"
where
  "run_claimed w e ops c clock s =
     (case bind_res (op_load ops (di_job_id (cl_identity c)) s) (\<lambda>j.
             bind_res (check_job_environment j (wk_runtime w)) (\<lambda>_. Inr j)) of
        Inl err \<Rightarrow> (Inl err, s)
      | Inr j \<Rightarrow>
          (case terminal_status j of
             Some st \<Rightarrow> (Inr (worker_result st j False None (cl_references c)), s)
           | None \<Rightarrow>
               (let start = (\<lambda>k s'.
                      if jb_lifecycle k = L_RETRYING
                      then continue_with (cl_references c)
                        (op_transition ops (jb_job_id k) (jb_revision k) L_RUNNING O_NONE None (clock 8) s')
                        (\<lambda>_ s''. worker_step w e ops k (cl_references c) clock s'')
                      else worker_step w e ops k (cl_references c) clock s') in
                if awaits_review j
                then continue_with (cl_references c)
                  (op_transition ops (jb_job_id j) (jb_revision j) L_RETRYING O_NONE None (clock 9) s)
                  start
                else start j s)))"

definition run_once ::
  "'s job_service \<Rightarrow> worker \<Rightarrow> worker_engine \<Rightarrow> identity_arg option \<Rightarrow> clock \<Rightarrow> 's
    \<Rightarrow> worker_result res \<times> 's"
where
  "run_once svc w e arg clock s =
     (if wk_scope w = None \<and> \<not> wk_reference_mode w then (Inl authorization_required, s)
      else case (case arg of
                   None \<Rightarrow> sv_claim_next svc (wk_id w) (wk_runtime w) (wk_scope w) s
                 | Some i \<Rightarrow> sv_claim svc i (wk_id w) (wk_runtime w) (wk_scope w) (clock 10) s) of
        (Inl err, s') \<Rightarrow> (Inl err, s')
      | (Inr c, s') \<Rightarrow>
          (case sv_open_store svc (cl_identity c) (wk_scope w) s' of
             Inl err \<Rightarrow> (Inl err, s')
           | Inr ops \<Rightarrow> run_claimed w e ops c clock s'))"

definition worker_stops :: "worker_result \<Rightarrow> bool" where
  "worker_stops r \<longleftrightarrow>
     terminal_status (wr_job r) \<noteq> None
     \<or> wr_status r \<in> set [''SEMANTIC_REPAIR'', ''STALE'', ''CONFLICT'', ''STEP_LIMIT'']"

text \<open>The loop over \<open>range(max_steps)\<close>; \<open>clocks\<close> gives the clock of each step still to do.\<close>

fun run_loop ::
  "'s job_service \<Rightarrow> worker \<Rightarrow> worker_engine \<Rightarrow> nat \<Rightarrow> (nat \<Rightarrow> clock) \<Rightarrow> identity_arg option
    \<Rightarrow> worker_result option \<Rightarrow> 's \<Rightarrow> worker_result res \<times> 's"
where
  "run_loop svc w e 0 clocks arg latest s =
     (case latest of
        None \<Rightarrow> (Inl invalid, s)
      | Some r \<Rightarrow> (Inr (r\<lparr>wr_status := ''STEP_LIMIT''\<rparr>), s))"
| "run_loop svc w e (Suc n) clocks arg latest s =
     (case run_once svc w e arg (clocks n) s of
        (Inl err, s') \<Rightarrow> (Inl err, s')
      | (Inr r, s') \<Rightarrow>
          if worker_stops r then (Inr r, s')
          else run_loop svc w e n clocks (Some (ByName (jb_job_id (wr_job r)))) (Some r) s')"

definition run_until_terminal ::
  "'s job_service \<Rightarrow> worker \<Rightarrow> worker_engine \<Rightarrow> identity_arg option \<Rightarrow> int \<Rightarrow> (nat \<Rightarrow> clock) \<Rightarrow> 's
    \<Rightarrow> worker_result res \<times> 's"
where
  "run_until_terminal svc w e arg max_steps clocks s =
     (if max_steps < 1 \<or> max_steps > 100000 then (Inl invalid, s)
      else run_loop svc w e (nat max_steps) clocks arg None s)"

section \<open>The reference engine\<close>

definition pad6 :: "int \<Rightarrow> string" where
  "pad6 i = (let t = int_text i in replicate (6 - length t) (CHR ''0'') @ t)"

definition reference_step :: engine where
  "reference_step c operation_id =
     (let completed = pg_completed_work_units (ck_progress c);
          units = pg_total_work_units (ck_progress c);
          next_completed = min units (completed + 1);
          finished = (next_completed \<ge> units);
          phase = (if finished then phase_value COMPLETE else phase_value TRANSLATING);
          current_unit = (if finished then None else Some (''unit-'' @ pad6 (next_completed + 1))) in
      bind_res (progress_post_init \<lparr>pg_engine_stage = phase, pg_completed_work_units = next_completed,
                  pg_total_work_units = units, pg_current_work_unit = current_unit\<rparr>) (\<lambda>p.
      bind_res (checkpoint_post_init (c\<lparr>ck_revision := ck_revision c + 1, ck_engine_phase := phase,
                  ck_progress := p,
                  ck_resume_eligibility := (if finished then RE_NOT_ELIGIBLE else RE_ELIGIBLE),
                  ck_checkpoint_sha256 := []\<rparr>)) (\<lambda>d.
      bind_res (marker_post_init \<lparr>mk_operation_id = operation_id, mk_result_kind = ''reference-result'',
                  mk_result_sha256 = stable_revision (JObj [
                    (''operation_id'', JStr operation_id),
                    (''checkpoint_revision'', JInt (ck_revision d))]),
                  mk_attempt = 0, mk_committed_at = Some []\<rparr>) (\<lambda>m. Inr (d, Some m)))))"

definition reference_engine :: worker_engine where
  "reference_engine = \<lparr>we_operation_id = Some (\<lambda>j. Inr (default_operation_id j)),
                       we_step = reference_step\<rparr>"

end
