(* ===== verification/Paas_References.thy ===== *)
theory Paas_References
  imports Paas_Admission
begin

text \<open>
  Which references a scope gives a job: the words the references must not contain hold no
  separator, so a reference built from admissible parts contains none of them, and only its length
  can refuse it.
\<close>

section \<open>Words in composed identifiers\<close>

lemma sublist_separated:
  assumes "c \<notin> set w"
  shows "sublist w (xs @ c # ys) \<longleftrightarrow> sublist w xs \<or> sublist w ys"
  using assms by (auto simp: sublist_append sublist_Cons_right prefix_Cons)

lemma lower_char_hex: "is_hex_char c \<Longrightarrow> lower_char c = c"
  by (auto simp: is_hex_char_def lower_char_def is_upper_char_def is_digit_char_def)

lemma lower_slash [simp]: "lower_char CHR ''/'' = CHR ''/''"
  by (simp add: char_defs)

lemma contains_word_between:
  assumes "\<forall>w \<in> set ws. lower_char c \<notin> set w"
  shows "contains_word ws (xs @ c # ys) \<longleftrightarrow> contains_word ws xs \<or> contains_word ws ys"
  using assms by (auto simp: contains_word_def list_ex_iff occurs_in_sublist sublist_separated)

lemma contains_word_separated:
  assumes "\<forall>w \<in> set ws. CHR ''/'' \<notin> set w"
  shows "contains_word ws (xs @ CHR ''/'' # ys) \<longleftrightarrow> contains_word ws xs \<or> contains_word ws ys"
  using assms by (intro contains_word_between) simp

lemma contains_word_hex:
  assumes "\<forall>w \<in> set ws. \<exists>c \<in> set w. \<not> is_hex_char c" and "list_all is_hex_char s"
  shows "\<not> contains_word ws s"
proof -
  have "map lower_char s = s"
    using assms(2) by (simp add: list_all_iff lower_char_hex map_idI)
  moreover have "\<not> sublist w s" if "w \<in> set ws" for w
    using assms that set_mono_sublist by (fastforce simp: list_all_iff)
  ultimately show ?thesis by (auto simp: contains_word_def list_ex_iff occurs_in_sublist)
qed

lemma forbidden_no_slash: "\<forall>w \<in> set paas_forbidden. CHR ''/'' \<notin> set w"
  by (simp add: paas_forbidden_def)

lemma forbidden_not_hex: "\<forall>w \<in> set paas_forbidden. \<exists>c \<in> set w. \<not> is_hex_char c"
  by (simp add: paas_forbidden_def char_defs)

lemma scope_key_hex: "length (scope_key ctx) = 40" "list_all is_hex_char (scope_key ctx)"
proof -
  obtain v where v: "scope_key ctx = take 40 (stable_revision v)" by (simp add: scope_key_def)
  have "length (stable_revision v) = 64" "list_all is_hex_char (stable_revision v)"
    using stable_revision_sha256 [of v] by (simp_all add: matches_sha256_def del: stable_revision_sha256)
  then show "length (scope_key ctx) = 40" "list_all is_hex_char (scope_key ctx)"
    by (auto simp: v list_all_iff dest: in_set_takeD)
qed

section \<open>The references of a job\<close>

definition job_prefix :: "scope_context \<Rightarrow> string \<Rightarrow> string" where
  "job_prefix ctx job_id = ''scoped/'' @ scope_key ctx @ ''/jobs/'' @ job_id"

lemma length_job_prefix: "length (job_prefix ctx i) = 53 + length i"
  by (simp add: job_prefix_def scope_key_hex)

lemma hex_alnum: "is_hex_char c \<Longrightarrow> is_alnum_char c"
  by (auto simp: char_defs)

lemma paas_identifier_chars:
  "matches_paas_identifier s \<Longrightarrow> list_all (\<lambda>c. is_alnum_char c \<or> c \<in> set ''_.:/-'') s"
  by (cases s) (auto simp: matches_paas_identifier_def)

lemma reference_safe:
  assumes i: "safe_identity i" and rest: "list_all (\<lambda>c. is_alnum_char c \<or> c \<in> set ''_.:/-'') rest"
    "\<not> contains_word paas_forbidden rest"
  shows "safe_identity (job_prefix ctx i @ CHR ''/'' # rest) \<longleftrightarrow> length i + length rest \<le> 202"
proof -
  have chars: "list_all (\<lambda>c. is_alnum_char c \<or> c \<in> set ''_.:/-'') (scope_key ctx)"
    "list_all (\<lambda>c. is_alnum_char c \<or> c \<in> set ''_.:/-'') i"
    using scope_key_hex(2) i paas_identifier_chars
    by (auto simp: list_all_iff hex_alnum safe_identity_def)
  have words: "\<not> contains_word paas_forbidden (job_prefix ctx i @ CHR ''/'' # rest)"
  proof -
    have "job_prefix ctx i @ CHR ''/'' # rest =
      ''scoped'' @ CHR ''/'' # scope_key ctx @ CHR ''/'' # ''jobs'' @ CHR ''/'' # i @ CHR ''/'' # rest"
      by (simp add: job_prefix_def)
    moreover have "\<not> contains_word paas_forbidden ''scoped''" "\<not> contains_word paas_forbidden ''jobs''"
      by (simp_all add: contains_word_def paas_forbidden_def char_defs)
    ultimately show ?thesis
      using i rest(2) contains_word_hex [OF forbidden_not_hex scope_key_hex(2) [of ctx]]
      by (simp only: contains_word_separated [OF forbidden_no_slash] safe_identity_def) simp
  qed
  have "job_prefix ctx i = CHR ''s'' # tl (job_prefix ctx i)" by (simp add: job_prefix_def)
  then have "matches_paas_identifier (job_prefix ctx i @ CHR ''/'' # rest) \<longleftrightarrow>
      length (tl (job_prefix ctx i) @ CHR ''/'' # rest) \<le> 255"
    using chars rest(1)
    by (simp add: matches_paas_identifier_def job_prefix_def char_defs)
  also have "\<dots> \<longleftrightarrow> length i + length rest \<le> 202" using length_job_prefix [of ctx i] by simp
  finally show ?thesis using words by (simp add: safe_identity_def)
qed

lemma scoped_references_iff:
  assumes "validate_scoped_identity d = Inr ()"
  shows "is_ok (scoped_references ctx d) \<longleftrightarrow>
    length (di_job_id d) + length (di_run_id d) \<le> 198 \<and> length (di_job_id d) \<le> 194"
proof -
  from assms have safe: "safe_identity (di_run_id d)" "safe_identity (di_job_id d)"
    "safe_identity (di_scope_ref d)" "safe_identity (di_store_ref d)"
    by (auto simp: validate_scoped_identity_def split: if_splits)
  let ?p = "job_prefix ctx (di_job_id d)"
  have run: "safe_identity (?p @ CHR ''/'' # ''run'' @ CHR ''/'' # di_run_id d) \<longleftrightarrow>
      length (di_job_id d) + length (di_run_id d) \<le> 198"
    by (subst reference_safe [OF safe(2)])
      (use safe(1) paas_identifier_chars [of "di_run_id d"] in
        \<open>auto simp: safe_identity_def contains_word_separated [OF forbidden_no_slash, of "''run''", simplified]
           contains_word_def paas_forbidden_def char_defs\<close>)
  have result: "safe_identity (?p @ CHR ''/'' # ''result'') \<longleftrightarrow> length (di_job_id d) \<le> 196"
    by (subst reference_safe [OF safe(2)]) (simp_all add: contains_word_def paas_forbidden_def char_defs)
  have evidence: "safe_identity (?p @ CHR ''/'' # ''evidence'') \<longleftrightarrow> length (di_job_id d) \<le> 194"
    by (subst reference_safe [OF safe(2)]) (simp_all add: contains_word_def paas_forbidden_def char_defs)
  have "scoped_references ctx d = artifact_refs_post_init \<lparr>ar_scope_ref = di_scope_ref d, ar_store_ref = di_store_ref d,
      ar_run_ref = ?p @ CHR ''/'' # ''run'' @ CHR ''/'' # di_run_id d, ar_result_ref = ?p @ CHR ''/'' # ''result'',
      ar_evidence_ref = ?p @ CHR ''/'' # ''evidence'', ar_plane = PL_DURABLE, ar_contract_version = ''1.0''\<rparr>"
    by (simp add: scoped_references_def job_prefix_def)
  then show ?thesis
    using run result evidence safe(3,4)
    by (auto simp: artifact_refs_post_init_def artifact_identity_checks_def)
qed

section \<open>The text of a job's control record\<close>

lemma hash_words [simp]: "\<not> contains_word paas_forbidden (stable_revision v)"
  using contains_word_hex [OF forbidden_not_hex] stable_revision_sha256 [of v]
  by (simp add: matches_sha256_def del: stable_revision_sha256)

definition field_names_of_job :: "string list" where
  "field_names_of_job = [
     ''schema_version'', ''run_id'', ''job_id'', ''execution_id'', ''profile'', ''store_ref'', ''lifecycle'',
     ''revision'', ''checkpoint'', ''cancellation'', ''retry'', ''resume_eligibility'', ''terminal_outcome'',
     ''created_at'', ''updated_at'', ''result_markers'', ''record_sha256'', ''scope_ref'', ''engine_stage'',
     ''completed_work_units'', ''total_work_units'', ''current_work_unit'', ''requested'', ''acknowledged'',
     ''request_ref'', ''requested_at'', ''acknowledged_at'', ''attempt'', ''max_attempts'', ''disposition'',
     ''last_error_code'', ''operation_id'', ''result_kind'', ''result_sha256'', ''committed_at'',
     ''engine_phase'', ''progress'', ''engine_state_revision'', ''queue_revision'', ''metadata'',
     ''environment_identity_sha256'', ''checkpoint_sha256'']"

lemma job_field_names_clean [simp]: "k \<in> set field_names_of_job \<Longrightarrow> \<not> contains_word paas_forbidden k"
  by (simp add: field_names_of_job_def contains_word_def paas_forbidden_def char_defs del: One_nat_def)
    (elim disjE; simp add: char_defs)

lemma job_values_clean [simp]:
  "\<not> contains_word paas_forbidden (value_in profile_values p)"
  "\<not> contains_word paas_forbidden (value_in lifecycle_values l)"
  "\<not> contains_word paas_forbidden (value_in resume_values r)"
  "\<not> contains_word paas_forbidden (value_in outcome_values t)"
  "\<not> contains_word paas_forbidden (value_in disposition_values d)"
proof -
  note eval = contains_word_def paas_forbidden_def char_defs
  show "\<not> contains_word paas_forbidden (value_in profile_values p)"
    by (cases p) (simp_all add: profile_values_def eval)
  show "\<not> contains_word paas_forbidden (value_in lifecycle_values l)"
    by (cases l) (simp_all add: lifecycle_values_def eval)
  show "\<not> contains_word paas_forbidden (value_in resume_values r)"
    by (cases r) (simp_all add: resume_values_def eval)
  show "\<not> contains_word paas_forbidden (value_in outcome_values t)"
    by (cases t) (simp_all add: outcome_values_def eval)
  show "\<not> contains_word paas_forbidden (value_in disposition_values d)"
    by (cases d) (simp_all add: disposition_values_def eval)
qed

lemma job_control_fields:
  "job_control_json j = JObj (job_base_fields j @ [(''record_sha256'', JStr (stable_revision (JObj (job_without_hash j))))])"
  by (simp add: job_control_json_def job_as_dict_def job_without_hash_def job_base_fields_def without_key_def split: option.splits)

text \<open>The strings of a job that are not fixed by the code.\<close>

definition opt_texts :: "string option list \<Rightarrow> string list" where
  "opt_texts vs = concat (map (\<lambda>v. case v of None \<Rightarrow> [] | Some s \<Rightarrow> [s]) vs)"

definition marker_texts :: "result_marker \<Rightarrow> string list" where
  "marker_texts m = [mk_operation_id m, mk_result_kind m, mk_result_sha256 m] @ opt_texts [mk_committed_at m]"

definition checkpoint_texts :: "checkpoint \<Rightarrow> string list" where
  "checkpoint_texts c =
     [ck_schema_version c, ck_run_id c, ck_job_id c, ck_execution_id c, ck_engine_phase c,
      pg_engine_stage (ck_progress c), ck_queue_revision c, ck_checkpoint_sha256 c,
      ck_environment_identity_sha256 c]
     @ opt_texts [pg_current_work_unit (ck_progress c)]
     @ map fst (ck_metadata c) @ map snd (ck_metadata c)"

definition job_texts :: "job \<Rightarrow> string list" where
  "job_texts j =
     [jb_schema_version j, jb_run_id j, jb_job_id j, jb_execution_id j, sr_scope_ref (jb_store_ref j),
      sr_store_ref (jb_store_ref j)]
     @ checkpoint_texts (jb_checkpoint j)
     @ opt_texts [cn_request_ref (jb_cancellation j), cn_requested_at (jb_cancellation j),
         cn_acknowledged_at (jb_cancellation j), rt_last_error_code (jb_retry j),
         jb_created_at j, jb_updated_at j]
     @ concat (map marker_texts (jb_result_markers j))"

lemma empty_word [simp]: "\<not> contains_word paas_forbidden []"
  by (simp add: contains_word_def paas_forbidden_def)

lemma json_mentions_opt: "json_mentions ws (json_opt_str v) \<longleftrightarrow> (case v of None \<Rightarrow> False | Some s \<Rightarrow> contains_word ws s)"
  by (cases v) (simp_all add: json_opt_str_def)

lemma opt_texts_mention:
  "list_ex P (opt_texts vs) \<longleftrightarrow> list_ex (\<lambda>v. case v of None \<Rightarrow> False | Some s \<Rightarrow> P s) vs"
  by (induction vs) (auto simp: opt_texts_def split: option.splits)

lemma marker_mentions:
  "json_mentions paas_forbidden (marker_as_dict m) \<longleftrightarrow> list_ex (contains_word paas_forbidden) (marker_texts m)"
  by (simp add: marker_as_dict_def marker_texts_def json_mentions_opt opt_texts_mention field_names_of_job_def)

lemma metadata_mentions:
  "list_ex (\<lambda>kv. contains_word paas_forbidden (fst kv) \<or> json_mentions paas_forbidden (snd kv)) (metadata_json m)
     \<longleftrightarrow> list_ex (contains_word paas_forbidden) (map fst m @ map snd m)"
proof -
  have "list_ex P (sort_fields kvs) = list_ex P kvs" for P and kvs :: "(string \<times> json) list"
    by (simp add: list_ex_iff set_sort_fields)
  moreover have "list_ex (\<lambda>kv. contains_word ws (fst kv) \<or> json_mentions ws (snd kv)) (map (\<lambda>(k, v). (k, JStr v)) m)
      \<longleftrightarrow> list_ex (contains_word ws) (map fst m @ map snd m)" for ws
    by (induction m) auto
  ultimately show ?thesis by (simp add: metadata_json_def)
qed

lemma checkpoint_mentions:
  "json_mentions paas_forbidden (ck_as_dict c) \<longleftrightarrow> list_ex (contains_word paas_forbidden) (checkpoint_texts c)"
  by (auto simp: ck_as_dict_def ck_without_hash_def ck_base_fields_def checkpoint_texts_def progress_as_dict_def
      json_mentions_opt opt_texts_mention field_names_of_job_def metadata_mentions ck_computed_sha256_def)

lemma job_control_mentions:
  "json_mentions paas_forbidden (job_control_json j) \<longleftrightarrow> list_ex (contains_word paas_forbidden) (job_texts j)"
proof -
  have markers: "list_ex (json_mentions paas_forbidden) (map marker_as_dict ms)
      \<longleftrightarrow> list_ex (contains_word paas_forbidden) (concat (map marker_texts ms))" for ms
    by (induction ms) (simp_all add: marker_mentions)
  show ?thesis
    by (simp add: job_control_fields job_base_fields_def job_texts_def store_ref_as_dict_def
        cancellation_as_dict_def retry_as_dict_def json_mentions_opt opt_texts_mention
        field_names_of_job_def checkpoint_mentions markers del: json_mentions.simps(2))
      (auto simp: markers)
qed

text \<open>Texts made of digits, punctuation and the letters of a timestamp contain no denied word.\<close>

lemma contains_word_chars:
  assumes "\<forall>w \<in> set ws. \<exists>c \<in> set w. c \<notin> lower_char ` set s"
  shows "\<not> contains_word ws s"
proof
  assume "contains_word ws s"
  then obtain w where "w \<in> set ws" "sublist w (map lower_char s)"
    by (auto simp: contains_word_def list_ex_iff occurs_in_sublist)
  with assms set_mono_sublist show False by fastforce
qed

lemma timestamp_chars:
  assumes "matches_timestamp s"
  shows "set s \<subseteq> {c. is_digit_char c} \<union> set ''-:TZ.''"
proof -
  have shape: "list_all2 (\<lambda>p c. if p = CHR ''d'' then is_digit_char c else c = p) ps cs \<Longrightarrow>
      set ps \<subseteq> set ''d-T:'' \<Longrightarrow> set cs \<subseteq> {c. is_digit_char c} \<union> set ''-:TZ.''" for ps cs
    by (induction rule: list_all2_induct) (auto split: if_splits)
  have "set (take 19 s) \<subseteq> {c. is_digit_char c} \<union> set ''-:TZ.''"
    using assms by (intro shape [of "''dddd-dd-ddTdd:dd:dd''"]) (simp_all add: matches_timestamp_def matches_shape_def)
  moreover have "set (drop 19 s) \<subseteq> {c. is_digit_char c} \<union> set ''-:TZ.''"
  proof (cases "drop 19 s")
    case (Cons c cs)
    then have "(c = CHR ''Z'' \<and> cs = []) \<or> (c = CHR ''.'' \<and> length cs \<ge> 2 \<and> list_all is_digit_char (butlast cs) \<and> last cs = CHR ''Z'')"
      using assms by (simp add: matches_timestamp_def)
    then show ?thesis
    proof (elim disjE conjE)
      assume c: "c = CHR ''.''" "length cs \<ge> 2" "list_all is_digit_char (butlast cs)" "last cs = CHR ''Z''"
      then have "cs = butlast cs @ [CHR ''Z'']" using append_butlast_last_id [of cs] by fastforce
      then have "set cs = set (butlast cs) \<union> {CHR ''Z''}" by (metis set_append list.set(1) list.set(2))
      with c Cons show ?thesis by (auto simp: list_all_iff)
    qed (use Cons in auto)
  qed simp
  moreover have "set s = set (take 19 s) \<union> set (drop 19 s)" by (metis append_take_drop_id set_append)
  ultimately show ?thesis by simp
qed

lemma timestamp_clean: "matches_timestamp s \<Longrightarrow> \<not> contains_word paas_forbidden s"
proof (rule contains_word_chars)
  assume t: "matches_timestamp s"
  have lower: "lower_char c \<notin> set ''acdeoprsu''" if "c \<in> {c. is_digit_char c} \<union> set ''-:TZ.''" for c
    using that
  proof
    assume "c \<in> {c. is_digit_char c}"
    then have "lower_char c = c" "is_digit_char c" by (auto simp: lower_char_def is_upper_char_def is_digit_char_def)
    then show ?thesis by (auto simp: char_defs)
  qed (auto simp: char_defs)
  have letter: "\<forall>w \<in> set paas_forbidden. \<exists>c \<in> set w. c \<in> set ''acdeoprsu''"
    by (simp add: paas_forbidden_def)
  then show "\<forall>w \<in> set paas_forbidden. \<exists>c \<in> set w. c \<notin> lower_char ` set s"
  proof (intro ballI)
    fix w assume "w \<in> set paas_forbidden"
    note bspec [OF letter this]
    then obtain c where c: "c \<in> set w" "c \<in> set ''acdeoprsu''" by (elim bexE)
    have "c \<notin> lower_char ` set s"
    proof
      assume "c \<in> lower_char ` set s"
      then obtain x where "x \<in> set s" "c = lower_char x" by (elim imageE)
      with lower [OF subsetD [OF timestamp_chars [OF t]]] c(2) show False by (simp only:)
    qed
    with c(1) show "\<exists>c \<in> set w. c \<notin> lower_char ` set s" by (rule bexI [rotated])
  qed
qed

end
