(* ===== verification/Paas_Admission_Laws.thy ===== *)
theory Paas_Admission_Laws
  imports Paas_Admission Store_Refinement
begin

text \<open>
  The scope invariant and what normalization computes from it. A scope directory is in order
  (\<open>scope_ok\<close>) when every admission record reads back under its name, sequences are unique, every
  stored job belongs to an admission and matches it, and the control mirrors only know admitted
  entries. From such a directory, loading and normalizing always succeed; they yield the admissions
  in sequence order and give the slot to the first unfinished one.
\<close>

section \<open>Reading records\<close>

lemma read_scoped_record_iff:
  "read_scoped_record ref ctx job_id s = Inr r \<longleftrightarrow>
     strict_identifier job_id
     \<and> (\<exists>v. map_of (sd_records s) job_id = Some (FileJson v) \<and> scoped_record_from_dict ref v = Inr r)
     \<and> di_job_id (sj_identity r) = job_id \<and> sj_scope r = ctx
     \<and> scoped_references ctx (sj_identity r) = Inr (sj_references r)"
  by (auto simp: read_scoped_record_def bind_res_Inr_iff split: option.splits job_file.splits sum.splits if_splits)

lemma read_scoped_record_frame:
  "sd_records s' = sd_records s \<Longrightarrow> read_scoped_record ref ctx job_id s' = read_scoped_record ref ctx job_id s"
  by (simp add: read_scoped_record_def)

lemma read_scoped_record_wf: "read_scoped_record ref ctx job_id s = Inr r \<Longrightarrow> wf_scoped_record r"
  by (auto simp: read_scoped_record_iff intro: scoped_record_from_dict_wf)

definition named_record ::
  "env_reference \<Rightarrow> scope_context \<Rightarrow> scope_dir \<Rightarrow> string \<Rightarrow> (string \<times> scoped_record) res"
where
  "named_record ref ctx s stem = bind_res (read_scoped_record ref ctx stem s) (\<lambda>r. Inr (stem, r))"

lemma collect_records_eq:
  "distinct (map fst acc @ stems) \<Longrightarrow>
     collect_records ref ctx s acc stems =
       bind_res (map_res (named_record ref ctx s) stems) (\<lambda>rs. Inr (acc @ rs))"
proof (induction stems arbitrary: acc)
  case Nil
  then show ?case by simp
next
  case (Cons stem stems)
  show ?case
  proof (cases "read_scoped_record ref ctx stem s")
    case (Inl e)
    then show ?thesis by (simp add: named_record_def)
  next
    case (Inr r)
    then have "di_job_id (sj_identity r) = stem" "sj_scope r = ctx"
      by (simp_all add: read_scoped_record_iff)
    with Inr Cons show ?thesis
      by (simp add: named_record_def bind_res_assoc)
  qed
qed

lemma set_record_stems [simp]: "set (record_stems s) = fst ` set (sd_records s)"
  by (simp add: record_stems_def)

lemma distinct_record_stems: "distinct (map fst (sd_records s)) \<Longrightarrow> distinct (record_stems s)"
  by (simp add: record_stems_def)

section \<open>The scope invariant\<close>

text \<open>The admissions of a directory whose records all read back, in file order.\<close>

definition record_of :: "env_reference \<Rightarrow> scope_context \<Rightarrow> scope_dir \<Rightarrow> string \<Rightarrow> scoped_record" where
  "record_of ref ctx s job_id = the (right (read_scoped_record ref ctx job_id s))"

abbreviation eid :: "queue_record \<Rightarrow> string" where
  "eid e \<equiv> di_job_id (sq_identity e)"

definition entry_at :: "env_reference \<Rightarrow> scope_context \<Rightarrow> scope_dir \<Rightarrow> string \<Rightarrow> queue_record" where
  "entry_at ref ctx s job_id = entry_of (record_of ref ctx s job_id)"

definition admitted :: "scope_dir \<Rightarrow> string set" where
  "admitted s = fst ` set (sd_records s)"

definition records_ok :: "env_reference \<Rightarrow> scope_context \<Rightarrow> scope_dir \<Rightarrow> bool" where
  "records_ok ref ctx s \<longleftrightarrow>
     distinct (map fst (sd_records s))
     \<and> (\<forall>i \<in> admitted s. is_ok (read_scoped_record ref ctx i s))
     \<and> inj_on (\<lambda>i. sj_sequence (record_of ref ctx s i)) (admitted s)"

definition jobs_ok :: "env_reference \<Rightarrow> scope_context \<Rightarrow> scope_dir \<Rightarrow> bool" where
  "jobs_ok ref ctx s \<longleftrightarrow>
     store_ok ref (sd_store s)
     \<and> (\<forall>p \<in> set (map fst (st_files (sd_store s))). \<exists>i \<in> admitted s. p = path_for (sd_store s) i)
     \<and> (\<forall>i \<in> admitted s. \<forall>j. abs_jobs ref (sd_store s) i = Some j \<longrightarrow>
          check_scoped_job j (sj_identity (record_of ref ctx s i)) (record_of ref ctx s i) = Inr ())"

definition known_state :: "env_reference \<Rightarrow> scope_context \<Rightarrow> scope_dir \<Rightarrow> control_state \<Rightarrow> bool" where
  "known_state ref ctx s st \<longleftrightarrow>
     sk_scope st = ctx \<and> distinct (map eid (sk_entries st))
     \<and> (\<forall>e \<in> set (sk_entries st). eid e \<in> admitted s \<and> e = entry_at ref ctx s (eid e))"

definition mirror_ok :: "env_reference \<Rightarrow> scope_context \<Rightarrow> scope_dir \<Rightarrow> job_file \<Rightarrow> bool" where
  "mirror_ok ref ctx s f \<longleftrightarrow>
     (\<exists>st. f = FileJson (control_as_dict st) \<and> wf_control st \<and> known_state ref ctx s st)"

definition mirrors_ok :: "env_reference \<Rightarrow> scope_context \<Rightarrow> scope_dir \<Rightarrow> bool" where
  "mirrors_ok ref ctx s \<longleftrightarrow>
     (\<forall>f. sd_control s = Some f \<or> sd_queue s = Some f \<longrightarrow> mirror_ok ref ctx s f)
     \<and> (\<forall>a b. sd_control s = Some (FileJson (control_as_dict a)) \<longrightarrow>
          sd_queue s = Some (FileJson (control_as_dict b)) \<longrightarrow> wf_control a \<longrightarrow> wf_control b \<longrightarrow>
          a \<noteq> b \<longrightarrow> sk_revision a \<noteq> sk_revision b)"

definition scope_ok :: "env_reference \<Rightarrow> scope_context \<Rightarrow> scope_dir \<Rightarrow> bool" where
  "scope_ok ref ctx s \<longleftrightarrow>
     wf_scope ctx \<and> records_ok ref ctx s \<and> jobs_ok ref ctx s \<and> mirrors_ok ref ctx s"

text \<open>The queue of a scope: its admissions by sequence, each with the job its store holds.\<close>

definition scope_queue :: "env_reference \<Rightarrow> scope_context \<Rightarrow> scope_dir \<Rightarrow> queue_record list" where
  "scope_queue ref ctx s = sort_key entry_key (map (entry_at ref ctx s) (record_stems s))"

definition queue_jobs :: "env_reference \<Rightarrow> scope_context \<Rightarrow> scope_dir \<Rightarrow> (string \<times> job option) list" where
  "queue_jobs ref ctx s = map (\<lambda>e. (eid e, abs_jobs ref (sd_store s) (eid e))) (scope_queue ref ctx s)"

definition slot_holder :: "env_reference \<Rightarrow> scope_context \<Rightarrow> scope_dir \<Rightarrow> string option" where
  "slot_holder ref ctx s = first_active (queue_jobs ref ctx s)"

section \<open>Records in order\<close>

lemma record_of_read:
  "records_ok ref ctx s \<Longrightarrow> i \<in> admitted s \<Longrightarrow> read_scoped_record ref ctx i s = Inr (record_of ref ctx s i)"
  by (auto simp: records_ok_def record_of_def is_ok_iff)

lemma record_of_eq: "read_scoped_record ref ctx i s = Inr r \<Longrightarrow> record_of ref ctx s i = r"
  by (simp add: record_of_def)

lemma record_of_job_id [simp]:
  "records_ok ref ctx s \<Longrightarrow> i \<in> admitted s \<Longrightarrow> di_job_id (sj_identity (record_of ref ctx s i)) = i"
  using record_of_read by (fastforce simp: read_scoped_record_iff)

lemma eid_entry_at [simp]: "records_ok ref ctx s \<Longrightarrow> i \<in> admitted s \<Longrightarrow> eid (entry_at ref ctx s i) = i"
  by (simp add: entry_at_def entry_of_def)

lemma admitted_stems: "set (record_stems s) = admitted s"
  by (simp add: admitted_def)

lemma read_collected:
  assumes "records_ok ref ctx s"
  shows "collect_records ref ctx s [] (record_stems s) =
    Inr (map (\<lambda>i. (i, record_of ref ctx s i)) (record_stems s))"
proof -
  have "distinct (record_stems s)" using assms by (simp add: records_ok_def distinct_record_stems)
  moreover have "map_res (named_record ref ctx s) (map id (record_stems s)) =
      Inr (map (\<lambda>i. (i, record_of ref ctx s i)) (record_stems s))"
    by (rule map_res_map) (simp add: named_record_def record_of_read [OF assms] admitted_def)
  ultimately show ?thesis by (simp add: collect_records_eq)
qed

lemma inj_on_sequence_distinct:
  "records_ok ref ctx s \<Longrightarrow> distinct (map (\<lambda>i. sj_sequence (record_of ref ctx s i)) (record_stems s))"
  by (simp add: records_ok_def distinct_map distinct_record_stems admitted_def)

lemma read_records:
  assumes "records_ok ref ctx s" and "jobs_ok ref ctx s"
  shows "read_scoped_records ref ctx s = Inr (map (\<lambda>i. (i, record_of ref ctx s i)) (record_stems s))"
proof -
  let ?rs = "map (\<lambda>i. (i, record_of ref ctx s i)) (record_stems s)"
  have "\<not> list_ex (\<lambda>p. p \<notin> set (map (\<lambda>(i, r). path_for (sd_store s) i) ?rs)) (map fst (st_files (sd_store s)))"
    using assms(2) unfolding jobs_ok_def list_ex_iff
    by (simp add: case_prod_beta image_image admitted_def) blast
  moreover have "distinct (map (\<lambda>(i, r). sj_sequence r) ?rs)"
    using inj_on_sequence_distinct [OF assms(1)] by (simp add: comp_def)
  ultimately show ?thesis
    using read_collected [OF assms(1)] unfolding read_scoped_records_def by (simp del: set_map)
qed

section \<open>The queue\<close>

lemma entry_key_inj:
  assumes "records_ok ref ctx s"
  shows "inj_on (\<lambda>i. entry_key (entry_at ref ctx s i)) (admitted s)"
  using assms by (auto intro!: inj_onI simp: entry_key_def)

lemma set_scope_queue: "set (scope_queue ref ctx s) = entry_at ref ctx s ` admitted s"
  by (simp add: scope_queue_def admitted_def)

text \<open>Sorting by a key that identifies the elements depends on the set of elements only.\<close>

lemma sort_key_set_eq:
  assumes "distinct xs" "distinct ys" "set xs = set ys" "inj_on f (set xs)"
  shows "sort_key f xs = sort_key f ys"
proof -
  have "map f (sort_key f xs) = map f (sort_key f ys)"
  proof (rule sorted_distinct_set_unique)
    show "distinct (map f (sort_key f xs))" "distinct (map f (sort_key f ys))"
      using assms by (simp_all add: distinct_map)
  qed (use assms in simp_all)
  then show ?thesis using assms(3,4) by (auto intro: map_inj_on)
qed

lemma distinct_entries:
  assumes "records_ok ref ctx s"
  shows "distinct (map (entry_at ref ctx s) (record_stems s))"
    and "distinct (map eid (scope_queue ref ctx s))"
    and "distinct (map sq_sequence (scope_queue ref ctx s))"
proof -
  have d: "distinct (record_stems s)" using assms by (simp add: records_ok_def distinct_record_stems)
  have inj: "inj_on (entry_at ref ctx s) (admitted s)"
    using assms by (intro inj_onI) (metis eid_entry_at)
  with d show e: "distinct (map (entry_at ref ctx s) (record_stems s))"
    by (simp add: distinct_map admitted_def)
  then have "distinct (scope_queue ref ctx s)" by (simp add: scope_queue_def)
  moreover have "inj_on eid (set (scope_queue ref ctx s))"
    using assms by (auto simp: set_scope_queue intro!: inj_onI)
  ultimately show "distinct (map eid (scope_queue ref ctx s))" by (simp add: distinct_map)
  have "inj_on sq_sequence (set (scope_queue ref ctx s))"
    using assms by (auto simp: set_scope_queue records_ok_def entry_at_def entry_of_def
        intro!: inj_onI dest: inj_onD)
  with \<open>distinct (scope_queue ref ctx s)\<close> show "distinct (map sq_sequence (scope_queue ref ctx s))"
    by (simp add: distinct_map)
qed

text \<open>The queue is ordered by sequence.\<close>

lemma sorted_scope_queue: "sorted (map sq_sequence (scope_queue ref ctx s))"
proof -
  have "sorted (map entry_key (scope_queue ref ctx s))" by (simp add: scope_queue_def)
  then show ?thesis
    unfolding sorted_map by (rule sorted_wrt_mono_rel [rotated]) (auto simp: entry_key_def less_eq_prod_def)
qed

section \<open>Normalization\<close>

lemma check_entries_known:
  assumes "records_ok ref ctx s"
  shows "distinct (map eid (seen @ es)) \<Longrightarrow>
    (\<forall>e \<in> set es. eid e \<in> admitted s \<and> e = entry_at ref ctx s (eid e)) \<Longrightarrow>
    check_entries (map (\<lambda>i. (i, record_of ref ctx s i)) (record_stems s)) seen es = Inr (seen @ es)"
proof (induction es arbitrary: seen)
  case Nil
  then show ?case by simp
next
  case (Cons e es)
  then have e: "eid e \<in> admitted s" "e = entry_at ref ctx s (eid e)" by simp_all
  then have "map_of (map (\<lambda>i. (i, record_of ref ctx s i)) (record_stems s)) (eid e)
      = Some (record_of ref ctx s (eid e))"
    by (simp add: map_of_map_restrict admitted_def)
  moreover have "sj_identity (record_of ref ctx s (eid e)) = sq_identity e"
    "sj_references (record_of ref ctx s (eid e)) = sq_references e"
    by (subst (2) e(2), simp add: entry_at_def entry_of_def)+
  ultimately show ?case using Cons by simp
qed

lemma adopt_records_all:
  assumes "records_ok ref ctx s"
  shows "set is \<subseteq> admitted s \<Longrightarrow> distinct is \<Longrightarrow> distinct (map eid es) \<Longrightarrow>
    (\<forall>e \<in> set es. eid e \<in> admitted s \<and> e = entry_at ref ctx s (eid e)) \<Longrightarrow>
    \<exists>ms. adopt_records es (map (\<lambda>i. (i, record_of ref ctx s i)) is) = Inr ms
      \<and> distinct ms \<and> set ms = set es \<union> entry_at ref ctx s ` set is"
proof (induction "is" arbitrary: es)
  case Nil
  then show ?case by (simp add: distinct_map)
next
  case (Cons i "is")
  from Cons.prems(1) have i: "i \<in> admitted s" by simp
  show ?case
  proof (cases "find (\<lambda>e. eid e = i) es")
    case None
    then have new: "i \<notin> eid ` set es" by (auto simp: find_None_iff)
    have "distinct (map eid (es @ [entry_at ref ctx s i]))"
      using Cons.prems(3) new assms i by simp
    moreover have "\<forall>e \<in> set (es @ [entry_at ref ctx s i]). eid e \<in> admitted s \<and> e = entry_at ref ctx s (eid e)"
      using Cons.prems(4) assms i by simp
    ultimately obtain ms where
      "adopt_records (es @ [entry_at ref ctx s i]) (map (\<lambda>i. (i, record_of ref ctx s i)) is) = Inr ms"
      "distinct ms" "set ms = set (es @ [entry_at ref ctx s i]) \<union> entry_at ref ctx s ` set is"
      using Cons.IH [of "es @ [entry_at ref ctx s i]"] Cons.prems(1,2) by auto
    with None show ?thesis by (auto simp: entry_at_def)
  next
    case (Some e)
    then have e: "e \<in> set es" "eid e = i" by (auto dest: find_Some_in)
    with Cons.prems(4) have eq: "e = entry_at ref ctx s i" by blast
    from Cons.IH [of es] Cons.prems obtain ms where
      "adopt_records es (map (\<lambda>i. (i, record_of ref ctx s i)) is) = Inr ms"
      "distinct ms" "set ms = set es \<union> entry_at ref ctx s ` set is" by auto
    with Some eq e show ?thesis by (auto simp: entry_at_def)
  qed
qed

lemma load_pending_abs:
  assumes "store_ok ref st" and "matches_identifier i"
  shows "load_pending ref i st = Inr (abs_jobs ref st i)"
proof (cases "map_of (st_files st) (path_for st i)")
  case None
  then show ?thesis
    using store_ok_lookup(1) [OF assms] assms
    by (simp add: load_pending_def store_load_def mutation_durable store_ok_def)
next
  case (Some f)
  then obtain j where j: "read_job ref f = Inr j" "jb_job_id j = i"
    using store_ok_lookup(2) [OF assms] by blast
  from Some assms(1) have "jb_profile j = DURABLE" using j by (fastforce simp: store_ok_def)
  with Some j assms show ?thesis
    by (simp add: load_pending_def store_load_def mutation_durable store_ok_def abs_jobs_def)
qed

lemma strict_matches: "strict_identifier i \<Longrightarrow> matches_identifier i"
  by (simp add: strict_identifier_def)

lemma admitted_strict: "records_ok ref ctx s \<Longrightarrow> i \<in> admitted s \<Longrightarrow> strict_identifier i"
  using record_of_read by (fastforce simp: read_scoped_record_iff)

lemma load_entries:
  assumes "records_ok ref ctx s" and "jobs_ok ref ctx s" and "set es \<subseteq> entry_at ref ctx s ` admitted s"
  shows "map_res (load_entry_job ref (map (\<lambda>i. (i, record_of ref ctx s i)) (record_stems s)) (sd_store s)) es
    = Inr (map (\<lambda>e. (eid e, abs_jobs ref (sd_store s) (eid e))) es)"
proof -
  have "load_entry_job ref (map (\<lambda>i. (i, record_of ref ctx s i)) (record_stems s)) (sd_store s) (id e)
      = Inr (eid e, abs_jobs ref (sd_store s) (eid e))" if "e \<in> set es" for e
  proof -
    from that assms(3) obtain i where i: "i \<in> admitted s" "e = entry_at ref ctx s i" by auto
    then have e: "eid e = i" using assms(1) by simp
    have "load_pending ref i (sd_store s) = Inr (abs_jobs ref (sd_store s) i)"
      using assms i admitted_strict strict_matches by (intro load_pending_abs) (auto simp: jobs_ok_def)
    moreover have "map_of (map (\<lambda>i. (i, record_of ref ctx s i)) (record_stems s)) i = Some (record_of ref ctx s i)"
      using i by (simp add: map_of_map_restrict admitted_def)
    moreover have "sq_identity e = sj_identity (record_of ref ctx s i)"
      using i by (simp add: entry_at_def entry_of_def)
    ultimately show ?thesis
      using assms(2) i(1) e by (auto simp: load_entry_job_def jobs_ok_def split: option.splits)
  qed
  from map_res_map [of es _ id "\<lambda>e. (eid e, abs_jobs ref (sd_store s) (eid e))", OF this]
  show ?thesis by simp
qed

text \<open>The state normalization computes.\<close>

definition normalized ::
  "env_reference \<Rightarrow> scope_context \<Rightarrow> scope_dir \<Rightarrow> control_state \<Rightarrow> control_state"
where
  "normalized ref ctx s st =
     (let next_sequence = max (sk_next_sequence st)
            (max_sequence (map sq_sequence (scope_queue ref ctx s)) + 1) in
      if scope_queue ref ctx s = sk_entries st \<and> slot_holder ref ctx s = sk_active_job_id st
         \<and> next_sequence = sk_next_sequence st
      then st
      else st\<lparr>sk_revision := sk_revision st + 1, sk_active_job_id := slot_holder ref ctx s,
              sk_entries := scope_queue ref ctx s, sk_next_sequence := next_sequence\<rparr>)"

text \<open>Up to the loading of the jobs, normalization only looks at the records.\<close>

lemma normalize_entries:
  assumes ok: "records_ok ref ctx s" and known: "known_state ref ctx s st"
    and rs: "read_scoped_records ref ctx s = Inr (map (\<lambda>i. (i, record_of ref ctx s i)) (record_stems s))"
  shows "normalize_scoped_state ref st s =
    bind_res (map_res (load_entry_job ref (map (\<lambda>i. (i, record_of ref ctx s i)) (record_stems s)) (sd_store s))
        (scope_queue ref ctx s)) (\<lambda>jobs.
      let next_sequence = max (sk_next_sequence st) (max_sequence (map sq_sequence (scope_queue ref ctx s)) + 1) in
      if scope_queue ref ctx s = sk_entries st \<and> first_active jobs = sk_active_job_id st
         \<and> next_sequence = sk_next_sequence st
      then Inr st
      else Inr (st\<lparr>sk_revision := sk_revision st + 1, sk_active_job_id := first_active jobs,
                   sk_entries := scope_queue ref ctx s, sk_next_sequence := next_sequence\<rparr>))"
proof -
  let ?rs = "map (\<lambda>i. (i, record_of ref ctx s i)) (record_stems s)"
  have scope: "sk_scope st = ctx" using known by (simp add: known_state_def)
  have check: "check_entries ?rs [] (sk_entries st) = Inr (sk_entries st)"
    using check_entries_known [OF ok, of "[]" "sk_entries st"] known by (simp add: known_state_def)
  have stems: "set (record_stems s) \<subseteq> admitted s" "distinct (record_stems s)"
    using ok by (simp_all add: admitted_def records_ok_def distinct_record_stems)
  from adopt_records_all [OF ok this, of "sk_entries st"] known obtain ms where
    ms: "adopt_records (sk_entries st) ?rs = Inr ms" "distinct ms"
      "set ms = set (sk_entries st) \<union> entry_at ref ctx s ` set (record_stems s)"
    by (auto simp: known_state_def)
  have set_ms: "set ms = set (map (entry_at ref ctx s) (record_stems s))"
    using ms(3) known by (auto simp: known_state_def admitted_def)
  have "inj_on entry_key (set ms)"
    unfolding set_ms using entry_key_inj [OF ok] by (auto simp: inj_on_def admitted_def)
  with ms(2) set_ms distinct_entries(1) [OF ok]
  have sorted: "sort_key entry_key ms = scope_queue ref ctx s"
    unfolding scope_queue_def by (intro sort_key_set_eq)
  show ?thesis
    by (simp add: normalize_scoped_state_def scope rs check ms(1) sorted distinct_entries(3) [OF ok] Let_def
        cong: if_cong)
qed

lemma normalize_scoped_state_eq:
  assumes ok: "records_ok ref ctx s" "jobs_ok ref ctx s" and known: "known_state ref ctx s st"
  shows "normalize_scoped_state ref st s = Inr (normalized ref ctx s st)"
proof -
  have "map_res (load_entry_job ref (map (\<lambda>i. (i, record_of ref ctx s i)) (record_stems s)) (sd_store s))
      (scope_queue ref ctx s) = Inr (queue_jobs ref ctx s)"
    using load_entries [OF ok, of "scope_queue ref ctx s"] by (simp add: set_scope_queue queue_jobs_def)
  then show ?thesis
    unfolding normalize_entries [OF ok(1) known read_records [OF ok]]
    by (simp add: normalized_def slot_holder_def Let_def if_distrib [of Inr] cong: if_cong split del: if_split)
qed

lemma normalized_select:
  "sk_entries (normalized ref ctx s st) = scope_queue ref ctx s"
  "sk_active_job_id (normalized ref ctx s st) = slot_holder ref ctx s"
  "sk_scope (normalized ref ctx s st) = sk_scope st"
  "sk_schema_version (normalized ref ctx s st) = sk_schema_version st"
  "sk_next_sequence (normalized ref ctx s st) =
     max (sk_next_sequence st) (max_sequence (map sq_sequence (scope_queue ref ctx s)) + 1)"
  by (auto simp: normalized_def Let_def)

section \<open>Recovered and persisted states\<close>

lemma max_sequence_ge: "n \<in> set ns \<Longrightarrow> n \<le> max_sequence ns"
  by (induction ns) (auto simp: max_sequence_def)

lemma max_sequence_nonneg [simp]: "0 \<le> max_sequence ns"
  by (induction ns) (auto simp: max_sequence_def)

lemma first_active_in: "first_active xs = Some i \<Longrightarrow> \<exists>j. (i, Some j) \<in> set xs \<and> \<not> terminal_for_admission j"
  by (induction xs rule: first_active.induct) (auto split: if_splits)

lemma wf_entry:
  assumes "records_ok ref ctx s" and "i \<in> admitted s"
  shows "wf_queue_record (entry_at ref ctx s i)" and "di_scope_ref (sq_identity (entry_at ref ctx s i)) = sc_scope_ref ctx"
proof -
  note r = record_of_read [OF assms]
  from read_scoped_record_wf [OF r] have "wf_scoped_record (record_of ref ctx s i)" .
  moreover from r have "sj_scope (record_of ref ctx s i) = ctx" by (simp add: read_scoped_record_iff)
  ultimately show "wf_queue_record (entry_at ref ctx s i)"
    and "di_scope_ref (sq_identity (entry_at ref ctx s i)) = sc_scope_ref ctx"
    by (simp_all add: entry_at_def entry_of_def wf_queue_record_def wf_scoped_record_def)
qed

lemma slot_holder_admitted:
  assumes "records_ok ref ctx s" and "slot_holder ref ctx s = Some i"
  shows "i \<in> admitted s" and "i \<in> set (map eid (scope_queue ref ctx s))"
proof -
  from first_active_in assms(2) obtain j where "(i, Some j) \<in> set (queue_jobs ref ctx s)"
    by (auto simp: slot_holder_def)
  then show "i \<in> set (map eid (scope_queue ref ctx s))" by (auto simp: queue_jobs_def)
  with assms(1) show "i \<in> admitted s" by (auto simp: set_scope_queue)
qed

definition fit_state :: "env_reference \<Rightarrow> scope_context \<Rightarrow> scope_dir \<Rightarrow> control_state \<Rightarrow> bool" where
  "fit_state ref ctx s st \<longleftrightarrow> known_state ref ctx s st \<and> 0 \<le> sk_revision st \<and> 1 \<le> sk_next_sequence st
     \<and> sk_schema_version st = ''1.0''"

lemma normalized_fit:
  assumes ok: "scope_ok ref ctx s" and fit: "fit_state ref ctx s st"
  shows "wf_control (normalized ref ctx s st)" and "known_state ref ctx s (normalized ref ctx s st)"
    and "fit_state ref ctx s (normalized ref ctx s st)"
proof -
  let ?n = "normalized ref ctx s st"
  have r: "records_ok ref ctx s" using ok by (simp add: scope_ok_def)
  have entries: "\<forall>e \<in> set (scope_queue ref ctx s). wf_queue_record e \<and> di_scope_ref (sq_identity e) = sc_scope_ref ctx
      \<and> eid e \<in> admitted s \<and> e = entry_at ref ctx s (eid e)"
    using wf_entry [OF r] r by (auto simp: set_scope_queue)
  have "0 \<le> sk_revision ?n" using fit by (auto simp: normalized_def Let_def fit_state_def)
  moreover have "\<forall>g \<in> set (control_checks (sk_scope ?n) (sk_entries ?n) (sk_active_job_id ?n) (sk_next_sequence ?n)). \<not> fst g"
  proof -
    have "sk_scope st = ctx" using fit by (simp add: fit_state_def known_state_def)
    moreover have "strict_identifier i \<and> i \<in> eid ` set (scope_queue ref ctx s)"
      if "slot_holder ref ctx s = Some i" for i
      using slot_holder_admitted [OF r that] admitted_strict [OF r] by simp
    ultimately show ?thesis
      using entries distinct_entries(2,3) [OF r] sorted_scope_queue [of ref ctx s]
      by (auto simp: control_checks_def normalized_select Let_def list_ex_iff split: option.splits)
  qed
  ultimately show "wf_control ?n" using ok fit entries
    by (simp add: wf_control_def normalized_select scope_ok_def fit_state_def known_state_def list_all_iff
        le_max_iff_disj)
  show known: "known_state ref ctx s ?n"
    using fit entries distinct_entries(2) [OF r] by (simp add: known_state_def normalized_select fit_state_def)
  show "fit_state ref ctx s ?n"
    using fit known \<open>0 \<le> sk_revision ?n\<close> by (simp add: fit_state_def normalized_select le_max_iff_disj)
qed

lemma normalized_idem:
  "normalized ref ctx s (normalized ref ctx s st) = normalized ref ctx s st"
  by (subst normalized_def) (simp add: normalized_select Let_def)

lemma wf_known_fit: "wf_control st \<Longrightarrow> known_state ref ctx s st \<Longrightarrow> fit_state ref ctx s st"
  by (simp add: fit_state_def wf_control_def)

lemma read_written_state [simp]: "wf_control st \<Longrightarrow> read_state_file (FileJson (control_as_dict st)) = Inr st"
  by (simp add: read_state_file_def control_round_trip)

lemma control_as_dict_inject:
  "wf_control a \<Longrightarrow> wf_control b \<Longrightarrow> control_as_dict a = control_as_dict b \<longleftrightarrow> a = b"
  by (metis control_round_trip sum.inject(2))

lemma mirrors_okD:
  assumes "mirrors_ok ref ctx s" and "sd_control s = Some f \<or> sd_queue s = Some f"
  obtains st where "f = FileJson (control_as_dict st)" "wf_control st" "known_state ref ctx s st"
  using assms unfolding mirrors_ok_def mirror_ok_def by blast

lemma recovered_fit:
  assumes "scope_ok ref ctx s"
  shows "\<exists>st. recover_scoped_state ref ctx s = Inr st \<and> fit_state ref ctx s st"
proof -
  from assms have ok: "records_ok ref ctx s" "jobs_ok ref ctx s" by (simp_all add: scope_ok_def)
  have "map (\<lambda>(i, r). entry_of r) (map (\<lambda>i. (i, record_of ref ctx s i)) (record_stems s))
      = map (entry_at ref ctx s) (record_stems s)"
    by (simp add: entry_at_def)
  note entries = this
  have rec: "recover_scoped_state ref ctx s = Inr \<lparr>sk_scope = ctx, sk_revision = 0,
      sk_next_sequence = max_sequence (map sq_sequence (scope_queue ref ctx s)) + 1,
      sk_active_job_id = None, sk_entries = scope_queue ref ctx s, sk_schema_version = ''1.0''\<rparr>"
    unfolding recover_scoped_state_def read_records [OF ok] scope_queue_def Let_def bind_res.simps
    unfolding entries ..
  show ?thesis
    unfolding rec using distinct_entries(2) [OF ok(1)] ok(1)
    by (auto simp: fit_state_def known_state_def set_scope_queue)
qed

lemma load_scoped_state_ok:
  assumes ok: "scope_ok ref ctx s"
  shows "\<exists>st. load_scoped_state ref ctx s = Inr st \<and> fit_state ref ctx s st
    \<and> (sd_control s \<noteq> None \<or> sd_queue s \<noteq> None \<longrightarrow> wf_control st)"
proof -
  have m: "mirrors_ok ref ctx s" using ok by (simp add: scope_ok_def)
  consider "sd_control s = None" "sd_queue s = None" | f where "sd_control s = None" "sd_queue s = Some f"
    | f where "sd_control s = Some f" "sd_queue s = None" | f g where "sd_control s = Some f" "sd_queue s = Some g"
    by (cases "sd_control s"; cases "sd_queue s") auto
  then show ?thesis
  proof cases
    case 1
    with recovered_fit [OF ok] show ?thesis by (simp add: load_scoped_state_def)
  next
    case 2
    then obtain st where "f = FileJson (control_as_dict st)" "wf_control st" "known_state ref ctx s st"
      by (elim mirrors_okD [OF m, of f, rotated]) simp_all
    with 2 wf_known_fit show ?thesis by (auto simp: load_scoped_state_def known_state_def)
  next
    case 3
    then obtain st where "f = FileJson (control_as_dict st)" "wf_control st" "known_state ref ctx s st"
      by (elim mirrors_okD [OF m, of f, rotated]) simp_all
    with 3 wf_known_fit show ?thesis by (auto simp: load_scoped_state_def known_state_def)
  next
    case 4
    obtain a where a: "f = FileJson (control_as_dict a)" "wf_control a" "known_state ref ctx s a"
      by (rule mirrors_okD [OF m, of f]) (simp_all add: 4)
    obtain b where b: "g = FileJson (control_as_dict b)" "wf_control b" "known_state ref ctx s b"
      by (rule mirrors_okD [OF m, of g]) (simp_all add: 4)
    note ab = a b
    have rev: "a = b \<or> sk_revision a \<noteq> sk_revision b"
      using m 4 ab(1,2,4,5) unfolding mirrors_ok_def by blast
    have "sk_scope a = ctx" "sk_scope b = ctx" using ab by (simp_all add: known_state_def)
    moreover note wf_known_fit [OF ab(2,3)] wf_known_fit [OF ab(5,6)]
    ultimately show ?thesis
      using rev 4 ab(1,2,4,5)
      by (cases "a = b") (auto simp: load_scoped_state_def reconcile_mirrors_def control_as_dict_inject)
  qed
qed

lemma load_normalized_ok:
  assumes "scope_ok ref ctx s"
  obtains raw where "load_normalized ref ctx s = Inr (raw, normalized ref ctx s raw)"
    "fit_state ref ctx s raw" "load_scoped_state ref ctx s = Inr raw"
    "sd_control s \<noteq> None \<or> sd_queue s \<noteq> None \<Longrightarrow> wf_control raw"
proof -
  from load_scoped_state_ok [OF assms] obtain raw where
    raw: "load_scoped_state ref ctx s = Inr raw" "fit_state ref ctx s raw"
      "sd_control s \<noteq> None \<or> sd_queue s \<noteq> None \<longrightarrow> wf_control raw" by blast
  moreover have "normalize_scoped_state ref raw s = Inr (normalized ref ctx s raw)"
    using assms raw(2) by (intro normalize_scoped_state_eq) (simp_all add: scope_ok_def fit_state_def)
  ultimately show thesis by (intro that [of raw]) (auto simp add: load_normalized_def)
qed

text \<open>The parts of a directory that the mirrors do not touch.\<close>

lemma scope_view_cong:
  assumes "sd_records s' = sd_records s"
  shows "admitted s' = admitted s" "record_stems s' = record_stems s"
    "record_of ref ctx s' = record_of ref ctx s" "entry_at ref ctx s' = entry_at ref ctx s"
    "scope_queue ref ctx s' = scope_queue ref ctx s" "records_ok ref ctx s' = records_ok ref ctx s"
    "known_state ref ctx s' = known_state ref ctx s"
proof -
  have r: "read_scoped_record ref ctx i s' = read_scoped_record ref ctx i s" for i
    by (rule read_scoped_record_frame [OF assms])
  show a: "admitted s' = admitted s" and st: "record_stems s' = record_stems s"
    using assms by (simp_all add: admitted_def record_stems_def)
  show ro: "record_of ref ctx s' = record_of ref ctx s" by (simp add: record_of_def r fun_eq_iff)
  show e: "entry_at ref ctx s' = entry_at ref ctx s" by (simp add: entry_at_def ro fun_eq_iff)
  show "scope_queue ref ctx s' = scope_queue ref ctx s" by (simp add: scope_queue_def st e)
  show "records_ok ref ctx s' = records_ok ref ctx s" using assms a ro r by (simp add: records_ok_def)
  show "known_state ref ctx s' = known_state ref ctx s" by (simp add: known_state_def a e fun_eq_iff)
qed

lemma store_view_cong:
  assumes "sd_records s' = sd_records s" and "sd_store s' = sd_store s"
  shows "jobs_ok ref ctx s' = jobs_ok ref ctx s" "queue_jobs ref ctx s' = queue_jobs ref ctx s"
    "slot_holder ref ctx s' = slot_holder ref ctx s" "normalized ref ctx s' = normalized ref ctx s"
proof -
  note same = scope_view_cong [OF assms(1)] assms(2)
  show "jobs_ok ref ctx s' = jobs_ok ref ctx s" by (simp add: jobs_ok_def same)
  show "queue_jobs ref ctx s' = queue_jobs ref ctx s" by (simp add: queue_jobs_def same)
  then show slot: "slot_holder ref ctx s' = slot_holder ref ctx s" by (simp add: slot_holder_def)
  show "normalized ref ctx s' = normalized ref ctx s"
    unfolding normalized_def [abs_def] same slot ..
qed

lemma scope_ok_persist:
  assumes "scope_ok ref ctx s" and "wf_control st" and "known_state ref ctx s st"
    and "persist_scoped_state st s = (r, s')"
  shows "scope_ok ref ctx s'" and "load_scoped_state ref ctx s' = Inr st"
    and "sd_records s' = sd_records s" and "sd_store s' = sd_store s" and "sd_audits s' = sd_audits s"
proof -
  from assms(4) have s': "s' = s\<lparr>sd_control := Some (FileJson (control_as_dict st)),
      sd_queue := Some (FileJson (control_as_dict st))\<rparr>" by (simp add: persist_scoped_state_eq)
  then show frame: "sd_records s' = sd_records s" "sd_store s' = sd_store s" "sd_audits s' = sd_audits s"
    by simp_all
  note same = scope_view_cong [OF frame(1)] store_view_cong [OF frame(1,2)]
  have files: "sd_control s' = Some (FileJson (control_as_dict st))"
    "sd_queue s' = Some (FileJson (control_as_dict st))" by (simp_all add: s')
  have "mirror_ok ref ctx s' (FileJson (control_as_dict st))"
    using assms(2,3) by (auto simp: mirror_ok_def same)
  then have "mirrors_ok ref ctx s'"
    using assms(2) by (simp add: mirrors_ok_def files) (metis control_as_dict_inject)
  with assms(1) show "scope_ok ref ctx s'" by (simp add: scope_ok_def same)
  show "load_scoped_state ref ctx s' = Inr st"
    using assms(2,3) by (simp add: load_scoped_state_def s' reconcile_mirrors_def known_state_def)
qed

text \<open>After the state has been brought up to date, loading it gives it back unchanged.\<close>

lemma persist_if_needed_ok:
  assumes ok: "scope_ok ref ctx s" and load: "load_normalized ref ctx s = Inr (raw, st)"
    and p: "persist_if_needed st raw s = (r, s')"
  shows "r = Inr ()" and "scope_ok ref ctx s'" and "load_normalized ref ctx s' = Inr (st, st)"
    and "sd_records s' = sd_records s" and "sd_store s' = sd_store s" and "sd_audits s' = sd_audits s"
    and "fit_state ref ctx s' st" and "wf_control st"
proof -
  from ok load obtain "fit_state ref ctx s raw" and ls: "load_scoped_state ref ctx s = Inr raw"
    and wf: "sd_control s \<noteq> None \<or> sd_queue s \<noteq> None \<Longrightarrow> wf_control raw"
    and st: "st = normalized ref ctx s raw"
    by (elim load_normalized_ok) auto
  from normalized_fit [OF ok this(1)] st have wfst: "wf_control st" and known: "known_state ref ctx s st"
    and fit: "fit_state ref ctx s st" by simp_all
  then show "wf_control st" by simp
  have "r = Inr () \<and> scope_ok ref ctx s' \<and> load_scoped_state ref ctx s' = Inr st
    \<and> sd_records s' = sd_records s \<and> sd_store s' = sd_store s \<and> sd_audits s' = sd_audits s"
  proof (cases "control_as_dict st \<noteq> control_as_dict raw \<or> \<not> mirrors_match s")
    case True
    with p have "persist_scoped_state st s = (r, s')" by (simp add: persist_if_needed_def)
    with scope_ok_persist [OF ok wfst known this] show ?thesis by (simp add: persist_scoped_state_eq)
  next
    case False
    then have "sd_control s \<noteq> None" by (auto simp: mirrors_match_def split: option.splits)
    with wf wfst False have "st = raw" by (simp add: control_as_dict_inject)
    with False p ok ls show ?thesis by (simp add: persist_if_needed_def)
  qed
  then have ret: "r = Inr ()" and ok': "scope_ok ref ctx s'" and rec: "sd_records s' = sd_records s"
    and sto: "sd_store s' = sd_store s" and aud: "sd_audits s' = sd_audits s"
    and l: "load_scoped_state ref ctx s' = Inr st" by simp_all
  show "r = Inr ()" "scope_ok ref ctx s'" "sd_records s' = sd_records s" "sd_store s' = sd_store s"
    "sd_audits s' = sd_audits s" by fact+
  note same = scope_view_cong [OF rec] store_view_cong [OF rec sto]
  show "fit_state ref ctx s' st" using fit by (simp add: fit_state_def same)
  have "normalize_scoped_state ref st s' = Inr (normalized ref ctx s' st)"
    using ok' known by (intro normalize_scoped_state_eq) (simp_all add: scope_ok_def same)
  with l show "load_normalized ref ctx s' = Inr (st, st)"
    using normalized_idem [of ref ctx s raw] by (simp add: load_normalized_def same st)
qed

end
