(* ===== verification/Paas_Submission.thy ===== *)
theory Paas_Submission
  imports Paas_Scope Paas_Admission_Laws
begin

text \<open>
  Submission to a scope: what an admitted job leaves behind at each of its four writes (record,
  job, control file, queue file), and that every prefix of them is in order, so that an
  interrupted submission is completed by repeating it.
\<close>

section \<open>The matching of a job and its record\<close>

lemma identity_of_norm_job [simp]: "identity_of_job (norm_job j) = identity_of_job j"
  by (simp add: identity_of_job_def)

lemma check_scoped_job_norm: "wf_job j \<Longrightarrow> check_scoped_job (norm_job j) d r = check_scoped_job j d r"
  by (simp add: check_scoped_job_def validate_scoped_job_def job_control_json_def job_as_dict_norm
      identity_from_job_def)

lemma identity_from_job_iff: "identity_from_job j = Inr d \<longleftrightarrow> wf_identity (identity_of_job j) \<and> d = identity_of_job j"
  using paas_post_init_results(1) [of "identity_of_job j" d]
  by (auto simp: identity_from_job_def wf_identity_def)

lemma validate_scoped_job_identity:
  assumes "validate_scoped_job j = Inr ()"
  shows "identity_from_job j = Inr (identity_of_job j)" and "wf_identity (identity_of_job j)"
    and "validate_scoped_identity (identity_of_job j) = Inr ()" and "jb_profile j = DURABLE"
    and "strict_identifier (jb_job_id j)"
proof -
  from assms obtain d where d: "identity_from_job j = Inr d" "validate_scoped_identity d = Inr ()"
    and "jb_profile j = DURABLE"
    by (auto simp: validate_scoped_job_def bind_res_Inr_iff split: if_splits)
  then show "identity_from_job j = Inr (identity_of_job j)" "wf_identity (identity_of_job j)"
    "validate_scoped_identity (identity_of_job j) = Inr ()" "jb_profile j = DURABLE"
    by (auto simp: identity_from_job_iff)
  then show "strict_identifier (jb_job_id j)"
    by (simp add: wf_identity_def identity_post_init_def identity_of_job_def bind_guards_Inr_iff
        del: guards.simps)
qed

section \<open>The record written first\<close>

definition with_record :: "scoped_record \<Rightarrow> scope_dir \<Rightarrow> scope_dir" where
  "with_record r s = snd (write_record r s)"

lemma with_record_select [simp]:
  "sd_control (with_record r s) = sd_control s" "sd_queue (with_record r s) = sd_queue s"
  "sd_store (with_record r s) = sd_store s" "sd_audits (with_record r s) = sd_audits s"
  "sd_records (with_record r s) =
     AList.update (di_job_id (sj_identity r)) (FileJson (scoped_record_as_dict r)) (sd_records s)"
  by (simp_all add: with_record_def write_record_def)

lemma write_record_eq: "write_record r s = (Inr (), with_record r s)"
  by (simp add: with_record_def write_record_def)

text \<open>A record that may be admitted to the scope.\<close>

definition admissible :: "env_reference \<Rightarrow> scope_context \<Rightarrow> scope_dir \<Rightarrow> scoped_record \<Rightarrow> bool" where
  "admissible ref ctx s r \<longleftrightarrow>
     wf_scoped_record r \<and> sj_scope r = ctx \<and> strict_identifier (di_job_id (sj_identity r))
     \<and> scoped_references ctx (sj_identity r) = Inr (sj_references r)
     \<and> di_job_id (sj_identity r) \<notin> admitted s
     \<and> (\<forall>i \<in> admitted s. sj_sequence (record_of ref ctx s i) < sj_sequence r)"

lemma stored_record_select [simp]:
  "sj_identity (stored_record r) = sj_identity r" "sj_scope (stored_record r) = sj_scope r"
  "sj_references (stored_record r) = sj_references r" "sj_sequence (stored_record r) = sj_sequence r"
  "sj_environment (stored_record r) = sj_environment r" "sj_fingerprint (stored_record r) = sj_fingerprint r"
  "sj_runtime (stored_record r) = stored_runtime (sj_runtime r)"
  "entry_of (stored_record r) = entry_of r"
  by (simp_all add: stored_record_def entry_of_def)

lemma read_with_record:
  assumes "admissible ref ctx s r"
  shows "read_scoped_record ref ctx i (with_record r s) =
    (if i = di_job_id (sj_identity r) then Inr (stored_record r) else read_scoped_record ref ctx i s)"
proof (cases "i = di_job_id (sj_identity r)")
  case True
  with assms show ?thesis
    by (auto simp: read_scoped_record_iff admissible_def update_conv' scoped_record_round_trip)
next
  case False
  then show ?thesis by (simp add: read_scoped_record_def update_conv')
qed

lemma admitted_with_record: "admitted (with_record r s) = insert (di_job_id (sj_identity r)) (admitted s)"
  unfolding admitted_def set_map [symmetric] by (simp add: dom_update)

lemma record_of_with_record:
  assumes "admissible ref ctx s r"
  shows "record_of ref ctx (with_record r s) i =
    (if i = di_job_id (sj_identity r) then stored_record r else record_of ref ctx s i)"
  by (simp add: record_of_def read_with_record [OF assms])

lemma entry_at_with_record:
  assumes "admissible ref ctx s r"
  shows "entry_at ref ctx (with_record r s) i =
    (if i = di_job_id (sj_identity r) then entry_of r else entry_at ref ctx s i)"
  by (simp add: entry_at_def record_of_with_record [OF assms])

lemma mirrors_ok_mono:
  assumes "mirrors_ok ref ctx s" and "sd_control s' = sd_control s" and "sd_queue s' = sd_queue s"
    and "\<And>st. known_state ref ctx s st \<Longrightarrow> known_state ref ctx s' st"
  shows "mirrors_ok ref ctx s'"
proof -
  have "mirror_ok ref ctx s f \<Longrightarrow> mirror_ok ref ctx s' f" for f
    using assms(4) unfolding mirror_ok_def by blast
  with assms(1-3) show ?thesis unfolding mirrors_ok_def by simp
qed

lemma records_ok_with_record:
  assumes "records_ok ref ctx s" and "admissible ref ctx s r"
  shows "records_ok ref ctx (with_record r s)"
proof -
  let ?i = "di_job_id (sj_identity r)"
  have "distinct (map fst (sd_records (with_record r s)))"
    using assms(1) by (simp add: records_ok_def distinct_update)
  moreover have "\<forall>i \<in> admitted (with_record r s). is_ok (read_scoped_record ref ctx i (with_record r s))"
    using assms by (simp add: records_ok_def admitted_with_record read_with_record [OF assms(2)])
  moreover have "inj_on (\<lambda>i. sj_sequence (record_of ref ctx (with_record r s) i)) (admitted (with_record r s))"
  proof -
    have "inj_on (\<lambda>i. sj_sequence (record_of ref ctx (with_record r s) i)) (admitted s)"
      using assms by (auto simp: inj_on_def record_of_with_record [OF assms(2)] records_ok_def admissible_def)
    moreover have "sj_sequence r \<noteq> sj_sequence (record_of ref ctx (with_record r s) i)" if "i \<in> admitted s" for i
      using that assms(2) by (auto simp: record_of_with_record [OF assms(2)] admissible_def)
    ultimately show ?thesis
      using assms(2) by (auto simp: admitted_with_record record_of_with_record [OF assms(2)] admissible_def)
  qed
  ultimately show ?thesis by (simp add: records_ok_def)
qed

lemma known_with_record:
  assumes "known_state ref ctx s st" and "admissible ref ctx s r"
  shows "known_state ref ctx (with_record r s) st"
  using assms
  by (auto simp: known_state_def admitted_with_record entry_at_with_record admissible_def)

lemma scope_ok_with_record:
  assumes ok: "scope_ok ref ctx s" and adm: "admissible ref ctx s r"
  shows "scope_ok ref ctx (with_record r s)"
    and "abs_jobs ref (sd_store s) (di_job_id (sj_identity r)) = None"
proof -
  let ?i = "di_job_id (sj_identity r)"
  have jobs: "jobs_ok ref ctx s" using ok by (simp add: scope_ok_def)
  have "path_for (sd_store s) ?i \<notin> set (map fst (st_files (sd_store s)))"
  proof
    assume "path_for (sd_store s) ?i \<in> set (map fst (st_files (sd_store s)))"
    then obtain k where "k \<in> admitted s" "path_for (sd_store s) ?i = path_for (sd_store s) k"
      using jobs unfolding jobs_ok_def by blast
    with jobs adm show False by (auto simp: jobs_ok_def store_ok_def admissible_def)
  qed
  then have "map_of (st_files (sd_store s)) (path_for (sd_store s) ?i) = None"
    by (simp add: map_of_eq_None_iff)
  then show none: "abs_jobs ref (sd_store s) ?i = None"
    using jobs adm strict_matches by (simp add: jobs_ok_def admissible_def store_ok_lookup(1))
  have files: "\<exists>i \<in> admitted (with_record r s). p = path_for (sd_store s) i"
    if "p \<in> set (map fst (st_files (sd_store s)))" for p
    using jobs that unfolding jobs_ok_def admitted_with_record by blast
  have checked: "check_scoped_job j (sj_identity (record_of ref ctx (with_record r s) i))
      (record_of ref ctx (with_record r s) i) = Inr ()"
    if "i \<in> admitted (with_record r s)" "abs_jobs ref (sd_store s) i = Some j" for i j
  proof -
    from that none have "i \<noteq> ?i" by auto
    with that(1) have "i \<in> admitted s" by (simp add: admitted_with_record)
    with \<open>i \<noteq> ?i\<close> that(2) jobs show ?thesis
      unfolding jobs_ok_def record_of_with_record [OF adm] by simp
  qed
  have "jobs_ok ref ctx (with_record r s)"
    unfolding jobs_ok_def with_record_select using jobs files checked by (simp add: jobs_ok_def)
  moreover have "mirrors_ok ref ctx s" "records_ok ref ctx s" "wf_scope ctx" using ok by (simp_all add: scope_ok_def)
  note parts = this
  have "mirrors_ok ref ctx (with_record r s)"
    by (rule mirrors_ok_mono [OF parts(1)]) (simp_all add: known_with_record [OF _ adm])
  ultimately show "scope_ok ref ctx (with_record r s)"
    using records_ok_with_record [OF parts(2) adm] parts(3) by (simp add: scope_ok_def)
qed

text \<open>The admission goes to the end of the queue.\<close>

lemma scope_queue_with_record:
  assumes ok: "records_ok ref ctx s" and adm: "admissible ref ctx s r"
  shows "scope_queue ref ctx (with_record r s) = scope_queue ref ctx s @ [entry_of r]"
proof -
  let ?t = "with_record r s"
  have okt: "records_ok ref ctx ?t" using ok adm by (rule records_ok_with_record)
  have old: "entry_at ref ctx ?t i = entry_at ref ctx s i" if "i \<in> admitted s" for i
    using that adm by (auto simp: entry_at_with_record [OF adm] admissible_def)
  have new: "entry_at ref ctx ?t (di_job_id (sj_identity r)) = entry_of r"
    by (simp add: entry_at_with_record [OF adm])
  have set: "set (scope_queue ref ctx ?t) = set (scope_queue ref ctx s @ [entry_of r])"
    using old new by (auto simp: set_scope_queue admitted_with_record)
  have inj: "inj_on entry_key (set (scope_queue ref ctx ?t))"
    using entry_key_inj [OF okt] by (auto simp: set_scope_queue inj_on_def)
  have last: "\<forall>e \<in> set (scope_queue ref ctx s). entry_key e \<le> entry_key (entry_of r)"
    using adm by (auto simp: set_scope_queue entry_key_def entry_at_def entry_of_def admissible_def less_eq_prod_def)
  have "map entry_key (scope_queue ref ctx ?t) = map entry_key (scope_queue ref ctx s @ [entry_of r])"
  proof (rule sorted_distinct_set_unique)
    show "sorted (map entry_key (scope_queue ref ctx ?t))" by (simp add: scope_queue_def)
    show "sorted (map entry_key (scope_queue ref ctx s @ [entry_of r]))"
      using last by (simp add: sorted_append) (simp add: scope_queue_def)
    have "distinct (map eid (scope_queue ref ctx s @ [entry_of r]))"
      using distinct_entries(2) [OF ok] adm ok
      by (auto simp: set_scope_queue admissible_def entry_of_def)
    then have d: "distinct (scope_queue ref ctx s @ [entry_of r])" by (simp only: distinct_map)
    then show "distinct (map entry_key (scope_queue ref ctx s @ [entry_of r]))"
      using inj unfolding set distinct_map by blast
    have "distinct (scope_queue ref ctx ?t)"
      using distinct_entries(2) [OF okt] by (simp only: distinct_map)
    with inj show "distinct (map entry_key (scope_queue ref ctx ?t))" by (simp only: distinct_map)
  qed (simp only: set_map set)
  moreover have "inj_on entry_key (set (scope_queue ref ctx ?t) \<union> set (scope_queue ref ctx s @ [entry_of r]))"
    using inj unfolding set by simp
  ultimately show ?thesis by (rule map_inj_on)
qed

section \<open>The job written second\<close>

definition with_job :: "job \<Rightarrow> scope_dir \<Rightarrow> scope_dir" where
  "with_job j s = s\<lparr>sd_store := store_write j (sd_store s)\<rparr>"

lemma with_job_select [simp]:
  "sd_control (with_job j s) = sd_control s" "sd_queue (with_job j s) = sd_queue s"
  "sd_records (with_job j s) = sd_records s" "sd_audits (with_job j s) = sd_audits s"
  "sd_store (with_job j s) = store_write j (sd_store s)"
  by (simp_all add: with_job_def)

lemma scope_ok_with_job:
  assumes ok: "scope_ok ref ctx s" and wf: "wf_job j" "jb_profile j = DURABLE"
    and i: "jb_job_id j \<in> admitted s"
    and check: "check_scoped_job j (sj_identity (record_of ref ctx s (jb_job_id j)))
        (record_of ref ctx s (jb_job_id j)) = Inr ()"
  shows "scope_ok ref ctx (with_job j s)"
    and "abs_jobs ref (sd_store (with_job j s)) = (abs_jobs ref (sd_store s))(jb_job_id j \<mapsto> norm_job j)"
    and "scope_queue ref ctx (with_job j s) = scope_queue ref ctx s"
proof -
  have same: "sd_records (with_job j s) = sd_records s" by simp
  note frame = scope_view_cong [OF same]
  have st: "store_ok ref (sd_store s)" using ok by (simp add: scope_ok_def jobs_ok_def)
  note w = store_ok_write [OF st wf]
  then show abs: "abs_jobs ref (sd_store (with_job j s)) = (abs_jobs ref (sd_store s))(jb_job_id j \<mapsto> norm_job j)"
    by simp
  show "scope_queue ref ctx (with_job j s) = scope_queue ref ctx s" by (rule frame)
  have files: "\<exists>k \<in> admitted s. p = path_for (sd_store s) k"
    if "p \<in> set (map fst (st_files (store_write j (sd_store s))))" for p
  proof -
    from that have "p = path_for (sd_store s) (jb_job_id j) \<or> p \<in> set (map fst (st_files (sd_store s)))"
      by (simp add: store_write_def dom_update image_iff)
    with ok i show ?thesis unfolding scope_ok_def jobs_ok_def by blast
  qed
  have checked: "check_scoped_job k (sj_identity (record_of ref ctx s i)) (record_of ref ctx s i) = Inr ()"
    if "i \<in> admitted s" and k: "((abs_jobs ref (sd_store s))(jb_job_id j \<mapsto> norm_job j)) i = Some k" for i k
  proof (cases "i = jb_job_id j")
    case True
    with k check wf(1) show ?thesis by (auto simp: check_scoped_job_norm)
  next
    case False
    with k that(1) ok show ?thesis by (simp add: scope_ok_def jobs_ok_def)
  qed
  have path: "path_for (store_write j (sd_store s)) k = path_for (sd_store s) k" for k
    by (simp add: store_write_def path_for_def)
  have "jobs_ok ref ctx (with_job j s)"
    unfolding jobs_ok_def frame with_job_select path w(2) using w(1) files checked by simp
  moreover have parts: "mirrors_ok ref ctx s" "records_ok ref ctx s" "wf_scope ctx"
    using ok by (simp_all add: scope_ok_def)
  have "mirrors_ok ref ctx (with_job j s)"
    by (rule mirrors_ok_mono [OF parts(1)]) (simp_all add: frame)
  ultimately show "scope_ok ref ctx (with_job j s)" using parts by (simp add: scope_ok_def frame)
qed

lemma store_create_fresh:
  assumes "store_ok ref st" and "wf_job j" and "jb_profile j = DURABLE"
    and "abs_jobs ref st (jb_job_id j) = None"
  shows "store_create ref j st = (Inr (SW_ACCEPTED, j), store_write j st)"
proof -
  note id = wf_job_identifier [OF assms(2)]
  have "map_of (st_files st) (path_for st (jb_job_id j)) = None"
    using store_ok_lookup [OF assms(1) id] assms(4)
    by (cases "map_of (st_files st) (path_for st (jb_job_id j))") auto
  with id assms(1,3) show ?thesis by (simp add: store_create_def store_ok_def mutation_durable)
qed

end
