(* ===== verification/Paas_Submit_Laws.thy ===== *)
theory Paas_Submit_Laws
  imports Paas_Submission
begin

text \<open>
  A first submission to a scope that is in order: the record, job, control file and queue file it
  writes, one after the other, and what the scope is after each of them.
\<close>

section \<open>What is submitted\<close>

definition submission_ok ::
  "scope_context \<Rightarrow> job \<Rightarrow> runtime_identity \<Rightarrow> environment \<Rightarrow> artifact_refs \<Rightarrow> string \<Rightarrow> bool"
where
  "submission_ok ctx j rt env refs now \<longleftrightarrow>
     wf_job j \<and> validate_scoped_job j = Inr () \<and> jb_environment j = Some env \<and> wf_runtime rt
     \<and> runtime_environment rt = Inr env \<and> sr_scope_ref (jb_store_ref j) = sc_scope_ref ctx
     \<and> scoped_references ctx (identity_of_job j) = Inr refs \<and> matches_timestamp now"

definition fingerprint_of :: "job \<Rightarrow> runtime_identity \<Rightarrow> environment \<Rightarrow> string" where
  "fingerprint_of j rt env = stable_revision (JObj [
     (''identity'', identity_as_dict (identity_of_job j)),
     (''runtime_identity'', runtime_as_dict rt),
     (''environment_identity'', env_as_dict env),
     (''total_work_units'', JInt (pg_total_work_units (ck_progress (jb_checkpoint j)))),
     (''max_attempts'', JInt (rt_max_attempts (jb_retry j))),
     (''engine_state_revision'', JInt (ck_engine_state_revision (jb_checkpoint j)))])"

definition new_record ::
  "scope_context \<Rightarrow> job \<Rightarrow> runtime_identity \<Rightarrow> environment \<Rightarrow> artifact_refs \<Rightarrow> string \<Rightarrow> int \<Rightarrow> scoped_record"
where
  "new_record ctx j rt env refs now n = \<lparr>
     sj_identity = identity_of_job j, sj_runtime = rt, sj_environment = env, sj_submitted_at = now,
     sj_sequence = n, sj_scope = ctx, sj_references = refs,
     sj_fingerprint = Some (fingerprint_of j rt env), sj_schema_version = ''1.0''\<rparr>"

lemma new_record_select [simp]:
  "sj_identity (new_record ctx j rt env refs now n) = identity_of_job j"
  "sj_runtime (new_record ctx j rt env refs now n) = rt"
  "sj_environment (new_record ctx j rt env refs now n) = env"
  "sj_submitted_at (new_record ctx j rt env refs now n) = now"
  "sj_sequence (new_record ctx j rt env refs now n) = n"
  "sj_scope (new_record ctx j rt env refs now n) = ctx"
  "sj_references (new_record ctx j rt env refs now n) = refs"
  "sj_fingerprint (new_record ctx j rt env refs now n) = Some (fingerprint_of j rt env)"
  "sj_schema_version (new_record ctx j rt env refs now n) = ''1.0''"
  by (simp_all add: new_record_def)

lemma identity_of_job_select [simp]:
  "di_job_id (identity_of_job j) = jb_job_id j" "di_run_id (identity_of_job j) = jb_run_id j"
  "di_scope_ref (identity_of_job j) = sr_scope_ref (jb_store_ref j)"
  "di_store_ref (identity_of_job j) = sr_store_ref (jb_store_ref j)"
  by (simp_all add: identity_of_job_def)

lemma submission_okD:
  assumes "submission_ok ctx j rt env refs now"
  shows "wf_job j" "jb_profile j = DURABLE" "wf_identity (identity_of_job j)"
    "identity_from_job j = Inr (identity_of_job j)" "validate_scoped_identity (identity_of_job j) = Inr ()"
    "strict_identifier (jb_job_id j)" "submission_fingerprint j rt = Inr (fingerprint_of j rt env)"
    "jb_environment j = Some env" "runtime_environment rt = Inr env"
    "scoped_references ctx (identity_of_job j) = Inr refs"
proof -
  note a = assms [unfolded submission_ok_def]
  have v: "validate_scoped_job j = Inr ()" using a by simp
  note vs = validate_scoped_job_identity [OF v]
  from a show "wf_job j" "jb_environment j = Some env" "runtime_environment rt = Inr env"
    "scoped_references ctx (identity_of_job j) = Inr refs" by simp_all
  from vs show "jb_profile j = DURABLE" "wf_identity (identity_of_job j)"
    "identity_from_job j = Inr (identity_of_job j)" "validate_scoped_identity (identity_of_job j) = Inr ()"
    "strict_identifier (jb_job_id j)" by simp_all
  from vs(1) a show "submission_fingerprint j rt = Inr (fingerprint_of j rt env)"
    by (simp add: submission_fingerprint_def fingerprint_of_def)
qed

lemma scoped_references_parts:
  assumes "scoped_references ctx d = Inr refs"
  shows "wf_refs refs" "ar_scope_ref refs = di_scope_ref d" "ar_store_ref refs = di_store_ref d"
proof -
  from assms obtain r where r: "artifact_refs_post_init r = Inr refs" "ar_scope_ref r = di_scope_ref d"
    "ar_store_ref r = di_store_ref d"
    unfolding scoped_references_def Let_def by fastforce
  then have "refs = r" using paas_post_init_results(2) by blast
  with r show "wf_refs refs" "ar_scope_ref refs = di_scope_ref d" "ar_store_ref refs = di_store_ref d"
    by (simp_all add: wf_refs_def)
qed

lemma new_record_admissible:
  assumes sub: "submission_ok ctx j rt env refs now" and ctx: "wf_scope ctx" and n: "1 \<le> n"
    and fresh: "jb_job_id j \<notin> admitted s"
    and above: "\<forall>i \<in> admitted s. sj_sequence (record_of ref ctx s i) < n"
  shows "admissible ref ctx s (new_record ctx j rt env refs now n)"
proof -
  note parts = submission_okD [OF sub]
  note refs = scoped_references_parts [OF parts(10)]
  have "valid_environment env" using parts(1,8) by (simp add: wf_job_def)
  moreover have "wf_runtime rt" "matches_timestamp now" "sr_scope_ref (jb_store_ref j) = sc_scope_ref ctx"
    using sub by (simp_all add: submission_ok_def)
  moreover have "matches_sha256 (fingerprint_of j rt env)" by (simp add: fingerprint_of_def)
  ultimately have "wf_scoped_record (new_record ctx j rt env refs now n)"
    using parts refs ctx n by (simp add: wf_scoped_record_def)
  with parts fresh above show ?thesis by (simp add: admissible_def)
qed

lemma new_job_checked:
  assumes "submission_ok ctx j rt env refs now"
  shows "check_scoped_job j (identity_of_job j) (stored_record (new_record ctx j rt env refs now n)) = Inr ()"
  using submission_okD [OF assms] assms by (simp add: check_scoped_job_def submission_ok_def)

section \<open>The slot and the waiting admissions\<close>

lemma first_active_append:
  "first_active (xs @ ys) =
     (case first_active xs of
        Some i \<Rightarrow> Some i
      | None \<Rightarrow> if list_all (\<lambda>x. case snd x of None \<Rightarrow> False | Some j \<Rightarrow> terminal_for_admission j) xs
                then first_active ys else None)"
  by (induction xs rule: first_active.induct) auto

definition waits :: "string option \<Rightarrow> string \<times> job option \<Rightarrow> bool" where
  "waits active x \<longleftrightarrow> Some (fst x) \<noteq> active
     \<and> (case snd x of None \<Rightarrow> True | Some j \<Rightarrow> \<not> terminal_for_admission j)"

definition waiting :: "env_reference \<Rightarrow> scope_context \<Rightarrow> scope_dir \<Rightarrow> nat" where
  "waiting ref ctx s = length (filter (waits (slot_holder ref ctx s)) (queue_jobs ref ctx s))"

lemma count_queued_eq:
  "store_ok ref st \<Longrightarrow> \<forall>e \<in> set es. matches_identifier (eid e) \<Longrightarrow>
     count_queued ref st active es =
       Inr (length (filter (waits active) (map (\<lambda>e. (eid e, abs_jobs ref st (eid e))) es)))"
proof (induction es)
  case Nil
  then show ?case by simp
next
  case (Cons e es)
  then show ?case
    by (simp add: load_pending_abs waits_def split: option.splits)
qed

lemma queue_ids_match:
  "records_ok ref ctx s \<Longrightarrow> e \<in> set (scope_queue ref ctx s) \<Longrightarrow> matches_identifier (eid e)"
  by (auto simp: set_scope_queue admitted_strict strict_matches)

lemma count_queued_waiting:
  assumes "scope_ok ref ctx s"
  shows "count_queued ref (sd_store s) (slot_holder ref ctx s) (scope_queue ref ctx s) = Inr (waiting ref ctx s)"
  using assms queue_ids_match
  by (subst count_queued_eq) (auto simp: scope_ok_def jobs_ok_def waiting_def queue_jobs_def)

lemma queue_jobs_with_record:
  assumes "scope_ok ref ctx s" and adm: "admissible ref ctx s r"
  shows "queue_jobs ref ctx (with_record r s) = queue_jobs ref ctx s @ [(di_job_id (sj_identity r), None)]"
  using scope_queue_with_record [OF _ adm] scope_ok_with_record [OF assms] assms
  by (simp add: queue_jobs_def scope_ok_def entry_of_def)

section \<open>Settled states\<close>

text \<open>A scope whose mirrors hold the normalized state, as every operation leaves it first.\<close>

definition settled :: "env_reference \<Rightarrow> scope_context \<Rightarrow> control_state \<Rightarrow> scope_dir \<Rightarrow> bool" where
  "settled ref ctx st s \<longleftrightarrow> scope_ok ref ctx s \<and> load_normalized ref ctx s = Inr (st, st)"

lemma settle:
  assumes "scope_ok ref ctx s"
  obtains raw st s0 where "load_normalized ref ctx s = Inr (raw, st)"
    "persist_if_needed st raw s = (Inr (), s0)" "settled ref ctx st s0"
    "sd_records s0 = sd_records s" "sd_store s0 = sd_store s" "sd_audits s0 = sd_audits s"
proof -
  from assms obtain raw st where l: "load_normalized ref ctx s = Inr (raw, st)"
    by (elim load_normalized_ok)
  obtain r s0 where p: "persist_if_needed st raw s = (r, s0)" by (cases "persist_if_needed st raw s")
  from persist_if_needed_ok [OF assms l p] l p that [of raw st s0] show thesis by (simp add: settled_def)
qed

lemma settledD:
  assumes "settled ref ctx st s"
  shows "scope_ok ref ctx s" "fit_state ref ctx s st" "sk_scope st = ctx"
    "sk_entries st = scope_queue ref ctx s" "sk_active_job_id st = slot_holder ref ctx s"
    "1 \<le> sk_next_sequence st"
    "\<forall>i \<in> admitted s. sj_sequence (record_of ref ctx s i) < sk_next_sequence st"
proof -
  from assms show ok: "scope_ok ref ctx s" by (simp add: settled_def)
  obtain raw where raw: "load_normalized ref ctx s = Inr (raw, normalized ref ctx s raw)"
    and fit: "fit_state ref ctx s raw"
    by (rule load_normalized_ok [OF ok])
  from assms have "raw = st \<and> normalized ref ctx s raw = st"
    unfolding settled_def raw sum.inject prod.inject by (rule conjunct2)
  note eq = conjunct1 [OF this] conjunct2 [OF this]
  from eq(2) have n: "normalized ref ctx s st = st" unfolding eq(1) .
  from fit have fit: "fit_state ref ctx s st" unfolding eq(1) .
  from fit show "fit_state ref ctx s st" "sk_scope st = ctx" "1 \<le> sk_next_sequence st"
    by (simp_all add: fit_state_def known_state_def)
  from n normalized_select [of ref ctx s st] show entries: "sk_entries st = scope_queue ref ctx s"
    and "sk_active_job_id st = slot_holder ref ctx s" by simp_all
  have "max_sequence (map sq_sequence (scope_queue ref ctx s)) < sk_next_sequence st"
    using n normalized_select(5) [of ref ctx s st] by simp
  moreover have "sj_sequence (record_of ref ctx s i) \<in> set (map sq_sequence (scope_queue ref ctx s))"
    if "i \<in> admitted s" for i
    using that by (auto simp: set_scope_queue entry_at_def entry_of_def image_image)
  ultimately show "\<forall>i \<in> admitted s. sj_sequence (record_of ref ctx s i) < sk_next_sequence st"
    using max_sequence_ge by fastforce
qed

lemma settled_normal:
  assumes "settled ref ctx st s"
  shows "normalized ref ctx s st = st" "wf_control st"
    "max_sequence (map sq_sequence (scope_queue ref ctx s)) < sk_next_sequence st"
proof -
  note D = settledD [OF assms]
  have "normalize_scoped_state ref st s = Inr (normalized ref ctx s st)"
    using D(1,2) by (intro normalize_scoped_state_eq) (simp_all add: scope_ok_def fit_state_def)
  with assms show n: "normalized ref ctx s st = st"
    by (auto simp: settled_def load_normalized_def bind_res_Inr_iff)
  show "wf_control st" using normalized_fit(1) [OF D(1,2)] unfolding n .
  show "max_sequence (map sq_sequence (scope_queue ref ctx s)) < sk_next_sequence st"
    using normalized_select(5) [of ref ctx s st] unfolding n by simp
qed

section \<open>The writes of a submission\<close>

text \<open>
  The directory before a submission is admitted and after each of its four writes: the record, the
  job, the control file and the queue file.
\<close>

definition extended :: "control_state \<Rightarrow> scoped_record \<Rightarrow> control_state" where
  "extended st r = st\<lparr>sk_next_sequence := sj_sequence r + 1, sk_entries := sk_entries st @ [entry_of r]\<rparr>"

definition submission_trail ::
  "env_reference \<Rightarrow> control_state \<Rightarrow> scoped_record \<Rightarrow> job \<Rightarrow> scope_dir \<Rightarrow> scope_dir list"
where
  "submission_trail ref st r j s =
     (let s1 = snd (write_record r s);
          s2 = snd (on_store (store_create ref j) s1) in
      case normalize_scoped_state ref (extended st r) s2 of
        Inl _ \<Rightarrow> [s, s1, s2]
      | Inr next \<Rightarrow>
          (let s3 = snd (write_control_file next s2) in
           [s, s1, s2, s3, snd (write_queue_file next s3)]))"

lemma known_queue:
  assumes "records_ok ref ctx s" and "sk_scope st = ctx" and "sk_entries st = scope_queue ref ctx s"
  shows "known_state ref ctx s st"
  using assms distinct_entries(2) [OF assms(1)] by (auto simp: known_state_def set_scope_queue)

lemma store_create_with_job:
  assumes "scope_ok ref ctx s" and "wf_job j" and "jb_profile j = DURABLE"
    and "abs_jobs ref (sd_store s) (jb_job_id j) = None"
  shows "on_store (store_create ref j) s = (Inr (SW_ACCEPTED, j), with_job j s)"
  using assms store_create_fresh [of ref "sd_store s" j]
  by (simp add: on_store_def with_job_def scope_ok_def jobs_ok_def)

lemma admission_first_writes:
  assumes st: "settled ref ctx st s" and sub: "submission_ok ctx j rt env refs now"
    and fresh: "jb_job_id j \<notin> admitted s"
  defines "r \<equiv> new_record ctx j rt env refs now (sk_next_sequence st)"
  defines "s1 \<equiv> with_record r s"
  defines "s2 \<equiv> with_job j s1"
  shows "admissible ref ctx s r" and "abs_jobs ref (sd_store s) (jb_job_id j) = None"
    and "scope_ok ref ctx s1" and "scope_queue ref ctx s1 = scope_queue ref ctx s @ [entry_of r]"
    and "on_store (store_create ref j) s1 = (Inr (SW_ACCEPTED, j), s2)"
    and "scope_ok ref ctx s2" and "scope_queue ref ctx s2 = scope_queue ref ctx s @ [entry_of r]"
    and "abs_jobs ref (sd_store s2) = (abs_jobs ref (sd_store s))(jb_job_id j \<mapsto> norm_job j)"
    and "check_scoped_job j (sj_identity (record_of ref ctx s1 (jb_job_id j))) (record_of ref ctx s1 (jb_job_id j)) = Inr ()"
proof -
  note S = settledD [OF st] and J = submission_okD [OF sub]
  have parts: "wf_scope ctx" "records_ok ref ctx s" using S(1) by (simp_all add: scope_ok_def)
  show adm: "admissible ref ctx s r"
    unfolding r_def by (rule new_record_admissible [OF sub parts(1) S(6) fresh S(7)])
  have id: "di_job_id (sj_identity r) = jb_job_id j" by (simp add: r_def)
  show none: "abs_jobs ref (sd_store s) (jb_job_id j) = None"
    using scope_ok_with_record(2) [OF S(1) adm] by (simp add: id)
  show ok1: "scope_ok ref ctx s1" unfolding s1_def by (rule scope_ok_with_record(1) [OF S(1) adm])
  show q1: "scope_queue ref ctx s1 = scope_queue ref ctx s @ [entry_of r]"
    unfolding s1_def by (rule scope_queue_with_record [OF parts(2) adm])
  have store1: "sd_store s1 = sd_store s" by (simp add: s1_def)
  show "on_store (store_create ref j) s1 = (Inr (SW_ACCEPTED, j), s2)"
    unfolding s2_def using ok1 J(1,2) none by (intro store_create_with_job) (simp_all add: store1)
  have mem: "jb_job_id j \<in> admitted s1" by (simp add: s1_def admitted_with_record id)
  show check: "check_scoped_job j (sj_identity (record_of ref ctx s1 (jb_job_id j)))
      (record_of ref ctx s1 (jb_job_id j)) = Inr ()"
    using new_job_checked [OF sub] by (simp add: s1_def record_of_with_record [OF adm] id) (simp add: r_def)
  note w = scope_ok_with_job [OF ok1 J(1,2) mem check]
  show "scope_ok ref ctx s2" unfolding s2_def by (rule w(1))
  show "scope_queue ref ctx s2 = scope_queue ref ctx s @ [entry_of r]" unfolding s2_def w(3) by (rule q1)
  show "abs_jobs ref (sd_store s2) = (abs_jobs ref (sd_store s))(jb_job_id j \<mapsto> norm_job j)"
    unfolding s2_def w(2) store1 ..
qed

lemma normalize_extended:
  assumes st: "settled ref ctx st s" and ok: "scope_ok ref ctx s2"
    and q: "scope_queue ref ctx s2 = scope_queue ref ctx s @ [entry_of r]" and "1 \<le> sj_sequence r"
  shows "normalize_scoped_state ref (extended st r) s2 = Inr (normalized ref ctx s2 (extended st r))"
    and "wf_control (normalized ref ctx s2 (extended st r))"
    and "known_state ref ctx s2 (normalized ref ctx s2 (extended st r))"
proof -
  note S = settledD [OF st]
  have parts: "records_ok ref ctx s2" "jobs_ok ref ctx s2" using ok by (simp_all add: scope_ok_def)
  have known: "known_state ref ctx s2 (extended st r)"
    using parts(1) by (rule known_queue) (simp_all add: extended_def S q)
  then show "normalize_scoped_state ref (extended st r) s2 = Inr (normalized ref ctx s2 (extended st r))"
    by (rule normalize_scoped_state_eq [OF parts])
  have "fit_state ref ctx s2 (extended st r)"
    using known S(2) assms(4) by (simp add: fit_state_def extended_def)
  from normalized_fit [OF ok this]
  show "wf_control (normalized ref ctx s2 (extended st r))"
    and "known_state ref ctx s2 (normalized ref ctx s2 (extended st r))" by simp_all
qed

lemma admission:
  assumes st: "settled ref ctx st s" and sub: "submission_ok ctx j rt env refs now"
    and fresh: "jb_job_id j \<notin> admitted s"
  defines "r \<equiv> new_record ctx j rt env refs now (sk_next_sequence st)"
  defines "s2 \<equiv> with_job j (with_record r s)"
  defines "next \<equiv> normalized ref ctx s2 (extended st r)"
  defines "s3 \<equiv> snd (write_control_file next s2)"
  defines "s4 \<equiv> snd (persist_scoped_state next s2)"
  shows "submission_trail ref st r j s = [s, with_record r s, s2, s3, s4]"
    and "admit ref ctx st j rt env (identity_of_job j) refs now s =
      (Inr \<lparr>rc_status = SW_ACCEPTED, rc_identity = identity_of_job j, rc_references = Some refs\<rparr>, s4)"
    and "scope_ok ref ctx s4" and "load_scoped_state ref ctx s4 = Inr next"
    and "sd_records s4 = sd_records s2" and "sd_store s4 = sd_store s2" and "sd_audits s4 = sd_audits s"
proof -
  note S = settledD [OF st] and J = submission_okD [OF sub]
  note W = admission_first_writes [OF st sub fresh, folded r_def, folded s2_def]
  have "1 \<le> sj_sequence r" using S(6) by (simp add: r_def)
  note N = normalize_extended [OF st W(6) W(7) this, folded next_def]
  show "submission_trail ref st r j s = [s, with_record r s, s2, s3, s4]"
    by (simp add: submission_trail_def write_record_eq W(5) N(1) Let_def s3_def s4_def
        persist_scoped_state_eq write_control_file_def write_queue_file_def)
  have p: "persist_scoped_state next s2 = (Inr (), s4)"
    by (simp add: s4_def persist_scoped_state_eq)
  note P = scope_ok_persist [OF W(6) N(2,3) p]
  show "scope_ok ref ctx s4" "load_scoped_state ref ctx s4 = Inr next"
    "sd_records s4 = sd_records s2" "sd_store s4 = sd_store s2" by (rule P)+
  show "sd_audits s4 = sd_audits s" using P(5) by (simp add: s2_def)
  have pending: "load_pending ref (jb_job_id j) (sd_store s) = Inr None"
    using load_pending_abs [of ref "sd_store s" "jb_job_id j"] S(1) W(2) J(6)
    by (simp add: scope_ok_def jobs_ok_def strict_matches)
  have r: "r = \<lparr>sj_identity = identity_of_job j, sj_runtime = rt, sj_environment = env, sj_submitted_at = now,
      sj_sequence = sk_next_sequence st, sj_scope = ctx, sj_references = refs,
      sj_fingerprint = Some (fingerprint_of j rt env), sj_schema_version = ''1.0''\<rparr>"
    by (simp add: r_def new_record_def)
  have x: "extended st r = st\<lparr>sk_next_sequence := sk_next_sequence st + 1,
      sk_entries := sk_entries st @ [\<lparr>sq_sequence = sk_next_sequence st,
        sq_identity = identity_of_job j, sq_references = refs\<rparr>]\<rparr>"
    by (simp add: extended_def entry_of_def r)
  show "admit ref ctx st j rt env (identity_of_job j) refs now s =
      (Inr \<lparr>rc_status = SW_ACCEPTED, rc_identity = identity_of_job j, rc_references = Some refs\<rparr>, s4)"
    using W(5) N(1) p
    by (simp add: admit_def J(7) pending Let_def r [symmetric] write_record_eq x [symmetric] receipt_of_def)
qed


section \<open>Submitting for the first time\<close>

definition accepted :: "job \<Rightarrow> artifact_refs \<Rightarrow> receipt" where
  "accepted j refs = \<lparr>rc_status = SW_ACCEPTED, rc_identity = identity_of_job j, rc_references = Some refs\<rparr>"

definition submitted :: "env_reference \<Rightarrow> scope_context \<Rightarrow> job \<Rightarrow> scope_dir \<Rightarrow> scope_dir \<Rightarrow> bool" where
  "submitted ref ctx j s s' \<longleftrightarrow>
     scope_ok ref ctx s' \<and> sd_audits s' = sd_audits s
     \<and> (\<exists>e. scope_queue ref ctx s' = scope_queue ref ctx s @ [e] \<and> sq_identity e = identity_of_job j)
     \<and> abs_jobs ref (sd_store s') = (abs_jobs ref (sd_store s))(jb_job_id j \<mapsto> norm_job j)"

lemma waiting_cong:
  "sd_records s' = sd_records s \<Longrightarrow> sd_store s' = sd_store s \<Longrightarrow> waiting ref ctx s' = waiting ref ctx s"
  using store_view_cong(2,3) [of s' s ref ctx] by (simp add: waiting_def)

lemma map_of_None_admitted: "map_of (sd_records s) i = None \<longleftrightarrow> i \<notin> admitted s"
  by (simp add: map_of_eq_None_iff admitted_def)

lemma submit_locked_fresh:
  assumes ok: "scope_ok ref ctx s" and sub: "submission_ok ctx j rt env refs now"
    and fresh: "jb_job_id j \<notin> admitted s"
  obtains raw st s0 where "load_normalized ref ctx s = Inr (raw, st)"
    "persist_if_needed st raw s = (Inr (), s0)" "settled ref ctx st s0"
    "sd_records s0 = sd_records s" "sd_store s0 = sd_store s" "sd_audits s0 = sd_audits s"
    "submit_locked ref pol ctx j rt env (identity_of_job j) refs now s =
       (if ap_max_queued pol \<le> int (waiting ref ctx s) then (Inl (KSlideError CAPACITY_LIMIT), s0)
        else admit ref ctx st j rt env (identity_of_job j) refs now s0)"
proof -
  obtain raw st s0 where l: "load_normalized ref ctx s = Inr (raw, st)"
    and p: "persist_if_needed st raw s = (Inr (), s0)" and S: "settled ref ctx st s0"
    and same: "sd_records s0 = sd_records s" "sd_store s0 = sd_store s" "sd_audits s0 = sd_audits s"
    by (rule settle [OF ok])
  note D = settledD [OF S]
  have new: "map_of (sd_records s0) (jb_job_id j) = None"
    unfolding same(1) map_of_None_admitted by (rule fresh)
  have count: "count_queued ref (sd_store s0) (sk_active_job_id st) (sk_entries st) = Inr (waiting ref ctx s)"
    using count_queued_waiting [OF D(1)] by (simp add: D(4,5) waiting_cong [OF same(1,2)])
  have "submit_locked ref pol ctx j rt env (identity_of_job j) refs now s =
       (if ap_max_queued pol \<le> int (waiting ref ctx s) then (Inl (KSlideError CAPACITY_LIMIT), s0)
        else admit ref ctx st j rt env (identity_of_job j) refs now s0)"
    by (simp add: submit_locked_def l p new count)
  with l p S same show thesis by (rule that)
qed

lemma queue_jobs_after:
  assumes r: "records_ok ref ctx s" and r': "records_ok ref ctx s'" and "\<exists>e. scope_queue ref ctx s' = scope_queue ref ctx s @ [e] \<and> eid e = i"
    and "abs_jobs ref (sd_store s') = (abs_jobs ref (sd_store s))(i \<mapsto> k)"
  shows "queue_jobs ref ctx s' = queue_jobs ref ctx s @ [(i, Some k)]"
proof -
  from assms(3) obtain e where e: "scope_queue ref ctx s' = scope_queue ref ctx s @ [e]" "eid e = i" by blast
  with distinct_entries(2) [OF r'] have "i \<notin> eid ` set (scope_queue ref ctx s)" by auto
  then have "\<forall>x \<in> set (scope_queue ref ctx s). eid x \<noteq> i" by auto
  with assms(4) e show ?thesis by (auto simp: queue_jobs_def)
qed

lemma waiting_after:
  assumes "queue_jobs ref ctx s' = queue_jobs ref ctx s @ [x]"
  shows "waiting ref ctx s' \<le> waiting ref ctx s + 1"
    and "slot_holder ref ctx s = Some i \<Longrightarrow> slot_holder ref ctx s' = Some i"
proof -
  have weaker: "length (filter (waits (Some i)) xs) \<le> length (filter (waits None) xs)" for i xs
    by (induction xs) (auto simp: waits_def)
  show slot: "slot_holder ref ctx s = Some i \<Longrightarrow> slot_holder ref ctx s' = Some i" for i
    by (simp add: slot_holder_def assms first_active_append)
  have "length (filter (waits (slot_holder ref ctx s')) (queue_jobs ref ctx s)) \<le> waiting ref ctx s"
  proof (cases "slot_holder ref ctx s")
    case None
    then show ?thesis
      using weaker by (cases "slot_holder ref ctx s'") (simp_all add: waiting_def)
  next
    case (Some i)
    then show ?thesis by (simp add: slot [OF Some] waiting_def)
  qed
  then show "waiting ref ctx s' \<le> waiting ref ctx s + 1" by (simp add: waiting_def [of ref ctx s'] assms)
qed

section \<open>Submitting again\<close>

definition holds_submission ::
  "env_reference \<Rightarrow> scope_context \<Rightarrow> job \<Rightarrow> runtime_identity \<Rightarrow> environment \<Rightarrow> artifact_refs \<Rightarrow> string \<Rightarrow> int
    \<Rightarrow> scope_dir \<Rightarrow> bool"
where
  "holds_submission ref ctx j rt env refs now n s \<longleftrightarrow>
     scope_ok ref ctx s
     \<and> read_scoped_record ref ctx (jb_job_id j) s = Inr (stored_record (new_record ctx j rt env refs now n))
     \<and> abs_jobs ref (sd_store s) (jb_job_id j) \<in> set [None, Some (norm_job j)]"

lemma same_runtime_stored [simp]: "same_runtime_identity (stored_runtime rt) rt"
  by (simp add: same_runtime_identity_def runtime_as_dict_def stored_runtime_def)

lemma same_submission_norm: "submission_ok ctx j rt env refs now \<Longrightarrow> same_submission (norm_job j) j = Inr True"
  using submission_okD [of ctx j rt env refs now]
  by (simp add: same_submission_def identity_from_job_def)

lemma resubmission_recognised:
  assumes "submission_ok ctx j rt env refs now"
  shows "same_scoped_admission (stored_record (new_record ctx j rt env refs now n)) j rt = Inr True"
    and "same_scoped_submission (norm_job j) j (stored_record (new_record ctx j rt env refs now n)) rt = Inr True"
  using submission_okD [OF assms] same_submission_norm [OF assms]
  by (simp_all add: same_scoped_admission_def same_scoped_submission_def)


text \<open>Completing an admission whose store write never happened.\<close>

lemma complete_admission_pending:
  assumes st: "settled ref ctx st s" and sub: "submission_ok ctx j rt env refs now"
    and held: "read_scoped_record ref ctx (jb_job_id j) s = Inr (stored_record (new_record ctx j rt env refs now n))"
    and none: "abs_jobs ref (sd_store s) (jb_job_id j) = None"
  obtains s' where "complete_admission ref st (stored_record (new_record ctx j rt env refs now n)) j
      (identity_of_job j) refs s = (Inr (accepted j refs), s')"
    "scope_ok ref ctx s'" "sd_records s' = sd_records s" "sd_audits s' = sd_audits s"
    "sd_store s' = store_write j (sd_store s)"
proof -
  let ?r = "stored_record (new_record ctx j rt env refs now n)"
  let ?i = "jb_job_id j"
  let ?others = "filter (\<lambda>e. eid e \<noteq> ?i) (sk_entries st)"
  let ?t = "with_job j s"
  let ?e = "\<lparr>sq_sequence = n, sq_identity = identity_of_job j, sq_references = refs\<rparr>"
  let ?st = "st\<lparr>sk_entries := ?others @ [?e], sk_next_sequence := max (sk_next_sequence st) (n + 1)\<rparr>"
  note S = settledD [OF st] and J = submission_okD [OF sub]
  have rec: "record_of ref ctx s ?i = ?r" by (rule record_of_eq [OF held])
  have i: "?i \<in> admitted s"
    using held unfolding read_scoped_record_iff map_of_None_admitted [symmetric] by (metis option.distinct(1) map_of_None_admitted)
  have create: "on_store (store_create ref j) s = (Inr (SW_ACCEPTED, j), ?t)"
    by (rule store_create_with_job [OF S(1) J(1,2) none])
  have check: "check_scoped_job j (sj_identity (record_of ref ctx s ?i)) (record_of ref ctx s ?i) = Inr ()"
    using new_job_checked [OF sub, of n] by (simp add: rec)
  note W = scope_ok_with_job [OF S(1) J(1,2) i check]
  have okt: "records_ok ref ctx ?t" "jobs_ok ref ctx ?t" using W(1) by (simp_all add: scope_ok_def)
  have view: "admitted ?t = admitted s" "entry_at ref ctx ?t = entry_at ref ctx s"
    by (rule scope_view_cong, simp)+
  have "records_ok ref ctx s" using S(1) by (simp add: scope_ok_def)
  note q = distinct_entries(2) [OF this] eid_entry_at [OF this]
  have known: "known_state ref ctx ?t ?st"
    unfolding known_state_def view
  proof (intro conjI)
    show "sk_scope ?st = ctx" by (simp add: S)
    show "distinct (map eid (sk_entries ?st))"
      using q(1) by (auto simp: S(4) distinct_map_filter entry_of_def)
    have "?e = entry_at ref ctx s ?i" by (simp add: entry_at_def rec) (simp add: entry_of_def)
    then show "\<forall>e \<in> set (sk_entries ?st). eid e \<in> admitted s \<and> e = entry_at ref ctx s (eid e)"
      using i q(2) by (auto simp: S(4) set_scope_queue entry_of_def)
  qed
  have n: "normalize_scoped_state ref ?st ?t = Inr (normalized ref ctx ?t ?st)"
    by (rule normalize_scoped_state_eq [OF okt known])
  have "fit_state ref ctx ?t ?st"
    using known S(2,6) by (simp add: fit_state_def le_max_iff_disj)
  note N = normalized_fit [OF W(1) this]
  let ?n = "normalized ref ctx ?t ?st"
  show thesis
  proof (cases "control_as_dict ?n = control_as_dict st")
    case True
    have "complete_admission ref st ?r j (identity_of_job j) refs s = (Inr (accepted j refs), ?t)"
      using create n True by (simp add: complete_admission_def Let_def accepted_def receipt_of_def)
    with W(1) show thesis by (intro that [of ?t]) simp_all
  next
    case False
    obtain s' where p: "persist_scoped_state ?n ?t = (Inr (), s')" by (simp add: persist_scoped_state_eq)
    have "complete_admission ref st ?r j (identity_of_job j) refs s = (Inr (accepted j refs), s')"
      using create n False p by (simp add: complete_admission_def Let_def accepted_def receipt_of_def)
    with scope_ok_persist [OF W(1) N(1,2) p] show thesis by (intro that [of s']) simp_all
  qed
qed

lemma resubmission:
  assumes held: "holds_submission ref ctx j rt env refs now n s" and sub: "submission_ok ctx j rt env refs now"
  obtains s' where "submit_locked ref pol ctx j rt env (identity_of_job j) refs later s =
      (Inr \<lparr>rc_status = (if abs_jobs ref (sd_store s) (jb_job_id j) = None then SW_ACCEPTED else SW_IDEMPOTENT),
            rc_identity = identity_of_job j, rc_references = Some refs\<rparr>, s')"
    "scope_ok ref ctx s'" "scope_queue ref ctx s' = scope_queue ref ctx s" "sd_audits s' = sd_audits s"
    "abs_jobs ref (sd_store s') = (abs_jobs ref (sd_store s))(jb_job_id j \<mapsto> norm_job j)"
proof -
  let ?r = "stored_record (new_record ctx j rt env refs now n)"
  let ?i = "jb_job_id j"
  note J = submission_okD [OF sub]
  from held have ok: "scope_ok ref ctx s" and rd: "read_scoped_record ref ctx ?i s = Inr ?r"
    and job: "abs_jobs ref (sd_store s) ?i = None \<or> abs_jobs ref (sd_store s) ?i = Some (norm_job j)"
    by (simp_all add: holds_submission_def)
  obtain raw st s0 where l: "load_normalized ref ctx s = Inr (raw, st)"
    and p: "persist_if_needed st raw s = (Inr (), s0)" and S: "settled ref ctx st s0"
    and same: "sd_records s0 = sd_records s" "sd_store s0 = sd_store s" "sd_audits s0 = sd_audits s"
    by (rule settle [OF ok])
  note frame = scope_view_cong [OF same(1)]
  have rd0: "read_scoped_record ref ctx ?i s0 = Inr ?r"
    using rd read_scoped_record_frame [OF same(1)] by simp
  have mem: "map_of (sd_records s0) ?i \<noteq> None"
    using rd unfolding same(1) by (auto simp: read_scoped_record_iff)
  have pend: "load_pending ref ?i (sd_store s0) = Inr (abs_jobs ref (sd_store s) ?i)"
    using ok load_pending_abs [of ref "sd_store s" ?i] J(6)
    by (simp add: scope_ok_def jobs_ok_def strict_matches same)
  have step: "submit_locked ref pol ctx j rt env (identity_of_job j) refs later s =
      resubmit ref ctx st j rt (identity_of_job j) refs s0"
    using mem by (simp add: submit_locked_def l p)
  show thesis
  proof (cases "abs_jobs ref (sd_store s) ?i")
    case None
    have none: "abs_jobs ref (sd_store s0) ?i = None" by (simp add: same None)
    obtain s' where c: "complete_admission ref st ?r j (identity_of_job j) refs s0 = (Inr (accepted j refs), s')"
      "scope_ok ref ctx s'" "sd_records s' = sd_records s0" "sd_audits s' = sd_audits s0"
      "sd_store s' = store_write j (sd_store s0)"
      by (rule complete_admission_pending [OF S sub rd0 none])
    have r: "resubmit ref ctx st j rt (identity_of_job j) refs s0 = (Inr (accepted j refs), s')"
      using c(1) rd0 pend None resubmission_recognised(1) [OF sub] by (simp add: resubmit_def)
    have "scope_queue ref ctx s' = scope_queue ref ctx s" using c(3) same(1) by (intro scope_view_cong) simp
    moreover have "abs_jobs ref (sd_store s') = (abs_jobs ref (sd_store s))(?i \<mapsto> norm_job j)"
      using ok J(1,2) unfolding c(5) same(2) by (intro store_ok_write) (simp_all add: scope_ok_def jobs_ok_def)
    ultimately show thesis
      using r c(2,4) same(3) None by (intro that [of s']) (simp_all add: step accepted_def)
  next
    case (Some k)
    with job have k: "k = norm_job j" by simp
    have chk: "check_scoped_job (norm_job j) (identity_of_job j) ?r = Inr ()"
      using new_job_checked [OF sub, of n] J(1) by (simp add: check_scoped_job_norm)
    have "resubmit ref ctx st j rt (identity_of_job j) refs s0 =
        (Inr \<lparr>rc_status = SW_IDEMPOTENT, rc_identity = identity_of_job j, rc_references = Some refs\<rparr>, s0)"
      using rd0 pend Some k chk resubmission_recognised(2) [OF sub]
      by (simp add: resubmit_def receipt_of_def)
    moreover have "abs_jobs ref (sd_store s) = (abs_jobs ref (sd_store s))(?i \<mapsto> norm_job j)"
      using Some k by auto
    ultimately show thesis
      using settledD(1) [OF S] Some by (intro that [of s0]) (simp_all add: step frame same)
  qed
qed

section \<open>Between the control file and the queue file\<close>

text \<open>
  Normalization is given the already extended state, so it raises the revision only when the slot
  moves. With a job in the slot the control file is replaced under the revision of the queue file.
\<close>

lemma normalized_same:
  "scope_queue ref ctx s = sk_entries st \<Longrightarrow> slot_holder ref ctx s = sk_active_job_id st \<Longrightarrow>
     max_sequence (map sq_sequence (sk_entries st)) < sk_next_sequence st \<Longrightarrow>
     normalized ref ctx s st = st"
  by (simp add: normalized_def Let_def)

lemma max_sequence_append: "max_sequence (xs @ [n]) = max (max_sequence xs) (max 0 n)"
  by (induction xs) (auto simp: max_sequence_def)

lemma torn_mirrors:
  assumes "sd_control s = Some (FileJson (control_as_dict a))" "wf_control a"
    and "sd_queue s = Some (FileJson (control_as_dict b))" "wf_control b"
    and "sk_scope a = ctx" "sk_scope b = ctx"
    and "a \<noteq> b" "sk_revision a = sk_revision b"
  shows "load_scoped_state ref ctx s = Inl corrupt" "load_normalized ref ctx s = Inl corrupt"
  using assms by (simp_all add: load_normalized_def load_scoped_state_def reconcile_mirrors_def control_as_dict_inject)

section \<open>After each write\<close>

lemma trail_holds:
  assumes S: "settled ref ctx st s" and sub: "submission_ok ctx j rt env refs now" and fresh: "jb_job_id j \<notin> admitted s"
  defines "n \<equiv> sk_next_sequence st"
  defines "r \<equiv> new_record ctx j rt env refs now n"
  assumes k: "k \<in> set [1, 2, 4]" and s': "s' = submission_trail ref st r j s ! k"
  shows "holds_submission ref ctx j rt env refs now n s'" and "sd_audits s' = sd_audits s"
    and "scope_queue ref ctx s' = scope_queue ref ctx s @ [entry_of r]"
    and "abs_jobs ref (sd_store s') = (if k = 1 then abs_jobs ref (sd_store s)
           else (abs_jobs ref (sd_store s))(jb_job_id j \<mapsto> norm_job j))"
proof -
  note W = admission_first_writes [OF S sub fresh, folded n_def, folded r_def]
  note A = admission [OF S sub fresh, folded n_def, folded r_def]
  let ?s1 = "with_record r s" and ?s2 = "with_job j (with_record r s)"
  let ?s4 = "snd (persist_scoped_state (normalized ref ctx ?s2 (extended st r)) ?s2)"
  have rd1: "read_scoped_record ref ctx (jb_job_id j) ?s1 = Inr (stored_record r)"
    using read_with_record [OF W(1)] by (simp add: r_def)
  have rd2: "read_scoped_record ref ctx (jb_job_id j) ?s2 = Inr (stored_record r)"
    using rd1 read_scoped_record_frame [of ?s2 ?s1] by simp
  have rd4: "read_scoped_record ref ctx (jb_job_id j) ?s4 = Inr (stored_record r)"
    using rd2 read_scoped_record_frame [OF A(5)] by simp
  have cases: "k = 1 \<and> s' = ?s1 \<or> k = 2 \<and> s' = ?s2 \<or> k = 4 \<and> s' = ?s4"
    using k s' A(1) by auto
  have jobs4: "abs_jobs ref (sd_store ?s4) = (abs_jobs ref (sd_store s))(jb_job_id j \<mapsto> norm_job j)"
    unfolding A(6) by (rule W(8))
  have q4: "scope_queue ref ctx ?s4 = scope_queue ref ctx s @ [entry_of r]"
    using W(7) scope_view_cong(5) [OF A(5), of ref ctx] by simp
  from cases show "holds_submission ref ctx j rt env refs now n s'"
    unfolding holds_submission_def r_def [symmetric]
    using W(2,3,6,8) A(3) rd1 rd2 rd4 jobs4 by (elim disjE conjE) simp_all
  from cases show "sd_audits s' = sd_audits s" using A(7) by auto
  from cases show "scope_queue ref ctx s' = scope_queue ref ctx s @ [entry_of r]" using W(4,7) q4 by auto
  from cases show "abs_jobs ref (sd_store s') = (if k = 1 then abs_jobs ref (sd_store s)
           else (abs_jobs ref (sd_store s))(jb_job_id j \<mapsto> norm_job j))" using W(8) jobs4 by auto
qed

lemma admission_settles:
  assumes S: "settled ref ctx st s" and sub: "submission_ok ctx j rt env refs now" and fresh: "jb_job_id j \<notin> admitted s"
  defines "r \<equiv> new_record ctx j rt env refs now (sk_next_sequence st)"
  defines "s4 \<equiv> submission_trail ref st r j s ! 4"
  shows "\<exists>next. settled ref ctx next s4 \<and> sd_queue s4 = Some (FileJson (control_as_dict next))
    \<and> queue_jobs ref ctx s4 = queue_jobs ref ctx s @ [(jb_job_id j, Some (norm_job j))]
    \<and> admitted s4 = insert (jb_job_id j) (admitted s)"
proof -
  note A = admission [OF S sub fresh, folded r_def]
  note W = admission_first_writes [OF S sub fresh, folded r_def]
  let ?s2 = "with_job j (with_record r s)"
  let ?next = "normalized ref ctx ?s2 (extended st r)"
  have s4: "s4 = snd (persist_scoped_state ?next ?s2)" by (simp add: s4_def A(1))
  note same = store_view_cong(4) [OF A(5,6), folded s4] scope_view_cong [OF A(5), folded s4]
  have ok: "scope_ok ref ctx s4" and l: "load_scoped_state ref ctx s4 = Inr ?next"
    using A(3,4) by (simp_all add: s4)
  have parts: "records_ok ref ctx s4" "jobs_ok ref ctx s4" using ok by (simp_all add: scope_ok_def)
  have "normalize_scoped_state ref ?next s4 = Inr (normalized ref ctx s4 ?next)"
  proof (rule normalize_scoped_state_eq [OF parts])
    have "1 \<le> sj_sequence r" using settledD(6) [OF S] by (simp add: r_def)
    from normalize_extended(3) [OF S W(6,7) this] show "known_state ref ctx s4 ?next" by (simp add: same)
  qed
  also have "normalized ref ctx s4 ?next = ?next" by (simp only: same(1) normalized_idem)
  finally have "settled ref ctx ?next s4" using ok l by (simp add: settled_def load_normalized_def)
  moreover have "sd_queue s4 = Some (FileJson (control_as_dict ?next))" by (simp add: s4 persist_scoped_state_eq)
  moreover have "queue_jobs ref ctx s4 = queue_jobs ref ctx s @ [(jb_job_id j, Some (norm_job j))]"
  proof (rule queue_jobs_after)
    show "records_ok ref ctx s" using settledD(1) [OF S] by (simp add: scope_ok_def)
    show "records_ok ref ctx s4" by (rule parts(1))
    show "\<exists>e. scope_queue ref ctx s4 = scope_queue ref ctx s @ [e] \<and> eid e = jb_job_id j"
      using W(7) by (simp add: same entry_of_def r_def)
    show "abs_jobs ref (sd_store s4) = (abs_jobs ref (sd_store s))(jb_job_id j \<mapsto> norm_job j)"
      unfolding s4 A(6) by (rule W(8))
  qed
  moreover have "admitted s4 = insert (jb_job_id j) (admitted s)"
    using same(2) scope_view_cong(1) [of ?s2 "with_record r s"] by (simp add: admitted_with_record r_def)
  ultimately show ?thesis by blast
qed

end
