(* ===== verification/Paas_Samples.thy ===== *)
theory Paas_Samples
  imports Samples Paas_References Paas_Submit_Laws
begin

text \<open>
  A concrete scope, runtime and jobs at which the properties of the durable job service are
  evaluated.
\<close>

definition sample_hash :: string where
  "sample_hash = replicate 64 (CHR ''0'')"

definition sample_env :: environment where
  "sample_env = \<lparr>
     env_kslide_source_revision = replicate 40 (CHR ''0''), env_candidate_identity = sample_hash,
     env_candidate_version = ''1.0'', env_kslide_version = ''1.0'',
     env_runtime_artifact_identity = sample_hash, env_runtime_image_identity = ''sha256:'' @ sample_hash,
     env_runtime_build_identity = sample_hash, env_runtime_manifest_sha256 = sample_hash,
     env_runtime_sbom_sha256 = sample_hash, env_target_model_identity = ''model-1'',
     env_effective_model_identity = ''model-1'', env_model_config_identity = sample_hash,
     env_semantic_config_identity = sample_hash, env_ocr_asset_identity = sample_hash,
     env_ocr_config_identity = sample_hash, env_ocr_provider = ''ocr-1'',
     env_termbase_identity = sample_hash, env_termbase_version = ''1.0'',
     env_inference_endpoint_identity = sample_hash, env_inference_route_identity = ''route-1'',
     env_inference_data_policy_version = ''1.0'', env_inference_data_policy_hash = sample_hash,
     env_inference_data_policy_identity = sample_hash, env_egress_policy_version = ''1.0'',
     env_egress_policy_hash = sample_hash, env_egress_policy_identity = sample_hash,
     env_execution_contract_version = ''1.0'', env_run_store_schema_version = ''1.0'',
     env_evidence_ir_schema_version = ''1.0'', env_translation_patch_schema_version = ''1.0'',
     env_slide_ir_schema_version = ''1.0'', env_identity_version = ''1.0''\<rparr>"

definition sample_ctx :: scope_context where
  "sample_ctx = \<lparr>sc_user_ref = ''user-1'', sc_workspace_ref = ''workspace-1'', sc_scope_ref = ''scope-1''\<rparr>"

definition sample_runtime :: runtime_identity where
  "sample_runtime = \<lparr>ri_runtime_ref = ''runtime-1'', ri_model_identity = ''model-1'',
     ri_ocr_identity = ''ocr-1'', ri_termbase_identity = ''terms-1'',
     ri_engine_contract_version = ''1.0'', ri_environment = Some sample_env\<rparr>"

definition plain_job :: "string \<Rightarrow> lifecycle \<Rightarrow> job" where
  "plain_job i lc = (sample_job DURABLE lc)\<lparr>jb_job_id := i,
     jb_checkpoint := (sample_checkpoint 0)\<lparr>ck_job_id := i\<rparr>\<rparr>"

definition bound_job :: "string \<Rightarrow> lifecycle \<Rightarrow> job" where
  "bound_job i lc = (plain_job i lc)\<lparr>
     jb_checkpoint := (sample_checkpoint 0)\<lparr>ck_job_id := i,
        ck_environment_identity_sha256 := env_identity_sha256 sample_env\<rparr>,
     jb_environment := Some sample_env\<rparr>"

definition empty_scope :: scope_dir where
  "empty_scope = \<lparr>sd_records = [], sd_control = None, sd_queue = None,
     sd_store = \<lparr>st_profile = DURABLE, st_files = [],
        st_workspace = \<lparr>ws_name = ''run-1'', ws_is_link = False, ws_fence_file = Absent, ws_state_file = Absent\<rparr>\<rparr>,
     sd_audits = NoAudits\<rparr>"

abbreviation sample_ids :: "string set" where
  "sample_ids \<equiv> set [''job-1'', ''job-2'']"

lemma sample_hash_ok: "matches_sha256 sample_hash" "length sample_hash = 64" "list_all is_hex_char sample_hash"
  by (simp_all add: sample_hash_def pattern_defs char_defs list_all_iff)

lemma valid_sample_env: "valid_environment sample_env"
proof -
  have "matches_sha40 (replicate 40 (CHR ''0''))" by (simp add: matches_sha40_def char_defs list_all_iff)
  moreover have "matches_image (''sha256:'' @ sample_hash)" by (simp add: matches_image_def sample_hash_ok)
  moreover have "matches_version ''1.0''" by (simp add: matches_version_def dotted_number_def version_suffix_def char_defs)
  moreover have "env_text_ok ''model-1''" "env_text_ok ''ocr-1''" "env_text_ok ''route-1''" "env_text_ok ''1.0''"
    by (simp_all add: env_text_ok_def matches_env_identity_def contains_word_def env_forbidden_def char_defs)
  ultimately have "guards (environment_checks sample_env) = Inr ()"
    unfolding guards_ok_iff environment_checks_def by (simp add: sample_env_def sample_hash_ok)
  then show ?thesis by (simp add: valid_environment_def environment_post_init_def)
qed

lemma sample_scope_wf: "wf_scope sample_ctx"
  by (simp add: wf_scope_def sample_ctx_def safe_identity_def matches_paas_identifier_def
      contains_word_def paas_forbidden_def char_defs)

lemma sample_runtime_wf: "wf_runtime sample_runtime" "runtime_environment sample_runtime = Inr sample_env"
  by (simp_all add: wf_runtime_def sample_runtime_def runtime_identity_post_init_def safe_identity_def
      matches_paas_identifier_def contains_word_def paas_forbidden_def char_defs runtime_environment_def)

lemma empty_scope_ok: "scope_ok ref sample_ctx empty_scope"
  by (simp add: scope_ok_def sample_scope_wf records_ok_def jobs_ok_def mirrors_ok_def admitted_def
      empty_scope_def store_ok_def)


lemma sample_id_facts:
  assumes "i \<in> sample_ids"
  shows "matches_identifier i" "safe_identity i" "strict_identifier i" "\<not> contains_word paas_forbidden i" "length i = 5"
  using assms
  by (auto simp: pattern_defs safe_identity_def strict_identifier_def matches_paas_identifier_def
      paas_forbidden_def char_defs)

lemma wf_bound_job:
  assumes "i \<in> sample_ids"
  shows "wf_job (bound_job i lc)" "wf_job (plain_job i lc)"
proof -
  note id = sample_id_facts(1) [OF assms]
  have cancel: "cancellation_post_init (sample_cancellation lc) = Inr (sample_cancellation lc)"
    using wf_sample_job [of DURABLE lc] by (simp add: wf_job_def sample_job_def)
  have ck: "wf_checkpoint ((sample_checkpoint 0)\<lparr>ck_job_id := i, ck_environment_identity_sha256 := h\<rparr>)"
    if "h = [] \<or> matches_sha256 h" for h
    using wf_sample_checkpoint [of 0] id that
    by (auto simp: wf_checkpoint_def checkpoint_post_init_iff sample_checkpoint_def)
  have env: "matches_sha256 (env_identity_sha256 sample_env)" by (simp add: env_identity_sha256_def)
  have checks: "\<forall>g \<in> set (job_checks (bound_job i lc)). \<not> fst g" "\<forall>g \<in> set (job_checks (plain_job i lc)). \<not> fst g"
    by (cases lc, simp_all add: job_checks_def bound_job_def plain_job_def sample_job_def sample_outcome_def
        timestamp_ok_def sample_cancellation_def max_result_markers_def)+
  have rest: "store_ref_post_init (jb_store_ref (sample_job DURABLE lc)) = Inr (jb_store_ref (sample_job DURABLE lc))"
    "retry_post_init (jb_retry (sample_job DURABLE lc)) = Inr (jb_retry (sample_job DURABLE lc))"
    "matches_identifier ''run-1''" "matches_identifier ''execution-1''"
    using wf_sample_job [of DURABLE lc]
    by (simp_all add: wf_job_def pattern_defs char_defs)
  have "job_post_init (bound_job i lc) = Inr (bound_job i lc)"
    unfolding job_post_init_iff using checks(1) id rest(3,4) env
    by (simp add: bound_job_def plain_job_def sample_job_def sample_checkpoint_def ck_ids_def job_ids_def
        bind_checkpoint_def env_identity_sha256_def)
  with ck [of "env_identity_sha256 sample_env"] env rest cancel valid_sample_env
  show "wf_job (bound_job i lc)"
    by (simp add: wf_job_def bound_job_def plain_job_def) (simp add: sample_job_def)
  have "job_post_init (plain_job i lc) = Inr (plain_job i lc)"
    unfolding job_post_init_iff using checks(2) id rest(3,4)
    by (simp add: plain_job_def sample_job_def sample_checkpoint_def ck_ids_def job_ids_def bind_checkpoint_def)
  moreover have "wf_checkpoint ((sample_checkpoint 0)\<lparr>ck_job_id := i\<rparr>)"
    using ck [of "[]"] by (simp add: sample_checkpoint_def)
  ultimately show "wf_job (plain_job i lc)"
    using rest cancel by (simp add: wf_job_def plain_job_def) (simp add: sample_job_def)
qed

lemma bind_plain_job:
  assumes "i \<in> sample_ids"
  shows "bind_environment (plain_job i lc) sample_runtime = Inr (bound_job i lc, sample_env)"
proof -
  have e: "(plain_job i lc)\<lparr>jb_environment := Some sample_env, jb_checkpoint := jb_checkpoint (bound_job i lc)\<rparr> = bound_job i lc"
    by (simp add: bound_job_def plain_job_def)
  have "checkpoint_post_init (jb_checkpoint (bound_job i lc)) = Inr (jb_checkpoint (bound_job i lc))"
    using wf_bound_job(1) [OF assms, of lc] by (simp add: wf_job_def wf_checkpoint_def)
  then have "bind_checkpoint (Some sample_env) (jb_checkpoint (plain_job i lc)) = Inr (jb_checkpoint (bound_job i lc))"
    by (simp add: bind_checkpoint_def plain_job_def bound_job_def sample_checkpoint_def env_identity_sha256_def)
  moreover have "\<forall>g \<in> set (job_checks ((plain_job i lc)\<lparr>jb_environment := Some sample_env\<rparr>)). \<not> fst g"
    using wf_bound_job(2) [OF assms, of lc] by (auto simp: wf_job_def job_post_init_iff job_checks_def)
  ultimately have "job_post_init ((plain_job i lc)\<lparr>jb_environment := Some sample_env\<rparr>) = Inr (bound_job i lc)"
    using wf_bound_job(2) [OF assms, of lc] e
    by (simp add: wf_job_def job_post_init_iff job_ids_def)
  then show ?thesis
    by (simp add: bind_environment_def sample_runtime_wf plain_job_def sample_job_def)
qed

lemma sample_word_clean:
  "w \<in> set [''run-1'', ''execution-1'', ''scope-1'', ''store-1'', ''TRANSLATING'', ''1.0'', ''cancel-job-1''] \<Longrightarrow>
     \<not> contains_word paas_forbidden w"
  by (auto simp: contains_word_def paas_forbidden_def char_defs)

lemma sample_strict:
  "w \<in> set [''run-1'', ''execution-1'', ''scope-1'', ''store-1''] \<Longrightarrow> strict_identifier w"
  by (auto simp: strict_identifier_def matches_identifier_def contains_word_def paas_forbidden_def char_defs)

lemma bound_job_identity:
  assumes "i \<in> sample_ids"
  shows "identity_from_job (bound_job i lc) = Inr (identity_of_job (bound_job i lc))"
    and "validate_scoped_identity (identity_of_job (bound_job i lc)) = Inr ()"
proof -
  have fields: "identity_of_job (bound_job i lc) = \<lparr>di_run_id = ''run-1'', di_job_id = i, di_execution_id = ''execution-1'',
      di_scope_ref = ''scope-1'', di_store_ref = ''store-1'', di_contract_version = ''1.0''\<rparr>"
    by (simp add: identity_of_job_def bound_job_def plain_job_def sample_job_def)
  have strict: "strict_identifier i" "strict_identifier ''run-1''" "strict_identifier ''execution-1''"
    "strict_identifier ''scope-1''" "strict_identifier ''store-1''"
    using sample_id_facts(3) [OF assms] sample_strict by simp_all
  then show "identity_from_job (bound_job i lc) = Inr (identity_of_job (bound_job i lc))"
    by (simp add: identity_from_job_def fields identity_post_init_def strict_identifier_def)
  show "validate_scoped_identity (identity_of_job (bound_job i lc)) = Inr ()"
    using strict by (simp add: validate_scoped_identity_def fields strict_identifier_safe)
qed

lemma validate_bound_job:
  assumes "i \<in> sample_ids"
  shows "validate_scoped_job (bound_job i lc) = Inr ()"
proof -
  have "\<not> contains_word paas_forbidden w" if "w \<in> set (job_texts (bound_job i lc))" for w
  proof -
    have "job_texts (bound_job i lc) =
      [''1.0'', ''run-1'', i, ''execution-1'', ''scope-1'', ''store-1'', ''1.0'', ''run-1'', i, ''execution-1'',
       ''TRANSLATING'', ''TRANSLATING'', [], [], env_identity_sha256 sample_env]
      @ opt_texts [cn_request_ref (sample_cancellation lc)]"
      by (simp add: job_texts_def checkpoint_texts_def opt_texts_def bound_job_def plain_job_def sample_job_def
          sample_checkpoint_def sample_progress_def sample_cancellation_def no_cancellation_def)
    moreover have tail: "set (opt_texts [cn_request_ref (sample_cancellation lc)]) \<subseteq> set [''cancel-job-1'']"
      by (simp add: opt_texts_def sample_cancellation_def no_cancellation_def)
    ultimately have "set (job_texts (bound_job i lc)) \<subseteq>
        set [''run-1'', ''execution-1'', ''scope-1'', ''store-1'', ''TRANSLATING'', ''1.0'', ''cancel-job-1'']
        \<union> {i, [], env_identity_sha256 sample_env}"
      by simp (rule subset_trans [OF tail], simp)
    with that have "w \<in> set [''run-1'', ''execution-1'', ''scope-1'', ''store-1'', ''TRANSLATING'', ''1.0'', ''cancel-job-1'']
        \<or> w = i \<or> w = [] \<or> w = env_identity_sha256 sample_env" by blast
    then show ?thesis
      using sample_word_clean [of w] sample_id_facts(4) [OF assms]
      by (elim disjE) (simp_all add: env_identity_sha256_def)
  qed
  then have "\<not> json_mentions paas_forbidden (job_control_json (bound_job i lc))"
    by (simp add: job_control_mentions list_ex_iff)
  moreover have "jb_profile (bound_job i lc) = DURABLE" by (simp add: bound_job_def plain_job_def sample_job_def)
  ultimately show ?thesis
    using bound_job_identity [OF assms, of lc] by (simp add: validate_scoped_job_def)
qed

definition sample_identity :: "string \<Rightarrow> job_identity" where
  "sample_identity i = \<lparr>di_run_id = ''run-1'', di_job_id = i, di_execution_id = ''execution-1'',
     di_scope_ref = ''scope-1'', di_store_ref = ''store-1'', di_contract_version = ''1.0''\<rparr>"

definition sample_refs :: "string \<Rightarrow> artifact_refs" where
  "sample_refs i = the (right (scoped_references sample_ctx (sample_identity i)))"

lemma identity_bound_job [simp]: "identity_of_job (bound_job i lc) = sample_identity i"
  by (simp add: identity_of_job_def bound_job_def plain_job_def sample_job_def sample_identity_def)

lemma sample_refs:
  assumes "i \<in> sample_ids"
  shows "scoped_references sample_ctx (sample_identity i) = Inr (sample_refs i)"
proof -
  have "validate_scoped_identity (sample_identity i) = Inr ()"
    using bound_job_identity(2) [OF assms, of L_QUEUED] unfolding identity_bound_job .
  from scoped_references_iff [OF this, of sample_ctx] sample_id_facts(5) [OF assms]
  have "is_ok (scoped_references sample_ctx (sample_identity i))" by (simp add: sample_identity_def)
  then show ?thesis by (auto simp: is_ok_iff sample_refs_def)
qed

lemma noon_ok: "matches_timestamp noon"
  by (simp add: pattern_defs char_defs)

lemma sample_submission:
  assumes "i \<in> sample_ids"
  shows "submission_ok sample_ctx (bound_job i lc) sample_runtime sample_env (sample_refs i) noon"
  using wf_bound_job(1) [OF assms] validate_bound_job [OF assms] sample_refs [OF assms] sample_runtime_wf noon_ok
  by (simp add: submission_ok_def) (simp add: bound_job_def plain_job_def sample_job_def sample_ctx_def)

lemma sample_queue: "scope_queue ref ctx empty_scope = []"
  by (simp add: scope_queue_def record_stems_def empty_scope_def)

lemma sample_fence [simp]: "deletion_fenced ctx run empty_scope = Inr ()"
  by (simp add: deletion_fenced_def empty_scope_def)

lemma sample_empty [simp]: "admitted empty_scope = {}" "waiting ref ctx empty_scope = 0"
  by (simp_all add: admitted_def empty_scope_def waiting_def queue_jobs_def scope_queue_def record_stems_def)

definition sample_state :: control_state where
  "sample_state = \<lparr>sk_scope = sample_ctx, sk_revision = 0, sk_next_sequence = 1, sk_active_job_id = None,
     sk_entries = [], sk_schema_version = ''1.0''\<rparr>"

lemma settled_empty: "settled ref sample_ctx sample_state empty_scope"
  unfolding settled_def using empty_scope_ok
  by (simp add: load_normalized_def load_scoped_state_def recover_scoped_state_def
      read_scoped_records_def empty_scope_def record_stems_def normalize_scoped_state_def max_sequence_def
      Let_def sample_state_def)

text \<open>The scope after a first submission of a job in a given lifecycle.\<close>

abbreviation sample_record :: "lifecycle \<Rightarrow> scoped_record" where
  "sample_record lc \<equiv> stored_record (new_record sample_ctx (bound_job ''job-1'' lc) sample_runtime sample_env
     (sample_refs ''job-1'') noon 1)"

lemma submitted_scope:
  obtains st s where "settled ref sample_ctx st s" "sd_queue s = Some (FileJson (control_as_dict st))"
    "queue_jobs ref sample_ctx s = [(''job-1'', Some (norm_job (bound_job ''job-1'' lc)))]"
    "admitted s = {''job-1''}" "sd_audits s = NoAudits"
    "abs_jobs ref (sd_store s) ''job-1'' = Some (norm_job (bound_job ''job-1'' lc))"
    "scope_ok ref sample_ctx s"
    "read_scoped_record ref sample_ctx ''job-1'' s = Inr (sample_record lc)"
proof -
  note sub = sample_submission [of "''job-1''" lc, simplified]
  let ?r = "new_record sample_ctx (bound_job ''job-1'' lc) sample_runtime sample_env (sample_refs ''job-1'') noon
      (sk_next_sequence sample_state)"
  let ?s = "submission_trail ref sample_state ?r (bound_job ''job-1'' lc) empty_scope ! 4"
  have id: "jb_job_id (bound_job ''job-1'' lc) = ''job-1''" by (simp add: bound_job_def plain_job_def)
  have q0: "queue_jobs ref sample_ctx empty_scope = []" by (simp add: queue_jobs_def sample_queue)
  have fresh: "jb_job_id (bound_job ''job-1'' lc) \<notin> admitted empty_scope" by simp
  from admission_settles [OF settled_empty [of ref] sub fresh] obtain st where st: "settled ref sample_ctx st ?s"
    "sd_queue ?s = Some (FileJson (control_as_dict st))"
    "queue_jobs ref sample_ctx ?s = [(''job-1'', Some (norm_job (bound_job ''job-1'' lc)))]"
    "admitted ?s = {''job-1''}"
    unfolding id q0 sample_empty(1) append_Nil by blast
  have "sd_audits ?s = NoAudits"
    using trail_holds(2) [OF settled_empty [of ref] sub fresh, of 4] by (simp add: empty_scope_def)
  moreover have "abs_jobs ref (sd_store ?s) ''job-1'' = Some (norm_job (bound_job ''job-1'' lc))"
    using trail_holds(4) [OF settled_empty [of ref] sub fresh, of 4] by (simp add: id)
  moreover have "read_scoped_record ref sample_ctx ''job-1'' ?s = Inr (sample_record lc)"
    using trail_holds(1) [OF settled_empty [of ref] sub fresh, of 4]
    by (simp add: id holds_submission_def) (simp add: sample_state_def)
  ultimately show thesis using st settledD(1) [OF st(1)] by (intro that [of st ?s])
qed

lemma first_submission:
  obtains st s where "settled sample_ref sample_ctx st s" "sd_queue s = Some (FileJson (control_as_dict st))"
    "slot_holder sample_ref sample_ctx s = Some ''job-1''" "admitted s = {''job-1''}" "sd_audits s = NoAudits"
    "abs_jobs sample_ref (sd_store s) ''job-1'' = Some (norm_job (bound_job ''job-1'' L_QUEUED))"
    "scope_ok sample_ref sample_ctx s"
    "read_scoped_record sample_ref sample_ctx ''job-1'' s = Inr (sample_record L_QUEUED)"
proof -
  obtain st s where s: "settled sample_ref sample_ctx st s" "sd_queue s = Some (FileJson (control_as_dict st))"
    "queue_jobs sample_ref sample_ctx s = [(''job-1'', Some (norm_job (bound_job ''job-1'' L_QUEUED)))]"
    "admitted s = {''job-1''}" "sd_audits s = NoAudits"
    "abs_jobs sample_ref (sd_store s) ''job-1'' = Some (norm_job (bound_job ''job-1'' L_QUEUED))"
    "scope_ok sample_ref sample_ctx s"
    "read_scoped_record sample_ref sample_ctx ''job-1'' s = Inr (sample_record L_QUEUED)"
    by (rule submitted_scope)
  have "\<not> terminal_for_admission (norm_job (bound_job ''job-1'' L_QUEUED))"
    by (simp add: terminal_for_admission_def bound_job_def plain_job_def sample_job_def)
  with s(3) have "slot_holder sample_ref sample_ctx s = Some ''job-1''" by (simp add: slot_holder_def)
  with s show thesis by (intro that)
qed

text \<open>The store view of the sample job.\<close>

definition sample_view :: "lifecycle \<Rightarrow> store_view" where
  "sample_view lc = \<lparr>vw_context = sample_ctx, vw_identity = sample_identity ''job-1'', vw_record = sample_record lc\<rparr>"

lemma sample_view_select [simp]:
  "vw_context (sample_view lc) = sample_ctx" "vw_identity (sample_view lc) = sample_identity ''job-1''"
  "vw_record (sample_view lc) = sample_record lc"
  by (simp_all add: sample_view_def)

lemma sample_view_guard:
  assumes "read_scoped_record ref sample_ctx ''job-1'' s = Inr (sample_record lc)" and "sd_audits s = NoAudits"
  shows "view_guard ref (sample_view lc) ''job-1'' s = Inr ()"
proof -
  have "di_job_id (sample_identity ''job-1'') = ''job-1''" by (simp add: sample_identity_def)
  with assms show ?thesis by (simp add: view_guard_def binding_guard_def deletion_fenced_def)
qed

end
