(* ===== verification/Admission_Properties.thy ===== *)
theory Admission_Properties
  imports Paas_Samples Paas_Service
begin

text \<open>
  What the durable admission of a scope promises: recovery of its state, submission, the capacity
  limit, and what an interrupted submission leaves behind.
\<close>

section \<open>The inputs of a submission\<close>

lemma bind_environment_parts:
  assumes "bind_environment j0 rt = Inr (j, env)" and "submission_ok ctx j rt env refs now"
  shows "sr_scope_ref (jb_store_ref j0) = sc_scope_ref ctx" "jb_job_id j0 = jb_job_id j"
proof -
  have "jb_store_ref j = jb_store_ref j0 \<and> jb_job_id j0 = jb_job_id j"
    using assms(1)
    by (auto simp: bind_environment_def bind_res_Inr_iff job_post_init_iff split: option.splits if_splits)
  with assms(2) show "sr_scope_ref (jb_store_ref j0) = sc_scope_ref ctx" "jb_job_id j0 = jb_job_id j"
    by (simp_all add: submission_ok_def)
qed

lemma submit_scoped_locked:
  assumes "bind_environment j0 rt = Inr (j, env)" and "submission_ok ctx j rt env refs now"
    and "deletion_fenced ctx (jb_run_id j) s = Inr ()"
  shows "submit_scoped ref pol ctx j0 rt later s =
    submit_locked ref pol ctx j rt env (identity_of_job j) refs later s"
  using assms bind_environment_parts [OF assms(1,2)] submission_okD [OF assms(2)]
  by (simp add: submit_scoped_def submission_ok_def)

lemma deletion_fenced_frame:
  "sd_audits s' = sd_audits s \<Longrightarrow> deletion_fenced ctx run s' = deletion_fenced ctx run s"
  by (simp add: deletion_fenced_def)

section \<open>Recovery\<close>

text \<open>
  C5: Whatever a crash or an earlier operation left in a scope directory that is in order, the
  next operation recovers the same admission state from it: loading and normalizing succeed, the
  entries are the admissions in the order of their sequences, the slot belongs to the first
  unfinished job that no pending admission precedes, and after the state has been brought up to
  date it is read back unchanged.
\<close>

theorem admission_state_is_recovered:
  assumes "scope_ok ref ctx s"
  shows "\<exists>raw st s'. load_normalized ref ctx s = Inr (raw, st) \<and> persist_if_needed st raw s = (Inr (), s')
    \<and> sk_entries st = scope_queue ref ctx s \<and> sorted (map sq_sequence (sk_entries st))
    \<and> sk_active_job_id st = first_active (map (\<lambda>e. (eid e, abs_jobs ref (sd_store s) (eid e))) (scope_queue ref ctx s))
    \<and> sd_records s' = sd_records s \<and> sd_store s' = sd_store s
    \<and> scope_ok ref ctx s' \<and> load_normalized ref ctx s' = Inr (st, st)"
proof -
  obtain raw st s' where l: "load_normalized ref ctx s = Inr (raw, st)"
    and p: "persist_if_needed st raw s = (Inr (), s')" and S: "settled ref ctx st s'"
    and same: "sd_records s' = sd_records s" "sd_store s' = sd_store s"
    by (rule settle [OF assms])
  note D = settledD [OF S] scope_view_cong [OF same(1)] store_view_cong [OF same]
  have "sk_active_job_id st = first_active (queue_jobs ref ctx s)"
    using D(5) by (simp add: D slot_holder_def)
  then show ?thesis
    using l p same S D(4) sorted_scope_queue [of ref ctx s]
    by (intro exI [of _ raw] exI [of _ st] exI [of _ s']) (simp add: settled_def D queue_jobs_def)
qed

corollary admission_state_is_recovered_witness:
  "\<exists>st. sk_entries st = [] \<and> sk_active_job_id st = None
     \<and> load_normalized sample_ref sample_ctx empty_scope = Inr (st, st)"
proof -
  have q: "scope_queue sample_ref sample_ctx empty_scope = []"
    by (simp add: scope_queue_def record_stems_def empty_scope_def)
  from admission_state_is_recovered [OF empty_scope_ok [of sample_ref]]
  obtain raw st s' where st: "load_normalized sample_ref sample_ctx empty_scope = Inr (raw, st)"
    "sk_entries st = []" "sk_active_job_id st = None"
    unfolding q by auto
  moreover have "raw = st"
    using st by (auto simp: load_normalized_def load_scoped_state_def recover_scoped_state_def read_scoped_records_def
        empty_scope_def record_stems_def normalize_scoped_state_def max_sequence_def Let_def)
  ultimately show ?thesis by blast
qed

section \<open>Submission\<close>

lemma new_submission_facts:
  assumes ok: "scope_ok ref ctx s" and sub: "submission_ok ctx j rt env refs now"
    and bind: "bind_environment j0 rt = Inr (j, env)"
    and fence: "deletion_fenced ctx (jb_run_id j) s = Inr ()"
    and fresh: "jb_job_id j \<notin> admitted s" and room: "int (waiting ref ctx s) < ap_max_queued pol"
  shows "\<exists>s' n. submit_scoped ref pol ctx j0 rt now s = (Inr (accepted j refs), s')
    \<and> scope_ok ref ctx s'
    \<and> scope_queue ref ctx s' = scope_queue ref ctx s
        @ [\<lparr>sq_sequence = n, sq_identity = identity_of_job j, sq_references = refs\<rparr>]
    \<and> abs_jobs ref (sd_store s') = (abs_jobs ref (sd_store s))(jb_job_id j \<mapsto> norm_job j)
    \<and> (\<forall>i. slot_holder ref ctx s = Some i \<longrightarrow> slot_holder ref ctx s' = Some i)
    \<and> waiting ref ctx s' \<le> waiting ref ctx s + 1"
proof -
  obtain raw st s0 where S: "settled ref ctx st s0"
    and same: "sd_records s0 = sd_records s" "sd_store s0 = sd_store s" "sd_audits s0 = sd_audits s"
    and submit: "submit_locked ref pol ctx j rt env (identity_of_job j) refs now s =
      (if ap_max_queued pol \<le> int (waiting ref ctx s) then (Inl (KSlideError CAPACITY_LIMIT), s0)
       else admit ref ctx st j rt env (identity_of_job j) refs now s0)"
    by (rule submit_locked_fresh [OF ok sub fresh, where pol = pol])
  note view = scope_view_cong [OF same(1)] store_view_cong [OF same(1,2)]
  have fresh0: "jb_job_id j \<notin> admitted s0" using fresh by (simp add: view)
  note W = admission_first_writes [OF S sub fresh0]
  note A = admission [OF S sub fresh0]
  let ?r = "new_record ctx j rt env refs now (sk_next_sequence st)"
  let ?s2 = "with_job j (with_record ?r s0)"
  let ?s4 = "snd (persist_scoped_state (normalized ref ctx ?s2 (extended st ?r)) ?s2)"
  have run: "submit_scoped ref pol ctx j0 rt now s = (Inr (accepted j refs), ?s4)"
    using submit_scoped_locked [OF bind sub fence] submit room A(2) by (simp add: accepted_def)
  have entry: "entry_of ?r = \<lparr>sq_sequence = sk_next_sequence st, sq_identity = identity_of_job j, sq_references = refs\<rparr>"
    by (simp add: entry_of_def)
  have q: "scope_queue ref ctx ?s4 = scope_queue ref ctx s
      @ [\<lparr>sq_sequence = sk_next_sequence st, sq_identity = identity_of_job j, sq_references = refs\<rparr>]"
    using W(7) scope_view_cong(5) [OF A(5), of ref ctx] by (simp only: view entry)
  have jobs: "abs_jobs ref (sd_store ?s4) = (abs_jobs ref (sd_store s))(jb_job_id j \<mapsto> norm_job j)"
    unfolding A(6) W(8) same(2) ..
  have "queue_jobs ref ctx ?s4 = queue_jobs ref ctx s @ [(jb_job_id j, Some (norm_job j))]"
    using ok A(3) q jobs by (intro queue_jobs_after) (simp_all add: scope_ok_def)
  from waiting_after [OF this] run q jobs A(3) show ?thesis by blast
qed

text \<open>
  C6: A new submission to a scope below its capacity is admitted: it is accepted, its job is
  stored, it takes the last place of the queue, a job that holds the slot keeps it, and the scope
  stays in order.
\<close>

theorem new_submission_is_admitted:
  assumes ok: "scope_ok ref ctx s" and sub: "submission_ok ctx j rt env refs now"
    and bind: "bind_environment j0 rt = Inr (j, env)"
    and fence: "deletion_fenced ctx (jb_run_id j) s = Inr ()"
    and fresh: "jb_job_id j \<notin> admitted s" and room: "int (waiting ref ctx s) < ap_max_queued pol"
  shows "\<exists>s' n. submit_scoped ref pol ctx j0 rt now s = (Inr (accepted j refs), s')
    \<and> scope_ok ref ctx s'
    \<and> scope_queue ref ctx s' = scope_queue ref ctx s
        @ [\<lparr>sq_sequence = n, sq_identity = identity_of_job j, sq_references = refs\<rparr>]
    \<and> abs_jobs ref (sd_store s') = (abs_jobs ref (sd_store s))(jb_job_id j \<mapsto> norm_job j)
    \<and> (\<forall>i. slot_holder ref ctx s = Some i \<longrightarrow> slot_holder ref ctx s' = Some i)
    \<and> waiting ref ctx s' \<le> waiting ref ctx s + 1"
  by (rule new_submission_facts [OF assms])

corollary new_submission_is_admitted_witness:
  "\<exists>s'. submit_scoped sample_ref default_admission_policy sample_ctx (plain_job ''job-1'' L_QUEUED) sample_runtime noon empty_scope
       = (Inr (accepted (bound_job ''job-1'' L_QUEUED) (sample_refs ''job-1'')), s')
     \<and> scope_ok sample_ref sample_ctx s' \<and> length (scope_queue sample_ref sample_ctx s') = 1"
  using new_submission_is_admitted [OF empty_scope_ok sample_submission bind_plain_job, of "''job-1''" L_QUEUED sample_ref default_admission_policy]
  by (fastforce simp: default_admission_policy_def sample_queue)



section \<open>Interrupted submissions\<close>

text \<open>
  C3: A submission makes four writes, in this order: the admission record, the job, the control
  file, the queue file. When it stops after the first, the second or the last of them, the scope
  is in order, and submitting the same job again completes it: the answer is ACCEPTED when the job
  was not stored yet and IDEMPOTENT when it was, and in both cases the queue and the jobs are those
  of the uninterrupted submission.
\<close>

theorem interrupted_submission_is_completed:
  assumes S: "settled ref ctx st s" and sub: "submission_ok ctx j rt env refs now"
    and bind: "bind_environment j0 rt = Inr (j, env)"
    and fence: "deletion_fenced ctx (jb_run_id j) s = Inr ()" and fresh: "jb_job_id j \<notin> admitted s"
    and k: "k \<in> set [1, 2, 4]"
  shows "\<exists>r s' s''. r = new_record ctx j rt env refs now (sk_next_sequence st)
    \<and> admit ref ctx st j rt env (identity_of_job j) refs now s
        = (Inr (accepted j refs), submission_trail ref st r j s ! 4)
    \<and> s' = submission_trail ref st r j s ! k \<and> scope_ok ref ctx s'
    \<and> submit_scoped ref pol ctx j0 rt later s' =
        (Inr ((accepted j refs)\<lparr>rc_status := (if k = 1 then SW_ACCEPTED else SW_IDEMPOTENT)\<rparr>), s'')
    \<and> scope_ok ref ctx s'' \<and> scope_queue ref ctx s'' = scope_queue ref ctx s @ [entry_of r]
    \<and> abs_jobs ref (sd_store s'') = (abs_jobs ref (sd_store s))(jb_job_id j \<mapsto> norm_job j)"
proof -
  let ?n = "sk_next_sequence st"
  let ?r = "new_record ctx j rt env refs now ?n"
  let ?s' = "submission_trail ref st ?r j s ! k"
  note A = admission [OF S sub fresh]
  note W = admission_first_writes [OF S sub fresh]
  note T = trail_holds [OF S sub fresh k refl]
  obtain s'' where r: "submit_locked ref pol ctx j rt env (identity_of_job j) refs later ?s' =
      (Inr \<lparr>rc_status = (if abs_jobs ref (sd_store ?s') (jb_job_id j) = None then SW_ACCEPTED else SW_IDEMPOTENT),
            rc_identity = identity_of_job j, rc_references = Some refs\<rparr>, s'')"
    "scope_ok ref ctx s''" "scope_queue ref ctx s'' = scope_queue ref ctx ?s'"
    "abs_jobs ref (sd_store s'') = (abs_jobs ref (sd_store ?s'))(jb_job_id j \<mapsto> norm_job j)"
    by (rule resubmission [OF T(1) sub])
  have "deletion_fenced ctx (jb_run_id j) ?s' = Inr ()" using fence deletion_fenced_frame [OF T(2)] by simp
  note sc = submit_scoped_locked [OF bind sub this]
  have "admit ref ctx st j rt env (identity_of_job j) refs now s
      = (Inr (accepted j refs), submission_trail ref st ?r j s ! 4)"
    using A(1,2) by (simp add: accepted_def)
  moreover have "scope_ok ref ctx ?s'" using T(1) by (simp add: holds_submission_def)
  moreover have "submit_scoped ref pol ctx j0 rt later ?s' =
      (Inr ((accepted j refs)\<lparr>rc_status := (if k = 1 then SW_ACCEPTED else SW_IDEMPOTENT)\<rparr>), s'')"
    using sc r(1) T(4) W(2) by (simp add: accepted_def)
  ultimately show ?thesis using r(2-4) T(3,4) by (intro exI conjI) (auto simp: fun_eq_iff)
qed

corollary interrupted_submission_is_completed_witness:
  "\<exists>r s' s''. s' = submission_trail sample_ref sample_state r (bound_job ''job-1'' L_QUEUED) empty_scope ! 1
     \<and> submit_scoped sample_ref default_admission_policy sample_ctx (plain_job ''job-1'' L_QUEUED) sample_runtime noon s'
       = (Inr (accepted (bound_job ''job-1'' L_QUEUED) (sample_refs ''job-1'')), s'')
     \<and> scope_queue sample_ref sample_ctx s'' = [entry_of r]"
  using interrupted_submission_is_completed [OF settled_empty sample_submission bind_plain_job, of "''job-1''" L_QUEUED 1
      sample_ref default_admission_policy noon]
  by (fastforce simp: sample_queue accepted_def)

text \<open>
  C4: When the submission stops between the control file and the queue file while a job holds the
  slot, the two files differ under one revision: from then on loading the scope state raises
  STATE_CORRUPT, so submission, the queue view and claiming refuse every request and repair nothing.
\<close>

theorem stop_between_mirrors_corrupts_the_scope:
  assumes S: "settled ref ctx st s" and mirror: "sd_queue s = Some (FileJson (control_as_dict st))"
    and sub: "submission_ok ctx j rt env refs now" and fresh: "jb_job_id j \<notin> admitted s"
    and bind: "bind_environment j0 rt = Inr (j, env)" and fence: "deletion_fenced ctx (jb_run_id j) s = Inr ()"
    and holder: "slot_holder ref ctx s = Some i" and worker: "strict_identifier w"
  shows "\<exists>r torn. r = new_record ctx j rt env refs now (sk_next_sequence st)
    \<and> torn = submission_trail ref st r j s ! 3
    \<and> load_scoped_state ref ctx torn = Inl corrupt
    \<and> submit_scoped ref pol ctx j0 rt later torn = (Inl corrupt, torn)
    \<and> queue_scoped ref ctx torn = (Inl corrupt, torn)
    \<and> claim_next_scoped ref ctx w rt torn = (Inl corrupt, torn)"
proof -
  let ?r = "new_record ctx j rt env refs now (sk_next_sequence st)"
  let ?s2 = "with_job j (with_record ?r s)"
  let ?torn = "submission_trail ref st ?r j s ! 3"
  note A = admission [OF S sub fresh] and W = admission_first_writes [OF S sub fresh] and D = settledD [OF S]
  have one: "1 \<le> sj_sequence ?r" using D(6) by simp
  note N = normalize_extended [OF S W(6,7) one]
  have jobs: "queue_jobs ref ctx ?s2 = queue_jobs ref ctx s @ [(jb_job_id j, Some (norm_job j))]"
    using D(1) W(6-8) by (intro queue_jobs_after) (simp_all add: scope_ok_def entry_of_def)
  note normal = settled_normal [OF S]
  have same: "normalized ref ctx ?s2 (extended st ?r) = extended st ?r"
    using waiting_after(2) [OF jobs holder] holder D(4-6) W(7) normal(3)
    by (intro normalized_same) (simp_all add: extended_def max_sequence_append entry_of_def)
  have torn: "?torn = snd (write_control_file (extended st ?r) ?s2)" using A(1) same by simp
  have "sk_entries (extended st ?r) \<noteq> sk_entries st" by (simp add: extended_def)
  then have differ: "extended st ?r \<noteq> st" by metis
  have "load_scoped_state ref ctx ?torn = Inl corrupt \<and> load_normalized ref ctx ?torn = Inl corrupt"
    using N(2) [unfolded same] normal(2) mirror D(3)
    by (intro conjI torn_mirrors [where a = "extended st ?r" and b = st])
      (simp_all add: differ torn write_control_file_def, simp_all add: extended_def)
  moreover from this have "submit_scoped ref pol ctx j0 rt later ?torn = (Inl corrupt, ?torn)"
    using submit_scoped_locked [OF bind sub, of ?torn] fence deletion_fenced_frame [of ?torn s]
    by (simp add: submit_locked_def torn write_control_file_def)
  ultimately show ?thesis
    using worker submission_okD(9) [OF sub]
    by (auto simp: queue_scoped_def claim_next_scoped_def)
qed

corollary stop_between_mirrors_corrupts_the_scope_witness:
  "\<exists>st r torn s. torn = submission_trail sample_ref st r (bound_job ''job-2'' L_QUEUED) s ! 3
     \<and> scope_ok sample_ref sample_ctx s \<and> load_scoped_state sample_ref sample_ctx torn = Inl corrupt"
proof -
  obtain st s where s: "settled sample_ref sample_ctx st s" "sd_queue s = Some (FileJson (control_as_dict st))"
    "slot_holder sample_ref sample_ctx s = Some ''job-1''" "admitted s = {''job-1''}" "sd_audits s = NoAudits"
    "scope_ok sample_ref sample_ctx s" by (rule first_submission)
  have id: "jb_job_id (bound_job ''job-2'' L_QUEUED) \<notin> admitted s" by (simp add: bound_job_def plain_job_def s(4))
  have "deletion_fenced sample_ctx (jb_run_id (bound_job ''job-2'' L_QUEUED)) s = Inr ()"
    by (simp add: deletion_fenced_def s(5))
  from stop_between_mirrors_corrupts_the_scope [OF s(1,2) sample_submission id bind_plain_job this s(3), of "''run-1''"]
    s(6) sample_strict [of "''run-1''"]
  show ?thesis by fastforce
qed

end
