(* ===== verification/Paas_Claim_Laws.thy ===== *)
theory Paas_Claim_Laws
  imports Paas_Submit_Laws Paas_Worker
begin

text \<open>
  What a successful operation of a scope went through: the record it resolved, the job it loaded and
  the admission state it brought up to date.
\<close>

lemma then_op_Inr_iff:
  "then_op m f s = (Inr x, s') \<longleftrightarrow> (\<exists>y s1. m s = (Inr y, s1) \<and> f y s1 = (Inr x, s'))"
  by (auto simp: then_op_def split: prod.splits sum.splits)

lemma reads_Inr_iff: "reads g s = (Inr y, s1) \<longleftrightarrow> g s = Inr y \<and> s1 = s"
  by (auto simp: reads_def)

lemma returns_Inr_iff: "returns r s = (Inr y, s1) \<longleftrightarrow> r = Inr y \<and> s1 = s"
  by (auto simp: returns_def)

lemmas op_Inr_iffs = then_op_Inr_iff reads_Inr_iff returns_Inr_iff

lemma resolved:
  assumes "resolve_scoped_identity ref ctx arg s = Inr (d, r)"
  shows "read_scoped_record ref ctx (di_job_id d) s = Inr r" "sj_identity r = d"
  using assms
  by (auto simp: resolve_scoped_identity_def bind_res_Inr_iff read_scoped_record_iff split: identity_arg.splits if_splits)

lemma read_admitted: "read_scoped_record ref ctx i s = Inr r \<Longrightarrow> i \<in> admitted s"
  unfolding read_scoped_record_iff admitted_def by (auto simp: image_iff dest!: map_of_SomeD intro!: bexI)

lemma scope_load:
  assumes "store_load ref i (sd_store s) = Inr j"
  shows "abs_jobs ref (sd_store s) i = Some j"
  using assms by (simp add: abs_jobs_def)

lemma settled_after:
  assumes "scope_ok ref ctx s" and "load_normalized ref ctx s = Inr (raw, st)" and "persist_if_needed st raw s = (r, s')"
  shows "settled ref ctx st s'" "sd_records s' = sd_records s" "sd_store s' = sd_store s" "sd_audits s' = sd_audits s"
  using persist_if_needed_ok [OF assms] by (simp_all add: settled_def)

lemma normalized_state:
  assumes "scope_ok ref ctx s" and "load_normalized ref ctx s = Inr (raw, st)"
  shows "sk_entries st = scope_queue ref ctx s" "sk_active_job_id st = slot_holder ref ctx s" "fit_state ref ctx s st"
proof -
  obtain r s' where p: "persist_if_needed st raw s = (r, s')" by (cases "persist_if_needed st raw s")
  note S = settled_after [OF assms p]
  note D = settledD [OF S(1)] scope_view_cong [OF S(2)] store_view_cong [OF S(2,3)]
  show "sk_entries st = scope_queue ref ctx s" "sk_active_job_id st = slot_holder ref ctx s"
    using D(4,5) by (simp_all add: D)
  show "fit_state ref ctx s st" using D(2) by (simp add: fit_state_def D)
qed

lemma slot_holder_job:
  assumes "slot_holder ref ctx s = Some i"
  shows "\<exists>j. abs_jobs ref (sd_store s) i = Some j \<and> \<not> terminal_for_admission j"
  using first_active_in [OF assms [unfolded slot_holder_def]] by (auto simp: queue_jobs_def dest: sym)

text \<open>The admissions before one in the queue.\<close>

definition ahead_of :: "env_reference \<Rightarrow> scope_context \<Rightarrow> scope_dir \<Rightarrow> string \<Rightarrow> string list" where
  "ahead_of ref ctx s i = map eid (takeWhile (\<lambda>e. eid e \<noteq> i) (scope_queue ref ctx s))"

definition finished :: "env_reference \<Rightarrow> scope_dir \<Rightarrow> string \<Rightarrow> bool" where
  "finished ref s i \<longleftrightarrow> (case abs_jobs ref (sd_store s) i of None \<Rightarrow> False | Some j \<Rightarrow> terminal_for_admission j)"

lemma no_earlier_work_ok:
  "no_earlier_work ref (sd_store s) i es = Inr () \<Longrightarrow>
     \<forall>k \<in> set (map eid (takeWhile (\<lambda>e. eid e \<noteq> i) es)). finished ref s k"
  by (induction es) (auto simp: finished_def abs_jobs_def split: sum.splits if_splits)

lemma slot_holder_ahead:
  assumes ok: "records_ok ref ctx s" and "slot_holder ref ctx s = Some i"
  shows "\<forall>k \<in> set (ahead_of ref ctx s i). finished ref s k"
proof -
  have "first_active (map (\<lambda>e. (eid e, abs_jobs ref (sd_store s) (eid e))) es) = Some i \<Longrightarrow>
      \<forall>k \<in> set (map eid (takeWhile (\<lambda>e. eid e \<noteq> i) es)). finished ref s k" for es
  proof (induction es)
    case (Cons e es)
    then show ?case
      by (cases "abs_jobs ref (sd_store s) (eid e)") (auto simp: finished_def split: if_splits)
  qed simp
  with assms show ?thesis by (simp add: ahead_of_def slot_holder_def queue_jobs_def)
qed

section \<open>Claims\<close>

lemma claim_next_parts:
  assumes ok: "scope_ok ref ctx s" and run: "claim_next_scoped ref ctx w rt s = (Inr c, s')"
  shows "\<exists>i r j st. slot_holder ref ctx s = Some i \<and> read_scoped_record ref ctx i s = Inr r
    \<and> abs_jobs ref (sd_store s) i = Some j \<and> \<not> terminal_for_admission j
    \<and> check_runtime_binding (sj_environment r) (sj_runtime r) rt = Inr ()
    \<and> cl_identity c = sj_identity r \<and> cl_job c = j \<and> cl_references c = Some (sj_references r)
    \<and> settled ref ctx st s' \<and> sd_records s' = sd_records s \<and> sd_store s' = sd_store s"
proof -
  from run obtain raw st i where l: "load_normalized ref ctx s = Inr (raw, st)" and i: "sk_active_job_id st = Some i"
    by (auto simp: claim_next_scoped_def op_Inr_iffs simp del: then_op_simps split: if_splits option.splits)
  have holder: "slot_holder ref ctx s = Some i" using normalized_state(2) [OF ok l] i by simp
  then obtain k where k: "abs_jobs ref (sd_store s) i = Some k" "\<not> terminal_for_admission k"
    using slot_holder_job by blast
  from run l i obtain r j where r: "read_scoped_record ref ctx i s = Inr r"
    and j: "store_load ref i (sd_store s) = Inr j"
    by (auto simp: claim_next_scoped_def op_Inr_iffs simp del: then_op_simps split: if_splits option.splits)
  have "j = k" using scope_load [OF j] k(1) by simp
  with k have live: "\<not> terminal_for_admission j" and job: "abs_jobs ref (sd_store s) i = Some j" by simp_all
  from run have "check_runtime_binding (sj_environment r) (sj_runtime r) rt = Inr ()
    \<and> persist_if_needed st raw s = (Inr (), s')
    \<and> cl_identity c = sj_identity r \<and> cl_job c = j \<and> cl_references c = Some (sj_references r)"
    by (auto simp: claim_next_scoped_def op_Inr_iffs advance_active_def l i r j live simp del: then_op_simps
        split: if_splits)
  with settled_after [OF ok l, of "Inr ()" s'] holder r job live show ?thesis by auto
qed

lemma claim_parts:
  assumes ok: "scope_ok ref ctx s" and run: "claim_scoped ref ctx arg w rt now s = (Inr c, s')"
  defines "i \<equiv> di_job_id (cl_identity c)"
  shows "\<exists>r j. read_scoped_record ref ctx i s = Inr r \<and> sj_identity r = cl_identity c
    \<and> abs_jobs ref (sd_store s) i = Some j
    \<and> check_runtime_binding (sj_environment r) (sj_runtime r) rt = Inr ()
    \<and> cl_references c = Some (sj_references r)
    \<and> (if awaits_review j
       then slot_holder ref ctx s \<in> set [None, Some i] \<and> (\<forall>k \<in> set (ahead_of ref ctx s i). finished ref s k)
       else cl_job c = j \<and> (terminal_for_admission j \<or> slot_holder ref ctx s = Some i)
            \<and> (\<exists>st. settled ref ctx st s') \<and> sd_records s' = sd_records s \<and> sd_store s' = sd_store s)"
proof -
  from run obtain d r where res: "resolve_scoped_identity ref ctx arg s = Inr (d, r)"
    and b: "check_runtime_binding (sj_environment r) (sj_runtime r) rt = Inr ()"
    by (auto simp: claim_scoped_def op_Inr_iffs simp del: then_op_simps split: if_splits)
  note R = resolved [OF res]
  from run res obtain j raw st s0 where j: "store_load ref (di_job_id d) (sd_store s) = Inr j"
    and l: "load_normalized ref ctx s = Inr (raw, st)" and p: "persist_if_needed st raw s = (Inr (), s0)"
    by (auto simp: claim_scoped_def op_Inr_iffs simp del: then_op_simps split: if_splits)
  note N = normalized_state [OF ok l] and S = settled_after [OF ok l p]
  from run have c: "cl_identity c = d" "cl_references c = Some (sj_references r)"
    by (auto simp: claim_scoped_def op_Inr_iffs res simp del: then_op_simps split: if_splits)
  then have i: "i = di_job_id d" by (simp add: i_def)
  note common = R b c(2) scope_load [OF j]
  show ?thesis
  proof (cases "awaits_review j")
    case True
    from run have "sk_active_job_id st \<in> set [None, Some i]
        \<and> no_earlier_work ref (sd_store s0) i (sk_entries st) = Inr ()"
      by (auto simp: claim_scoped_def op_Inr_iffs res j l p True i resume_review_def simp del: then_op_simps split: if_splits)
    then have "slot_holder ref ctx s \<in> set [None, Some i]" "\<forall>k \<in> set (ahead_of ref ctx s i). finished ref s k"
      using no_earlier_work_ok [of ref s i] by (auto simp: N S(3) ahead_of_def)
    with True common show ?thesis by (simp add: c(1) i)
  next
    case False
    from run have "cl_job c = j \<and> (terminal_for_admission j \<or> sk_active_job_id st = Some i) \<and> s' = s0"
      by (auto simp: claim_scoped_def op_Inr_iffs res j l p False i simp del: then_op_simps split: if_splits)
    with False common S show ?thesis by (auto simp add: c(1) i N)
  qed
qed

end
