(* ===== verification/Claim_Properties.thy ===== *)
theory Claim_Properties
  imports Paas_Claim_Laws Paas_Samples
begin

text \<open>
  What the durable service promises its workers and its tenants: one unfinished job per scope at a
  time, in the order of admission, and scopes that do not see each other.
\<close>

section \<open>The heavy slot\<close>

text \<open>
  C8: A worker that claims an unfinished job by name claims the only one that may run: everything
  admitted before it is finished, no other job holds the slot, and the worker's runtime is the one
  the admission recorded.
\<close>

theorem claimed_work_is_exclusive:
  assumes ok: "scope_ok ref ctx s" and run: "claim_scoped ref ctx arg w rt now s = (Inr c, s')"
    and live: "\<not> terminal_for_admission (cl_job c)"
  shows "\<exists>i r. i = di_job_id (cl_identity c) \<and> read_scoped_record ref ctx i s = Inr r
    \<and> slot_holder ref ctx s \<in> set [None, Some i] \<and> (\<forall>k \<in> set (ahead_of ref ctx s i). finished ref s k)
    \<and> check_runtime_binding (sj_environment r) (sj_runtime r) rt = Inr ()"
proof -
  have "records_ok ref ctx s" using ok by (simp add: scope_ok_def)
  note ahead = slot_holder_ahead [OF this, of "di_job_id (cl_identity c)"]
  from claim_parts [OF ok run] ahead live show ?thesis by (simp split: if_splits) (elim exE conjE; auto)
qed

text \<open>
  C9: Claiming the next job of a scope gives exactly the job that holds the slot: it is unfinished,
  stored, bound to the worker's runtime and first among the unfinished ones, the scope keeps its
  records and jobs, and claiming again gives the same job. With no holder there is nothing to claim.
\<close>

theorem next_claim_is_the_slot_holder:
  assumes ok: "scope_ok ref ctx s" and run: "claim_next_scoped ref ctx w rt s = (r, s')"
    and worker: "strict_identifier w" "runtime_environment rt = Inr env"
  shows "(slot_holder ref ctx s = None \<longrightarrow> r = Inl scoped_not_found \<and> s' = s)
    \<and> (\<forall>c. r = Inr c \<longrightarrow> scope_ok ref ctx s' \<and> slot_holder ref ctx s = Some (di_job_id (cl_identity c))
          \<and> abs_jobs ref (sd_store s) (di_job_id (cl_identity c)) = Some (cl_job c)
          \<and> \<not> terminal_for_admission (cl_job c)
          \<and> (\<forall>k \<in> set (ahead_of ref ctx s (di_job_id (cl_identity c))). finished ref s k)
          \<and> sd_records s' = sd_records s \<and> sd_store s' = sd_store s
          \<and> (\<forall>v rt' c' s''. claim_next_scoped ref ctx v rt' s' = (Inr c', s'') \<longrightarrow>
               cl_identity c' = cl_identity c \<and> cl_job c' = cl_job c))"
proof (intro conjI impI allI)
  obtain raw st where l: "load_normalized ref ctx s = Inr (raw, st)" by (rule load_normalized_ok [OF ok])
  assume "slot_holder ref ctx s = None"
  then have "claim_next_scoped ref ctx w rt s = (Inl scoped_not_found, s)"
    using normalized_state(2) [OF ok l] l worker by (simp add: claim_next_scoped_def)
  with run show "r = Inl scoped_not_found" "s' = s" by simp_all
next
  fix c assume c: "r = Inr c"
  have rec: "records_ok ref ctx s" using ok by (simp add: scope_ok_def)
  let ?i = "di_job_id (cl_identity c)"
  from claim_next_parts [OF ok] run c obtain i q j st where f: "slot_holder ref ctx s = Some i"
    "read_scoped_record ref ctx i s = Inr q" "abs_jobs ref (sd_store s) i = Some j" "\<not> terminal_for_admission j"
    "cl_identity c = sj_identity q" "cl_job c = j" "settled ref ctx st s'"
    "sd_records s' = sd_records s" "sd_store s' = sd_store s" by blast
  have i: "?i = i" using f(2,5) by (simp add: read_scoped_record_iff)
  from f(7) show ok': "scope_ok ref ctx s'" by (simp add: settled_def)
  show "slot_holder ref ctx s = Some ?i" "abs_jobs ref (sd_store s) ?i = Some (cl_job c)"
    "\<not> terminal_for_admission (cl_job c)" "sd_records s' = sd_records s" "sd_store s' = sd_store s"
    unfolding i using f by simp_all
  show "\<forall>k \<in> set (ahead_of ref ctx s ?i). finished ref s k"
    using slot_holder_ahead [OF rec f(1)] by (simp add: i)
  fix v rt' c' s'' assume again: "claim_next_scoped ref ctx v rt' s' = (Inr c', s'')"
  from claim_next_parts [OF ok' again] obtain i' q' j' where g: "slot_holder ref ctx s' = Some i'"
    "read_scoped_record ref ctx i' s' = Inr q'" "abs_jobs ref (sd_store s') i' = Some j'"
    "cl_identity c' = sj_identity q'" "cl_job c' = j'" by blast
  have "i' = i" using g(1) f(1) store_view_cong(3) [OF f(8,9), of ref ctx] by simp
  with f g read_scoped_record_frame [OF f(8), of ref ctx i]
  show "cl_identity c' = cl_identity c" "cl_job c' = cl_job c" by simp_all
qed

section \<open>A claim of the sample job\<close>

lemma sample_claim_reference:
  assumes "j = norm_job (bound_job ''job-1'' L_QUEUED)"
  shows "is_ok (claim_reference j ''run-1'' (sample_identity ''job-1''))"
proof -
  let ?h = "take 16 (stable_revision (identity_as_dict (sample_identity ''job-1'')))"
  have hex: "list_all is_hex_char ?h"
    using stable_revision_sha256 [of "identity_as_dict (sample_identity ''job-1'')"]
    by (auto simp: matches_sha256_def list_all_iff simp del: stable_revision_sha256 dest: in_set_takeD)
  have dash: "\<forall>w \<in> set paas_forbidden. lower_char CHR ''-'' \<notin> set w"
    by (simp add: paas_forbidden_def char_defs)
  have "\<not> contains_word paas_forbidden ''claim-run-1''" by (simp add: contains_word_def paas_forbidden_def char_defs)
  then have "\<not> contains_word paas_forbidden (''claim-run-1'' @ CHR ''-'' # ?h)"
    using contains_word_hex [OF forbidden_not_hex hex] contains_word_between [OF dash, of "''claim-run-1''" ?h]
    by simp
  moreover have "matches_paas_identifier (''claim-run-1'' @ CHR ''-'' # ?h)"
    using hex by (auto simp: matches_paas_identifier_def list_all_iff hex_alnum char_defs)
  moreover have "jb_lifecycle j \<noteq> L_RUNNING" by (simp add: assms bound_job_def plain_job_def sample_job_def)
  ultimately show ?thesis
    unfolding claim_reference_def Let_def by (simp add: safe_identity_def)
qed

lemma sample_claims:
  obtains s c c' s' s'' where "scope_ok sample_ref sample_ctx s"
    "claim_next_scoped sample_ref sample_ctx ''run-1'' sample_runtime s = (Inr c, s')"
    "claim_scoped sample_ref sample_ctx (ByName ''job-1'') ''run-1'' sample_runtime noon s = (Inr c', s'')"
    "cl_job c' = norm_job (bound_job ''job-1'' L_QUEUED)" "\<not> terminal_for_admission (cl_job c')"
proof -
  let ?j = "norm_job (bound_job ''job-1'' L_QUEUED)"
  let ?r = "stored_record (new_record sample_ctx (bound_job ''job-1'' L_QUEUED) sample_runtime sample_env (sample_refs ''job-1'') noon 1)"
  obtain st s where s: "settled sample_ref sample_ctx st s" "slot_holder sample_ref sample_ctx s = Some ''job-1''"
    "sd_audits s = NoAudits" "abs_jobs sample_ref (sd_store s) ''job-1'' = Some ?j" "scope_ok sample_ref sample_ctx s"
    and rd: "read_scoped_record sample_ref sample_ctx ''job-1'' s = Inr ?r" by (rule first_submission)
  have l: "load_normalized sample_ref sample_ctx s = Inr (st, st)" using s(1) by (simp add: settled_def)
  have active: "sk_active_job_id st = Some ''job-1''" using settledD(5) [OF s(1)] s(2) by simp
  have load: "store_load sample_ref ''job-1'' (sd_store s) = Inr ?j"
    using s(4) by (cases "store_load sample_ref ''job-1'' (sd_store s)") (simp_all add: abs_jobs_def)
  have fence: "deletion_fenced sample_ctx run s = Inr ()" for run by (simp add: deletion_fenced_def s(3))
  have worker: "strict_identifier ''run-1''" using sample_strict by simp
  have env: "raise_environment_mismatch (Some sample_env) (Some sample_env) = Inr ()"
    by (simp add: raise_environment_mismatch_ok_iff)
  then have binding: "check_runtime_binding sample_env (stored_runtime sample_runtime) sample_runtime = Inr ()"
    by (simp add: check_runtime_binding_def sample_runtime_wf)
  have jenv: "jb_environment ?j = Some sample_env" by (simp add: bound_job_def)
  have own: "check_job_environment ?j sample_runtime = Inr ()"
    unfolding check_job_environment_def sample_runtime_wf jenv by (simp add: env)
  have check: "check_scoped_job ?j (sample_identity ''job-1'') ?r = Inr ()"
    using new_job_checked [OF sample_submission [of "''job-1''" L_QUEUED], of 1] wf_bound_job(1) [of "''job-1''" L_QUEUED]
    by (simp add: check_scoped_job_norm)
  obtain cr where cr: "claim_reference ?j ''run-1'' (sample_identity ''job-1'') = Inr cr"
    using sample_claim_reference [OF refl] by (auto simp: is_ok_iff)
  have live: "\<not> terminal_for_admission ?j"
    by (simp add: terminal_for_admission_def bound_job_def plain_job_def sample_job_def)
  then have noreview: "\<not> awaits_review ?j" by (auto simp: awaits_review_def terminal_for_admission_def)
  have id: "di_job_id (sample_identity ''job-1'') = ''job-1''" by (simp add: sample_identity_def)
  obtain s' where p: "persist_if_needed st st s = (Inr (), s')"
    by (cases "persist_if_needed st st s") (use persist_if_needed_ok(1) [OF s(5) l] in force)
  have "claim_next_scoped sample_ref sample_ctx ''run-1'' sample_runtime s =
      (Inr \<lparr>cl_identity = sample_identity ''job-1'', cl_job = ?j, cl_claim_ref = cr, cl_references = Some (sample_refs ''job-1'')\<rparr>, s')"
    by (simp add: claim_next_scoped_def worker sample_runtime_wf l active rd load fence advance_active_def live
        binding check own p cr)
  moreover have "claim_scoped sample_ref sample_ctx (ByName ''job-1'') ''run-1'' sample_runtime noon s =
      (Inr \<lparr>cl_identity = sample_identity ''job-1'', cl_job = ?j, cl_claim_ref = cr, cl_references = Some (sample_refs ''job-1'')\<rparr>, s')"
    by (simp add: claim_scoped_def worker sample_runtime_wf l active rd load fence live noreview
        binding check own p cr resolve_scoped_identity_def id)
  ultimately show thesis
    by (rule that [OF s(5)]) (simp_all add: live)
qed

corollary claimed_work_is_exclusive_witness:
  "\<exists>s (c :: claim). scope_ok sample_ref sample_ctx s \<and> \<not> terminal_for_admission (cl_job c)
     \<and> slot_holder sample_ref sample_ctx s \<in> set [None, Some (di_job_id (cl_identity c))]"
proof -
  obtain s c c' s' s'' where s: "scope_ok sample_ref sample_ctx s"
    "claim_scoped sample_ref sample_ctx (ByName ''job-1'') ''run-1'' sample_runtime noon s = (Inr c', s'')"
    "\<not> terminal_for_admission (cl_job c')" by (rule sample_claims)
  from claimed_work_is_exclusive [OF s] s show ?thesis by (intro exI [of _ s] exI [of _ c']) auto
qed

corollary next_claim_is_the_slot_holder_witness:
  "\<exists>s (c :: claim). scope_ok sample_ref sample_ctx s
     \<and> slot_holder sample_ref sample_ctx s = Some (di_job_id (cl_identity c)) \<and> \<not> terminal_for_admission (cl_job c)"
proof -
  obtain s c c' s' s'' where s: "scope_ok sample_ref sample_ctx s"
    "claim_next_scoped sample_ref sample_ctx ''run-1'' sample_runtime s = (Inr c, s')" by (rule sample_claims)
  have "strict_identifier ''run-1''" using sample_strict by simp
  from next_claim_is_the_slot_holder [OF s this sample_runtime_wf(2)] s(1) show ?thesis
    by (intro exI [of _ s] exI [of _ c]) simp
qed

section \<open>Scopes do not see each other\<close>

lemma effective_scope_bound:
  "sf_context cfg = Some own \<Longrightarrow>
     effective_scope cfg given = (if given \<noteq> None \<and> given \<noteq> Some own then Inl scoped_not_found else Inr (Some own))"
  by (simp add: effective_scope_def)

lemma in_scope_frame:
  "in_scope ctx f s = (r, s') \<Longrightarrow> key \<noteq> scope_key ctx \<Longrightarrow> ss_scopes s' key = ss_scopes s key"
  "in_scope ctx f s = (r, s') \<Longrightarrow> ss_compat s' = ss_compat s"
  by (auto simp: in_scope_def split: prod.splits)

text \<open>What an operation of a service bound to a scope may touch.\<close>

definition stays_in_scope ::
  "scope_context \<Rightarrow> service_state \<Rightarrow> 'a res \<times> service_state \<Rightarrow> bool"
where
  "stays_in_scope own s p \<longleftrightarrow>
     (\<forall>key. key \<noteq> scope_key own \<longrightarrow> ss_scopes (snd p) key = ss_scopes s key) \<and> ss_compat (snd p) = ss_compat s"

lemma in_scope_stays: "stays_in_scope own s (in_scope own f s)"
  using in_scope_frame [of own f s] by (cases "in_scope own f s") (auto simp: stays_in_scope_def)



end
