(* ===== verification/Paas_View_Laws.thy ===== *)
theory Paas_View_Laws
  imports Paas_Claim_Laws Paas_References Controller_Laws
begin

text \<open>
  The store view a worker is given: it keeps the run store contract, so what holds of a controller
  step over any store holds over a scope. Releasing the slot only rewrites the mirrors.
\<close>

section \<open>What a write leaves alone\<close>

definition mirrors_only :: "scope_dir \<Rightarrow> scope_dir \<Rightarrow> bool" where
  "mirrors_only s s' \<longleftrightarrow> sd_records s' = sd_records s \<and> sd_store s' = sd_store s \<and> sd_audits s' = sd_audits s"

lemma mirrors_only_refl [simp]: "mirrors_only s s"
  by (simp add: mirrors_only_def)

lemma persist_mirrors_only:
  "persist_scoped_state st s = (r, s') \<Longrightarrow> mirrors_only s s'"
  "persist_if_needed st raw s = (r, s') \<Longrightarrow> mirrors_only s s'"
  by (auto simp: persist_if_needed_def persist_scoped_state_eq mirrors_only_def split: if_splits)

lemma release_mirrors_only: "release_scoped_slot ref ctx j s = (r, s') \<Longrightarrow> mirrors_only s s'"
  by (auto simp: release_scoped_slot_def persist_mirrors_only split: sum.splits if_splits)

lemma view_guard_frame:
  "sd_records s' = sd_records s \<Longrightarrow> sd_audits s' = sd_audits s \<Longrightarrow> view_guard ref v i s' = view_guard ref v i s"
  by (simp add: view_guard_def binding_guard_def deletion_fenced_def read_scoped_record_frame [of s' s])

text \<open>A guarded write: the store operation, then at most a new content of the mirrors.\<close>

lemma view_write_cases:
  assumes "view_write ref v i f s = (r, s')"
  obtains (guarded) e where "view_guard ref v i s = Inl e" "r = Inl e" "s' = s"
  | (ran) r1 st1 where "view_guard ref v i s = Inr ()" "f (sd_store s) = (r1, st1)"
      "mirrors_only (s\<lparr>sd_store := st1\<rparr>) s'"
      "r = r1 \<or> (\<exists>x e. r1 = Inr x \<and> sw_accepted (fst x) \<and> terminal_for_admission (snd x) \<and> r = Inl e)"
proof (cases "view_guard ref v i s")
  case (Inl e)
  with assms have "r = Inl e" "s' = s" by (simp_all add: view_write_def)
  with Inl show thesis by (rule guarded)
next
  case (Inr u)
  then have g: "view_guard ref v i s = Inr ()" by simp
  obtain r1 st1 where f: "f (sd_store s) = (r1, st1)" by (cases "f (sd_store s)")
  let ?s1 = "s\<lparr>sd_store := st1\<rparr>"
  show thesis
  proof (cases r1)
    case (Inl e)
    have "view_write ref v i f s = (Inl e, ?s1)"
      by (simp add: view_write_def on_store_def then_op_def \<open>view_guard ref v i s = Inr u\<close> f Inl)
    with assms Inl have "r = r1" "s' = ?s1" by simp_all
    with g show thesis by (intro ran [OF _ f]) simp_all
  next
    case (Inr x)
    have fin: "view_finish ref v x ?s1 = (r, s')"
      using assms by (simp add: view_write_def on_store_def then_op_def g f Inr)
    obtain r2 s2 where rel: "release_scoped_slot ref (vw_context v) (snd x) ?s1 = (r2, s2)"
      by (cases "release_scoped_slot ref (vw_context v) (snd x) ?s1")
    show thesis
    proof (cases "sw_accepted (fst x) \<and> terminal_for_admission (snd x)")
      case True
      with fin rel have "s' = s2" "r = Inr x \<or> (\<exists>e. r = Inl e)"
        by (auto simp: view_finish_def then_op_def split: sum.splits)
      with True Inr release_mirrors_only [OF rel] g show thesis by (intro ran [OF _ f]) auto
    next
      case False
      with fin have "s' = ?s1" "r = Inr x" by (auto simp: view_finish_def)
      with Inr g show thesis by (intro ran [OF _ f]) simp_all
    qed
  qed
qed

section \<open>The view as a run store\<close>

lemma view_load_iff:
  "view_load ref v i s = Inr j \<longleftrightarrow>
     view_guard ref v i s = Inr () \<and> store_load ref i (sd_store s) = Inr j
     \<and> identity_from_job j = Inr (vw_identity v)"
  by (auto simp: view_load_def bind_res_Inr_iff split: if_splits)

lemma identity_same: "same_identity j k \<Longrightarrow> identity_from_job k = identity_from_job j"
  by (simp add: same_identity_def identity_from_job_def identity_of_job_def job_ids_def)

lemma identity_norm [simp]: "identity_from_job (norm_job k) = identity_from_job k"
  by (simp add: identity_from_job_def)

lemma view_write_behaves:
  assumes f: "well_behaved (store_load ref i) f"
  shows "well_behaved (view_load ref v i) (view_write ref v i f)"
  unfolding well_behaved_def
proof (intro allI impI)
  fix s cur r s'
  assume load: "view_load ref v i s = Inr cur" and w: "view_write ref v i f s = (r, s')"
  from load have g: "view_guard ref v i s = Inr ()" and sl: "store_load ref i (sd_store s) = Inr cur"
    and id: "identity_from_job cur = Inr (vw_identity v)" by (simp_all add: view_load_iff)
  from w show "(\<exists>k. (r = Inr (SW_ACCEPTED, k) \<or> (\<exists>e. r = Inl e)) \<and> succeeds cur k \<and> view_load ref v i s' = Inr (norm_job k))
    \<or> (\<not> was_accepted r \<and> view_load ref v i s' = Inr cur \<and> (\<forall>st k. r = Inr (st, k) \<longrightarrow> k = cur))"
  proof (cases rule: view_write_cases)
    case (guarded e)
    with g show ?thesis by simp
  next
    case (ran r1 st1)
    then have s': "sd_store s' = st1" and g': "view_guard ref v i s' = Inr ()"
      using view_guard_frame [of s' s] by (simp_all add: mirrors_only_def)
    from f sl ran(2) have "(\<exists>k. (r1 = Inr (SW_ACCEPTED, k) \<or> (\<exists>e. r1 = Inl e)) \<and> succeeds cur k \<and> store_load ref i st1 = Inr (norm_job k))
      \<or> (\<not> was_accepted r1 \<and> store_load ref i st1 = Inr cur \<and> (\<forall>st k. r1 = Inr (st, k) \<longrightarrow> k = cur))"
      unfolding well_behaved_def by blast
    then show ?thesis
    proof (elim disjE exE conjE)
      fix k assume k: "succeeds cur k" "store_load ref i st1 = Inr (norm_job k)" "r1 = Inr (SW_ACCEPTED, k)"
      from k(1) id have "identity_from_job k = Inr (vw_identity v)"
        using identity_same [of cur k] by (simp add: succeeds_def)
      with k ran(4) g' s' show ?thesis by (auto simp: view_load_iff)
    next
      fix k e assume k: "succeeds cur k" "store_load ref i st1 = Inr (norm_job k)" "r1 = Inl e"
      from k(1) id have "identity_from_job k = Inr (vw_identity v)"
        using identity_same [of cur k] by (simp add: succeeds_def)
      with k ran(4) g' s' show ?thesis by (auto simp: view_load_iff)
    next
      assume k: "\<not> was_accepted r1" "store_load ref i st1 = Inr cur" "\<forall>st k. r1 = Inr (st, k) \<longrightarrow> k = cur"
      with ran(4) g' s' id show ?thesis by (auto simp: view_load_iff was_accepted_iff)
    qed
  qed
qed

lemma view_store_ops_select [simp]:
  "op_load (view_store_ops ref v) = view_load ref v"
  "op_commit_checkpoint (view_store_ops ref v) = (\<lambda>c e t. view_write ref v (ck_job_id c) (commit_checkpoint ref c e t))"
  "op_commit_step (view_store_ops ref v) = (\<lambda>c m e t. view_write ref v (ck_job_id c) (commit_step ref c m e t))"
  "op_request_cancellation (view_store_ops ref v) = (\<lambda>i e t1 t2. view_write ref v i (request_cancellation ref i e t1 t2))"
  "op_acknowledge (view_store_ops ref v) = (\<lambda>i e b t1 t2. view_write ref v i (acknowledge_cancellation ref i e b t1 t2))"
  "op_transition (view_store_ops ref v) = (\<lambda>i e lc oc re t. view_write ref v i (transition_operational ref i e lc oc re t))"
  "op_record_retry (view_store_ops ref v) = (\<lambda>i e c t. view_write ref v i (record_retry ref i e c t))"
  "op_commit_result (view_store_ops ref v) = (\<lambda>i m e t. view_write ref v i (commit_result ref i m e t))"
  by (simp_all add: view_store_ops_def)

interpretation view_ops: run_store_contract "view_store_ops ref v" "di_job_id (vw_identity v)" for ref v
proof unfold_locales
  fix s j assume "op_load (view_store_ops ref v) (di_job_id (vw_identity v)) s = Inr j"
  then show "wf_job j \<and> jb_job_id j = di_job_id (vw_identity v)"
    using file_ops.load_wf [of ref "di_job_id (vw_identity v)"] by (auto simp add: view_load_iff)
next
  fix c m e t s st k s'
  assume w: "op_commit_step (view_store_ops ref v) c m e t s = (Inr (st, k), s')" and "sw_accepted st"
  then have "view_write ref v (ck_job_id c) (commit_step ref c m e t) s = (Inr (st, k), s')" by simp
  then show "\<exists>x \<in> set (jb_result_markers k). mk_operation_id x = mk_operation_id m"
  proof (cases rule: view_write_cases)
    case (ran r1 st1)
    then show ?thesis using \<open>sw_accepted st\<close> by (auto intro: commit_step_marker)
  qed simp
qed (use file_ops.transition_behaves file_ops.acknowledge_behaves file_ops.retry_behaves
      file_ops.step_behaves file_ops.checkpoint_behaves in \<open>simp_all add: view_write_behaves\<close>)

section \<open>Releasing the slot\<close>

text \<open>
  A finished job does not hold the slot of the normalized state, so only the first branch of
  \<open>release_scoped_slot\<close> is ever taken.
\<close>

lemma release_finished:
  assumes ok: "scope_ok ref ctx s" and job: "abs_jobs ref (sd_store s) (jb_job_id j) = Some k"
    and "terminal_for_admission k"
  obtains raw st s' where "load_normalized ref ctx s = Inr (raw, st)" "persist_if_needed st raw s = (Inr (), s')"
    "release_scoped_slot ref ctx j s = (Inr (), s')" "settled ref ctx st s'" "mirrors_only s s'"
proof -
  obtain raw st s' where l: "load_normalized ref ctx s = Inr (raw, st)"
    and p: "persist_if_needed st raw s = (Inr (), s')" and S: "settled ref ctx st s'"
    by (rule settle [OF ok])
  have "slot_holder ref ctx s \<noteq> Some (jb_job_id j)"
    using slot_holder_job [of ref ctx s "jb_job_id j"] assms(2,3) by auto
  then have "release_scoped_slot ref ctx j s = (Inr (), s')"
    using normalized_state(2) [OF ok l] by (simp add: release_scoped_slot_def l p)
  with l p S persist_mirrors_only(2) [OF p] that show thesis by blast
qed

section \<open>A write through the view\<close>

definition words_clean :: "job \<Rightarrow> bool" where
  "words_clean j \<longleftrightarrow> \<not> list_ex (contains_word paas_forbidden) (job_texts j)"

lemma validate_successor:
  assumes "validate_scoped_job j = Inr ()" and "same_identity j k"
  shows "validate_scoped_job k = (if words_clean k then Inr () else Inl invalid)"
  using assms identity_same [OF assms(2)]
  by (auto simp: validate_scoped_job_def bind_res_Inr_iff same_identity_def words_clean_def job_control_mentions
      split: if_splits)

lemma check_successor:
  assumes c: "check_scoped_job j d r = Inr ()" and same: "same_identity j k"
  shows "check_scoped_job k d r = (if words_clean k then Inr () else Inl invalid)"
proof -
  from c have v: "validate_scoped_job j = Inr ()" by (auto simp: check_scoped_job_def bind_res_Inr_iff)
  from c show ?thesis
    using validate_successor [OF v same] identity_same [OF same] v same
    by (auto simp: check_scoped_job_def bind_res_Inr_iff same_identity_def split: if_splits)
qed

text \<open>The job and the record behind a guarded load.\<close>

lemma view_load_parts:
  assumes ok: "scope_ok ref (vw_context v) s" and load: "view_load ref v (di_job_id (vw_identity v)) s = Inr j"
  defines "i \<equiv> di_job_id (vw_identity v)"
  shows "i \<in> admitted s" "record_of ref (vw_context v) s i = vw_record v" "sj_identity (vw_record v) = vw_identity v"
    "abs_jobs ref (sd_store s) i = Some j" "jb_job_id j = i" "jb_profile j = DURABLE" "wf_job j"
    "check_scoped_job j (vw_identity v) (vw_record v) = Inr ()"
proof -
  from load have g: "view_guard ref v i s = Inr ()" and sl: "store_load ref i (sd_store s) = Inr j"
    by (simp_all add: view_load_iff i_def)
  from g obtain r where r: "read_scoped_record ref (vw_context v) i s = Inr r" "r = vw_record v" "sj_identity r = vw_identity v"
    by (auto simp: view_guard_def binding_guard_def bind_res_Inr_iff i_def split: if_splits)
  from read_admitted [OF r(1)] show i: "i \<in> admitted s" .
  from record_of_eq [OF r(1)] r(2) show rec: "record_of ref (vw_context v) s i = vw_record v" by simp
  from r show id: "sj_identity (vw_record v) = vw_identity v" by simp
  from scope_load [OF sl] show job: "abs_jobs ref (sd_store s) i = Some j" .
  from sl show "jb_job_id j = i" by (simp add: store_load_iff)
  from store_load_wf [OF sl] show "wf_job j" .
  have "jobs_ok ref (vw_context v) s" using ok by (simp add: scope_ok_def)
  with i job rec id show c: "check_scoped_job j (vw_identity v) (vw_record v) = Inr ()"
    unfolding jobs_ok_def by metis
  then show "jb_profile j = DURABLE"
    by (auto simp: check_scoped_job_def validate_scoped_job_def bind_res_Inr_iff split: if_splits)
qed

lemma run_plan_accepted:
  assumes "run_plan ref i plan st = (r, st')" and "sound_plan plan"
  obtains (failed) e where "r = Inl e" "st' = st"
  | (refused) status cur where "r = Inr (status, cur)" "store_load ref i st = Inr cur" "st' = st" "status \<noteq> SW_ACCEPTED"
  | (accepted) cur k where "r = Inr (SW_ACCEPTED, k)" "store_load ref i st = Inr cur" "plan cur = Commit k"
      "succeeds cur k" "st' = store_write k st"
proof (cases "was_accepted r")
  case True
  then obtain k where k: "r = Inr (SW_ACCEPTED, k)" by (auto simp: was_accepted_iff)
  with assms obtain cur where cur: "store_load ref i st = Inr cur" "plan cur = Commit k"
    "commit_job ref k (jb_revision cur) st = (r, st')"
    by (auto simp: run_plan_def sound_plan_def commit_job_def split: sum.splits plan.splits option.splits if_splits)
  from cur(3) have "st' = store_write k st"
  proof (cases rule: commit_job_cases)
    case (refused)
    with k show ?thesis by simp
  qed simp
  moreover have "succeeds cur k"
    using assms(2) cur(1,2) store_load_wf [OF cur(1)] by (auto simp: sound_plan_def)
  ultimately show thesis using accepted k cur by blast
next
  case False
  from assms(1) [unfolded run_plan_update] assms(2) False have "st' = st" "\<forall>status k. r = Inr (status, k) \<longrightarrow> store_load ref i st = Inr k"
    by (cases rule: fs.update_cases; auto simp: was_accepted_iff)+
  with False show thesis
    by (cases r) (auto simp: was_accepted_iff intro: failed refused)
qed

lemma view_guard_record:
  assumes "view_guard ref v i s = Inr ()"
  shows "i = di_job_id (vw_identity v)" "read_scoped_record ref (vw_context v) i s = Inr (vw_record v)"
    "sj_identity (vw_record v) = vw_identity v"
  using assms by (auto simp: view_guard_def binding_guard_def bind_res_Inr_iff split: if_splits)

text \<open>The check of the job a scope stores under an admission.\<close>

lemma stored_check:
  assumes "scope_ok ref ctx s" and "i \<in> admitted s" and "abs_jobs ref (sd_store s) i = Some j"
  shows "check_scoped_job j (sj_identity (record_of ref ctx s i)) (record_of ref ctx s i) = Inr ()"
  using assms unfolding scope_ok_def jobs_ok_def by blast

lemma scope_ok_with_successor:
  assumes ok: "scope_ok ref ctx s" and i: "i \<in> admitted s" and load: "store_load ref i (sd_store s) = Inr cur"
    and k: "succeeds cur k" and clean: "words_clean k"
  shows "scope_ok ref ctx (with_job k s)"
    and "abs_jobs ref (sd_store (with_job k s)) = (abs_jobs ref (sd_store s))(i \<mapsto> norm_job k)"
    and "scope_queue ref ctx (with_job k s) = scope_queue ref ctx s"
proof -
  have same: "same_identity cur k" and wf: "wf_job k" using k by (simp_all add: succeeds_def)
  have c: "check_scoped_job cur (sj_identity (record_of ref ctx s i)) (record_of ref ctx s i) = Inr ()"
    by (rule stored_check [OF ok i scope_load [OF load]])
  have id: "jb_job_id k = i" using load succeeds_same_job [OF k] by (simp add: store_load_iff)
  have "jb_profile k = jb_profile cur" using succeeds_same_job [OF k] by simp
  moreover have "jb_profile cur = DURABLE"
    using c by (auto simp: check_scoped_job_def validate_scoped_job_def bind_res_Inr_iff split: if_splits)
  ultimately have prof: "jb_profile k = DURABLE" by simp
  have "check_scoped_job k (sj_identity (record_of ref ctx s (jb_job_id k))) (record_of ref ctx s (jb_job_id k)) = Inr ()"
    using check_successor [OF c same] clean by (simp add: id)
  from scope_ok_with_job [OF ok wf prof _ this] i
  show "scope_ok ref ctx (with_job k s)"
    and "abs_jobs ref (sd_store (with_job k s)) = (abs_jobs ref (sd_store s))(i \<mapsto> norm_job k)"
    and "scope_queue ref ctx (with_job k s) = scope_queue ref ctx s" by (simp_all add: id)
qed

lemma store_view_same: "s\<lparr>sd_store := sd_store s\<rparr> = s"
  by simp

lemma terminal_norm [simp]: "terminal_for_admission (norm_job k) = terminal_for_admission k"
  by (simp add: terminal_for_admission_def)

text \<open>Whatever the operation answers, the scope stays in order.\<close>

lemma view_write_keeps_scope:
  assumes ok: "scope_ok ref (vw_context v) s" and plan: "sound_plan plan"
    and run: "view_write ref v i (run_plan ref i plan) s = (r, s')"
    and clean: "\<forall>cur k. abs_jobs ref (sd_store s) i = Some cur \<longrightarrow> plan cur = Commit k \<longrightarrow> words_clean k"
  shows "scope_ok ref (vw_context v) s' \<and> sd_records s' = sd_records s
    \<and> scope_queue ref (vw_context v) s' = scope_queue ref (vw_context v) s
    \<and> (case r of
         Inr (SW_ACCEPTED, k) \<Rightarrow> abs_jobs ref (sd_store s') = (abs_jobs ref (sd_store s))(i \<mapsto> norm_job k)
           \<and> (terminal_for_admission k \<longrightarrow> (\<exists>st. settled ref (vw_context v) st s'))
       | _ \<Rightarrow> abs_jobs ref (sd_store s') = abs_jobs ref (sd_store s))"
    (is "?kept s' \<and> _ \<and> ?queue s' \<and> ?jobs s'")
  using run
proof (cases rule: view_write_cases)
  case (guarded e)
  with ok show ?thesis by simp
next
  case (ran r1 st1)
  let ?ctx = "vw_context v"
  have i: "i \<in> admitted s" using view_guard_record(2) [OF ran(1)] by (rule read_admitted)
  from ran(2) plan show ?thesis
  proof (cases rule: run_plan_accepted)
    case (failed e)
    with run ran(1,2) have "r = Inl e" "s' = s"
      by (simp_all add: view_write_def on_store_def then_op_def)
    with ok show ?thesis by simp
  next
    case (refused status cur)
    have job: "abs_jobs ref (sd_store s) i = Some cur" by (rule scope_load [OF refused(2)])
    have id: "jb_job_id cur = i" using refused(2) by (simp add: store_load_iff)
    have fin: "view_finish ref v (status, cur) s = (r, s')"
      using run by (simp add: view_write_def on_store_def then_op_def ran(1,2) refused(1,3))
    show ?thesis
    proof (cases "sw_accepted status \<and> terminal_for_admission cur")
      case True
      obtain raw st s2 where rel: "release_scoped_slot ref ?ctx cur s = (Inr (), s2)" "settled ref ?ctx st s2" "mirrors_only s s2"
        by (rule release_finished [OF ok, of cur cur]) (use job id True in auto)
      with fin True have "s' = s2" "r = Inr (status, cur)" by (simp_all add: view_finish_def then_op_def)
      with rel(2,3) refused(4) scope_view_cong(5) [of s2 s] show ?thesis
        by (auto simp: mirrors_only_def settled_def split: write_status.splits)
    next
      case False
      with fin have "s' = s" "r = Inr (status, cur)" by (auto simp: view_finish_def)
      with ok refused(4) show ?thesis by (auto split: write_status.splits)
    qed
  next
    case (accepted cur k)
    let ?s1 = "with_job k s"
    have job: "abs_jobs ref (sd_store s) i = Some cur" by (rule scope_load [OF accepted(2)])
    note W = scope_ok_with_successor [OF ok i accepted(2,4) clean [rule_format, OF job accepted(3)]]
    have id: "jb_job_id k = i"
      using accepted(2) succeeds_same_job [OF accepted(4)] by (simp add: store_load_iff)
    have fin: "view_finish ref v (SW_ACCEPTED, k) ?s1 = (r, s')"
      using run by (simp add: view_write_def on_store_def then_op_def ran(1,2) accepted(1,5) with_job_def)
    show ?thesis
    proof (cases "terminal_for_admission k")
      case True
      obtain raw st s2 where rel: "release_scoped_slot ref ?ctx k ?s1 = (Inr (), s2)" "settled ref ?ctx st s2" "mirrors_only ?s1 s2"
        by (rule release_finished [OF W(1), of k "norm_job k"]) (use W(2) id True in auto)
      with fin True have "s' = s2" "r = Inr (SW_ACCEPTED, k)"
        by (simp_all add: view_finish_def then_op_def sw_accepted_def)
      with rel(2,3) W(2,3) scope_view_cong(5) [of s2 ?s1] show ?thesis
        by (auto simp: mirrors_only_def settled_def)
    next
      case False
      with fin have "s' = ?s1" "r = Inr (SW_ACCEPTED, k)" by (auto simp: view_finish_def)
      with W False show ?thesis by simp
    qed
  qed
qed

section \<open>A job with a denied word\<close>

lemma map_res_all_fail:
  "\<forall>x \<in> set xs. f x = Inl e \<or> is_ok (f x) \<Longrightarrow> \<exists>x \<in> set xs. f x = Inl e \<Longrightarrow> map_res f xs = Inl e"
proof (induction xs)
  case (Cons a xs)
  then show ?case by (cases "f a") auto
qed simp

lemma read_scoped_records_cong:
  assumes "sd_records s' = sd_records s"
    and "set (map fst (st_files (sd_store s'))) = set (map fst (st_files (sd_store s)))"
    and "\<And>i. path_for (sd_store s') i = path_for (sd_store s) i"
  shows "read_scoped_records ref ctx s' = read_scoped_records ref ctx s"
proof -
  have r: "read_scoped_record ref ctx i s' = read_scoped_record ref ctx i s" for i
    by (rule read_scoped_record_frame [OF assms(1)])
  have "collect_records ref ctx s' acc stems = collect_records ref ctx s acc stems" for acc stems
    by (induction stems arbitrary: acc) (auto simp: r intro!: bind_res_cong split: if_splits)
  moreover have "record_stems s' = record_stems s" using assms(1) by (simp add: record_stems_def)
  ultimately show ?thesis
    using assms(2,3) by (simp add: read_scoped_records_def list_ex_iff del: set_map)
qed

lemma load_scoped_state_cong:
  assumes "read_scoped_records ref ctx s' = read_scoped_records ref ctx s"
    and "sd_control s' = sd_control s" "sd_queue s' = sd_queue s"
  shows "load_scoped_state ref ctx s' = load_scoped_state ref ctx s"
  using assms by (simp add: load_scoped_state_def recover_scoped_state_def split: option.splits)

lemma poisoned_load:
  assumes ok: "scope_ok ref ctx s" and i: "i \<in> admitted s" and load: "store_load ref i (sd_store s) = Inr cur"
    and k: "succeeds cur k" and dirty: "\<not> words_clean k"
  shows "load_normalized ref ctx (with_job k s) = Inl invalid"
proof -
  let ?t = "with_job k s"
  have same: "same_identity cur k" and wf: "wf_job k" using k by (simp_all add: succeeds_def)
  have id: "jb_job_id k = i" using load succeeds_same_job [OF k] by (simp add: store_load_iff)
  have parts: "records_ok ref ctx s" "jobs_ok ref ctx s" using ok by (simp_all add: scope_ok_def)
  have st: "store_ok ref (sd_store s)" using parts(2) by (simp add: jobs_ok_def)
  have c: "check_scoped_job cur (sj_identity (record_of ref ctx s i)) (record_of ref ctx s i) = Inr ()"
    by (rule stored_check [OF ok i scope_load [OF load]])
  then have "jb_profile cur = DURABLE"
    by (auto simp: check_scoped_job_def validate_scoped_job_def bind_res_Inr_iff split: if_splits)
  then have prof: "jb_profile k = DURABLE" using succeeds_same_job [OF k] by simp
  note W = store_ok_write [OF st wf prof]
  have path: "path_for (sd_store ?t) n = path_for (sd_store s) n" for n
    by (simp add: store_write_def path_for_def)
  have "path_for (sd_store s) i \<in> set (map fst (st_files (sd_store s)))"
    using load by (auto simp: store_load_iff image_iff dest!: map_of_SomeD intro!: bexI)
  then have files: "set (map fst (st_files (sd_store ?t))) = set (map fst (st_files (sd_store s)))"
    by (auto simp: store_write_def dom_update id)
  have same_records: "sd_records ?t = sd_records s" by simp
  note frame = scope_view_cong [OF same_records]
  have rs: "read_scoped_records ref ctx ?t = read_scoped_records ref ctx s"
    by (rule read_scoped_records_cong [OF same_records files path])
  obtain raw where raw: "load_scoped_state ref ctx s = Inr raw" "fit_state ref ctx s raw"
    using load_scoped_state_ok [OF ok] by blast
  have l: "load_scoped_state ref ctx ?t = Inr raw"
    using load_scoped_state_cong [OF rs] raw(1) by simp
  let ?rs = "map (\<lambda>i. (i, record_of ref ctx s i)) (record_stems s)"
  let ?load = "load_entry_job ref ?rs (sd_store ?t)"
  have entry: "?load (entry_at ref ctx s n) = Inl invalid \<or> is_ok (?load (entry_at ref ctx s n))"
    and poison: "n = i \<Longrightarrow> ?load (entry_at ref ctx s n) = Inl invalid" if n: "n \<in> admitted s" for n
  proof -
    have rec: "map_of ?rs n = Some (record_of ref ctx s n)"
      using n by (simp add: map_of_map_restrict admitted_def)
    have pend: "load_pending ref n (sd_store ?t) = Inr (abs_jobs ref (sd_store ?t) n)"
      using W(1) admitted_strict [OF parts(1) n] strict_matches by (intro load_pending_abs) simp_all
    have e: "sq_identity (entry_at ref ctx s n) = sj_identity (record_of ref ctx s n)"
      by (simp add: entry_at_def entry_of_def)
    have en: "eid (entry_at ref ctx s n) = n" using parts(1) n by simp
    show p: "?load (entry_at ref ctx s n) = Inl invalid" if "n = i"
    proof -
      have job: "abs_jobs ref (sd_store ?t) n = Some (norm_job k)" using W(2) that id by simp
      have "check_scoped_job (norm_job k) (sj_identity (record_of ref ctx s n)) (record_of ref ctx s n) = Inl invalid"
        using check_successor [OF c same] dirty wf that by (simp add: check_scoped_job_norm)
      with rec pend e en job show ?thesis by (simp add: load_entry_job_def)
    qed
    show "?load (entry_at ref ctx s n) = Inl invalid \<or> is_ok (?load (entry_at ref ctx s n))"
    proof (cases "n = i")
      case False
      then have job: "abs_jobs ref (sd_store ?t) n = abs_jobs ref (sd_store s) n" using W(2) id by simp
      show ?thesis
      proof (cases "abs_jobs ref (sd_store s) n")
        case None
        with rec pend e en job show ?thesis by (simp add: load_entry_job_def)
      next
        case (Some j)
        with rec pend e en job stored_check [OF ok n Some] show ?thesis by (simp add: load_entry_job_def)
      qed
    qed (use p in simp)
  qed
  have "map_res ?load (scope_queue ref ctx s) = Inl invalid"
    by (rule map_res_all_fail) (use entry poison i in \<open>auto simp: set_scope_queue\<close>)
  moreover have "normalize_scoped_state ref raw ?t =
      bind_res (map_res (load_entry_job ref (map (\<lambda>i. (i, record_of ref ctx ?t i)) (record_stems ?t)) (sd_store ?t))
        (scope_queue ref ctx ?t)) (\<lambda>jobs.
      let next_sequence = max (sk_next_sequence raw) (max_sequence (map sq_sequence (scope_queue ref ctx ?t)) + 1) in
      if scope_queue ref ctx ?t = sk_entries raw \<and> first_active jobs = sk_active_job_id raw
         \<and> next_sequence = sk_next_sequence raw
      then Inr raw
      else Inr (raw\<lparr>sk_revision := sk_revision raw + 1, sk_active_job_id := first_active jobs,
                   sk_entries := scope_queue ref ctx ?t, sk_next_sequence := next_sequence\<rparr>))"
    using raw(2) parts(1) read_records [OF parts] rs
    by (intro normalize_entries) (simp_all add: frame fit_state_def)
  ultimately have "normalize_scoped_state ref raw ?t = Inl invalid" by (simp add: frame)
  with l show ?thesis by (simp add: load_normalized_def)
qed

end
