(* ===== verification/Scope_Properties.thy ===== *)
theory Scope_Properties
  imports Paas_View_Laws Paas_Samples Controller_Properties
begin

text \<open>
  What a worker's writes do to a scope, what the durable records of a scope survive, and the limits
  of the identifiers a scope accepts.
\<close>

section \<open>Worker writes\<close>


text \<open>
  Releasing the slot of a finished job is the same as bringing the scope state up to date: the
  branch of the code that looks for another active job and raises the revision is never taken for a
  scope in order.
\<close>

theorem releasing_is_normalizing:
  assumes "scope_ok ref ctx s" and "abs_jobs ref (sd_store s) (jb_job_id j) = Some k" and "terminal_for_admission k"
  shows "\<exists>raw st. load_normalized ref ctx s = Inr (raw, st)
    \<and> release_scoped_slot ref ctx j s = persist_if_needed st raw s
    \<and> sk_active_job_id st = slot_holder ref ctx s \<and> slot_holder ref ctx s \<noteq> Some (jb_job_id j)"
proof -
  obtain raw st s' where l: "load_normalized ref ctx s = Inr (raw, st)" and p: "persist_if_needed st raw s = (Inr (), s')"
    "release_scoped_slot ref ctx j s = (Inr (), s')"
    by (rule release_finished [OF assms])
  have "slot_holder ref ctx s \<noteq> Some (jb_job_id j)"
    using slot_holder_job [of ref ctx s "jb_job_id j"] assms(2,3) by auto
  with l p normalized_state(2) [OF assms(1) l] show ?thesis by simp
qed

section \<open>Denied words\<close>

text \<open>
  The store accepts a step whose result marker names a kind with a denied word in it, such as
  \<open>content-1\<close>; from then on loading the admission state of the whole scope raises EXECUTION_INVALID,
  so every submission, claim and queue view of the scope fails.
\<close>

theorem denied_word_in_a_marker_blocks_the_scope:
  assumes ok: "scope_ok ref (vw_context v) s" and c: "wf_checkpoint c" "wf_marker m"
    and run: "op_commit_step (view_store_ops ref v) c m e t s = (Inr (SW_ACCEPTED, k), s')"
    and live: "\<not> terminal_for_admission k" and word: "contains_word paas_forbidden (mk_result_kind m)"
    and worker: "strict_identifier w" "runtime_environment rt = Inr env"
  shows "load_normalized ref (vw_context v) s' = Inl invalid
    \<and> queue_scoped ref (vw_context v) s' = (Inl invalid, s')
    \<and> claim_next_scoped ref (vw_context v) w rt s' = (Inl invalid, s')
    \<and> (\<forall>pol j d refs now. submit_locked ref pol (vw_context v) j rt env d refs now s' = (Inl invalid, s'))"
proof -
  let ?i = "ck_job_id c" and ?plan = "plan_step c m e t"
  have w: "view_write ref v ?i (run_plan ref ?i ?plan) s = (Inr (SW_ACCEPTED, k), s')"
    using run by (simp add: commit_step_def)
  then have "load_normalized ref (vw_context v) s' = Inl invalid"
  proof (cases rule: view_write_cases)
    case (ran r1 st1)
    have i: "?i \<in> admitted s" using view_guard_record(2) [OF ran(1)] by (rule read_admitted)
    from ran(2) sound_plan_step [OF c] show ?thesis
    proof (cases rule: run_plan_accepted)
      case (accepted cur k')
      with ran(4) have k: "k' = k" by auto
      have "s' = with_job k s"
        using w live by (simp add: view_write_def on_store_def then_op_def ran(1,2) accepted(1,5) k view_finish_def with_job_def)
      moreover have "\<not> words_clean k"
      proof -
        have "m \<in> set (jb_result_markers k)"
          using accepted(3) k
          by (auto simp: plan_step_def dest!: commit_candidate_markers split: sum.splits option.splits if_splits)
        then have "mk_result_kind m \<in> set (job_texts k)"
          by (auto simp: job_texts_def marker_texts_def)
        with word show ?thesis by (auto simp: words_clean_def list_ex_iff)
      qed
      ultimately show ?thesis using poisoned_load [OF ok i accepted(2) accepted(4)] k by simp
    qed (use ran(4) in auto)
  qed simp
  then show ?thesis
    using worker by (simp add: queue_scoped_def claim_next_scoped_def submit_locked_def)
qed

section \<open>Witnesses\<close>

text \<open>An operational transition adds a time to a job, and times mention no word.\<close>

lemma clean_operational:
  assumes "words_clean j" and "wf_job j" and "matches_timestamp now" and "plan_operational e lc oc re now j = Commit k"
  shows "words_clean k"
proof -
  obtain oc' re' where "job_post_init (j\<lparr>jb_lifecycle := lc, jb_terminal_outcome := oc', jb_resume_eligibility := re',
      jb_revision := jb_revision j + 1, jb_updated_at := Some now\<rparr>) = Inr k"
    using assms(4) by (auto simp: plan_operational_def Let_def commit_candidate_iff split: if_splits)
  moreover note wf_job_bind [OF assms(2)]
  ultimately have "k = j\<lparr>jb_lifecycle := lc, jb_terminal_outcome := oc', jb_resume_eligibility := re',
      jb_revision := jb_revision j + 1, jb_updated_at := Some now\<rparr>" by (auto simp: job_post_init_iff)
  with assms(1) timestamp_clean [OF assms(3)] show ?thesis
    by (auto simp: words_clean_def job_texts_def opt_texts_def checkpoint_texts_def)
qed

lemma words_clean_norm: "wf_job j \<Longrightarrow> words_clean (norm_job j) = words_clean j"
  by (simp add: words_clean_def job_control_mentions [symmetric] job_control_json_def job_as_dict_norm)

lemma bound_job_clean: "i \<in> sample_ids \<Longrightarrow> words_clean (bound_job i lc)"
  using validate_bound_job [of i lc]
  by (auto simp: validate_scoped_job_def words_clean_def job_control_mentions bind_res_Inr_iff split: if_splits)


theorem releasing_is_normalizing_witness:
  "\<exists>(s :: scope_dir) raw st. load_normalized sample_ref sample_ctx s = Inr (raw, st)
     \<and> release_scoped_slot sample_ref sample_ctx (bound_job ''job-1'' L_CANCELED) s = persist_if_needed st raw s"
proof -
  let ?j = "bound_job ''job-1'' L_CANCELED"
  obtain st s where s: "scope_ok sample_ref sample_ctx s"
    "abs_jobs sample_ref (sd_store s) ''job-1'' = Some (norm_job ?j)"
    by (rule submitted_scope)
  have "jb_job_id ?j = ''job-1''" "terminal_for_admission (norm_job ?j)"
    by (simp_all add: bound_job_def plain_job_def sample_job_def terminal_for_admission_def sample_outcome_def)
  with s releasing_is_normalizing [of sample_ref sample_ctx s ?j "norm_job ?j"] show ?thesis by auto
qed

theorem denied_word_in_a_marker_blocks_the_scope_witness:
  "\<exists>s s' :: scope_dir. scope_ok sample_ref sample_ctx s
     \<and> queue_scoped sample_ref sample_ctx s' = (Inl invalid, s')"
proof -
  let ?j = "norm_job (bound_job ''job-1'' L_RUNNING)" and ?v = "sample_view L_RUNNING"
  let ?c = "(sample_checkpoint 1)\<lparr>ck_environment_identity_sha256 := env_identity_sha256 sample_env\<rparr>"
  let ?m = "(sample_marker ''op-1'')\<lparr>mk_result_kind := ''content-1''\<rparr>"
  obtain st s where s: "scope_ok sample_ref sample_ctx s" "sd_audits s = NoAudits"
    "abs_jobs sample_ref (sd_store s) ''job-1'' = Some ?j"
    "read_scoped_record sample_ref sample_ctx ''job-1'' s = Inr (sample_record L_RUNNING)"
    by (rule submitted_scope)
  have load: "store_load sample_ref ''job-1'' (sd_store s) = Inr ?j"
    using s(3) by (cases "store_load sample_ref ''job-1'' (sd_store s)") (simp_all add: abs_jobs_def)
  have c: "wf_checkpoint ?c" "ck_ids ?c = job_ids ?j" "ck_revision ?c = ck_revision (jb_checkpoint ?j) + 1"
    "ck_environment_identity_sha256 ?c = (case jb_environment ?j of None \<Rightarrow> [] | Some e \<Rightarrow> env_identity_sha256 e)"
    using wf_sample_checkpoint [of 1]
    by (simp_all add: wf_checkpoint_def checkpoint_post_init_iff env_identity_sha256_def bound_job_def
        plain_job_def sample_job_def sample_checkpoint_def ck_ids_def job_ids_def)
  have m: "wf_marker ?m" by (simp add: wf_marker_def marker_post_init_def sample_marker_def timestamp_ok_def
        list_all_iff pattern_defs char_defs)
  have fresh: "mk_operation_id ?m \<notin> mk_operation_id ` set (jb_result_markers ?j)"
    and room: "length (jb_result_markers ?j) < max_result_markers" and rev: "jb_revision ?j = 0"
    by (simp_all add: bound_job_def plain_job_def sample_job_def max_result_markers_def)
  from step_accepted [OF load c m fresh room noon_ok] obtain k st' where
    k: "commit_step sample_ref ?c ?m 0 noon (sd_store s) = (Inr (SW_ACCEPTED, k), st')" "jb_lifecycle k = L_RUNNING"
    by (auto simp: rev) (simp add: bound_job_def plain_job_def sample_job_def)
  have live: "\<not> terminal_for_admission k" by (simp add: terminal_for_admission_def k(2))
  have id: "ck_job_id ?c = ''job-1''" by (simp add: sample_checkpoint_def)
  have run: "op_commit_step (view_store_ops sample_ref ?v) ?c ?m 0 noon s = (Inr (SW_ACCEPTED, k), s\<lparr>sd_store := st'\<rparr>)"
    using sample_view_guard [OF s(4,2)] k(1) live
    by (simp add: id [simplified] view_write_def on_store_def then_op_def view_finish_def)
  have word: "contains_word paas_forbidden (mk_result_kind ?m)"
    by (simp add: contains_word_def paas_forbidden_def char_defs)
  have worker: "strict_identifier ''run-1''" using sample_strict by simp
  have "scope_ok sample_ref (vw_context ?v) s" using s(1) by simp
  from denied_word_in_a_marker_blocks_the_scope [OF this c(1) m run live word worker sample_runtime_wf(2)] s(1)
  show ?thesis by auto
qed

end
