(* ===== verification/Record_Properties.thy ===== *)
theory Record_Properties
  imports Paas_View_Laws Paas_Samples
begin

text \<open>
  Properties of what a scope keeps on disk (control state, admission record), of the identifiers
  it accepts, and of the deterministic reference engine.
\<close>

section \<open>Control state and admission records\<close>

text \<open>
  C12: A well-formed admission state and a well-formed admission record survive the JSON form in
  which a scope stores them; of the record only the runtime's own environment is dropped (the
  record keeps the environment in a field of its own).
\<close>

theorem scope_files_round_trip:
  assumes "wf_control st" and "wf_scoped_record r"
  shows "control_from_dict (control_as_dict st) = Inr st
    \<and> scoped_record_from_dict ref (scoped_record_as_dict r) = Inr (r\<lparr>sj_runtime := (sj_runtime r)\<lparr>ri_environment := None\<rparr>\<rparr>)"
  using control_round_trip [OF assms(1)] scoped_record_round_trip [OF assms(2), of ref]
  by (simp add: stored_record_def stored_runtime_def)

lemma sample_files_ok: "wf_control sample_state" "wf_scoped_record (sample_record L_QUEUED)"
proof -
  show "wf_control sample_state" by (rule settled_normal(2) [OF settled_empty [of sample_ref]])
  obtain st s where "scope_ok sample_ref sample_ctx s"
    and read: "read_scoped_record sample_ref sample_ctx ''job-1'' s = Inr (sample_record L_QUEUED)"
    by (rule first_submission)
  from read show "wf_scoped_record (sample_record L_QUEUED)"
    by (auto simp: read_scoped_record_iff intro: scoped_record_from_dict_wf)
qed

lemma sample_files_decode:
  "control_from_dict (control_as_dict sample_state) = Inr sample_state"
  "scoped_record_from_dict sample_ref (scoped_record_as_dict (sample_record L_QUEUED))
    = Inr (stored_record (sample_record L_QUEUED))"
  using control_round_trip [OF sample_files_ok(1)] scoped_record_round_trip [OF sample_files_ok(2)] by simp_all

theorem scope_files_round_trip_witness:
  "control_from_dict (control_as_dict sample_state) = Inr sample_state
    \<and> scoped_record_from_dict sample_ref (scoped_record_as_dict (sample_record L_QUEUED)) = Inr (sample_record L_QUEUED)"
  using scope_files_round_trip [OF sample_files_ok, of sample_ref]
  by (simp add: stored_record_def stored_runtime_def)

text \<open>
  C13: Whatever JSON a scope's files hold, an admission state that is read from it has its queue in
  strictly rising admission order, no job twice, no entry of another scope, its active job among
  the entries and its next sequence above all of them; a record that is read from it has an
  identity, a runtime, a complete environment and references of one and the same scope.
\<close>

theorem decoded_scope_files_are_well_formed:
  assumes "control_from_dict v = Inr st" and "scoped_record_from_dict ref w = Inr r"
  shows "sorted (map sq_sequence (sk_entries st)) \<and> distinct (map sq_sequence (sk_entries st))
    \<and> distinct (map (\<lambda>e. di_job_id (sq_identity e)) (sk_entries st))
    \<and> (\<forall>e. e \<in> set (sk_entries st) \<longrightarrow> 1 \<le> sq_sequence e \<and> sq_sequence e < sk_next_sequence st
          \<and> di_scope_ref (sq_identity e) = sc_scope_ref (sk_scope st) \<and> wf_identity (sq_identity e))
    \<and> (\<forall>i. sk_active_job_id st = Some i \<longrightarrow> i \<in> (\<lambda>e. di_job_id (sq_identity e)) ` set (sk_entries st))
    \<and> wf_identity (sj_identity r) \<and> wf_runtime (sj_runtime r) \<and> valid_environment (sj_environment r)
    \<and> di_scope_ref (sj_identity r) = sc_scope_ref (sj_scope r)
    \<and> ar_scope_ref (sj_references r) = sc_scope_ref (sj_scope r)
    \<and> matches_timestamp (sj_submitted_at r)"
proof -
  have st: "wf_control st" by (rule control_from_dict_wf [OF assms(1)])
  have r: "wf_scoped_record r" by (rule scoped_record_from_dict_wf [OF assms(2)])
  have "sq_sequence e \<le> max_sequence (map sq_sequence (sk_entries st))" if "e \<in> set (sk_entries st)" for e
    using that by (intro max_sequence_ge) simp
  with st have "\<forall>e. e \<in> set (sk_entries st) \<longrightarrow> 1 \<le> sq_sequence e \<and> sq_sequence e < sk_next_sequence st
          \<and> di_scope_ref (sq_identity e) = sc_scope_ref (sk_scope st) \<and> wf_identity (sq_identity e)"
    by (fastforce simp: wf_control_def control_checks_def Let_def list_all_iff list_ex_iff wf_queue_record_def)
  moreover have "sorted (map sq_sequence (sk_entries st)) \<and> distinct (map sq_sequence (sk_entries st))
      \<and> distinct (map (\<lambda>e. di_job_id (sq_identity e)) (sk_entries st))
      \<and> (\<forall>i. sk_active_job_id st = Some i \<longrightarrow> i \<in> (\<lambda>e. di_job_id (sq_identity e)) ` set (sk_entries st))"
    using st by (auto simp: wf_control_def control_checks_def Let_def)
  ultimately show ?thesis using r by (simp add: wf_scoped_record_def)
qed

theorem decoded_scope_files_are_well_formed_witness:
  "\<exists>st r. control_from_dict (control_as_dict sample_state) = Inr st
    \<and> scoped_record_from_dict sample_ref (scoped_record_as_dict (sample_record L_QUEUED)) = Inr r
    \<and> distinct (map sq_sequence (sk_entries st)) \<and> wf_runtime (sj_runtime r)"
proof -
  note rt = sample_files_decode
  from decoded_scope_files_are_well_formed [OF rt] rt show ?thesis by blast
qed

section \<open>Identifiers\<close>

text \<open>
  The references of a job are built from its identifiers, and a scope accepts them only up to
  256 characters: a job whose job and run identifiers, each valid with up to 128 characters, have
  together more than 198 is refused with EXECUTION_INVALID; every shorter one has references.
\<close>

theorem long_identifiers_have_no_references:
  assumes "wf_identity d" and "validate_scoped_identity d = Inr ()"
  shows "if length (di_job_id d) + length (di_run_id d) \<le> 198
    then is_ok (scoped_references ctx d) else scoped_references ctx d = Inl invalid"
proof -
  have "length (di_job_id d) \<le> 128"
    using assms(1) by (auto simp: wf_identity_def identity_post_init_def strict_identifier_def
        matches_identifier_length split: if_splits)
  then have iff: "is_ok (scoped_references ctx d) \<longleftrightarrow> length (di_job_id d) + length (di_run_id d) \<le> 198"
    using scoped_references_iff [OF assms(2), of ctx] by simp
  have "e = invalid" if "scoped_references ctx d = Inl e" for e
    using that by (auto simp: scoped_references_def artifact_refs_post_init_def artifact_identity_checks_def
        Let_def split: if_splits)
  with iff show ?thesis by (cases "scoped_references ctx d") auto
qed

definition long_identity :: job_identity where
  "long_identity = \<lparr>di_run_id = replicate 100 (CHR ''0''), di_job_id = replicate 100 (CHR ''1''),
     di_execution_id = ''execution-1'', di_scope_ref = ''scope-1'', di_store_ref = ''store-1'',
     di_contract_version = ''1.0''\<rparr>"

theorem long_identifiers_have_no_references_witness:
  "scoped_references sample_ctx long_identity = Inl invalid"
proof -
  have strict: "strict_identifier (replicate 100 c)" if "is_digit_char c" for c
  proof -
    from that have alnum: "is_alnum_char c" and hex: "is_hex_char c" by (auto simp: char_defs)
    have "\<not> contains_word paas_forbidden (replicate 100 c)"
      using hex by (intro contains_word_hex [OF forbidden_not_hex]) (simp add: list_all_iff)
    moreover have "matches_identifier (c # replicate 99 c)"
      using alnum by (simp add: matches_identifier_def list_all_iff)
    moreover have "replicate 100 c = c # replicate 99 c" using replicate_Suc [of 99 c] by simp
    ultimately show ?thesis by (simp add: strict_identifier_def)
  qed
  have ids: "strict_identifier (replicate 100 (CHR ''0''))" "strict_identifier (replicate 100 (CHR ''1''))"
    by (rule strict, simp add: char_defs)+
  have names: "strict_identifier ''execution-1''" "strict_identifier ''scope-1''" "strict_identifier ''store-1''"
    using sample_strict by simp_all
  then have "wf_identity long_identity"
    using ids by (simp add: wf_identity_def identity_post_init_def long_identity_def)
      (simp add: strict_identifier_def)
  moreover have "validate_scoped_identity long_identity = Inr ()"
    using ids names by (simp add: validate_scoped_identity_def long_identity_def strict_identifier_safe)
  ultimately show ?thesis
    using long_identifiers_have_no_references [of long_identity sample_ctx] by (simp add: long_identity_def)
qed

section \<open>The reference engine\<close>

lemma unit_name:
  assumes "0 \<le> i" and "i \<le> 100001"
  shows "matches_identifier (''unit-'' @ pad6 i)"
proof -
  have "nat i < 10 ^ 6" using assms by simp
  then have "length (nat_text (nat i)) \<le> 6" by (rule nat_text_length) simp
  moreover have "list_all (\<lambda>c. is_alnum_char c \<or> c \<in> set ''_.:-'') (pad6 i)"
  proof -
    have zero: "is_digit_char (CHR ''0'')" by (simp add: char_defs)
    have "list_all is_digit_char (pad6 i)"
      using assms(1) nat_text_digits [of "nat i"] zero by (auto simp: pad6_def int_text_def Let_def list_all_iff)
    then show ?thesis by (auto simp: list_all_iff is_alnum_char_def)
  qed
  moreover have "length (pad6 i) \<le> max 6 (length (nat_text (nat i)))"
    using assms(1) by (simp add: pad6_def int_text_def Let_def)
  ultimately show ?thesis by (simp add: matches_identifier_def char_defs)
qed

lemma reference_step_result:
  assumes c: "wf_checkpoint c" and op: "matches_identifier op"
  defines "n \<equiv> min (pg_total_work_units (ck_progress c)) (pg_completed_work_units (ck_progress c) + 1)"
  shows "\<exists>d m. reference_step c op = Inr (d, Some m) \<and> wf_checkpoint d \<and> wf_marker m \<and> mk_operation_id m = op
    \<and> ck_ids d = ck_ids c \<and> ck_revision d = ck_revision c + 1
    \<and> pg_completed_work_units (ck_progress d) = n
    \<and> pg_total_work_units (ck_progress d) = pg_total_work_units (ck_progress c)
    \<and> ck_engine_phase d = (if n = pg_total_work_units (ck_progress c) then phase_value COMPLETE else phase_value TRANSLATING)"
proof -
  let ?p = "ck_progress c"
  let ?fin = "n \<ge> pg_total_work_units ?p"
  let ?phase = "if ?fin then phase_value COMPLETE else phase_value TRANSLATING"
  let ?q = "\<lparr>pg_engine_stage = ?phase, pg_completed_work_units = n, pg_total_work_units = pg_total_work_units ?p,
      pg_current_work_unit = (if ?fin then None else Some (''unit-'' @ pad6 (n + 1)))\<rparr>"
  let ?d = "c\<lparr>ck_revision := ck_revision c + 1, ck_engine_phase := ?phase, ck_progress := ?q,
      ck_resume_eligibility := (if ?fin then RE_NOT_ELIGIBLE else RE_ELIGIBLE), ck_checkpoint_sha256 := []\<rparr>"
  let ?m = "\<lparr>mk_operation_id = op, mk_result_kind = ''reference-result'',
      mk_result_sha256 = stable_revision (JObj [(''operation_id'', JStr op), (''checkpoint_revision'', JInt (ck_revision ?d))]),
      mk_attempt = 0, mk_committed_at = Some []\<rparr>"
  have range: "0 \<le> pg_completed_work_units ?p" "pg_completed_work_units ?p \<le> pg_total_work_units ?p"
    "pg_total_work_units ?p \<le> 100000"
    using c by (auto simp: wf_checkpoint_def progress_post_init_def split: if_splits)
  then have n: "0 \<le> n" "n \<le> pg_total_work_units ?p" by (simp_all add: n_def)
  have phase: "matches_phase ?phase" by (simp add: pattern_defs char_defs)
  then have q: "progress_post_init ?q = Inr ?q"
    using range n unit_name [of "n + 1"] by (simp add: progress_post_init_def)
  have d: "checkpoint_post_init ?d = Inr ?d"
    using c phase by (auto simp: wf_checkpoint_def checkpoint_post_init_iff)
  have m: "marker_post_init ?m = Inr ?m"
  proof -
    have "matches_identifier ''reference-result''" by (simp add: pattern_defs char_defs)
    with op show ?thesis by (simp add: marker_post_init_def timestamp_ok_def)
  qed
  have "reference_step c op = Inr (?d, Some ?m)"
    unfolding reference_step_def Let_def n_def [symmetric] q bind_res.simps d m ..
  moreover have "?fin \<longleftrightarrow> n = pg_total_work_units ?p" using n by auto
  ultimately show ?thesis
    using q d m by (intro exI [of _ ?d] exI [of _ ?m]) (auto simp: wf_checkpoint_def wf_marker_def ck_ids_def)
qed

text \<open>
  Stepping the engine until it reports \<open>COMPLETE\<close>, counting the steps; the loop has no bound of its own.
\<close>

partial_function (option) reference_loop ::
  "(int \<Rightarrow> string) \<Rightarrow> nat \<Rightarrow> checkpoint \<Rightarrow> (nat \<times> checkpoint) res option"
where
  "reference_loop op k c =
     (case reference_step c (op (ck_revision c + 1)) of
        Inl e \<Rightarrow> Some (Inl e)
      | Inr (d, m) \<Rightarrow>
          if ck_engine_phase d = phase_value COMPLETE then Some (Inr (k + 1, d))
          else reference_loop op (k + 1) d)"

definition remaining_units :: "checkpoint \<Rightarrow> nat" where
  "remaining_units c = nat (pg_total_work_units (ck_progress c) - pg_completed_work_units (ck_progress c))"

text \<open>
  C14: The reference engine terminates: from any well-formed checkpoint, stepping it until it
  reports COMPLETE returns, after as many steps as there are work units left and at least one, with
  every unit completed and the checkpoint revision raised by one per step.
\<close>

theorem reference_engine_terminates:
  assumes "wf_checkpoint c" and "\<forall>i. matches_identifier (op i)"
  shows "\<exists>d. reference_loop op k c = Some (Inr (k + max 1 (remaining_units c), d))
    \<and> ck_engine_phase d = phase_value COMPLETE \<and> ck_ids d = ck_ids c
    \<and> pg_completed_work_units (ck_progress d) = pg_total_work_units (ck_progress c)
    \<and> ck_revision d = ck_revision c + int (max 1 (remaining_units c))"
  using assms(1)
proof (induction "remaining_units c" arbitrary: c k rule: less_induct)
  case less
  let ?t = "pg_total_work_units (ck_progress c)" and ?n = "pg_completed_work_units (ck_progress c)"
  have le: "?n \<le> ?t" using less(2) by (auto simp: wf_checkpoint_def progress_post_init_def split: if_splits)
  obtain d m where d: "reference_step c (op (ck_revision c + 1)) = Inr (d, Some m)" "wf_checkpoint d"
    "ck_ids d = ck_ids c" "ck_revision d = ck_revision c + 1" "pg_total_work_units (ck_progress d) = ?t"
    and n: "pg_completed_work_units (ck_progress d) = min ?t (?n + 1)"
    and ph: "ck_engine_phase d = (if min ?t (?n + 1) = ?t then phase_value COMPLETE else phase_value TRANSLATING)"
    using reference_step_result [OF less(2), of "op (ck_revision c + 1)"] assms(2) by auto
  show ?case
  proof (cases "?t \<le> ?n + 1")
    case True
    then have "remaining_units c \<le> 1" by (simp add: remaining_units_def)
    with True d n ph show ?thesis by (simp add: reference_loop.simps [of op k c] max_def)
  next
    case False
    then have r: "remaining_units c = Suc (remaining_units d)" "0 < remaining_units d"
      using d(5) n by (simp_all add: remaining_units_def)
    from less(1) [OF _ d(2), of "k + 1"] r(1) obtain f where
      f: "reference_loop op (k + 1) d = Some (Inr (k + 1 + max 1 (remaining_units d), f))" "ck_engine_phase f = phase_value COMPLETE"
        "ck_ids f = ck_ids d" "pg_completed_work_units (ck_progress f) = pg_total_work_units (ck_progress d)"
        "ck_revision f = ck_revision d + int (max 1 (remaining_units d))" by auto
    have "phase_value TRANSLATING \<noteq> phase_value COMPLETE" by simp
    with False d ph f r show ?thesis by (simp add: reference_loop.simps [of op k c])
  qed
qed

theorem reference_engine_terminates_witness:
  "\<exists>d. reference_loop (\<lambda>_. ''op-1'') 0 (sample_checkpoint 0) = Some (Inr (2, d)) \<and> ck_engine_phase d = ''COMPLETE''"
proof -
  have op: "\<forall>i :: int. matches_identifier ''op-1''" by (simp add: pattern_defs char_defs)
  have "remaining_units (sample_checkpoint 0) = 2"
    by (simp add: remaining_units_def sample_checkpoint_def sample_progress_def)
  with reference_engine_terminates [OF wf_sample_checkpoint op, of 0 0] show ?thesis by (auto simp: numeral_2_eq_2)
qed

end
