(* ===== verification/Control_Signature.thy ===== *)
theory Control_Signature
  imports Environment Work_Queue "HOL-Library.List_Lexorder"
begin

text \<open>
  What the deployment control documents of \<open>src/k_slide/rollout.py\<close> and
  \<open>src/k_slide/candidate_revocation.py\<close> share: the HMAC-SHA-256 signature over the canonical JSON
  of a payload, the timestamps (Python's aware \<open>datetime\<close> in UTC), the name and digest patterns, and
  the binding that names one candidate.
\<close>

section \<open>Errors\<close>

text \<open>
  \<open>CandidateRevocationError\<close> is a subclass of \<open>RolloutControlError\<close>; \<open>Control_TypeError\<close> is
  Python's \<open>TypeError\<close> (an unhashable value in a set test), \<open>Control_Overflow\<close> its \<open>OverflowError\<close>,
  \<open>Control_Storage\<close> the \<open>KSlideError\<close> of \<open>read_json\<close>.
\<close>

datatype control_err = Rollout_Error | Revocation_Error | Control_TypeError | Control_Overflow | Control_Storage

definition is_rollout_error :: "control_err \<Rightarrow> bool" where
  "is_rollout_error e \<longleftrightarrow> e = Rollout_Error \<or> e = Revocation_Error"

section \<open>HMAC\<close>

definition bytes_of_word :: "w32 \<Rightarrow> string" where
  "bytes_of_word w = map (\<lambda>i. char_of (unat w div 256 ^ (3 - i))) [0..<4]"

definition sha256_digest :: "string \<Rightarrow> string" where
  "sha256_digest s =
     (let ws = words_of_bytes (sha_pad s)
      in concat (map bytes_of_word (sha_blocks (length ws div 16) ws sha_init)))"

definition xor_byte :: "nat \<Rightarrow> char \<Rightarrow> char" where
  "xor_byte pad c = char_of (xor pad (code_of c))"

definition hmac_block :: "string \<Rightarrow> string" where
  "hmac_block k = (let k0 = (if length k > 64 then sha256_digest k else k)
     in k0 @ replicate (64 - length k0) (char_of (0::nat)))"

definition hmac_hex :: "string \<Rightarrow> string \<Rightarrow> string" where
  "hmac_hex k m =
     (let k0 = hmac_block k in
      sha256_hex (map (xor_byte 92) k0 @ sha256_digest (map (xor_byte 54) k0 @ m)))"

section \<open>Signed documents\<close>

text \<open>\<open>_canonical\<close>.\<close>

definition canonical :: "json \<Rightarrow> string" where
  "canonical v = encode_json (sort_keys v)"

text \<open>\<open>_key\<close>, \<open>_signature\<close>, \<open>_signed\<close> and \<open>_verify_signed\<close>; \<open>e\<close> is the module's exception.\<close>

definition good_key :: "string \<Rightarrow> bool" where
  "good_key key \<longleftrightarrow> 32 \<le> length key"

definition signature :: "control_err \<Rightarrow> json \<Rightarrow> string \<Rightarrow> control_err + string" where
  "signature e payload key = (if good_key key then Inr (hmac_hex key (canonical payload)) else Inl e)"

definition signed :: "control_err \<Rightarrow> json \<Rightarrow> string \<Rightarrow> control_err + json" where
  "signed e payload key =
     bind_res (signature e payload key) (\<lambda>sig. Inr (JObj [(''payload'', payload), (''signature'', JStr sig)]))"

definition verify_signed :: "control_err \<Rightarrow> json \<Rightarrow> string \<Rightarrow> control_err + (string \<times> json) list" where
  "verify_signed e v key =
     (case v of
        JObj kvs \<Rightarrow>
          if keys_of kvs \<noteq> {''payload'', ''signature''} then Inl e
          else (case field_or JNull ''payload'' kvs of
             JObj payload \<Rightarrow>
               bind_res (signature e (JObj payload) key) (\<lambda>expected.
                 if field_or JNull ''signature'' kvs = JStr expected then Inr payload else Inl e)
           | _ \<Rightarrow> Inl e)
      | _ \<Rightarrow> Inl e)"

text \<open>\<open>hashlib.sha256(_canonical(payload)).hexdigest()\<close>.\<close>

definition payload_identity :: "json \<Rightarrow> string" where
  "payload_identity v = sha256_hex (canonical v)"

lemma payload_identity_revision: "payload_identity v = stable_revision v"
  by (simp add: payload_identity_def canonical_def stable_revision_def)

lemma payload_identity_hex [simp]: "matches_sha256 (payload_identity v)"
  by (simp add: payload_identity_revision)

lemma verify_signed_payload:
  "signed e (JObj p) key = Inr v \<Longrightarrow> verify_signed e' v key = Inr p"
  by (auto simp: signed_def signature_def verify_signed_def bind_res_Inr_iff keys_of_def field_or_def split: if_splits)

lemma signed_ok: "good_key key \<Longrightarrow> \<exists>v. signed e p key = Inr v"
  by (simp add: signed_def signature_def)

lemma verify_signed_key: "verify_signed e v key = Inr p \<Longrightarrow> good_key key"
  by (auto simp: verify_signed_def signature_def bind_res_Inr_iff split: json.splits if_splits)

section \<open>Names and digests\<close>

definition matches_name :: "string \<Rightarrow> bool" where
  "matches_name =
     head_tail_match is_lower_char (\<lambda>c. is_lower_char c \<or> is_digit_char c \<or> c \<in> set ''_.-'') 63"

definition digest_of :: "control_err \<Rightarrow> json \<Rightarrow> control_err + string" where
  "digest_of e v = (case v of JStr s \<Rightarrow> if matches_sha256 s then Inr s else Inl e | _ \<Rightarrow> Inl e)"

definition name_of :: "control_err \<Rightarrow> json \<Rightarrow> control_err + string" where
  "name_of e v = (case v of JStr s \<Rightarrow> if matches_name s then Inr s else Inl e | _ \<Rightarrow> Inl e)"

text \<open>An int that is not a bool, and not below a bound.\<close>

definition int_from :: "control_err \<Rightarrow> int \<Rightarrow> json \<Rightarrow> control_err + int" where
  "int_from e low v = (case v of JInt i \<Rightarrow> if i < low then Inl e else Inr i | _ \<Rightarrow> Inl e)"

text \<open>\<open>value in {...}\<close>: lists and objects are unhashable.\<close>

definition in_set :: "json \<Rightarrow> string list \<Rightarrow> control_err + bool" where
  "in_set v names =
     (case v of
        JStr s \<Rightarrow> Inr (s \<in> set names)
      | JArr _ \<Rightarrow> Inl Control_TypeError
      | JObj _ \<Rightarrow> Inl Control_TypeError
      | _ \<Rightarrow> Inr False)"

fun strs_of :: "json list \<Rightarrow> string list option" where
  "strs_of [] = Some []"
| "strs_of (JStr s # vs) = map_option (\<lambda>ss. s # ss) (strs_of vs)"
| "strs_of (v # vs) = None"

lemma strs_of_JStr [simp]: "strs_of (map JStr ss) = Some ss"
  by (induction ss) simp_all

lemma strs_of_Some: "strs_of vs = Some ss \<longleftrightarrow> vs = map JStr ss"
proof (induction vs arbitrary: ss rule: strs_of.induct)
  case (2 s vs)
  then show ?case by (cases ss) auto
qed auto

text \<open>\<open>xs == sorted(set(xs))\<close> for strings: strictly rising in code point order.\<close>

definition str_less :: "string \<Rightarrow> string \<Rightarrow> bool" where
  "str_less s t \<longleftrightarrow> str_le s t \<and> s \<noteq> t"

definition rising :: "string list \<Rightarrow> bool" where
  "rising = sorted_wrt str_less"

fun insert_str :: "string \<Rightarrow> string list \<Rightarrow> string list" where
  "insert_str s [] = [s]"
| "insert_str s (t # ts) =
     (if s = t then t # ts else if str_le s t then s # t # ts else t # insert_str s ts)"

text \<open>\<open>sorted(set(xs))\<close>.\<close>

definition sorted_set :: "string list \<Rightarrow> string list" where
  "sorted_set xs = foldr insert_str xs []"

lemma set_insert_str [simp]: "set (insert_str s ts) = insert s (set ts)"
  by (induction s ts rule: insert_str.induct) auto

lemma str_le_antisym: "str_le s t \<Longrightarrow> str_le t s \<Longrightarrow> s = t"
proof (induction s t rule: str_le.induct)
  case (1 t)
  then show ?case by (cases t) auto
qed auto

lemma str_le_cases: "str_le s t \<or> (str_le t s \<and> s \<noteq> t)"
  using str_le_total by auto

lemma rising_insert_str: "rising ts \<Longrightarrow> rising (insert_str s ts)"
proof (induction s ts rule: insert_str.induct)
  case (2 s t ts)
  then have "\<forall>u \<in> set ts. str_less t u" "rising ts" by (simp_all add: rising_def)
  then show ?case using 2 str_le_cases [of s t]
    by (auto simp: rising_def str_less_def intro: str_le_trans dest: str_le_antisym str_le_trans)
qed (simp add: rising_def)

lemma rising_sorted_set: "rising (sorted_set xs)"
proof (induction xs)
  case (Cons x xs)
  then show ?case by (simp add: sorted_set_def rising_insert_str)
qed (simp add: sorted_set_def rising_def)

lemma set_sorted_set [simp]: "set (sorted_set xs) = set xs"
  by (induction xs) (simp_all add: sorted_set_def)

section \<open>Time\<close>

text \<open>
  An aware \<open>datetime\<close> in UTC: year, month, day, hour, minute, second, microsecond, compared in that
  order.
\<close>

datatype utc = UTC nat nat nat nat nat nat nat

fun utc_key :: "utc \<Rightarrow> nat list" where
  "utc_key (UTC y mo d h mi sec us) = [y, mo, d, h, mi, sec, us]"

lemma utc_key_inject: "utc_key a = utc_key b \<longleftrightarrow> a = b"
  by (cases a; cases b) simp

instantiation utc :: linorder
begin

definition less_eq_utc :: "utc \<Rightarrow> utc \<Rightarrow> bool" where
  "less_eq_utc a b \<longleftrightarrow> utc_key a \<le> utc_key b"

definition less_utc :: "utc \<Rightarrow> utc \<Rightarrow> bool" where
  "less_utc a b \<longleftrightarrow> utc_key a < utc_key b"

instance
  by standard (auto simp: less_eq_utc_def less_utc_def utc_key_inject [symmetric])

end

definition leap_year :: "nat \<Rightarrow> bool" where
  "leap_year y \<longleftrightarrow> 4 dvd y \<and> (\<not> 100 dvd y \<or> 400 dvd y)"

definition days_in_month :: "nat \<Rightarrow> nat \<Rightarrow> nat" where
  "days_in_month y mo = (if mo = 2 then if leap_year y then 29 else 28
     else if mo \<in> {4, 6, 9, 11} then 30 else 31)"

fun valid_utc :: "utc \<Rightarrow> bool" where
  "valid_utc (UTC y mo d h mi sec us) \<longleftrightarrow>
     1 \<le> y \<and> y \<le> 9999 \<and> 1 \<le> mo \<and> mo \<le> 12 \<and> 1 \<le> d \<and> d \<le> days_in_month y mo
     \<and> h < 24 \<and> mi < 60 \<and> sec < 60 \<and> us < 1000000"

definition utc_max :: utc where
  "utc_max = UTC 9999 12 31 23 59 59 999999"

text \<open>The day before and the day after, none outside the years 1 to 9999.\<close>

definition prev_day :: "nat \<times> nat \<times> nat \<Rightarrow> (nat \<times> nat \<times> nat) option" where
  "prev_day = (\<lambda>(y, mo, d).
     if 1 < d then Some (y, mo, d - 1)
     else if 1 < mo then Some (y, mo - 1, days_in_month y (mo - 1))
     else if 1 < y then Some (y - 1, 12, 31) else None)"

definition next_day :: "nat \<times> nat \<times> nat \<Rightarrow> (nat \<times> nat \<times> nat) option" where
  "next_day = (\<lambda>(y, mo, d).
     if d < days_in_month y mo then Some (y, mo, d + 1)
     else if mo < 12 then Some (y, mo + 1, 1)
     else if y < 9999 then Some (y + 1, 1, 1) else None)"

text \<open>\<open>astimezone(timezone.utc)\<close> of a local time with an offset of minutes, east or west.\<close>

definition to_utc :: "bool \<Rightarrow> nat \<Rightarrow> utc \<Rightarrow> utc option" where
  "to_utc east off t = (case t of UTC y mo d h mi sec us \<Rightarrow>
     (let m = h * 60 + mi;
          at = (\<lambda>day minutes. map_option
            (\<lambda>(y', mo', d'). UTC y' mo' d' (minutes div 60) (minutes mod 60) sec us) day) in
      if east then if off \<le> m then at (Some (y, mo, d)) (m - off) else at (prev_day (y, mo, d)) (m + 1440 - off)
      else if m + off < 1440 then at (Some (y, mo, d)) (m + off) else at (next_day (y, mo, d)) (m + off - 1440)))"

text \<open>The fraction of a second, cut or filled to six digits.\<close>

definition micros :: "string \<Rightarrow> nat" where
  "micros f = decimal_val (take 6 (f @ replicate 6 (CHR ''0'')))"

text \<open>
  \<open>datetime.fromisoformat\<close> on the extended format with hours and minutes and, optionally, seconds
  and a fraction: the local fields and the offset. Other ISO 8601 forms are not read here.
\<close>

definition iso_clock :: "string \<Rightarrow> (nat \<times> nat \<times> nat \<times> nat) option" where
  "iso_clock t =
     (let two = (\<lambda>i. decimal_val (take 2 (drop i t))) in
      if matches_shape ''dd:dd'' t then Some (two 0, two 3, 0, 0)
      else if matches_shape ''dd:dd:dd'' t then Some (two 0, two 3, two 6, 0)
      else if matches_shape ''dd:dd:dd'' (take 8 t) \<and> 9 < length t \<and> t ! 8 = CHR ''.''
              \<and> list_all is_digit_char (drop 9 t)
           then Some (two 0, two 3, two 6, micros (drop 9 t))
      else None)"

definition iso_local :: "string \<Rightarrow> (utc \<times> bool \<times> nat) option" where
  "iso_local s =
     (let t = drop 11 s; zone = drop (length t - 6) t; clock = take (length t - 6) t;
          off = decimal_val (take 2 (drop 1 zone)) * 60 + decimal_val (drop 4 zone) in
      if \<not> matches_shape ''dddd-dd-dd'' (take 10 s) \<or> length t \<le> 6
         \<or> \<not> matches_shape ''dd:dd'' (tl zone) \<or> hd zone \<notin> {CHR ''+'', CHR ''-''} \<or> 1440 \<le> off
      then None
      else case iso_clock clock of
        None \<Rightarrow> None
      | Some (h, mi, sec, us) \<Rightarrow>
          (let l = UTC (decimal_val (take 4 s)) (decimal_val (take 2 (drop 5 s))) (decimal_val (take 2 (drop 8 s))) h mi sec us in
           if valid_utc l then Some (l, hd zone = CHR ''+'', off) else None))"

text \<open>\<open>value.replace("Z", "+00:00")\<close>, then \<open>fromisoformat\<close> and the shift to UTC: \<open>_time\<close>.\<close>

definition replace_z :: "string \<Rightarrow> string" where
  "replace_z s = concat (map (\<lambda>c. if c = CHR ''Z'' then ''+00:00'' else [c]) s)"

definition time_of :: "control_err \<Rightarrow> json \<Rightarrow> control_err + utc" where
  "time_of e v =
     (case v of
        JStr s \<Rightarrow> (case iso_local (replace_z s) of
            None \<Rightarrow> Inl e
          | Some (l, east, off) \<Rightarrow> (case to_utc east off l of None \<Rightarrow> Inl Control_Overflow | Some t \<Rightarrow> Inr t))
      | _ \<Rightarrow> Inl e)"

text \<open>\<open>isoformat().replace("+00:00", "Z")\<close>.\<close>

fun time_text :: "utc \<Rightarrow> string" where
  "time_text (UTC y mo d h mi sec us) =
     pad_nat 4 y @ ''-'' @ pad_nat 2 mo @ ''-'' @ pad_nat 2 d @ ''T'' @ pad_nat 2 h @ '':'' @ pad_nat 2 mi @ '':''
     @ pad_nat 2 sec @ (if us = 0 then [] else ''.'' @ pad_nat 6 us) @ ''Z''"

text \<open>What is printed is read back.\<close>

lemma pad_digits: "list_all is_digit_char (pad_nat w n)"
proof -
  have "is_digit_char (CHR ''0'')" by (simp add: char_defs)
  with nat_text_digits [of n] show ?thesis by (auto simp: pad_nat_def list_all_iff)
qed

lemma pad_length: "n < 10 ^ w \<Longrightarrow> 0 < w \<Longrightarrow> length (pad_nat w n) = w"
  using nat_text_length [of n w] by (simp add: pad_nat_def)

lemma pad_two:
  assumes "n < 100"
  obtains a b where "pad_nat 2 n = [a, b]" "is_digit_char a" "is_digit_char b" "decimal_val [a, b] = n"
proof -
  have "length (pad_nat 2 n) = 2" using assms pad_length [of n 2] by simp
  then obtain a b where ab: "pad_nat 2 n = [a, b]" by (auto simp: numeral_2_eq_2 length_Suc_conv)
  with pad_digits [of 2 n] decimal_val_pad_nat [of 2 n] that show thesis by simp
qed

lemma pad_four:
  assumes "n < 10000"
  obtains a b c d where "pad_nat 4 n = [a, b, c, d]" "list_all is_digit_char [a, b, c, d]" "decimal_val [a, b, c, d] = n"
proof -
  have "length (pad_nat 4 n) = Suc (Suc (Suc (Suc 0)))" using assms pad_length [of n 4] by simp
  then obtain a b c d where p: "pad_nat 4 n = [a, b, c, d]" by (auto simp: length_Suc_conv)
  with pad_digits [of 4 n] decimal_val_pad_nat [of 4 n] that show thesis by metis
qed

lemma digit_no_z: "is_digit_char c \<Longrightarrow> c \<noteq> CHR ''Z''"
  by (auto simp: char_defs)

lemma replace_z_digits: "list_all is_digit_char s \<Longrightarrow> replace_z s = s"
  by (induction s) (auto simp: replace_z_def dest: digit_no_z)

lemma replace_z_append: "replace_z (s @ t) = replace_z s @ replace_z t"
  by (simp add: replace_z_def)

lemma iso_clock_text:
  assumes "h < 100" "mi < 100" "sec < 100" "us < 1000000"
  shows "iso_clock (pad_nat 2 h @ '':'' @ pad_nat 2 mi @ '':'' @ pad_nat 2 sec @ (if us = 0 then [] else ''.'' @ pad_nat 6 us))
    = Some (h, mi, sec, us)"
proof -
  obtain a b where h: "pad_nat 2 h = [a, b]" "is_digit_char a" "is_digit_char b" "decimal_val [a, b] = h"
    by (rule pad_two [OF assms(1)])
  obtain c d where mi: "pad_nat 2 mi = [c, d]" "is_digit_char c" "is_digit_char d" "decimal_val [c, d] = mi"
    by (rule pad_two [OF assms(2)])
  obtain e f where sec: "pad_nat 2 sec = [e, f]" "is_digit_char e" "is_digit_char f" "decimal_val [e, f] = sec"
    by (rule pad_two [OF assms(3)])
  have six: "length (pad_nat 6 us) = 6" using assms(4) pad_length [of us 6] by simp
  then have "micros (pad_nat 6 us) = us" by (simp add: micros_def)
  moreover have "\<not> is_digit_char CHR '':''" by (simp add: char_defs)
  ultimately show ?thesis
    using h mi sec six pad_digits [of 6 us]
    by (simp add: iso_clock_def Let_def matches_shape_def)
qed

lemma iso_local_split:
  assumes "length date = 10" and "length zone = 6" and "clock \<noteq> []"
  shows "iso_local (date @ sep # clock @ zone) =
     (let off = decimal_val (take 2 (drop 1 zone)) * 60 + decimal_val (drop 4 zone) in
      if \<not> matches_shape ''dddd-dd-dd'' date \<or> \<not> matches_shape ''dd:dd'' (tl zone)
         \<or> hd zone \<notin> {CHR ''+'', CHR ''-''} \<or> 1440 \<le> off
      then None
      else case iso_clock clock of
        None \<Rightarrow> None
      | Some (h, mi, sec, us) \<Rightarrow>
          (let l = UTC (decimal_val (take 4 date)) (decimal_val (take 2 (drop 5 date))) (decimal_val (take 2 (drop 8 date))) h mi sec us in
           if valid_utc l then Some (l, hd zone = CHR ''+'', off) else None))"
proof -
  let ?s = "date @ sep # clock @ zone"
  have parts: "take 10 ?s = date" "drop 11 ?s = clock @ zone" "take 4 ?s = take 4 date"
    "take 2 (drop 5 ?s) = take 2 (drop 5 date)" "take 2 (drop 8 ?s) = take 2 (drop 8 date)"
    "drop (length (clock @ zone) - 6) (clock @ zone) = zone" "take (length (clock @ zone) - 6) (clock @ zone) = clock"
    "length (clock @ zone) \<le> 6 \<longleftrightarrow> False"
    using assms by simp_all
  show ?thesis unfolding iso_local_def Let_def parts simp_thms ..
qed

theorem time_round_trip:
  assumes "valid_utc t"
  shows "time_of e (JStr (time_text t)) = Inr t"
proof (cases t)
  case (UTC y mo d h mi sec us)
  let ?clock = "pad_nat 2 h @ '':'' @ pad_nat 2 mi @ '':'' @ pad_nat 2 sec @ (if us = 0 then [] else ''.'' @ pad_nat 6 us)"
  have days: "days_in_month y mo \<le> 31" by (simp add: days_in_month_def)
  then have small: "y < 10000" "mo < 100" "d < 100" "h < 100" "mi < 100" "sec < 100" "us < 1000000"
    using assms by (simp_all add: UTC)
  obtain y1 y2 y3 y4 where y: "pad_nat 4 y = [y1, y2, y3, y4]" "list_all is_digit_char [y1, y2, y3, y4]"
    "decimal_val [y1, y2, y3, y4] = y" by (rule pad_four [OF small(1)])
  obtain m1 m2 where mo: "pad_nat 2 mo = [m1, m2]" "is_digit_char m1" "is_digit_char m2" "decimal_val [m1, m2] = mo"
    by (rule pad_two [OF small(2)])
  obtain d1 d2 where d: "pad_nat 2 d = [d1, d2]" "is_digit_char d1" "is_digit_char d2" "decimal_val [d1, d2] = d"
    by (rule pad_two [OF small(3)])
  let ?s = "[y1, y2, y3, y4, CHR ''-'', m1, m2, CHR ''-'', d1, d2] @ CHR ''T'' # ?clock @ ''+00:00''"
  have printed: "replace_z (time_text t) = ?s"
    using replace_z_digits [OF pad_digits] by (simp add: UTC replace_z_append y(1) [symmetric] mo(1) [symmetric] d(1) [symmetric])
      (use y(1,2) mo(1-3) d(1-3) digit_no_z in \<open>auto simp: replace_z_def\<close>)
  have zero: "is_digit_char CHR ''0''" "decimal_val ''00'' = 0"
    by (simp_all add: char_defs decimal_val_def digit_val_def)
  have "?clock \<noteq> []" by simp
  then have "iso_local ?s = (if valid_utc t then Some (t, True, 0) else None)"
    using y mo d zero iso_clock_text [OF small(4-7)]
    by (subst iso_local_split) (simp_all add: matches_shape_def UTC)
  then have "iso_local ?s = Some (t, True, 0)" using assms by simp
  moreover have "to_utc True 0 t = Some t"
    using assms by (simp add: to_utc_def UTC Let_def)
  ultimately show ?thesis unfolding time_of_def by (simp add: printed)
qed

section \<open>Candidate bindings\<close>

record binding =
  cb_subject :: string
  cb_fingerprint :: string
  cb_environment :: string

definition binding_post_init :: "binding \<Rightarrow> control_err + binding" where
  "binding_post_init b = bind_res (guards [
     (\<not> matches_sha40 (cb_subject b), Rollout_Error),
     (\<not> matches_sha256 (cb_fingerprint b), Rollout_Error),
     (\<not> matches_sha256 (cb_environment b), Rollout_Error)]) (\<lambda>_. Inr b)"

definition binding_from_environment :: "environment \<Rightarrow> control_err + binding" where
  "binding_from_environment env = binding_post_init
     \<lparr>cb_subject = env_kslide_source_revision env, cb_fingerprint = env_candidate_identity env,
      cb_environment = env_identity_sha256 env\<rparr>"

definition binding_names :: "string set" where
  "binding_names = {''subject_git_sha'', ''deployment_fingerprint'', ''run_environment_identity_sha256''}"

definition binding_from_mapping :: "json \<Rightarrow> control_err + binding" where
  "binding_from_mapping v =
     (case v of
        JObj kvs \<Rightarrow>
          if keys_of kvs \<noteq> binding_names then Inl Rollout_Error
          else (case (field_or JNull ''subject_git_sha'' kvs, field_or JNull ''deployment_fingerprint'' kvs,
                      field_or JNull ''run_environment_identity_sha256'' kvs) of
             (JStr a, JStr b, JStr c) \<Rightarrow> binding_post_init \<lparr>cb_subject = a, cb_fingerprint = b, cb_environment = c\<rparr>
           | _ \<Rightarrow> Inl Rollout_Error)
      | _ \<Rightarrow> Inl Rollout_Error)"

definition binding_as_dict :: "binding \<Rightarrow> json" where
  "binding_as_dict b = JObj [
     (''subject_git_sha'', JStr (cb_subject b)),
     (''deployment_fingerprint'', JStr (cb_fingerprint b)),
     (''run_environment_identity_sha256'', JStr (cb_environment b))]"

definition wf_binding :: "binding \<Rightarrow> bool" where
  "wf_binding b \<longleftrightarrow> binding_post_init b = Inr b"

lemma binding_round_trip [simp]: "wf_binding b \<Longrightarrow> binding_from_mapping (binding_as_dict b) = Inr b"
  by (cases b) (auto simp: wf_binding_def binding_from_mapping_def binding_as_dict_def keys_of_def field_or_def binding_names_def)

lemma binding_post_init_wf: "binding_post_init b = Inr c \<Longrightarrow> c = b \<and> wf_binding b"
  by (auto simp: wf_binding_def binding_post_init_def split: if_splits)

lemma binding_from_mapping_wf: "binding_from_mapping v = Inr b \<Longrightarrow> wf_binding b"
  by (auto simp: binding_from_mapping_def split: json.splits if_splits dest: binding_post_init_wf)

text \<open>
  Python's \<open>==\<close> on decoded JSON: objects compare whatever the order of their members, and \<open>True\<close>
  equals 1.
\<close>

fun plain_ints :: "json \<Rightarrow> json" where
  "plain_ints (JBool b) = JInt (of_bool b)"
| "plain_ints (JArr vs) = JArr (map plain_ints vs)"
| "plain_ints (JObj kvs) = JObj (map (\<lambda>kv. (fst kv, plain_ints (snd kv))) kvs)"
| "plain_ints v = v"

definition same_json :: "json \<Rightarrow> json \<Rightarrow> bool" where
  "same_json v w \<longleftrightarrow> sort_keys (plain_ints v) = sort_keys (plain_ints w)"

lemma same_json_refl [simp]: "same_json v v"
  by (simp add: same_json_def)

end
