(* ===== verification/Rollout.thy ===== *)
theory Rollout
  imports Control_Signature
begin

text \<open>
  The rollout contract of \<open>src/k_slide/rollout.py\<close>: the signed policy with its widening cohorts, the
  signed state with its signed head, the transitions that a signed command may make, and the chain
  of past states the reference adapter keeps.
\<close>

section \<open>Stages\<close>

datatype stage = DISABLED | NAMED_COHORT | PILOT | CANARY | PHASED | FULL

definition stage_values :: "(string \<times> stage) list" where
  "stage_values = [(''NAMED_COHORT'', NAMED_COHORT), (''PILOT'', PILOT), (''CANARY'', CANARY),
     (''PHASED'', PHASED), (''FULL'', FULL)]"

definition stage_order :: "stage list" where
  "stage_order = map snd stage_values"

fun stage_name :: "stage \<Rightarrow> string" where
  "stage_name DISABLED = ''DISABLED''"
| "stage_name NAMED_COHORT = ''NAMED_COHORT''"
| "stage_name PILOT = ''PILOT''"
| "stage_name CANARY = ''CANARY''"
| "stage_name PHASED = ''PHASED''"
| "stage_name FULL = ''FULL''"

text \<open>A member of the tuple \<open>_STAGES\<close>.\<close>

definition open_stage :: "json \<Rightarrow> stage option" where
  "open_stage v = (case v of JStr s \<Rightarrow> map_of stage_values s | _ \<Rightarrow> None)"

definition rollback_rule :: string where
  "rollback_rule = ''BOUND_RUNS_COMPLETE_OR_STOP_ON_IDENTITY_MISMATCH_V1''"

section \<open>Policy\<close>

record rollout_policy =
  rp_policy_id :: string
  rp_revision :: int
  rp_candidate :: binding
  rp_rollback :: "binding option"
  rp_cohorts :: "(stage \<times> string list) list"

definition policy_names :: "string set" where
  "policy_names = {''schema_version'', ''policy_id'', ''policy_version'', ''policy_revision'', ''issued_at'',
     ''expires_at'', ''candidate_binding'', ''rollback_target_binding'', ''stage_cohorts'', ''rollback_rule''}"

text \<open>The loop over \<open>_STAGES\<close>: every stage a strictly larger, ordered list of cohort names.\<close>

definition stage_names_of :: "stage \<Rightarrow> string list \<Rightarrow> json \<Rightarrow> control_err + string list" where
  "stage_names_of stg previous v =
     (case v of
        JArr vs \<Rightarrow>
          if vs = [] then Inl Rollout_Error
          else bind_res (map_res (name_of Rollout_Error) vs) (\<lambda>names.
            if \<not> rising names then Inl Rollout_Error
            else if stg = NAMED_COHORT \<and> length names \<noteq> 1 then Inl Rollout_Error
            else if previous \<noteq> [] \<and> \<not> set previous \<subset> set names then Inl Rollout_Error
            else Inr names)
      | _ \<Rightarrow> Inl Rollout_Error)"

fun read_stages ::
  "stage list \<Rightarrow> string list \<Rightarrow> (string \<times> json) list \<Rightarrow> control_err + (stage \<times> string list) list"
where
  "read_stages [] previous kvs = Inr []"
| "read_stages (stg # rest) previous kvs =
     bind_res (stage_names_of stg previous (field_or JNull (stage_name stg) kvs)) (\<lambda>names.
     bind_res (read_stages rest names kvs) (\<lambda>more. Inr ((stg, names) # more)))"

definition stage_cohorts_of :: "json \<Rightarrow> control_err + (stage \<times> string list) list" where
  "stage_cohorts_of v =
     (case v of
        JObj kvs \<Rightarrow>
          if keys_of kvs \<noteq> set (map fst stage_values) then Inl Rollout_Error
          else read_stages stage_order [] kvs
      | _ \<Rightarrow> Inl Rollout_Error)"

text \<open>\<open>issued > now or expires <= now\<close>: the expiry is read only when the issue time passed.\<close>

definition check_validity :: "json \<Rightarrow> json \<Rightarrow> utc \<Rightarrow> control_err + unit" where
  "check_validity issued expires now =
     bind_res (time_of Rollout_Error issued) (\<lambda>i.
       if now < i then Inl Rollout_Error
       else bind_res (time_of Rollout_Error expires) (\<lambda>x. if x \<le> now then Inl Rollout_Error else Inr ()))"

definition rollback_target_of :: "json \<Rightarrow> binding \<Rightarrow> control_err + binding option" where
  "rollback_target_of v candidate =
     (case v of
        JNull \<Rightarrow> Inr None
      | _ \<Rightarrow> bind_res (binding_from_mapping v) (\<lambda>b. if b = candidate then Inl Rollout_Error else Inr (Some b)))"

definition policy_payload ::
  "json \<Rightarrow> string \<Rightarrow> utc \<Rightarrow> control_err + (rollout_policy \<times> string)"
where
  "policy_payload v key now =
     bind_res (verify_signed Rollout_Error v key) (\<lambda>kvs.
     if keys_of kvs \<noteq> policy_names \<or> field_or JNull ''schema_version'' kvs \<noteq> JStr ''1.0'' then Inl Rollout_Error
     else bind_res (name_of Rollout_Error (field_or JNull ''policy_id'' kvs)) (\<lambda>pid.
     if field_or JNull ''policy_version'' kvs \<noteq> JStr ''1.0'' then Inl Rollout_Error
     else bind_res (int_from Rollout_Error 1 (field_or JNull ''policy_revision'' kvs)) (\<lambda>revision.
     bind_res (check_validity (field_or JNull ''issued_at'' kvs) (field_or JNull ''expires_at'' kvs) now) (\<lambda>_.
     bind_res (binding_from_mapping (field_or JNull ''candidate_binding'' kvs)) (\<lambda>candidate.
     bind_res (rollback_target_of (field_or JNull ''rollback_target_binding'' kvs) candidate) (\<lambda>rollback.
     if field_or JNull ''rollback_rule'' kvs \<noteq> JStr rollback_rule then Inl Rollout_Error
     else bind_res (stage_cohorts_of (field_or JNull ''stage_cohorts'' kvs)) (\<lambda>cohorts.
       Inr (\<lparr>rp_policy_id = pid, rp_revision = revision, rp_candidate = candidate, rp_rollback = rollback,
             rp_cohorts = cohorts\<rparr>, payload_identity (JObj kvs)))))))))"

definition policy_identity :: "json \<Rightarrow> string \<Rightarrow> utc \<Rightarrow> control_err + string" where
  "policy_identity v key now = bind_res (policy_payload v key now) (\<lambda>(p, i). Inr i)"

text \<open>\<open>build_rollout_policy\<close>: built, checked at its own issue time, signed.\<close>

definition build_policy ::
  "string \<Rightarrow> binding \<Rightarrow> binding option \<Rightarrow> (string \<times> json) list \<Rightarrow> string \<Rightarrow> string \<Rightarrow> string \<Rightarrow> int
    \<Rightarrow> control_err + json"
where
  "build_policy pid candidate rollback cohorts issued expires key policy_revision =
     (let payload = JObj [
        (''schema_version'', JStr ''1.0''), (''policy_id'', JStr pid), (''policy_version'', JStr ''1.0''),
        (''policy_revision'', JInt policy_revision), (''issued_at'', JStr issued), (''expires_at'', JStr expires),
        (''candidate_binding'', binding_as_dict candidate),
        (''rollback_target_binding'', (case rollback of None \<Rightarrow> JNull | Some b \<Rightarrow> binding_as_dict b)),
        (''stage_cohorts'', JObj cohorts), (''rollback_rule'', JStr rollback_rule)] in
      bind_res (signed Rollout_Error payload key) (\<lambda>v.
      bind_res (time_of Rollout_Error (JStr issued)) (\<lambda>t.
      bind_res (policy_payload v key t) (\<lambda>_. signed Rollout_Error payload key))))"

definition cohorts_at :: "rollout_policy \<Rightarrow> stage \<Rightarrow> string list" where
  "cohorts_at p stg = (case map_of (rp_cohorts p) stg of None \<Rightarrow> [] | Some c \<Rightarrow> c)"

section \<open>State\<close>

datatype rollout_action = INITIALIZE | SET_STAGE | DISABLE | ROLLBACK | RESTORE_CANDIDATE

definition action_values :: "(string \<times> rollout_action) list" where
  "action_values = [(''INITIALIZE'', INITIALIZE), (''SET_STAGE'', SET_STAGE), (''DISABLE'', DISABLE),
     (''ROLLBACK'', ROLLBACK), (''RESTORE_CANDIDATE'', RESTORE_CANDIDATE)]"

fun action_name :: "rollout_action \<Rightarrow> string" where
  "action_name INITIALIZE = ''INITIALIZE''"
| "action_name SET_STAGE = ''SET_STAGE''"
| "action_name DISABLE = ''DISABLE''"
| "action_name ROLLBACK = ''ROLLBACK''"
| "action_name RESTORE_CANDIDATE = ''RESTORE_CANDIDATE''"

record rollout_state =
  ro_policy_identity :: string
  ro_revision :: int
  ro_previous :: "string option"
  ro_candidate :: binding
  ro_actor :: string
  ro_time :: string
  ro_stage :: stage
  ro_enabled :: bool
  ro_cohorts :: "string list"
  ro_transition_id :: string
  ro_action :: rollout_action

definition state_names :: "string set" where
  "state_names = {''schema_version'', ''policy_identity'', ''revision'', ''previous_state_identity'',
     ''candidate_binding'', ''actor_ref'', ''transitioned_at'', ''stage'', ''admissions_enabled'',
     ''admitted_cohorts'', ''rollback_rule'', ''transition_id'', ''transition_action''}"

definition state_fields :: "rollout_state \<Rightarrow> (string \<times> json) list" where
  "state_fields s = [
     (''schema_version'', JStr ''1.0''), (''policy_identity'', JStr (ro_policy_identity s)),
     (''revision'', JInt (ro_revision s)), (''previous_state_identity'', json_opt_str (ro_previous s)),
     (''candidate_binding'', binding_as_dict (ro_candidate s)), (''actor_ref'', JStr (ro_actor s)),
     (''transitioned_at'', JStr (ro_time s)), (''stage'', JStr (stage_name (ro_stage s))),
     (''admissions_enabled'', JBool (ro_enabled s)), (''admitted_cohorts'', JArr (map JStr (ro_cohorts s))),
     (''rollback_rule'', JStr rollback_rule), (''transition_id'', JStr (ro_transition_id s)),
     (''transition_action'', JStr (action_name (ro_action s)))]"

abbreviation state_as_dict :: "rollout_state \<Rightarrow> json" where
  "state_as_dict s \<equiv> JObj (state_fields s)"

definition initial_state :: "json \<Rightarrow> string \<Rightarrow> utc \<Rightarrow> control_err + json" where
  "initial_state policy key now =
     bind_res (policy_payload policy key now) (\<lambda>(p, identity).
       signed Rollout_Error (state_as_dict
         \<lparr>ro_policy_identity = identity, ro_revision = 1, ro_previous = None, ro_candidate = rp_candidate p,
          ro_actor = ''deployment_authority'', ro_time = time_text now, ro_stage = DISABLED, ro_enabled = False,
          ro_cohorts = [], ro_transition_id = ''initial'', ro_action = INITIALIZE\<rparr>) key)"

definition state_chain :: "int \<Rightarrow> json \<Rightarrow> json \<Rightarrow> control_err + string option" where
  "state_chain revision action previous =
     (if revision = 1
      then if action \<noteq> JStr ''INITIALIZE'' \<or> previous \<noteq> JNull then Inl Rollout_Error else Inr None
      else bind_res (digest_of Rollout_Error previous) (\<lambda>h. Inr (Some h)))"

definition state_cohorts :: "json \<Rightarrow> control_err + string list" where
  "state_cohorts v =
     (case v of
        JArr vs \<Rightarrow> (case strs_of vs of None \<Rightarrow> Inl Rollout_Error | Some c \<Rightarrow> if rising c then Inr c else Inl Rollout_Error)
      | _ \<Rightarrow> Inl Rollout_Error)"

definition state_stage :: "json \<Rightarrow> json \<Rightarrow> string list \<Rightarrow> control_err + (stage \<times> bool)" where
  "state_stage v enabled cohorts =
     (if v = JStr ''DISABLED''
      then if enabled \<noteq> JBool False \<or> cohorts \<noteq> [] then Inl Rollout_Error else Inr (DISABLED, False)
      else case open_stage v of
        None \<Rightarrow> Inl Rollout_Error
      | Some stg \<Rightarrow> if enabled \<noteq> JBool True then Inl Rollout_Error else Inr (stg, True))"

definition state_action :: "json \<Rightarrow> int \<Rightarrow> stage \<Rightarrow> string \<Rightarrow> control_err + rollout_action" where
  "state_action v revision stg actor =
     bind_res (in_set v (map fst action_values)) (\<lambda>known.
       if \<not> known then Inl Rollout_Error
       else case map_of action_values (the (json_str v)) of
         None \<Rightarrow> Inl Rollout_Error
       | Some a \<Rightarrow> bind_res (guards [
           (a = INITIALIZE \<and> (revision \<noteq> 1 \<or> stg \<noteq> DISABLED), Rollout_Error),
           (a = INITIALIZE \<and> actor \<noteq> ''deployment_authority'', Rollout_Error),
           (a \<in> {DISABLE, ROLLBACK, RESTORE_CANDIDATE} \<and> stg \<noteq> DISABLED, Rollout_Error),
           (a = SET_STAGE \<and> stg = DISABLED, Rollout_Error)]) (\<lambda>_. Inr a))"

definition head_names :: "string set" where
  "head_names = {''schema_version'', ''revision'', ''state_identity''}"

definition check_head :: "json \<Rightarrow> string \<Rightarrow> int \<Rightarrow> string \<Rightarrow> control_err + unit" where
  "check_head head key revision identity =
     bind_res (verify_signed Rollout_Error head key) (\<lambda>kvs.
       guards [
         (keys_of kvs \<noteq> head_names \<or> field_or JNull ''schema_version'' kvs \<noteq> JStr ''1.0'', Rollout_Error),
         (json_int (field_or JNull ''revision'' kvs) \<noteq> Some revision
            \<or> field_or JNull ''state_identity'' kvs \<noteq> JStr identity, Rollout_Error)])"

text \<open>\<open>_state_payload\<close>: the state and its identity.\<close>

definition state_payload ::
  "json \<Rightarrow> string \<Rightarrow> string \<Rightarrow> json \<Rightarrow> control_err + (rollout_state \<times> (string \<times> json) list)"
where
  "state_payload v key pol head =
     bind_res (verify_signed Rollout_Error v key) (\<lambda>kvs.
     bind_res (guards [
       (keys_of kvs \<noteq> state_names \<or> field_or JNull ''schema_version'' kvs \<noteq> JStr ''1.0'', Rollout_Error),
       (field_or JNull ''policy_identity'' kvs \<noteq> JStr pol
          \<or> field_or JNull ''rollback_rule'' kvs \<noteq> JStr rollback_rule, Rollout_Error)]) (\<lambda>_.
     bind_res (int_from Rollout_Error 1 (field_or JNull ''revision'' kvs)) (\<lambda>revision.
     bind_res (state_chain revision (field_or JNull ''transition_action'' kvs)
                 (field_or JNull ''previous_state_identity'' kvs)) (\<lambda>previous.
     bind_res (binding_from_mapping (field_or JNull ''candidate_binding'' kvs)) (\<lambda>candidate.
     bind_res (state_cohorts (field_or JNull ''admitted_cohorts'' kvs)) (\<lambda>cohorts.
     bind_res (state_stage (field_or JNull ''stage'' kvs) (field_or JNull ''admissions_enabled'' kvs) cohorts) (\<lambda>(stg, enabled).
     bind_res (name_of Rollout_Error (field_or JNull ''transition_id'' kvs)) (\<lambda>tid.
     bind_res (name_of Rollout_Error (field_or JNull ''actor_ref'' kvs)) (\<lambda>actor.
     bind_res (time_of Rollout_Error (field_or JNull ''transitioned_at'' kvs)) (\<lambda>_.
     bind_res (state_action (field_or JNull ''transition_action'' kvs) revision stg actor) (\<lambda>action.
     bind_res (check_head head key revision (payload_identity (JObj kvs))) (\<lambda>_.
       Inr (\<lparr>ro_policy_identity = pol, ro_revision = revision, ro_previous = previous, ro_candidate = candidate,
             ro_actor = actor, ro_time = the (json_str (field_or JNull ''transitioned_at'' kvs)), ro_stage = stg,
             ro_enabled = enabled, ro_cohorts = cohorts, ro_transition_id = tid, ro_action = action\<rparr>,
            kvs)))))))))))))"

abbreviation state_identity :: "(string \<times> json) list \<Rightarrow> string" where
  "state_identity kvs \<equiv> payload_identity (JObj kvs)"

definition head_for :: "int \<Rightarrow> string \<Rightarrow> string \<Rightarrow> control_err + json" where
  "head_for revision identity key =
     signed Rollout_Error (JObj [(''schema_version'', JStr ''1.0''), (''revision'', JInt revision),
       (''state_identity'', JStr identity)]) key"

section \<open>Transitions\<close>

definition command_names :: "string set" where
  "command_names = {''schema_version'', ''policy_identity'', ''expected_revision'', ''action'', ''transition_id'',
     ''actor_ref'', ''target_stage'', ''target_candidate_binding''}"

definition build_command ::
  "string \<Rightarrow> int \<Rightarrow> string \<Rightarrow> string \<Rightarrow> string \<Rightarrow> string option \<Rightarrow> binding option \<Rightarrow> string \<Rightarrow> control_err + json"
where
  "build_command pol expected action tid actor target_stage target key =
     signed Rollout_Error (JObj [
       (''schema_version'', JStr ''1.0''), (''policy_identity'', JStr pol), (''expected_revision'', JInt expected),
       (''action'', JStr action), (''transition_id'', JStr tid), (''actor_ref'', JStr actor),
       (''target_stage'', json_opt_str target_stage),
       (''target_candidate_binding'', (case target of None \<Rightarrow> JNull | Some b \<Rightarrow> binding_as_dict b))]) key"

text \<open>A requested binding is compared as a dict with the authorized one.\<close>

definition requests :: "json \<Rightarrow> binding \<Rightarrow> bool" where
  "requests v b \<longleftrightarrow> binding_from_mapping v = Inr b"

text \<open>The branches of the action: the next candidate, stage and cohorts.\<close>

definition next_rollout ::
  "rollout_policy \<Rightarrow> rollout_state \<Rightarrow> json \<Rightarrow> json \<Rightarrow> json \<Rightarrow> control_err + (binding \<times> stage \<times> string list)"
where
  "next_rollout p s action target_stage requested =
     (if action = JStr ''DISABLE''
      then if target_stage \<noteq> JNull \<or> requested \<noteq> JNull then Inl Rollout_Error
           else Inr (ro_candidate s, DISABLED, [])
      else if action = JStr ''SET_STAGE''
      then (case open_stage target_stage of
              None \<Rightarrow> Inl Rollout_Error
            | Some stg \<Rightarrow> if requested \<noteq> JNull then Inl Rollout_Error
                          else Inr (ro_candidate s, stg, cohorts_at p stg))
      else if action = JStr ''ROLLBACK''
      then (case rp_rollback p of
              None \<Rightarrow> Inl Rollout_Error
            | Some b \<Rightarrow> if target_stage \<noteq> JNull \<or> \<not> requests requested b then Inl Rollout_Error
                        else if ro_candidate s \<noteq> rp_candidate p then Inl Rollout_Error
                        else Inr (b, DISABLED, []))
      else if action = JStr ''RESTORE_CANDIDATE''
      then (case rp_rollback p of
              None \<Rightarrow> Inl Rollout_Error
            | Some b \<Rightarrow> if target_stage \<noteq> JNull \<or> \<not> requests requested (rp_candidate p) \<or> ro_candidate s \<noteq> b
                        then Inl Rollout_Error
                        else Inr (rp_candidate p, DISABLED, []))
      else Inl Rollout_Error)"

definition candidate_authorized :: "rollout_policy \<Rightarrow> binding \<Rightarrow> bool" where
  "candidate_authorized p b \<longleftrightarrow> b = rp_candidate p \<or> rp_rollback p = Some b"

definition apply_transition ::
  "json \<Rightarrow> json \<Rightarrow> json \<Rightarrow> json \<Rightarrow> string \<Rightarrow> utc \<Rightarrow> control_err + (json \<times> json)"
where
  "apply_transition policy state head command key now =
     bind_res (policy_payload policy key now) (\<lambda>(p, pol).
     bind_res (state_payload state key pol head) (\<lambda>(s, raw).
     bind_res (guards [
       (\<not> candidate_authorized p (ro_candidate s), Rollout_Error),
       (ro_stage s \<noteq> DISABLED \<and> ro_cohorts s \<noteq> cohorts_at p (ro_stage s), Rollout_Error)]) (\<lambda>_.
     bind_res (verify_signed Rollout_Error command key) (\<lambda>c.
     bind_res (guards [
       (keys_of c \<noteq> command_names \<or> field_or JNull ''schema_version'' c \<noteq> JStr ''1.0'', Rollout_Error),
       (field_or JNull ''policy_identity'' c \<noteq> JStr pol
          \<or> json_int (field_or JNull ''expected_revision'' c) \<noteq> Some (ro_revision s), Rollout_Error)]) (\<lambda>_.
     bind_res (name_of Rollout_Error (field_or JNull ''transition_id'' c)) (\<lambda>tid.
     bind_res (name_of Rollout_Error (field_or JNull ''actor_ref'' c)) (\<lambda>actor.
     bind_res (next_rollout p s (field_or JNull ''action'' c) (field_or JNull ''target_stage'' c)
                 (field_or JNull ''target_candidate_binding'' c)) (\<lambda>(candidate, stg, cohorts).
       let next_state = \<lparr>ro_policy_identity = pol, ro_revision = ro_revision s + 1,
             ro_previous = Some (state_identity raw), ro_candidate = candidate, ro_actor = actor,
             ro_time = time_text now, ro_stage = stg, ro_enabled = (stg \<noteq> DISABLED), ro_cohorts = cohorts,
             ro_transition_id = tid, ro_action = the (map_of action_values (the (json_str (field_or JNull ''action'' c))))\<rparr> in
       bind_res (signed Rollout_Error (state_as_dict next_state) key) (\<lambda>signed_state.
       bind_res (head_for (ro_revision next_state) (state_identity (state_fields next_state)) key) (\<lambda>signed_head.
         Inr (signed_state, signed_head)))))))))))"

section \<open>History\<close>

text \<open>A file of a control directory; a symbolic link leads to JSON or not.\<close>

datatype control_file = CF_Missing | CF_Link "json option" | CF_Unreadable | CF_Json json

definition history_name :: "nat \<Rightarrow> string" where
  "history_name n = pad_nat 10 n @ ''.json''"

definition ends_with :: "string \<Rightarrow> string \<Rightarrow> bool" where
  "ends_with suf s \<longleftrightarrow> length suf \<le> length s \<and> drop (length s - length suf) s = suf"

text \<open>A history directory holds the named files of its directory; it may be missing or a link.\<close>

datatype control_history = CH_Missing | CH_Link | CH_Files "(string \<times> control_file) list"

fun history_files :: "control_history \<Rightarrow> (string \<times> control_file) list option" where
  "history_files (CH_Files files) = Some files"
| "history_files h = None"

text \<open>\<open>read_json\<close> follows a link.\<close>

fun read_control :: "control_file \<Rightarrow> json option" where
  "read_control (CF_Json v) = Some v"
| "read_control (CF_Link v) = v"
| "read_control f = None"

fun is_link :: "control_file \<Rightarrow> bool" where
  "is_link (CF_Link v) = True"
| "is_link f = False"

text \<open>\<open>_verify_reference_history\<close>.\<close>

fun walk_history ::
  "(string \<times> control_file) list \<Rightarrow> string \<Rightarrow> string \<Rightarrow> nat list \<Rightarrow> string option \<Rightarrow> utc option
    \<Rightarrow> (string \<times> json) list option \<Rightarrow> control_err + (string option \<times> (string \<times> json) list option)"
where
  "walk_history files key pol [] previous last_time latest = Inr (previous, latest)"
| "walk_history files key pol (n # ns) previous last_time latest =
     (case map_of files (history_name n) of
        Some (CF_Json v) \<Rightarrow>
          (case verify_signed Rollout_Error v key of
             Inl e \<Rightarrow> Inl Rollout_Error
           | Inr kvs \<Rightarrow>
               bind_res (guards [
                 (field_or JNull ''policy_identity'' kvs \<noteq> JStr pol
                    \<or> json_int (field_or JNull ''revision'' kvs) \<noteq> Some (int n), Rollout_Error),
                 (field_or JNull ''previous_state_identity'' kvs \<noteq> json_opt_str previous, Rollout_Error)]) (\<lambda>_.
               bind_res (time_of Rollout_Error (field_or JNull ''transitioned_at'' kvs)) (\<lambda>t.
                 if (case last_time of None \<Rightarrow> False | Some t0 \<Rightarrow> t < t0) then Inl Rollout_Error
                 else walk_history files key pol ns (Some (state_identity kvs)) (Some t) (Some kvs))))
      | _ \<Rightarrow> Inl Rollout_Error)"

definition verify_history ::
  "control_history \<Rightarrow> string \<Rightarrow> string \<Rightarrow> int \<Rightarrow> (string \<times> json) list \<Rightarrow> control_err + unit"
where
  "verify_history history key pol revision latest =
     (case history_files history of
        None \<Rightarrow> Inl Rollout_Error
      | Some files \<Rightarrow>
          if length (filter (ends_with ''.json'') (map fst files)) \<noteq> nat revision
             \<or> set (map fst files) \<noteq> set (map history_name [1..<nat revision + 1]) then Inl Rollout_Error
          else bind_res (walk_history files key pol [1..<nat revision + 1] None None None) (\<lambda>(identity, last_payload).
            if identity \<noteq> Some (state_identity latest)
               \<or> \<not> (case last_payload of None \<Rightarrow> False | Some p \<Rightarrow> same_json (JObj p) (JObj latest))
            then Inl Rollout_Error else Inr ()))"

end
