(* ===== verification/Revocation.thy ===== *)
theory Revocation
  imports Rollout Execution_Codec
begin

text \<open>
  The revocation ledger of one candidate (\<open>src/k_slide/candidate_revocation.py\<close>): signed control
  events, the signed state and head derived from them, and the check that replays the whole history
  against the state whenever it is read.
\<close>

section \<open>Vocabulary\<close>

definition reason_authority :: "(string \<times> string) list" where
  "reason_authority = [
     (''CRITICAL_SEMANTIC_DEFECT'', ''quality_authority''), (''SECURITY_INCIDENT'', ''security_authority''),
     (''PRIVACY_INCIDENT'', ''privacy_authority''), (''CREDENTIAL_LEAKAGE'', ''security_authority''),
     (''TENANT_ISOLATION_FAILURE'', ''security_authority''),
     (''PROVIDER_MODEL_CONFIG_DRIFT'', ''deployment_authority''),
     (''BROKEN_EVIDENCE_IDENTITY'', ''release_authority''),
     (''MATERIAL_DATA_USE_POLICY_CHANGE'', ''privacy_authority''),
     (''CRITICAL_VULNERABILITY'', ''security_authority'')]"

definition reason_categories :: "string list" where
  "reason_categories = map fst reason_authority"

definition evidence_kinds :: "string list" where
  "evidence_kinds = [''INCIDENT_RECORD'', ''SECURITY_ADVISORY'', ''POLICY_CHANGE_RECORD'',
     ''EVIDENCE_IDENTITY_RECORD'', ''REQUALIFICATION_ATTESTATION'']"

definition binding_identity :: "binding \<Rightarrow> string" where
  "binding_identity b = payload_identity (binding_as_dict b)"

text \<open>\<open>_ref\<close> and \<open>_identity\<close>.\<close>

abbreviation ref_of :: "json \<Rightarrow> control_err + string" where
  "ref_of \<equiv> name_of Revocation_Error"

abbreviation identity_of :: "json \<Rightarrow> control_err + string" where
  "identity_of \<equiv> digest_of Revocation_Error"

definition optional_identity :: "json \<Rightarrow> control_err + string option" where
  "optional_identity v = (if v = JNull then Inr None else bind_res (identity_of v) (\<lambda>h. Inr (Some h)))"

text \<open>
  \<open>categories != sorted(set(categories))\<close> on a list of any values: a list or an object cannot be
  put in a set, and values of different types cannot be sorted.
\<close>

fun json_kind :: "json \<Rightarrow> nat" where
  "json_kind (JStr s) = 0"
| "json_kind (JInt i) = 1"
| "json_kind (JBool b) = 1"
| "json_kind JNull = 2"
| "json_kind v = 3"

definition category_list :: "json \<Rightarrow> control_err + string list" where
  "category_list v =
     (case v of
        JArr vs \<Rightarrow>
          (case strs_of vs of
             Some cs \<Rightarrow> if rising cs \<and> set cs \<subseteq> set reason_categories then Inr cs else Inl Revocation_Error
           | None \<Rightarrow> Inl (if list_ex (\<lambda>w. json_kind w = 3 \<or> json_kind w \<noteq> json_kind (hd vs)) vs
                         then Control_TypeError else Revocation_Error))
      | _ \<Rightarrow> Inl Revocation_Error)"

section \<open>Events\<close>

datatype ledger_action = REVOKE | RECOVER

record ledger_event =
  le_action :: ledger_action
  le_actor :: string
  le_authority :: string
  le_event_id :: string
  le_expected :: int
  le_state_identity :: string
  le_previous :: "string option"
  le_time :: string
  le_at :: utc
  le_categories :: "string list"

definition event_names :: "string set" where
  "event_names = {''schema_version'', ''action'', ''candidate_binding'', ''actor_ref'', ''authority_ref'',
     ''event_id'', ''expected_revision'', ''revision'', ''expected_state_identity'',
     ''previous_event_identity'', ''occurred_at'', ''reason_categories'', ''evidence_reference''}"

definition same_candidate :: "json \<Rightarrow> binding \<Rightarrow> control_err + unit" where
  "same_candidate v candidate =
     bind_res (binding_from_mapping v) (\<lambda>b. if b \<noteq> candidate then Inl Revocation_Error else Inr ())"

definition ledger_action_of :: "json \<Rightarrow> control_err + ledger_action" where
  "ledger_action_of v =
     bind_res (in_set v [''REVOKE'', ''RECOVER'']) (\<lambda>known.
       if \<not> known then Inl Revocation_Error else Inr (if v = JStr ''REVOKE'' then REVOKE else RECOVER))"

definition event_id_of :: "json \<Rightarrow> control_err + string" where
  "event_id_of v = bind_res (ref_of v) (\<lambda>i. if 55 < length i then Inl Revocation_Error else Inr i)"

definition check_authority :: "ledger_action \<Rightarrow> string list \<Rightarrow> string \<Rightarrow> control_err + unit" where
  "check_authority action categories authority =
     (case action of
        REVOKE \<Rightarrow> if length categories \<noteq> 1 \<or> map_of reason_authority (hd categories) \<noteq> Some authority
                  then Inl Revocation_Error else Inr ()
      | RECOVER \<Rightarrow> if authority \<noteq> ''qualification_authority'' then Inl Revocation_Error else Inr ())"

definition check_evidence :: "ledger_action \<Rightarrow> json \<Rightarrow> control_err + unit" where
  "check_evidence action v =
     (case v of
        JObj kvs \<Rightarrow>
          if keys_of kvs \<noteq> {''kind'', ''identity''} then Inl Revocation_Error
          else bind_res (in_set (field_or JNull ''kind'' kvs) evidence_kinds) (\<lambda>known.
            if \<not> known then Inl Revocation_Error
            else bind_res (identity_of (field_or JNull ''identity'' kvs)) (\<lambda>_.
              if action = RECOVER \<and> field_or JNull ''kind'' kvs \<noteq> JStr ''REQUALIFICATION_ATTESTATION''
              then Inl Revocation_Error else Inr ()))
      | _ \<Rightarrow> Inl Revocation_Error)"

definition validate_event :: "(string \<times> json) list \<Rightarrow> binding \<Rightarrow> utc \<Rightarrow> control_err + ledger_event" where
  "validate_event kvs candidate now =
     (if keys_of kvs \<noteq> event_names \<or> field_or JNull ''schema_version'' kvs \<noteq> JStr ''1.0'' then Inl Revocation_Error
      else bind_res (same_candidate (field_or JNull ''candidate_binding'' kvs) candidate) (\<lambda>_.
      bind_res (ledger_action_of (field_or JNull ''action'' kvs)) (\<lambda>action.
      bind_res (ref_of (field_or JNull ''actor_ref'' kvs)) (\<lambda>actor.
      bind_res (ref_of (field_or JNull ''authority_ref'' kvs)) (\<lambda>authority.
      bind_res (event_id_of (field_or JNull ''event_id'' kvs)) (\<lambda>event_id.
      bind_res (int_from Revocation_Error 0 (field_or JNull ''expected_revision'' kvs)) (\<lambda>expected.
      if field_or JNull ''revision'' kvs \<noteq> JInt (expected + 1) then Inl Revocation_Error
      else bind_res (identity_of (field_or JNull ''expected_state_identity'' kvs)) (\<lambda>state_id.
      bind_res (optional_identity (field_or JNull ''previous_event_identity'' kvs)) (\<lambda>previous.
      bind_res (time_of Revocation_Error (field_or JNull ''occurred_at'' kvs)) (\<lambda>t.
      if now < t then Inl Revocation_Error
      else bind_res (category_list (field_or JNull ''reason_categories'' kvs)) (\<lambda>categories.
      if categories = [] then Inl Revocation_Error
      else bind_res (check_authority action categories authority) (\<lambda>_.
      bind_res (check_evidence action (field_or JNull ''evidence_reference'' kvs)) (\<lambda>_.
        Inr \<lparr>le_action = action, le_actor = actor, le_authority = authority, le_event_id = event_id,
             le_expected = expected, le_state_identity = state_id, le_previous = previous,
             le_time = the (json_str (field_or JNull ''occurred_at'' kvs)), le_at = t,
             le_categories = categories\<rparr>)))))))))))))"

definition build_event ::
  "string \<Rightarrow> binding \<Rightarrow> string \<Rightarrow> string \<Rightarrow> string \<Rightarrow> int \<Rightarrow> string \<Rightarrow> string option \<Rightarrow> string \<Rightarrow> string list
    \<Rightarrow> string \<Rightarrow> string \<Rightarrow> string \<Rightarrow> control_err + json"
where
  "build_event action candidate actor authority event_id expected state_id previous occurred categories kind evidence key =
     (let payload = [
        (''schema_version'', JStr ''1.0''), (''action'', JStr action),
        (''candidate_binding'', binding_as_dict candidate), (''actor_ref'', JStr actor),
        (''authority_ref'', JStr authority), (''event_id'', JStr event_id),
        (''expected_revision'', JInt expected), (''revision'', JInt (expected + 1)),
        (''expected_state_identity'', JStr state_id), (''previous_event_identity'', json_opt_str previous),
        (''occurred_at'', JStr occurred), (''reason_categories'', JArr (map JStr (sorted_set categories))),
        (''evidence_reference'', JObj [(''kind'', JStr kind), (''identity'', JStr evidence)])] in
      bind_res (time_of Revocation_Error (JStr occurred)) (\<lambda>t.
      bind_res (validate_event payload candidate t) (\<lambda>_. signed Revocation_Error (JObj payload) key)))"

section \<open>Ledger state\<close>

datatype ledger_status = CLEAR | REVOKED | RECOVERED

fun status_name :: "ledger_status \<Rightarrow> string" where
  "status_name CLEAR = ''CLEAR''"
| "status_name REVOKED = ''REVOKED''"
| "status_name RECOVERED = ''RECOVERED''"

record ledger_state =
  ls_revision :: int
  ls_previous :: "string option"
  ls_event :: "string option"
  ls_status :: ledger_status
  ls_categories :: "string list"
  ls_actor :: string
  ls_authority :: string
  ls_time :: string
  ls_transition_id :: string

definition ledger_names :: "string set" where
  "ledger_names = {''schema_version'', ''candidate_binding'', ''revision'', ''previous_state_identity'',
     ''event_identity'', ''status'', ''active_reason_categories'', ''actor_ref'', ''authority_ref'',
     ''updated_at'', ''transition_id''}"

definition ledger_fields :: "binding \<Rightarrow> ledger_state \<Rightarrow> (string \<times> json) list" where
  "ledger_fields candidate s = [
     (''schema_version'', JStr ''1.0''), (''candidate_binding'', binding_as_dict candidate),
     (''revision'', JInt (ls_revision s)), (''previous_state_identity'', json_opt_str (ls_previous s)),
     (''event_identity'', json_opt_str (ls_event s)), (''status'', JStr (status_name (ls_status s))),
     (''active_reason_categories'', JArr (map JStr (ls_categories s))), (''actor_ref'', JStr (ls_actor s)),
     (''authority_ref'', JStr (ls_authority s)), (''updated_at'', JStr (ls_time s)),
     (''transition_id'', JStr (ls_transition_id s))]"

definition initial_ledger :: "utc \<Rightarrow> ledger_state" where
  "initial_ledger now = \<lparr>ls_revision = 0, ls_previous = None, ls_event = None, ls_status = CLEAR,
     ls_categories = [], ls_actor = ''deployment_authority'', ls_authority = ''deployment_authority'',
     ls_time = time_text now, ls_transition_id = ''initial''\<rparr>"

definition ledger_links :: "int \<Rightarrow> (string \<times> json) list \<Rightarrow> control_err + (string option \<times> string option)" where
  "ledger_links revision kvs =
     (let previous = field_or JNull ''previous_state_identity'' kvs; event = field_or JNull ''event_identity'' kvs in
      if revision = 0
      then if previous \<noteq> JNull \<or> event \<noteq> JNull \<or> field_or JNull ''status'' kvs \<noteq> JStr ''CLEAR''
              \<or> \<not> json_falsy (field_or JNull ''active_reason_categories'' kvs)
           then Inl Revocation_Error else Inr (None, None)
      else bind_res (identity_of previous) (\<lambda>p. bind_res (identity_of event) (\<lambda>e. Inr (Some p, Some e))))"

definition ledger_status_of :: "json \<Rightarrow> int \<Rightarrow> string list \<Rightarrow> control_err + ledger_status" where
  "ledger_status_of v revision categories =
     bind_res (in_set v [''CLEAR'', ''REVOKED'', ''RECOVERED'']) (\<lambda>known.
       if \<not> known then Inl Revocation_Error
       else let st = (if v = JStr ''REVOKED'' then REVOKED else if v = JStr ''CLEAR'' then CLEAR else RECOVERED) in
         if (st = REVOKED) \<noteq> (categories \<noteq> []) \<or> (0 < revision \<and> st = CLEAR) then Inl Revocation_Error else Inr st)"

definition validate_ledger :: "(string \<times> json) list \<Rightarrow> binding \<Rightarrow> control_err + ledger_state" where
  "validate_ledger kvs candidate =
     (if keys_of kvs \<noteq> ledger_names \<or> field_or JNull ''schema_version'' kvs \<noteq> JStr ''1.0'' then Inl Revocation_Error
      else bind_res (same_candidate (field_or JNull ''candidate_binding'' kvs) candidate) (\<lambda>_.
      bind_res (int_from Revocation_Error 0 (field_or JNull ''revision'' kvs)) (\<lambda>revision.
      bind_res (ledger_links revision kvs) (\<lambda>(previous, event).
      bind_res (category_list (field_or JNull ''active_reason_categories'' kvs)) (\<lambda>categories.
      bind_res (ledger_status_of (field_or JNull ''status'' kvs) revision categories) (\<lambda>st.
      bind_res (ref_of (field_or JNull ''actor_ref'' kvs)) (\<lambda>actor.
      bind_res (ref_of (field_or JNull ''authority_ref'' kvs)) (\<lambda>authority.
      bind_res (ref_of (field_or JNull ''transition_id'' kvs)) (\<lambda>tid.
      bind_res (time_of Revocation_Error (field_or JNull ''updated_at'' kvs)) (\<lambda>_.
        Inr \<lparr>ls_revision = revision, ls_previous = previous, ls_event = event, ls_status = st,
             ls_categories = categories, ls_actor = actor, ls_authority = authority,
             ls_time = the (json_str (field_or JNull ''updated_at'' kvs)), ls_transition_id = tid\<rparr>))))))))))"

end
