(* ===== verification/Ledger.thy ===== *)
theory Ledger
  imports Revocation "HOL-Library.AList"
begin

text \<open>
  The revocation ledger on disk: \<open>_read_state\<close> replays the signed events from the genesis state and
  compares the outcome with the stored state, \<open>record_reference_candidate_event\<close> appends one event
  in three writes, and the status and gate functions report what is read
  (\<open>src/k_slide/candidate_revocation.py\<close>).
\<close>

section \<open>The directory of one candidate\<close>

record ledger_dir =
  ld_link :: bool
  ld_state :: control_file
  ld_head :: control_file
  ld_genesis :: control_file
  ld_history :: control_history

definition ledger_head_fields :: "binding \<Rightarrow> int \<Rightarrow> string \<Rightarrow> (string \<times> json) list" where
  "ledger_head_fields candidate revision identity = [
     (''schema_version'', JStr ''1.0''), (''candidate_binding_identity'', JStr (binding_identity candidate)),
     (''revision'', JInt revision), (''state_identity'', JStr identity)]"

definition ledger_head_names :: "string set" where
  "ledger_head_names = {''schema_version'', ''candidate_binding_identity'', ''revision'', ''state_identity''}"

definition check_ledger_head ::
  "(string \<times> json) list \<Rightarrow> binding \<Rightarrow> int \<Rightarrow> string \<Rightarrow> control_err + unit"
where
  "check_ledger_head head candidate revision identity = guards [
     (keys_of head \<noteq> ledger_head_names \<or> field_or JNull ''schema_version'' head \<noteq> JStr ''1.0'', Revocation_Error),
     (\<not> same_json (JObj head) (JObj (ledger_head_fields candidate revision identity)), Revocation_Error)]"

section \<open>One event\<close>

text \<open>The active categories after an event; a recovery must name active ones.\<close>

definition next_categories :: "ledger_event \<Rightarrow> string list \<Rightarrow> control_err + string list" where
  "next_categories e active =
     (case le_action e of
        REVOKE \<Rightarrow> Inr (insert_str (hd (le_categories e)) active)
      | RECOVER \<Rightarrow> if set (le_categories e) \<subseteq> set active
                   then Inr (filter (\<lambda>c. c \<notin> set (le_categories e)) active) else Inl Revocation_Error)"

definition next_ledger :: "ledger_event \<Rightarrow> string \<Rightarrow> int \<Rightarrow> string \<Rightarrow> string list \<Rightarrow> ledger_state" where
  "next_ledger e event_identity revision previous active =
     \<lparr>ls_revision = revision, ls_previous = Some previous, ls_event = Some event_identity,
      ls_status = (if active \<noteq> [] then REVOKED else if le_action e = RECOVER then RECOVERED else CLEAR),
      ls_categories = active, ls_actor = le_actor e, ls_authority = le_authority e, ls_time = le_time e,
      ls_transition_id = le_event_id e\<rparr>"

section \<open>Replay\<close>

text \<open>What the loop of \<open>_read_state\<close> carries from one revision to the next.\<close>

record replay =
  re_identity :: string
  re_event :: "string option"
  re_categories :: "string list"
  re_payload :: "(string \<times> json) list"

definition replay_event ::
  "(string \<times> json) list \<Rightarrow> binding \<Rightarrow> nat \<Rightarrow> replay \<Rightarrow> control_err + replay"
where
  "replay_event kvs candidate n r =
     bind_res (validate_event kvs candidate utc_max) (\<lambda>e.
     if le_expected e \<noteq> int n - 1 \<or> le_state_identity e \<noteq> re_identity r \<or> le_previous e \<noteq> re_event r
     then Inl Revocation_Error
     else bind_res (time_of Revocation_Error (field_or JNull ''updated_at'' (re_payload r))) (\<lambda>before.
       if le_at e < before then Inl Revocation_Error
       else bind_res (next_categories e (re_categories r)) (\<lambda>active.
         let event_identity = payload_identity (JObj kvs);
             payload = ledger_fields candidate (next_ledger e event_identity (int n) (re_identity r) active) in
         Inr \<lparr>re_identity = payload_identity (JObj payload), re_event = Some event_identity,
              re_categories = active, re_payload = payload\<rparr>)))"

fun replay_events ::
  "(string \<times> control_file) list \<Rightarrow> string \<Rightarrow> binding \<Rightarrow> nat list \<Rightarrow> replay \<Rightarrow> control_err + replay"
where
  "replay_events files key candidate [] r = Inr r"
| "replay_events files key candidate (n # ns) r =
     (case map_option read_control (map_of files (history_name n)) of
        Some (Some v) \<Rightarrow>
          bind_res (verify_signed Revocation_Error v key) (\<lambda>kvs.
          bind_res (replay_event kvs candidate n r) (replay_events files key candidate ns))
      | _ \<Rightarrow> Inl Control_Storage)"

definition genesis_replay :: "(string \<times> json) list \<Rightarrow> replay" where
  "genesis_replay kvs =
     \<lparr>re_identity = payload_identity (JObj kvs), re_event = None, re_categories = [], re_payload = kvs\<rparr>"

definition read_genesis :: "control_file \<Rightarrow> string \<Rightarrow> binding \<Rightarrow> control_err + (string \<times> json) list" where
  "read_genesis f key candidate =
     (case read_control f of
        None \<Rightarrow> Inl Revocation_Error
      | Some v \<Rightarrow>
          bind_res (verify_signed Revocation_Error v key) (\<lambda>kvs.
          bind_res (validate_ledger kvs candidate) (\<lambda>s.
            if ls_revision s \<noteq> 0 then Inl Revocation_Error else Inr kvs)))"

definition check_history_names :: "control_history \<Rightarrow> int \<Rightarrow> control_err + (string \<times> control_file) list" where
  "check_history_names history revision =
     (case history_files history of
        None \<Rightarrow> Inl Revocation_Error
      | Some files \<Rightarrow>
          let expected = set (map history_name [1..<nat revision + 1]) in
          if set (map fst files) \<noteq> expected \<or> list_ex (\<lambda>f. fst f \<in> expected \<and> is_link (snd f)) files
          then Inl Revocation_Error else Inr files)"

text \<open>\<open>_read_state\<close>: the validated state and its identity, with the directory it was read from.\<close>

definition read_ledger_dir ::
  "ledger_dir \<Rightarrow> binding \<Rightarrow> string \<Rightarrow> control_err + (ledger_state \<times> string \<times> (string \<times> control_file) list)"
where
  "read_ledger_dir d candidate key =
     (if ld_link d then Inl Revocation_Error
      else case (read_control (ld_state d), read_control (ld_head d)) of
        (Some signed_state, Some signed_head) \<Rightarrow>
          bind_res (verify_signed Revocation_Error signed_state key) (\<lambda>kvs.
          bind_res (validate_ledger kvs candidate) (\<lambda>s.
          bind_res (verify_signed Revocation_Error signed_head key) (\<lambda>head.
          bind_res (check_ledger_head head candidate (ls_revision s) (payload_identity (JObj kvs))) (\<lambda>_.
          bind_res (check_history_names (ld_history d) (ls_revision s)) (\<lambda>files.
          bind_res (read_genesis (ld_genesis d) key candidate) (\<lambda>genesis.
          bind_res (replay_events files key candidate [1..<nat (ls_revision s) + 1] (genesis_replay genesis)) (\<lambda>r.
            if \<not> same_json (JObj (re_payload r)) (JObj kvs) \<or> re_identity r \<noteq> payload_identity (JObj kvs)
            then Inl Revocation_Error
            else Inr (s, payload_identity (JObj kvs), files))))))))
      | _ \<Rightarrow> Inl Revocation_Error)"

section \<open>The control directory\<close>

text \<open>
  \<open>.k-slide-config\<close>: the rollout documents and, under \<open>candidate-revocations\<close>, one ledger per
  candidate, named by the digest of its binding.
\<close>

record control_root =
  cr_link :: bool
  cr_revocations_link :: bool
  cr_policy :: control_file
  cr_state :: control_file
  cr_head :: control_file
  cr_history :: control_history
  cr_ledgers :: "string \<Rightarrow> ledger_dir option"

text \<open>\<open>_directory\<close>: \<open>None\<close> where the directory does not exist.\<close>

definition ledger_directory :: "control_root \<Rightarrow> binding \<Rightarrow> control_err + ledger_dir option" where
  "ledger_directory root candidate =
     (if cr_link root \<or> cr_revocations_link root then Inl Revocation_Error
      else Inr (cr_ledgers root (binding_identity candidate)))"

definition read_ledger ::
  "control_root \<Rightarrow> binding \<Rightarrow> string \<Rightarrow> control_err + (ledger_state \<times> string \<times> (string \<times> control_file) list)"
where
  "read_ledger root candidate key =
     bind_res (ledger_directory root candidate) (\<lambda>found.
       case found of None \<Rightarrow> Inl Revocation_Error | Some d \<Rightarrow> read_ledger_dir d candidate key)"

definition new_ledger :: "binding \<Rightarrow> string \<Rightarrow> utc \<Rightarrow> control_err + ledger_dir" where
  "new_ledger candidate key now =
     (let payload = JObj (ledger_fields candidate (initial_ledger now)) in
      bind_res (signed Revocation_Error payload key) (\<lambda>signed_state.
      bind_res (signed Revocation_Error (JObj (ledger_head_fields candidate 0 (payload_identity payload))) key) (\<lambda>signed_head.
        Inr \<lparr>ld_link = False, ld_state = CF_Json signed_state, ld_head = CF_Json signed_head,
             ld_genesis = CF_Json signed_state, ld_history = CH_Files []\<rparr>)))"

text \<open>
  \<open>initialize_reference_candidate_revocation\<close>: equal candidates are initialized once, a ledger that
  exists is never replaced.
\<close>

definition by_identity :: "binding list \<Rightarrow> binding list" where
  "by_identity candidates = map snd (foldl (\<lambda>acc c. AList.update (binding_identity c) c acc) [] candidates)"

fun initialize_ledgers :: "control_root \<Rightarrow> binding list \<Rightarrow> string \<Rightarrow> utc \<Rightarrow> control_err + control_root" where
  "initialize_ledgers root [] key now = Inr root"
| "initialize_ledgers root (candidate # rest) key now =
     bind_res (ledger_directory root candidate) (\<lambda>found.
       case found of
         Some d \<Rightarrow> Inl Revocation_Error
       | None \<Rightarrow> bind_res (new_ledger candidate key now) (\<lambda>d.
           initialize_ledgers (root\<lparr>cr_ledgers := (cr_ledgers root)(binding_identity candidate \<mapsto> d)\<rparr>) rest key now))"

section \<open>Status\<close>

record revocation_status =
  vs_candidate :: binding
  vs_identity :: string
  vs_revision :: int
  vs_status :: string
  vs_categories :: "string list"
  vs_event :: "string option"

abbreviation vs_revoked :: "revocation_status \<Rightarrow> bool" where
  "vs_revoked s \<equiv> vs_status s = ''REVOKED''"

definition validate_status :: "revocation_status \<Rightarrow> binding \<Rightarrow> control_err + revocation_status" where
  "validate_status s candidate =
     bind_res (guards [
       (vs_candidate s \<noteq> candidate, Revocation_Error),
       (\<not> matches_sha256 (vs_identity s), Revocation_Error),
       (vs_revision s < 0, Revocation_Error),
       (vs_status s \<notin> {''CLEAR'', ''REVOKED'', ''RECOVERED''}, Revocation_Error),
       (vs_revision s = 0 \<and> (vs_event s \<noteq> None \<or> vs_status s \<noteq> ''CLEAR'' \<or> vs_categories s \<noteq> []), Revocation_Error),
       (0 < vs_revision s \<and> (case vs_event s of None \<Rightarrow> True | Some h \<Rightarrow> \<not> matches_sha256 h), Revocation_Error),
       (\<not> rising (vs_categories s) \<or> \<not> set (vs_categories s) \<subseteq> set reason_categories, Revocation_Error),
       (vs_revoked s \<noteq> (vs_categories s \<noteq> []) \<or> (0 < vs_revision s \<and> vs_status s = ''CLEAR''), Revocation_Error)])
       (\<lambda>_. Inr s)"

definition status_of_ledger :: "binding \<Rightarrow> ledger_state \<Rightarrow> string \<Rightarrow> revocation_status" where
  "status_of_ledger candidate s identity =
     \<lparr>vs_candidate = candidate, vs_identity = identity, vs_revision = ls_revision s,
      vs_status = status_name (ls_status s), vs_categories = ls_categories s, vs_event = ls_event s\<rparr>"

text \<open>\<open>reference_candidate_revocation_status\<close>.\<close>

definition ledger_status_at :: "control_root \<Rightarrow> binding \<Rightarrow> string \<Rightarrow> control_err + revocation_status" where
  "ledger_status_at root candidate key =
     bind_res (read_ledger root candidate key) (\<lambda>(s, identity, files).
       validate_status (status_of_ledger candidate s identity) candidate)"

text \<open>A provider is a function that may raise; \<open>None\<close> where the deployment has none.\<close>

type_synonym revocation_provider = "binding \<Rightarrow> control_err + revocation_status"

definition candidate_revocation_status ::
  "revocation_provider option \<Rightarrow> binding \<Rightarrow> control_err + revocation_status"
where
  "candidate_revocation_status provider candidate =
     (case provider of
        None \<Rightarrow> Inl Revocation_Error
      | Some status \<Rightarrow> (case status candidate of
          Inl e \<Rightarrow> Inl Revocation_Error
        | Inr s \<Rightarrow> validate_status s candidate))"

datatype gate_detail = No_Candidate | Gate_Failed control_err | Gate_Revoked | Gate_Open int string

definition candidate_revocation_gate ::
  "binding option \<Rightarrow> revocation_provider option \<Rightarrow> bool \<times> gate_detail"
where
  "candidate_revocation_gate candidate provider =
     (case candidate of
        None \<Rightarrow> (False, No_Candidate)
      | Some c \<Rightarrow> (case candidate_revocation_status provider c of
          Inl e \<Rightarrow> (False, Gate_Failed e)
        | Inr s \<Rightarrow> if vs_revoked s then (False, Gate_Revoked) else (True, Gate_Open (vs_revision s) (vs_identity s))))"

section \<open>Recording an event\<close>

text \<open>The writes of one append, in their order.\<close>

datatype ledger_write = LW_Event string json | LW_State json | LW_Head json

fun add_history :: "string \<Rightarrow> json \<Rightarrow> control_history \<Rightarrow> control_history" where
  "add_history name v (CH_Files files) = CH_Files (files @ [(name, CF_Json v)])"
| "add_history name v h = h"

fun write_ledger :: "ledger_write \<Rightarrow> ledger_dir \<Rightarrow> ledger_dir" where
  "write_ledger (LW_Event name v) d = d\<lparr>ld_history := add_history name v (ld_history d)\<rparr>"
| "write_ledger (LW_State v) d = d\<lparr>ld_state := CF_Json v\<rparr>"
| "write_ledger (LW_Head v) d = d\<lparr>ld_head := CF_Json v\<rparr>"

text \<open>The scan for the event's identifier: \<open>Some True\<close> is the same event again.\<close>

fun find_event ::
  "(string \<times> control_file) list \<Rightarrow> string \<Rightarrow> string \<Rightarrow> (string \<times> json) list \<Rightarrow> control_err + bool"
where
  "find_event [] key event_id kvs = Inr False"
| "find_event ((name, f) # rest) key event_id kvs =
     (if \<not> ends_with ''.json'' name then find_event rest key event_id kvs
      else case read_control f of
        None \<Rightarrow> Inl Control_Storage
      | Some v \<Rightarrow> bind_res (verify_signed Revocation_Error v key) (\<lambda>existing.
          if field_or JNull ''event_id'' existing = JStr event_id
          then if canonical (JObj existing) = canonical (JObj kvs) then Inr True else Inl Revocation_Error
          else find_event rest key event_id kvs))"

text \<open>The compare-and-set: revision, state and previous event are those of the ledger as it stands.\<close>

definition check_append :: "ledger_event \<Rightarrow> ledger_state \<Rightarrow> string \<Rightarrow> control_err + unit" where
  "check_append e s identity =
     (if le_expected e \<noteq> ls_revision s \<or> le_state_identity e \<noteq> identity \<or> le_previous e \<noteq> ls_event s
      then Inl Revocation_Error
      else bind_res (time_of Revocation_Error (JStr (ls_time s))) (\<lambda>before.
        if le_at e < before then Inl Revocation_Error else Inr ()))"

definition append_writes ::
  "json \<Rightarrow> binding \<Rightarrow> ledger_state \<Rightarrow> (string \<times> control_file) list \<Rightarrow> string \<Rightarrow> control_err + ledger_write list"
where
  "append_writes event candidate next_state files key =
     (let payload = JObj (ledger_fields candidate next_state);
          name = history_name (nat (ls_revision next_state)) in
      if map_of files name \<noteq> None then Inl Revocation_Error
      else bind_res (signed Revocation_Error payload key) (\<lambda>signed_state.
      bind_res (signed Revocation_Error
        (JObj (ledger_head_fields candidate (ls_revision next_state) (payload_identity payload))) key) (\<lambda>signed_head.
        Inr [LW_Event name event, LW_State signed_state, LW_Head signed_head])))"

text \<open>
  \<open>record_reference_candidate_event\<close>: the status, whether the event was there already, and the
  writes to make in the ledger of the event's candidate.
\<close>

definition record_event ::
  "control_root \<Rightarrow> json \<Rightarrow> string \<Rightarrow> utc \<Rightarrow> bool \<Rightarrow> control_err + (revocation_status \<times> bool \<times> binding \<times> ledger_write list)"
where
  "record_event root event key now validate_only =
     bind_res (verify_signed Revocation_Error event key) (\<lambda>kvs.
     bind_res (binding_from_mapping (field_or JNull ''candidate_binding'' kvs)) (\<lambda>candidate.
     bind_res (validate_event kvs candidate now) (\<lambda>e.
     bind_res (read_ledger root candidate key) (\<lambda>(s, identity, files).
     bind_res (find_event files key (le_event_id e) kvs) (\<lambda>duplicate.
     if duplicate
     then bind_res (validate_status (status_of_ledger candidate s identity) candidate) (\<lambda>st. Inr (st, True, candidate, []))
     else bind_res (check_append e s identity) (\<lambda>_.
       bind_res (next_categories e (ls_categories s)) (\<lambda>active.
       if validate_only
       then bind_res (validate_status (status_of_ledger candidate s identity) candidate) (\<lambda>st. Inr (st, False, candidate, []))
       else
         let next_state = next_ledger e (payload_identity (JObj kvs)) (ls_revision s + 1) identity active in
         bind_res (append_writes event candidate next_state files key) (\<lambda>writes.
         bind_res (validate_status
             (status_of_ledger candidate next_state (payload_identity (JObj (ledger_fields candidate next_state)))) candidate)
           (\<lambda>st. Inr (st, False, candidate, writes))))))))))"

definition write_root_ledger :: "binding \<Rightarrow> ledger_write \<Rightarrow> control_root \<Rightarrow> control_root" where
  "write_root_ledger candidate w root = root\<lparr>cr_ledgers := (cr_ledgers root)
     (binding_identity candidate := map_option (write_ledger w) (cr_ledgers root (binding_identity candidate)))\<rparr>"

end
