(* ===== verification/Rollout_Control.thy ===== *)
theory Rollout_Control
  imports Ledger
begin

text \<open>
  The reference adapter over a control directory (\<open>src/k_slide/rollout.py\<close>): what it admits, the
  check on every receipt, its initialization and its compare-and-set transition; and the
  application of a revocation event (\<open>src/k_slide/candidate_revocation.py\<close>), which records the event and
  then moves the rollout by a signed transition.
\<close>

section \<open>Receipts\<close>

record rollout_admission =
  ra_status :: string
  ra_reason :: string
  ra_candidate :: binding
  ra_policy_identity :: "string option"
  ra_policy_version :: "string option"
  ra_revision :: "int option"
  ra_stage :: "string option"
  ra_cohort :: "string option"
  ra_rule :: string
  ra_revocation_identity :: "string option"
  ra_revocation_revision :: "int option"
  ra_revocation_status :: "string option"

definition admission_as_dict :: "rollout_admission \<Rightarrow> json" where
  "admission_as_dict a = JObj [
     (''schema_version'', JStr ''1.0''), (''status'', JStr (ra_status a)), (''reason_code'', JStr (ra_reason a)),
     (''candidate_binding'', binding_as_dict (ra_candidate a)),
     (''policy_identity'', json_opt_str (ra_policy_identity a)),
     (''policy_version'', json_opt_str (ra_policy_version a)),
     (''state_revision'', (case ra_revision a of None \<Rightarrow> JNull | Some i \<Rightarrow> JInt i)),
     (''stage'', json_opt_str (ra_stage a)), (''cohort_id'', json_opt_str (ra_cohort a)),
     (''rollback_rule'', JStr (ra_rule a)),
     (''revocation_state_identity'', json_opt_str (ra_revocation_identity a)),
     (''revocation_revision'', (case ra_revocation_revision a of None \<Rightarrow> JNull | Some i \<Rightarrow> JInt i)),
     (''revocation_status'', json_opt_str (ra_revocation_status a))]"

definition denial_reasons :: "string set" where
  "denial_reasons = {''COHORT_NOT_ADMITTED'', ''ADMISSIONS_DISABLED'', ''CANDIDATE_REVOKED''}"

definition rejection_reasons :: "string set" where
  "rejection_reasons = {''CONTROL_INVALID'', ''AUTHORITY_UNAVAILABLE''}"

definition not_name :: "string option \<Rightarrow> bool" where
  "not_name s \<longleftrightarrow> (case s of None \<Rightarrow> True | Some n \<Rightarrow> \<not> matches_name n)"

text \<open>The checks of an admitted or denied receipt.\<close>

definition check_decided :: "rollout_admission \<Rightarrow> control_err + unit" where
  "check_decided v = guards [
     (ra_policy_identity v = None \<or> ra_policy_version v = None \<or> ra_revision v = None \<or> ra_stage v = None, Rollout_Error),
     (case ra_revocation_identity v of None \<Rightarrow> True | Some h \<Rightarrow> \<not> matches_sha256 h, Rollout_Error),
     (case ra_revocation_revision v of None \<Rightarrow> True | Some i \<Rightarrow> i < 0, Rollout_Error),
     (ra_revocation_status v \<notin> {Some ''CLEAR'', Some ''RECOVERED'', Some ''REVOKED''}, Rollout_Error),
     ((ra_reason v = ''CANDIDATE_REVOKED'') \<noteq> (ra_revocation_status v = Some ''REVOKED''), Rollout_Error),
     (ra_status v = ''ADMITTED'' \<and> ra_revocation_status v = Some ''REVOKED'', Rollout_Error),
     (not_name (ra_cohort v), Rollout_Error),
     (ra_status v = ''ADMITTED'' \<and> ra_stage v \<notin> set (map (\<lambda>s. Some (fst s)) stage_values), Rollout_Error),
     (ra_reason v = ''ADMISSIONS_DISABLED'' \<and> ra_stage v \<noteq> Some ''DISABLED'', Rollout_Error),
     (ra_reason v = ''COHORT_NOT_ADMITTED'' \<and> ra_stage v = Some ''DISABLED'', Rollout_Error)]"

definition validate_admission :: "rollout_admission \<Rightarrow> binding \<Rightarrow> control_err + rollout_admission" where
  "validate_admission v candidate =
     bind_res (guards [
       (ra_candidate v \<noteq> candidate, Rollout_Error),
       (ra_status v \<notin> {''ADMITTED'', ''DENIED'', ''REJECTED''}, Rollout_Error),
       (ra_reason v \<notin> insert ''COHORT_ADMITTED'' (denial_reasons \<union> rejection_reasons), Rollout_Error),
       (ra_status v = ''ADMITTED'' \<and> ra_reason v \<noteq> ''COHORT_ADMITTED'', Rollout_Error),
       (ra_status v = ''DENIED'' \<and> ra_reason v \<notin> denial_reasons, Rollout_Error),
       (ra_status v = ''REJECTED'' \<and> ra_reason v \<notin> rejection_reasons, Rollout_Error),
       (not_name (ra_cohort v), Rollout_Error),
       (case ra_policy_identity v of None \<Rightarrow> False | Some h \<Rightarrow> \<not> matches_sha256 h, Rollout_Error),
       (ra_policy_version v \<notin> {None, Some ''1.0''}, Rollout_Error),
       (case ra_revision v of None \<Rightarrow> False | Some i \<Rightarrow> i < 1, Rollout_Error),
       (ra_stage v \<notin> {None, Some ''DISABLED''} \<union> set (map (\<lambda>s. Some (fst s)) stage_values), Rollout_Error),
       (ra_rule v \<noteq> rollback_rule, Rollout_Error)]) (\<lambda>_.
     bind_res (if ra_status v \<in> {''ADMITTED'', ''DENIED''} then check_decided v else Inr ()) (\<lambda>_. Inr v))"

text \<open>\<open>RevocationAwareRolloutControl.admit\<close>: both adapters are functions that may raise.\<close>

definition aware_admit ::
  "(binding \<Rightarrow> control_err + rollout_admission) \<Rightarrow> revocation_provider option \<Rightarrow> binding \<Rightarrow> control_err + rollout_admission"
where
  "aware_admit rollout revocations candidate =
     bind_res (candidate_revocation_status revocations candidate) (\<lambda>st.
     bind_res (rollout candidate) (\<lambda>receipt.
       let bound = receipt\<lparr>ra_revocation_identity := Some (vs_identity st), ra_revocation_revision := Some (vs_revision st),
                           ra_revocation_status := Some (vs_status st)\<rparr> in
       if vs_revoked st
       then if ra_stage receipt \<noteq> Some ''DISABLED'' then Inl Rollout_Error
            else Inr (bound\<lparr>ra_status := ''DENIED'', ra_reason := ''CANDIDATE_REVOKED'', ra_candidate := candidate\<rparr>)
       else Inr bound))"

definition managed_candidate_environment :: "environment \<Rightarrow> bool" where
  "managed_candidate_environment env \<longleftrightarrow> env_ocr_provider env \<noteq> ''reference''"

section \<open>The reference adapter\<close>

record reference_control =
  rc_key :: string
  rc_cohort :: string
  rc_now :: utc

definition reference_control_init :: "control_root \<Rightarrow> string \<Rightarrow> string \<Rightarrow> utc \<Rightarrow> control_err + reference_control" where
  "reference_control_init root key cohort now = bind_res (guards [
     (cr_link root, Rollout_Error), (\<not> good_key key, Rollout_Error), (\<not> matches_name cohort, Rollout_Error)])
     (\<lambda>_. Inr \<lparr>rc_key = key, rc_cohort = cohort, rc_now = now\<rparr>)"

fun read_document :: "control_file \<Rightarrow> control_err + json" where
  "read_document (CF_Json v) = Inr v"
| "read_document f = Inl Rollout_Error"

text \<open>The policy, state and history of a control directory, verified together.\<close>

definition verified_rollout ::
  "control_root \<Rightarrow> json \<Rightarrow> json \<Rightarrow> json \<Rightarrow> string \<Rightarrow> utc
    \<Rightarrow> control_err + (rollout_policy \<times> string \<times> rollout_state \<times> (string \<times> json) list)"
where
  "verified_rollout root policy state head key now =
     bind_res (policy_payload policy key now) (\<lambda>(p, pol).
     bind_res (state_payload state key pol head) (\<lambda>(s, raw).
     bind_res (verify_history (cr_history root) key pol (ro_revision s) raw) (\<lambda>_. Inr (p, pol, s, raw))))"

definition admission_receipt ::
  "string \<Rightarrow> string \<Rightarrow> binding \<Rightarrow> string \<Rightarrow> rollout_state \<Rightarrow> string \<Rightarrow> revocation_status \<Rightarrow> rollout_admission"
where
  "admission_receipt status reason candidate pol s cohort st =
     \<lparr>ra_status = status, ra_reason = reason, ra_candidate = candidate, ra_policy_identity = Some pol,
      ra_policy_version = Some ''1.0'', ra_revision = Some (ro_revision s), ra_stage = Some (stage_name (ro_stage s)),
      ra_cohort = Some cohort, ra_rule = rollback_rule, ra_revocation_identity = Some (vs_identity st),
      ra_revocation_revision = Some (vs_revision st), ra_revocation_status = Some (vs_status st)\<rparr>"

definition decide_admission ::
  "rollout_policy \<Rightarrow> string \<Rightarrow> rollout_state \<Rightarrow> binding \<Rightarrow> string \<Rightarrow> revocation_status \<Rightarrow> rollout_admission"
where
  "decide_admission p pol s candidate cohort st =
     (if vs_revoked st then admission_receipt ''DENIED'' ''CANDIDATE_REVOKED'' candidate pol s cohort st
      else if \<not> ro_enabled s \<or> ro_stage s = DISABLED
      then admission_receipt ''DENIED'' ''ADMISSIONS_DISABLED'' candidate pol s cohort st
      else if ro_cohorts s \<noteq> cohorts_at p (ro_stage s) \<or> cohort \<notin> set (ro_cohorts s)
      then admission_receipt ''DENIED'' ''COHORT_NOT_ADMITTED'' candidate pol s cohort st
      else admission_receipt ''ADMITTED'' ''COHORT_ADMITTED'' candidate pol s cohort st)"

definition reference_admit ::
  "control_root \<Rightarrow> reference_control \<Rightarrow> binding \<Rightarrow> control_err + rollout_admission"
where
  "reference_admit root c candidate =
     bind_res (read_document (cr_policy root)) (\<lambda>policy.
     bind_res (read_document (cr_state root)) (\<lambda>state.
     bind_res (read_document (cr_head root)) (\<lambda>head.
     bind_res (verified_rollout root policy state head (rc_key c) (rc_now c)) (\<lambda>(p, pol, s, raw).
     bind_res (guards [
       (candidate \<noteq> ro_candidate s, Rollout_Error),
       (\<not> candidate_authorized p (ro_candidate s), Rollout_Error),
       (ro_action s = ROLLBACK \<and> rp_rollback p \<noteq> Some (ro_candidate s), Rollout_Error),
       (ro_action s = RESTORE_CANDIDATE \<and> ro_candidate s \<noteq> rp_candidate p, Rollout_Error)]) (\<lambda>_.
     bind_res (candidate_revocation_status (Some (\<lambda>b. ledger_status_at root b (rc_key c))) candidate) (\<lambda>st.
       Inr (decide_admission p pol s candidate (rc_cohort c) st)))))))"

section \<open>Writes\<close>

datatype control_write =
    CW_History string json
  | CW_State json
  | CW_Head json
  | CW_Ledger binding ledger_write

fun write_control :: "control_write \<Rightarrow> control_root \<Rightarrow> control_root" where
  "write_control (CW_History name v) root = root\<lparr>cr_history := add_history name v (cr_history root)\<rparr>"
| "write_control (CW_State v) root = root\<lparr>cr_state := CF_Json v\<rparr>"
| "write_control (CW_Head v) root = root\<lparr>cr_head := CF_Json v\<rparr>"
| "write_control (CW_Ledger b w) root = write_root_ledger b w root"

definition write_all :: "control_write list \<Rightarrow> control_root \<Rightarrow> control_root" where
  "write_all = fold write_control"

section \<open>Initialization\<close>

definition rollout_initialized :: "control_root \<Rightarrow> bool" where
  "rollout_initialized root \<longleftrightarrow>
     cr_policy root \<noteq> CF_Missing \<or> cr_state root \<noteq> CF_Missing \<or> cr_head root \<noteq> CF_Missing \<or> cr_history root \<noteq> CH_Missing"

definition initialize_rollout :: "control_root \<Rightarrow> json \<Rightarrow> string \<Rightarrow> utc \<Rightarrow> control_err + control_root" where
  "initialize_rollout root policy key now =
     (if cr_link root \<or> rollout_initialized root then Inl Rollout_Error
      else bind_res (policy_payload policy key now) (\<lambda>(p, pol).
      bind_res (initialize_ledgers root
        (by_identity (rp_candidate p # (case rp_rollback p of None \<Rightarrow> [] | Some b \<Rightarrow> [b]))) key now) (\<lambda>root'.
      bind_res (initial_state policy key now) (\<lambda>state.
      bind_res (verify_signed Rollout_Error state key) (\<lambda>payload.
      bind_res (head_for (the (json_int (field_or JNull ''revision'' payload))) (state_identity payload) key) (\<lambda>head.
        Inr (root'\<lparr>cr_policy := CF_Json policy, cr_state := CF_Json state, cr_head := CF_Json head,
                   cr_history := CH_Files [(history_name 1, CF_Json state)]\<rparr>)))))))"

section \<open>Transition\<close>

text \<open>Is the candidate of a ledger revoked; a ledger that cannot be read raises.\<close>

definition check_not_revoked :: "control_root \<Rightarrow> string \<Rightarrow> binding option \<Rightarrow> binding \<Rightarrow> control_err + unit" where
  "check_not_revoked root key except b =
     bind_res (ledger_status_at root b key) (\<lambda>st.
       if vs_revoked st \<and> Some b \<noteq> except then Inl Rollout_Error else Inr ())"

definition command_target :: "json \<Rightarrow> control_err + binding option" where
  "command_target v =
     (case v of JObj kvs \<Rightarrow> bind_res (binding_from_mapping v) (\<lambda>b. Inr (Some b)) | _ \<Rightarrow> Inr None)"

text \<open>\<open>"restore-" + event_id\<close>, compared with the identifier of the command.\<close>

definition check_restore_id :: "json \<Rightarrow> json \<Rightarrow> control_err + unit" where
  "check_restore_id tid event_id =
     (case event_id of
        JStr i \<Rightarrow> if tid \<noteq> JStr (''restore-'' @ i) then Inl Rollout_Error else Inr ()
      | _ \<Rightarrow> Inl Control_TypeError)"

text \<open>The conditions on a recovery event that comes with a transition: its candidate.\<close>

definition check_recovery ::
  "control_root \<Rightarrow> rollout_policy \<Rightarrow> rollout_state \<Rightarrow> (string \<times> json) list \<Rightarrow> binding option \<Rightarrow> json \<Rightarrow> string \<Rightarrow> utc
    \<Rightarrow> control_err + binding"
where
  "check_recovery root p s c target event key now =
     bind_res (verify_signed Revocation_Error event key) (\<lambda>kvs.
     bind_res (binding_from_mapping (field_or JNull ''candidate_binding'' kvs)) (\<lambda>candidate.
     bind_res (guards [
       (field_or JNull ''action'' c \<noteq> JStr ''RESTORE_CANDIDATE'' \<or> field_or JNull ''action'' kvs \<noteq> JStr ''RECOVER''
          \<or> candidate \<noteq> rp_candidate p \<or> target \<noteq> Some (rp_candidate p) \<or> rp_rollback p \<noteq> Some (ro_candidate s),
        Rollout_Error)]) (\<lambda>_.
     bind_res (check_restore_id (field_or JNull ''transition_id'' c) (field_or (JStr []) ''event_id'' kvs)) (\<lambda>_.
     bind_res (record_event root event key now True) (\<lambda>(st, duplicate, b, writes).
     if duplicate \<or> \<not> vs_revoked st then Inl Rollout_Error
     else bind_res (check_not_revoked root key None (ro_candidate s)) (\<lambda>_. Inr candidate))))))"

definition protected_candidates :: "json \<Rightarrow> rollout_state \<Rightarrow> binding option \<Rightarrow> binding list" where
  "protected_candidates action s target =
     (if action = JStr ''SET_STAGE'' then [ro_candidate s]
      else if action = JStr ''RESTORE_CANDIDATE'' \<or> action = JStr ''ROLLBACK''
      then (case target of None \<Rightarrow> [] | Some b \<Rightarrow> [b]) else [])"

definition check_restored :: "json \<Rightarrow> rollout_policy \<Rightarrow> (string \<times> json) list \<Rightarrow> control_err + unit" where
  "check_restored action p kvs = guards [
     (action = JStr ''RESTORE_CANDIDATE''
        \<and> (\<not> requests (field_or JNull ''candidate_binding'' kvs) (rp_candidate p)
           \<or> field_or JNull ''stage'' kvs \<noteq> JStr ''DISABLED'' \<or> field_or JNull ''admissions_enabled'' kvs \<noteq> JBool False
           \<or> field_or JNull ''admitted_cohorts'' kvs \<noteq> JArr []), Rollout_Error)]"

text \<open>
  Before the next state is computed: the verified rollout, the command, the checks on the recovery
  event and on the protected candidates. It gives the documents, the policy, its identity and the
  action of the command.
\<close>

definition transition_checks ::
  "control_root \<Rightarrow> json \<Rightarrow> string \<Rightarrow> utc \<Rightarrow> json option
    \<Rightarrow> control_err + ((json \<times> json \<times> json) \<times> rollout_policy \<times> string \<times> json)"
where
  "transition_checks root command key now recovery =
     (if cr_link root then Inl Rollout_Error
      else if is_link (cr_policy root) \<or> is_link (cr_state root) \<or> is_link (cr_head root) then Inl Rollout_Error
      else bind_res (read_document (cr_policy root)) (\<lambda>policy.
      bind_res (read_document (cr_state root)) (\<lambda>state.
      bind_res (read_document (cr_head root)) (\<lambda>head.
      bind_res (verified_rollout root policy state head key now) (\<lambda>(p, pol, s, raw).
      bind_res (verify_signed Rollout_Error command key) (\<lambda>c.
      bind_res (command_target (field_or JNull ''target_candidate_binding'' c)) (\<lambda>target.
      bind_res (case recovery of
          None \<Rightarrow> Inr None
        | Some event \<Rightarrow> bind_res (check_recovery root p s c target event key now) (\<lambda>b. Inr (Some b))) (\<lambda>recovered.
      bind_res (map_res (check_not_revoked root key recovered)
          (protected_candidates (field_or JNull ''action'' c) s target)) (\<lambda>_.
        Inr ((policy, state, head), p, pol, field_or JNull ''action'' c))))))))))"

text \<open>The next state and head, checked before they are written, and the next revision.\<close>

definition transition_writes ::
  "control_root \<Rightarrow> json \<Rightarrow> string \<Rightarrow> utc \<Rightarrow> json option \<Rightarrow> control_err + (string \<times> json \<times> json \<times> int)"
where
  "transition_writes root command key now recovery =
     bind_res (transition_checks root command key now recovery) (\<lambda>((policy, state, head), p, pol, action).
     bind_res (apply_transition policy state head command key now) (\<lambda>(next_state, next_head).
     bind_res (verify_signed Rollout_Error next_state key) (\<lambda>payload.
     bind_res (check_restored action p payload) (\<lambda>_.
       let revision = the (json_int (field_or JNull ''revision'' payload)) in
       case history_files (cr_history root) of
         None \<Rightarrow> Inl Rollout_Error
       | Some files \<Rightarrow>
           if map_of files (history_name (nat revision)) \<noteq> None then Inl Rollout_Error
           else Inr (pol, next_state, next_head, revision)))))"

definition rollout_writes :: "json \<Rightarrow> json \<Rightarrow> int \<Rightarrow> control_write list" where
  "rollout_writes state head revision =
     [CW_History (history_name (nat revision)) state, CW_State state, CW_Head head]"

text \<open>What follows the writes of a recovery: the new rollout is verified and the event recorded.\<close>

definition record_recovery ::
  "control_root \<Rightarrow> string \<Rightarrow> json \<Rightarrow> json \<Rightarrow> json \<Rightarrow> string \<Rightarrow> utc \<Rightarrow> control_err + control_write list"
where
  "record_recovery root pol state head event key now =
     bind_res (state_payload state key pol head) (\<lambda>(s, raw).
     bind_res (verify_history (cr_history root) key pol (ro_revision s) raw) (\<lambda>_.
     bind_res (record_event root event key now False) (\<lambda>(st, duplicate, b, writes).
       Inr (map (CW_Ledger b) writes))))"

text \<open>
  \<open>transition_reference_rollout_control\<close>: the writes it made, and the next revision or the error it
  raised after them.
\<close>

definition rollout_transition ::
  "control_root \<Rightarrow> json \<Rightarrow> string \<Rightarrow> utc \<Rightarrow> json option \<Rightarrow> control_write list \<times> (control_err + int)"
where
  "rollout_transition root command key now recovery =
     (case transition_writes root command key now recovery of
        Inl e \<Rightarrow> ([], Inl e)
      | Inr (pol, state, head, revision) \<Rightarrow>
          let writes = rollout_writes state head revision in
          (case recovery of
             None \<Rightarrow> (writes, Inr revision)
           | Some event \<Rightarrow> (case record_recovery (write_all writes root) pol state head event key now of
               Inl e \<Rightarrow> (writes, Inl e)
             | Inr ledger \<Rightarrow> (writes @ ledger, Inr revision))))"

section \<open>Applying a revocation event\<close>

text \<open>\<open>except Exception\<close> and \<open>except RolloutControlError\<close>, raising \<open>CandidateRevocationError\<close>.\<close>

definition any_to_revocation :: "control_err + 'a \<Rightarrow> control_err + 'a" where
  "any_to_revocation r = (case r of Inl e \<Rightarrow> Inl Revocation_Error | Inr x \<Rightarrow> Inr x)"

definition rollout_to_revocation :: "control_err + 'a \<Rightarrow> control_err + 'a" where
  "rollout_to_revocation r =
     (case r of Inl e \<Rightarrow> Inl (if is_rollout_error e then Revocation_Error else e) | Inr x \<Rightarrow> Inr x)"

definition read_any :: "control_file \<Rightarrow> control_err + json" where
  "read_any f = (case read_control f of None \<Rightarrow> Inl Control_Storage | Some v \<Rightarrow> Inr v)"

text \<open>\<open>_load_reference_rollout_snapshot\<close>.\<close>

definition load_snapshot ::
  "control_root \<Rightarrow> string \<Rightarrow> utc \<Rightarrow> control_err + (rollout_policy \<times> string \<times> rollout_state \<times> (string \<times> json) list)"
where
  "load_snapshot root key now =
     (if cr_link root \<or> is_link (cr_policy root) \<or> is_link (cr_state root) \<or> is_link (cr_head root)
      then Inl Revocation_Error
      else any_to_revocation (
        bind_res (read_any (cr_policy root)) (\<lambda>policy.
        bind_res (read_any (cr_state root)) (\<lambda>state.
        bind_res (read_any (cr_head root)) (\<lambda>head. verified_rollout root policy state head key now)))))"

definition dormant :: "rollout_state \<Rightarrow> bool" where
  "dormant s \<longleftrightarrow> ro_stage s = DISABLED \<and> \<not> ro_enabled s \<and> ro_cohorts s = []"

text \<open>The part of a recovery on the active primary that holds the rollout lock.\<close>

definition recover_disabled ::
  "control_root \<Rightarrow> json \<Rightarrow> binding \<Rightarrow> string \<Rightarrow> utc \<Rightarrow> control_write list \<times> (control_err + revocation_status)"
where
  "recover_disabled root event candidate key now =
     (case load_snapshot root key now of
        Inl e \<Rightarrow> ([], Inl e)
      | Inr (p, pol, s, raw) \<Rightarrow>
          if rp_candidate p \<noteq> candidate \<or> ro_candidate s \<noteq> candidate \<or> \<not> dormant s then ([], Inl Revocation_Error)
          else (case record_event root event key now False of
              Inl e \<Rightarrow> ([], Inl e)
            | Inr (st, duplicate, b, writes) \<Rightarrow> (map (CW_Ledger b) writes, Inr st)))"

text \<open>
  \<open>_apply_reference_recovery\<close>; \<open>others\<close> is what other processes do to the directory before the
  rollout lock is held.
\<close>

definition apply_recovery ::
  "control_root \<Rightarrow> (control_root \<Rightarrow> control_root) \<Rightarrow> json \<Rightarrow> ledger_event \<Rightarrow> binding \<Rightarrow> string \<Rightarrow> utc
    \<Rightarrow> control_write list \<times> (control_err + revocation_status)"
where
  "apply_recovery root others event e candidate key now =
     (case load_snapshot root key now of
        Inl err \<Rightarrow> ([], Inl err)
      | Inr (p, pol, s, raw) \<Rightarrow>
          if rp_candidate p \<noteq> candidate then ([], Inl Revocation_Error)
          else if ro_candidate s = rp_candidate p
          then if \<not> dormant s then ([], Inl Revocation_Error)
               else recover_disabled (others root) event candidate key now
          else if rp_rollback p \<noteq> Some (ro_candidate s) then ([], Inl Revocation_Error)
          else (case bind_res (ledger_status_at root (ro_candidate s) key) (\<lambda>st.
                  if vs_revoked st then Inl Revocation_Error
                  else build_command pol (ro_revision s) ''RESTORE_CANDIDATE'' (''restore-'' @ le_event_id e)
                         (le_actor e) None (Some candidate) key) of
              Inl err \<Rightarrow> ([], Inl err)
            | Inr command \<Rightarrow>
                let (writes, result) = rollout_transition (others root) command key now (Some event) in
                (writes, bind_res (rollout_to_revocation result) (\<lambda>_.
                   ledger_status_at (write_all writes (others root)) candidate key))))"

text \<open>
  What follows a recorded revocation: the rollout leaves the revoked candidate for its rollback
  target, or is disabled where there is none or that is revoked too.
\<close>

definition revocation_command ::
  "control_root \<Rightarrow> ledger_event \<Rightarrow> binding \<Rightarrow> string \<Rightarrow> utc \<Rightarrow> control_err + json option"
where
  "revocation_command root e candidate key now =
     bind_res (any_to_revocation (
       bind_res (read_any (cr_policy root)) (\<lambda>policy.
       bind_res (read_any (cr_state root)) (\<lambda>state.
       bind_res (read_any (cr_head root)) (\<lambda>head.
       bind_res (policy_payload policy key now) (\<lambda>(p, pol).
       bind_res (state_payload state key pol head) (\<lambda>(s, raw). Inr (p, pol, s)))))))) (\<lambda>(p, pol, s).
     if ro_candidate s \<noteq> candidate then Inr None
     else bind_res (case rp_rollback p of
         None \<Rightarrow> Inr None
       | Some b \<Rightarrow> bind_res (ledger_status_at root b key) (\<lambda>st. Inr (if vs_revoked st then None else Some b))) (\<lambda>target.
       bind_res (build_command pol (ro_revision s) (case target of None \<Rightarrow> ''DISABLE'' | Some b \<Rightarrow> ''ROLLBACK'')
                   (''rev-'' @ le_event_id e) (le_actor e) None target key) (\<lambda>command. Inr (Some command))))"

definition apply_revocation ::
  "control_root \<Rightarrow> (control_root \<Rightarrow> control_root) \<Rightarrow> json \<Rightarrow> (string \<times> json) list \<Rightarrow> ledger_event \<Rightarrow> string \<Rightarrow> utc
    \<Rightarrow> control_write list \<times> (control_err + revocation_status)"
where
  "apply_revocation root others event kvs e key now =
     (case record_event root event key now False of
        Inl err \<Rightarrow> ([], Inl err)
      | Inr (st, duplicate, candidate, recorded) \<Rightarrow>
          let first = map (CW_Ledger candidate) recorded; root1 = write_all first root in
          if duplicate \<and> vs_event st \<noteq> Some (payload_identity (JObj kvs)) then (first, Inr st)
          else (case revocation_command root1 e candidate key now of
              Inl err \<Rightarrow> (first, Inl err)
            | Inr None \<Rightarrow> (first, Inr st)
            | Inr (Some command) \<Rightarrow>
                let (writes, result) = rollout_transition (others root1) command key now None in
                (first @ writes, bind_res (rollout_to_revocation result) (\<lambda>_. Inr st))))"

text \<open>\<open>apply_reference_candidate_event\<close>: the writes made, and the status or the error raised after them.\<close>

definition apply_candidate_event ::
  "control_root \<Rightarrow> (control_root \<Rightarrow> control_root) \<Rightarrow> json \<Rightarrow> string \<Rightarrow> utc
    \<Rightarrow> control_write list \<times> (control_err + revocation_status)"
where
  "apply_candidate_event root others event key now =
     (case bind_res (verify_signed Revocation_Error event key) (\<lambda>kvs.
           bind_res (binding_from_mapping (field_or JNull ''candidate_binding'' kvs)) (\<lambda>candidate.
           bind_res (validate_event kvs candidate now) (\<lambda>e. Inr (kvs, candidate, e)))) of
        Inl err \<Rightarrow> ([], Inl err)
      | Inr (kvs, candidate, e) \<Rightarrow>
          (case le_action e of
             REVOKE \<Rightarrow> apply_revocation root others event kvs e key now
           | RECOVER \<Rightarrow> (case record_event root event key now True of
               Inl err \<Rightarrow> ([], Inl err)
             | Inr (st, duplicate, b, writes) \<Rightarrow>
                 if duplicate then ([], Inr st) else apply_recovery root others event e candidate key now)))"

end
