(* ===== verification/Rollout_Laws.thy ===== *)
theory Rollout_Laws
  imports Rollout_Control
begin

text \<open>
  Laws of the rollout documents: what is signed is verified, a well-formed state with its head is
  read back, an accepted command makes a step of the abstract rollout machine, and a history that
  verifies still does after the next state is appended.
\<close>

section \<open>Signed documents\<close>

definition signed_doc :: "string \<Rightarrow> (string \<times> json) list \<Rightarrow> json" where
  "signed_doc key kvs = JObj [(''payload'', JObj kvs), (''signature'', JStr (hmac_hex key (canonical (JObj kvs))))]"

lemma signed_doc: "good_key key \<Longrightarrow> signed e (JObj kvs) key = Inr (signed_doc key kvs)"
  by (simp add: signed_def signature_def signed_doc_def)

lemma signed_Inr_iff: "signed e (JObj kvs) key = Inr v \<longleftrightarrow> good_key key \<and> v = signed_doc key kvs"
  by (auto simp: signed_def signature_def signed_doc_def)

lemma verify_signed_doc [simp]:
  "verify_signed e (signed_doc key kvs) key = (if good_key key then Inr kvs else Inl e)"
  by (auto simp: signed_doc_def verify_signed_def signature_def keys_of_def field_or_def)

text \<open>Only a document that carries the signature of its payload is accepted.\<close>

lemma verify_signed_Inr:
  assumes "verify_signed e v key = Inr kvs"
  obtains doc where "v = JObj doc" "keys_of doc = {''payload'', ''signature''}"
    "field_or JNull ''payload'' doc = JObj kvs"
    "field_or JNull ''signature'' doc = JStr (hmac_hex key (canonical (JObj kvs)))" "good_key key"
  using assms
  by (auto simp: verify_signed_def signature_def bind_res_Inr_iff split: json.splits if_splits)

section \<open>States\<close>

lemma stage_open: "open_stage (JStr (stage_name stg)) = (if stg = DISABLED then None else Some stg)"
  by (cases stg) (simp_all add: open_stage_def stage_values_def)

lemma open_stage_Some: "open_stage v = Some stg \<Longrightarrow> v = JStr (stage_name stg) \<and> stg \<noteq> DISABLED"
  by (auto simp: open_stage_def stage_values_def split: json.splits if_splits)

lemma action_known: "map_of action_values (action_name a) = Some a"
  by (cases a) (simp_all add: action_values_def)

lemma action_of_name: "map_of action_values n = Some a \<longleftrightarrow> n = action_name a"
  by (cases a) (auto simp: action_values_def)

lemma stage_name_inject [simp]: "stage_name a = stage_name b \<longleftrightarrow> a = b"
  by (cases a; cases b) simp_all

definition wf_rollout :: "rollout_state \<Rightarrow> bool" where
  "wf_rollout s \<longleftrightarrow> 1 \<le> ro_revision s
     \<and> (ro_revision s = 1 \<longrightarrow> ro_action s = INITIALIZE \<and> ro_previous s = None)
     \<and> (ro_revision s \<noteq> 1 \<longrightarrow> ro_action s \<noteq> INITIALIZE \<and> (\<exists>h. ro_previous s = Some h \<and> matches_sha256 h))
     \<and> wf_binding (ro_candidate s) \<and> rising (ro_cohorts s) \<and> ro_enabled s = (ro_stage s \<noteq> DISABLED)
     \<and> (ro_stage s = DISABLED \<longrightarrow> ro_cohorts s = [])
     \<and> matches_name (ro_transition_id s) \<and> matches_name (ro_actor s)
     \<and> (\<exists>t. time_of Rollout_Error (JStr (ro_time s)) = Inr t)
     \<and> (ro_action s = INITIALIZE \<longrightarrow> ro_actor s = ''deployment_authority'')
     \<and> (ro_action s = SET_STAGE \<longleftrightarrow> ro_stage s \<noteq> DISABLED)"

lemma state_fields_lookup:
  "field_or d ''schema_version'' (state_fields s) = JStr ''1.0''"
  "field_or d ''policy_identity'' (state_fields s) = JStr (ro_policy_identity s)"
  "field_or d ''revision'' (state_fields s) = JInt (ro_revision s)"
  "field_or d ''previous_state_identity'' (state_fields s) = json_opt_str (ro_previous s)"
  "field_or d ''candidate_binding'' (state_fields s) = binding_as_dict (ro_candidate s)"
  "field_or d ''actor_ref'' (state_fields s) = JStr (ro_actor s)"
  "field_or d ''transitioned_at'' (state_fields s) = JStr (ro_time s)"
  "field_or d ''stage'' (state_fields s) = JStr (stage_name (ro_stage s))"
  "field_or d ''admissions_enabled'' (state_fields s) = JBool (ro_enabled s)"
  "field_or d ''admitted_cohorts'' (state_fields s) = JArr (map JStr (ro_cohorts s))"
  "field_or d ''rollback_rule'' (state_fields s) = JStr rollback_rule"
  "field_or d ''transition_id'' (state_fields s) = JStr (ro_transition_id s)"
  "field_or d ''transition_action'' (state_fields s) = JStr (action_name (ro_action s))"
  by (simp_all add: state_fields_def field_or_def)

lemma state_fields_keys: "keys_of (state_fields s) = state_names"
  by (auto simp: state_fields_def keys_of_def state_names_def)

definition head_fields :: "int \<Rightarrow> string \<Rightarrow> (string \<times> json) list" where
  "head_fields revision identity =
     [(''schema_version'', JStr ''1.0''), (''revision'', JInt revision), (''state_identity'', JStr identity)]"

lemma head_for_doc: "head_for revision identity key = Inr v \<longleftrightarrow> good_key key \<and> v = signed_doc key (head_fields revision identity)"
  by (simp add: head_for_def signed_Inr_iff flip: head_fields_def)

lemma check_head_fields:
  "good_key key \<Longrightarrow> check_head (signed_doc key (head_fields r i)) key revision identity
     = (if revision = r \<and> identity = i then Inr () else Inl Rollout_Error)"
  by (auto simp: check_head_def head_fields_def keys_of_def field_or_def head_names_def)

lemma check_head_once:
  assumes "check_head head key r i = Inr ()" and "check_head head key r' i' = Inr ()"
  shows "r' = r \<and> i' = i"
  using assms by (auto simp: check_head_def bind_res_Inr_iff split: if_splits)

lemma state_payload_doc:
  assumes wf: "wf_rollout s" and key: "good_key key"
    and head: "check_head head key (ro_revision s) (state_identity (state_fields s)) = Inr ()"
  shows "state_payload (signed_doc key (state_fields s)) key (ro_policy_identity s) head = Inr (s, state_fields s)"
proof -
  have chain: "state_chain (ro_revision s) (JStr (action_name (ro_action s))) (json_opt_str (ro_previous s)) = Inr (ro_previous s)"
    using wf by (cases "ro_revision s = 1") (auto simp: wf_rollout_def state_chain_def json_opt_str_def digest_of_def)
  have cohorts: "state_cohorts (JArr (map JStr (ro_cohorts s))) = Inr (ro_cohorts s)"
    using wf by (simp add: state_cohorts_def wf_rollout_def)
  have stage: "state_stage (JStr (stage_name (ro_stage s))) (JBool (ro_enabled s)) (ro_cohorts s) = Inr (ro_stage s, ro_enabled s)"
    using wf stage_open [of "ro_stage s"] stage_name_inject [of "ro_stage s" DISABLED]
    by (auto simp: state_stage_def wf_rollout_def simp del: stage_name_inject)
  have action: "state_action (JStr (action_name (ro_action s))) (ro_revision s) (ro_stage s) (ro_actor s) = Inr (ro_action s)"
    using wf action_known [of "ro_action s"]
    by (cases "ro_action s") (auto simp: state_action_def in_set_def wf_rollout_def action_values_def)
  obtain t where time: "time_of Rollout_Error (JStr (ro_time s)) = Inr t" using wf by (auto simp: wf_rollout_def)
  have small: "\<not> ro_revision s < 1" "wf_binding (ro_candidate s)" "matches_name (ro_transition_id s)" "matches_name (ro_actor s)"
    using wf by (simp_all add: wf_rollout_def)
  show ?thesis
    using key by (simp add: state_payload_def state_fields_lookup state_fields_keys chain cohorts stage action time head
        int_from_def name_of_def small)
qed

lemma state_stage_Inr:
  "state_stage v enabled cohorts = Inr (stg, b) \<Longrightarrow>
     v = JStr (stage_name stg) \<and> b = (stg \<noteq> DISABLED) \<and> (stg = DISABLED \<longrightarrow> cohorts = [])"
  by (auto simp: state_stage_def split: if_splits option.splits dest: open_stage_Some)

lemma state_cohorts_Inr: "state_cohorts v = Inr c \<Longrightarrow> v = JArr (map JStr c) \<and> rising c"
  by (auto simp: state_cohorts_def strs_of_Some split: json.splits option.splits if_splits)

lemma state_chain_Inr:
  "state_chain revision action previous = Inr h \<Longrightarrow> previous = json_opt_str h
     \<and> (if revision = 1 then action = JStr ''INITIALIZE'' \<and> h = None else \<exists>i. h = Some i \<and> matches_sha256 i)"
  by (auto simp: state_chain_def digest_of_def json_opt_str_def bind_res_Inr_iff split: if_splits json.splits)

lemma state_action_Inr:
  assumes "state_action v revision stg actor = Inr a"
  shows "v = JStr (action_name a)"
    and "a = INITIALIZE \<longrightarrow> revision = 1 \<and> stg = DISABLED \<and> actor = ''deployment_authority''"
    and "a \<in> {DISABLE, ROLLBACK, RESTORE_CANDIDATE} \<longrightarrow> stg = DISABLED" and "a = SET_STAGE \<longrightarrow> stg \<noteq> DISABLED"
  using assms
  by (auto simp: state_action_def in_set_def bind_res_Inr_iff action_of_name split: json.splits if_splits option.splits)

lemma state_payload_Inr:
  assumes "state_payload v key pol head = Inr (s, raw)"
  shows "wf_rollout s" and "ro_policy_identity s = pol" and "verify_signed Rollout_Error v key = Inr raw"
    and "check_head head key (ro_revision s) (state_identity raw) = Inr ()"
    and "field_or JNull ''policy_identity'' raw = JStr pol" and "field_or JNull ''revision'' raw = JInt (ro_revision s)"
    and "field_or JNull ''transitioned_at'' raw = JStr (ro_time s)" and "keys_of raw = state_names"
    and "field_or JNull ''previous_state_identity'' raw = json_opt_str (ro_previous s)"
proof -
  obtain action stg enabled t where parts:
    "verify_signed Rollout_Error v key = Inr raw" "keys_of raw = state_names"
    "field_or JNull ''policy_identity'' raw = JStr pol"
    "int_from Rollout_Error 1 (field_or JNull ''revision'' raw) = Inr (ro_revision s)"
    "state_chain (ro_revision s) (field_or JNull ''transition_action'' raw) (field_or JNull ''previous_state_identity'' raw)
       = Inr (ro_previous s)"
    "binding_from_mapping (field_or JNull ''candidate_binding'' raw) = Inr (ro_candidate s)"
    "state_cohorts (field_or JNull ''admitted_cohorts'' raw) = Inr (ro_cohorts s)"
    "state_stage (field_or JNull ''stage'' raw) (field_or JNull ''admissions_enabled'' raw) (ro_cohorts s)
       = Inr (ro_stage s, ro_enabled s)"
    "name_of Rollout_Error (field_or JNull ''transition_id'' raw) = Inr (ro_transition_id s)"
    "name_of Rollout_Error (field_or JNull ''actor_ref'' raw) = Inr (ro_actor s)"
    "time_of Rollout_Error (field_or JNull ''transitioned_at'' raw) = Inr t"
    "ro_time s = the (json_str (field_or JNull ''transitioned_at'' raw))"
    "state_action (field_or JNull ''transition_action'' raw) (ro_revision s) (ro_stage s) (ro_actor s) = Inr (ro_action s)"
    "check_head head key (ro_revision s) (state_identity raw) = Inr ()" "ro_policy_identity s = pol"
    using assms by (auto simp: state_payload_def bind_res_Inr_iff split: if_splits)
  have names: "matches_name (ro_transition_id s)" "matches_name (ro_actor s)"
    using parts(9,10) by (auto simp: name_of_def split: json.splits if_splits)
  have time: "field_or JNull ''transitioned_at'' raw = JStr (ro_time s)"
    using parts(11,12) by (auto simp: time_of_def split: json.splits)
  have rev: "field_or JNull ''revision'' raw = JInt (ro_revision s)" "1 \<le> ro_revision s"
    using parts(4) by (auto simp: int_from_def split: json.splits if_splits)
  note action = state_action_Inr [OF parts(13)]
  note chain = state_chain_Inr [OF parts(5)]
  note stage = state_stage_Inr [OF parts(8)]
  show "wf_rollout s"
    using chain action stage rev time names parts(11) state_cohorts_Inr [OF parts(7)] binding_from_mapping_wf [OF parts(6)]
    by (cases "ro_action s") (auto simp: wf_rollout_def action_known split: if_splits)
  show "field_or JNull ''previous_state_identity'' raw = json_opt_str (ro_previous s)" using chain by blast
  show "ro_policy_identity s = pol" "verify_signed Rollout_Error v key = Inr raw"
    "check_head head key (ro_revision s) (state_identity raw) = Inr ()"
    "field_or JNull ''policy_identity'' raw = JStr pol" "field_or JNull ''revision'' raw = JInt (ro_revision s)"
    "field_or JNull ''transitioned_at'' raw = JStr (ro_time s)" "keys_of raw = state_names"
    using parts rev time by blast+
qed

section \<open>Policies\<close>

definition wf_policy :: "rollout_policy \<Rightarrow> bool" where
  "wf_policy p \<longleftrightarrow> matches_name (rp_policy_id p) \<and> 1 \<le> rp_revision p \<and> wf_binding (rp_candidate p)
     \<and> (case rp_rollback p of None \<Rightarrow> True | Some b \<Rightarrow> wf_binding b \<and> b \<noteq> rp_candidate p)
     \<and> map fst (rp_cohorts p) = stage_order
     \<and> list_all (\<lambda>c. snd c \<noteq> [] \<and> rising (snd c) \<and> list_all matches_name (snd c)) (rp_cohorts p)
     \<and> sorted_wrt (\<lambda>a b. set (snd a) \<subset> set (snd b)) (rp_cohorts p)
     \<and> length (cohorts_at p NAMED_COHORT) = 1"

lemma names_match: "map_res (name_of e) vs = Inr names \<Longrightarrow> list_all matches_name names"
proof (induction vs arbitrary: names)
  case (Cons v vs)
  then show ?case by (auto simp: bind_res_Inr_iff name_of_def split: json.splits if_splits)
qed simp

lemma stage_names_of_Inr:
  assumes "stage_names_of stg previous v = Inr names"
  shows "names \<noteq> [] \<and> rising names \<and> list_all matches_name names" and "previous \<noteq> [] \<longrightarrow> set previous \<subset> set names"
    and "stg = NAMED_COHORT \<longrightarrow> length names = 1"
  using assms map_res_length names_match
  by (fastforce simp: stage_names_of_def bind_res_Inr_iff split: json.splits if_splits)+

lemma read_stages_Inr:
  assumes "read_stages stages previous kvs = Inr cohorts"
  shows "map fst cohorts = stages \<and> list_all (\<lambda>c. snd c \<noteq> [] \<and> rising (snd c) \<and> list_all matches_name (snd c)) cohorts
     \<and> sorted_wrt (\<lambda>a b. set (snd a) \<subset> set (snd b)) cohorts
     \<and> (previous \<noteq> [] \<longrightarrow> (\<forall>c \<in> set cohorts. set previous \<subset> set (snd c)))
     \<and> (\<forall>c \<in> set cohorts. fst c = NAMED_COHORT \<longrightarrow> length (snd c) = 1)"
  using assms
proof (induction stages arbitrary: previous cohorts)
  case (Cons stg rest)
  then obtain names more where names: "stage_names_of stg previous (field_or JNull (stage_name stg) kvs) = Inr names"
    and more: "read_stages rest names kvs = Inr more" and cohorts: "cohorts = (stg, names) # more"
    by (auto simp: bind_res_Inr_iff)
  note n = stage_names_of_Inr [OF names]
  show ?case using Cons.IH [OF more] n by (auto simp: cohorts)
qed simp

lemma policy_payload_wf:
  assumes "policy_payload v key now = Inr (p, pol)"
  shows "wf_policy p" and "matches_sha256 pol" and "good_key key"
proof -
  obtain kvs where kvs: "verify_signed Rollout_Error v key = Inr kvs" "pol = payload_identity (JObj kvs)"
    "name_of Rollout_Error (field_or JNull ''policy_id'' kvs) = Inr (rp_policy_id p)"
    "int_from Rollout_Error 1 (field_or JNull ''policy_revision'' kvs) = Inr (rp_revision p)"
    "binding_from_mapping (field_or JNull ''candidate_binding'' kvs) = Inr (rp_candidate p)"
    "rollback_target_of (field_or JNull ''rollback_target_binding'' kvs) (rp_candidate p) = Inr (rp_rollback p)"
    "stage_cohorts_of (field_or JNull ''stage_cohorts'' kvs) = Inr (rp_cohorts p)"
    using assms by (auto simp: policy_payload_def bind_res_Inr_iff split: if_splits)
  show "matches_sha256 pol" by (simp add: kvs(2))
  show "good_key key" using kvs(1) by (rule verify_signed_key)
  obtain cs where "read_stages stage_order [] cs = Inr (rp_cohorts p)"
    using kvs(7) by (auto simp: stage_cohorts_of_def split: json.splits if_splits)
  note cohorts = read_stages_Inr [OF this]
  then have "NAMED_COHORT \<in> set (map fst (rp_cohorts p))" by (simp add: stage_order_def stage_values_def)
  then obtain names where n: "map_of (rp_cohorts p) NAMED_COHORT = Some names"
    by (metis list.set_map map_of_eq_None_iff not_None_eq)
  then have "length (cohorts_at p NAMED_COHORT) = 1" using cohorts map_of_SomeD [OF n] by (fastforce simp: cohorts_at_def)
  then show "wf_policy p"
    using kvs(3-6) cohorts binding_from_mapping_wf
    by (auto simp: wf_policy_def name_of_def int_from_def rollback_target_of_def bind_res_Inr_iff
        split: json.splits if_splits option.splits)
qed

lemma cohorts_at_rising: "wf_policy p \<Longrightarrow> rising (cohorts_at p stg)"
  by (auto simp: cohorts_at_def wf_policy_def list_all_iff rising_def dest!: map_of_SomeD split: option.splits)

lemma cohorts_at_disabled: "wf_policy p \<Longrightarrow> cohorts_at p DISABLED = []"
  by (auto simp: cohorts_at_def wf_policy_def stage_order_def stage_values_def split: option.splits dest!: map_of_SomeD)

section \<open>The abstract rollout machine\<close>

text \<open>Which candidate is active, and the stage.\<close>

type_synonym rollout_point = "binding \<times> stage"

inductive rollout_step :: "rollout_policy \<Rightarrow> rollout_point \<Rightarrow> rollout_point \<Rightarrow> bool" for p where
  disable: "rollout_step p (b, stg) (b, DISABLED)"
| set_stage: "stg' \<noteq> DISABLED \<Longrightarrow> rollout_step p (b, stg) (b, stg')"
| rollback: "rp_rollback p = Some r \<Longrightarrow> rollout_step p (rp_candidate p, stg) (r, DISABLED)"
| restore: "rp_rollback p = Some r \<Longrightarrow> rollout_step p (r, stg) (rp_candidate p, DISABLED)"

code_pred rollout_step .

inductive_cases rollout_stepE: "rollout_step p x y"

lemma rollout_step_switch:
  "rollout_step p (b, stg) (b', stg') \<Longrightarrow> b' = b \<or> (stg' = DISABLED \<and> (b' = rp_candidate p \<or> rp_rollback p = Some b'))"
  by (auto elim: rollout_stepE)

abbreviation point :: "rollout_state \<Rightarrow> rollout_point" where
  "point s \<equiv> (ro_candidate s, ro_stage s)"

lemma next_rollout_step:
  assumes "next_rollout p s action target requested = Inr (b, stg, cohorts)" and wf: "wf_policy p"
  shows "rollout_step p (point s) (b, stg)" and "cohorts = cohorts_at p stg"
    and "\<exists>a. action = JStr (action_name a) \<and> a \<noteq> INITIALIZE \<and> (a = SET_STAGE \<longleftrightarrow> stg \<noteq> DISABLED)"
proof -
  have none: "cohorts_at p DISABLED = []" using wf by (rule cohorts_at_disabled)
  have "rollout_step p (point s) (b, stg) \<and> cohorts = cohorts_at p stg
     \<and> (\<exists>a. action = JStr (action_name a) \<and> a \<noteq> INITIALIZE \<and> (a = SET_STAGE \<longleftrightarrow> stg \<noteq> DISABLED))"
    using assms(1) none
    by (auto simp: next_rollout_def dest: open_stage_Some intro: rollout_step.intros
        intro: exI [of _ DISABLE] exI [of _ SET_STAGE] exI [of _ ROLLBACK] exI [of _ RESTORE_CANDIDATE]
        split: if_splits option.splits)
  then show "rollout_step p (point s) (b, stg)" and "cohorts = cohorts_at p stg"
    and "\<exists>a. action = JStr (action_name a) \<and> a \<noteq> INITIALIZE \<and> (a = SET_STAGE \<longleftrightarrow> stg \<noteq> DISABLED)" by auto
qed

text \<open>An accepted command: what was read, and the next state with its head.\<close>

definition rollout_successor :: "rollout_policy \<Rightarrow> rollout_state \<Rightarrow> string \<Rightarrow> utc \<Rightarrow> rollout_state \<Rightarrow> bool" where
  "rollout_successor p s identity now s' \<longleftrightarrow>
     ro_policy_identity s' = ro_policy_identity s \<and> ro_revision s' = ro_revision s + 1 \<and> ro_previous s' = Some identity
     \<and> ro_time s' = time_text now \<and> rollout_step p (point s) (point s') \<and> ro_cohorts s' = cohorts_at p (ro_stage s')"

lemma apply_transition_Inr:
  assumes "apply_transition policy state head command key now = Inr (st', hd')" and now: "valid_utc now"
  obtains p pol s raw c s' where "policy_payload policy key now = Inr (p, pol)"
    "state_payload state key pol head = Inr (s, raw)" "candidate_authorized p (ro_candidate s)"
    "ro_stage s \<noteq> DISABLED \<longrightarrow> ro_cohorts s = cohorts_at p (ro_stage s)"
    "verify_signed Rollout_Error command key = Inr c"
    "json_int (field_or JNull ''expected_revision'' c) = Some (ro_revision s)"
    "field_or JNull ''action'' c = JStr (action_name (ro_action s'))"
    "field_or JNull ''transition_id'' c = JStr (ro_transition_id s')"
    "rollout_successor p s (state_identity raw) now s'" "wf_rollout s'"
    "st' = signed_doc key (state_fields s')"
    "hd' = signed_doc key (head_fields (ro_revision s') (state_identity (state_fields s')))"
proof -
  obtain p pol s raw c tid actor b stg cohorts s' where r:
    "policy_payload policy key now = Inr (p, pol)" "state_payload state key pol head = Inr (s, raw)"
    "candidate_authorized p (ro_candidate s)" "ro_stage s \<noteq> DISABLED \<longrightarrow> ro_cohorts s = cohorts_at p (ro_stage s)"
    "verify_signed Rollout_Error command key = Inr c"
    "json_int (field_or JNull ''expected_revision'' c) = Some (ro_revision s)"
    "name_of Rollout_Error (field_or JNull ''transition_id'' c) = Inr tid"
    "name_of Rollout_Error (field_or JNull ''actor_ref'' c) = Inr actor"
    "next_rollout p s (field_or JNull ''action'' c) (field_or JNull ''target_stage'' c)
       (field_or JNull ''target_candidate_binding'' c) = Inr (b, stg, cohorts)"
    "s' = \<lparr>ro_policy_identity = pol, ro_revision = ro_revision s + 1, ro_previous = Some (state_identity raw),
       ro_candidate = b, ro_actor = actor, ro_time = time_text now, ro_stage = stg, ro_enabled = (stg \<noteq> DISABLED),
       ro_cohorts = cohorts, ro_transition_id = tid,
       ro_action = the (map_of action_values (the (json_str (field_or JNull ''action'' c))))\<rparr>"
    "signed Rollout_Error (JObj (state_fields s')) key = Inr st'"
    "head_for (ro_revision s') (state_identity (state_fields s')) key = Inr hd'"
    using assms(1) by (auto simp: apply_transition_def Let_def bind_res_Inr_iff split: if_splits)
  note wfp = policy_payload_wf [OF r(1)]
  note wfs = state_payload_Inr [OF r(2)]
  note nxt = next_rollout_step [OF r(9) wfp(1)]
  then obtain a where a: "field_or JNull ''action'' c = JStr (action_name a)" "a \<noteq> INITIALIZE" "a = SET_STAGE \<longleftrightarrow> stg \<noteq> DISABLED"
    by blast
  then have act: "ro_action s' = a" by (simp add: r(10) action_known)
  have tid: "field_or JNull ''transition_id'' c = JStr tid" "matches_name tid" "matches_name actor"
    using r(7,8) by (auto simp: name_of_def split: json.splits if_splits)
  have "wf_binding b"
    using wfp(1) wfs(1) nxt(1) by (cases "rp_rollback p") (auto simp: wf_policy_def wf_rollout_def elim!: rollout_stepE)
  moreover have "stg = DISABLED \<longrightarrow> cohorts = []" using nxt(2) cohorts_at_disabled [OF wfp(1)] by simp
  moreover have "1 \<le> ro_revision s" using wfs(1) by (simp add: wf_rollout_def)
  ultimately have "wf_rollout s'"
    using time_round_trip [OF now, of Rollout_Error] tid a(2,3) act cohorts_at_rising [OF wfp(1), of stg] nxt(2)
    by (auto simp: wf_rollout_def r(10))
  moreover have "rollout_successor p s (state_identity raw) now s'"
    using nxt wfs(2) by (simp add: rollout_successor_def r(10))
  moreover have "field_or JNull ''transition_id'' c = JStr (ro_transition_id s')" by (simp add: tid(1) r(10))
  moreover have "st' = signed_doc key (state_fields s')"
    "hd' = signed_doc key (head_fields (ro_revision s') (state_identity (state_fields s')))"
    using r(11,12) by (simp_all add: signed_Inr_iff head_for_doc)
  ultimately show thesis
    using that [OF r(1-6), of s'] a(1) unfolding act by blast
qed

end
