(* ===== verification/History_Laws.thy ===== *)
theory History_Laws
  imports Rollout_Laws
begin

text \<open>
  The verified history of a rollout: what a replay depends on, one more state at its end, and what
  is left after a crash between the three writes of a transition.
\<close>

section \<open>Equal JSON has equal members\<close>

lemma map_of_insert_field: "map_of (insert_field kv xs) = (map_of xs)(fst kv \<mapsto> snd kv)"
  by (induction kv xs rule: insert_field.induct) (auto simp: fun_eq_iff)

lemma map_of_sort_fields: "map_of (sort_fields xs) = map_of xs"
  by (induction xs) (simp_all add: sort_fields_def map_of_insert_field)

lemma map_of_values: "map_of (map (\<lambda>kv. (fst kv, f (snd kv))) kvs) k = map_option f (map_of kvs k)"
  by (induction kvs) auto

lemma same_json_member:
  assumes "same_json (JObj a) (JObj b)"
  shows "map_option (\<lambda>v. sort_keys (plain_ints v)) (map_of a k) = map_option (\<lambda>v. sort_keys (plain_ints v)) (map_of b k)"
proof -
  let ?f = "\<lambda>kv. (fst kv, sort_keys (plain_ints (snd kv)))"
  have "sort_fields (map ?f a) = sort_fields (map ?f b)"
    using assms by (simp add: same_json_def comp_def)
  then have "map_of (map ?f a) k = map_of (map ?f b) k" by (metis map_of_sort_fields)
  then show ?thesis by (simp add: map_of_values [where f = "\<lambda>v. sort_keys (plain_ints v)"])
qed

lemma sorted_str: "sort_keys (plain_ints v) = JStr s \<longleftrightarrow> v = JStr s"
  by (cases v) auto

lemma same_json_str:
  assumes "same_json (JObj a) (JObj b)" and "field_or JNull k b = JStr s"
  shows "field_or JNull k a = JStr s"
proof -
  have "map_of b k = Some (JStr s)" using assms(2) by (simp add: field_or_def split: option.splits)
  with same_json_member [OF assms(1), of k] obtain v where "map_of a k = Some v" "sort_keys (plain_ints v) = JStr s" by auto
  then show ?thesis by (simp add: sorted_str field_or_def)
qed

section \<open>Walking a history\<close>

definition time_in :: "(string \<times> json) list option \<Rightarrow> utc option" where
  "time_in latest = (case latest of
     None \<Rightarrow> None
   | Some kvs \<Rightarrow> (case time_of Rollout_Error (field_or JNull ''transitioned_at'' kvs) of Inl e \<Rightarrow> None | Inr t \<Rightarrow> Some t))"

lemma walk_append:
  "walk_history files key pol ns previous (time_in latest) latest = Inr (i, final) \<Longrightarrow>
   walk_history files key pol (ns @ ms) previous (time_in latest) latest
     = walk_history files key pol ms i (time_in final) final"
proof (induction ns arbitrary: previous latest)
  case (Cons n ns)
  then obtain v kvs t where v: "map_of files (history_name n) = Some (CF_Json v)"
    "verify_signed Rollout_Error v key = Inr kvs"
    "time_of Rollout_Error (field_or JNull ''transitioned_at'' kvs) = Inr t"
    and tail: "walk_history files key pol ns (Some (state_identity kvs)) (Some t) (Some kvs) = Inr (i, final)"
    by (auto simp: bind_res_Inr_iff split: option.splits control_file.splits sum.splits if_splits)
  have now: "Some t = time_in (Some kvs)" using v(3) by (simp add: time_in_def)
  show ?case
    using Cons.prems Cons.IH [of "Some (state_identity kvs)" "Some kvs"] tail v
    by (auto simp flip: now split: if_splits)
qed simp

lemma walk_cong:
  "(\<And>n. n \<in> set ns \<Longrightarrow> map_of files (history_name n) = map_of files' (history_name n)) \<Longrightarrow>
   walk_history files key pol ns previous t latest = walk_history files' key pol ns previous t latest"
proof (induction ns arbitrary: previous t latest)
  case (Cons n ns)
  show ?case
    using Cons.prems [of n] Cons.IH [OF Cons.prems]
    by (auto split: option.splits control_file.splits sum.splits intro!: arg_cong2 [where f = bind_res])
qed simp

lemma ends_with_history_name: "ends_with ''.json'' (history_name n)"
  by (simp add: ends_with_def history_name_def)

lemma verify_history_Inr:
  assumes "verify_history history key pol revision raw = Inr ()"
  obtains files final where "history = CH_Files files"
    "length (filter (ends_with ''.json'') (map fst files)) = nat revision"
    "set (map fst files) = set (map history_name [1..<nat revision + 1])"
    "walk_history files key pol [1..<nat revision + 1] None None None = Inr (Some (state_identity raw), Some final)"
    "same_json (JObj final) (JObj raw)"
proof -
  obtain files where "history = CH_Files files" using assms by (cases history) (auto simp: verify_history_def)
  then show thesis
    using assms that by (auto simp: verify_history_def bind_res_Inr_iff split: if_splits option.splits)
qed

text \<open>The history with one more state.\<close>

lemma verify_history_extended:
  assumes ok: "verify_history history key pol revision raw = Inr ()" and rev: "1 \<le> revision"
    and fresh: "history_files history = Some files" "map_of files (history_name (nat (revision + 1))) = None"
    and old: "field_or JNull ''transitioned_at'' raw = JStr time" "time_of Rollout_Error (JStr time) = Inr t"
    and new: "field_or JNull ''policy_identity'' raw' = JStr pol" "field_or JNull ''revision'' raw' = JInt (revision + 1)"
      "field_or JNull ''previous_state_identity'' raw' = JStr (state_identity raw)"
      "time_of Rollout_Error (field_or JNull ''transitioned_at'' raw') = Inr t'" and key: "good_key key"
  shows "verify_history (add_history (history_name (nat (revision + 1))) (signed_doc key raw') history) key pol (revision + 1) raw'
     = (if t' < t then Inl Rollout_Error else Inr ())"
proof -
  let ?n = "nat revision + 1"
  let ?files = "files @ [(history_name ?n, CF_Json (signed_doc key raw'))]"
  have n: "nat (revision + 1) = ?n" using rev by simp
  obtain final where final: "history = CH_Files files"
    "length (filter (ends_with ''.json'') (map fst files)) = nat revision"
    "set (map fst files) = set (map history_name [1..<?n])"
    "walk_history files key pol [1..<?n] None None None = Inr (Some (state_identity raw), Some final)"
    "same_json (JObj final) (JObj raw)"
    using fresh(1) by (rule_tac verify_history_Inr [OF ok]) auto
  have known: "map_of ?files (history_name m) = map_of files (history_name m)" if "m \<in> set [1..<?n]" for m
  proof -
    have "history_name m \<in> fst ` set files" using final(3) that by auto
    then show ?thesis by (metis map_add_Some_iff map_of_append map_of_eq_None_iff not_None_eq map_add_dom_app_simps(1) domIff)
  qed
  have none: "time_in None = None" by (simp add: time_in_def)
  have "time_in (Some final) = Some t"
    using same_json_str [OF final(5) old(1)] old(2) by (simp add: time_in_def)
  moreover have "map_of ?files (history_name ?n) = Some (CF_Json (signed_doc key raw'))"
    using fresh(2) by (simp add: n map_add_def)
  moreover have "walk_history ?files key pol [1..<?n] None None None = Inr (Some (state_identity raw), Some final)"
    using walk_cong [of "[1..<?n]" ?files files] known final(4) by simp
  moreover have "[1..<?n + 1] = [1..<?n] @ [?n]" using rev by simp
  ultimately have walk: "walk_history ?files key pol [1..<?n + 1] None None None
      = (if t' < t then Inl Rollout_Error else Inr (Some (state_identity raw'), Some raw'))"
    using walk_append [of ?files key pol "[1..<?n]" None None "Some (state_identity raw)" "Some final" "[?n]"] new key
    by (auto simp: none n json_opt_str_def rev)
  have upto: "[1..<?n + 1] = [1..<?n] @ [?n]" using rev by simp
  have "set (map fst ?files) = insert (history_name ?n) (set (map fst files))" by simp
  also have "\<dots> = set (map history_name [1..<?n + 1])" unfolding final(3) upto by simp
  finally have "set (map fst ?files) = set (map history_name [1..<?n + 1])" .
  moreover have "length (filter (ends_with ''.json'') (map fst ?files)) = ?n"
    using final(2) by (simp add: ends_with_history_name)
  ultimately show ?thesis
    unfolding verify_history_def n using walk by (simp add: final(1) n del: upt_Suc)
qed

end
