(* ===== verification/Transition_Laws.thy ===== *)
theory Transition_Laws
  imports History_Laws
begin

text \<open>
  One transition of the reference adapter as a whole: what an accepted command needs, what the
  directory holds after its writes, and after only some of them.
\<close>

lemma map_res_each:
  fixes f :: "'a \<Rightarrow> 'e + unit"
  shows "map_res f xs = Inr us \<Longrightarrow> x \<in> set xs \<Longrightarrow> f x = Inr ()"
  by (induction xs arbitrary: us) (auto simp: bind_res_Inr_iff)

lemma needed_Inr: "(case x of None \<Rightarrow> Inl e | Some y \<Rightarrow> f y) = Inr z \<longleftrightarrow> (\<exists>y. x = Some y \<and> f y = Inr z)"
  by (cases x) simp_all

lemma refused_Inr: "(if b then Inl e else m) = Inr z \<longleftrightarrow> \<not> b \<and> m = Inr z"
  by simp

lemma optional_Inr:
  "(case x of None \<Rightarrow> Inr None | Some y \<Rightarrow> bind_res (f y) (\<lambda>z. Inr (Some z))) = Inr r \<longleftrightarrow>
     (case x of None \<Rightarrow> r = None | Some y \<Rightarrow> \<exists>z. f y = Inr z \<and> r = Some z)"
  by (cases x) (auto simp: bind_res_Inr_iff)

section \<open>The rollout a directory holds\<close>

definition current_rollout ::
  "control_root \<Rightarrow> string \<Rightarrow> utc \<Rightarrow> control_err + (rollout_policy \<times> string \<times> rollout_state \<times> (string \<times> json) list)"
where
  "current_rollout root key now =
     bind_res (read_document (cr_policy root)) (\<lambda>policy.
     bind_res (read_document (cr_state root)) (\<lambda>state.
     bind_res (read_document (cr_head root)) (\<lambda>head. verified_rollout root policy state head key now)))"

lemma read_document_Inr: "read_document f = Inr v \<longleftrightarrow> f = CF_Json v"
  by (cases f) auto

lemma current_rollout_Inr:
  "current_rollout root key now = Inr (p, pol, s, raw) \<longleftrightarrow>
     (\<exists>policy state head. cr_policy root = CF_Json policy \<and> cr_state root = CF_Json state \<and> cr_head root = CF_Json head
       \<and> policy_payload policy key now = Inr (p, pol) \<and> state_payload state key pol head = Inr (s, raw)
       \<and> verify_history (cr_history root) key pol (ro_revision s) raw = Inr ())"
  by (auto simp: current_rollout_def verified_rollout_def bind_res_Inr_iff read_document_Inr)

lemma current_rollout_wf: "current_rollout root key now = Inr (p, pol, s, raw) \<Longrightarrow> wf_rollout s"
  by (auto simp: current_rollout_Inr dest: state_payload_Inr(1))

lemma policy_payload_same:
  assumes "policy_payload v key t = Inr x" and "policy_payload v key t' = Inr y"
  shows "y = x"
  using assms by (auto simp: policy_payload_def bind_res_Inr_iff split: if_splits)

text \<open>What reads the rollout refuses where it cannot be read.\<close>

lemma no_admission:
  assumes "\<And>t x. current_rollout root key t \<noteq> Inr x"
  shows "\<exists>e. reference_admit root \<lparr>rc_key = key, rc_cohort = cohort, rc_now = t\<rparr> candidate = Inl e"
proof (cases "current_rollout root key t")
  case (Inl e)
  then show ?thesis
    by (auto simp: current_rollout_def reference_admit_def bind_res_Inl_iff)
qed (use assms in blast)

lemma no_transition:
  assumes "\<And>t x. current_rollout root key t \<noteq> Inr x"
  shows "\<exists>e. rollout_transition root command key t recovery = ([], Inl e)"
proof (cases "transition_writes root command key t recovery")
  case (Inl e)
  then show ?thesis by (simp add: rollout_transition_def)
next
  case (Inr r)
  then have "\<exists>x. current_rollout root key t = Inr x"
    by (auto simp: transition_writes_def transition_checks_def current_rollout_def bind_res_Inr_iff split: if_splits)
  with assms show ?thesis by blast
qed

section \<open>An accepted transition\<close>

lemma transition_checks_Inr:
  assumes "transition_checks root command key now recovery = Inr (docs, p, pol, action)"
  obtains policy state head s raw c target where "docs = (policy, state, head)"
    "cr_policy root = CF_Json policy" "cr_state root = CF_Json state" "cr_head root = CF_Json head"
    "verified_rollout root policy state head key now = Inr (p, pol, s, raw)" "cr_link root = False"
    "verify_signed Rollout_Error command key = Inr c" "action = field_or JNull ''action'' c"
    "command_target (field_or JNull ''target_candidate_binding'' c) = Inr target"
    "\<forall>event. recovery = Some event \<longrightarrow> (\<exists>b. check_recovery root p s c target event key now = Inr b)"
    "recovery = None \<longrightarrow> (\<forall>b \<in> set (protected_candidates action s target). check_not_revoked root key None b = Inr ())"
proof -
  show thesis
  proof (cases recovery)
    case None
    then show thesis
      using assms
      by (auto simp: transition_checks_def read_document_Inr bind_res_Inr_iff refused_Inr simp del: map_res.simps
          intro!: that dest: map_res_each)
  next
    case (Some event)
    then show thesis
      using assms
      by (auto simp: transition_checks_def read_document_Inr bind_res_Inr_iff refused_Inr intro!: that)
  qed
qed

lemma transition_writes_Inr:
  assumes "transition_writes root command key now recovery = Inr (pol, st', hd', r)" and now: "valid_utc now"
  obtains p s raw s' c files target where "current_rollout root key now = Inr (p, pol, s, raw)"
    "cr_link root = False" "history_files (cr_history root) = Some files" "map_of files (history_name (nat r)) = None"
    "candidate_authorized p (ro_candidate s)" "ro_stage s \<noteq> DISABLED \<longrightarrow> ro_cohorts s = cohorts_at p (ro_stage s)"
    "verify_signed Rollout_Error command key = Inr c"
    "json_int (field_or JNull ''expected_revision'' c) = Some (ro_revision s)"
    "field_or JNull ''action'' c = JStr (action_name (ro_action s'))"
    "rollout_successor p s (state_identity raw) now s'" "wf_rollout s'" "r = ro_revision s'"
    "st' = signed_doc key (state_fields s')"
    "hd' = signed_doc key (head_fields (ro_revision s') (state_identity (state_fields s')))"
    "command_target (field_or JNull ''target_candidate_binding'' c) = Inr target"
    "\<forall>event. recovery = Some event \<longrightarrow> (\<exists>b. check_recovery root p s c target event key now = Inr b)"
    "recovery = None \<longrightarrow> (\<forall>b \<in> set (protected_candidates (JStr (action_name (ro_action s'))) s target).
       check_not_revoked root key None b = Inr ())"
    "check_restored (JStr (action_name (ro_action s'))) p (state_fields s') = Inr ()"
proof -
  obtain docs p action where checks: "transition_checks root command key now recovery = Inr (docs, p, pol, action)"
    using assms(1) by (auto simp: transition_writes_def Let_def bind_res_Inr_iff split: if_splits option.splits)
  obtain policy state head s raw c target where read: "docs = (policy, state, head)"
    "cr_policy root = CF_Json policy" "cr_state root = CF_Json state" "cr_head root = CF_Json head"
    "verified_rollout root policy state head key now = Inr (p, pol, s, raw)" "cr_link root = False"
    "verify_signed Rollout_Error command key = Inr c" "action = field_or JNull ''action'' c"
    "command_target (field_or JNull ''target_candidate_binding'' c) = Inr target"
    "\<forall>event. recovery = Some event \<longrightarrow> (\<exists>b. check_recovery root p s c target event key now = Inr b)"
    "recovery = None \<longrightarrow> (\<forall>b \<in> set (protected_candidates action s target). check_not_revoked root key None b = Inr ())"
    by (rule transition_checks_Inr [OF checks])
  obtain files payload where more: "apply_transition policy state head command key now = Inr (st', hd')"
    "verify_signed Rollout_Error st' key = Inr payload" "r = the (json_int (field_or JNull ''revision'' payload))"
    "history_files (cr_history root) = Some files" "map_of files (history_name (nat r)) = None"
    "check_restored action p payload = Inr ()"
    using assms(1) by (auto simp: transition_writes_def checks read(1) Let_def bind_res_Inr_iff split: if_splits option.splits)
  have here: "current_rollout root key now = Inr (p, pol, s, raw)"
    using read(5) by (simp add: current_rollout_def read(2-4))
  have parts: "policy_payload policy key now = Inr (p, pol)" "state_payload state key pol head = Inr (s, raw)"
    using read(5) by (auto simp: verified_rollout_def bind_res_Inr_iff)
  obtain p' pol' s1 raw' c' s' where s': "policy_payload policy key now = Inr (p', pol')"
    "state_payload state key pol' head = Inr (s1, raw')" "candidate_authorized p' (ro_candidate s1)"
    "ro_stage s1 \<noteq> DISABLED \<longrightarrow> ro_cohorts s1 = cohorts_at p' (ro_stage s1)"
    "verify_signed Rollout_Error command key = Inr c'"
    "json_int (field_or JNull ''expected_revision'' c') = Some (ro_revision s1)"
    "field_or JNull ''action'' c' = JStr (action_name (ro_action s'))"
    "rollout_successor p' s1 (state_identity raw') now s'" "wf_rollout s'" "st' = signed_doc key (state_fields s')"
    "hd' = signed_doc key (head_fields (ro_revision s') (state_identity (state_fields s')))"
    by (rule apply_transition_Inr [OF more(1) now]) blast
  have same: "p' = p" "pol' = pol" "s1 = s" "raw' = raw" "c' = c" using s'(1,2,5) parts read(7) by auto
  note s' = s' [unfolded same]
  have "good_key key" using policy_payload_wf(3) [OF parts(1)] .
  then have "payload = state_fields s'" using more(2) by (simp add: s'(10))
  moreover then have "r = ro_revision s'" by (simp add: more(3) state_fields_lookup)
  ultimately show thesis
    using that [OF here read(6) more(4,5) s'(3,4) read(7) s'(6-9) _ s'(10,11) read(9,10)] read(11) more(6)
    unfolding read(8) s'(7) by blast
qed

text \<open>The same facts, with what the history check of the next read needs.\<close>

lemma transition_writes_parts:
  assumes "transition_writes root command key now recovery = Inr (pol, st', hd', r)" and "valid_utc now"
  obtains p s raw s' t policy state head where "current_rollout root key now = Inr (p, pol, s, raw)"
    "cr_policy root = CF_Json policy" "policy_payload policy key now = Inr (p, pol)"
    "cr_state root = CF_Json state" "state_payload state key pol head = Inr (s, raw)" "cr_head root = CF_Json head"
    "candidate_authorized p (ro_candidate s)"
    "rollout_successor p s (state_identity raw) now s'" "wf_rollout s'" "r = ro_revision s'" "good_key key"
    "st' = signed_doc key (state_fields s')"
    "hd' = signed_doc key (head_fields r (state_identity (state_fields s')))"
    "1 \<le> ro_revision s" "time_of Rollout_Error (JStr (ro_time s)) = Inr t"
    "length (filter (ends_with ''.json'') (map fst (the (history_files (cr_history root))))) = nat (ro_revision s)"
    "\<exists>files. cr_history root = CH_Files files"
    "verify_history (add_history (history_name (nat r)) st' (cr_history root)) key pol r (state_fields s')
       = (if now < t then Inl Rollout_Error else Inr ())"
proof (rule transition_writes_Inr [OF assms])
  fix p s raw s' c files target
  assume a: "current_rollout root key now = Inr (p, pol, s, raw)" "history_files (cr_history root) = Some files"
    "map_of files (history_name (nat r)) = None" "candidate_authorized p (ro_candidate s)"
    "rollout_successor p s (state_identity raw) now s'" "wf_rollout s'" "r = ro_revision s'"
    "st' = signed_doc key (state_fields s')"
    "hd' = signed_doc key (head_fields (ro_revision s') (state_identity (state_fields s')))"
  obtain policy state head where docs: "cr_policy root = CF_Json policy" "policy_payload policy key now = Inr (p, pol)"
    "cr_state root = CF_Json state" "state_payload state key pol head = Inr (s, raw)" "cr_head root = CF_Json head"
    "verify_history (cr_history root) key pol (ro_revision s) raw = Inr ()"
    using a(1) by (auto simp: current_rollout_Inr)
  note read = state_payload_Inr [OF docs(4)]
  have key: "good_key key" using policy_payload_wf(3) [OF docs(2)] .
  obtain t where t: "time_of Rollout_Error (JStr (ro_time s)) = Inr t" using read(1) by (auto simp: wf_rollout_def)
  have rev: "1 \<le> ro_revision s" using read(1) by (simp add: wf_rollout_def)
  have suc: "r = ro_revision s + 1" "ro_policy_identity s' = pol" "ro_previous s' = Some (state_identity raw)"
    "ro_time s' = time_text now" "ro_revision s' = ro_revision s + 1"
    using a(5,7) read(2) by (simp_all add: rollout_successor_def)
  have "map_of files (history_name (nat (ro_revision s + 1))) = None" using a(3) by (simp add: suc(1))
  then have "verify_history (add_history (history_name (nat r)) st' (cr_history root)) key pol r (state_fields s')
       = (if now < t then Inl Rollout_Error else Inr ())"
    unfolding a(8) suc(1)
    by (rule verify_history_extended [OF docs(6) rev a(2) _ read(7) t])
       (simp_all add: state_fields_lookup suc json_opt_str_def time_round_trip [OF assms(2)] key)
  moreover have "length (filter (ends_with ''.json'') (map fst (the (history_files (cr_history root))))) = nat (ro_revision s)"
    by (rule verify_history_Inr [OF docs(6)]) simp
  moreover have "\<exists>files. cr_history root = CH_Files files" using a(2) by (cases "cr_history root") auto
  ultimately show thesis
    using that [OF a(1) docs(1-5) a(4-7) key a(8) _ rev t] a(9) unfolding a(7) by blast
qed

lemma write_rollout:
  "cr_policy (write_all (take k (rollout_writes st' hd' r)) root) = cr_policy root"
  "cr_ledgers (write_all (take k (rollout_writes st' hd' r)) root) = cr_ledgers root"
  "cr_link (write_all (take k (rollout_writes st' hd' r)) root) = cr_link root"
  "cr_revocations_link (write_all (take k (rollout_writes st' hd' r)) root) = cr_revocations_link root"
  "cr_history (write_all (take k (rollout_writes st' hd' r)) root) = (if 0 < k
     then add_history (history_name (nat r)) st' (cr_history root) else cr_history root)"
  "cr_state (write_all (take k (rollout_writes st' hd' r)) root) = (if 1 < k then CF_Json st' else cr_state root)"
  "cr_head (write_all (take k (rollout_writes st' hd' r)) root) = (if 2 < k then CF_Json hd' else cr_head root)"
proof -
  have "k = 0 \<or> k = 1 \<or> k = 2 \<or> 2 < k" by arith
  then show "cr_policy (write_all (take k (rollout_writes st' hd' r)) root) = cr_policy root"
    "cr_ledgers (write_all (take k (rollout_writes st' hd' r)) root) = cr_ledgers root"
    "cr_link (write_all (take k (rollout_writes st' hd' r)) root) = cr_link root"
    "cr_revocations_link (write_all (take k (rollout_writes st' hd' r)) root) = cr_revocations_link root"
    "cr_history (write_all (take k (rollout_writes st' hd' r)) root) = (if 0 < k
       then add_history (history_name (nat r)) st' (cr_history root) else cr_history root)"
    "cr_state (write_all (take k (rollout_writes st' hd' r)) root) = (if 1 < k then CF_Json st' else cr_state root)"
    "cr_head (write_all (take k (rollout_writes st' hd' r)) root) = (if 2 < k then CF_Json hd' else cr_head root)"
    by (auto simp: write_all_def rollout_writes_def numeral_2_eq_2)
qed

lemma rollout_writes_all: "take 3 (rollout_writes st' hd' r) = rollout_writes st' hd' r"
  by (simp add: rollout_writes_def)

lemmas written_rollout = write_rollout [where k = 3, unfolded rollout_writes_all, simplified]

text \<open>All three writes: the next state, unless the clock stands before the last transition.\<close>

lemma rollout_after_writes:
  assumes "transition_writes root command key now recovery = Inr (pol, st', hd', r)" and "valid_utc now"
    and "current_rollout root key now = Inr (p, pol, s, raw)" and "time_of Rollout_Error (JStr (ro_time s)) = Inr t"
  obtains s' where "rollout_successor p s (state_identity raw) now s'" "r = ro_revision s'" "wf_rollout s'"
    "st' = signed_doc key (state_fields s')"
    "\<And>now'. current_rollout (write_all (rollout_writes st' hd' r) root) key now' =
       bind_res (read_document (cr_policy root)) (\<lambda>policy. bind_res (policy_payload policy key now') (\<lambda>_.
         if now < t then Inl Rollout_Error else Inr (p, pol, s', state_fields s')))"
proof (rule transition_writes_parts [OF assms(1,2)])
  fix p' s1 raw' s' t' policy state head
  assume a: "current_rollout root key now = Inr (p', pol, s1, raw')"
    "cr_policy root = CF_Json policy" "policy_payload policy key now = Inr (p', pol)"
    "rollout_successor p' s1 (state_identity raw') now s'" "wf_rollout s'" "r = ro_revision s'" "good_key key"
    "st' = signed_doc key (state_fields s')" "hd' = signed_doc key (head_fields r (state_identity (state_fields s')))"
    "time_of Rollout_Error (JStr (ro_time s1)) = Inr t'"
    "verify_history (add_history (history_name (nat r)) st' (cr_history root)) key pol r (state_fields s')
       = (if now < t' then Inl Rollout_Error else Inr ())"
  have same: "p' = p" "s1 = s" "raw' = raw" "t' = t" using a(1,10) assms(3,4) by auto
  have pol: "ro_policy_identity s' = pol"
    using a(4) assms(3) state_payload_Inr(2) by (auto simp: rollout_successor_def current_rollout_Inr same)
  have read: "state_payload st' key pol hd' = Inr (s', state_fields s')"
    using state_payload_doc [OF a(5,7)] check_head_fields [OF a(7)] by (simp add: a(6,8,9) pol)
  have "current_rollout (write_all (rollout_writes st' hd' r) root) key now' =
       bind_res (read_document (cr_policy root)) (\<lambda>policy. bind_res (policy_payload policy key now') (\<lambda>_.
         if now < t then Inl Rollout_Error else Inr (p, pol, s', state_fields s')))" for now'
  proof (cases "policy_payload policy key now'")
    case (Inr x)
    then have "x = (p, pol)" using policy_payload_same [OF a(3)] same by auto
    with Inr show ?thesis
      using a(11) by (simp add: current_rollout_def verified_rollout_def written_rollout a(2) read flip: a(6)) (simp add: same)
  qed (simp add: current_rollout_def verified_rollout_def written_rollout a(2))
  then show thesis using that a(4-6,8) unfolding same by blast
qed

text \<open>One or two of the three writes: nothing reads the rollout any more.\<close>

lemma rollout_after_crash:
  assumes "transition_writes root command key now recovery = Inr (pol, st', hd', r)" and "valid_utc now"
    and k: "k = 1 \<or> k = 2"
  shows "current_rollout (write_all (take k (rollout_writes st' hd' r)) root) key now' \<noteq> Inr x"
proof (rule transition_writes_parts [OF assms(1,2)])
  fix p s raw s' t policy state head
  assume a: "cr_policy root = CF_Json policy" "policy_payload policy key now = Inr (p, pol)"
    "cr_state root = CF_Json state" "state_payload state key pol head = Inr (s, raw)" "cr_head root = CF_Json head"
    "rollout_successor p s (state_identity raw) now s'" "good_key key" "1 \<le> ro_revision s"
    "st' = signed_doc key (state_fields s')"
    "length (filter (ends_with ''.json'') (map fst (the (history_files (cr_history root))))) = nat (ro_revision s)"
    "\<exists>files. cr_history root = CH_Files files"
  let ?root = "write_all (take k (rollout_writes st' hd' r)) root"
  show ?thesis
  proof
    assume "current_rollout ?root key now' = Inr x"
    moreover obtain p2 pol2 s2 raw2 where "x = (p2, pol2, s2, raw2)" by (cases x) auto
    ultimately obtain policy2 state2 head2 where b: "cr_policy ?root = CF_Json policy2" "cr_state ?root = CF_Json state2"
      "cr_head ?root = CF_Json head2" "policy_payload policy2 key now' = Inr (p2, pol2)"
      "state_payload state2 key pol2 head2 = Inr (s2, raw2)"
      "verify_history (cr_history ?root) key pol2 (ro_revision s2) raw2 = Inr ()"
      by (auto simp: current_rollout_Inr)
    have docs: "policy2 = policy" "head2 = head" using b(1,3) a(1,5) k by (auto simp: write_rollout)
    then have pol: "pol2 = pol" using policy_payload_same [OF a(2)] b(4) by auto
    show False
    proof (cases "k = 1")
      case True
      then have "s2 = s" using b(2,5) a(3,4) by (simp add: write_rollout docs pol)
      moreover obtain files where "cr_history ?root = CH_Files files"
        "length (filter (ends_with ''.json'') (map fst files)) = nat (ro_revision s2)"
        by (rule verify_history_Inr [OF b(6)])
      ultimately show False
        using True a(10,11) by (auto simp: write_rollout ends_with_history_name)
    next
      case False
      then have "state2 = st'" using b(2) k by (simp add: write_rollout)
      then have two: "raw2 = state_fields s'" using state_payload_Inr(3) [OF b(5)] a(7) by (simp add: a(9))
      have "ro_revision s2 = ro_revision s"
        using check_head_once [OF state_payload_Inr(4) [OF a(4)] state_payload_Inr(4) [OF b(5), unfolded docs]] by simp
      moreover have "ro_revision s2 = ro_revision s'"
        using state_payload_Inr(6) [OF b(5)] by (simp add: two state_fields_lookup)
      ultimately show False using a(6) by (simp add: rollout_successor_def)
    qed
  qed
qed

section \<open>Ledgers do not change the rollout\<close>

lemma ledger_writes_keep:
  "current_rollout (write_all (map (CW_Ledger b) ws) root) key now = current_rollout root key now"
  "cr_policy (write_all (map (CW_Ledger b) ws) root) = cr_policy root"
proof -
  let ?same = "\<lambda>r r'. cr_policy r' = cr_policy r \<and> cr_state r' = cr_state r \<and> cr_head r' = cr_head r \<and> cr_history r' = cr_history r"
  have "?same root (write_all (map (CW_Ledger b) ws) root)"
    by (induction ws arbitrary: root) (simp_all add: write_all_def write_root_ledger_def)
  then show "current_rollout (write_all (map (CW_Ledger b) ws) root) key now = current_rollout root key now"
    "cr_policy (write_all (map (CW_Ledger b) ws) root) = cr_policy root"
    by (simp_all add: current_rollout_def verified_rollout_def)
qed

lemma write_all_append: "write_all (a @ b) root = write_all b (write_all a root)"
  by (simp add: write_all_def)

lemma transition_cases:
  obtains (refused) e where "rollout_transition root command key now recovery = ([], Inl e)"
  | (written) pol st' hd' r b ws res where "transition_writes root command key now recovery = Inr (pol, st', hd', r)"
      "rollout_transition root command key now recovery = (rollout_writes st' hd' r @ map (CW_Ledger b) ws, res)"
      "recovery = None \<longrightarrow> ws = [] \<and> res = Inr r" "\<forall>n. res = Inr n \<longrightarrow> n = r"
proof (cases "transition_writes root command key now recovery")
  case (Inl e)
  with refused show thesis by (simp add: rollout_transition_def)
next
  case (Inr x)
  obtain pol st' hd' r where x: "x = (pol, st', hd', r)" by (cases x) auto
  show thesis
  proof (cases recovery)
    case None
    with Inr x show thesis by (intro written [of pol st' hd' r undefined "[]" "Inr r"]) (simp_all add: rollout_transition_def)
  next
    case (Some event)
    show thesis
    proof (cases "record_recovery (write_all (rollout_writes st' hd' r) root) pol st' hd' event key now")
      case (Inl e)
      with Inr x Some show thesis
        by (intro written [of pol st' hd' r undefined "[]" "Inl e"]) (simp_all add: rollout_transition_def)
    next
      case (Inr ledger)
      then obtain b ws where "ledger = map (CW_Ledger b) ws"
        by (auto simp: record_recovery_def bind_res_Inr_iff)
      with Inr \<open>transition_writes _ _ _ _ _ = _\<close> x Some show thesis
        by (intro written [of pol st' hd' r b ws "Inr r"]) (simp_all add: rollout_transition_def)
    qed
  qed
qed

lemma transition_accepted:
  assumes "rollout_transition root command key now None = (writes, Inr r)"
  obtains pol st' hd' where "transition_writes root command key now None = Inr (pol, st', hd', r)"
    "writes = rollout_writes st' hd' r"
proof (cases "transition_writes root command key now None")
  case (Inr x)
  obtain pol st' hd' r' where x: "x = (pol, st', hd', r')" by (cases x) auto
  with Inr assms have done': "rollout_writes st' hd' r' = writes" "r' = r" by (auto simp: rollout_transition_def)
  show thesis using that [of pol st' hd'] Inr [unfolded x done'(2)] done'(1) [unfolded done'(2), symmetric] by blast
qed (use assms in \<open>simp add: rollout_transition_def\<close>)

end
