(* ===== verification/Rollout_Runs.thy ===== *)
theory Rollout_Runs
  imports Transition_Laws
begin

text \<open>
  A rollout from its initialization on: any sequence of commands, accepted or refused, at clock
  readings that do not go back.
\<close>

definition first_state :: "rollout_policy \<Rightarrow> string \<Rightarrow> utc \<Rightarrow> rollout_state" where
  "first_state p pol now = \<lparr>ro_policy_identity = pol, ro_revision = 1, ro_previous = None, ro_candidate = rp_candidate p,
     ro_actor = ''deployment_authority'', ro_time = time_text now, ro_stage = DISABLED, ro_enabled = False,
     ro_cohorts = [], ro_transition_id = ''initial'', ro_action = INITIALIZE\<rparr>"

lemma name_chars: "matches_name ''deployment_authority''" "matches_name ''initial''"
  by (simp_all add: matches_name_def head_tail_match.simps char_defs)

lemma wf_first_state: "valid_utc now \<Longrightarrow> wf_policy p \<Longrightarrow> wf_rollout (first_state p pol now)"
  using time_round_trip [of now Rollout_Error] name_chars
  by (simp add: wf_rollout_def first_state_def wf_policy_def rising_def)

text \<open>The policy of a directory and the state every reader of it finds while that policy is valid.\<close>

definition holds_rollout :: "control_root \<Rightarrow> string \<Rightarrow> json \<Rightarrow> rollout_policy \<Rightarrow> string \<Rightarrow> rollout_state \<Rightarrow> bool" where
  "holds_rollout root key policy p pol s \<longleftrightarrow> cr_policy root = CF_Json policy
     \<and> (\<exists>start. policy_payload policy key start = Inr (p, pol))
     \<and> (\<exists>raw. \<forall>now. policy_payload policy key now = Inr (p, pol) \<longrightarrow> current_rollout root key now = Inr (p, pol, s, raw))"

lemma initialize_ledgers_keep:
  "initialize_ledgers root bs key now = Inr root' \<Longrightarrow> cr_link root' = cr_link root"
  by (induction root bs key now rule: initialize_ledgers.induct)
     (auto simp: bind_res_Inr_iff split: option.splits)

lemma initialized_rollout:
  assumes "initialize_rollout root policy key now = Inr root'" and "valid_utc now"
  obtains p pol where "policy_payload policy key now = Inr (p, pol)"
    "holds_rollout root' key policy p pol (first_state p pol now)"
proof -
  obtain p pol root1 state payload head where i: "policy_payload policy key now = Inr (p, pol)"
    "initial_state policy key now = Inr state" "verify_signed Rollout_Error state key = Inr payload"
    "head_for (the (json_int (field_or JNull ''revision'' payload))) (state_identity payload) key = Inr head"
    "root' = root1\<lparr>cr_policy := CF_Json policy, cr_state := CF_Json state, cr_head := CF_Json head,
                   cr_history := CH_Files [(history_name 1, CF_Json state)]\<rparr>"
    using assms(1) by (auto simp: initialize_rollout_def bind_res_Inr_iff split: if_splits)
  let ?s = "first_state p pol now"
  have key: "good_key key" using policy_payload_wf(3) [OF i(1)] .
  have state: "state = signed_doc key (state_fields ?s)"
    using i(2) by (simp add: initial_state_def i(1) signed_Inr_iff first_state_def)
  have payload: "payload = state_fields ?s" using i(3) key by (simp add: state)
  have head: "head = signed_doc key (head_fields 1 (state_identity (state_fields ?s)))"
    using i(4) by (simp add: payload head_for_doc state_fields_lookup) (simp add: first_state_def)
  have wf: "wf_rollout ?s" using wf_first_state [OF assms(2) policy_payload_wf(1) [OF i(1)]] .
  have fields: "ro_revision ?s = 1" "ro_policy_identity ?s = pol" "ro_previous ?s = None" "ro_time ?s = time_text now"
    by (simp_all add: first_state_def)
  have read: "state_payload state key pol head = Inr (?s, state_fields ?s)"
    using state_payload_doc [OF wf key] check_head_fields [OF key] by (simp add: state head fields)
  have one: "[1..<nat 1 + 1] = [1]" by simp
  have "verify_history (CH_Files [(history_name 1, CF_Json state)]) key pol 1 (state_fields ?s) = Inr ()"
    using time_round_trip [OF assms(2), of Rollout_Error]
    unfolding verify_history_def one
    by (simp add: ends_with_history_name state key state_fields_lookup fields json_opt_str_def del: upt_Suc)
  then have "holds_rollout root' key policy p pol ?s"
    using i(1) by (auto simp: holds_rollout_def i(5) current_rollout_def verified_rollout_def read fields)
  with that i(1) show thesis .
qed

text \<open>Each command is given with the clock reading it meets and the recovery event it carries, if any.\<close>

fun run_commands :: "control_root \<Rightarrow> string \<Rightarrow> (json \<times> utc \<times> json option) list \<Rightarrow> control_root" where
  "run_commands root key [] = root"
| "run_commands root key ((command, now, recovery) # rest) =
     run_commands (write_all (fst (rollout_transition root command key now recovery)) root) key rest"

text \<open>The abstract machine, started disabled on the primary candidate; the revision counts its steps.\<close>

definition rollout_trace :: "rollout_policy \<Rightarrow> rollout_state \<Rightarrow> bool" where
  "rollout_trace p s \<longleftrightarrow>
     (rollout_step p ^^ nat (ro_revision s - 1)) (rp_candidate p, DISABLED) (point s)
     \<and> 1 \<le> ro_revision s \<and> ro_cohorts s = cohorts_at p (ro_stage s)"

lemma rollout_trace_successor:
  assumes "rollout_trace p s" and "rollout_successor p s i now s'"
  shows "rollout_trace p s'"
proof -
  have "nat (ro_revision s' - 1) = Suc (nat (ro_revision s - 1))"
    using assms by (simp add: rollout_trace_def rollout_successor_def Suc_nat_eq_nat_zadd1)
  then show ?thesis using assms by (auto simp: rollout_trace_def rollout_successor_def)
qed

lemma holds_rollout_transition:
  assumes holds: "holds_rollout root key policy p pol s" and trace: "rollout_trace p s"
    and t: "time_of Rollout_Error (JStr (ro_time s)) = Inr t" "t \<le> now" "valid_utc now"
  shows "\<exists>s' t'. holds_rollout (write_all (fst (rollout_transition root command key now recovery)) root) key policy p pol s'
    \<and> rollout_trace p s' \<and> time_of Rollout_Error (JStr (ro_time s')) = Inr t' \<and> t' \<le> now"
proof (cases rule: transition_cases [of root command key now recovery])
  case (refused e)
  then show ?thesis using holds trace t by (auto simp: write_all_def)
next
  case (written pol' st' hd' r b ws res)
  have policy: "cr_policy root = CF_Json policy" using holds by (simp add: holds_rollout_def)
  obtain start raw where start: "policy_payload policy key start = Inr (p, pol)"
    and raw: "\<forall>now. policy_payload policy key now = Inr (p, pol) \<longrightarrow> current_rollout root key now = Inr (p, pol, s, raw)"
    using holds by (auto simp: holds_rollout_def)
  obtain p1 s1 raw1 where "current_rollout root key now = Inr (p1, pol', s1, raw1)" "policy_payload policy key now = Inr (p1, pol')"
    by (rule transition_writes_parts [OF written(1) t(3)]) (use policy in auto)
  then have "p1 = p" "pol' = pol" "policy_payload policy key now = Inr (p, pol)"
    using policy_payload_same [OF start] by auto
  then have here: "current_rollout root key now = Inr (p, pol, s, raw)" and pol: "pol' = pol" using raw by simp_all
  obtain s' where s': "rollout_successor p s (state_identity raw) now s'"
    "\<And>now'. current_rollout (write_all (rollout_writes st' hd' r) root) key now' =
       bind_res (read_document (cr_policy root)) (\<lambda>policy. bind_res (policy_payload policy key now') (\<lambda>_.
         if now < t then Inl Rollout_Error else Inr (p, pol, s', state_fields s')))"
    by (rule rollout_after_writes [OF written(1) [unfolded pol] t(3) here t(1)]) (rule that)
  have "holds_rollout (write_all (fst (rollout_transition root command key now recovery)) root) key policy p pol s'"
    unfolding holds_rollout_def written(2) fst_conv write_all_append ledger_writes_keep s'(2)
    using start t(2) by (auto simp: policy written_rollout)
  moreover have "time_of Rollout_Error (JStr (ro_time s')) = Inr now"
    using s'(1) time_round_trip [OF t(3)] by (simp add: rollout_successor_def)
  ultimately show ?thesis using rollout_trace_successor [OF trace s'(1)] by blast
qed

lemma holds_rollout_run:
  assumes "holds_rollout root key policy p pol s" and "rollout_trace p s"
    and "time_of Rollout_Error (JStr (ro_time s)) = Inr t" and "sorted (t # map (\<lambda>c. fst (snd c)) cmds)"
    and "list_all (\<lambda>c. valid_utc (fst (snd c))) cmds"
  shows "\<exists>s'. holds_rollout (run_commands root key cmds) key policy p pol s' \<and> rollout_trace p s'"
  using assms
proof (induction cmds arbitrary: root s t)
  case (Cons c cmds)
  obtain command now recovery where c: "c = (command, now, recovery)" by (cases c) auto
  have t: "t \<le> now" "valid_utc now" using Cons.prems(4,5) by (simp_all add: c)
  obtain s' t' where s': "holds_rollout (write_all (fst (rollout_transition root command key now recovery)) root) key policy p pol s'"
    "rollout_trace p s'" "time_of Rollout_Error (JStr (ro_time s')) = Inr t'" "t' \<le> now"
    using holds_rollout_transition [OF Cons.prems(1-3) t] by blast
  have "sorted (t' # map (\<lambda>c. fst (snd c)) cmds)" using Cons.prems(4) s'(4) by (auto simp: c)
  then show ?case using Cons.IH [OF s'(1-3)] Cons.prems(5) by (simp add: c)
qed auto

lemma rollout_trace_first: "wf_policy p \<Longrightarrow> rollout_trace p (first_state p pol now)"
  by (simp add: rollout_trace_def first_state_def cohorts_at_disabled)

text \<open>What the machine keeps: only the two candidates of the policy are ever active.\<close>

lemma rollout_steps_authorized:
  "(rollout_step p ^^ n) (rp_candidate p, DISABLED) x \<Longrightarrow> candidate_authorized p (fst x)"
proof (induction n arbitrary: x)
  case (Suc n)
  then show ?case by (fastforce simp: candidate_authorized_def elim: rollout_stepE)
qed (auto simp: candidate_authorized_def)

end
