(* ===== verification/Ledger_Laws.thy ===== *)
theory Ledger_Laws
  imports Transition_Laws
begin

text \<open>
  The revocation ledger: a well-formed state is read back with its head, the replay of a history
  extended by one event, and the outcome of an append that was made in full or only in part.
\<close>

section \<open>States\<close>

definition wf_ledger :: "ledger_state \<Rightarrow> bool" where
  "wf_ledger s \<longleftrightarrow> 0 \<le> ls_revision s
     \<and> (if ls_revision s = 0 then ls_previous s = None \<and> ls_event s = None \<and> ls_status s = CLEAR
        else (\<exists>h. ls_previous s = Some h \<and> matches_sha256 h) \<and> (\<exists>h. ls_event s = Some h \<and> matches_sha256 h)
          \<and> ls_status s \<noteq> CLEAR)
     \<and> rising (ls_categories s) \<and> set (ls_categories s) \<subseteq> set reason_categories
     \<and> (ls_status s = REVOKED \<longleftrightarrow> ls_categories s \<noteq> [])
     \<and> matches_name (ls_actor s) \<and> matches_name (ls_authority s) \<and> matches_name (ls_transition_id s)
     \<and> (\<exists>t. time_of Revocation_Error (JStr (ls_time s)) = Inr t)"

lemma ledger_fields_lookup:
  "field_or d ''schema_version'' (ledger_fields c s) = JStr ''1.0''"
  "field_or d ''candidate_binding'' (ledger_fields c s) = binding_as_dict c"
  "field_or d ''revision'' (ledger_fields c s) = JInt (ls_revision s)"
  "field_or d ''previous_state_identity'' (ledger_fields c s) = json_opt_str (ls_previous s)"
  "field_or d ''event_identity'' (ledger_fields c s) = json_opt_str (ls_event s)"
  "field_or d ''status'' (ledger_fields c s) = JStr (status_name (ls_status s))"
  "field_or d ''active_reason_categories'' (ledger_fields c s) = JArr (map JStr (ls_categories s))"
  "field_or d ''actor_ref'' (ledger_fields c s) = JStr (ls_actor s)"
  "field_or d ''authority_ref'' (ledger_fields c s) = JStr (ls_authority s)"
  "field_or d ''updated_at'' (ledger_fields c s) = JStr (ls_time s)"
  "field_or d ''transition_id'' (ledger_fields c s) = JStr (ls_transition_id s)"
  by (simp_all add: ledger_fields_def field_or_def)

lemma ledger_fields_keys: "keys_of (ledger_fields c s) = ledger_names"
  by (auto simp: ledger_fields_def keys_of_def ledger_names_def)

lemma map_JStr [simp]: "map JStr a = map JStr b \<longleftrightarrow> a = b"
  by (simp add: inj_map_eq_map inj_def)

lemma category_list_Inr:
  "category_list v = Inr cs \<longleftrightarrow> v = JArr (map JStr cs) \<and> rising cs \<and> set cs \<subseteq> set reason_categories"
  by (auto simp: category_list_def strs_of_Some split: json.splits option.splits if_splits)

lemma validate_ledger_fields:
  assumes wf: "wf_ledger s" and c: "wf_binding c"
  shows "validate_ledger (ledger_fields c s) c = Inr s"
proof -
  have cats: "category_list (JArr (map JStr (ls_categories s))) = Inr (ls_categories s)"
    using wf by (simp add: category_list_Inr wf_ledger_def)
  have links: "ledger_links (ls_revision s) (ledger_fields c s) = Inr (ls_previous s, ls_event s)"
    using wf by (cases "ls_revision s = 0")
      (auto simp: ledger_links_def ledger_fields_lookup wf_ledger_def json_opt_str_def digest_of_def)
  have status: "ledger_status_of (JStr (status_name (ls_status s))) (ls_revision s) (ls_categories s) = Inr (ls_status s)"
    using wf by (cases "ls_status s") (auto simp: ledger_status_of_def in_set_def wf_ledger_def split: if_splits)
  obtain t where time: "time_of Revocation_Error (JStr (ls_time s)) = Inr t" using wf by (auto simp: wf_ledger_def)
  have small: "\<not> ls_revision s < 0" "matches_name (ls_actor s)" "matches_name (ls_authority s)" "matches_name (ls_transition_id s)"
    using wf by (simp_all add: wf_ledger_def)
  show ?thesis
    using c by (simp add: validate_ledger_def ledger_fields_lookup ledger_fields_keys same_candidate_def int_from_def
        name_of_def links cats status time small)
qed

lemma ledger_links_Inr:
  "ledger_links revision kvs = Inr (p, e) \<Longrightarrow>
     field_or JNull ''previous_state_identity'' kvs = json_opt_str p \<and> field_or JNull ''event_identity'' kvs = json_opt_str e
     \<and> (if revision = 0
        then p = None \<and> e = None \<and> field_or JNull ''status'' kvs = JStr ''CLEAR''
          \<and> json_falsy (field_or JNull ''active_reason_categories'' kvs)
        else (\<exists>h. p = Some h \<and> matches_sha256 h) \<and> (\<exists>h. e = Some h \<and> matches_sha256 h))"
  by (auto simp: ledger_links_def digest_of_def json_opt_str_def bind_res_Inr_iff Let_def split: if_splits json.splits)

lemma ledger_status_of_Inr:
  "ledger_status_of v revision cats = Inr st \<Longrightarrow>
     v = JStr (status_name st) \<and> (st = REVOKED \<longleftrightarrow> cats \<noteq> []) \<and> (0 < revision \<longrightarrow> st \<noteq> CLEAR)"
  by (cases st) (auto simp: ledger_status_of_def in_set_def bind_res_Inr_iff Let_def split: json.splits if_splits)

lemma validate_ledger_Inr:
  assumes "validate_ledger kvs c = Inr s"
  shows "wf_ledger s" and "wf_binding c" and "field_or JNull ''revision'' kvs = JInt (ls_revision s)"
    and "field_or JNull ''event_identity'' kvs = json_opt_str (ls_event s)"
    and "field_or JNull ''active_reason_categories'' kvs = JArr (map JStr (ls_categories s))"
    and "field_or JNull ''updated_at'' kvs = JStr (ls_time s)"
proof -
  obtain t where v: "same_candidate (field_or JNull ''candidate_binding'' kvs) c = Inr ()"
    "int_from Revocation_Error 0 (field_or JNull ''revision'' kvs) = Inr (ls_revision s)"
    "ledger_links (ls_revision s) kvs = Inr (ls_previous s, ls_event s)"
    "category_list (field_or JNull ''active_reason_categories'' kvs) = Inr (ls_categories s)"
    "ledger_status_of (field_or JNull ''status'' kvs) (ls_revision s) (ls_categories s) = Inr (ls_status s)"
    "ref_of (field_or JNull ''actor_ref'' kvs) = Inr (ls_actor s)"
    "ref_of (field_or JNull ''authority_ref'' kvs) = Inr (ls_authority s)"
    "ref_of (field_or JNull ''transition_id'' kvs) = Inr (ls_transition_id s)"
    "time_of Revocation_Error (field_or JNull ''updated_at'' kvs) = Inr t"
    "ls_time s = the (json_str (field_or JNull ''updated_at'' kvs))"
    using assms by (auto simp: validate_ledger_def bind_res_Inr_iff split: if_splits)
  show time: "field_or JNull ''updated_at'' kvs = JStr (ls_time s)"
    using v(9,10) by (auto simp: time_of_def split: json.splits)
  have names: "matches_name (ls_actor s)" "matches_name (ls_authority s)" "matches_name (ls_transition_id s)"
    using v(6-8) by (auto simp: name_of_def split: json.splits if_splits)
  have rev: "field_or JNull ''revision'' kvs = JInt (ls_revision s)" "0 \<le> ls_revision s"
    using v(2) by (auto simp: int_from_def split: json.splits if_splits)
  note links = ledger_links_Inr [OF v(3)] and cats = v(4) [unfolded category_list_Inr]
  note status = ledger_status_of_Inr [OF v(5)]
  have clear: "ls_status s = CLEAR" if "ls_revision s = 0"
    using links status that by (cases "ls_status s") auto
  show "wf_ledger s"
    using links cats status rev names v(9) time clear by (auto simp: wf_ledger_def split: if_splits)
  show "wf_binding c" using v(1) by (auto simp: same_candidate_def bind_res_Inr_iff dest: binding_from_mapping_wf split: if_splits)
  show "field_or JNull ''revision'' kvs = JInt (ls_revision s)" by (rule rev)
  show "field_or JNull ''event_identity'' kvs = json_opt_str (ls_event s)" using links by simp
  show "field_or JNull ''active_reason_categories'' kvs = JArr (map JStr (ls_categories s))" using cats by simp
qed

lemma status_of_ledger_valid:
  "wf_ledger s \<Longrightarrow> matches_sha256 i \<Longrightarrow> validate_status (status_of_ledger c s i) c = Inr (status_of_ledger c s i)"
  by (cases "ls_status s")
     (auto simp: validate_status_def status_of_ledger_def wf_ledger_def bind_res_Inr_iff split: if_splits)

section \<open>Events\<close>

lemma validate_event_Inr:
  assumes "validate_event kvs c now = Inr e"
  shows "wf_binding c" and "matches_name (le_actor e)" and "matches_name (le_authority e)" and "matches_name (le_event_id e)"
    and "time_of Revocation_Error (JStr (le_time e)) = Inr (le_at e)" and "le_at e \<le> now"
    and "le_categories e \<noteq> []" and "set (le_categories e) \<subseteq> set reason_categories"
    and "now \<le> later \<Longrightarrow> validate_event kvs c later = Inr e"
    and "field_or JNull ''event_id'' kvs = JStr (le_event_id e)"
    and "binding_from_mapping (field_or JNull ''candidate_binding'' kvs) = Inr c"
proof -
  obtain t where v: "keys_of kvs = event_names" "field_or JNull ''schema_version'' kvs = JStr ''1.0''"
    "same_candidate (field_or JNull ''candidate_binding'' kvs) c = Inr ()"
    "ledger_action_of (field_or JNull ''action'' kvs) = Inr (le_action e)"
    "ref_of (field_or JNull ''actor_ref'' kvs) = Inr (le_actor e)"
    "ref_of (field_or JNull ''authority_ref'' kvs) = Inr (le_authority e)"
    "event_id_of (field_or JNull ''event_id'' kvs) = Inr (le_event_id e)"
    "time_of Revocation_Error (field_or JNull ''occurred_at'' kvs) = Inr t" "\<not> now < t" "le_at e = t"
    "le_time e = the (json_str (field_or JNull ''occurred_at'' kvs))"
    "category_list (field_or JNull ''reason_categories'' kvs) = Inr (le_categories e)" "le_categories e \<noteq> []"
    using assms by (auto simp: validate_event_def bind_res_Inr_iff split: if_splits)
  show bound: "binding_from_mapping (field_or JNull ''candidate_binding'' kvs) = Inr c"
    using v(3) by (auto simp: same_candidate_def bind_res_Inr_iff split: if_splits)
  show "wf_binding c" using binding_from_mapping_wf [OF bound] .
  show "matches_name (le_actor e)" "matches_name (le_authority e)"
    using v(5,6) by (auto simp: name_of_def split: json.splits if_splits)
  show "matches_name (le_event_id e)" "field_or JNull ''event_id'' kvs = JStr (le_event_id e)"
    using v(7) by (auto simp: event_id_of_def name_of_def bind_res_Inr_iff split: json.splits if_splits)
  show "time_of Revocation_Error (JStr (le_time e)) = Inr (le_at e)"
    using v(8,10,11) by (auto simp: time_of_def split: json.splits)
  show "le_at e \<le> now" using v(9,10) by simp
  show "le_categories e \<noteq> []" by (rule v(13))
  show "set (le_categories e) \<subseteq> set reason_categories" using v(12) by (simp add: category_list_Inr)
  show "validate_event kvs c later = Inr e" if "now \<le> later"
  proof -
    have "\<not> later < t" using v(9) that by simp
    then show ?thesis
      using assms v(1,2,8,9) by (auto simp: validate_event_def bind_res_Inr_iff split: if_splits)
  qed
qed

lemma next_categories_Inr:
  assumes "next_categories e active = Inr active'" and "rising active"
  shows "rising active'" and "le_action e = REVOKE \<Longrightarrow> set active' = insert (hd (le_categories e)) (set active)"
    and "le_action e = RECOVER \<Longrightarrow> set (le_categories e) \<subseteq> set active \<and> set active' = set active - set (le_categories e)"
  using assms rising_insert_str
  by (auto simp: next_categories_def rising_def sorted_wrt_filter split: ledger_action.splits if_splits)

lemma wf_next_ledger:
  assumes e: "validate_event kvs c now = Inr e" and s: "wf_ledger s"
    and active: "next_categories e (ls_categories s) = Inr active" and ids: "matches_sha256 i" "matches_sha256 j"
  shows "wf_ledger (next_ledger e i (ls_revision s + 1) j active)"
proof -
  note ev = validate_event_Inr [OF e]
  have r: "rising (ls_categories s)" "set (ls_categories s) \<subseteq> set reason_categories" "0 \<le> ls_revision s"
    using s by (simp_all add: wf_ledger_def)
  note n = next_categories_Inr [OF active r(1)]
  have "set active \<subseteq> set reason_categories"
    using n r(2) ev(7,8) by (cases "le_action e") (auto dest: hd_in_set)
  moreover have "le_action e = REVOKE \<Longrightarrow> active \<noteq> []" using n(2) by auto
  ultimately show ?thesis
    using n(1) ev ids r(3) by (cases "le_action e") (auto simp: wf_ledger_def next_ledger_def)
qed

section \<open>Replay\<close>

text \<open>What the replay carries are the members of the payload it built.\<close>

definition replay_ok :: "replay \<Rightarrow> bool" where
  "replay_ok r \<longleftrightarrow> re_identity r = payload_identity (JObj (re_payload r))
     \<and> field_or JNull ''event_identity'' (re_payload r) = json_opt_str (re_event r)
     \<and> field_or JNull ''active_reason_categories'' (re_payload r) = JArr (map JStr (re_categories r))"

lemma genesis_replay_ok:
  assumes "read_genesis f key c = Inr kvs"
  shows "replay_ok (genesis_replay kvs)"
proof -
  obtain s where s: "validate_ledger kvs c = Inr s" "ls_revision s = 0"
    using assms by (auto simp: read_genesis_def bind_res_Inr_iff split: option.splits if_splits)
  note v = validate_ledger_Inr [OF s(1)]
  have "ls_event s = None" "ls_categories s = []" using v(1) s(2) by (auto simp: wf_ledger_def)
  with v(4,5) show ?thesis by (simp add: replay_ok_def genesis_replay_def json_opt_str_def)
qed

lemma replay_event_ok: "replay_event kvs c n r = Inr r' \<Longrightarrow> replay_ok r'"
  by (auto simp: replay_event_def bind_res_Inr_iff Let_def replay_ok_def ledger_fields_lookup next_ledger_def split: if_splits)

lemma replay_events_ok: "replay_events files key c ns r = Inr r' \<Longrightarrow> replay_ok r \<Longrightarrow> replay_ok r'"
proof (induction ns arbitrary: r)
  case (Cons n ns)
  then obtain kvs r1 where "replay_event kvs c n r = Inr r1" "replay_events files key c ns r1 = Inr r'"
    by (auto simp: bind_res_Inr_iff split: option.splits)
  then show ?case using Cons.IH replay_event_ok by blast
qed simp

lemma replay_append:
  "replay_events files key c (ns @ ms) r = bind_res (replay_events files key c ns r) (replay_events files key c ms)"
proof (induction ns arbitrary: r)
  case (Cons n ns)
  then show ?case by (auto simp: bind_res_assoc split: option.splits intro!: bind_res_cong)
qed simp

lemma replay_cong:
  "(\<And>n. n \<in> set ns \<Longrightarrow> map_of files (history_name n) = map_of files' (history_name n)) \<Longrightarrow>
   replay_events files key c ns r = replay_events files' key c ns r"
proof (induction ns arbitrary: r)
  case (Cons n ns)
  then show ?case
    using Cons.prems [of n] Cons.IH [OF Cons.prems] by (auto split: option.splits intro!: bind_res_cong)
qed simp

lemma replay_one_more:
  assumes "replay_events files key c ns r0 = Inr r" and "\<forall>m \<in> set ns. map_of files (history_name m) \<noteq> None"
    and "map_of files (history_name n) = None" and "verify_signed Revocation_Error event key = Inr kvs"
    and "replay_event kvs c n r = Inr r'"
  shows "replay_events (files @ [(history_name n, CF_Json event)]) key c (ns @ [n]) r0 = Inr r'"
proof -
  let ?files = "files @ [(history_name n, CF_Json event)]"
  have "replay_events ?files key c ns r0 = replay_events files key c ns r0"
    using assms(2) by (intro replay_cong) (auto simp: map_add_def)
  moreover have "map_of ?files (history_name n) = Some (CF_Json event)" using assms(3) by (simp add: map_add_def)
  ultimately show ?thesis using assms(1,4,5) by (simp add: replay_append)
qed

text \<open>A payload equal to the stored state has its event, categories and time.\<close>

lemma same_json_rigid:
  assumes "same_json (JObj a) (JObj b)" and "field_or JNull k b = v"
    and "\<And>w. sort_keys (plain_ints w) = sort_keys (plain_ints v) \<Longrightarrow> w = v"
  shows "field_or JNull k a = v"
  using same_json_member [OF assms(1), of k] assms(2,3)
  by (cases "map_of a k"; cases "map_of b k") (auto simp: field_or_def)

lemma plain_names: "sort_keys (plain_ints w) = JArr (map JStr cs) \<Longrightarrow> w = JArr (map JStr cs)"
proof (cases w)
  case (JArr ws)
  assume "sort_keys (plain_ints w) = JArr (map JStr cs)"
  then have "map (\<lambda>v. sort_keys (plain_ints v)) ws = map JStr cs" by (simp add: JArr comp_def)
  then have "ws = map JStr cs"
    by (induction ws arbitrary: cs) (auto simp: sorted_str map_eq_Cons_conv)
  then show ?thesis by (simp add: JArr)
qed auto

lemma stored_members:
  assumes same: "same_json (JObj p) (JObj raw)" and s: "validate_ledger raw c = Inr s"
  shows "field_or JNull ''event_identity'' p = json_opt_str (ls_event s)"
    and "field_or JNull ''active_reason_categories'' p = JArr (map JStr (ls_categories s))"
    and "field_or JNull ''updated_at'' p = JStr (ls_time s)"
proof -
  note v = validate_ledger_Inr(4-6) [OF s]
  have "w = JNull" if "sort_keys (plain_ints w) = JNull" for w using that by (cases w) auto
  then show "field_or JNull ''event_identity'' p = json_opt_str (ls_event s)"
    by (intro same_json_rigid [OF same v(1)]) (auto simp: json_opt_str_def sorted_str split: option.splits)
  have "sort_keys (plain_ints (JArr (map JStr cs))) = JArr (map JStr cs)" for cs by (simp add: comp_def)
  then show "field_or JNull ''active_reason_categories'' p = JArr (map JStr (ls_categories s))"
    by (intro same_json_rigid [OF same v(2)]) (metis plain_names)
  show "field_or JNull ''updated_at'' p = JStr (ls_time s)"
    by (rule same_json_str [OF same v(3)])
qed

lemma json_opt_str_inject [simp]: "json_opt_str a = json_opt_str b \<longleftrightarrow> a = b"
  by (cases a; cases b) (simp_all add: json_opt_str_def)

section \<open>An append\<close>

lemma check_history_names_Inr:
  assumes "check_history_names history revision = Inr files"
  shows "history = CH_Files files" and "set (map fst files) = set (map history_name [1..<nat revision + 1])"
    and "\<forall>f \<in> set files. \<not> is_link (snd f)"
proof -
  show h: "history = CH_Files files"
    using assms by (cases history) (auto simp: check_history_names_def Let_def split: if_splits)
  show names: "set (map fst files) = set (map history_name [1..<nat revision + 1])"
    using assms by (simp add: h check_history_names_def Let_def del: upt_Suc split: if_splits)
  have "\<not> list_ex (\<lambda>f. fst f \<in> set (map history_name [1..<nat revision + 1]) \<and> is_link (snd f)) files"
    using assms by (simp add: h check_history_names_def Let_def del: upt_Suc split: if_splits)
  then show "\<forall>f \<in> set files. \<not> is_link (snd f)" unfolding names [symmetric] by (auto simp: list_ex_iff)
qed

lemma read_ledger_dir_Inr:
  assumes "read_ledger_dir d c key = Inr (s, i, files)"
  obtains signed_state signed_head kvs head genesis r where "ld_link d = False"
    "read_control (ld_state d) = Some signed_state" "read_control (ld_head d) = Some signed_head"
    "verify_signed Revocation_Error signed_state key = Inr kvs" "validate_ledger kvs c = Inr s"
    "verify_signed Revocation_Error signed_head key = Inr head" "i = payload_identity (JObj kvs)"
    "check_ledger_head head c (ls_revision s) i = Inr ()" "check_history_names (ld_history d) (ls_revision s) = Inr files"
    "read_genesis (ld_genesis d) key c = Inr genesis"
    "replay_events files key c [1..<nat (ls_revision s) + 1] (genesis_replay genesis) = Inr r"
    "same_json (JObj (re_payload r)) (JObj kvs)" "re_identity r = i" "replay_ok r" "wf_ledger s"
proof -
  obtain signed_state signed_head kvs head genesis r where a: "ld_link d = False"
    "read_control (ld_state d) = Some signed_state" "read_control (ld_head d) = Some signed_head"
    "verify_signed Revocation_Error signed_state key = Inr kvs" "validate_ledger kvs c = Inr s"
    "verify_signed Revocation_Error signed_head key = Inr head" "i = payload_identity (JObj kvs)"
    "check_ledger_head head c (ls_revision s) i = Inr ()" "check_history_names (ld_history d) (ls_revision s) = Inr files"
    "read_genesis (ld_genesis d) key c = Inr genesis"
    "replay_events files key c [1..<nat (ls_revision s) + 1] (genesis_replay genesis) = Inr r"
    "same_json (JObj (re_payload r)) (JObj kvs)" "re_identity r = i"
    using assms by (auto simp: read_ledger_dir_def bind_res_Inr_iff simp del: upt_Suc split: if_splits option.splits)
  have "replay_ok r" using replay_events_ok [OF a(11) genesis_replay_ok [OF a(10)]] .
  with that [OF a] validate_ledger_Inr(1) [OF a(5)] show thesis by simp
qed

lemma read_ledger_dirI:
  assumes "\<not> ld_link d" "read_control (ld_state d) = Some signed_state" "read_control (ld_head d) = Some signed_head"
    "verify_signed Revocation_Error signed_state key = Inr kvs" "validate_ledger kvs c = Inr s"
    "verify_signed Revocation_Error signed_head key = Inr head" "i = payload_identity (JObj kvs)" "n = ls_revision s"
    "check_ledger_head head c n i = Inr ()" "check_history_names (ld_history d) n = Inr files"
    "read_genesis (ld_genesis d) key c = Inr genesis"
    "replay_events files key c [1..<nat n + 1] (genesis_replay genesis) = Inr r"
    "same_json (JObj (re_payload r)) (JObj kvs)" "re_identity r = i"
  shows "read_ledger_dir d c key = Inr (s, i, files)"
  using assms(1-11,13,14) assms(12) unfolding assms(7,8) by (simp add: read_ledger_dir_def del: upt_Suc)

definition appended :: "ledger_event \<Rightarrow> (string \<times> json) list \<Rightarrow> ledger_state \<Rightarrow> string \<Rightarrow> string list \<Rightarrow> ledger_state" where
  "appended e kvs s i active = next_ledger e (payload_identity (JObj kvs)) (ls_revision s + 1) i active"

lemma append_writes_Inr:
  "append_writes event c s files key = Inr ws \<longleftrightarrow>
     map_of files (history_name (nat (ls_revision s))) = None \<and> good_key key
     \<and> ws = [LW_Event (history_name (nat (ls_revision s))) event, LW_State (signed_doc key (ledger_fields c s)),
             LW_Head (signed_doc key (ledger_head_fields c (ls_revision s) (payload_identity (JObj (ledger_fields c s)))))]"
  by (auto simp: append_writes_def Let_def bind_res_Inr_iff signed_Inr_iff)

lemma ledger_head_keys: "keys_of (ledger_head_fields c r i) = ledger_head_names"
  by (auto simp: ledger_head_fields_def keys_of_def ledger_head_names_def)

lemma ledger_appended:
  assumes read: "read_ledger_dir d c key = Inr (s, i, files)"
    and e: "validate_event kvs c now = Inr e" "now \<le> utc_max" "verify_signed Revocation_Error event key = Inr kvs"
    and cas: "check_append e s i = Inr ()" and active: "next_categories e (ls_categories s) = Inr active"
    and ws: "append_writes event c (appended e kvs s i active) files key = Inr ws"
  shows "read_ledger_dir (fold write_ledger ws d) c key
      = Inr (appended e kvs s i active, payload_identity (JObj (ledger_fields c (appended e kvs s i active))),
             files @ [(history_name (nat (ls_revision s + 1)), CF_Json event)])"
    and "wf_ledger (appended e kvs s i active)"
proof -
  define n where n_def: "n = nat (ls_revision s) + 1"
  let ?s = "appended e kvs s i active"
  let ?files = "files @ [(history_name n, CF_Json event)]"
  obtain raw genesis r where p: "ld_link d = False" "validate_ledger raw c = Inr s" "i = payload_identity (JObj raw)"
    "check_history_names (ld_history d) (ls_revision s) = Inr files" "read_genesis (ld_genesis d) key c = Inr genesis"
    "replay_events files key c [1..<nat (ls_revision s) + 1] (genesis_replay genesis) = Inr r"
    "same_json (JObj (re_payload r)) (JObj raw)" "re_identity r = i" "replay_ok r" "wf_ledger s"
    by (rule read_ledger_dir_Inr [OF read]) blast
  note p = p [folded n_def]
  note ev = validate_event_Inr [OF e(1)] and h = check_history_names_Inr [OF p(4), folded n_def]
  have rev: "0 \<le> ls_revision s" using p(10) by (simp add: wf_ledger_def)
  then have n: "ls_revision ?s = int n" "nat (ls_revision s + 1) = n" "1 \<le> n" "ls_revision s = int n - 1"
    by (simp_all add: n_def appended_def next_ledger_def)
  note w = ws [unfolded append_writes_Inr n(1) nat_int]
  show wf: "wf_ledger ?s"
    unfolding appended_def by (rule wf_next_ledger [OF e(1) p(10) active]) (simp_all add: p(3))
  have valid: "validate_ledger (ledger_fields c ?s) c = Inr ?s" by (rule validate_ledger_fields [OF wf ev(1)])
  have upto: "[1..<n + 1] = [1..<n] @ [n]" using n(3) by simp
  have names: "check_history_names (CH_Files ?files) (int n) = Inr ?files"
  proof -
    have "set (map fst ?files) = insert (history_name n) (set (map fst files))" by simp
    also have "\<dots> = set (map history_name [1..<n + 1])" unfolding h(2) upto by simp
    finally have "set (map fst ?files) = set (map history_name [1..<nat (int n) + 1])" unfolding nat_int .
    moreover have "\<not> list_ex (\<lambda>f. fst f \<in> X \<and> is_link (snd f)) ?files" for X using h(3) by (auto simp: list_ex_iff)
    ultimately show ?thesis unfolding check_history_names_def history_files.simps option.case Let_def by (simp del: upt_Suc)
  qed
  have stored: "re_event r = ls_event s" "re_categories r = ls_categories s"
    "field_or JNull ''updated_at'' (re_payload r) = JStr (ls_time s)"
    using stored_members [OF p(7,2)] p(9) by (simp_all add: replay_ok_def)
  obtain before where before: "time_of Revocation_Error (JStr (ls_time s)) = Inr before" "\<not> le_at e < before"
    "le_expected e = ls_revision s" "le_state_identity e = i" "le_previous e = ls_event s"
    using cas by (auto simp: check_append_def bind_res_Inr_iff split: if_splits)
  let ?r = "\<lparr>re_identity = payload_identity (JObj (ledger_fields c ?s)), re_event = Some (payload_identity (JObj kvs)),
              re_categories = active, re_payload = ledger_fields c ?s\<rparr>"
  have last_step: "replay_event kvs c n r = Inr ?r"
    using ev(9) [OF e(2)] before active n(4)
    by (simp add: replay_event_def stored p(8) Let_def appended_def)
  have known: "\<forall>m \<in> set [1..<n]. map_of files (history_name m) \<noteq> None"
  proof
    fix m assume "m \<in> set [1..<n]"
    then have "history_name m \<in> set (map fst files)" unfolding h(2) by (subst set_map) (rule imageI)
    then show "map_of files (history_name m) \<noteq> None" by (simp add: map_of_eq_None_iff)
  qed
  have "replay_events ?files key c [1..<n + 1] (genesis_replay genesis) = Inr ?r"
    unfolding upto using replay_one_more [OF p(6) known _ e(3) last_step] w by simp
  then have replayed: "replay_events ?files key c [1..<nat (int n) + 1] (genesis_replay genesis) = Inr ?r" by (simp only: nat_int)
  have head: "check_ledger_head (ledger_head_fields c (int n) j) c (int n) j = Inr ()" for j
    by (simp add: check_ledger_head_def ledger_head_keys) (simp add: ledger_head_fields_def field_or_def)
  have signed_read: "verify_signed Revocation_Error (signed_doc key x) key = Inr x" for x using w by simp
  have written: "fold write_ledger ws d = d\<lparr>ld_history := CH_Files ?files, ld_state := CF_Json (signed_doc key (ledger_fields c ?s)),
      ld_head := CF_Json (signed_doc key (ledger_head_fields c (int n) (payload_identity (JObj (ledger_fields c ?s)))))\<rparr>"
    using w h(1) by simp
  show "read_ledger_dir (fold write_ledger ws d) c key
      = Inr (?s, payload_identity (JObj (ledger_fields c ?s)),
             files @ [(history_name (nat (ls_revision s + 1)), CF_Json event)])"
    unfolding n(2) written
    by (rule read_ledger_dirI [OF _ _ _ signed_read valid signed_read refl n(1) [symmetric] head _ _ replayed])
       (use p(1,5) names in simp_all)
qed

text \<open>One or two of the three writes: the ledger cannot be read any more.\<close>

lemma ledger_crashed:
  assumes read: "read_ledger_dir d c key = Inr (s, i, files)"
    and ws: "append_writes event c (appended e kvs s i active) files key = Inr ws" and k: "k = 1 \<or> k = 2"
  shows "read_ledger_dir (fold write_ledger (take k ws) d) c key \<noteq> Inr x"
proof
  let ?d = "fold write_ledger (take k ws) d"
  assume "read_ledger_dir ?d c key = Inr x"
  then obtain s2 i2 files2 where again: "read_ledger_dir ?d c key = Inr (s2, i2, files2)" by (cases x) auto
  obtain state head kvs1 hkvs where p: "read_control (ld_state d) = Some state" "read_control (ld_head d) = Some head"
    "verify_signed Revocation_Error state key = Inr kvs1" "validate_ledger kvs1 c = Inr s"
    "verify_signed Revocation_Error head key = Inr hkvs" "check_ledger_head hkvs c (ls_revision s) i = Inr ()"
    "check_history_names (ld_history d) (ls_revision s) = Inr files"
    by (rule read_ledger_dir_Inr [OF read]) blast
  obtain state2 head2 kvs2 hkvs2 where q: "read_control (ld_state ?d) = Some state2" "read_control (ld_head ?d) = Some head2"
    "verify_signed Revocation_Error state2 key = Inr kvs2" "validate_ledger kvs2 c = Inr s2"
    "verify_signed Revocation_Error head2 key = Inr hkvs2" "check_ledger_head hkvs2 c (ls_revision s2) i2 = Inr ()"
    "check_history_names (ld_history ?d) (ls_revision s2) = Inr files2"
    by (rule read_ledger_dir_Inr [OF again]) blast
  have rev: "ls_revision (appended e kvs s i active) = ls_revision s + 1" by (simp add: appended_def next_ledger_def)
  let ?name = "history_name (nat (ls_revision s + 1))"
  obtain sd hd' where w: "ws = [LW_Event ?name event, LW_State sd, LW_Head hd']" "map_of files ?name = None"
    "sd = signed_doc key (ledger_fields c (appended e kvs s i active))" "good_key key"
    using ws by (auto simp: append_writes_Inr rev)
  have k': "k = 1 \<or> k = Suc 1" using k by auto
  have same_head: "head2 = head" using q(2) p(2) k' by (auto simp: w(1))
  have "ls_revision s2 = ls_revision s"
  proof -
    have "same_json (JObj hkvs) (JObj (ledger_head_fields c (ls_revision s) i))"
      "same_json (JObj hkvs) (JObj (ledger_head_fields c (ls_revision s2) i2))"
      using p(5,6) q(5,6) by (auto simp: same_head check_ledger_head_def split: if_splits)
    from this [THEN same_json_member, of "''revision''"] show ?thesis by (simp add: ledger_head_fields_def)
  qed
  moreover have "ls_revision s2 = (if k = 1 then ls_revision s else ls_revision s + 1)"
  proof (cases "k = 1")
    case True
    then have "state2 = state" using q(1) p(1) by (simp add: w(1))
    then show ?thesis using True p(3,4) q(3,4) by simp
  next
    case False
    then have "state2 = sd" using q(1) k' by (simp add: w(1))
    then have "kvs2 = ledger_fields c (appended e kvs s i active)" using q(3) by (simp add: w(3,4))
    then show ?thesis using False validate_ledger_Inr(3) [OF q(4)] by (simp add: ledger_fields_lookup rev)
  qed
  ultimately have one: "k = 1" "ls_revision s2 = ls_revision s" by (auto split: if_splits)
  note h = check_history_names_Inr [OF p(7)]
  have "files2 = files @ [(?name, CF_Json event)]"
    using check_history_names_Inr(1) [OF q(7)] one(1) by (simp add: w(1) h(1))
  then have "?name \<in> set (map fst files2)" by simp
  then have "?name \<in> set (map fst files)"
    unfolding check_history_names_Inr(2) [OF q(7)] h(2) one(2) .
  with w(2) show False by (simp add: map_of_eq_None_iff)
qed

section \<open>Recording in the control directory\<close>

lemma read_ledger_Inr:
  "read_ledger root c key = Inr x \<longleftrightarrow> \<not> cr_link root \<and> \<not> cr_revocations_link root
     \<and> (\<exists>d. cr_ledgers root (binding_identity c) = Some d \<and> read_ledger_dir d c key = Inr x)"
  by (auto simp: read_ledger_def ledger_directory_def bind_res_Inr_iff split: option.splits)

lemma write_ledgers:
  "write_all (map (CW_Ledger c) ws) root = root\<lparr>cr_ledgers := (cr_ledgers root)
     (binding_identity c := map_option (fold write_ledger ws) (cr_ledgers root (binding_identity c)))\<rparr>"
proof (induction ws arbitrary: root)
  case Nil
  show ?case by (cases root; cases "cr_ledgers root (binding_identity c)") (simp_all add: write_all_def fun_upd_idem)
next
  case (Cons w ws)
  have "write_all (map (CW_Ledger c) (w # ws)) root = write_all (map (CW_Ledger c) ws) (write_root_ledger c w root)"
    by (simp add: write_all_def)
  then show ?case
    by (simp only: Cons.IH) (cases "cr_ledgers root (binding_identity c)"; simp add: write_root_ledger_def cong: if_cong)
qed

lemma record_event_Inr:
  assumes "record_event root event key now False = Inr (st, False, c, ws)"
  obtains kvs e s i files active where "verify_signed Revocation_Error event key = Inr kvs"
    "validate_event kvs c now = Inr e" "read_ledger root c key = Inr (s, i, files)"
    "find_event files key (le_event_id e) kvs = Inr False" "check_append e s i = Inr ()"
    "next_categories e (ls_categories s) = Inr active"
    "append_writes event c (appended e kvs s i active) files key = Inr ws"
    "st = status_of_ledger c (appended e kvs s i active)
            (payload_identity (JObj (ledger_fields c (appended e kvs s i active))))"
  using assms
  by (auto simp: record_event_def bind_res_Inr_iff Let_def validate_status_def appended_def simp del: guards.simps split: if_splits)

lemma read_ledger_wf:
  assumes "read_ledger root c key = Inr (s, i, files)"
  shows "wf_ledger s" and "matches_sha256 i"
proof -
  obtain d where d: "read_ledger_dir d c key = Inr (s, i, files)" using assms read_ledger_Inr by blast
  show "wf_ledger s" by (rule read_ledger_dir_Inr [OF d])
  show "matches_sha256 i"
  proof (rule read_ledger_dir_Inr [OF d])
    fix kvs assume "i = payload_identity (JObj kvs)"
    then show ?thesis by simp
  qed
qed

lemma record_event_accepted:
  assumes "read_ledger root c key = Inr (s, i, files)" and "verify_signed Revocation_Error event key = Inr kvs"
    and "validate_event kvs c now = Inr e" and "find_event files key (le_event_id e) kvs = Inr False"
    and "check_append e s i = Inr ()" and "next_categories e (ls_categories s) = Inr active"
    and "map_of files (history_name (nat (ls_revision s + 1))) = None"
  obtains ws where "record_event root event key now True = Inr (status_of_ledger c s i, False, c, [])"
    "record_event root event key now False = Inr (status_of_ledger c (appended e kvs s i active)
       (payload_identity (JObj (ledger_fields c (appended e kvs s i active)))), False, c, ws)"
    "append_writes event c (appended e kvs s i active) files key = Inr ws"
proof -
  have "ls_revision (appended e kvs s i active) = ls_revision s + 1" by (simp add: appended_def next_ledger_def)
  then obtain ws where ws: "append_writes event c (appended e kvs s i active) files key = Inr ws"
    using assms(7) verify_signed_key [OF assms(2)] by (simp add: append_writes_Inr)
  note wf = read_ledger_wf [OF assms(1)]
  have "wf_ledger (appended e kvs s i active)"
    unfolding appended_def by (rule wf_next_ledger [OF assms(3) wf(1) assms(6)]) (simp_all add: wf(2))
  then show thesis
    using that [OF _ _ ws] ws assms wf validate_event_Inr(11) [OF assms(3)]
    by (simp add: record_event_def status_of_ledger_valid Let_def flip: appended_def)
qed

lemma ledger_status_at_Inr:
  "ledger_status_at root c key = Inr st \<longleftrightarrow>
     (\<exists>s i files. read_ledger root c key = Inr (s, i, files) \<and> st = status_of_ledger c s i)"
proof (cases "read_ledger root c key")
  case (Inr x)
  obtain s i files where x: "x = (s, i, files)" by (cases x) auto
  show ?thesis
    using status_of_ledger_valid [OF read_ledger_wf [OF Inr [unfolded x]]]
    by (auto simp: ledger_status_at_def Inr x)
qed (simp add: ledger_status_at_def)

section \<open>After a recorded event\<close>

lemma valid_utc_max: "valid_utc t \<Longrightarrow> t \<le> utc_max"
proof (cases t)
  case (UTC y mo d h mi sec us)
  assume "valid_utc t"
  moreover have "days_in_month y mo \<le> 31" by (simp add: days_in_month_def)
  ultimately show ?thesis
    by (auto simp: UTC utc_max_def less_eq_utc_def Cons_le_Cons)
qed

lemma recorded_ledger:
  assumes "record_event root event key now False = Inr (st, False, c, ws)" and "valid_utc now"
  obtains kvs e s i files active where "verify_signed Revocation_Error event key = Inr kvs"
    "validate_event kvs c now = Inr e" "read_ledger root c key = Inr (s, i, files)" "wf_ledger s"
    "find_event files key (le_event_id e) kvs = Inr False" "next_categories e (ls_categories s) = Inr active"
    "st = status_of_ledger c (appended e kvs s i active) (payload_identity (JObj (ledger_fields c (appended e kvs s i active))))"
    "read_ledger (write_all (map (CW_Ledger c) ws) root) c key
       = Inr (appended e kvs s i active, payload_identity (JObj (ledger_fields c (appended e kvs s i active))),
              files @ [(history_name (nat (ls_revision s + 1)), CF_Json event)])"
    "\<And>k x. k = 1 \<or> k = 2 \<Longrightarrow> read_ledger (write_all (map (CW_Ledger c) (take k ws)) root) c key \<noteq> Inr x"
    "length ws = 3"
proof (rule record_event_Inr [OF assms(1)])
  fix kvs e s i files active
  assume a: "verify_signed Revocation_Error event key = Inr kvs" "validate_event kvs c now = Inr e"
    "read_ledger root c key = Inr (s, i, files)" "find_event files key (le_event_id e) kvs = Inr False"
    "check_append e s i = Inr ()" "next_categories e (ls_categories s) = Inr active"
    "append_writes event c (appended e kvs s i active) files key = Inr ws"
    "st = status_of_ledger c (appended e kvs s i active) (payload_identity (JObj (ledger_fields c (appended e kvs s i active))))"
  have links: "\<not> cr_link root" "\<not> cr_revocations_link root" using a(3) by (auto simp: read_ledger_Inr)
  obtain d where d: "cr_ledgers root (binding_identity c) = Some d" "read_ledger_dir d c key = Inr (s, i, files)"
    using a(3) read_ledger_Inr by blast
  have same: "read_ledger (write_all (map (CW_Ledger c) vs) root) c key = read_ledger_dir (fold write_ledger vs d) c key" for vs
    using d(1) links by (simp add: write_ledgers read_ledger_def ledger_directory_def)
  show thesis
    using that [OF a(1-3) read_ledger_wf(1) [OF a(3)] a(4,6,8)]
      ledger_appended(1) [OF d(2) a(2) valid_utc_max [OF assms(2)] a(1,5-7)] ledger_crashed [OF d(2) a(7)] a(7)
    unfolding same append_writes_Inr by auto
qed

lemma find_event_appended:
  assumes "find_event files key event_id kvs = Inr False" and "verify_signed Revocation_Error event key = Inr kvs"
    and "field_or JNull ''event_id'' kvs = JStr event_id"
  shows "find_event (files @ [(history_name n, CF_Json event)]) key event_id kvs = Inr True"
  using assms
  by (induction files key event_id kvs rule: find_event.induct)
     (auto simp: ends_with_history_name bind_res_Inr_iff split: option.splits if_splits)

lemma other_ledgers:
  "binding_identity b \<noteq> binding_identity c \<Longrightarrow>
   ledger_status_at (write_all (map (CW_Ledger c) ws) root) b key = ledger_status_at root b key"
  by (simp add: ledger_status_at_def read_ledger_def ledger_directory_def write_ledgers)

section \<open>A new ledger\<close>

lemma reason_strings: "matches_name ''deployment_authority''" "matches_name ''initial''"
  by (simp_all add: matches_name_def char_defs)

lemma wf_initial_ledger: "valid_utc now \<Longrightarrow> wf_ledger (initial_ledger now)"
  using time_round_trip [of now Revocation_Error] reason_strings
  by (simp add: wf_ledger_def initial_ledger_def rising_def)

lemma new_ledger_read:
  assumes "new_ledger c key now = Inr d" and "valid_utc now" and "wf_binding c"
  shows "read_ledger_dir d c key
    = Inr (initial_ledger now, payload_identity (JObj (ledger_fields c (initial_ledger now))), [])"
proof -
  let ?s = "initial_ledger now"
  let ?i = "payload_identity (JObj (ledger_fields c ?s))"
  obtain key: "good_key key" and d: "d = \<lparr>ld_link = False, ld_state = CF_Json (signed_doc key (ledger_fields c ?s)),
      ld_head = CF_Json (signed_doc key (ledger_head_fields c 0 ?i)),
      ld_genesis = CF_Json (signed_doc key (ledger_fields c ?s)), ld_history = CH_Files []\<rparr>"
    using assms(1) by (auto simp: new_ledger_def Let_def bind_res_Inr_iff signed_Inr_iff)
  have signed_read: "verify_signed Revocation_Error (signed_doc key x) key = Inr x" for x using key by simp
  have valid: "validate_ledger (ledger_fields c ?s) c = Inr ?s"
    by (rule validate_ledger_fields [OF wf_initial_ledger [OF assms(2)] assms(3)])
  have zero: "ls_revision ?s = 0" by (simp add: initial_ledger_def)
  have head: "check_ledger_head (ledger_head_fields c 0 ?i) c 0 ?i = Inr ()"
    by (simp add: check_ledger_head_def ledger_head_keys) (simp add: ledger_head_fields_def field_or_def)
  show ?thesis
    by (rule read_ledger_dirI [where genesis = "ledger_fields c ?s" and r = "genesis_replay (ledger_fields c ?s)",
          OF _ _ _ signed_read valid signed_read refl zero [symmetric] head])
       (simp_all add: d check_history_names_def read_genesis_def key valid zero genesis_replay_def)
qed

end
