(* ===== verification/Rollout_Samples.thy ===== *)
theory Rollout_Samples
  imports Rollout_Runs Ledger_Laws
begin

text \<open>
  A signed policy, an initialized control directory and commands on it, for the witnesses; and the
  law that a signed command for the current policy and revision is accepted when its action applies.
\<close>

section \<open>Accepted commands\<close>

lemma history_name_inject: "history_name m = history_name n \<longleftrightarrow> m = n"
  using decimal_val_pad_nat by (auto simp: history_name_def dest: arg_cong [where f = decimal_val])

lemma next_name_free:
  assumes "verify_history history key pol revision raw = Inr ()" and "1 \<le> revision"
  obtains files where "history = CH_Files files" "map_of files (history_name (nat (revision + 1))) = None"
proof (rule verify_history_Inr [OF assms(1)])
  fix files
  assume h: "history = CH_Files files" "set (map fst files) = set (map history_name [1..<nat revision + 1])"
  have "nat (revision + 1) \<notin> set [1..<nat revision + 1]" using assms(2) by (simp add: nat_add_distrib del: upt_Suc)
  then have "history_name (nat (revision + 1)) \<notin> history_name ` set [1..<nat revision + 1]"
    by (metis (mono_tags, lifting) history_name_inject imageE)
  moreover have "fst ` set files = history_name ` set [1..<nat revision + 1]" using h(2) unfolding set_map .
  ultimately have "history_name (nat (revision + 1)) \<notin> fst ` set files" by blast
  then show thesis using that h(1) by (simp add: map_of_eq_None_iff)
qed

definition command_fields :: "string \<Rightarrow> int \<Rightarrow> string \<Rightarrow> string \<Rightarrow> string \<Rightarrow> json \<Rightarrow> json \<Rightarrow> (string \<times> json) list" where
  "command_fields pol expected action tid actor target requested = [
     (''schema_version'', JStr ''1.0''), (''policy_identity'', JStr pol), (''expected_revision'', JInt expected),
     (''action'', JStr action), (''transition_id'', JStr tid), (''actor_ref'', JStr actor),
     (''target_stage'', target), (''target_candidate_binding'', requested)]"

lemma command_fields_lookup:
  "keys_of (command_fields pol expected action tid actor target requested) = command_names"
  "field_or d ''schema_version'' (command_fields pol expected action tid actor target requested) = JStr ''1.0''"
  "field_or d ''policy_identity'' (command_fields pol expected action tid actor target requested) = JStr pol"
  "field_or d ''expected_revision'' (command_fields pol expected action tid actor target requested) = JInt expected"
  "field_or d ''action'' (command_fields pol expected action tid actor target requested) = JStr action"
  "field_or d ''transition_id'' (command_fields pol expected action tid actor target requested) = JStr tid"
  "field_or d ''actor_ref'' (command_fields pol expected action tid actor target requested) = JStr actor"
  "field_or d ''target_stage'' (command_fields pol expected action tid actor target requested) = target"
  "field_or d ''target_candidate_binding'' (command_fields pol expected action tid actor target requested) = requested"
  by (auto simp: command_fields_def keys_of_def command_names_def field_or_def)

lemma build_command_doc:
  "build_command pol expected action tid actor target requested key = Inr command \<longleftrightarrow>
     good_key key \<and> command = signed_doc key (command_fields pol expected action tid actor (json_opt_str target)
       (case requested of None \<Rightarrow> JNull | Some b \<Rightarrow> binding_as_dict b))"
  by (simp add: build_command_def signed_Inr_iff command_fields_def)

text \<open>A command for the current policy and revision, other than a restore, whose action applies.\<close>

lemma command_accepted:
  assumes here: "current_rollout root key now = Inr (p, pol, s, raw)" and "\<not> cr_link root"
    and inv: "candidate_authorized p (ro_candidate s)" "ro_cohorts s = cohorts_at p (ro_stage s)"
    and c: "command = signed_doc key (command_fields pol (ro_revision s) action tid actor target requested)"
    and names: "matches_name tid" "matches_name actor"
    and nxt: "next_rollout p s (JStr action) target requested = Inr (b, stg, cohorts)" "map_of action_values action = Some a"
      "action \<noteq> ''RESTORE_CANDIDATE''"
    and safe: "command_target requested = Inr goal"
      "map_res (check_not_revoked root key None) (protected_candidates (JStr action) s goal) = Inr us"
  obtains s' head where "ro_stage s' = stg" "ro_candidate s' = b"
    "transition_writes root command key now None
       = Inr (pol, signed_doc key (state_fields s'), head, ro_revision s + 1)"
    "rollout_transition root command key now None
       = (rollout_writes (signed_doc key (state_fields s')) head (ro_revision s + 1), Inr (ro_revision s + 1))"
proof -
  obtain policy state head where docs: "cr_policy root = CF_Json policy" "cr_state root = CF_Json state" "cr_head root = CF_Json head"
    "policy_payload policy key now = Inr (p, pol)" "state_payload state key pol head = Inr (s, raw)"
    "verify_history (cr_history root) key pol (ro_revision s) raw = Inr ()"
    using here by (auto simp: current_rollout_Inr)
  have key: "good_key key" by (rule policy_payload_wf(3) [OF docs(4)])
  have rev: "1 \<le> ro_revision s" using state_payload_Inr(1) [OF docs(5)] by (simp add: wf_rollout_def)
  obtain files where files: "cr_history root = CH_Files files" "map_of files (history_name (nat (ro_revision s + 1))) = None"
    by (rule next_name_free [OF docs(6) rev])
  let ?s = "\<lparr>ro_policy_identity = pol, ro_revision = ro_revision s + 1, ro_previous = Some (state_identity raw),
     ro_candidate = b, ro_actor = actor, ro_time = time_text now, ro_stage = stg, ro_enabled = (stg \<noteq> DISABLED),
     ro_cohorts = cohorts, ro_transition_id = tid, ro_action = a\<rparr>"
  have "apply_transition policy state head command key now = Inr (signed_doc key (state_fields ?s),
      signed_doc key (head_fields (ro_revision s + 1) (state_identity (state_fields ?s))))"
    using inv key names nxt
    by (simp add: apply_transition_def docs(4,5) c command_fields_lookup name_of_def
        Let_def signed_doc [OF key] head_for_def flip: head_fields_def)
  moreover have "transition_checks root command key now None = Inr ((policy, state, head), p, pol, JStr action)"
    using key assms(2) safe
    by (simp add: transition_checks_def docs verified_rollout_def c command_fields_lookup)
  ultimately have "transition_writes root command key now None = Inr (pol, signed_doc key (state_fields ?s),
      signed_doc key (head_fields (ro_revision s + 1) (state_identity (state_fields ?s))), ro_revision s + 1)"
    using key files nxt(3) by (simp add: transition_writes_def check_restored_def state_fields_lookup Let_def)
  then show thesis by (intro that [of ?s]) (simp_all add: rollout_transition_def)
qed

lemma disable_accepted:
  assumes "current_rollout root key now = Inr (p, pol, s, raw)" and "\<not> cr_link root"
    and "candidate_authorized p (ro_candidate s)" "ro_cohorts s = cohorts_at p (ro_stage s)"
    and "build_command pol (ro_revision s) ''DISABLE'' tid actor None None key = Inr command"
    and "matches_name tid" "matches_name actor"
  obtains s' head where "ro_stage s' = DISABLED" "ro_candidate s' = ro_candidate s"
    "transition_writes root command key now None
       = Inr (pol, signed_doc key (state_fields s'), head, ro_revision s + 1)"
    "rollout_transition root command key now None
       = (rollout_writes (signed_doc key (state_fields s')) head (ro_revision s + 1), Inr (ro_revision s + 1))"
proof -
  have c: "command = signed_doc key (command_fields pol (ro_revision s) ''DISABLE'' tid actor JNull JNull)"
    using assms(5) by (simp add: build_command_doc json_opt_str_def)
  show thesis
    by (rule command_accepted [OF assms(1-4) c assms(6,7), where b = "ro_candidate s" and stg = DISABLED and a = DISABLE])
       (use that in \<open>auto simp: next_rollout_def action_values_def command_target_def protected_candidates_def\<close>)
qed

lemma state_fields_point:
  "signed_doc key (state_fields a) = signed_doc key (state_fields b) \<Longrightarrow> point a = point b"
  by (auto simp: signed_doc_def state_fields_def binding_as_dict_def binding.equality)

section \<open>A sample\<close>

definition sample_key :: string where
  "sample_key = replicate 32 (CHR ''k'')"

definition sample_primary :: binding where
  "sample_primary = \<lparr>cb_subject = replicate 40 (CHR ''a''), cb_fingerprint = replicate 64 (CHR ''b''),
     cb_environment = replicate 64 (CHR ''c'')\<rparr>"

definition sample_day :: "nat \<Rightarrow> utc" where
  "sample_day d = UTC 2025 6 d 12 0 0 0"

definition sample_policy_fields :: "(string \<times> json) list" where
  "sample_policy_fields = [
     (''schema_version'', JStr ''1.0''), (''policy_id'', JStr ''policy''), (''policy_version'', JStr ''1.0''),
     (''policy_revision'', JInt 1), (''issued_at'', JStr (time_text (sample_day 1))),
     (''expires_at'', JStr (time_text (sample_day 28))), (''candidate_binding'', binding_as_dict sample_primary),
     (''rollback_target_binding'', JNull),
     (''stage_cohorts'', JObj [
        (''NAMED_COHORT'', JArr [JStr ''a'']), (''PILOT'', JArr [JStr ''a'', JStr ''b'']),
        (''CANARY'', JArr [JStr ''a'', JStr ''b'', JStr ''c'']),
        (''PHASED'', JArr [JStr ''a'', JStr ''b'', JStr ''c'', JStr ''d'']),
        (''FULL'', JArr [JStr ''a'', JStr ''b'', JStr ''c'', JStr ''d'', JStr ''e''])]),
     (''rollback_rule'', JStr rollback_rule)]"

definition sample_policy :: rollout_policy where
  "sample_policy = \<lparr>rp_policy_id = ''policy'', rp_revision = 1, rp_candidate = sample_primary, rp_rollback = None,
     rp_cohorts = [(NAMED_COHORT, [''a'']), (PILOT, [''a'', ''b'']), (CANARY, [''a'', ''b'', ''c'']),
       (PHASED, [''a'', ''b'', ''c'', ''d'']), (FULL, [''a'', ''b'', ''c'', ''d'', ''e''])]\<rparr>"

abbreviation sample_policy_id :: string where
  "sample_policy_id \<equiv> payload_identity (JObj sample_policy_fields)"

abbreviation sample_signed :: json where
  "sample_signed \<equiv> signed_doc sample_key sample_policy_fields"

lemma sample_key: "good_key sample_key"
  by (simp add: good_key_def sample_key_def)

lemma sample_day_valid: "1 \<le> d \<Longrightarrow> d \<le> 30 \<Longrightarrow> valid_utc (sample_day d)"
  by (simp add: sample_day_def days_in_month_def)

lemma sample_day_order: "sample_day d \<le> sample_day d' \<longleftrightarrow> d \<le> d'" "sample_day d < sample_day d' \<longleftrightarrow> d < d'"
  by (auto simp: sample_day_def less_eq_utc_def less_utc_def)

lemma wf_sample_primary: "wf_binding sample_primary"
  by (simp add: wf_binding_def binding_post_init_def sample_primary_def matches_sha40_def matches_sha256_def list_all_iff
      is_hex_char_def is_digit_char_def is_lower_char_def code_of_def)

lemma sample_policy_read:
  assumes "1 \<le> d" and "d < 28"
  shows "policy_payload sample_signed sample_key (sample_day d) = Inr (sample_policy, sample_policy_id)"
proof -
  have keys: "keys_of sample_policy_fields = policy_names"
    by (auto simp: keys_of_def sample_policy_fields_def policy_names_def)
  have valid: "check_validity (JStr (time_text (sample_day 1))) (JStr (time_text (sample_day 28))) (sample_day d) = Inr ()"
    using assms by (simp add: check_validity_def time_round_trip sample_day_valid sample_day_order)
  have name: "matches_name ''policy''" "\<And>c. c \<in> set ''abcde'' \<Longrightarrow> matches_name [c]"
    by (auto simp: matches_name_def char_defs)
  have stages: "stage_cohorts_of (field_or JNull ''stage_cohorts'' sample_policy_fields) = Inr (rp_cohorts sample_policy)"
    using name(2) by (simp add: sample_policy_fields_def field_or_def stage_cohorts_of_def keys_of_def stage_values_def
        stage_order_def stage_names_of_def name_of_def rising_def str_less_def code_of_def sample_policy_def
        subset_not_subset_eq)
  show ?thesis
    using name(1) valid stages wf_sample_primary
    by (simp add: policy_payload_def sample_key keys)
       (simp add: sample_policy_fields_def field_or_def name_of_def int_from_def rollback_target_of_def sample_policy_def)
qed

text \<open>A directory without rollout documents and without ledgers.\<close>

definition empty_root :: control_root where
  "empty_root = \<lparr>cr_link = False, cr_revocations_link = False, cr_policy = CF_Missing, cr_state = CF_Missing,
     cr_head = CF_Missing, cr_history = CH_Missing, cr_ledgers = (\<lambda>_. None)\<rparr>"

lemma sample_initialized: "\<exists>root. initialize_rollout empty_root sample_signed sample_key (sample_day 10) = Inr root"
proof -
  have "initial_state sample_signed sample_key (sample_day 10)
      = Inr (signed_doc sample_key (state_fields (first_state sample_policy sample_policy_id (sample_day 10))))"
    by (simp add: initial_state_def sample_policy_read signed_doc [OF sample_key] first_state_def)
  then show ?thesis
    by (simp add: initialize_rollout_def empty_root_def rollout_initialized_def sample_policy_read by_identity_def
        sample_policy_def ledger_directory_def new_ledger_def signed_doc [OF sample_key] head_for_def sample_key Let_def)
qed

abbreviation sample_first :: rollout_state where
  "sample_first \<equiv> first_state sample_policy sample_policy_id (sample_day 10)"

lemma sample_started:
  obtains root raw where "initialize_rollout empty_root sample_signed sample_key (sample_day 10) = Inr root"
    "\<not> cr_link root" "\<And>d. 1 \<le> d \<Longrightarrow> d < 28 \<Longrightarrow>
       current_rollout root sample_key (sample_day d) = Inr (sample_policy, sample_policy_id, sample_first, raw)"
proof -
  obtain root where root: "initialize_rollout empty_root sample_signed sample_key (sample_day 10) = Inr root"
    using sample_initialized by blast
  have "\<not> cr_link root"
    using root initialize_ledgers_keep
    by (fastforce simp: initialize_rollout_def bind_res_Inr_iff empty_root_def split: if_splits)
  moreover obtain p pol where "policy_payload sample_signed sample_key (sample_day 10) = Inr (p, pol)"
    "holds_rollout root sample_key sample_signed p pol (first_state p pol (sample_day 10))"
    by (rule initialized_rollout [OF root sample_day_valid]) simp_all
  ultimately show thesis
    using that [OF root] sample_policy_read by (auto simp: holds_rollout_def sample_policy_read)
qed

lemma sample_names: "matches_name ''emergency''" "matches_name ''operator''"
  by (simp_all add: matches_name_def char_defs)

lemma sample_first_ok:
  "candidate_authorized sample_policy (ro_candidate sample_first)" "ro_cohorts sample_first = cohorts_at sample_policy (ro_stage sample_first)"
  "ro_revision sample_first = 1" "time_of Rollout_Error (JStr (ro_time sample_first)) = Inr (sample_day 10)"
  using time_round_trip [OF sample_day_valid [of 10]]
  by (simp_all add: first_state_def candidate_authorized_def cohorts_at_def sample_policy_def)

abbreviation sample_disable :: json where
  "sample_disable \<equiv> signed_doc sample_key (command_fields sample_policy_id 1 ''DISABLE'' ''emergency'' ''operator'' JNull JNull)"

lemma sample_disable: "build_command sample_policy_id 1 ''DISABLE'' ''emergency'' ''operator'' None None sample_key = Inr sample_disable"
  by (simp add: build_command_doc sample_key json_opt_str_def)

end
