(* ===== verification/Rollout_Properties.thy ===== *)
theory Rollout_Properties
  imports Rollout_Samples
begin

text \<open>
  What a rollout directory guarantees: its states follow the abstract machine, a command applies at
  most once, it can always be disabled, and it admits nothing from a half-written or revoked state.
\<close>

section \<open>The abstract machine\<close>

text \<open>
  C15: From the initialization of a rollout on, whatever commands come in and with whatever recovery
  events, at clock readings that do not go back: as long as the policy is valid the directory reads
  as a state that the abstract machine reaches in exactly (revision - 1) steps from the disabled
  primary candidate, with a candidate of the policy, exactly the stage's cohorts and admissions open
  exactly outside DISABLED.
\<close>
theorem rollouts_follow_the_machine:
  assumes "initialize_rollout start_root policy key start = Inr root" and "valid_utc start"
    and "sorted (start # map (\<lambda>c. fst (snd c)) cmds)" and "list_all (\<lambda>c. valid_utc (fst (snd c))) cmds"
    and "policy_payload policy key now = Inr (p, pol)"
  shows "\<exists>s raw. current_rollout (run_commands root key cmds) key now = Inr (p, pol, s, raw)
     \<and> (rollout_step p ^^ nat (ro_revision s - 1)) (rp_candidate p, DISABLED) (ro_candidate s, ro_stage s)
     \<and> candidate_authorized p (ro_candidate s) \<and> ro_cohorts s = cohorts_at p (ro_stage s)
     \<and> (ro_enabled s \<longleftrightarrow> ro_stage s \<noteq> DISABLED)"
proof -
  obtain p0 pol0 where first: "policy_payload policy key start = Inr (p0, pol0)"
    "holds_rollout root key policy p0 pol0 (first_state p0 pol0 start)"
    by (rule initialized_rollout [OF assms(1,2)])
  then have same: "p0 = p" "pol0 = pol" using policy_payload_same [OF first(1) assms(5)] by simp_all
  have "time_of Rollout_Error (JStr (ro_time (first_state p pol start))) = Inr start"
    using time_round_trip [OF assms(2)] by (simp add: first_state_def)
  then obtain s where s: "holds_rollout (run_commands root key cmds) key policy p pol s" "rollout_trace p s"
    using holds_rollout_run [OF first(2) [unfolded same] rollout_trace_first [OF policy_payload_wf(1) [OF assms(5)]] _ assms(3,4)]
    by blast
  then obtain raw where raw: "current_rollout (run_commands root key cmds) key now = Inr (p, pol, s, raw)"
    using assms(5) by (auto simp: holds_rollout_def)
  then have "ro_enabled s \<longleftrightarrow> ro_stage s \<noteq> DISABLED"
    using state_payload_Inr(1) by (auto simp: current_rollout_Inr wf_rollout_def)
  with raw s(2) rollout_steps_authorized [where p = p] show ?thesis by (auto simp: rollout_trace_def)
qed

lemma rollouts_follow_the_machine_witness:
  "\<exists>root s raw. initialize_rollout empty_root sample_signed sample_key (sample_day 10) = Inr root
     \<and> current_rollout (run_commands root sample_key [(JNull, sample_day 11, None), (JNull, sample_day 12, Some JNull)])
         sample_key (sample_day 13) = Inr (sample_policy, sample_policy_id, s, raw)
     \<and> candidate_authorized sample_policy (ro_candidate s)"
proof -
  obtain root where root: "initialize_rollout empty_root sample_signed sample_key (sample_day 10) = Inr root"
    using sample_initialized by blast
  have "\<exists>s raw. current_rollout (run_commands root sample_key [(JNull, sample_day 11, None), (JNull, sample_day 12, Some JNull)])
         sample_key (sample_day 13) = Inr (sample_policy, sample_policy_id, s, raw)
     \<and> (rollout_step sample_policy ^^ nat (ro_revision s - 1)) (rp_candidate sample_policy, DISABLED) (ro_candidate s, ro_stage s)
     \<and> candidate_authorized sample_policy (ro_candidate s) \<and> ro_cohorts s = cohorts_at sample_policy (ro_stage s)
     \<and> (ro_enabled s \<longleftrightarrow> ro_stage s \<noteq> DISABLED)"
    by (rule rollouts_follow_the_machine [OF root])
       (simp_all add: sample_day_valid sample_day_order sample_policy_read)
  with root show ?thesis by blast
qed

section \<open>Commands\<close>





text \<open>
  C16: A process that stops after the first or the second of the three writes of a transition leaves
  a directory from which nothing is admitted and on which no command is accepted, whatever is asked
  later: the rollout stays closed until it is repaired from outside.
\<close>
theorem interrupted_transition_fails_closed:
  assumes "rollout_transition root command key now None = (writes, Inr r)" and "valid_utc now" and "k = 1 \<or> k = 2"
  shows "(\<exists>e. reference_admit (write_all (take k writes) root) \<lparr>rc_key = key, rc_cohort = cohort, rc_now = later\<rparr> candidate = Inl e)
     \<and> (\<exists>e. rollout_transition (write_all (take k writes) root) command' key later recovery = ([], Inl e))"
proof -
  obtain pol' st' hd' where w: "transition_writes root command key now None = Inr (pol', st', hd', r)"
    "writes = rollout_writes st' hd' r"
    by (rule transition_accepted [OF assms(1)])
  have "current_rollout (write_all (take k writes) root) key later \<noteq> Inr x" for later x
    unfolding w(2) by (rule rollout_after_crash [OF w(1) assms(2,3)])
  then show ?thesis by (blast intro: no_admission no_transition)
qed

lemma interrupted_transition_fails_closed_witness:
  "\<exists>root writes e. rollout_transition root sample_disable sample_key (sample_day 11) None = (writes, Inr 2)
     \<and> rollout_transition (write_all (take 1 writes) root) sample_disable sample_key (sample_day 12) None = ([], Inl e)"
proof -
  obtain root raw where root: "\<not> cr_link root"
    "current_rollout root sample_key (sample_day 11) = Inr (sample_policy, sample_policy_id, sample_first, raw)"
    by (rule sample_started) simp
  obtain s' head where "rollout_transition root sample_disable sample_key (sample_day 11) None
       = (rollout_writes (signed_doc sample_key (state_fields s')) head 2, Inr 2)"
    by (rule disable_accepted [OF root(2,1) sample_first_ok(1,2), unfolded sample_first_ok(3), OF sample_disable sample_names])
       (simp only: one_add_one)
  with interrupted_transition_fails_closed [OF this sample_day_valid, of 1 undefined "sample_day 12" undefined sample_disable None]
  show ?thesis by fastforce
qed

text \<open>
  C17: A command is accepted at most once: on the directory it has been applied to, written in full
  or in part, the same command is refused at any later time, with or without a recovery event.
\<close>
theorem commands_are_not_replayed:
  assumes "rollout_transition root command key now None = (writes, Inr r)" and "valid_utc now" and "valid_utc later" and "0 < k"
  shows "\<exists>e. rollout_transition (write_all (take k writes) root) command key later recovery = ([], Inl e)"
proof -
  obtain pol' st' hd' where w: "transition_writes root command key now None = Inr (pol', st', hd', r)"
    "writes = rollout_writes st' hd' r"
    by (rule transition_accepted [OF assms(1)])
  show ?thesis
  proof (cases "k = 1 \<or> k = 2")
    case True
    then show ?thesis unfolding w(2) by (intro no_transition rollout_after_crash [OF w(1) assms(2)])
  next
    case False
    then have all: "take k writes = writes" using assms(4) by (simp add: w(2) rollout_writes_def)
    show ?thesis
    proof (cases rule: transition_cases [of "write_all (take k writes) root" command key later recovery])
      case (written pol2 st2 hd2 r2 b ws res)
      obtain p s raw c t where a: "current_rollout root key now = Inr (p, pol', s, raw)"
        "verify_signed Rollout_Error command key = Inr c"
        "json_int (field_or JNull ''expected_revision'' c) = Some (ro_revision s)"
        by (rule transition_writes_Inr [OF w(1) assms(2)])
      obtain p2 s2 raw2 c2 where b: "current_rollout (write_all writes root) key later = Inr (p2, pol2, s2, raw2)"
        "verify_signed Rollout_Error command key = Inr c2"
        "json_int (field_or JNull ''expected_revision'' c2) = Some (ro_revision s2)"
        by (rule transition_writes_Inr [OF written(1) [unfolded all] assms(3)])
      obtain t where t: "time_of Rollout_Error (JStr (ro_time s)) = Inr t"
        using current_rollout_wf [OF a(1)] by (auto simp: wf_rollout_def)
      have "ro_revision s2 = ro_revision s + 1"
        by (rule rollout_after_writes [OF w(1) assms(2) a(1) t])
           (use b(1) in \<open>auto simp: w(2) bind_res_Inr_iff rollout_successor_def split: if_splits\<close>)
      with a b show ?thesis by simp
    qed (use all in auto)
  qed
qed

lemma commands_are_not_replayed_witness:
  "\<exists>root writes e. rollout_transition root sample_disable sample_key (sample_day 11) None = (writes, Inr 2)
     \<and> rollout_transition (write_all (take 3 writes) root) sample_disable sample_key (sample_day 12) None = ([], Inl e)"
proof -
  obtain root raw where root: "\<not> cr_link root"
    "current_rollout root sample_key (sample_day 11) = Inr (sample_policy, sample_policy_id, sample_first, raw)"
    by (rule sample_started) simp
  obtain s' head where "rollout_transition root sample_disable sample_key (sample_day 11) None
       = (rollout_writes (signed_doc sample_key (state_fields s')) head 2, Inr 2)"
    by (rule disable_accepted [OF root(2,1) sample_first_ok(1,2), unfolded sample_first_ok(3), OF sample_disable sample_names])
       (simp only: one_add_one)
  with commands_are_not_replayed [OF this sample_day_valid sample_day_valid, of 12 3 None]
  show ?thesis by fastforce
qed

end
