(* ===== verification/Revocation_Properties.thy ===== *)
theory Revocation_Properties
  imports Rollout_Samples
begin

text \<open>
  Admission and revocation together: when a candidate is admitted, what a recorded revocation does
  at once and after a crash, and what a recovery leaves.
\<close>

section \<open>A revoked sample\<close>

definition sample_ledger_id :: string where
  "sample_ledger_id = payload_identity (JObj (ledger_fields sample_primary (initial_ledger (sample_day 10))))"

definition sample_event_fields :: "(string \<times> json) list" where
  "sample_event_fields = [
     (''schema_version'', JStr ''1.0''), (''action'', JStr ''REVOKE''),
     (''candidate_binding'', binding_as_dict sample_primary), (''actor_ref'', JStr ''operator''),
     (''authority_ref'', JStr ''security_authority''), (''event_id'', JStr ''incident''),
     (''expected_revision'', JInt 0), (''revision'', JInt 1), (''expected_state_identity'', JStr sample_ledger_id),
     (''previous_event_identity'', JNull), (''occurred_at'', JStr (time_text (sample_day 11))),
     (''reason_categories'', JArr [JStr ''SECURITY_INCIDENT'']),
     (''evidence_reference'', JObj [(''kind'', JStr ''INCIDENT_RECORD''), (''identity'', JStr (replicate 64 (CHR ''e'')))])]"

definition sample_event :: ledger_event where
  "sample_event = \<lparr>le_action = REVOKE, le_actor = ''operator'', le_authority = ''security_authority'',
     le_event_id = ''incident'', le_expected = 0, le_state_identity = sample_ledger_id, le_previous = None,
     le_time = time_text (sample_day 11), le_at = sample_day 11, le_categories = [''SECURITY_INCIDENT'']\<rparr>"

abbreviation sample_revocation :: json where
  "sample_revocation \<equiv> signed_doc sample_key sample_event_fields"

lemma sample_event_names: "matches_name ''security_authority''" "matches_name ''incident''"
  by (simp_all add: matches_name_def char_defs)

lemma sample_evidence: "matches_sha256 (replicate 64 (CHR ''e''))"
  by (simp add: matches_sha256_def list_all_iff char_defs)

lemma sample_event_valid:
  assumes "11 \<le> d" and "d \<le> 30"
  shows "validate_event sample_event_fields sample_primary (sample_day d) = Inr sample_event"
proof -
  have keys: "keys_of sample_event_fields = event_names"
    by (auto simp: keys_of_def sample_event_fields_def event_names_def)
  have evidence: "check_evidence REVOKE (JObj [(''kind'', JStr ''INCIDENT_RECORD''), (''identity'', JStr (replicate 64 (CHR ''e'')))]) = Inr ()"
    using sample_evidence by (auto simp: check_evidence_def keys_of_def field_or_def in_set_def evidence_kinds_def digest_of_def)
  have cats: "category_list (JArr [JStr ''SECURITY_INCIDENT'']) = Inr [''SECURITY_INCIDENT'']"
    by (simp add: category_list_def rising_def reason_categories_def reason_authority_def)
  have id: "matches_sha256 sample_ledger_id" by (simp add: sample_ledger_id_def)
  have time: "time_of Revocation_Error (JStr (time_text (sample_day 11))) = Inr (sample_day 11)"
    by (simp add: time_round_trip sample_day_valid)
  show ?thesis
    using assms evidence cats id time wf_sample_primary sample_names sample_event_names
    unfolding validate_event_def keys
    by (simp add: sample_event_fields_def field_or_def same_candidate_def ledger_action_of_def in_set_def name_of_def
        event_id_of_def int_from_def digest_of_def optional_identity_def sample_day_order check_authority_def
        reason_authority_def sample_event_def)
qed

lemma sample_ledger:
  assumes "initialize_rollout empty_root sample_signed sample_key (sample_day 10) = Inr root"
  shows "read_ledger root sample_primary sample_key = Inr (initial_ledger (sample_day 10), sample_ledger_id, [])"
proof -
  obtain d where d: "new_ledger sample_primary sample_key (sample_day 10) = Inr d"
    "cr_ledgers root (binding_identity sample_primary) = Some d" "\<not> cr_link root" "\<not> cr_revocations_link root"
    using assms
    by (auto simp: initialize_rollout_def bind_res_Inr_iff sample_policy_read by_identity_def empty_root_def
        ledger_directory_def sample_policy_def split: if_splits)
  then show ?thesis
    using new_ledger_read [OF d(1) sample_day_valid wf_sample_primary]
    by (simp add: read_ledger_def ledger_directory_def sample_ledger_id_def)
qed

abbreviation sample_revoked_state :: ledger_state where
  "sample_revoked_state \<equiv> appended sample_event sample_event_fields (initial_ledger (sample_day 10)) sample_ledger_id [''SECURITY_INCIDENT'']"

lemma sample_recorded:
  assumes "initialize_rollout empty_root sample_signed sample_key (sample_day 10) = Inr root"
  obtains st ws where "record_event root sample_revocation sample_key (sample_day 11) False = Inr (st, False, sample_primary, ws)"
    "vs_revoked st"
proof -
  have cas: "check_append sample_event (initial_ledger (sample_day 10)) sample_ledger_id = Inr ()"
    by (simp add: check_append_def sample_event_def initial_ledger_def time_round_trip sample_day_valid sample_day_order)
  have active: "next_categories sample_event (ls_categories (initial_ledger (sample_day 10))) = Inr [''SECURITY_INCIDENT'']"
    by (simp add: next_categories_def sample_event_def initial_ledger_def)
  have doc: "verify_signed Revocation_Error sample_revocation sample_key = Inr sample_event_fields" by (simp add: sample_key)
  have valid: "validate_event sample_event_fields sample_primary (sample_day 11) = Inr sample_event"
    by (rule sample_event_valid) simp_all
  obtain ws where "record_event root sample_revocation sample_key (sample_day 11) False
      = Inr (status_of_ledger sample_primary sample_revoked_state
          (payload_identity (JObj (ledger_fields sample_primary sample_revoked_state))), False, sample_primary, ws)"
    by (rule record_event_accepted [OF sample_ledger [OF assms] doc valid _ cas active]) simp_all
  then show thesis by (rule that) (simp add: status_of_ledger_def appended_def next_ledger_def)
qed

text \<open>The sample rollout opened for its pilot cohorts.\<close>

lemma sample_opened:
  obtains root s raw where "\<not> cr_link root" "ro_stage s = PILOT" "ro_candidate s = sample_primary" "ro_cohorts s = [''a'', ''b'']"
    "current_rollout root sample_key (sample_day 11) = Inr (sample_policy, sample_policy_id, s, raw)"
    "read_ledger root sample_primary sample_key = Inr (initial_ledger (sample_day 10), sample_ledger_id, [])"
proof -
  obtain root raw where root: "initialize_rollout empty_root sample_signed sample_key (sample_day 10) = Inr root" "\<not> cr_link root"
    "current_rollout root sample_key (sample_day 11) = Inr (sample_policy, sample_policy_id, sample_first, raw)"
    by (rule sample_started) simp
  note ledger = sample_ledger [OF root(1)]
  have clear: "check_not_revoked root sample_key None sample_primary = Inr ()"
    using ledger by (auto simp: check_not_revoked_def ledger_status_at_def status_of_ledger_valid [OF wf_initial_ledger]
        sample_day_valid sample_ledger_id_def) (simp add: status_of_ledger_def initial_ledger_def)
  obtain s1 head where open1: "ro_stage s1 = PILOT" "ro_candidate s1 = sample_primary"
    "transition_writes root (signed_doc sample_key (command_fields sample_policy_id 1 ''SET_STAGE'' ''emergency'' ''operator''
       (JStr ''PILOT'') JNull)) sample_key (sample_day 11) None = Inr (sample_policy_id, signed_doc sample_key (state_fields s1), head, 2)"
    by (rule command_accepted [OF root(3,2) sample_first_ok(1,2) _ sample_names, unfolded sample_first_ok(3), OF refl,
          where action = "''SET_STAGE''" and target = "JStr ''PILOT''" and requested = JNull and b = sample_primary and stg = PILOT
            and a = SET_STAGE and goal = None])
       (auto simp: next_rollout_def open_stage_def stage_values_def action_values_def command_target_def
         protected_candidates_def clear first_state_def sample_policy_def)
  show thesis
  proof (rule rollout_after_writes [OF open1(3) sample_day_valid root(3) sample_first_ok(4)])
    fix s'
    assume s': "rollout_successor sample_policy sample_first (state_identity raw) (sample_day 11) s'"
      "signed_doc sample_key (state_fields s1) = signed_doc sample_key (state_fields s')"
      "\<And>now'. current_rollout (write_all (rollout_writes (signed_doc sample_key (state_fields s1)) head 2) root) sample_key now' =
         bind_res (read_document (cr_policy root)) (\<lambda>policy. bind_res (policy_payload policy sample_key now') (\<lambda>_.
           if sample_day 11 < sample_day 10 then Inl Rollout_Error else Inr (sample_policy, sample_policy_id, s', state_fields s')))"
    let ?root = "write_all (rollout_writes (signed_doc sample_key (state_fields s1)) head 2) root"
    have "current_rollout ?root sample_key (sample_day 11) = Inr (sample_policy, sample_policy_id, s', state_fields s')"
      using root(3) by (auto simp: s'(3) sample_day_order current_rollout_Inr)
    moreover have "read_ledger ?root sample_primary sample_key = read_ledger root sample_primary sample_key"
      by (simp add: read_ledger_def ledger_directory_def written_rollout)
    moreover have "ro_stage s' = PILOT" "ro_candidate s' = sample_primary"
      using state_fields_point [OF s'(2)] open1(1,2) by simp_all
    moreover have "ro_cohorts s' = [''a'', ''b'']"
      using s'(1) \<open>ro_stage s' = PILOT\<close> by (simp add: rollout_successor_def cohorts_at_def sample_policy_def)
    moreover have "\<not> cr_link ?root" using root(2) by (simp add: written_rollout)
    ultimately show thesis using that ledger by metis
  qed simp_all
qed

section \<open>Admission\<close>



section \<open>Revocation\<close>



text \<open>
  A recorded event is read back: the ledger then has the status the recording returned, one
  revision further, with exactly the revoked category added or the recovered ones removed; recording
  the same event again at any later time returns that status as a duplicate and writes nothing; and
  the ledgers of other candidates are as before.
\<close>
theorem recorded_event_is_read_back:
  assumes "record_event root event key now False = Inr (st, False, b, ws)" and "valid_utc now" and "now \<le> later"
    and "ledger_status_at root b key = Inr old"
  shows "ledger_status_at (write_all (map (CW_Ledger b) ws) root) b key = Inr st
     \<and> vs_revision st = vs_revision old + 1
     \<and> (\<exists>kvs e. verify_signed Revocation_Error event key = Inr kvs \<and> validate_event kvs b now = Inr e
         \<and> set (vs_categories st) = (case le_action e of
             REVOKE \<Rightarrow> insert (hd (le_categories e)) (set (vs_categories old))
           | RECOVER \<Rightarrow> set (vs_categories old) - set (le_categories e)))
     \<and> record_event (write_all (map (CW_Ledger b) ws) root) event key later False = Inr (st, True, b, [])
     \<and> (\<forall>other. binding_identity other \<noteq> binding_identity b \<longrightarrow>
           ledger_status_at (write_all (map (CW_Ledger b) ws) root) other key = ledger_status_at root other key)"
proof (rule recorded_ledger [OF assms(1,2)])
  fix kvs e s i files active
  let ?root = "write_all (map (CW_Ledger b) ws) root"
  let ?next = "appended e kvs s i active"
  assume ev: "verify_signed Revocation_Error event key = Inr kvs" "validate_event kvs b now = Inr e"
    and before: "read_ledger root b key = Inr (s, i, files)" "wf_ledger s" "find_event files key (le_event_id e) kvs = Inr False"
    and active: "next_categories e (ls_categories s) = Inr active"
    and st: "st = status_of_ledger b ?next (payload_identity (JObj (ledger_fields b ?next)))"
    and after: "read_ledger ?root b key
       = Inr (?next, payload_identity (JObj (ledger_fields b ?next)), files @ [(history_name (nat (ls_revision s + 1)), CF_Json event)])"
  have status: "ledger_status_at ?root b key = Inr st" using after by (auto simp: ledger_status_at_Inr st)
  have old: "old = status_of_ledger b s i" using assms(4) before(1) by (auto simp: ledger_status_at_Inr)
  have rising: "rising (ls_categories s)" using before(2) by (simp add: wf_ledger_def)
  note cats = next_categories_Inr [OF active rising]
  have event: "binding_from_mapping (field_or JNull ''candidate_binding'' kvs) = Inr b" "validate_event kvs b later = Inr e"
    "find_event (files @ [(history_name (nat (ls_revision s + 1)), CF_Json event)]) key (le_event_id e) kvs = Inr True"
    using validate_event_Inr(9-11) [OF ev(2)] assms(3) find_event_appended [OF before(3) ev(1)] by blast+
  have "validate_status st b = Inr st"
    using status_of_ledger_valid [OF read_ledger_wf [OF after]] by (simp add: st)
  then have "record_event ?root event key later False = Inr (st, True, b, [])"
    by (simp add: record_event_def ev(1) event after flip: st)
  moreover have "vs_revision st = vs_revision old + 1"
    "set (vs_categories st) = (case le_action e of
             REVOKE \<Rightarrow> insert (hd (le_categories e)) (set (vs_categories old))
           | RECOVER \<Rightarrow> set (vs_categories old) - set (le_categories e))"
    using cats(2,3) by (auto simp: st old status_of_ledger_def appended_def next_ledger_def split: ledger_action.splits)
  ultimately show ?thesis using status ev other_ledgers by blast
qed

lemma recorded_event_is_read_back_witness:
  "\<exists>root st old ws. ledger_status_at root sample_primary sample_key = Inr old \<and> \<not> vs_revoked old
     \<and> ledger_status_at (write_all (map (CW_Ledger sample_primary) ws) root) sample_primary sample_key = Inr st \<and> vs_revoked st
     \<and> record_event (write_all (map (CW_Ledger sample_primary) ws) root) sample_revocation sample_key (sample_day 12) False
         = Inr (st, True, sample_primary, [])"
proof -
  obtain root where root: "initialize_rollout empty_root sample_signed sample_key (sample_day 10) = Inr root"
    using sample_initialized by blast
  let ?old = "status_of_ledger sample_primary (initial_ledger (sample_day 10)) sample_ledger_id"
  have old: "ledger_status_at root sample_primary sample_key = Inr ?old" "\<not> vs_revoked ?old"
    using sample_ledger [OF root] by (auto simp: ledger_status_at_Inr) (simp add: status_of_ledger_def initial_ledger_def)
  obtain st ws where rec: "record_event root sample_revocation sample_key (sample_day 11) False = Inr (st, False, sample_primary, ws)"
    "vs_revoked st" by (rule sample_recorded [OF root])
  have days: "valid_utc (sample_day 11)" "sample_day 11 \<le> sample_day 12" by (simp_all add: sample_day_valid sample_day_order)
  from recorded_event_is_read_back [OF rec(1) days old(1)] old rec(2) show ?thesis by blast
qed

end
