(* ===== verification/Recovery_Properties.thy ===== *)
theory Recovery_Properties
  imports Revocation_Properties
begin

text \<open>
  The application of a recovery event: the ledger and the rollout move together, and the recovered
  candidate is never left open for admission.
\<close>

section \<open>Reading before and under the lock\<close>

lemma load_snapshot_Inr:
  "load_snapshot root key now = Inr (p, pol, s, raw) \<Longrightarrow> current_rollout root key now = Inr (p, pol, s, raw)"
proof -
  have "read_any f = Inr v \<Longrightarrow> \<not> is_link f \<Longrightarrow> f = CF_Json v" for f v
    by (cases f) (auto simp: read_any_def)
  then show "load_snapshot root key now = Inr (p, pol, s, raw) \<Longrightarrow> current_rollout root key now = Inr (p, pol, s, raw)"
    by (fastforce simp: load_snapshot_def current_rollout_def any_to_revocation_def bind_res_Inr_iff read_document_Inr
        split: if_splits sum.splits)
qed

lemma recover_disabled_Inr:
  assumes "recover_disabled root event c key now = (writes, Inr st)"
  shows "\<exists>p pol s raw. current_rollout (write_all writes root) key now = Inr (p, pol, s, raw)
    \<and> ro_candidate s = rp_candidate p \<and> dormant s"
proof -
  obtain p pol s raw dup b ws where "load_snapshot root key now = Inr (p, pol, s, raw)"
    "ro_candidate s = rp_candidate p" "dormant s" "writes = map (CW_Ledger b) ws"
    using assms by (auto simp: recover_disabled_def split: sum.splits prod.splits if_splits)
  then show ?thesis using load_snapshot_Inr by (auto simp: ledger_writes_keep)
qed

text \<open>An accepted transition with a recovery event restores the primary, disabled.\<close>

lemma recovery_transition_Inr:
  assumes "rollout_transition root command key now (Some event) = (writes, Inr r)" and now: "valid_utc now"
  shows "\<exists>p pol s raw. current_rollout (write_all writes root) key now = Inr (p, pol, s, raw)
    \<and> ro_candidate s = rp_candidate p \<and> dormant s"
proof -
  obtain pol st' hd' r' where w: "transition_writes root command key now (Some event) = Inr (pol, st', hd', r')"
    using assms(1) by (auto simp: rollout_transition_def split: sum.splits)
  let ?root = "write_all (rollout_writes st' hd' r') root"
  obtain ledger where ledger: "record_recovery ?root pol st' hd' event key now = Inr ledger"
    "writes = rollout_writes st' hd' r' @ ledger"
    using assms(1) by (auto simp: rollout_transition_def w Let_def split: sum.splits)
  obtain s raw b ws where done': "state_payload st' key pol hd' = Inr (s, raw)"
    "verify_history (cr_history ?root) key pol (ro_revision s) raw = Inr ()" "ledger = map (CW_Ledger b) ws"
    using ledger(1) by (auto simp: record_recovery_def bind_res_Inr_iff)
  obtain p s0 raw0 s' c target b where t: "current_rollout root key now = Inr (p, pol, s0, raw0)"
    "field_or JNull ''action'' c = JStr (action_name (ro_action s'))" "wf_rollout s'" "st' = signed_doc key (state_fields s')"
    "check_recovery root p s0 c target event key now = Inr b"
    "check_restored (JStr (action_name (ro_action s'))) p (state_fields s') = Inr ()"
    by (rule transition_writes_Inr [OF w now]) blast
  obtain policy where policy: "cr_policy root = CF_Json policy" "policy_payload policy key now = Inr (p, pol)"
    using t(1) by (auto simp: current_rollout_Inr)
  have key: "good_key key" by (rule policy_payload_wf(3) [OF policy(2)])
  then have raw: "raw = state_fields s'" using state_payload_Inr(3) [OF done'(1)] by (simp add: t(4))
  have restore: "action_name (ro_action s') = ''RESTORE_CANDIDATE''"
    using t(2,5) by (auto simp: check_recovery_def bind_res_Inr_iff split: if_splits)
  then have primary: "ro_candidate s' = rp_candidate p"
    using t(3,6) by (auto simp: check_restored_def state_fields_lookup requests_def wf_rollout_def split: if_splits)
  have "s = s'"
    using state_payload_doc [OF t(3) key] done'(1) state_payload_Inr(4-6) [OF done'(1)]
    by (simp add: t(4) raw state_fields_lookup)
  moreover have "dormant s'"
    using t(3) restore by (cases "ro_action s'") (auto simp: dormant_def wf_rollout_def)
  moreover have "current_rollout (write_all writes root) key now = Inr (p, pol, s, raw)"
    unfolding ledger(2) done'(3) write_all_append ledger_writes_keep
    using policy done'(1,2) by (simp add: current_rollout_Inr written_rollout)
  ultimately show ?thesis using primary by blast
qed

lemma apply_recovery_Inr:
  assumes "apply_recovery root others event e c key now = (writes, Inr st)" and now: "valid_utc now"
  shows "\<exists>p pol s raw. current_rollout (write_all writes (others root)) key now = Inr (p, pol, s, raw)
    \<and> ro_candidate s = rp_candidate p \<and> dormant s"
proof -
  consider "recover_disabled (others root) event c key now = (writes, Inr st)"
    | command r where "rollout_transition (others root) command key now (Some event) = (writes, Inr r)"
    using assms(1)
    by (auto simp: apply_recovery_def rollout_to_revocation_def bind_res_Inr_iff Let_def
        split: sum.splits prod.splits if_splits)
  then show ?thesis by cases (use recover_disabled_Inr recovery_transition_Inr [OF _ now] in blast)+
qed

text \<open>
  C22: When a recovery event has been applied, whatever other processes did before the rollout lock
  was held, the directory reads as a rollout whose active candidate is the policy's primary, in
  stage DISABLED with admissions closed and no cohorts: to admit it again takes a further signed
  SET_STAGE command.
\<close>
theorem recovery_leaves_the_rollout_disabled:
  assumes "apply_candidate_event root others event key now = (writes, Inr st)" and "valid_utc now" and "writes \<noteq> []"
    and "verify_signed Revocation_Error event key = Inr kvs" and "field_or JNull ''action'' kvs = JStr ''RECOVER''"
  shows "\<exists>p pol s raw. current_rollout (write_all writes (others root)) key now = Inr (p, pol, s, raw)
     \<and> ro_candidate s = rp_candidate p \<and> ro_stage s = DISABLED \<and> \<not> ro_enabled s \<and> ro_cohorts s = []"
proof -
  obtain e c where e: "binding_from_mapping (field_or JNull ''candidate_binding'' kvs) = Inr c" "validate_event kvs c now = Inr e"
  proof (cases "bind_res (binding_from_mapping (field_or JNull ''candidate_binding'' kvs)) (\<lambda>c. validate_event kvs c now)")
    case (Inl err)
    then show thesis using assms(1) by (auto simp: apply_candidate_event_def assms(4) bind_res_Inl_iff)
  qed (auto simp: bind_res_Inr_iff intro: that)
  have "le_action e = RECOVER"
    using e(2) by (auto simp: validate_event_def assms(5) ledger_action_of_def in_set_def bind_res_Inr_iff split: if_splits)
  then have "apply_recovery root others event e c key now = (writes, Inr st)"
    using assms(1,3) by (auto simp: apply_candidate_event_def assms(4) e split: sum.splits if_splits)
  from apply_recovery_Inr [OF this assms(2)] show ?thesis by (auto simp: dormant_def)
qed

section \<open>A recovered sample\<close>

definition sample_revoked_id :: string where
  "sample_revoked_id = payload_identity (JObj (ledger_fields sample_primary sample_revoked_state))"

definition sample_recovery_fields :: "(string \<times> json) list" where
  "sample_recovery_fields = [
     (''schema_version'', JStr ''1.0''), (''action'', JStr ''RECOVER''),
     (''candidate_binding'', binding_as_dict sample_primary), (''actor_ref'', JStr ''operator''),
     (''authority_ref'', JStr ''qualification_authority''), (''event_id'', JStr ''cleared''),
     (''expected_revision'', JInt 1), (''revision'', JInt 2), (''expected_state_identity'', JStr sample_revoked_id),
     (''previous_event_identity'', JStr (payload_identity (JObj sample_event_fields))),
     (''occurred_at'', JStr (time_text (sample_day 12))),
     (''reason_categories'', JArr [JStr ''SECURITY_INCIDENT'']),
     (''evidence_reference'', JObj [(''kind'', JStr ''REQUALIFICATION_ATTESTATION''),
        (''identity'', JStr (replicate 64 (CHR ''e'')))])]"

definition sample_recovery_event :: ledger_event where
  "sample_recovery_event = \<lparr>le_action = RECOVER, le_actor = ''operator'', le_authority = ''qualification_authority'',
     le_event_id = ''cleared'', le_expected = 1, le_state_identity = sample_revoked_id,
     le_previous = Some (payload_identity (JObj sample_event_fields)),
     le_time = time_text (sample_day 12), le_at = sample_day 12, le_categories = [''SECURITY_INCIDENT'']\<rparr>"

abbreviation sample_recovery :: json where
  "sample_recovery \<equiv> signed_doc sample_key sample_recovery_fields"

lemma sample_recovery_valid:
  "validate_event sample_recovery_fields sample_primary (sample_day 12) = Inr sample_recovery_event"
proof -
  have keys: "keys_of sample_recovery_fields = event_names"
    by (auto simp: keys_of_def sample_recovery_fields_def event_names_def)
  have evidence: "check_evidence RECOVER (JObj [(''kind'', JStr ''REQUALIFICATION_ATTESTATION''),
      (''identity'', JStr (replicate 64 (CHR ''e'')))]) = Inr ()"
    using sample_evidence by (auto simp: check_evidence_def keys_of_def field_or_def in_set_def evidence_kinds_def digest_of_def)
  have cats: "category_list (JArr [JStr ''SECURITY_INCIDENT'']) = Inr [''SECURITY_INCIDENT'']"
    by (simp add: category_list_def rising_def reason_categories_def reason_authority_def)
  have names: "matches_name ''qualification_authority''" "matches_name ''cleared''"
    by (simp_all add: matches_name_def char_defs)
  have id: "matches_sha256 sample_revoked_id" by (simp add: sample_revoked_id_def)
  have time: "time_of Revocation_Error (JStr (time_text (sample_day 12))) = Inr (sample_day 12)"
    by (simp add: time_round_trip sample_day_valid)
  show ?thesis
    using evidence cats id time wf_sample_primary sample_names names
    unfolding validate_event_def keys
    by (simp add: sample_recovery_fields_def field_or_def same_candidate_def ledger_action_of_def in_set_def name_of_def
        event_id_of_def int_from_def digest_of_def optional_identity_def check_authority_def sample_recovery_event_def)
qed

lemma sample_revoked:
  obtains root raw where "\<not> cr_link root"
    "current_rollout root sample_key (sample_day 12) = Inr (sample_policy, sample_policy_id, sample_first, raw)"
    "read_ledger root sample_primary sample_key = Inr (sample_revoked_state, sample_revoked_id, [(history_name 1, CF_Json sample_revocation)])"
proof -
  obtain root raw where root: "initialize_rollout empty_root sample_signed sample_key (sample_day 10) = Inr root"
    "\<not> cr_link root" "current_rollout root sample_key (sample_day 12) = Inr (sample_policy, sample_policy_id, sample_first, raw)"
    by (rule sample_started) simp
  obtain st ws where rec: "record_event root sample_revocation sample_key (sample_day 11) False = Inr (st, False, sample_primary, ws)"
    by (rule sample_recorded [OF root(1)])
  let ?root = "write_all (map (CW_Ledger sample_primary) ws) root"
  have valid: "validate_event sample_event_fields sample_primary (sample_day 11) = Inr sample_event"
    by (rule sample_event_valid) simp_all
  have active: "next_categories sample_event (ls_categories (initial_ledger (sample_day 10))) = Inr [''SECURITY_INCIDENT'']"
    by (simp add: next_categories_def sample_event_def initial_ledger_def)
  have "read_ledger ?root sample_primary sample_key
      = Inr (sample_revoked_state, sample_revoked_id, [(history_name 1, CF_Json sample_revocation)])"
  proof (rule recorded_ledger [OF rec sample_day_valid])
    fix kvs e s i files act
    assume a: "verify_signed Revocation_Error sample_revocation sample_key = Inr kvs"
      "validate_event kvs sample_primary (sample_day 11) = Inr e" "read_ledger root sample_primary sample_key = Inr (s, i, files)"
      "next_categories e (ls_categories s) = Inr act"
      "read_ledger ?root sample_primary sample_key
         = Inr (appended e kvs s i act, payload_identity (JObj (ledger_fields sample_primary (appended e kvs s i act))),
              files @ [(history_name (nat (ls_revision s + 1)), CF_Json sample_revocation)])"
    have k: "kvs = sample_event_fields" using a(1) by (simp add: sample_key)
    have s: "s = initial_ledger (sample_day 10)" "i = sample_ledger_id" "files = []"
      using a(3) sample_ledger [OF root(1)] by simp_all
    have e: "e = sample_event" using a(2) valid by (simp add: k)
    have "act = [''SECURITY_INCIDENT'']" using a(4) active by (simp add: s e)
    then show ?thesis using a(5) by (simp add: k s e sample_revoked_id_def) (simp add: initial_ledger_def)
  qed simp_all
  moreover have "\<not> cr_link ?root" using root(2) by (simp add: write_ledgers)
  moreover have "current_rollout ?root sample_key (sample_day 12) = Inr (sample_policy, sample_policy_id, sample_first, raw)"
    using root(3) by (simp add: ledger_writes_keep)
  ultimately show thesis using that by blast
qed

lemma snapshot_of_current:
  "current_rollout root key now = Inr x \<Longrightarrow> \<not> cr_link root \<Longrightarrow> load_snapshot root key now = Inr x"
  by (auto simp: load_snapshot_def current_rollout_def any_to_revocation_def bind_res_Inr_iff read_document_Inr read_any_def)

lemma recovery_leaves_the_rollout_disabled_witness:
  "\<exists>root writes st p pol s raw. apply_candidate_event root id sample_recovery sample_key (sample_day 12) = (writes, Inr st)
     \<and> current_rollout (write_all writes root) sample_key (sample_day 12) = Inr (p, pol, s, raw)
     \<and> vs_status st = ''RECOVERED'' \<and> ro_stage s = DISABLED"
proof -
  obtain root raw where root: "\<not> cr_link root"
    "current_rollout root sample_key (sample_day 12) = Inr (sample_policy, sample_policy_id, sample_first, raw)"
    "read_ledger root sample_primary sample_key = Inr (sample_revoked_state, sample_revoked_id, [(history_name 1, CF_Json sample_revocation)])"
    by (rule sample_revoked)
  have doc: "verify_signed Revocation_Error sample_recovery sample_key = Inr sample_recovery_fields" by (simp add: sample_key)
  have scan: "find_event [(history_name 1, CF_Json sample_revocation)] sample_key (le_event_id sample_recovery_event) sample_recovery_fields = Inr False"
    by (simp add: ends_with_history_name sample_key) (simp add: sample_event_fields_def field_or_def sample_recovery_event_def)
  have cas: "check_append sample_recovery_event sample_revoked_state sample_revoked_id = Inr ()"
    by (simp add: check_append_def sample_recovery_event_def appended_def next_ledger_def sample_event_def
        initial_ledger_def time_round_trip sample_day_valid sample_day_order)
  have active: "next_categories sample_recovery_event (ls_categories sample_revoked_state) = Inr []"
    by (simp add: next_categories_def sample_recovery_event_def appended_def next_ledger_def)
  have rev: "ls_revision sample_revoked_state = 1" by (simp add: appended_def next_ledger_def initial_ledger_def)
  have free: "map_of [(history_name 1, CF_Json sample_revocation)] (history_name (nat (ls_revision sample_revoked_state + 1))) = None"
    using history_name_inject [of 2 1] by (simp add: rev)
  obtain ws where rec: "record_event root sample_recovery sample_key (sample_day 12) True
      = Inr (status_of_ledger sample_primary sample_revoked_state sample_revoked_id, False, sample_primary, [])"
    "record_event root sample_recovery sample_key (sample_day 12) False
      = Inr (status_of_ledger sample_primary (appended sample_recovery_event sample_recovery_fields sample_revoked_state sample_revoked_id [])
          (payload_identity (JObj (ledger_fields sample_primary
             (appended sample_recovery_event sample_recovery_fields sample_revoked_state sample_revoked_id [])))), False, sample_primary, ws)"
    "append_writes sample_recovery sample_primary
       (appended sample_recovery_event sample_recovery_fields sample_revoked_state sample_revoked_id [])
       [(history_name 1, CF_Json sample_revocation)] sample_key = Inr ws"
    by (rule record_event_accepted [OF root(3) doc sample_recovery_valid scan cas active free])
  have some: "ws \<noteq> []" using rec(3) by (auto simp: append_writes_Inr)
  have bound: "binding_from_mapping (field_or JNull ''candidate_binding'' sample_recovery_fields) = Inr sample_primary"
    by (rule validate_event_Inr(11) [OF sample_recovery_valid])
  have quiet: "dormant sample_first" "ro_candidate sample_first = sample_primary" "rp_candidate sample_policy = sample_primary"
    by (simp_all add: dormant_def first_state_def sample_policy_def)
  have recovers: "le_action sample_recovery_event = RECOVER" by (simp add: sample_recovery_event_def)
  note snapshot = snapshot_of_current [OF root(2,1)]
  have "recover_disabled root sample_recovery sample_primary sample_key (sample_day 12)
      = (map (CW_Ledger sample_primary) ws,
         Inr (status_of_ledger sample_primary (appended sample_recovery_event sample_recovery_fields sample_revoked_state sample_revoked_id [])
          (payload_identity (JObj (ledger_fields sample_primary
             (appended sample_recovery_event sample_recovery_fields sample_revoked_state sample_revoked_id []))))))"
    by (simp only: recover_disabled_def snapshot rec(2)) (simp add: quiet)
  then obtain st where st: "recover_disabled root sample_recovery sample_primary sample_key (sample_day 12)
      = (map (CW_Ledger sample_primary) ws, Inr st)" "vs_status st = ''RECOVERED''"
    by (simp add: status_of_ledger_def appended_def next_ledger_def recovers)
  have applied: "apply_candidate_event root id sample_recovery sample_key (sample_day 12) = (map (CW_Ledger sample_primary) ws, Inr st)"
    by (simp only: apply_candidate_event_def doc bind_res.simps bound sample_recovery_valid sum.case prod.case recovers
        ledger_action.case rec(1) apply_recovery_def snapshot id_apply) (simp add: quiet st(1))
  have action: "field_or JNull ''action'' sample_recovery_fields = JStr ''RECOVER''"
    by (simp add: sample_recovery_fields_def field_or_def)
  have days: "valid_utc (sample_day 12)" by (simp add: sample_day_valid)
  have "map (CW_Ledger sample_primary) ws \<noteq> []" using some by simp
  from recovery_leaves_the_rollout_disabled [OF applied days this doc action] applied st(2)
  show ?thesis unfolding id_apply by blast
qed

end
