(* ===== verification/Storage_References.thy ===== *)
theory Storage_References
  imports Paas_Admission
begin

text \<open>
  The typed references of the three-plane storage contract (\<open>src/k_slide/storage.py\<close>): the artifact
  classes, the plane each class belongs to, relative paths, and \<open>StorageReference\<close> with its
  validation and JSON form. Resolving a reference to a file is the business of the components that
  keep the files.
\<close>

section \<open>Artifact classes and their planes\<close>

datatype storage_artifact =
    ST_SOURCE_SNAPSHOT | ST_SOURCE_MANIFEST | ST_INPUT_INVENTORY | ST_RUN_MANIFEST | ST_RECOVERY_GUIDE |
    ST_SESSION_BINDING | ST_RUNTIME_METADATA | ST_RUN_STATE | ST_WORK_QUEUE | ST_EXECUTION_JOB |
    ST_ADMISSION_RECORD | ST_ADMISSION_QUEUE | ST_ADMISSION_CONTROL | ST_NORMALIZED_RENDER |
    ST_NATIVE_EXTRACTION | ST_NORMALIZATION_MANIFEST | ST_NORMALIZATION_ERROR | ST_REGION_CROP |
    ST_OCR_METADATA | ST_EVIDENCE_IR | ST_EXTRACTION_ERROR | ST_TRANSLATION_PATCH | ST_CANONICAL_IR |
    ST_REPORT | ST_VERIFICATION | ST_METRICS | ST_FAILURE_MARKER | ST_COMPLETION_MARKER |
    ST_COORDINATION_LOCK | ST_TELEMETRY_COORDINATION_LOCK | ST_CONVERSION_STAGING | ST_TELEMETRY_EVENT |
    ST_DELETION_AUDIT | ST_SUPPORT_CONTENT | ST_SUPPORT_ACCESS_AUDIT

definition artifact_values :: "(string \<times> storage_artifact) list" where
  "artifact_values = [
     (''source_snapshot'', ST_SOURCE_SNAPSHOT), (''source_manifest'', ST_SOURCE_MANIFEST),
     (''input_inventory'', ST_INPUT_INVENTORY), (''run_manifest'', ST_RUN_MANIFEST),
     (''recovery_guide'', ST_RECOVERY_GUIDE), (''session_binding'', ST_SESSION_BINDING),
     (''runtime_metadata'', ST_RUNTIME_METADATA), (''run_state'', ST_RUN_STATE),
     (''work_queue'', ST_WORK_QUEUE), (''execution_job'', ST_EXECUTION_JOB),
     (''admission_record'', ST_ADMISSION_RECORD), (''admission_queue'', ST_ADMISSION_QUEUE),
     (''admission_control'', ST_ADMISSION_CONTROL), (''normalized_render'', ST_NORMALIZED_RENDER),
     (''native_extraction'', ST_NATIVE_EXTRACTION), (''normalization_manifest'', ST_NORMALIZATION_MANIFEST),
     (''normalization_error'', ST_NORMALIZATION_ERROR), (''region_crop'', ST_REGION_CROP),
     (''ocr_metadata'', ST_OCR_METADATA), (''evidence_ir'', ST_EVIDENCE_IR),
     (''extraction_error'', ST_EXTRACTION_ERROR), (''translation_patch'', ST_TRANSLATION_PATCH),
     (''canonical_ir'', ST_CANONICAL_IR), (''report'', ST_REPORT), (''verification'', ST_VERIFICATION),
     (''metrics'', ST_METRICS), (''failure_marker'', ST_FAILURE_MARKER),
     (''completion_marker'', ST_COMPLETION_MARKER), (''coordination_lock'', ST_COORDINATION_LOCK),
     (''telemetry_coordination_lock'', ST_TELEMETRY_COORDINATION_LOCK),
     (''conversion_staging'', ST_CONVERSION_STAGING), (''telemetry_event'', ST_TELEMETRY_EVENT),
     (''deletion_audit'', ST_DELETION_AUDIT), (''support_content'', ST_SUPPORT_CONTENT),
     (''support_access_audit'', ST_SUPPORT_ACCESS_AUDIT)]"

definition storage_policy :: "storage_artifact \<Rightarrow> storage_plane" where
  "storage_policy a =
     (if a \<in> {ST_COORDINATION_LOCK, ST_CONVERSION_STAGING} then PL_SCRATCH
      else if a \<in> {ST_TELEMETRY_COORDINATION_LOCK, ST_TELEMETRY_EVENT, ST_DELETION_AUDIT, ST_SUPPORT_ACCESS_AUDIT}
      then PL_TELEMETRY
      else PL_DURABLE)"

lemma value_in_key: "x \<in> set (map snd vs) \<Longrightarrow> value_in vs x \<in> set (map fst vs)"
proof (induction vs)
  case (Cons v vs)
  then show ?case by (cases v) (simp del: set_map, blast)
qed simp

lemma member_of_value_in:
  "distinct (map fst vs) \<Longrightarrow> x \<in> set (map snd vs) \<Longrightarrow> member_of vs (JStr (value_in vs x)) = Inr x"
proof (induction vs)
  case (Cons v vs)
  obtain a b where v: "v = (a, b)" by fastforce
  show ?case
  proof (cases "b = x")
    case False
    with Cons.prems have "x \<in> set (map snd vs)" by (simp add: v)
    with value_in_key [of x vs] have "value_in vs x \<noteq> a" using Cons.prems by (auto simp: v)
    with Cons False \<open>x \<in> set (map snd vs)\<close> show ?thesis by (simp add: v member_of_def)
  qed (simp add: v member_of_def)
qed simp

lemma artifact_names_distinct: "distinct (map fst artifact_values)"
  by code_simp

lemma member_of_artifact [simp]: "member_of artifact_values (JStr (value_in artifact_values a)) = Inr a"
proof (rule member_of_value_in [OF artifact_names_distinct])
  show "a \<in> set (map snd artifact_values)"
    by (cases a) (simp_all only: artifact_values_def list.map snd_conv list.set insert_iff simp_thms)
qed

section \<open>Relative paths\<close>

fun split_at :: "char \<Rightarrow> string \<Rightarrow> string list" where
  "split_at c [] = [[]]"
| "split_at c (x # xs) =
     (if x = c then [] # split_at c xs
      else (case split_at c xs of [] \<Rightarrow> [[x]] | p # ps \<Rightarrow> (x # p) # ps))"

text \<open>The parts of a \<open>PurePosixPath\<close>: empty and \<open>.\<close> components are dropped.\<close>

definition path_parts :: "string \<Rightarrow> string list" where
  "path_parts s = filter (\<lambda>p. p \<noteq> [] \<and> p \<noteq> ''.'') (split_at (CHR ''/'') s)"

definition safe_relative_path :: "string \<Rightarrow> bool" where
  "safe_relative_path s \<longleftrightarrow>
     s \<noteq> [] \<and> char_of (0::nat) \<notin> set s \<and> CHR 0x5C \<notin> set s
     \<and> hd s \<noteq> CHR ''/'' \<and> ''..'' \<notin> set (path_parts s)"

section \<open>References\<close>

record storage_reference =
  sg_plane :: storage_plane
  sg_artifact :: storage_artifact
  sg_path :: string
  sg_scope_ref :: "string option"
  sg_run_ref :: "string option"

definition optional_identifier :: "string option \<Rightarrow> bool" where
  "optional_identifier r \<longleftrightarrow> (case r of None \<Rightarrow> True | Some s \<Rightarrow> matches_identifier s)"

definition reference_post_init :: "storage_reference \<Rightarrow> storage_reference res" where
  "reference_post_init r = bind_res (guards [
     (storage_policy (sg_artifact r) \<noteq> sg_plane r, invalid),
     (\<not> safe_relative_path (sg_path r), KSlideError PATH_OUTSIDE_ALLOWED_ROOT),
     (\<not> optional_identifier (sg_scope_ref r), invalid),
     (\<not> optional_identifier (sg_run_ref r), invalid),
     (sg_plane r = PL_DURABLE \<and> (sg_scope_ref r = None \<or> sg_run_ref r = None), invalid),
     (sg_plane r = PL_TELEMETRY \<and> sg_scope_ref r \<noteq> None, invalid)]) (\<lambda>_. Inr r)"

definition reference_as_dict :: "storage_reference \<Rightarrow> json" where
  "reference_as_dict r = JObj [
     (''contract_version'', JStr ''1.0''),
     (''plane'', JStr (value_in plane_values (sg_plane r))),
     (''artifact'', JStr (value_in artifact_values (sg_artifact r))),
     (''relative_path'', JStr (sg_path r)),
     (''scope_ref'', json_opt_str (sg_scope_ref r)),
     (''run_ref'', json_opt_str (sg_run_ref r))]"

definition reference_names :: "string list" where
  "reference_names = [''contract_version'', ''plane'', ''artifact'', ''relative_path'', ''scope_ref'', ''run_ref'']"

definition reference_from_dict :: "json \<Rightarrow> storage_reference res" where
  "reference_from_dict v =
     (case v of
        JObj kvs \<Rightarrow>
          if keys_of kvs \<noteq> set reference_names then Inl corrupt
          else catch_corrupt (
            bind_res (member_of plane_values (field_or JNull ''plane'' kvs)) (\<lambda>plane.
            bind_res (member_of artifact_values (field_or JNull ''artifact'' kvs)) (\<lambda>artifact.
            if field_or JNull ''contract_version'' kvs \<noteq> JStr ''1.0'' then Inl unsupported_version
            else reference_post_init \<lparr>
              sg_plane = plane, sg_artifact = artifact,
              sg_path = raw_str (field_or JNull ''relative_path'' kvs),
              sg_scope_ref = raw_opt_str (field_or JNull ''scope_ref'' kvs),
              sg_run_ref = raw_opt_str (field_or JNull ''run_ref'' kvs)\<rparr>)))
      | _ \<Rightarrow> Inl corrupt)"

definition wf_reference :: "storage_reference \<Rightarrow> bool" where
  "wf_reference r \<longleftrightarrow> reference_post_init r = Inr r"

lemma reference_post_init_wf: "reference_post_init r = Inr q \<Longrightarrow> q = r \<and> wf_reference r"
  by (auto simp: wf_reference_def reference_post_init_def split: if_splits)

lemma raw_opt_json [simp]: "raw_opt_str (json_opt_str s) = s"
  by (cases s) (simp_all add: raw_opt_str_def json_opt_str_def)

lemma reference_round_trip [simp]:
  "wf_reference r \<Longrightarrow> reference_from_dict (reference_as_dict r) = Inr r"
  by (cases r) (auto simp: wf_reference_def reference_from_dict_def reference_as_dict_def reference_names_def
      keys_of_def field_or_def raw_str_def)

end
