(* ===== verification/Support_Records.thy ===== *)
theory Support_Records
  imports Storage_References Control_Signature
begin

text \<open>
  The records of controlled support content (\<open>src/k_slide/content_support.py\<close>) that outlive a
  support request: the metadata of a materialized artifact, the source-free facts kept for the
  deletion of an artifact, the access events, and the append-only event stream with its writer.
  An item sequence of a decoded document may be any iterable JSON value, as in the code.
\<close>

section \<open>References and times\<close>

abbreviation support_invalid :: err where
  "support_invalid \<equiv> KSlideError SUPPORT_AUTHORIZATION_INVALID"

abbreviation support_audit_failed :: err where
  "support_audit_failed \<equiv> KSlideError SUPPORT_AUDIT_FAILED"

abbreviation support_unavailable :: err where
  "support_unavailable \<equiv> KSlideError SUPPORT_CONTENT_UNAVAILABLE"

definition support_forbidden :: "string list" where
  "support_forbidden = [''accesskey'', ''password'', ''secret'', ''token'', ''credential'', ''bearer'',
     ''source'', ''prompt'', ''translation'', ''ocr'', ''report'', ''image'', ''text'', ''korean'', ''path'',
     ''filename'']"

definition content_suffixes :: "string list" where
  "content_suffixes = [''.png'', ''.jpg'', ''.jpeg'', ''.webp'', ''.pdf'', ''.pptx'', ''.docx'', ''.md'', ''.json'', ''.txt'']"

definition has_ending :: "string \<Rightarrow> string \<Rightarrow> bool" where
  "has_ending e s \<longleftrightarrow> length e \<le> length s \<and> drop (length s - length e) s = e"

definition support_identity :: "string \<Rightarrow> bool" where
  "support_identity s \<longleftrightarrow> matches_paas_identifier s \<and> CHR ''/'' \<notin> set s \<and> CHR 0x5C \<notin> set s
     \<and> \<not> occurs_in ''..'' s \<and> \<not> list_ex (\<lambda>e. has_ending e (map lower_char s)) content_suffixes
     \<and> \<not> contains_word support_forbidden s"

definition support_time :: "string \<Rightarrow> utc option" where
  "support_time s =
     (if matches_timestamp s
      then (case iso_local (replace_z s) of None \<Rightarrow> None | Some (l, east, off) \<Rightarrow> to_utc east off l)
      else None)"

section \<open>Enumerations\<close>

datatype support_purpose = SP_INCIDENT_DIAGNOSTIC | SP_DATA_OWNER_REVIEW

datatype approval_status = AS_APPROVED | AS_DENIED | AS_PENDING

datatype support_class =
    SC_SOURCE_SNAPSHOT | SC_NORMALIZED_RENDER | SC_NATIVE_EXTRACTION | SC_REGION_CROP | SC_OCR_METADATA
  | SC_EVIDENCE_IR | SC_TRANSLATION_PATCH | SC_CANONICAL_IR | SC_REPORT

datatype access_lifecycle =
    AL_MATERIALIZED | AL_ACCESSED | AL_DENIED | AL_EXPIRED | AL_REVOKED | AL_CLEANED | AL_DELETED

datatype access_result =
    AR_SUCCESS | AR_DENIED | AR_EXPIRED | AR_REVOKED | AR_CLEANED | AR_DELETED | AR_FAILED

definition purpose_values :: "(string \<times> support_purpose) list" where
  "purpose_values = [(''INCIDENT_DIAGNOSTIC'', SP_INCIDENT_DIAGNOSTIC), (''DATA_OWNER_REVIEW'', SP_DATA_OWNER_REVIEW)]"

definition approval_values :: "(string \<times> approval_status) list" where
  "approval_values = [(''APPROVED'', AS_APPROVED), (''DENIED'', AS_DENIED), (''PENDING'', AS_PENDING)]"

definition support_class_values :: "(string \<times> support_class) list" where
  "support_class_values = [(''source_snapshot'', SC_SOURCE_SNAPSHOT), (''normalized_render'', SC_NORMALIZED_RENDER),
     (''native_extraction'', SC_NATIVE_EXTRACTION), (''region_crop'', SC_REGION_CROP), (''ocr_metadata'', SC_OCR_METADATA),
     (''evidence_ir'', SC_EVIDENCE_IR), (''translation_patch'', SC_TRANSLATION_PATCH), (''canonical_ir'', SC_CANONICAL_IR),
     (''report'', SC_REPORT)]"

definition access_lifecycle_values :: "(string \<times> access_lifecycle) list" where
  "access_lifecycle_values = [(''MATERIALIZED'', AL_MATERIALIZED), (''ACCESSED'', AL_ACCESSED), (''DENIED'', AL_DENIED),
     (''EXPIRED'', AL_EXPIRED), (''REVOKED'', AL_REVOKED), (''CLEANED'', AL_CLEANED), (''DELETED'', AL_DELETED)]"

definition access_result_values :: "(string \<times> access_result) list" where
  "access_result_values = [(''SUCCESS'', AR_SUCCESS), (''DENIED'', AR_DENIED), (''EXPIRED'', AR_EXPIRED),
     (''REVOKED'', AR_REVOKED), (''CLEANED'', AR_CLEANED), (''DELETED'', AR_DELETED), (''FAILED'', AR_FAILED)]"

lemma member_of_purpose [simp]: "member_of purpose_values (JStr (value_in purpose_values x)) = Inr x"
  by (cases x) (simp_all add: member_of_def purpose_values_def)

lemma member_of_approval [simp]: "member_of approval_values (JStr (value_in approval_values x)) = Inr x"
  by (cases x) (simp_all add: member_of_def approval_values_def)

lemma member_of_support_class [simp]:
  "member_of support_class_values (JStr (value_in support_class_values x)) = Inr x"
  by (cases x) (simp_all add: member_of_def support_class_values_def)

lemma member_of_access_lifecycle [simp]:
  "member_of access_lifecycle_values (JStr (value_in access_lifecycle_values x)) = Inr x"
  by (cases x) (simp_all add: member_of_def access_lifecycle_values_def)

lemma member_of_access_result [simp]:
  "member_of access_result_values (JStr (value_in access_result_values x)) = Inr x"
  by (cases x) (simp_all add: member_of_def access_result_values_def)

section \<open>Decoding\<close>

text \<open>\<open>except (KeyError, TypeError, ValueError)\<close>: the decoder's own error replaces Python's.\<close>

fun catch_as :: "error_code \<Rightarrow> 'a res \<Rightarrow> 'a res" where
  "catch_as c (Inl PyTypeError) = Inl (KSlideError c)"
| "catch_as c (Inl PyValueError) = Inl (KSlideError c)"
| "catch_as c (Inl PyKeyError) = Inl (KSlideError c)"
| "catch_as c m = m"

lemma catch_as_Inr [simp]: "catch_as c m = Inr x \<longleftrightarrow> m = Inr x"
  by (cases m rule: sum.exhaust) (auto split: err.splits, metis catch_as.simps err.exhaust sum.distinct(1))

text \<open>\<open>value[key]\<close> and the iteration of a decoded value.\<close>

definition required_field :: "string \<Rightarrow> (string \<times> json) list \<Rightarrow> json res" where
  "required_field k kvs = (case map_of kvs k of None \<Rightarrow> Inl PyKeyError | Some v \<Rightarrow> Inr v)"

fun json_items :: "json \<Rightarrow> json list res" where
  "json_items (JArr vs) = Inr vs"
| "json_items (JObj kvs) = Inr (map (\<lambda>kv. JStr (fst kv)) kvs)"
| "json_items (JStr s) = Inr (map (\<lambda>c. JStr [c]) s)"
| "json_items _ = Inl PyTypeError"

section \<open>Approvals\<close>

record support_approval =
  av_ref :: string
  av_status :: approval_status

definition approval_post_init :: "support_approval \<Rightarrow> support_approval res" where
  "approval_post_init a = (if support_identity (av_ref a) then Inr a else Inl support_invalid)"

definition approval_as_dict :: "support_approval \<Rightarrow> json" where
  "approval_as_dict a = JObj [(''approval_ref'', JStr (av_ref a)), (''status'', JStr (value_in approval_values (av_status a)))]"

definition approval_from_item :: "json \<Rightarrow> support_approval res" where
  "approval_from_item v =
     (case v of
        JObj kvs \<Rightarrow>
          bind_res (required_field ''approval_ref'' kvs) (\<lambda>r.
          bind_res (required_field ''status'' kvs) (\<lambda>s.
          bind_res (member_of approval_values s) (\<lambda>st.
            approval_post_init \<lparr>av_ref = raw_str r, av_status = st\<rparr>)))
      | _ \<Rightarrow> Inl PyTypeError)"

definition approvals_from :: "json \<Rightarrow> support_approval list res" where
  "approvals_from v = bind_res (json_items v) (map_res approval_from_item)"

definition classes_from :: "json \<Rightarrow> support_class list res" where
  "classes_from v = bind_res (json_items v) (map_res (member_of support_class_values))"

definition approvals_json :: "support_approval list \<Rightarrow> json" where
  "approvals_json as = JArr (map approval_as_dict as)"

definition classes_json :: "support_class list \<Rightarrow> json" where
  "classes_json cs = JArr (map (\<lambda>c. JStr (value_in support_class_values c)) cs)"

definition wf_approval :: "support_approval \<Rightarrow> bool" where
  "wf_approval a \<longleftrightarrow> support_identity (av_ref a)"

lemma approvals_round_trip [simp]:
  "list_all wf_approval as \<Longrightarrow> approvals_from (approvals_json as) = Inr as"
  by (simp add: approvals_from_def approvals_json_def)
    (rule map_res_map [where h = id, simplified],
     auto simp: list_all_iff wf_approval_def approval_from_item_def approval_as_dict_def required_field_def
       raw_str_def approval_post_init_def)

lemma classes_round_trip [simp]: "classes_from (classes_json cs) = Inr cs"
  by (simp add: classes_from_def classes_json_def) (rule map_res_map [where h = id, simplified], simp)

lemma approvals_from_wf: "approvals_from v = Inr as \<Longrightarrow> list_all wf_approval as"
  by (auto simp: approvals_from_def bind_res_Inr_iff list_all_iff wf_approval_def approval_from_item_def
      approval_post_init_def split: json.splits if_splits dest!: map_res_set)

text \<open>The checks the records share.\<close>

definition identity_checks :: "string list \<Rightarrow> (bool \<times> err) list" where
  "identity_checks = map (\<lambda>s. (\<not> support_identity s, support_invalid))"

definition context_names :: "scope_context \<Rightarrow> string list" where
  "context_names c = [sc_user_ref c, sc_workspace_ref c, sc_scope_ref c]"

definition time_checks :: "string list \<Rightarrow> (bool \<times> err) list" where
  "time_checks = map (\<lambda>s. (support_time s = None, support_invalid))"

section \<open>Facts for the deletion of an artifact\<close>

record support_proof =
  pf_artifact_ref :: string
  pf_request_ref :: string
  pf_context :: scope_context
  pf_run_ref :: string
  pf_decision_ref :: string
  pf_subject_ref :: string
  pf_role_ref :: string
  pf_capability_ref :: string
  pf_purpose :: support_purpose
  pf_authority_ref :: string
  pf_approvals :: "support_approval list"
  pf_allowed :: "support_class list"
  pf_selected :: "support_class list"
  pf_created_at :: string
  pf_expires_at :: string

definition proof_post_init :: "support_proof \<Rightarrow> support_proof res" where
  "proof_post_init p = bind_res (guards (
     identity_checks [pf_artifact_ref p, pf_request_ref p, pf_run_ref p, pf_decision_ref p, pf_subject_ref p,
       pf_role_ref p, pf_capability_ref p, pf_authority_ref p]
     @ identity_checks (context_names (pf_context p))
     @ [(pf_approvals p = [], support_audit_failed)]
     @ time_checks [pf_created_at p, pf_expires_at p])) (\<lambda>_. Inr p)"

definition proof_as_dict :: "support_proof \<Rightarrow> json" where
  "proof_as_dict p = JObj [
     (''artifact_ref'', JStr (pf_artifact_ref p)),
     (''access_request_ref'', JStr (pf_request_ref p)),
     (''scope_ref'', JStr (sc_scope_ref (pf_context p))),
     (''user_ref'', JStr (sc_user_ref (pf_context p))),
     (''workspace_ref'', JStr (sc_workspace_ref (pf_context p))),
     (''run_ref'', JStr (pf_run_ref p)),
     (''decision_ref'', JStr (pf_decision_ref p)),
     (''support_subject_ref'', JStr (pf_subject_ref p)),
     (''support_role_ref'', JStr (pf_role_ref p)),
     (''support_capability_ref'', JStr (pf_capability_ref p)),
     (''purpose'', JStr (value_in purpose_values (pf_purpose p))),
     (''authority_ref'', JStr (pf_authority_ref p)),
     (''approvals'', approvals_json (pf_approvals p)),
     (''allowed_artifact_classes'', classes_json (pf_allowed p)),
     (''selected_artifact_classes'', classes_json (pf_selected p)),
     (''created_at'', JStr (pf_created_at p)),
     (''expires_at'', JStr (pf_expires_at p))]"

definition proof_names :: "string list" where
  "proof_names = [''artifact_ref'', ''access_request_ref'', ''scope_ref'', ''user_ref'', ''workspace_ref'', ''run_ref'',
     ''decision_ref'', ''support_subject_ref'', ''support_role_ref'', ''support_capability_ref'', ''purpose'',
     ''authority_ref'', ''approvals'', ''allowed_artifact_classes'', ''selected_artifact_classes'', ''created_at'',
     ''expires_at'']"

definition json_array :: "json \<Rightarrow> bool" where
  "json_array v \<longleftrightarrow> (case v of JArr _ \<Rightarrow> True | _ \<Rightarrow> False)"

definition proof_from_dict :: "json \<Rightarrow> support_proof res" where
  "proof_from_dict v =
     (case v of
        JObj kvs \<Rightarrow>
          if keys_of kvs \<noteq> set proof_names \<or> \<not> json_array (field_or JNull ''approvals'' kvs) then Inl corrupt
          else catch_as STATE_CORRUPT (
            bind_res (scope_context_post_init (raw_str (field_or JNull ''user_ref'' kvs))
              (raw_str (field_or JNull ''workspace_ref'' kvs)) (raw_scope_ref (field_or JNull ''scope_ref'' kvs))) (\<lambda>ctx.
            bind_res (member_of purpose_values (field_or JNull ''purpose'' kvs)) (\<lambda>purpose.
            bind_res (approvals_from (field_or JNull ''approvals'' kvs)) (\<lambda>approvals.
            bind_res (classes_from (field_or JNull ''allowed_artifact_classes'' kvs)) (\<lambda>allowed.
            bind_res (classes_from (field_or JNull ''selected_artifact_classes'' kvs)) (\<lambda>selected.
              proof_post_init \<lparr>
                pf_artifact_ref = raw_str (field_or JNull ''artifact_ref'' kvs),
                pf_request_ref = raw_str (field_or JNull ''access_request_ref'' kvs),
                pf_context = ctx,
                pf_run_ref = raw_str (field_or JNull ''run_ref'' kvs),
                pf_decision_ref = raw_str (field_or JNull ''decision_ref'' kvs),
                pf_subject_ref = raw_str (field_or JNull ''support_subject_ref'' kvs),
                pf_role_ref = raw_str (field_or JNull ''support_role_ref'' kvs),
                pf_capability_ref = raw_str (field_or JNull ''support_capability_ref'' kvs),
                pf_purpose = purpose,
                pf_authority_ref = raw_str (field_or JNull ''authority_ref'' kvs),
                pf_approvals = approvals,
                pf_allowed = allowed,
                pf_selected = selected,
                pf_created_at = raw_str (field_or JNull ''created_at'' kvs),
                pf_expires_at = raw_str (field_or JNull ''expires_at'' kvs)\<rparr>))))))
      | _ \<Rightarrow> Inl corrupt)"

text \<open>A scope context that \<open>AuthorizedScopeContext\<close> builds again from its own fields.\<close>

definition wf_context :: "scope_context \<Rightarrow> bool" where
  "wf_context c \<longleftrightarrow> scope_context_post_init (sc_user_ref c) (sc_workspace_ref c) (Some (sc_scope_ref c)) = Inr c"

definition wf_proof :: "support_proof \<Rightarrow> bool" where
  "wf_proof p \<longleftrightarrow> proof_post_init p = Inr p \<and> wf_context (pf_context p) \<and> list_all wf_approval (pf_approvals p)"

lemma scope_context_safe: "scope_context_post_init u w s = Inr c \<Longrightarrow> safe_identity (sc_scope_ref c)"
  by (auto simp: scope_context_post_init_def Let_def bind_res_Inr_iff split: if_splits)

lemma safe_identity_not_empty: "safe_identity s \<Longrightarrow> s \<noteq> []"
  by (auto simp: safe_identity_def matches_paas_identifier_def)

lemma scope_context_wf:
  "scope_context_post_init u w s = Inr c \<Longrightarrow> wf_context c \<and> sc_user_ref c = u \<and> sc_workspace_ref c = w"
  using safe_identity_not_empty
  by (auto simp: scope_context_post_init_def wf_context_def Let_def split: if_splits option.splits)

lemma wf_context_nonempty: "wf_context c \<Longrightarrow> sc_scope_ref c \<noteq> []"
  using scope_context_safe safe_identity_not_empty by (auto simp: wf_context_def)

lemma raw_scope_ref_str: "s \<noteq> [] \<Longrightarrow> raw_scope_ref (JStr s) = Some s"
  by (simp add: raw_scope_ref_def)

lemma proof_post_init_same: "proof_post_init p = Inr q \<Longrightarrow> q = p"
  by (auto simp: proof_post_init_def bind_res_Inr_iff)

lemma proof_from_dict_wf:
  assumes "proof_from_dict v = Inr p"
  shows "wf_proof p"
proof -
  obtain ctx as q where ctx: "wf_context ctx" and as: "list_all wf_approval as"
    and q: "proof_post_init q = Inr p" "pf_context q = ctx" "pf_approvals q = as"
    using assms by (fastforce simp: proof_from_dict_def bind_res_Inr_iff split: json.splits if_splits
        dest: scope_context_wf approvals_from_wf)
  with proof_post_init_same [OF q(1)] show ?thesis by (simp add: wf_proof_def)
qed

lemma proof_round_trip [simp]:
  assumes "wf_proof p"
  shows "proof_from_dict (proof_as_dict p) = Inr p"
proof -
  have "sc_scope_ref (pf_context p) \<noteq> []"
    using assms by (auto simp: wf_proof_def dest: wf_context_nonempty)
  moreover have "scope_context_post_init (sc_user_ref (pf_context p)) (sc_workspace_ref (pf_context p))
      (Some (sc_scope_ref (pf_context p))) = Inr (pf_context p)"
    using assms by (simp add: wf_proof_def wf_context_def)
  moreover have "list_all wf_approval (pf_approvals p)" "proof_post_init p = Inr p"
    using assms by (simp_all add: wf_proof_def)
  ultimately show ?thesis
    by (simp add: proof_from_dict_def proof_as_dict_def keys_of_def proof_names_def json_array_def field_or_def
        raw_str_def raw_scope_ref_str, simp add: approvals_json_def, cases p, simp)
qed

section \<open>Access events\<close>

record support_event =
  ev_occurred_at :: string
  ev_lifecycle :: access_lifecycle
  ev_result :: access_result
  ev_request_ref :: string
  ev_context :: scope_context
  ev_run_ref :: string
  ev_subject_ref :: string
  ev_role_ref :: string
  ev_capability_ref :: string
  ev_purpose :: support_purpose
  ev_authority_ref :: string
  ev_decision_ref :: string
  ev_approvals :: "support_approval list"
  ev_allowed :: "support_class list"
  ev_selected :: "support_class list"
  ev_issued_at :: string
  ev_not_before_at :: string
  ev_expires_at :: string
  ev_artifact_ref :: "string option"

definition event_post_init :: "support_event \<Rightarrow> support_event res" where
  "event_post_init e = bind_res (guards (
     time_checks [ev_occurred_at e, ev_issued_at e, ev_not_before_at e, ev_expires_at e]
     @ identity_checks [ev_request_ref e, ev_run_ref e, ev_subject_ref e, ev_role_ref e, ev_capability_ref e,
         ev_authority_ref e, ev_decision_ref e]
     @ [(ev_approvals e = [], support_audit_failed)]
     @ identity_checks (context_names (ev_context e))
     @ identity_checks (case ev_artifact_ref e of None \<Rightarrow> [] | Some r \<Rightarrow> [r]))) (\<lambda>_. Inr e)"

definition event_fields :: "support_event \<Rightarrow> (string \<times> json) list" where
  "event_fields e = [
     (''schema_version'', JStr ''1.0''),
     (''occurred_at'', JStr (ev_occurred_at e)),
     (''lifecycle'', JStr (value_in access_lifecycle_values (ev_lifecycle e))),
     (''result'', JStr (value_in access_result_values (ev_result e))),
     (''access_request_ref'', JStr (ev_request_ref e)),
     (''scope_ref'', JStr (sc_scope_ref (ev_context e))),
     (''user_ref'', JStr (sc_user_ref (ev_context e))),
     (''workspace_ref'', JStr (sc_workspace_ref (ev_context e))),
     (''run_ref'', JStr (ev_run_ref e)),
     (''support_subject_ref'', JStr (ev_subject_ref e)),
     (''support_role_ref'', JStr (ev_role_ref e)),
     (''support_capability_ref'', JStr (ev_capability_ref e)),
     (''purpose'', JStr (value_in purpose_values (ev_purpose e))),
     (''authority_ref'', JStr (ev_authority_ref e)),
     (''decision_ref'', JStr (ev_decision_ref e)),
     (''approvals'', approvals_json (ev_approvals e)),
     (''allowed_artifact_classes'', classes_json (ev_allowed e)),
     (''selected_artifact_classes'', classes_json (ev_selected e)),
     (''issued_at'', JStr (ev_issued_at e)),
     (''not_before_at'', JStr (ev_not_before_at e)),
     (''expires_at'', JStr (ev_expires_at e))]
   @ (case ev_artifact_ref e of None \<Rightarrow> [] | Some r \<Rightarrow> [(''support_artifact_ref'', JStr r)])"

definition event_as_dict :: "support_event \<Rightarrow> json" where
  "event_as_dict e = JObj (event_fields e)"

definition support_event_names :: "string list" where
  "support_event_names = [''schema_version'', ''occurred_at'', ''lifecycle'', ''result'', ''access_request_ref'', ''scope_ref'',
     ''user_ref'', ''workspace_ref'', ''run_ref'', ''support_subject_ref'', ''support_role_ref'', ''support_capability_ref'',
     ''purpose'', ''authority_ref'', ''decision_ref'', ''approvals'', ''allowed_artifact_classes'',
     ''selected_artifact_classes'', ''issued_at'', ''not_before_at'', ''expires_at'', ''support_artifact_ref'']"

text \<open>The arguments of the constructor, in the order the code evaluates them.\<close>

definition event_from_fields :: "(string \<times> json) list \<Rightarrow> support_event res" where
  "event_from_fields kvs =
     bind_res (required_field ''occurred_at'' kvs) (\<lambda>occurred.
     bind_res (bind_res (required_field ''lifecycle'' kvs) (member_of access_lifecycle_values)) (\<lambda>lifecycle.
     bind_res (bind_res (required_field ''result'' kvs) (member_of access_result_values)) (\<lambda>result.
     bind_res (required_field ''access_request_ref'' kvs) (\<lambda>request.
     bind_res (required_field ''user_ref'' kvs) (\<lambda>user.
     bind_res (required_field ''workspace_ref'' kvs) (\<lambda>workspace.
     bind_res (required_field ''scope_ref'' kvs) (\<lambda>scope.
     bind_res (scope_context_post_init (raw_str user) (raw_str workspace) (raw_scope_ref scope)) (\<lambda>ctx.
     bind_res (required_field ''run_ref'' kvs) (\<lambda>run.
     bind_res (required_field ''support_subject_ref'' kvs) (\<lambda>subject.
     bind_res (required_field ''support_role_ref'' kvs) (\<lambda>role.
     bind_res (required_field ''support_capability_ref'' kvs) (\<lambda>capability.
     bind_res (bind_res (required_field ''purpose'' kvs) (member_of purpose_values)) (\<lambda>purpose.
     bind_res (required_field ''authority_ref'' kvs) (\<lambda>authority.
     bind_res (required_field ''decision_ref'' kvs) (\<lambda>decision.
     bind_res (bind_res (required_field ''approvals'' kvs) approvals_from) (\<lambda>approvals.
     bind_res (bind_res (required_field ''allowed_artifact_classes'' kvs) classes_from) (\<lambda>allowed.
     bind_res (bind_res (required_field ''selected_artifact_classes'' kvs) classes_from) (\<lambda>selected.
     bind_res (required_field ''issued_at'' kvs) (\<lambda>issued.
     bind_res (required_field ''not_before_at'' kvs) (\<lambda>not_before.
     bind_res (required_field ''expires_at'' kvs) (\<lambda>expires.
     bind_res (required_field ''schema_version'' kvs) (\<lambda>version.
       if version \<noteq> JStr ''1.0'' then Inl support_audit_failed
       else event_post_init \<lparr>
         ev_occurred_at = raw_str occurred, ev_lifecycle = lifecycle, ev_result = result,
         ev_request_ref = raw_str request, ev_context = ctx, ev_run_ref = raw_str run,
         ev_subject_ref = raw_str subject, ev_role_ref = raw_str role, ev_capability_ref = raw_str capability,
         ev_purpose = purpose, ev_authority_ref = raw_str authority, ev_decision_ref = raw_str decision,
         ev_approvals = approvals, ev_allowed = allowed, ev_selected = selected,
         ev_issued_at = raw_str issued, ev_not_before_at = raw_str not_before, ev_expires_at = raw_str expires,
         ev_artifact_ref = raw_opt_str (field_or JNull ''support_artifact_ref'' kvs)\<rparr>))))))))))))))))))))))"

definition event_from_dict :: "json \<Rightarrow> support_event res" where
  "event_from_dict v =
     (case v of
        JObj kvs \<Rightarrow>
          if \<not> keys_of kvs \<subseteq> set support_event_names then Inl support_audit_failed
          else catch_as SUPPORT_AUDIT_FAILED (event_from_fields kvs)
      | _ \<Rightarrow> Inl support_audit_failed)"

definition wf_event :: "support_event \<Rightarrow> bool" where
  "wf_event e \<longleftrightarrow> event_post_init e = Inr e \<and> wf_context (ev_context e) \<and> list_all wf_approval (ev_approvals e)"

lemma event_post_init_same: "event_post_init e = Inr f \<Longrightarrow> f = e"
  by (auto simp: event_post_init_def bind_res_Inr_iff)

text \<open>\<open>ControlledSupportDeletionRecord.audit\<close>.\<close>

definition proof_event :: "support_proof \<Rightarrow> string \<Rightarrow> support_event res" where
  "proof_event p now = event_post_init \<lparr>
     ev_occurred_at = now, ev_lifecycle = AL_DELETED, ev_result = AR_DELETED, ev_request_ref = pf_request_ref p,
     ev_context = pf_context p, ev_run_ref = pf_run_ref p, ev_subject_ref = pf_subject_ref p,
     ev_role_ref = pf_role_ref p, ev_capability_ref = pf_capability_ref p, ev_purpose = pf_purpose p,
     ev_authority_ref = pf_authority_ref p, ev_decision_ref = pf_decision_ref p, ev_approvals = pf_approvals p,
     ev_allowed = pf_allowed p, ev_selected = pf_selected p, ev_issued_at = pf_created_at p,
     ev_not_before_at = pf_created_at p, ev_expires_at = pf_expires_at p,
     ev_artifact_ref = Some (pf_artifact_ref p)\<rparr>"

end
