(* ===== verification/Support_Log.thy ===== *)
theory Support_Log
  imports Support_Records
begin

text \<open>
  The metadata of a materialized support artifact, and the access stream of the operational plane
  with its idempotent writer (\<open>ControlledSupportArtifact\<close>, \<open>SupportAccessAuditWriter\<close> of
  \<open>src/k_slide/content_support.py\<close>). The stream is a file of JSON lines; a line that is not JSON is
  kept as such.
\<close>

section \<open>Events survive the stream\<close>

lemma event_keys: "keys_of (event_fields e) \<subseteq> set support_event_names"
  by (auto simp: event_fields_def keys_of_def support_event_names_def split: option.splits)

lemma event_from_dict_wf:
  assumes "event_from_dict v = Inr e"
  shows "wf_event e"
proof -
  obtain ctx as q where ctx: "wf_context ctx" and as: "list_all wf_approval as"
    and q: "event_post_init q = Inr e" "ev_context q = ctx" "ev_approvals q = as"
    using assms by (fastforce simp: event_from_dict_def event_from_fields_def bind_res_Inr_iff
        split: json.splits if_splits dest: scope_context_wf approvals_from_wf)
  with event_post_init_same [OF q(1)] show ?thesis by (simp add: wf_event_def)
qed

lemma event_round_trip [simp]:
  assumes "wf_event e"
  shows "event_from_dict (event_as_dict e) = Inr e"
proof -
  have "sc_scope_ref (ev_context e) \<noteq> []"
    using assms by (auto simp: wf_event_def dest: wf_context_nonempty)
  moreover have "scope_context_post_init (sc_user_ref (ev_context e)) (sc_workspace_ref (ev_context e))
      (Some (sc_scope_ref (ev_context e))) = Inr (ev_context e)"
    using assms by (simp add: wf_event_def wf_context_def)
  moreover have "list_all wf_approval (ev_approvals e)" "event_post_init e = Inr e"
    using assms by (simp_all add: wf_event_def)
  moreover have "field_or JNull ''support_artifact_ref'' (event_fields e) = json_opt_str (ev_artifact_ref e)"
    by (simp add: event_fields_def field_or_def json_opt_str_def split: option.splits)
  ultimately have "event_from_fields (event_fields e) = Inr e"
    by (simp add: event_from_fields_def) (simp add: event_fields_def required_field_def raw_str_def raw_scope_ref_str,
        cases e, simp)
  then show ?thesis using event_keys [of e] by (simp add: event_from_dict_def event_as_dict_def)
qed

section \<open>The stream\<close>

datatype stream_line = Line_Bad | Line_Json json

datatype stream_file = Stream_Missing | Stream_Unreadable | Stream_Lines "stream_line list"

text \<open>The file system may refuse to write the stream.\<close>

record support_log =
  lg_file :: stream_file
  lg_writable :: bool

definition line_event :: "stream_line \<Rightarrow> support_event res" where
  "line_event l = (case l of Line_Bad \<Rightarrow> Inl support_audit_failed | Line_Json v \<Rightarrow> event_from_dict v)"

text \<open>\<open>_records_for_write\<close>.\<close>

definition stream_events :: "stream_file \<Rightarrow> support_event list res" where
  "stream_events f =
     (case f of
        Stream_Missing \<Rightarrow> Inr []
      | Stream_Unreadable \<Rightarrow> Inl support_audit_failed
      | Stream_Lines ls \<Rightarrow> map_res line_event ls)"

text \<open>\<open>_deletion_semantics\<close>: everything but the time of the event.\<close>

definition deletion_semantics :: "support_event \<Rightarrow> (string \<times> json) list" where
  "deletion_semantics e = without_key ''occurred_at'' (event_fields e)"

definition already_recorded :: "support_event \<Rightarrow> support_event list \<Rightarrow> bool" where
  "already_recorded e es \<longleftrightarrow> list_ex (\<lambda>x. ev_lifecycle x = AL_DELETED \<and> ev_result x = AR_DELETED
     \<and> ev_artifact_ref x \<noteq> None \<and> deletion_semantics x = deletion_semantics e) es"

definition append_line :: "stream_line \<Rightarrow> stream_file \<Rightarrow> stream_file" where
  "append_line l f = (case f of Stream_Lines ls \<Rightarrow> Stream_Lines (ls @ [l]) | _ \<Rightarrow> Stream_Lines [l])"

definition write_event :: "support_event \<Rightarrow> support_log \<Rightarrow> unit res \<times> support_log" where
  "write_event e s =
     (if \<not> lg_writable s then (Inl support_audit_failed, s)
      else case (if ev_lifecycle e = AL_DELETED
                 then bind_res (stream_events (lg_file s)) (\<lambda>es. Inr (already_recorded e es)) else Inr False) of
        Inl x \<Rightarrow> (Inl x, s)
      | Inr True \<Rightarrow> (Inr (), s)
      | Inr False \<Rightarrow>
          if lg_file s = Stream_Unreadable then (Inl support_audit_failed, s)
          else (Inr (), s\<lparr>lg_file := append_line (Line_Json (event_as_dict e)) (lg_file s)\<rparr>))"

text \<open>\<open>record_deleted_support_artifacts\<close>, the time of each event an argument.\<close>

fun record_deleted :: "(string \<Rightarrow> string) \<Rightarrow> support_proof list \<Rightarrow> support_log \<Rightarrow> unit res \<times> support_log" where
  "record_deleted at [] s = (Inr (), s)"
| "record_deleted at (p # ps) s =
     then_op (\<lambda>s. case proof_event p (at (pf_artifact_ref p)) of
                    Inl x \<Rightarrow> (Inl x, s) | Inr e \<Rightarrow> write_event e s)
       (\<lambda>_. record_deleted at ps) s"

section \<open>Artifact metadata\<close>

record support_artifact =
  sa_artifact_ref :: string
  sa_reference :: storage_reference
  sa_request_ref :: string
  sa_context :: scope_context
  sa_run_ref :: string
  sa_decision_ref :: string
  sa_subject_ref :: string
  sa_role_ref :: string
  sa_capability_ref :: string
  sa_purpose :: support_purpose
  sa_authority_ref :: string
  sa_approvals :: "support_approval list"
  sa_allowed :: "support_class list"
  sa_selection_identity :: string
  sa_selected :: "support_class list"
  sa_created_at :: string
  sa_expires_at :: string

definition artifact_post_init :: "support_artifact \<Rightarrow> support_artifact res" where
  "artifact_post_init a = bind_res (guards (
     identity_checks [sa_artifact_ref a, sa_request_ref a, sa_run_ref a, sa_decision_ref a, sa_subject_ref a,
       sa_role_ref a, sa_capability_ref a, sa_authority_ref a, sa_selection_identity a]
     @ [(sg_artifact (sa_reference a) \<noteq> ST_SUPPORT_CONTENT \<or> sg_plane (sa_reference a) \<noteq> PL_DURABLE, support_invalid)]
     @ identity_checks (context_names (sa_context a))
     @ [(sg_path (sa_reference a) \<noteq> ''support-content/'' @ sa_artifact_ref a @ ''.zip'', conflict),
        (sg_scope_ref (sa_reference a) \<noteq> Some (sc_scope_ref (sa_context a))
           \<or> sg_run_ref (sa_reference a) \<noteq> Some (sa_run_ref a), conflict),
        (sa_approvals a = [], support_invalid)]
     @ time_checks [sa_created_at a, sa_expires_at a])) (\<lambda>_. Inr a)"

definition artifact_as_dict :: "support_artifact \<Rightarrow> json" where
  "artifact_as_dict a = JObj [
     (''contract_version'', JStr ''1.0''),
     (''artifact_ref'', JStr (sa_artifact_ref a)),
     (''reference'', reference_as_dict (sa_reference a)),
     (''access_request_ref'', JStr (sa_request_ref a)),
     (''scope_context'', scope_context_as_dict (sa_context a)),
     (''run_ref'', JStr (sa_run_ref a)),
     (''decision_ref'', JStr (sa_decision_ref a)),
     (''support_subject_ref'', JStr (sa_subject_ref a)),
     (''support_role_ref'', JStr (sa_role_ref a)),
     (''support_capability_ref'', JStr (sa_capability_ref a)),
     (''purpose'', JStr (value_in purpose_values (sa_purpose a))),
     (''authority_ref'', JStr (sa_authority_ref a)),
     (''approvals'', approvals_json (sa_approvals a)),
     (''allowed_artifact_classes'', classes_json (sa_allowed a)),
     (''selection_identity'', JStr (sa_selection_identity a)),
     (''selected_artifact_classes'', classes_json (sa_selected a)),
     (''created_at'', JStr (sa_created_at a)),
     (''expires_at'', JStr (sa_expires_at a))]"

definition artifact_from_fields :: "(string \<times> json) list \<Rightarrow> support_artifact res" where
  "artifact_from_fields kvs =
     bind_res (required_field ''contract_version'' kvs) (\<lambda>version.
     bind_res (required_field ''artifact_ref'' kvs) (\<lambda>artifact.
     bind_res (bind_res (required_field ''reference'' kvs) reference_from_dict) (\<lambda>reference.
     bind_res (required_field ''access_request_ref'' kvs) (\<lambda>request.
     bind_res (bind_res (required_field ''scope_context'' kvs) scope_context_from_dict) (\<lambda>ctx.
     bind_res (required_field ''run_ref'' kvs) (\<lambda>run.
     bind_res (required_field ''decision_ref'' kvs) (\<lambda>decision.
     bind_res (required_field ''selection_identity'' kvs) (\<lambda>selection.
     bind_res (required_field ''support_subject_ref'' kvs) (\<lambda>subject.
     bind_res (required_field ''support_role_ref'' kvs) (\<lambda>role.
     bind_res (required_field ''support_capability_ref'' kvs) (\<lambda>capability.
     bind_res (bind_res (required_field ''purpose'' kvs) (member_of purpose_values)) (\<lambda>purpose.
     bind_res (required_field ''authority_ref'' kvs) (\<lambda>authority.
     bind_res (bind_res (required_field ''approvals'' kvs) approvals_from) (\<lambda>approvals.
     bind_res (bind_res (required_field ''allowed_artifact_classes'' kvs) classes_from) (\<lambda>allowed.
     bind_res (bind_res (required_field ''selected_artifact_classes'' kvs) classes_from) (\<lambda>selected.
     bind_res (required_field ''created_at'' kvs) (\<lambda>created.
     bind_res (required_field ''expires_at'' kvs) (\<lambda>expires.
       if version \<noteq> JStr ''1.0'' then Inl support_invalid
       else artifact_post_init \<lparr>
         sa_artifact_ref = raw_str artifact, sa_reference = reference, sa_request_ref = raw_str request,
         sa_context = ctx, sa_run_ref = raw_str run, sa_decision_ref = raw_str decision,
         sa_subject_ref = raw_str subject, sa_role_ref = raw_str role, sa_capability_ref = raw_str capability,
         sa_purpose = purpose, sa_authority_ref = raw_str authority, sa_approvals = approvals,
         sa_allowed = allowed, sa_selection_identity = raw_str selection, sa_selected = selected,
         sa_created_at = raw_str created, sa_expires_at = raw_str expires\<rparr>))))))))))))))))))"

definition artifact_from_dict :: "json \<Rightarrow> support_artifact res" where
  "artifact_from_dict v =
     (case v of
        JObj kvs \<Rightarrow> catch_as SUPPORT_CONTENT_UNAVAILABLE (artifact_from_fields kvs)
      | _ \<Rightarrow> Inl support_unavailable)"

text \<open>\<open>ControlledSupportDeletionRecord.from_artifact\<close>.\<close>

definition artifact_proof :: "support_artifact \<Rightarrow> support_proof res" where
  "artifact_proof a = proof_post_init \<lparr>
     pf_artifact_ref = sa_artifact_ref a, pf_request_ref = sa_request_ref a, pf_context = sa_context a,
     pf_run_ref = sa_run_ref a, pf_decision_ref = sa_decision_ref a, pf_subject_ref = sa_subject_ref a,
     pf_role_ref = sa_role_ref a, pf_capability_ref = sa_capability_ref a, pf_purpose = sa_purpose a,
     pf_authority_ref = sa_authority_ref a, pf_approvals = sa_approvals a, pf_allowed = sa_allowed a,
     pf_selected = sa_selected a, pf_created_at = sa_created_at a, pf_expires_at = sa_expires_at a\<rparr>"

definition wf_artifact :: "support_artifact \<Rightarrow> bool" where
  "wf_artifact a \<longleftrightarrow> artifact_post_init a = Inr a \<and> wf_reference (sa_reference a)
     \<and> wf_context (sa_context a) \<and> list_all wf_approval (sa_approvals a)"

lemma artifact_post_init_same: "artifact_post_init a = Inr b \<Longrightarrow> b = a"
  by (auto simp: artifact_post_init_def bind_res_Inr_iff)

lemma scope_context_dict [simp]:
  assumes "wf_context c"
  shows "scope_context_from_dict (scope_context_as_dict c) = Inr c"
  using assms wf_context_nonempty [OF assms]
  by (simp add: scope_context_from_dict_def scope_context_as_dict_def keys_of_def field_or_def raw_str_def
      raw_scope_ref_str wf_context_def)

lemma artifact_round_trip [simp]:
  assumes "wf_artifact a"
  shows "artifact_from_dict (artifact_as_dict a) = Inr a"
proof -
  have "wf_reference (sa_reference a)" "wf_context (sa_context a)" "list_all wf_approval (sa_approvals a)"
    "artifact_post_init a = Inr a"
    using assms by (simp_all add: wf_artifact_def)
  then show ?thesis
    by (simp add: artifact_from_dict_def artifact_as_dict_def artifact_from_fields_def required_field_def raw_str_def,
        cases a, simp)
qed

section \<open>The stream only grows\<close>

lemma write_event_extends:
  "write_event e s = (r, s') \<Longrightarrow> lg_writable s' = lg_writable s
     \<and> (lg_file s' = lg_file s \<or> lg_file s' = append_line (Line_Json (event_as_dict e)) (lg_file s))"
  by (auto simp: write_event_def split: if_splits sum.splits bool.splits)

text \<open>After a successful write the stream holds the event, but for its time.\<close>

lemma write_deleted_event_recorded:
  assumes "write_event e s = (Inr (), s')" "ev_lifecycle e = AL_DELETED" "ev_result e = AR_DELETED"
    and "ev_artifact_ref e \<noteq> None" "wf_event e"
  shows "\<exists>es. stream_events (lg_file s') = Inr es \<and> already_recorded e es"
proof -
  from assms(1,2) obtain es where es: "stream_events (lg_file s) = Inr es"
    by (auto simp: write_event_def bind_res_Inr_iff split: if_splits sum.splits)
  show ?thesis
  proof (cases "already_recorded e es")
    case True
    with assms es show ?thesis by (simp add: write_event_def split: if_splits)
  next
    case False
    have appended: "map_res line_event (ls @ [Line_Json (event_as_dict e)]) = Inr (es' @ [e])"
      if "map_res line_event ls = Inr es'" for ls es'
      using that assms(5) by (induction ls arbitrary: es') (auto simp: line_event_def bind_res_Inr_iff)
    from False es have "stream_events (lg_file s') = Inr (es @ [e])"
      using assms appended
      by (auto simp: write_event_def stream_events_def append_line_def line_event_def split: if_splits stream_file.splits)
    moreover have "already_recorded e (es @ [e])" using assms by (simp add: already_recorded_def)
    ultimately show ?thesis by blast
  qed
qed

end
