(* ===== verification/Deletion_Audit.thy ===== *)
theory Deletion_Audit
  imports Support_Log
begin

text \<open>
  The values of the deletion lifecycle (\<open>src/k_slide/deletion.py\<close>): reasons, states, targets and their
  result codes, legal-hold decisions, requests, results, and the durable audit of one deletion with
  its validation and JSON form. The contract version, a constant, is not a field.
\<close>

section \<open>Enumerations\<close>

abbreviation deletion_invalid :: err where
  "deletion_invalid \<equiv> KSlideError DELETION_INVALID"

datatype deletion_reason = DR_EXPLICIT | DR_RETENTION_EXPIRY

type_synonym deletion_outcome = deletion_state

datatype target_status = TS_PLANNED | TS_DELETED | TS_ABSENT | TS_FAILED

datatype deletion_code =
    RC_NONE | RC_DELETED | RC_ALREADY_ABSENT | RC_TARGET_DELETE_FAILED | RC_TARGET_ADDED | RC_PATH_UNSAFE |
    RC_HOLD_LOOKUP_UNAVAILABLE | RC_HOLD_ACTIVE | RC_HOLD_STATE_UNKNOWN | RC_CANCELLATION_REQUESTED |
    RC_ACTIVE_RUN | RC_NONTERMINAL_RUN | RC_TARGET_IDENTITY_MISMATCH

datatype deletion_class =
    DC_SOURCE_SNAPSHOT | DC_SOURCE_MANIFEST | DC_INPUT_INVENTORY | DC_RUN_MANIFEST | DC_RECOVERY_GUIDE |
    DC_SESSION_BINDING | DC_RUNTIME_METADATA | DC_RUN_STATE | DC_WORK_QUEUE | DC_EXECUTION_JOB |
    DC_ADMISSION_RECORD | DC_ADMISSION_QUEUE | DC_ADMISSION_CONTROL | DC_NORMALIZED_RENDER |
    DC_NATIVE_EXTRACTION | DC_NORMALIZATION_MANIFEST | DC_NORMALIZATION_ERROR | DC_REGION_CROP |
    DC_OCR_METADATA | DC_EVIDENCE_IR | DC_EXTRACTION_ERROR | DC_TRANSLATION_PATCH | DC_CANONICAL_IR |
    DC_REPORT | DC_VERIFICATION | DC_METRICS | DC_FAILURE_MARKER | DC_COMPLETION_MARKER |
    DC_SUPPORT_CONTENT | DC_RUN_SCOPED_CONTENT

datatype hold_status = HS_HOLD | HS_RELEASE | HS_UNKNOWN

definition reason_values :: "(string \<times> deletion_reason) list" where
  "reason_values = [(''EXPLICIT'', DR_EXPLICIT), (''RETENTION_EXPIRY'', DR_RETENTION_EXPIRY)]"

text \<open>\<open>DeletionState\<close> and \<open>DeletionOutcome\<close> have the same members.\<close>

definition deletion_state_values :: "(string \<times> deletion_state) list" where
  "deletion_state_values = [(''PLANNED'', DS_PLANNED), (''IN_PROGRESS'', DS_IN_PROGRESS), (''BLOCKED'', DS_BLOCKED),
     (''PARTIAL'', DS_PARTIAL), (''COMPLETE'', DS_COMPLETE)]"

definition target_status_values :: "(string \<times> target_status) list" where
  "target_status_values = [(''PLANNED'', TS_PLANNED), (''DELETED'', TS_DELETED), (''ABSENT'', TS_ABSENT), (''FAILED'', TS_FAILED)]"

definition deletion_code_values :: "(string \<times> deletion_code) list" where
  "deletion_code_values = [
     (''NONE'', RC_NONE), (''DELETED'', RC_DELETED), (''ALREADY_ABSENT'', RC_ALREADY_ABSENT),
     (''TARGET_DELETE_FAILED'', RC_TARGET_DELETE_FAILED), (''TARGET_ADDED'', RC_TARGET_ADDED),
     (''PATH_UNSAFE'', RC_PATH_UNSAFE), (''HOLD_LOOKUP_UNAVAILABLE'', RC_HOLD_LOOKUP_UNAVAILABLE),
     (''HOLD_ACTIVE'', RC_HOLD_ACTIVE), (''HOLD_STATE_UNKNOWN'', RC_HOLD_STATE_UNKNOWN),
     (''CANCELLATION_REQUESTED'', RC_CANCELLATION_REQUESTED), (''ACTIVE_RUN'', RC_ACTIVE_RUN),
     (''NONTERMINAL_RUN'', RC_NONTERMINAL_RUN), (''TARGET_IDENTITY_MISMATCH'', RC_TARGET_IDENTITY_MISMATCH)]"

definition deletion_class_values :: "(string \<times> deletion_class) list" where
  "deletion_class_values = [
     (''source_snapshot'', DC_SOURCE_SNAPSHOT), (''source_manifest'', DC_SOURCE_MANIFEST),
     (''input_inventory'', DC_INPUT_INVENTORY), (''run_manifest'', DC_RUN_MANIFEST),
     (''recovery_guide'', DC_RECOVERY_GUIDE), (''session_binding'', DC_SESSION_BINDING),
     (''runtime_metadata'', DC_RUNTIME_METADATA), (''run_state'', DC_RUN_STATE),
     (''work_queue'', DC_WORK_QUEUE), (''execution_job'', DC_EXECUTION_JOB),
     (''admission_record'', DC_ADMISSION_RECORD), (''admission_queue'', DC_ADMISSION_QUEUE),
     (''admission_control'', DC_ADMISSION_CONTROL), (''normalized_render'', DC_NORMALIZED_RENDER),
     (''native_extraction'', DC_NATIVE_EXTRACTION), (''normalization_manifest'', DC_NORMALIZATION_MANIFEST),
     (''normalization_error'', DC_NORMALIZATION_ERROR), (''region_crop'', DC_REGION_CROP),
     (''ocr_metadata'', DC_OCR_METADATA), (''evidence_ir'', DC_EVIDENCE_IR),
     (''extraction_error'', DC_EXTRACTION_ERROR), (''translation_patch'', DC_TRANSLATION_PATCH),
     (''canonical_ir'', DC_CANONICAL_IR), (''report'', DC_REPORT), (''verification'', DC_VERIFICATION),
     (''metrics'', DC_METRICS), (''failure_marker'', DC_FAILURE_MARKER),
     (''completion_marker'', DC_COMPLETION_MARKER), (''support_content'', DC_SUPPORT_CONTENT),
     (''run_scoped_content'', DC_RUN_SCOPED_CONTENT)]"

definition hold_status_values :: "(string \<times> hold_status) list" where
  "hold_status_values = [(''HOLD'', HS_HOLD), (''RELEASE'', HS_RELEASE), (''UNKNOWN'', HS_UNKNOWN)]"

lemma member_of_reason [simp]: "member_of reason_values (JStr (value_in reason_values x)) = Inr x"
  by (cases x) (simp_all add: member_of_def reason_values_def)

lemma member_of_deletion_state [simp]:
  "member_of deletion_state_values (JStr (value_in deletion_state_values x)) = Inr x"
  by (cases x) (simp_all add: member_of_def deletion_state_values_def)

lemma member_of_target_status [simp]:
  "member_of target_status_values (JStr (value_in target_status_values x)) = Inr x"
  by (cases x) (simp_all add: member_of_def target_status_values_def)

lemma deletion_code_names_distinct: "distinct (map fst deletion_code_values)"
  by code_simp

lemma deletion_class_names_distinct: "distinct (map fst deletion_class_values)"
  by code_simp

lemma member_of_deletion_code [simp]:
  "member_of deletion_code_values (JStr (value_in deletion_code_values x)) = Inr x"
proof (rule member_of_value_in [OF deletion_code_names_distinct])
  show "x \<in> set (map snd deletion_code_values)"
    by (cases x) (simp_all only: deletion_code_values_def list.map snd_conv list.set insert_iff simp_thms)
qed

lemma deletion_class_member: "x \<in> set (map snd deletion_class_values)"
  by (cases x) (simp_all only: deletion_class_values_def list.map snd_conv list.set insert_iff simp_thms)

lemma member_of_deletion_class [simp]:
  "member_of deletion_class_values (JStr (value_in deletion_class_values x)) = Inr x"
  by (rule member_of_value_in [OF deletion_class_names_distinct deletion_class_member])

text \<open>The wire name of a class.\<close>

definition class_name :: "deletion_class \<Rightarrow> string" where
  "class_name c = value_in deletion_class_values c"

lemma class_name_inject: "class_name c = class_name d \<longleftrightarrow> c = d"
  using member_of_deletion_class by (metis class_name_def sum.inject(2))

section \<open>Opaque references\<close>

definition deletion_forbidden :: "string list" where
  "deletion_forbidden = [''access'', ''secret'', ''token'', ''password'', ''credential'', ''source'', ''content'',
     ''prompt'', ''path'', ''text'', ''image'', ''korean'', ''business'']"

definition opaque :: "string \<Rightarrow> bool" where
  "opaque s \<longleftrightarrow> matches_identifier s \<and> \<not> contains_word deletion_forbidden s"

definition opaque_checks :: "string list \<Rightarrow> (bool \<times> err) list" where
  "opaque_checks = map (\<lambda>s. (\<not> opaque s, deletion_invalid))"

definition stamp_checks :: "string list \<Rightarrow> (bool \<times> err) list" where
  "stamp_checks = map (\<lambda>s. (\<not> matches_timestamp s, corrupt))"

section \<open>Legal-hold decisions\<close>

record hold_decision =
  hd_scope_ref :: string
  hd_run_ref :: string
  hd_status :: hold_status
  hd_authority_ref :: string
  hd_decision_ref :: string
  hd_decided_at :: string

definition hold_post_init :: "hold_decision \<Rightarrow> hold_decision res" where
  "hold_post_init h = bind_res (guards (
     opaque_checks [hd_scope_ref h, hd_run_ref h, hd_authority_ref h, hd_decision_ref h]
     @ stamp_checks [hd_decided_at h])) (\<lambda>_. Inr h)"

definition wf_hold :: "hold_decision \<Rightarrow> bool" where
  "wf_hold h \<longleftrightarrow> hold_post_init h = Inr h"

definition hold_as_dict :: "hold_decision \<Rightarrow> json" where
  "hold_as_dict h = JObj [
     (''contract_version'', JStr ''1.0''),
     (''scope_ref'', JStr (hd_scope_ref h)),
     (''run_ref'', JStr (hd_run_ref h)),
     (''status'', JStr (value_in hold_status_values (hd_status h))),
     (''authority_ref'', JStr (hd_authority_ref h)),
     (''decision_ref'', JStr (hd_decision_ref h)),
     (''decided_at'', JStr (hd_decided_at h))]"

text \<open>
  What a lookup gives: it raises, returns something that is not a decision, or a decision, which was
  validated when it was built.
\<close>

datatype hold_answer = Hold_Raises | Hold_Foreign | Hold_Decision hold_decision

text \<open>\<open>_safe_hold\<close>.\<close>

definition safe_hold :: "hold_answer \<Rightarrow> string \<Rightarrow> string \<Rightarrow> hold_decision res" where
  "safe_hold a scope run =
     (case a of
        Hold_Decision h \<Rightarrow>
          if hd_scope_ref h \<noteq> scope \<or> hd_run_ref h \<noteq> run then Inl (KSlideError LEGAL_HOLD_UNKNOWN) else Inr h
      | _ \<Rightarrow> Inl (KSlideError LEGAL_HOLD_UNKNOWN))"

text \<open>\<open>ReferenceLegalHoldProvider\<close>: decisions by scope and run, and a default.\<close>

record hold_registry =
  hr_default :: hold_status
  hr_authority :: string
  hr_decisions :: "((string \<times> string) \<times> hold_decision) list"
  hr_revision :: nat

definition default_decision_ref :: "string \<Rightarrow> string \<Rightarrow> hold_status \<Rightarrow> string" where
  "default_decision_ref scope run st = ''decision-default-'' @
     take 24 (stable_revision (JArr [JStr scope, JStr run, JStr (value_in hold_status_values st)]))"

definition set_decision ::
  "hold_registry \<Rightarrow> string \<Rightarrow> string \<Rightarrow> hold_status \<Rightarrow> string option \<Rightarrow> string \<Rightarrow> hold_decision res \<times> hold_registry"
where
  "set_decision r scope run st given now =
     (case guards [(\<not> opaque scope, deletion_invalid), (\<not> opaque run, deletion_invalid), (st = HS_UNKNOWN, deletion_invalid)] of
        Inl e \<Rightarrow> (Inl e, r)
      | Inr _ \<Rightarrow>
          let n = hr_revision r + 1; r1 = r\<lparr>hr_revision := n\<rparr>;
              fresh = ''decision-'' @ pad_nat 8 n;
              dref = (case given of None \<Rightarrow> fresh | Some d \<Rightarrow> if d = [] then fresh else d) in
          case hold_post_init \<lparr>hd_scope_ref = scope, hd_run_ref = run, hd_status = st, hd_authority_ref = hr_authority r,
                 hd_decision_ref = dref, hd_decided_at = now\<rparr> of
            Inl e \<Rightarrow> (Inl e, r1)
          | Inr h \<Rightarrow> (Inr h, r1\<lparr>hr_decisions := AList.update (scope, run) h (hr_decisions r)\<rparr>))"

definition registry_lookup :: "hold_registry \<Rightarrow> string \<Rightarrow> string \<Rightarrow> string \<Rightarrow> hold_decision res" where
  "registry_lookup r scope run now =
     (if \<not> opaque scope \<or> \<not> opaque run then Inl deletion_invalid
      else case map_of (hr_decisions r) (scope, run) of
        Some h \<Rightarrow> Inr h
      | None \<Rightarrow> hold_post_init \<lparr>hd_scope_ref = scope, hd_run_ref = run, hd_status = hr_default r,
          hd_authority_ref = hr_authority r, hd_decision_ref = default_decision_ref scope run (hr_default r),
          hd_decided_at = now\<rparr>)"

definition registry_answer :: "hold_registry \<Rightarrow> string \<Rightarrow> string \<Rightarrow> string \<Rightarrow> hold_answer" where
  "registry_answer r scope run now =
     (case registry_lookup r scope run now of Inl _ \<Rightarrow> Hold_Raises | Inr h \<Rightarrow> Hold_Decision h)"

section \<open>Requests and targets\<close>

record deletion_request =
  dq_id :: string
  dq_scope_ref :: string
  dq_run_ref :: string
  dq_reason :: deletion_reason
  dq_requested_at :: string

definition deletion_request_post_init :: "deletion_request \<Rightarrow> deletion_request res" where
  "deletion_request_post_init q = bind_res (guards (
     opaque_checks [dq_id q, dq_scope_ref q, dq_run_ref q] @ stamp_checks [dq_requested_at q])) (\<lambda>_. Inr q)"

record target_record =
  tg_ref :: string
  tg_class :: deletion_class
  tg_status :: target_status
  tg_code :: deletion_code

definition target_post_init :: "target_record \<Rightarrow> target_record res" where
  "target_post_init t = (if opaque (tg_ref t) then Inr t else Inl deletion_invalid)"

definition target_as_dict :: "target_record \<Rightarrow> json" where
  "target_as_dict t = JObj [
     (''target_ref'', JStr (tg_ref t)),
     (''artifact_class'', JStr (class_name (tg_class t))),
     (''status'', JStr (value_in target_status_values (tg_status t))),
     (''result_code'', JStr (value_in deletion_code_values (tg_code t)))]"

definition target_from_item :: "json \<Rightarrow> target_record res" where
  "target_from_item v =
     (case v of
        JObj kvs \<Rightarrow>
          bind_res (required_field ''target_ref'' kvs) (\<lambda>r.
          bind_res (required_field ''artifact_class'' kvs) (\<lambda>c.
          bind_res (required_field ''status'' kvs) (\<lambda>s.
          bind_res (required_field ''result_code'' kvs) (\<lambda>code.
            if \<not> opaque (raw_str r) then Inl deletion_invalid
            else catch_as STATE_CORRUPT (
              bind_res (member_of deletion_class_values c) (\<lambda>cls.
              bind_res (member_of target_status_values s) (\<lambda>st.
              bind_res (member_of deletion_code_values code) (\<lambda>rc.
                Inr \<lparr>tg_ref = raw_str r, tg_class = cls, tg_status = st, tg_code = rc\<rparr>))))))))
      | _ \<Rightarrow> Inl PyTypeError)"

section \<open>Audits\<close>

record deletion_audit =
  au_id :: string
  au_scope_ref :: string
  au_run_ref :: string
  au_reason :: deletion_reason
  au_generation :: string
  au_authority_ref :: string
  au_hold_ref :: string
  au_requested_at :: string
  au_updated_at :: string
  au_retry :: int
  au_state :: deletion_state
  au_outcome :: deletion_outcome
  au_code :: deletion_code
  au_targets :: "target_record list"
  au_anchors :: "(string \<times> string) list"
  au_identity :: "string option"
  au_support :: "support_proof list"

definition audit_checks :: "deletion_audit \<Rightarrow> (bool \<times> err) list" where
  "audit_checks a =
     opaque_checks [au_id a, au_scope_ref a, au_run_ref a]
     @ [(\<not> matches_sha256 (au_generation a), corrupt)]
     @ opaque_checks [au_authority_ref a, au_hold_ref a]
     @ stamp_checks [au_requested_at a, au_updated_at a]
     @ [(au_retry a < 0, corrupt),
        (100000 < length (au_targets a), corrupt),
        (\<not> distinct (map tg_ref (au_targets a)), corrupt),
        (\<not> distinct (map fst (au_anchors a))
           \<or> \<not> list_all (\<lambda>(n, r). matches_identifier n \<and> matches_sha256 r) (au_anchors a), corrupt),
        (\<not> (case au_identity a of None \<Rightarrow> True | Some i \<Rightarrow> matches_sha256 i), corrupt),
        (\<not> distinct (map pf_artifact_ref (au_support a))
           \<or> \<not> list_all (\<lambda>p. sc_scope_ref (pf_context p) = au_scope_ref a \<and> pf_run_ref p = au_run_ref a) (au_support a),
         corrupt)]"

definition audit_post_init :: "deletion_audit \<Rightarrow> deletion_audit res" where
  "audit_post_init a = bind_res (guards (audit_checks a)) (\<lambda>_. Inr a)"

definition audit_fields :: "deletion_audit \<Rightarrow> (string \<times> json) list" where
  "audit_fields a = [
     (''contract_version'', JStr ''1.0''),
     (''deletion_id'', JStr (au_id a)),
     (''scope_ref'', JStr (au_scope_ref a)),
     (''run_ref'', JStr (au_run_ref a)),
     (''reason'', JStr (value_in reason_values (au_reason a))),
     (''target_generation_ref'', JStr (au_generation a)),
     (''authority_ref'', JStr (au_authority_ref a)),
     (''hold_decision_ref'', JStr (au_hold_ref a)),
     (''requested_at'', JStr (au_requested_at a)),
     (''updated_at'', JStr (au_updated_at a)),
     (''retry_count'', JInt (au_retry a)),
     (''state'', JStr (value_in deletion_state_values (au_state a))),
     (''outcome'', JStr (value_in deletion_state_values (au_outcome a))),
     (''error_code'', JStr (value_in deletion_code_values (au_code a))),
     (''targets'', JArr (map target_as_dict (au_targets a))),
     (''generation_anchors'', JObj (map (\<lambda>(n, r). (n, JStr r)) (au_anchors a)))]
   @ (case au_identity a of None \<Rightarrow> [] | Some i \<Rightarrow> [(''identity_ref'', JStr i)])
   @ (if au_support a = [] then [] else [(''support_recovery'', JArr (map proof_as_dict (au_support a)))])"

definition audit_as_dict :: "deletion_audit \<Rightarrow> json" where
  "audit_as_dict a = JObj (audit_fields a)"

definition audit_names :: "string list" where
  "audit_names = [''contract_version'', ''deletion_id'', ''scope_ref'', ''run_ref'', ''reason'', ''target_generation_ref'',
     ''authority_ref'', ''hold_decision_ref'', ''requested_at'', ''updated_at'', ''retry_count'', ''state'', ''outcome'',
     ''error_code'', ''targets'', ''generation_anchors'', ''identity_ref'', ''support_recovery'']"

text \<open>\<open>generation_anchors\<close>: an object of strings, sorted by name.\<close>

definition anchors_from :: "json \<Rightarrow> (string \<times> string) list res" where
  "anchors_from v =
     (case v of
        JObj kvs \<Rightarrow>
          if list_all (\<lambda>kv. json_str (snd kv) \<noteq> None) kvs
          then Inr (map (\<lambda>kv. (fst kv, raw_str (snd kv))) (sort_fields kvs)) else Inl corrupt
      | _ \<Rightarrow> Inl corrupt)"

text \<open>
  The constructor after the decoding of the targets, the anchors and the support facts: the version,
  the leading checks, then the lifecycle values.
\<close>

definition audit_construct ::
  "(string \<times> json) list \<Rightarrow> target_record list \<Rightarrow> (string \<times> string) list \<Rightarrow> support_proof list \<Rightarrow> deletion_audit res"
where
  "audit_construct kvs targets anchors proofs =
     (if field_or JNull ''contract_version'' kvs \<noteq> JStr ''1.0'' then Inl unsupported_version
      else
        let text_of = (\<lambda>k. raw_str (field_or JNull k kvs)) in
        bind_res (guards (opaque_checks [text_of ''deletion_id'', text_of ''scope_ref'', text_of ''run_ref'']
            @ [(\<not> matches_sha256 (text_of ''target_generation_ref''), corrupt)]
            @ opaque_checks [text_of ''authority_ref'', text_of ''hold_decision_ref'']
            @ stamp_checks [text_of ''requested_at'', text_of ''updated_at'']
            @ [(raw_int (field_or JNull ''retry_count'' kvs) < 0, corrupt)])) (\<lambda>_.
        bind_res (member_of reason_values (field_or JNull ''reason'' kvs)) (\<lambda>reason.
        bind_res (member_of deletion_state_values (field_or JNull ''state'' kvs)) (\<lambda>state.
        bind_res (member_of deletion_state_values (field_or JNull ''outcome'' kvs)) (\<lambda>outcome.
        bind_res (member_of deletion_code_values (field_or JNull ''error_code'' kvs)) (\<lambda>code.
          audit_post_init \<lparr>
            au_id = text_of ''deletion_id'', au_scope_ref = text_of ''scope_ref'', au_run_ref = text_of ''run_ref'',
            au_reason = reason, au_generation = text_of ''target_generation_ref'',
            au_authority_ref = text_of ''authority_ref'', au_hold_ref = text_of ''hold_decision_ref'',
            au_requested_at = text_of ''requested_at'', au_updated_at = text_of ''updated_at'',
            au_retry = raw_int (field_or JNull ''retry_count'' kvs), au_state = state, au_outcome = outcome,
            au_code = code, au_targets = targets, au_anchors = anchors,
            au_identity = raw_opt_identifier (field_or JNull ''identity_ref'' kvs), au_support = proofs\<rparr>))))))"

text \<open>A record without \<open>targets\<close> is read before the handler of Python's exceptions.\<close>

definition audit_from_dict :: "json \<Rightarrow> deletion_audit res" where
  "audit_from_dict v =
     (case v of
        JObj kvs \<Rightarrow>
          if \<not> keys_of kvs \<subseteq> set audit_names then Inl corrupt
          else (case map_of kvs ''targets'' of
             None \<Rightarrow> Inl PyKeyError
           | Some (JArr items) \<Rightarrow>
               catch_as STATE_CORRUPT (
                 bind_res (map_res target_from_item items) (\<lambda>targets.
                 bind_res (anchors_from (field_or (JObj []) ''generation_anchors'' kvs)) (\<lambda>anchors.
                 (case field_or (JArr []) ''support_recovery'' kvs of
                    JArr ps \<Rightarrow>
                      if \<not> set (take 15 audit_names) \<subseteq> keys_of kvs then Inl PyKeyError
                      else bind_res (map_res proof_from_dict ps) (\<lambda>proofs. audit_construct kvs targets anchors proofs)
                  | _ \<Rightarrow> Inl corrupt))))
           | Some _ \<Rightarrow> Inl corrupt)
      | _ \<Rightarrow> Inl corrupt)"

section \<open>Results\<close>

record deletion_result =
  dx_request :: deletion_request
  dx_state :: deletion_state
  dx_outcome :: deletion_outcome
  dx_dry_run :: bool
  dx_retry :: int
  dx_code :: deletion_code
  dx_targets :: "target_record list"

definition result_as_dict :: "deletion_result \<Rightarrow> json" where
  "result_as_dict x = JObj [
     (''contract_version'', JStr ''1.0''),
     (''request'', JObj [
        (''deletion_id'', JStr (dq_id (dx_request x))),
        (''scope_ref'', JStr (dq_scope_ref (dx_request x))),
        (''run_ref'', JStr (dq_run_ref (dx_request x))),
        (''reason'', JStr (value_in reason_values (dq_reason (dx_request x)))),
        (''requested_at'', JStr (dq_requested_at (dx_request x)))]),
     (''state'', JStr (value_in deletion_state_values (dx_state x))),
     (''outcome'', JStr (value_in deletion_state_values (dx_outcome x))),
     (''dry_run'', JBool (dx_dry_run x)),
     (''retry_count'', JInt (dx_retry x)),
     (''error_code'', JStr (value_in deletion_code_values (dx_code x))),
     (''targets'', JArr (map target_as_dict (dx_targets x)))]"

end
