(* ===== verification/Deletion_Run.thy ===== *)
theory Deletion_Run
  imports Deletion_Audit
begin

text \<open>
  The deletion coordinator (\<open>DeletionCoordinator\<close> of \<open>src/k_slide/deletion.py\<close>) over any backend. A
  backend is the record of its operations on a state; the coordinator is one function of that state.
  Everything from the outside is an argument: the answers of the legal-hold provider (0: before the
  lock, 1: under it), the failure injector by the position of the target, the clock readings (0: the
  request; 1: a completed deletion whose generation changed; 2: a hold before the lock; 3: a hold
  under it; 4: a changed generation; 5: an active or unfinished run; 6: the start; 7: a partial end;
  8: all targets gone; 9: the end; 10 and 11: a cancellation request) and the times of support
  events.
\<close>

section \<open>The backend\<close>

record candidate =
  cd_class :: deletion_class
  cd_ref :: string
  cd_control :: bool

record backend_state =
  bs_generation :: string
  bs_active :: bool
  bs_terminal :: bool
  bs_canceled :: bool
  bs_anchors :: "(string \<times> string) list"

record 'w backend =
  db_scope_ref :: string
  db_run_ref :: string
  db_lock :: "'w \<Rightarrow> unit res"
  db_load :: "string \<Rightarrow> 'w \<Rightarrow> deletion_audit option res"
  db_save :: "deletion_audit \<Rightarrow> 'w \<Rightarrow> unit res \<times> 'w"
  db_state :: "'w \<Rightarrow> backend_state res"
  db_cancel :: "string \<Rightarrow> string \<Rightarrow> 'w \<Rightarrow> unit res \<times> 'w"
  db_targets :: "string \<Rightarrow> 'w \<Rightarrow> candidate list res"
  db_prepare :: "candidate \<Rightarrow> 'w \<Rightarrow> support_proof list res"
  db_delete :: "candidate \<Rightarrow> support_proof list \<Rightarrow> (string \<Rightarrow> string) \<Rightarrow> 'w \<Rightarrow> unit res \<times> 'w"
  db_cleanup :: "'w \<Rightarrow> unit res \<times> 'w"

record outside =
  os_holds :: "nat \<Rightarrow> hold_answer"
  os_inject :: "nat \<Rightarrow> candidate \<Rightarrow> bool"
  os_clock :: "nat \<Rightarrow> string"
  os_event_time :: "string \<Rightarrow> string"

text \<open>\<open>_target_ref\<close>.\<close>

definition target_ref :: "string \<Rightarrow> string \<Rightarrow> string \<Rightarrow> deletion_class \<Rightarrow> string" where
  "target_ref scope run deletion_id c = ''target-'' @
     take 40 (stable_revision (JArr [JStr scope, JStr run, JStr deletion_id, JStr (class_name c)]))"

section \<open>Generations\<close>

definition status_of_class :: "target_record list \<Rightarrow> string \<Rightarrow> target_status option" where
  "status_of_class ts name = map_of (rev (map (\<lambda>t. (class_name (tg_class t), tg_status t)) ts)) name"

definition generation_matches :: "backend_state \<Rightarrow> deletion_audit \<Rightarrow> bool" where
  "generation_matches s a =
     (if au_anchors a \<noteq> [] then
        set (map fst (bs_anchors s)) \<subseteq> set (map fst (au_anchors a))
        \<and> list_all (\<lambda>(name, reference).
             case map_of (bs_anchors s) name of
               Some current \<Rightarrow> current = reference
             | None \<Rightarrow> status_of_class (au_targets a) name \<noteq> None) (au_anchors a)
      else bs_generation s = au_generation a
        \<or> (bs_anchors s = []
           \<and> list_ex (\<lambda>t. tg_class t \<in> {DC_RUN_STATE, DC_EXECUTION_JOB, DC_ADMISSION_RECORD}) (au_targets a)))"

section \<open>Outcomes\<close>

definition result_of :: "deletion_request \<Rightarrow> deletion_audit \<Rightarrow> bool \<Rightarrow> deletion_result" where
  "result_of q a dry = \<lparr>dx_request = q, dx_state = au_state a, dx_outcome = au_outcome a, dx_dry_run = dry,
     dx_retry = au_retry a, dx_code = au_code a, dx_targets = au_targets a\<rparr>"

definition blocked_preview :: "deletion_request \<Rightarrow> int \<Rightarrow> deletion_code \<Rightarrow> deletion_result" where
  "blocked_preview q retry code = \<lparr>dx_request = q, dx_state = DS_BLOCKED, dx_outcome = DS_BLOCKED, dx_dry_run = True,
     dx_retry = retry, dx_code = code, dx_targets = []\<rparr>"

text \<open>\<open>existing.retry_count if existing else 0\<close>.\<close>

definition retry_so_far :: "deletion_audit option \<Rightarrow> int" where
  "retry_so_far a = (case a of None \<Rightarrow> 0 | Some x \<Rightarrow> au_retry x)"

text \<open>A first audit without targets, and the replacement that blocks one.\<close>

definition fresh_audit ::
  "deletion_request \<Rightarrow> string \<Rightarrow> string \<Rightarrow> string \<Rightarrow> string \<Rightarrow> int \<Rightarrow> deletion_state \<Rightarrow> deletion_code \<Rightarrow> deletion_audit"
where
  "fresh_audit q generation authority hold updated retry state code = \<lparr>
     au_id = dq_id q, au_scope_ref = dq_scope_ref q, au_run_ref = dq_run_ref q, au_reason = dq_reason q,
     au_generation = generation, au_authority_ref = authority, au_hold_ref = hold,
     au_requested_at = dq_requested_at q, au_updated_at = updated, au_retry = retry, au_state = state,
     au_outcome = state, au_code = code, au_targets = [], au_anchors = [], au_identity = None, au_support = []\<rparr>"

definition no_generation :: string where
  "no_generation = replicate 64 (CHR ''0'')"

definition block :: "deletion_audit \<Rightarrow> string \<Rightarrow> deletion_code \<Rightarrow> deletion_audit" where
  "block a now code = a\<lparr>au_updated_at := now, au_state := DS_BLOCKED, au_outcome := DS_BLOCKED,
     au_code := code, au_retry := au_retry a + 1\<rparr>"

text \<open>\<open>replace\<close> validates; the audit is saved and reported.\<close>

definition save_and_report ::
  "'w backend \<Rightarrow> deletion_request \<Rightarrow> deletion_audit \<Rightarrow> 'w \<Rightarrow> deletion_result res \<times> 'w"
where
  "save_and_report bk q a =
     then_op (returns (audit_post_init a)) (\<lambda>a.
     then_op (db_save bk a) (\<lambda>_. returns (Inr (result_of q a False))))"

section \<open>Refusals\<close>

text \<open>The provider gave no usable decision.\<close>

definition refuse_unknown ::
  "'w backend \<Rightarrow> outside \<Rightarrow> deletion_request \<Rightarrow> deletion_audit option \<Rightarrow> bool \<Rightarrow> 'w \<Rightarrow> deletion_result res \<times> 'w"
where
  "refuse_unknown bk env q existing dry =
     (if dry then returns (Inr (blocked_preview q (retry_so_far existing) RC_HOLD_LOOKUP_UNAVAILABLE))
      else then_op (reads (db_lock bk)) (\<lambda>_.
        then_op (reads (db_load bk (dq_id q))) (\<lambda>loaded.
        then_op (returns (case loaded of Some a \<Rightarrow> Inr a | None \<Rightarrow>
            audit_post_init (fresh_audit q no_generation ''unknown-authority'' ''unknown-decision''
              (dq_requested_at q) 0 DS_BLOCKED RC_HOLD_LOOKUP_UNAVAILABLE))) (\<lambda>current.
          save_and_report bk q (block current (os_clock env 2) RC_HOLD_LOOKUP_UNAVAILABLE)))))"

definition hold_code :: "hold_decision \<Rightarrow> deletion_code" where
  "hold_code h = (if hd_status h = HS_HOLD then RC_HOLD_ACTIVE else RC_HOLD_STATE_UNKNOWN)"

text \<open>A decision that is not a release, once the lock is held.\<close>

definition refuse_held ::
  "'w backend \<Rightarrow> deletion_request \<Rightarrow> hold_decision \<Rightarrow> string \<Rightarrow> 'w \<Rightarrow> deletion_result res \<times> 'w"
where
  "refuse_held bk q h now =
     then_op (reads (db_load bk (dq_id q))) (\<lambda>loaded.
     then_op (returns (case loaded of Some a \<Rightarrow> Inr a | None \<Rightarrow>
         audit_post_init (fresh_audit q no_generation (hd_authority_ref h) (hd_decision_ref h)
           (dq_requested_at q) 0 DS_BLOCKED (hold_code h)))) (\<lambda>current.
       save_and_report bk q ((block current now (hold_code h))
         \<lparr>au_authority_ref := hd_authority_ref h, au_hold_ref := hd_decision_ref h\<rparr>)))"

text \<open>An active or unfinished run.\<close>

definition refuse_running ::
  "'w backend \<Rightarrow> outside \<Rightarrow> deletion_request \<Rightarrow> hold_decision \<Rightarrow> backend_state \<Rightarrow> deletion_audit option
    \<Rightarrow> deletion_code \<Rightarrow> bool \<Rightarrow> 'w \<Rightarrow> deletion_result res \<times> 'w"
where
  "refuse_running bk env q h s current code dry =
     (if dry then returns (Inr (blocked_preview q (retry_so_far current) code))
      else save_and_report bk q (case current of
          Some a \<Rightarrow> (block a (os_clock env 5) code)\<lparr>au_generation := bs_generation s,
            au_authority_ref := hd_authority_ref h, au_hold_ref := hd_decision_ref h\<rparr>
        | None \<Rightarrow> fresh_audit q (bs_generation s) (hd_authority_ref h) (hd_decision_ref h) (os_clock env 5) 1
            DS_BLOCKED code))"

text \<open>A generation that is not the audited one.\<close>

definition refuse_mismatch ::
  "'w backend \<Rightarrow> deletion_request \<Rightarrow> deletion_audit \<Rightarrow> string \<Rightarrow> bool \<Rightarrow> 'w \<Rightarrow> deletion_result res \<times> 'w"
where
  "refuse_mismatch bk q current now dry =
     then_op (returns (audit_post_init (block current now RC_TARGET_IDENTITY_MISMATCH))) (\<lambda>blocked.
     then_op (if dry then returns (Inr ()) else db_save bk blocked) (\<lambda>_.
       returns (Inr (result_of q blocked dry))))"

section \<open>Deleting the targets\<close>

definition planned_target :: "candidate \<Rightarrow> target_record" where
  "planned_target c = \<lparr>tg_ref = cd_ref c, tg_class = cd_class c, tg_status = TS_PLANNED, tg_code = RC_NONE\<rparr>"

definition added_target :: "candidate \<Rightarrow> target_record" where
  "added_target c = \<lparr>tg_ref = cd_ref c, tg_class = cd_class c, tg_status = TS_FAILED, tg_code = RC_TARGET_ADDED\<rparr>"

definition never_adopted :: "target_record \<Rightarrow> bool" where
  "never_adopted t \<longleftrightarrow> tg_status t = TS_FAILED \<and> tg_code t = RC_TARGET_ADDED"

definition candidate_at :: "candidate list \<Rightarrow> string \<Rightarrow> candidate option" where
  "candidate_at cs r = map_of (rev (map (\<lambda>c. (cd_ref c, c)) cs)) r"

definition proofs_for :: "deletion_audit \<Rightarrow> target_record \<Rightarrow> support_proof list" where
  "proofs_for a t = (if tg_class t = DC_SUPPORT_CONTENT then au_support a else [])"

datatype target_decision = Keep | Gone | Attempt candidate

text \<open>What the loop does with a target of the plan.\<close>

definition target_step :: "deletion_audit \<Rightarrow> candidate list \<Rightarrow> target_record \<Rightarrow> target_decision" where
  "target_step a cs t =
     (let found = (case candidate_at cs (tg_ref t) of
             Some c \<Rightarrow> Some c
           | None \<Rightarrow> if proofs_for a t \<noteq> [] \<and> tg_status t \<noteq> TS_DELETED
                     then Some \<lparr>cd_class = tg_class t, cd_ref = tg_ref t, cd_control = False\<rparr> else None) in
      if never_adopted t then Keep
      else case found of
        Some c \<Rightarrow> Attempt c
      | None \<Rightarrow> if tg_status t \<in> {TS_DELETED, TS_ABSENT} then Keep else Gone)"

definition mark :: "target_record \<Rightarrow> target_status \<Rightarrow> deletion_code \<Rightarrow> target_record" where
  "mark t st code = t\<lparr>tg_status := st, tg_code := code\<rparr>"

text \<open>
  The loop over the targets from position \<open>i\<close>: it stops at the first failure and gives the records
  and whether it stopped; an exception of another kind ends the deletion.
\<close>

fun delete_targets ::
  "'w backend \<Rightarrow> outside \<Rightarrow> deletion_audit \<Rightarrow> candidate list \<Rightarrow> nat \<Rightarrow> target_record list \<Rightarrow> 'w
    \<Rightarrow> (target_record list \<times> bool) res \<times> 'w"
where
  "delete_targets bk env a cs i [] w = (Inr ([], False), w)"
| "delete_targets bk env a cs i (t # ts) w =
     (let proceed = (\<lambda>t'. then_op (delete_targets bk env a cs (Suc i) ts) (\<lambda>(rs, failed). returns (Inr (t' # rs, failed))));
          stop = (\<lambda>code. returns (Inr (mark t TS_FAILED code # ts, True))) in
      case target_step a cs t of
        Keep \<Rightarrow> proceed t w
      | Gone \<Rightarrow> proceed (mark t TS_ABSENT RC_ALREADY_ABSENT) w
      | Attempt c \<Rightarrow>
          if os_inject env i c then stop RC_TARGET_DELETE_FAILED w
          else (case db_delete bk c (proofs_for a t) (os_event_time env) w of
             (Inr _, w') \<Rightarrow> proceed (mark t TS_DELETED RC_DELETED) w'
           | (Inl (KSlideError code), w') \<Rightarrow>
               stop (if code = PATH_OUTSIDE_ALLOWED_ROOT then RC_PATH_UNSAFE else RC_TARGET_DELETE_FAILED) w'
           | (Inl PyOSError, w') \<Rightarrow> stop RC_TARGET_DELETE_FAILED w'
           | (Inl e, w') \<Rightarrow> (Inl e, w')))"

text \<open>The plan: the targets of the audit or of the first run, the support facts, and what appeared since.\<close>

definition with_targets :: "deletion_audit \<Rightarrow> candidate list \<Rightarrow> deletion_audit res" where
  "with_targets a cs =
     (if au_targets a = []
      then bind_res (map_res (\<lambda>c. target_post_init (planned_target c)) cs)
             (\<lambda>ts. audit_post_init (a\<lparr>au_targets := ts\<rparr>))
      else Inr a)"

definition with_support :: "'w backend \<Rightarrow> deletion_audit \<Rightarrow> candidate list \<Rightarrow> 'w \<Rightarrow> deletion_audit res" where
  "with_support bk a cs w =
     (if au_support a \<noteq> [] then Inr a
      else case filter (\<lambda>c. cd_class c = DC_SUPPORT_CONTENT) cs of
        [] \<Rightarrow> Inr a
      | c # _ \<Rightarrow> bind_res (db_prepare bk c w) (\<lambda>proofs.
          if proofs = [] then Inr a else audit_post_init (a\<lparr>au_support := proofs\<rparr>)))"

definition with_added :: "deletion_audit \<Rightarrow> candidate list \<Rightarrow> deletion_audit res" where
  "with_added a cs =
     (let added = filter (\<lambda>c. cd_ref c \<notin> set (map tg_ref (au_targets a))) cs in
      if added = [] then Inr a
      else bind_res (map_res (\<lambda>c. target_post_init (added_target c)) added)
             (\<lambda>ts. audit_post_init (a\<lparr>au_targets := au_targets a @ ts\<rparr>)))"

definition started :: "deletion_audit \<Rightarrow> hold_decision \<Rightarrow> backend_state \<Rightarrow> string \<Rightarrow> deletion_audit" where
  "started a h s now = a\<lparr>au_authority_ref := hd_authority_ref h, au_hold_ref := hd_decision_ref h,
     au_anchors := (if au_anchors a \<noteq> [] then au_anchors a else bs_anchors s),
     au_updated_at := now, au_retry := au_retry a + 1, au_state := DS_IN_PROGRESS, au_outcome := DS_IN_PROGRESS,
     au_code := RC_NONE\<rparr>"

definition ended :: "deletion_audit \<Rightarrow> target_record list \<Rightarrow> string \<Rightarrow> deletion_state \<Rightarrow> deletion_code \<Rightarrow> deletion_audit" where
  "ended a ts now state code =
     a\<lparr>au_targets := ts, au_updated_at := now, au_state := state, au_outcome := state, au_code := code\<rparr>"

text \<open>After the loop: a partial end, or the cleanup and the final audit.\<close>

definition finish ::
  "'w backend \<Rightarrow> outside \<Rightarrow> deletion_request \<Rightarrow> deletion_audit \<Rightarrow> target_record list \<Rightarrow> bool \<Rightarrow> 'w \<Rightarrow> deletion_result res \<times> 'w"
where
  "finish bk env q a ts failed w =
     (if failed \<or> list_ex (\<lambda>t. tg_status t = TS_FAILED) ts
      then save_and_report bk q (ended a ts (os_clock env 7) DS_PARTIAL RC_TARGET_DELETE_FAILED) w
      else then_op (returns (audit_post_init (ended a ts (os_clock env 8) DS_IN_PROGRESS RC_NONE))) (\<lambda>completed w.
        case db_cleanup bk w of
          (Inl (KSlideError code), w') \<Rightarrow>
            save_and_report bk q (ended completed ts (os_clock env 9) DS_PARTIAL RC_TARGET_DELETE_FAILED) w'
        | (Inl e, w') \<Rightarrow> (Inl e, w')
        | (Inr _, w') \<Rightarrow> save_and_report bk q (ended completed ts (os_clock env 9) DS_COMPLETE RC_NONE) w') w)"

definition any_never_adopted :: "target_record list \<Rightarrow> bool" where
  "any_never_adopted ts \<longleftrightarrow> list_ex never_adopted ts"

definition delete_released ::
  "'w backend \<Rightarrow> outside \<Rightarrow> deletion_request \<Rightarrow> hold_decision \<Rightarrow> backend_state \<Rightarrow> deletion_audit option
    \<Rightarrow> candidate list \<Rightarrow> 'w \<Rightarrow> deletion_result res \<times> 'w"
where
  "delete_released bk env q h s current cs =
     then_op (returns (case current of
         Some a \<Rightarrow> Inr a
       | None \<Rightarrow> bind_res (map_res (\<lambda>c. target_post_init (planned_target c)) cs) (\<lambda>ts.
           audit_post_init ((fresh_audit q (bs_generation s) (hd_authority_ref h) (hd_decision_ref h)
             (dq_requested_at q) 0 DS_PLANNED RC_NONE)\<lparr>au_targets := ts, au_anchors := bs_anchors s\<rparr>)))) (\<lambda>a0.
     then_op (returns (with_targets a0 cs)) (\<lambda>a1.
     then_op (reads (with_support bk a1 cs)) (\<lambda>a2.
     then_op (returns (with_added a2 cs)) (\<lambda>a3.
     then_op (returns (audit_post_init (started a3 h s (os_clock env 6)))) (\<lambda>active.
     then_op (db_save bk active) (\<lambda>_.
     then_op (delete_targets bk env active cs 0 (au_targets active)) (\<lambda>(ts, failed).
       finish bk env q active ts (failed \<or> any_never_adopted (au_targets active)))))))))"

section \<open>The coordinator\<close>

text \<open>Under the lock, with a release.\<close>

definition run_released ::
  "'w backend \<Rightarrow> outside \<Rightarrow> deletion_request \<Rightarrow> hold_decision \<Rightarrow> bool \<Rightarrow> 'w \<Rightarrow> deletion_result res \<times> 'w"
where
  "run_released bk env q h dry =
     then_op (reads (db_load bk (dq_id q))) (\<lambda>current.
     then_op (reads (db_state bk)) (\<lambda>s.
       if (case current of None \<Rightarrow> False | Some a \<Rightarrow> au_targets a \<noteq> [] \<and> \<not> generation_matches s a)
       then refuse_mismatch bk q (the current) (os_clock env 4) dry
       else if bs_active s then
         (if dq_reason q = DR_EXPLICIT
          then then_op (db_cancel bk (os_clock env 10) (os_clock env 11))
                 (\<lambda>_. refuse_running bk env q h s current RC_CANCELLATION_REQUESTED dry)
          else refuse_running bk env q h s current RC_ACTIVE_RUN dry)
       else if \<not> bs_terminal s \<and> \<not> (dq_reason q = DR_EXPLICIT \<and> bs_canceled s)
       then refuse_running bk env q h s current RC_NONTERMINAL_RUN dry
       else then_op (reads (db_targets bk (dq_id q))) (\<lambda>cs.
         if dry
         then then_op (returns (map_res (\<lambda>c. target_post_init (planned_target c)) cs)) (\<lambda>preview.
           returns (Inr \<lparr>dx_request = q, dx_state = DS_PLANNED, dx_outcome = DS_PLANNED, dx_dry_run = True,
             dx_retry = retry_so_far current, dx_code = RC_NONE, dx_targets = preview\<rparr>))
         else delete_released bk env q h s current cs)))"

text \<open>The part that runs unless the deletion is already complete.\<close>

definition run_pending ::
  "'w backend \<Rightarrow> outside \<Rightarrow> deletion_request \<Rightarrow> deletion_audit option \<Rightarrow> bool \<Rightarrow> 'w \<Rightarrow> deletion_result res \<times> 'w"
where
  "run_pending bk env q existing dry =
     (let ask = (\<lambda>n. safe_hold (os_holds env n) (dq_scope_ref q) (dq_run_ref q)) in
      case ask 0 of
        Inl _ \<Rightarrow> refuse_unknown bk env q existing dry
      | Inr h \<Rightarrow>
          if hd_status h \<noteq> HS_RELEASE
          then (if dry then returns (Inr (blocked_preview q (retry_so_far existing) (hold_code h)))
                else then_op (reads (db_lock bk)) (\<lambda>_. refuse_held bk q h (os_clock env 2)))
          else then_op (reads (db_lock bk)) (\<lambda>_.
            then_op (returns (ask 1)) (\<lambda>h'.
              if hd_status h' \<noteq> HS_RELEASE
              then (if dry then returns (Inr (blocked_preview q (retry_so_far existing) (hold_code h')))
                    else refuse_held bk q h' (os_clock env 3))
              else run_released bk env q h' dry)))"

text \<open>A completed deletion is reported again, after a look at the generation.\<close>

definition replay_complete ::
  "'w backend \<Rightarrow> outside \<Rightarrow> deletion_request \<Rightarrow> deletion_audit \<Rightarrow> bool \<Rightarrow> 'w \<Rightarrow> deletion_result res \<times> 'w"
where
  "replay_complete bk env q existing dry =
     then_op (reads (db_lock bk)) (\<lambda>_.
     then_op (reads (db_load bk (dq_id q))) (\<lambda>loaded.
       case loaded of
         None \<Rightarrow> run_pending bk env q (Some existing) dry
       | Some current \<Rightarrow>
           then_op (reads (db_state bk)) (\<lambda>s.
             if generation_matches s current then returns (Inr (result_of q current dry))
             else refuse_mismatch bk q current (os_clock env 1) dry)))"

definition run_deletion ::
  "'w backend \<Rightarrow> outside \<Rightarrow> string \<Rightarrow> deletion_reason \<Rightarrow> bool \<Rightarrow> 'w \<Rightarrow> deletion_result res \<times> 'w"
where
  "run_deletion bk env deletion_id reason dry =
     then_op (returns (deletion_request_post_init \<lparr>dq_id = deletion_id, dq_scope_ref = db_scope_ref bk,
        dq_run_ref = db_run_ref bk, dq_reason = reason, dq_requested_at = os_clock env 0\<rparr>)) (\<lambda>q.
     then_op (reads (db_load bk (dq_id q))) (\<lambda>existing.
       case existing of
         None \<Rightarrow> run_pending bk env q None dry
       | Some a \<Rightarrow>
           if (au_scope_ref a, au_run_ref a, au_reason a) \<noteq> (dq_scope_ref q, dq_run_ref q, dq_reason q)
           then returns (Inl conflict)
           else if au_state a = DS_COMPLETE then replay_complete bk env q a dry
           else run_pending bk env q existing dry))"

end
