(* ===== verification/Deletion_Workspace.thy ===== *)
theory Deletion_Workspace
  imports Deletion_Run
begin

text \<open>
  The workspace backend of the deletion coordinator (\<open>WorkspaceDeletionBackend\<close> of
  \<open>src/k_slide/deletion.py\<close>): the files of one run, the session bindings, the deletion fence, the
  audits of the run and the support stream. A file is named by its path below the run directory; a
  file the file system will not unlink is pinned. Saving an audit is two writes or three (the audit,
  the fence file, the fence in the run state), in this order. The scratch directory, which holds the
  run lock, is not durable data and has no contents here; writing an audit succeeds.
\<close>

section \<open>The files of a run\<close>

text \<open>A regular file is JSON or not; a link leads to such a file, to nothing, or to a directory.\<close>

datatype run_file = RF_File "json option" | RF_Link "json option option" | RF_DirLink

datatype session_dir = SD_Missing | SD_Link | SD_Files "(string \<times> run_file) list"

datatype doc_path = In_Run string | In_Sessions string | In_Fences

record run_space =
  rs_name :: string
  rs_is_link :: bool
  rs_scratch_link :: bool
  rs_present :: bool
  rs_files :: "(string \<times> run_file) list"
  rs_sessions :: session_dir
  rs_fences_safe :: bool
  rs_fence :: fs_node
  rs_audits :: "(string \<times> job_file) list"
  rs_log :: support_log
  rs_pinned :: "doc_path list"

definition is_link_file :: "run_file \<Rightarrow> bool" where
  "is_link_file f \<longleftrightarrow> (case f of RF_File _ \<Rightarrow> False | _ \<Rightarrow> True)"

text \<open>\<open>is_file()\<close>, which follows links, and what reading then finds.\<close>

definition readable :: "run_file option \<Rightarrow> json option option" where
  "readable f = (case f of Some (RF_File c) \<Rightarrow> Some c | Some (RF_Link (Some c)) \<Rightarrow> Some c | _ \<Rightarrow> None)"

text \<open>A directory with files exists; \<open>rs_present\<close> tells of an empty one.\<close>

definition run_exists :: "run_space \<Rightarrow> bool" where
  "run_exists w \<longleftrightarrow> rs_present w \<or> rs_files w \<noteq> []"

text \<open>The run as the write barrier of \<open>storage.py\<close> sees it.\<close>

definition node_of :: "run_file option \<Rightarrow> fs_node" where
  "node_of f = (case f of
       None \<Rightarrow> Absent
     | Some (RF_File (Some v)) \<Rightarrow> Contents v
     | Some (RF_File None) \<Rightarrow> Unreadable
     | Some (RF_Link c) \<Rightarrow> Link (c \<noteq> None)
     | Some RF_DirLink \<Rightarrow> Link True)"

definition workspace_of :: "run_space \<Rightarrow> workspace" where
  "workspace_of w = \<lparr>ws_name = rs_name w, ws_is_link = rs_is_link w, ws_fence_file = rs_fence w,
     ws_state_file = node_of (map_of (rs_files w) ''RUN_STATE.json'')\<rparr>"

section \<open>Paths and classes\<close>

definition path_top :: "string \<Rightarrow> string" where
  "path_top s = takeWhile (\<lambda>c. c \<noteq> CHR ''/'') s"

definition path_name :: "string \<Rightarrow> string" where
  "path_name s = rev (takeWhile (\<lambda>c. c \<noteq> CHR ''/'') (rev s))"

definition begins :: "string \<Rightarrow> string \<Rightarrow> bool" where
  "begins p s \<longleftrightarrow> take (length p) s = p"

definition named_classes :: "(string \<times> deletion_class) list" where
  "named_classes = [
     (''00_run_manifest.md'', DC_SOURCE_MANIFEST), (''ARTIFACT_MANIFEST.json'', DC_SOURCE_MANIFEST),
     (''00_input_inventory.json'', DC_INPUT_INVENTORY), (''RUN_MANIFEST.json'', DC_RUN_MANIFEST),
     (''RUN_RECOVERY_GUIDE.md'', DC_RECOVERY_GUIDE), (''RUNTIME_METADATA.json'', DC_RUNTIME_METADATA),
     (''RUN_STATE.json'', DC_RUN_STATE), (''WORK_QUEUE.json'', DC_WORK_QUEUE),
     (''EXECUTION_JOB.json'', DC_EXECUTION_JOB), (''metrics.json'', DC_METRICS),
     (''OCR_METADATA.json'', DC_OCR_METADATA), (''RUN_FAILED.md'', DC_FAILURE_MARKER),
     (''RUN_COMPLETE.md'', DC_COMPLETION_MARKER)]"

definition class_for_relative :: "string \<Rightarrow> deletion_class" where
  "class_for_relative s =
     (let top = path_top s; name = path_name s in
      if name = ''CONFLICT_REGISTRY.json'' then DC_CANONICAL_IR
      else if name = ''EXTRACTION_ERROR.json'' then DC_EXTRACTION_ERROR
      else if top = ''inputs'' then DC_SOURCE_SNAPSHOT
      else if top = ''normalized''
      then (if name = ''DOCUMENT_MANIFEST.json'' then DC_NORMALIZATION_MANIFEST
            else if name = ''NORMALIZATION_ERROR.json'' then DC_NORMALIZATION_ERROR else DC_NORMALIZED_RENDER)
      else if top = ''native'' then DC_NATIVE_EXTRACTION
      else if top = ''regions'' then DC_REGION_CROP
      else if top = ''evidence'' then DC_EVIDENCE_IR
      else if top = ''ir'' then DC_CANONICAL_IR
      else if top = ''translations'' then DC_TRANSLATION_PATCH
      else if top = ''support-content'' then DC_SUPPORT_CONTENT
      else if top = ''verification'' \<or> begins ''06_'' name then DC_VERIFICATION
      else case map_of named_classes name of
        Some c \<Rightarrow> c
      | None \<Rightarrow> if begins ''05_'' name \<or> begins ''07_'' name then DC_REPORT else DC_RUN_SCOPED_CONTENT)"

text \<open>\<open>_safe_files\<close> of the run directory and of the session directory: the names in order, no links.\<close>

definition unsafe_path :: err where
  "unsafe_path = KSlideError PATH_OUTSIDE_ALLOWED_ROOT"

definition safe_files :: "(string \<times> run_file) list \<Rightarrow> string list res" where
  "safe_files fs = (if list_ex (\<lambda>f. is_link_file (snd f)) fs then Inl unsafe_path else Inr (sorted_set (map fst fs)))"

definition run_files :: "run_space \<Rightarrow> string list res" where
  "run_files w =
     (if \<not> run_exists w then Inr [] else if rs_is_link w then Inl unsafe_path else safe_files (rs_files w))"

definition session_bound :: "string \<Rightarrow> run_file \<Rightarrow> bool" where
  "session_bound run f =
     (case readable (Some f) of
        Some (Some (JObj kvs)) \<Rightarrow> field_or JNull ''run_id'' kvs = JStr run
      | _ \<Rightarrow> False)"

definition bound_sessions :: "run_space \<Rightarrow> string list res" where
  "bound_sessions w =
     (case rs_sessions w of
        SD_Missing \<Rightarrow> Inr []
      | SD_Link \<Rightarrow> Inl unsafe_path
      | SD_Files fs \<Rightarrow> bind_res (safe_files fs) (\<lambda>names.
          Inr (filter (\<lambda>n. case map_of fs n of Some f \<Rightarrow> session_bound (rs_name w) f | None \<Rightarrow> False) names)))"

definition paths_for_class :: "deletion_class \<Rightarrow> run_space \<Rightarrow> doc_path list res" where
  "paths_for_class c w =
     bind_res (run_files w) (\<lambda>names.
     bind_res (bound_sessions w) (\<lambda>sessions.
       Inr (map In_Run (filter (\<lambda>n. class_for_relative n = c) names)
            @ (if c = DC_SESSION_BINDING then map In_Sessions sessions else []))))"

text \<open>The classes present, by their wire names.\<close>

definition class_of_name :: "string \<Rightarrow> deletion_class" where
  "class_of_name n = the (map_of deletion_class_values n)"

definition workspace_targets :: "string \<Rightarrow> run_space \<Rightarrow> candidate list res" where
  "workspace_targets deletion_id w =
     bind_res (run_files w) (\<lambda>names.
     bind_res (paths_for_class DC_SESSION_BINDING w) (\<lambda>sessions.
       let classes = map class_for_relative names
             @ (if rs_sessions w \<noteq> SD_Missing \<and> sessions \<noteq> [] then [DC_SESSION_BINDING] else [])
       in Inr (map (\<lambda>n. \<lparr>cd_class = class_of_name n,
                        cd_ref = target_ref ''workspace'' (rs_name w) deletion_id (class_of_name n),
                        cd_control = False\<rparr>)
                 (sorted_set (map class_name classes)))))"

section \<open>The state of the run\<close>

definition raw_state :: "run_space \<Rightarrow> (string \<times> json) list res" where
  "raw_state w =
     (case readable (map_of (rs_files w) ''RUN_STATE.json'') of
        None \<Rightarrow> Inr []
      | Some (Some (JObj kvs)) \<Rightarrow> Inr kvs
      | _ \<Rightarrow> Inl corrupt)"

definition state_identity_json :: "string \<Rightarrow> (string \<times> json) list \<Rightarrow> json" where
  "state_identity_json run raw = JObj [
     (''run_id'', field_or (JStr run) ''run_id'' raw),
     (''created_at'', field_or (JStr []) ''created_at'' raw),
     (''updated_at'', field_or (JStr []) ''updated_at'' raw),
     (''revision'', field_or (JInt 0) ''revision'' raw)]"

definition run_job :: "env_reference \<Rightarrow> run_space \<Rightarrow> job option res" where
  "run_job ref w =
     (case readable (map_of (rs_files w) ''EXECUTION_JOB.json'') of
        None \<Rightarrow> Inr None
      | Some c \<Rightarrow> bind_res (read_job ref (case c of Some v \<Rightarrow> FileJson v | None \<Rightarrow> FileUnreadable)) (\<lambda>j. Inr (Some j)))"

definition job_identity_json :: "job \<Rightarrow> json" where
  "job_identity_json j = JObj [
     (''run_ref'', JStr (jb_run_id j)), (''job_ref'', JStr (jb_job_id j)),
     (''execution_ref'', JStr (jb_execution_id j)), (''store_ref'', JStr (sr_store_ref (jb_store_ref j)))]"

definition phase_text :: "(string \<times> json) list \<Rightarrow> json" where
  "phase_text raw = field_or (field_or (JStr ''UNKNOWN'') ''status'' raw) ''phase'' raw"

definition phase_ended :: "json \<Rightarrow> bool" where
  "phase_ended v \<longleftrightarrow> v \<in> set (map (\<lambda>p. JStr (phase_value p))
     [COMPLETE, FAILED_INPUT, FAILED_RUNTIME, FAILED_NORMALIZATION, FAILED_EXTRACTION, FAILED_SCHEMA, FAILED_INTERNAL])"

definition plain_file :: "run_file option \<Rightarrow> bool" where
  "plain_file f \<longleftrightarrow> (case f of Some (RF_File _) \<Rightarrow> True | _ \<Rightarrow> False)"

definition file_exists :: "run_file option \<Rightarrow> bool" where
  "file_exists f \<longleftrightarrow> (case f of None \<Rightarrow> False | Some (RF_Link c) \<Rightarrow> c \<noteq> None | _ \<Rightarrow> True)"

definition job_active :: "job \<Rightarrow> bool" where
  "job_active j \<longleftrightarrow> jb_lifecycle j \<in> {L_QUEUED, L_RUNNING, L_RETRYING}"

definition workspace_state :: "env_reference \<Rightarrow> run_space \<Rightarrow> backend_state res" where
  "workspace_state ref w =
     bind_res (raw_state w) (\<lambda>raw.
     bind_res (run_job ref w) (\<lambda>job.
       let run = rs_name w; state_file = map_of (rs_files w) ''RUN_STATE.json'';
           identity = (case job of None \<Rightarrow> JNull | Some j \<Rightarrow> job_identity_json j);
           terminal = phase_ended (phase_text raw);
           canceled = (case job of None \<Rightarrow> False | Some j \<Rightarrow> jb_lifecycle j = L_CANCELED) in
       Inr \<lparr>bs_generation = stable_revision (JObj [
              (''scope_ref'', JStr ''workspace''), (''run_ref'', JStr run),
              (''state'', state_identity_json run raw), (''job'', identity)]),
            bs_active = (case job of None \<Rightarrow> readable state_file \<noteq> None \<and> \<not> terminal | Some j \<Rightarrow> job_active j),
            bs_terminal = (\<not> file_exists state_file \<or> terminal \<or> canceled),
            bs_canceled = canceled,
            bs_anchors =
              (case job of None \<Rightarrow> [] | Some j \<Rightarrow> [(''execution_job'', stable_revision (JObj [
                 (''identity'', job_identity_json j), (''created_at'', json_opt_str (jb_created_at j))]))])
              @ (if plain_file state_file
                 then [(''run_state'', stable_revision (state_identity_json run raw))] else [])\<rparr>))"

section \<open>Writes\<close>

definition set_file :: "string \<Rightarrow> json \<Rightarrow> run_space \<Rightarrow> run_space" where
  "set_file n v w = w\<lparr>rs_files := AList.update n (RF_File (Some v)) (rs_files w)\<rparr>"

definition workspace_cancel :: "env_reference \<Rightarrow> string \<Rightarrow> string \<Rightarrow> run_space \<Rightarrow> unit res \<times> run_space" where
  "workspace_cancel ref t1 t2 w =
     (case run_job ref w of
        Inl e \<Rightarrow> (Inl e, w)
      | Inr None \<Rightarrow> (Inr (), w)
      | Inr (Some j) \<Rightarrow>
          if cn_requested (jb_cancellation j) \<or> ended_lifecycle (jb_lifecycle j) then (Inr (), w)
          else case bind_res (cancellation_post_init \<lparr>cn_requested = True, cn_acknowledged = False,
                  cn_request_ref = Some (''cancel-'' @ jb_job_id j), cn_requested_at = Some t1, cn_acknowledged_at = None\<rparr>)
                 (\<lambda>cn. job_post_init (j\<lparr>jb_cancellation := cn, jb_revision := jb_revision j + 1, jb_updated_at := Some t2\<rparr>)) of
            Inl e \<Rightarrow> (Inl e, w)
          | Inr k \<Rightarrow>
              if \<not> matches_identifier (jb_job_id k) then (Inl invalid, w)
              else if \<not> plain_file (map_of (rs_files w) ''EXECUTION_JOB.json'') then (Inl unsafe_path, w)
              else (Inr (), set_file ''EXECUTION_JOB.json'' (job_as_dict k) w))"

definition fence_json :: "run_space \<Rightarrow> json" where
  "fence_json w = JObj [(''scope_ref'', JStr ''workspace''), (''run_ref'', JStr (rs_name w)), (''state'', JStr ''IN_PROGRESS'')]"

text \<open>\<open>_set_fence\<close>: the fence file, then the run state.\<close>

definition set_fence_file :: "bool \<Rightarrow> run_space \<Rightarrow> unit res \<times> run_space" where
  "set_fence_file active w =
     (if \<not> rs_fences_safe w then (Inl unsafe_path, w)
      else if active
      then (Inr (), case rs_fence w of Link _ \<Rightarrow> w\<lparr>rs_fence := Link True\<rparr> | _ \<Rightarrow> w\<lparr>rs_fence := Contents (fence_json w)\<rparr>)
      else case rs_fence w of
        Link _ \<Rightarrow> (Inl unsafe_path, w)
      | Absent \<Rightarrow> (Inr (), w)
      | _ \<Rightarrow> if In_Fences \<in> set (rs_pinned w) then (Inl PyOSError, w) else (Inr (), w\<lparr>rs_fence := Absent\<rparr>))"

definition set_fence_state :: "bool \<Rightarrow> run_space \<Rightarrow> unit res \<times> run_space" where
  "set_fence_state active w =
     (case map_of (rs_files w) ''RUN_STATE.json'' of
        Some (RF_File (Some (JObj kvs))) \<Rightarrow>
          (let desired = (if active then JStr ''IN_PROGRESS'' else JNull) in
           if field_or JNull ''deletion_fence'' kvs = desired then (Inr (), w)
           else (Inr (), set_file ''RUN_STATE.json''
                   (JObj (if active then AList.update ''deletion_fence'' desired kvs else without_key ''deletion_fence'' kvs)) w))
      | Some (RF_File _) \<Rightarrow> (Inl corrupt, w)
      | _ \<Rightarrow> (Inr (), w))"

definition set_fence :: "bool \<Rightarrow> run_space \<Rightarrow> unit res \<times> run_space" where
  "set_fence active = then_op (set_fence_file active) (\<lambda>_. set_fence_state active)"

definition write_audit :: "deletion_audit \<Rightarrow> run_space \<Rightarrow> unit res \<times> run_space" where
  "write_audit a w = (Inr (), w\<lparr>rs_audits := AList.update (au_id a) (FileJson (audit_as_dict a)) (rs_audits w)\<rparr>)"

definition workspace_save :: "deletion_audit \<Rightarrow> run_space \<Rightarrow> unit res \<times> run_space" where
  "workspace_save a =
     then_op (write_audit a) (\<lambda>_. set_fence (au_state a \<in> {DS_IN_PROGRESS, DS_PARTIAL}))"

definition read_audit :: "job_file \<Rightarrow> deletion_audit res" where
  "read_audit f = (case f of FileUnreadable \<Rightarrow> Inl corrupt | FileJson v \<Rightarrow> audit_from_dict v)"

definition workspace_load :: "string \<Rightarrow> run_space \<Rightarrow> deletion_audit option res" where
  "workspace_load deletion_id w =
     (if \<not> opaque deletion_id then Inl deletion_invalid
      else case map_of (rs_audits w) deletion_id of
        None \<Rightarrow> Inr None
      | Some f \<Rightarrow> bind_res (read_audit f) (\<lambda>a. Inr (Some a)))"

section \<open>Unlinking\<close>

definition unlink :: "doc_path \<Rightarrow> run_space \<Rightarrow> unit res \<times> run_space" where
  "unlink p w =
     (if p \<in> set (rs_pinned w) then (Inl PyOSError, w)
      else (Inr (), case p of
          In_Run n \<Rightarrow> w\<lparr>rs_files := AList.delete n (rs_files w)\<rparr>
        | In_Sessions n \<Rightarrow> (case rs_sessions w of SD_Files fs \<Rightarrow> w\<lparr>rs_sessions := SD_Files (AList.delete n fs)\<rparr> | _ \<Rightarrow> w)
        | In_Fences \<Rightarrow> w\<lparr>rs_fence := Absent\<rparr>))"

fun unlink_all :: "doc_path list \<Rightarrow> run_space \<Rightarrow> unit res \<times> run_space" where
  "unlink_all [] w = (Inr (), w)"
| "unlink_all (p # ps) w = then_op (unlink p) (\<lambda>_. unlink_all ps) w"

section \<open>Support content\<close>

definition support_path :: "string \<Rightarrow> string" where
  "support_path n = ''support-content/'' @ n"

text \<open>The metadata files directly in the support directory, by name.\<close>

definition metadata_names :: "run_space \<Rightarrow> string list" where
  "metadata_names w = filter (\<lambda>n. CHR ''/'' \<notin> set n \<and> has_ending ''.json'' n)
     (map (drop (length ''support-content/'')) (filter (begins ''support-content/'') (sorted_set (map fst (rs_files w)))))"

definition support_blocked :: "run_space \<Rightarrow> bool" where
  "support_blocked w \<longleftrightarrow> map_of (rs_files w) ''support-content'' \<noteq> None"

definition read_metadata :: "run_space \<Rightarrow> string \<Rightarrow> support_proof res" where
  "read_metadata w n =
     (case map_of (rs_files w) (support_path n) of
        Some (RF_File (Some v)) \<Rightarrow>
          (case artifact_from_dict v of
             Inl _ \<Rightarrow> Inl support_audit_failed
           | Inr a \<Rightarrow> if n \<noteq> sa_artifact_ref a @ ''.json'' then Inl support_audit_failed else artifact_proof a)
      | Some (RF_File None) \<Rightarrow> Inl support_audit_failed
      | _ \<Rightarrow> Inl unsafe_path)"

text \<open>\<open>_support_recovery_from_metadata\<close>.\<close>

definition workspace_prepare :: "candidate \<Rightarrow> run_space \<Rightarrow> support_proof list res" where
  "workspace_prepare c w =
     (if cd_class c \<noteq> DC_SUPPORT_CONTENT then Inr []
      else if support_blocked w then Inl unsafe_path
      else map_res (read_metadata w) (metadata_names w))"

text \<open>The support facts of the artifacts whose copy and metadata are both gone.\<close>

definition removed_proofs :: "support_proof list \<Rightarrow> run_space \<Rightarrow> support_proof list" where
  "removed_proofs proofs w = filter (\<lambda>p.
     \<not> file_exists (map_of (rs_files w) (support_path (pf_artifact_ref p @ ''.zip'')))
     \<and> \<not> file_exists (map_of (rs_files w) (support_path (pf_artifact_ref p @ ''.json'')))) proofs"

definition record_removed :: "(string \<Rightarrow> string) \<Rightarrow> support_proof list \<Rightarrow> run_space \<Rightarrow> unit res \<times> run_space" where
  "record_removed at proofs w =
     (case record_deleted at (removed_proofs proofs w) (rs_log w) of (r, s) \<Rightarrow> (r, w\<lparr>rs_log := s\<rparr>))"

definition is_zip :: "doc_path \<Rightarrow> bool" where
  "is_zip p = (case p of In_Run n \<Rightarrow> has_ending ''.zip'' (map lower_char (path_name n)) \<and> 4 < length (path_name n) | _ \<Rightarrow> False)"

fun unlink_support ::
  "(string \<Rightarrow> string) \<Rightarrow> support_proof list \<Rightarrow> doc_path list \<Rightarrow> run_space \<Rightarrow> unit res \<times> run_space"
where
  "unlink_support at proofs [] w = (Inr (), w)"
| "unlink_support at proofs (p # ps) w =
     then_op (unlink p) (\<lambda>_. then_op (record_removed at proofs) (\<lambda>_. unlink_support at proofs ps)) w"

text \<open>\<open>_delete_support_content\<close>: bundles first; a failure is raised after another attempt to record.\<close>

definition delete_support ::
  "(string \<Rightarrow> string) \<Rightarrow> support_proof list \<Rightarrow> doc_path list \<Rightarrow> run_space \<Rightarrow> unit res \<times> run_space"
where
  "delete_support at proofs paths w =
     (if support_blocked w then (Inl unsafe_path, w)
      else case unlink_support at proofs (filter is_zip paths @ filter (\<lambda>p. \<not> is_zip p) paths) w of
        (Inr _, w') \<Rightarrow> record_removed at proofs w'
      | (Inl e, w') \<Rightarrow> then_op (record_removed at proofs) (\<lambda>_. returns (Inl e)) w')"

definition workspace_delete ::
  "candidate \<Rightarrow> support_proof list \<Rightarrow> (string \<Rightarrow> string) \<Rightarrow> run_space \<Rightarrow> unit res \<times> run_space"
where
  "workspace_delete c proofs at =
     then_op (reads (paths_for_class (cd_class c))) (\<lambda>paths.
       if cd_class c = DC_SUPPORT_CONTENT then delete_support at proofs paths else unlink_all paths)"

section \<open>Cleanup\<close>

definition remove_run_dir :: "run_space \<Rightarrow> unit res \<times> run_space" where
  "remove_run_dir w =
     (if \<not> run_exists w then (Inr (), w)
      else if list_ex (\<lambda>f. snd f = RF_DirLink) (rs_files w) then (Inl unsafe_path, w)
      else if rs_files w \<noteq> [] then (Inl (KSlideError DELETION_TARGET_FAILED), w)
      else (Inr (), w\<lparr>rs_present := False\<rparr>))"

definition workspace_cleanup :: "run_space \<Rightarrow> unit res \<times> run_space" where
  "workspace_cleanup =
     then_op remove_run_dir (\<lambda>_. then_op (reads bound_sessions) (\<lambda>names. unlink_all (map In_Sessions names)))"

section \<open>The backend\<close>

definition workspace_lock :: "run_space \<Rightarrow> unit res" where
  "workspace_lock w = (if rs_is_link w \<or> rs_scratch_link w then Inl unsafe_path else Inr ())"

definition workspace_backend :: "env_reference \<Rightarrow> string \<Rightarrow> run_space backend" where
  "workspace_backend ref run = \<lparr>
     db_scope_ref = ''workspace'', db_run_ref = run, db_lock = workspace_lock, db_load = workspace_load,
     db_save = workspace_save, db_state = workspace_state ref, db_cancel = workspace_cancel ref,
     db_targets = workspace_targets, db_prepare = workspace_prepare, db_delete = workspace_delete,
     db_cleanup = workspace_cleanup\<rparr>"

text \<open>\<open>delete_workspace_run\<close>: the roots are the resolved operational roots that were given.\<close>

definition delete_workspace_run ::
  "env_reference \<Rightarrow> scope_context option \<Rightarrow> string list \<Rightarrow> outside option \<Rightarrow> string \<Rightarrow> deletion_reason \<Rightarrow> bool
    \<Rightarrow> run_space \<Rightarrow> deletion_result res \<times> run_space"
where
  "delete_workspace_run ref ctx roots provider deletion_id reason dry w =
     (case guards [
        ((case ctx of None \<Rightarrow> True | Some c \<Rightarrow> sc_scope_ref c \<noteq> ''workspace''), conflict),
        (1 < length (remdups roots), deletion_invalid),
        (provider = None, KSlideError LEGAL_HOLD_UNKNOWN),
        (\<not> opaque (rs_name w), deletion_invalid),
        (roots = [], deletion_invalid)] of
        Inl e \<Rightarrow> (Inl e, w)
      | Inr _ \<Rightarrow> run_deletion (workspace_backend ref (rs_name w)) (the provider) deletion_id reason dry w)"

end
