(* ===== verification/Deletion_Laws.thy ===== *)
theory Deletion_Laws
  imports Deletion_Workspace
begin

text \<open>
  What the deletion coordinator promises over every backend that keeps two contracts: only deleting a
  target and the final cleanup remove documents, and a saved audit in progress puts up a fence that
  deleting does not take down. The contracts are locales; the workspace backend is their
  interpretation.
\<close>

section \<open>Operations that keep a relation of states\<close>

definition keeps :: "('s \<Rightarrow> 's \<Rightarrow> bool) \<Rightarrow> ('s \<Rightarrow> 'r \<times> 's) \<Rightarrow> bool" where
  "keeps R m \<longleftrightarrow> (\<forall>s. R s (snd (m s)))"

lemma keepsD: "keeps R m \<Longrightarrow> m s = (r, s') \<Longrightarrow> R s s'"
  unfolding keeps_def by (metis snd_conv)

lemma keepsI: "(\<And>s r s'. m s = (r, s') \<Longrightarrow> R s s') \<Longrightarrow> keeps R m"
  unfolding keeps_def by (metis prod.collapse)

lemma keeps_reads: "reflp R \<Longrightarrow> keeps R (reads f)"
  by (simp add: keeps_def reflpD)

lemma keeps_returns: "reflp R \<Longrightarrow> keeps R (returns x)"
  by (simp add: keeps_def reflpD)

lemma keeps_then:
  assumes "transp R" "keeps R m" "\<And>x. keeps R (f x)"
  shows "keeps R (then_op m f)"
proof (rule keepsI)
  fix s r s'
  assume run: "then_op m f s = (r, s')"
  obtain q s1 where m: "m s = (q, s1)" by fastforce
  show "R s s'"
  proof (cases q)
    case (Inl e)
    with run m show ?thesis using keepsD [OF assms(2) m] by (simp add: then_op_def)
  next
    case (Inr x)
    with run m have "f x s1 = (r, s')" by (simp add: then_op_def)
    then show ?thesis using keepsD [OF assms(2) m] keepsD [OF assms(3)] assms(1) by (blast dest: transpD)
  qed
qed

lemma keeps_if: "(b \<Longrightarrow> keeps R m) \<Longrightarrow> (\<not> b \<Longrightarrow> keeps R n) \<Longrightarrow> keeps R (if b then m else n)"
  by simp

lemma deletion_request_post_init_same: "deletion_request_post_init q = Inr p \<Longrightarrow> p = q"
  by (auto simp: deletion_request_post_init_def bind_res_Inr_iff)

text \<open>Taking a sequence apart.\<close>

lemma then_op_split:
  assumes "then_op m f s = (r, s')"
  obtains (raised) e where "m s = (Inl e, s')" "r = Inl e"
    | (goes_on) x s1 where "m s = (Inr x, s1)" "f x s1 = (r, s')"
proof -
  obtain q s1 where m: "m s = (q, s1)" by fastforce
  show thesis
    using assms m raised goes_on by (cases q) (auto simp: then_op_def)
qed

section \<open>Documents go only under a release\<close>

definition released_by :: "outside \<Rightarrow> nat \<Rightarrow> string \<Rightarrow> string \<Rightarrow> bool" where
  "released_by env n scope run \<longleftrightarrow>
     (\<exists>h. safe_hold (os_holds env n) scope run = Inr h \<and> hd_status h = HS_RELEASE)"

definition deletable :: "deletion_reason \<Rightarrow> backend_state \<Rightarrow> bool" where
  "deletable reason s \<longleftrightarrow> \<not> bs_active s \<and> (bs_terminal s \<or> (reason = DR_EXPLICIT \<and> bs_canceled s))"

locale deletion_backend =
  fixes bk :: "'w backend" and documents :: "'w \<Rightarrow> 'p set"
  assumes save_keeps: "db_save bk a w = (r, w') \<Longrightarrow> documents w' = documents w"
    and cancel_keeps: "db_cancel bk t1 t2 w = (r, w') \<Longrightarrow> documents w' = documents w"
    and delete_shrinks: "db_delete bk c ps at w = (r, w') \<Longrightarrow> documents w' \<subseteq> documents w"
    and cleanup_shrinks: "db_cleanup bk w = (r, w') \<Longrightarrow> documents w' \<subseteq> documents w"
begin

definition same :: "'w \<Rightarrow> 'w \<Rightarrow> bool" where
  "same w w' \<longleftrightarrow> documents w' = documents w"

definition fewer :: "'w \<Rightarrow> 'w \<Rightarrow> bool" where
  "fewer w w' \<longleftrightarrow> documents w' \<subseteq> documents w"

lemma same_order [simp]: "reflp same" "transp same"
  by (auto simp: same_def reflp_def transp_def)

lemma fewer_order [simp]: "reflp fewer" "transp fewer"
  by (auto simp: fewer_def reflp_def transp_def)

lemma keeps_save [simp]: "keeps same (db_save bk a)"
  by (rule keepsI) (simp add: same_def save_keeps)

lemma keeps_cancel [simp]: "keeps same (db_cancel bk t1 t2)"
  by (rule keepsI) (simp add: same_def cancel_keeps)

lemma keeps_reading [simp]: "keeps same (reads f)" "keeps same (returns x)" "keeps fewer (reads f)" "keeps fewer (returns x)"
  by (simp_all add: keeps_reads keeps_returns)

lemma keeps_sequence: "keeps same m \<Longrightarrow> (\<And>x. keeps same (f x)) \<Longrightarrow> keeps same (then_op m f)"
  by (rule keeps_then) simp_all

lemma keeps_fewer_sequence: "keeps fewer m \<Longrightarrow> (\<And>x. keeps fewer (f x)) \<Longrightarrow> keeps fewer (then_op m f)"
  by (rule keeps_then) simp_all

lemma same_fewer: "keeps same m \<Longrightarrow> keeps fewer m"
  by (auto simp: keeps_def same_def fewer_def)

lemma save_and_report_keeps [simp]: "keeps same (save_and_report bk q a)"
  unfolding save_and_report_def by (intro keeps_sequence) simp_all

lemma refusals_keep [simp]:
  "keeps same (refuse_unknown bk env q existing dry)"
  "keeps same (refuse_held bk q h now)"
  "keeps same (refuse_running bk env q h s current code dry)"
  "keeps same (refuse_mismatch bk q a now dry)"
  unfolding refuse_unknown_def refuse_held_def refuse_running_def refuse_mismatch_def
  by (simp_all add: keeps_sequence keeps_if)

lemma delete_targets_shrink: "keeps fewer (delete_targets bk env a cs i ts)"
proof (induction ts arbitrary: i)
  case Nil
  show ?case by (rule keepsI) (simp add: fewer_def)
next
  case (Cons t ts)
  let ?go = "\<lambda>t'. then_op (delete_targets bk env a cs (Suc i) ts) (\<lambda>(rs, failed). returns (Inr (t' # rs, failed)))"
  have go: "keeps fewer (?go t')" for t'
    by (rule keeps_fewer_sequence [OF Cons.IH]) (simp add: split_beta)
  show ?case
  proof (rule keepsI)
    fix w r w'
    assume run: "delete_targets bk env a cs i (t # ts) w = (r, w')"
    show "fewer w w'"
    proof (cases "target_step a cs t")
      case (Attempt c)
      obtain q w1 where del: "db_delete bk c (proofs_for a t) (os_event_time env) w = (q, w1)" by fastforce
      then have less: "fewer w w1" using delete_shrinks by (simp add: fewer_def)
      consider "w' = w" | "w' = w1" | t' where "?go t' w1 = (r, w')"
        using run Attempt del by (auto simp: Let_def split: if_splits sum.splits err.splits)
      then show ?thesis
      proof cases
        case 3
        with keepsD [OF go] have "fewer w1 w'" by blast
        with less show ?thesis unfolding fewer_def by (rule subset_trans [rotated])
      qed (use less in \<open>simp_all add: fewer_def\<close>)
    qed (use run keepsD [OF go] in \<open>simp_all add: Let_def\<close>)
  qed
qed

lemma finish_shrinks: "keeps fewer (finish bk env q a ts failed)"
proof (rule keepsI)
  fix w r w'
  assume run: "finish bk env q a ts failed w = (r, w')"
  have report: "fewer w1 w2" if "save_and_report bk q a' w1 = (r', w2)" for a' w1 r' w2
    using keepsD [OF same_fewer [OF save_and_report_keeps] that] .
  obtain q1 w1 where clean: "db_cleanup bk w = (q1, w1)" by fastforce
  then have less: "fewer w w1" using cleanup_shrinks by (simp add: fewer_def)
  have "w' = w \<or> w' = w1 \<or> (\<exists>a' w0 r'. w0 \<in> {w, w1} \<and> save_and_report bk q a' w0 = (r', w'))"
    using run clean by (auto simp: finish_def split: if_splits sum.splits err.splits)
  then consider "w' = w" | "w' = w1" | w0 where "w0 \<in> {w, w1}" "fewer w0 w'" using report by blast
  then show "fewer w w'"
  proof cases
    case 3
    with less show ?thesis unfolding fewer_def by blast
  qed (use less in \<open>simp_all add: fewer_def\<close>)
qed

lemma delete_released_shrinks: "keeps fewer (delete_released bk env q h s current cs)"
  unfolding delete_released_def
  by (intro keeps_fewer_sequence)
    (simp_all add: split_beta delete_targets_shrink finish_shrinks same_fewer)

text \<open>A change of the documents comes from deleting targets under the lock.\<close>

definition deleting :: "outside \<Rightarrow> 'w \<Rightarrow> deletion_result res \<Rightarrow> 'w \<Rightarrow> bool" where
  "deleting env w r w' \<longleftrightarrow> (\<exists>q h s current cs. delete_released bk env q h s current cs w = (r, w'))"

lemma run_released_needs:
  assumes run: "run_released bk env q h dry w = (r, w')"
    and changed: "documents w' \<noteq> documents w"
  shows "\<not> dry \<and> (\<exists>s. db_state bk w = Inr s \<and> deletable (dq_reason q) s) \<and> deleting env w r w'"
proof -
  obtain current where loaded: "db_load bk (dq_id q) w = Inr current"
    using run changed by (cases "db_load bk (dq_id q) w") (auto simp: run_released_def)
  obtain s where s: "db_state bk w = Inr s"
    using run changed loaded by (cases "db_state bk w") (auto simp: run_released_def)
  have unchanged: False if "keeps same m" "m w = (r, w')" for m :: "'w \<Rightarrow> deletion_result res \<times> 'w"
    using keepsD [OF that] changed by (simp add: same_def)
  let ?mismatch = "case current of None \<Rightarrow> False | Some a \<Rightarrow> au_targets a \<noteq> [] \<and> \<not> generation_matches s a"
  have stopped: "keeps same (then_op (db_cancel bk t1 t2) (\<lambda>_. refuse_running bk env q h s current code dry))" for t1 t2 code
    by (intro keeps_sequence) simp_all
  have match: "\<not> ?mismatch"
  proof
    assume ?mismatch
    with run loaded s have "refuse_mismatch bk q (the current) (os_clock env 4) dry w = (r, w')"
      by (simp add: run_released_def)
    with unchanged refusals_keep(4) show False by blast
  qed
  have idle: "\<not> bs_active s"
  proof
    assume "bs_active s"
    with run loaded s match unchanged [OF stopped] unchanged [OF refusals_keep(3)] show False
      by (simp add: run_released_def split: if_splits)
  qed
  have over: "bs_terminal s \<or> (dq_reason q = DR_EXPLICIT \<and> bs_canceled s)"
  proof (rule ccontr)
    assume "\<not> ?thesis"
    with run loaded s match idle unchanged [OF refusals_keep(3)] show False by (simp add: run_released_def)
  qed
  have "\<not> dry"
  proof
    assume dry
    with run loaded s match idle over changed show False
      by (cases "db_targets bk (dq_id q) w") (auto simp: run_released_def split: sum.splits)
  qed
  moreover from this have "deleting env w r w'"
    using run loaded s match idle over changed
    by (cases "db_targets bk (dq_id q) w") (auto simp: run_released_def deleting_def)
  ultimately show ?thesis using idle over s by (auto simp: deletable_def)
qed

lemma run_pending_needs:
  assumes run: "run_pending bk env q existing dry w = (r, w')"
    and changed: "documents w' \<noteq> documents w"
  shows "\<not> dry \<and> released_by env 0 (dq_scope_ref q) (dq_run_ref q) \<and> released_by env 1 (dq_scope_ref q) (dq_run_ref q)
    \<and> (\<exists>s. db_state bk w = Inr s \<and> deletable (dq_reason q) s) \<and> deleting env w r w'"
proof -
  have unchanged: False if "keeps same m" "m w = (r, w')" for m :: "'w \<Rightarrow> deletion_result res \<times> 'w"
    using keepsD [OF that] changed by (simp add: same_def)
  have held: "keeps same (then_op (reads (db_lock bk)) (\<lambda>_. refuse_held bk q h now))" for h now
    by (intro keeps_sequence) simp_all
  obtain h where h: "safe_hold (os_holds env 0) (dq_scope_ref q) (dq_run_ref q) = Inr h"
    using run unchanged [OF refusals_keep(1)]
    by (cases "safe_hold (os_holds env 0) (dq_scope_ref q) (dq_run_ref q)") (auto simp: run_pending_def Let_def)
  have free: "hd_status h = HS_RELEASE"
  proof (rule ccontr)
    assume "\<not> ?thesis"
    with run h unchanged [OF held] unchanged [OF keeps_reading(2)] show False
      by (simp add: run_pending_def Let_def split: if_splits)
  qed
  obtain h' where h': "safe_hold (os_holds env 1) (dq_scope_ref q) (dq_run_ref q) = Inr h'" and locked: "db_lock bk w = Inr ()"
    using run h free changed
    by (cases "db_lock bk w"; cases "safe_hold (os_holds env 1) (dq_scope_ref q) (dq_run_ref q)")
      (auto simp: run_pending_def Let_def)
  have free': "hd_status h' = HS_RELEASE"
  proof (rule ccontr)
    assume "\<not> ?thesis"
    with run h h' free locked unchanged [OF refusals_keep(2)] unchanged [OF keeps_reading(2)] show False
      by (simp add: run_pending_def Let_def split: if_splits)
  qed
  have "run_released bk env q h' dry w = (r, w')"
    using run h h' free free' locked by (simp add: run_pending_def Let_def)
  from run_released_needs [OF this changed] h h' free free' show ?thesis by (auto simp: released_by_def)
qed

lemma documents_go_only_under_release:
  assumes run: "run_deletion bk env deletion_id reason dry w = (r, w')"
    and changed: "documents w' \<noteq> documents w"
  shows "\<not> dry \<and> released_by env 0 (db_scope_ref bk) (db_run_ref bk) \<and> released_by env 1 (db_scope_ref bk) (db_run_ref bk)
    \<and> (\<exists>s. db_state bk w = Inr s \<and> deletable reason s) \<and> deleting env w r w'"
proof -
  let ?q = "\<lparr>dq_id = deletion_id, dq_scope_ref = db_scope_ref bk, dq_run_ref = db_run_ref bk, dq_reason = reason,
    dq_requested_at = os_clock env 0\<rparr>"
  have q: "deletion_request_post_init ?q = Inr ?q"
  proof (cases "deletion_request_post_init ?q")
    case (Inl e)
    with run changed show ?thesis by (simp add: run_deletion_def)
  next
    case (Inr q)
    with deletion_request_post_init_same [OF Inr] show ?thesis by simp
  qed
  obtain existing where loaded: "db_load bk deletion_id w = Inr existing"
    using run changed q by (cases "db_load bk deletion_id w") (auto simp: run_deletion_def)
  have mismatch: "documents w' = documents w" if "refuse_mismatch bk ?q a now dry w = (r, w')" for a now
    using keepsD [OF refusals_keep(4) that] by (simp add: same_def)
  have replay: "\<exists>e. run_pending bk env ?q e dry w = (r, w')" if "replay_complete bk env ?q a dry w = (r, w')" for a
    using that changed loaded mismatch
    by (cases existing) (auto simp: replay_complete_def split: sum.splits if_splits)
  have "\<exists>e. run_pending bk env ?q e dry w = (r, w')"
    using run changed loaded q replay by (cases existing) (auto simp: run_deletion_def split: if_splits)
  then obtain e where "run_pending bk env ?q e dry w = (r, w')" ..
  from run_pending_needs [OF this changed] show ?thesis by simp
qed

lemma documents_never_appear:
  assumes "run_deletion bk env deletion_id reason dry w = (r, w')"
  shows "documents w' \<subseteq> documents w"
proof -
  have released: "keeps fewer (run_released bk env q h dry)" for q h
    unfolding run_released_def
    by (intro keeps_fewer_sequence keeps_if) (simp_all add: same_fewer delete_released_shrinks)
  have pending: "keeps fewer (run_pending bk env q existing dry)" for q existing
  proof (cases "safe_hold (os_holds env 0) (dq_scope_ref q) (dq_run_ref q)")
    case (Inl e)
    then show ?thesis by (simp add: run_pending_def same_fewer)
  next
    case (Inr h)
    show ?thesis unfolding run_pending_def Let_def Inr sum.case
      by (intro keeps_fewer_sequence keeps_if) (simp_all add: same_fewer released)
  qed
  have option: "keeps fewer (case x of None \<Rightarrow> m | Some y \<Rightarrow> n y)"
    if "keeps fewer m" "\<And>y. keeps fewer (n y)" for x :: "deletion_audit option" and m and n :: "_ \<Rightarrow> 'w \<Rightarrow> deletion_result res \<times> 'w"
    using that by (cases x) simp_all
  have replay: "keeps fewer (replay_complete bk env q a dry)" for q a
    unfolding replay_complete_def
    by (intro keeps_fewer_sequence option keeps_if) (simp_all add: same_fewer pending)
  have "keeps fewer (run_deletion bk env deletion_id reason dry)"
    unfolding run_deletion_def
    by (intro keeps_fewer_sequence option keeps_if) (simp_all add: pending replay)
  from keepsD [OF this assms] show ?thesis by (simp add: fewer_def)
qed

end

section \<open>A half deleted run is fenced\<close>

definition reports_complete :: "deletion_result res \<Rightarrow> bool" where
  "reports_complete r \<longleftrightarrow> (case r of Inl _ \<Rightarrow> False | Inr x \<Rightarrow> dx_state x = DS_COMPLETE)"

definition fencing :: "deletion_audit \<Rightarrow> bool" where
  "fencing a \<longleftrightarrow> au_state a \<in> {DS_IN_PROGRESS, DS_PARTIAL}"

locale fenced_backend = deletion_backend bk documents
  for bk :: "'w backend" and documents :: "'w \<Rightarrow> 'p set" +
  fixes fenced :: "'w \<Rightarrow> bool"
  assumes save_fences: "db_save bk a w = (Inr u, w') \<Longrightarrow> fencing a \<Longrightarrow> fenced w'"
    and failing_save: "db_save bk a w = (Inl e, w') \<Longrightarrow> fencing a \<Longrightarrow> fenced w \<Longrightarrow> fenced w'"
    and delete_fenced: "db_delete bk c ps at w = (r, w') \<Longrightarrow> fenced w \<Longrightarrow> fenced w'"
    and cleanup_fenced: "db_cleanup bk w = (q, w') \<Longrightarrow> fenced w \<Longrightarrow> fenced w'"
    and last_save: "db_cleanup bk w = (Inr u, w1) \<Longrightarrow> db_save bk a w1 = (Inl e, w2) \<Longrightarrow> fenced w1 \<Longrightarrow> fenced w2"
begin

lemma delete_targets_fenced:
  "delete_targets bk env a cs i ts w = (r, w') \<Longrightarrow> fenced w \<Longrightarrow> fenced w'"
proof (induction ts arbitrary: i w r w')
  case (Cons t ts)
  have go: "fenced w2" if "then_op (delete_targets bk env a cs (Suc i) ts)
      (\<lambda>(rs, failed). returns (Inr (t' # rs, failed))) w1 = (r2, w2)" "fenced w1" for t' w1 r2 w2
    using that by (elim then_op_split) (auto intro: Cons.IH)
  show ?case
  proof (cases "target_step a cs t")
    case (Attempt c)
    obtain q w1 where del: "db_delete bk c (proofs_for a t) (os_event_time env) w = (q, w1)" by fastforce
    then have "fenced w1" using delete_fenced Cons.prems by blast
    moreover have "w' = w \<or> w' = w1 \<or> (\<exists>t'. then_op (delete_targets bk env a cs (Suc i) ts)
        (\<lambda>(rs, failed). returns (Inr (t' # rs, failed))) w1 = (r, w'))"
      using Cons.prems(1) Attempt del by (auto simp: Let_def split: if_splits sum.splits err.splits)
    ultimately show ?thesis using go Cons.prems(2) by blast
  qed (use Cons.prems go in \<open>auto simp: Let_def\<close>)
qed simp

lemma save_and_report_fenced:
  assumes "save_and_report bk q a w = (r, w')" "fencing a" "fenced w"
  shows "fenced w'"
proof -
  have same_audit: "audit_post_init a = Inr b \<Longrightarrow> b = a" for b
    by (auto simp: audit_post_init_def bind_res_Inr_iff)
  obtain x w1 where save: "db_save bk a w = (x, w1)" by fastforce
  have "w' = w \<or> w' = w1"
    using assms(1) save same_audit
    by (cases "audit_post_init a"; cases x) (auto simp: save_and_report_def then_op_def)
  moreover have "fenced w1" using save save_fences failing_save assms by (cases x) blast+
  ultimately show ?thesis using assms(3) by blast
qed

lemma finish_fenced:
  assumes run: "finish bk env q a ts failed w = (r, w')" and fenced: "fenced w"
  shows "reports_complete r \<or> fenced w'"
proof -
  obtain x w1 where clean: "db_cleanup bk w = (x, w1)" by fastforce
  then have "fenced w1" using cleanup_fenced fenced by blast
  have partial: "fenced w3" if "save_and_report bk q (ended b ts now DS_PARTIAL code) w2 = (r2, w3)" "fenced w2"
    for b now code w2 r2 w3
    using save_and_report_fenced [OF that(1) _ that(2)] by (simp add: fencing_def ended_def)
  have final: "reports_complete r \<or> fenced w'"
    if report: "save_and_report bk q b w1 = (r, w')" and u: "x = Inr ()" and complete: "au_state b = DS_COMPLETE" for b
  proof (cases "audit_post_init b")
    case (Inr b')
    then have "b' = b" by (auto simp: audit_post_init_def bind_res_Inr_iff)
    obtain y w2 where save: "db_save bk b w1 = (y, w2)" by fastforce
    show ?thesis
    proof (cases y)
      case (Inl e)
      with save last_save clean u \<open>fenced w1\<close> have "fenced w2" by blast
      with report save Inl Inr \<open>b' = b\<close> show ?thesis by (simp add: save_and_report_def)
    next
      case (Inr v)
      with report save \<open>audit_post_init b = Inr b'\<close> \<open>b' = b\<close> complete show ?thesis
        by (auto simp: save_and_report_def reports_complete_def result_of_def)
    qed
  qed (use report \<open>fenced w1\<close> in \<open>auto simp: save_and_report_def\<close>)
  show ?thesis
  proof (cases "failed \<or> list_ex (\<lambda>t. tg_status t = TS_FAILED) ts")
    case True
    with run partial fenced show ?thesis by (auto simp: finish_def)
  next
    case False
    let ?c = "ended a ts (os_clock env 8) DS_IN_PROGRESS RC_NONE"
    have "w' = w \<or> w' = w1 \<or> (\<exists>b now code. save_and_report bk q (ended b ts now DS_PARTIAL code) w1 = (r, w'))
        \<or> (x = Inr () \<and> (\<exists>b now. save_and_report bk q (ended b ts now DS_COMPLETE RC_NONE) w1 = (r, w')))"
      using run False clean
      by (cases "audit_post_init ?c"; cases x) (auto simp: finish_def split: err.splits)
    then show ?thesis using fenced \<open>fenced w1\<close> partial final by (auto simp: ended_def)
  qed
qed

lemma half_deleted_is_fenced:
  assumes run: "run_deletion bk env deletion_id reason dry w = (r, w')"
    and changed: "documents w' \<noteq> documents w"
  shows "reports_complete r \<or> fenced w'"
proof -
  obtain q h s current cs where del: "delete_released bk env q h s current cs w = (r, w')"
    using documents_go_only_under_release [OF run changed] by (auto simp: deleting_def)
  from del changed obtain active where
    start: "then_op (db_save bk active) (\<lambda>_. then_op (delete_targets bk env active cs 0 (au_targets active))
        (\<lambda>(ts, failed). finish bk env q active ts (failed \<or> any_never_adopted (au_targets active)))) w = (r, w')"
    and audited: "\<exists>a now. audit_post_init (started a h s now) = Inr active"
    unfolding delete_released_def by (auto split: sum.splits)
  have "fencing active" using audited by (auto simp: audit_post_init_def bind_res_Inr_iff fencing_def started_def)
  from start show ?thesis
  proof (cases rule: then_op_split)
    case (raised e)
    with save_keeps changed show ?thesis by blast
  next
    case (goes_on u w1)
    have fenced: "fenced w1" by (rule save_fences [OF goes_on(1) \<open>fencing active\<close>])
    from goes_on(2) show ?thesis
    proof (cases rule: then_op_split)
      case (raised e)
      with delete_targets_fenced fenced show ?thesis by blast
    next
      case (goes_on x w2)
      with delete_targets_fenced fenced have "fenced w2" by blast
      with goes_on(2) finish_fenced show ?thesis by (cases x) auto
    qed
  qed
qed

end

end
