(* ===== verification/Deletion_Guard_Laws.thy ===== *)
theory Deletion_Guard_Laws
  imports Deletion_Laws
begin

text \<open>
  The workspace backend fulfils both contracts of the coordinator: its documents are the files of the
  run and the session bindings, its fence is the fence file that the write barrier of
  \<open>src/k_slide/storage.py\<close> reads.
\<close>

definition session_files :: "session_dir \<Rightarrow> (string \<times> run_file) list" where
  "session_files d = (case d of SD_Files fs \<Rightarrow> fs | _ \<Rightarrow> [])"

definition file_names :: "(string \<times> 'a) list \<Rightarrow> string set" where
  "file_names fs = dom (map_of fs)"

definition run_documents :: "run_space \<Rightarrow> doc_path set" where
  "run_documents w = In_Run ` file_names (rs_files w) \<union> In_Sessions ` file_names (session_files (rs_sessions w))"

definition run_fenced :: "run_space \<Rightarrow> bool" where
  "run_fenced w \<longleftrightarrow> rs_fence w \<noteq> Absent"

lemma run_fenced_refuses: "run_fenced w \<Longrightarrow> \<not> is_ok (workspace_mutation_guard (workspace_of w))"
  by (rule guard_refuses_fence_file) (simp add: run_fenced_def workspace_of_def)

lemma run_documents_same:
  "file_names (rs_files w') = file_names (rs_files w) \<Longrightarrow> rs_sessions w' = rs_sessions w
     \<Longrightarrow> run_documents w' = run_documents w"
  by (simp add: run_documents_def)

lemma run_documents_fewer:
  "file_names (rs_files w') \<subseteq> file_names (rs_files w)
     \<Longrightarrow> file_names (session_files (rs_sessions w')) \<subseteq> file_names (session_files (rs_sessions w))
     \<Longrightarrow> run_documents w' \<subseteq> run_documents w"
  unfolding run_documents_def by blast

lemma update_names: "map_of fs n \<noteq> None \<Longrightarrow> file_names (AList.update n v fs) = file_names fs"
  by (auto simp: file_names_def update_conv')

lemma delete_names: "file_names (AList.delete n fs) \<subseteq> file_names fs"
  by (auto simp: file_names_def delete_conv')

section \<open>Saving\<close>

lemma set_fence_file_effect:
  "set_fence_file active w = (r, w') \<Longrightarrow>
     rs_files w' = rs_files w \<and> rs_sessions w' = rs_sessions w \<and> rs_audits w' = rs_audits w
     \<and> rs_log w' = rs_log w \<and> rs_name w' = rs_name w \<and> rs_present w' = rs_present w \<and> rs_pinned w' = rs_pinned w
     \<and> rs_is_link w' = rs_is_link w \<and> rs_scratch_link w' = rs_scratch_link w \<and> rs_fences_safe w' = rs_fences_safe w"
  by (auto simp: set_fence_file_def split: if_splits fs_node.splits)

lemma set_fence_state_effect:
  "set_fence_state active w = (r, w') \<Longrightarrow> rs_fence w' = rs_fence w \<and> run_documents w' = run_documents w"
proof -
  assume run: "set_fence_state active w = (r, w')"
  then consider "w' = w" | v where "w' = set_file ''RUN_STATE.json'' v w" "map_of (rs_files w) ''RUN_STATE.json'' \<noteq> None"
    by (auto simp: set_fence_state_def Let_def split: option.splits run_file.splits json.splits if_splits)
  then show ?thesis
  proof cases
    case 2
    then have "file_names (rs_files w') = file_names (rs_files w)" by (simp add: set_file_def update_names)
    with 2 show ?thesis by (simp add: set_file_def run_documents_def)
  qed simp
qed

lemma write_audit_effect:
  "write_audit a w = (r, w') \<Longrightarrow> r = Inr () \<and> rs_fence w' = rs_fence w \<and> rs_files w' = rs_files w
     \<and> rs_sessions w' = rs_sessions w \<and> rs_fences_safe w' = rs_fences_safe w \<and> run_documents w' = run_documents w"
  by (auto simp: write_audit_def run_documents_def)

lemma save_documents:
  assumes "workspace_save a w = (r, w')"
  shows "run_documents w' = run_documents w"
proof -
  obtain q w1 where audit: "write_audit a w = (q, w1)" by fastforce
  then have q: "q = Inr ()" using write_audit_effect by blast
  have "set_fence (fencing a) w1 = (r, w')" using assms audit q by (simp add: workspace_save_def fencing_def)
  then show ?thesis unfolding set_fence_def
  proof (cases rule: then_op_split)
    case (raised e)
    with set_fence_file_effect write_audit_effect [OF audit] show ?thesis by (metis run_documents_same)
  next
    case (goes_on u w2)
    with set_fence_file_effect have "run_documents w2 = run_documents w1" by (metis run_documents_same)
    with set_fence_state_effect [OF goes_on(2)] write_audit_effect [OF audit] show ?thesis by simp
  qed
qed

lemma save_fence:
  assumes "workspace_save a w = (r, w')" and "fencing a"
  shows "(\<exists>e. r = Inl e \<and> \<not> rs_fences_safe w \<and> rs_fence w' = rs_fence w) \<or> run_fenced w'"
proof -
  obtain q w1 where audit: "write_audit a w = (q, w1)" by fastforce
  then have q: "q = Inr ()" using write_audit_effect by blast
  have "set_fence True w1 = (r, w')" using assms audit q by (simp add: workspace_save_def fencing_def)
  then show ?thesis unfolding set_fence_def
  proof (cases rule: then_op_split)
    case (raised e)
    then show ?thesis using write_audit_effect [OF audit]
      by (auto simp: set_fence_file_def split: if_splits)
  next
    case (goes_on u w2)
    then have "run_fenced w2" by (auto simp: set_fence_file_def run_fenced_def split: if_splits fs_node.splits)
    with set_fence_state_effect [OF goes_on(2)] show ?thesis by (simp add: run_fenced_def)
  qed
qed

lemma cancel_documents:
  assumes "workspace_cancel ref t1 t2 w = (r, w')"
  shows "run_documents w' = run_documents w"
proof -
  consider "w' = w" | v where "w' = set_file ''EXECUTION_JOB.json'' v w" "plain_file (map_of (rs_files w) ''EXECUTION_JOB.json'')"
    using assms by (auto simp: workspace_cancel_def split: sum.splits option.splits if_splits)
  then show ?thesis
  proof cases
    case 2
    then have "map_of (rs_files w) ''EXECUTION_JOB.json'' \<noteq> None" by (simp add: plain_file_def split: option.splits)
    with 2 show ?thesis by (simp add: set_file_def run_documents_def update_names)
  qed simp
qed

section \<open>Unlinking\<close>

lemma unlink_documents:
  assumes run: "unlink p w = (r, w')"
  shows "run_documents w' \<subseteq> run_documents w"
proof (cases "p \<in> set (rs_pinned w)")
  case False
  show ?thesis
  proof (cases p)
    case (In_Run n)
    with run False have "w' = w\<lparr>rs_files := AList.delete n (rs_files w)\<rparr>" by (simp add: unlink_def)
    then show ?thesis by (intro run_documents_fewer) (simp_all add: delete_names)
  next
    case (In_Sessions n)
    show ?thesis
    proof (cases "rs_sessions w")
      case (SD_Files fs)
      with run False In_Sessions have "w' = w\<lparr>rs_sessions := SD_Files (AList.delete n fs)\<rparr>" by (simp add: unlink_def)
      with SD_Files show ?thesis by (intro run_documents_fewer) (simp_all add: delete_names session_files_def)
    qed (use run False In_Sessions in \<open>simp_all add: unlink_def\<close>)
  next
    case In_Fences
    with run False have "w' = w\<lparr>rs_fence := Absent\<rparr>" by (simp add: unlink_def)
    then show ?thesis by (simp add: run_documents_def)
  qed
qed (use run in \<open>simp add: unlink_def\<close>)

lemma unlink_fence: "unlink p w = (r, w') \<Longrightarrow> p \<noteq> In_Fences \<Longrightarrow> rs_fence w' = rs_fence w"
  by (auto simp: unlink_def split: if_splits doc_path.splits session_dir.splits)

lemma unlink_all_effect:
  "unlink_all ps w = (r, w') \<Longrightarrow> In_Fences \<notin> set ps
     \<Longrightarrow> run_documents w' \<subseteq> run_documents w \<and> rs_fence w' = rs_fence w"
proof (induction ps arbitrary: w)
  case (Cons p ps)
  from Cons.prems(1) have "then_op (unlink p) (\<lambda>_. unlink_all ps) w = (r, w')" by simp
  then show ?case
  proof (cases rule: then_op_split)
    case (raised e)
    with unlink_documents unlink_fence Cons.prems(2) show ?thesis by force
  next
    case (goes_on u w1)
    with Cons.IH Cons.prems(2) have "run_documents w' \<subseteq> run_documents w1 \<and> rs_fence w' = rs_fence w1" by simp
    moreover have "run_documents w1 \<subseteq> run_documents w \<and> rs_fence w1 = rs_fence w"
      using unlink_documents [OF goes_on(1)] unlink_fence [OF goes_on(1)] Cons.prems(2) by auto
    ultimately show ?thesis by auto
  qed
qed simp

lemma record_removed_effect:
  "record_removed at proofs w = (r, w') \<Longrightarrow> \<exists>s. w' = w\<lparr>rs_log := s\<rparr>"
  by (auto simp: record_removed_def split: prod.splits)

lemma log_update_effect [simp]:
  "run_documents (w\<lparr>rs_log := s\<rparr>) = run_documents w"
  by (simp add: run_documents_def)

lemma unlink_support_effect:
  "unlink_support at proofs ps w = (r, w') \<Longrightarrow> In_Fences \<notin> set ps
     \<Longrightarrow> run_documents w' \<subseteq> run_documents w \<and> rs_fence w' = rs_fence w"
proof (induction ps arbitrary: w)
  case (Cons p ps)
  from Cons.prems(1)
  have "then_op (unlink p) (\<lambda>_. then_op (record_removed at proofs) (\<lambda>_. unlink_support at proofs ps)) w = (r, w')"
    by simp
  then show ?case
  proof (cases rule: then_op_split)
    case (raised e)
    with unlink_documents unlink_fence Cons.prems(2) show ?thesis by force
  next
    case (goes_on u w1)
    have first: "run_documents w1 \<subseteq> run_documents w \<and> rs_fence w1 = rs_fence w"
      using unlink_documents [OF goes_on(1)] unlink_fence [OF goes_on(1)] Cons.prems(2) by auto
    from goes_on(2) show ?thesis
    proof (cases rule: then_op_split)
      case (raised e)
      with record_removed_effect first show ?thesis by fastforce
    next
      case (goes_on v w2)
      with record_removed_effect have "run_documents w2 = run_documents w1" "rs_fence w2 = rs_fence w1" by fastforce+
      with Cons.IH goes_on(2) Cons.prems(2) first show ?thesis by fastforce
    qed
  qed
qed simp

lemma paths_not_fences: "paths_for_class c w = Inr ps \<Longrightarrow> In_Fences \<notin> set ps"
  by (auto simp: paths_for_class_def bind_res_Inr_iff split: if_splits)

lemma delete_support_effect:
  assumes run: "delete_support at proofs ps w = (r, w')" and no_fence: "In_Fences \<notin> set ps"
  shows "run_documents w' \<subseteq> run_documents w \<and> rs_fence w' = rs_fence w"
proof (cases "support_blocked w")
  case False
  obtain q w1 where un: "unlink_support at proofs (filter is_zip ps @ filter (\<lambda>p. \<not> is_zip p) ps) w = (q, w1)" by fastforce
  with no_fence have step: "run_documents w1 \<subseteq> run_documents w \<and> rs_fence w1 = rs_fence w"
    using unlink_support_effect by auto
  have "\<exists>s. w' = w1\<lparr>rs_log := s\<rparr>"
  proof (cases q)
    case (Inl e)
    with run un False have "then_op (record_removed at proofs) (\<lambda>_. returns (Inl e)) w1 = (r, w')"
      by (simp add: delete_support_def)
    then show ?thesis by (rule then_op_split) (auto dest: record_removed_effect)
  next
    case (Inr u)
    with run un False show ?thesis by (auto simp: delete_support_def dest: record_removed_effect)
  qed
  with step show ?thesis by auto
qed (use run in \<open>simp add: delete_support_def\<close>)

lemma workspace_delete_effect:
  assumes "workspace_delete c proofs at w = (r, w')"
  shows "run_documents w' \<subseteq> run_documents w \<and> rs_fence w' = rs_fence w"
proof (cases "paths_for_class (cd_class c) w")
  case (Inl e)
  with assms show ?thesis by (simp add: workspace_delete_def)
next
  case (Inr ps)
  note paths_not_fences [OF Inr]
  with assms Inr delete_support_effect unlink_all_effect show ?thesis
    by (auto simp: workspace_delete_def split: if_splits)
qed

lemma cleanup_effect:
  assumes "workspace_cleanup w = (r, w')"
  shows "run_documents w' \<subseteq> run_documents w \<and> rs_fence w' = rs_fence w
    \<and> (\<forall>u. r = Inr u \<longrightarrow> rs_files w' = [] \<and> \<not> rs_present w')"
proof -
  have files: "rs_files w2 = rs_files w1 \<and> rs_present w2 = rs_present w1"
    if "unlink_all (map In_Sessions ns) w1 = (q, w2)" for ns w1 q w2
    using that
  proof (induction ns arbitrary: w1)
    case (Cons n ns)
    from Cons.prems have "then_op (unlink (In_Sessions n)) (\<lambda>_. unlink_all (map In_Sessions ns)) w1 = (q, w2)" by simp
    then show ?case
      by (rule then_op_split) (use Cons.IH in \<open>fastforce simp: unlink_def split: if_splits session_dir.splits\<close>)+
  qed simp
  from assms show ?thesis unfolding workspace_cleanup_def
  proof (cases rule: then_op_split)
    case (raised e)
    then show ?thesis by (auto simp: remove_run_dir_def split: if_splits)
  next
    case (goes_on u w1)
    then have gone: "rs_files w1 = []" "\<not> rs_present w1" "rs_sessions w1 = rs_sessions w" "rs_fence w1 = rs_fence w"
      "run_documents w1 \<subseteq> run_documents w"
      by (auto simp: remove_run_dir_def run_exists_def run_documents_def split: if_splits)
    from goes_on(2) show ?thesis
    proof (cases rule: then_op_split)
      case (goes_on names w2)
      then have "unlink_all (map In_Sessions names) w1 = (r, w')" by auto
      with unlink_all_effect [OF this] files [OF this] gone show ?thesis by auto
    qed (use gone in auto)
  qed
qed

section \<open>The interpretations\<close>

interpretation ws: fenced_backend "workspace_backend ref run" run_documents run_fenced
  for ref run
proof unfold_locales
  fix a w r w' assume "db_save (workspace_backend ref run) a w = (r, w')"
  then show "run_documents w' = run_documents w" by (simp add: workspace_backend_def save_documents)
next
  fix t1 t2 w r w' assume "db_cancel (workspace_backend ref run) t1 t2 w = (r, w')"
  then have "workspace_cancel ref t1 t2 w = (r, w')" by (simp add: workspace_backend_def)
  then show "run_documents w' = run_documents w" by (rule cancel_documents)
next
  fix c ps at w r w' assume "db_delete (workspace_backend ref run) c ps at w = (r, w')"
  then show "run_documents w' \<subseteq> run_documents w" by (auto simp: workspace_backend_def dest: workspace_delete_effect)
next
  fix w r w' assume "db_cleanup (workspace_backend ref run) w = (r, w')"
  then show "run_documents w' \<subseteq> run_documents w" by (auto simp: workspace_backend_def dest: cleanup_effect)
next
  fix a w w' and u :: unit
  assume "db_save (workspace_backend ref run) a w = (Inr u, w')" "fencing a"
  then show "run_fenced w'" by (auto simp: workspace_backend_def dest: save_fence)
next
  fix a w e w'
  assume "db_save (workspace_backend ref run) a w = (Inl e, w')" "fencing a" "run_fenced w"
  then show "run_fenced w'" by (auto simp: workspace_backend_def run_fenced_def dest: save_fence)
next
  fix c ps at w r w' assume "db_delete (workspace_backend ref run) c ps at w = (r, w')" "run_fenced w"
  then show "run_fenced w'" by (auto simp: workspace_backend_def run_fenced_def dest: workspace_delete_effect)
next
  fix w q w' assume "db_cleanup (workspace_backend ref run) w = (q, w')" "run_fenced w"
  then show "run_fenced w'" by (auto simp: workspace_backend_def run_fenced_def dest: cleanup_effect)
next
  fix w w1 w2 a e and u :: unit
  assume clean: "db_cleanup (workspace_backend ref run) w = (Inr u, w1)"
    and save: "db_save (workspace_backend ref run) a w1 = (Inl e, w2)" and "run_fenced w1"
  from clean have "rs_files w1 = []" by (auto simp: workspace_backend_def dest: cleanup_effect)
  then have "rs_fence w2 = rs_fence w1 \<or> run_fenced w2"
    using save by (auto simp: workspace_backend_def workspace_save_def write_audit_def set_fence_def then_op_def
        set_fence_file_def set_fence_state_def run_fenced_def split: if_splits fs_node.splits sum.splits prod.splits)
  with \<open>run_fenced w1\<close> show "run_fenced w2" by (auto simp: run_fenced_def)
qed

end
