(* ===== verification/Deletion_Audit_Laws.thy ===== *)
theory Deletion_Audit_Laws
  imports Deletion_Guard_Laws Paas_References
begin

text \<open>
  What a deletion audit keeps through its file, and what is known of a target reference without
  computing the digest in it.
\<close>

section \<open>Target references\<close>

lemma deletion_words_not_hex: "\<forall>w \<in> set deletion_forbidden. \<exists>c \<in> set w. \<not> is_hex_char c"
  by (simp add: deletion_forbidden_def char_defs)

lemma opaque_dash_hex:
  assumes s: "opaque s" "length s < 80" and hex: "list_all is_hex_char h" "length h \<le> 40"
  shows "opaque (s @ CHR ''-'' # h)"
proof -
  have dash: "\<forall>w \<in> set deletion_forbidden. lower_char CHR ''-'' \<notin> set w"
    by (simp add: deletion_forbidden_def char_defs)
  have words: "\<not> contains_word deletion_forbidden (s @ CHR ''-'' # h)"
    using contains_word_hex [OF deletion_words_not_hex hex(1)] s(1)
    by (simp add: contains_word_between [OF dash] opaque_def)
  obtain c cs where cs: "s = c # cs" using s(1) by (cases s) (auto simp: opaque_def matches_identifier_def)
  have "list_all (\<lambda>c. is_alnum_char c \<or> c \<in> set ''_.:-'') h"
    using hex(1) by (auto simp: list_all_iff hex_alnum)
  with s cs hex(2) words show ?thesis
    by (simp add: opaque_def matches_identifier_def)
qed

lemma digest_prefix_hex: "list_all is_hex_char (take n (stable_revision v))"
  using stable_revision_sha256 [of v]
  by (auto simp: matches_sha256_def list_all_iff simp del: stable_revision_sha256 dest: in_set_takeD)

lemma target_ref_opaque [simp]: "opaque (target_ref scope run deletion_id c)"
proof -
  have "opaque ''target''" by (simp add: opaque_def pattern_defs deletion_forbidden_def char_defs)
  from opaque_dash_hex [OF this _ digest_prefix_hex] show ?thesis by (simp add: target_ref_def)
qed

lemma class_of_class_name [simp]: "class_of_name (class_name c) = c"
  using member_of_deletion_class [of c]
  by (auto simp: class_of_name_def class_name_def member_of_def split: option.splits if_splits)

section \<open>The file of an audit\<close>

definition wf_target :: "target_record \<Rightarrow> bool" where
  "wf_target t \<longleftrightarrow> opaque (tg_ref t)"

definition anchors_json :: "(string \<times> string) list \<Rightarrow> (string \<times> json) list" where
  "anchors_json xs = map (\<lambda>(n, r). (n, JStr r)) xs"

text \<open>An audit as the constructor and the decoder leave it: validated parts, anchors in order.\<close>

definition wf_audit :: "deletion_audit \<Rightarrow> bool" where
  "wf_audit a \<longleftrightarrow> audit_post_init a = Inr a \<and> list_all wf_target (au_targets a)
     \<and> list_all wf_proof (au_support a) \<and> sort_fields (anchors_json (au_anchors a)) = anchors_json (au_anchors a)"

lemma target_round_trip: "wf_target t \<Longrightarrow> target_from_item (target_as_dict t) = Inr t"
  by (cases t) (simp add: target_from_item_def target_as_dict_def required_field_def wf_target_def raw_str_def class_name_def)

lemma targets_round_trip:
  "list_all wf_target ts \<Longrightarrow> map_res target_from_item (map target_as_dict ts) = Inr ts"
  by (rule map_res_map [where h = id, simplified]) (simp add: list_all_iff target_round_trip)

lemma proofs_round_trip:
  "list_all wf_proof ps \<Longrightarrow> map_res proof_from_dict (map proof_as_dict ps) = Inr ps"
  by (rule map_res_map [where h = id, simplified]) (simp add: list_all_iff)

lemma anchors_round_trip:
  assumes "sort_fields (anchors_json xs) = anchors_json xs"
  shows "anchors_from (JObj (anchors_json xs)) = Inr xs"
proof -
  have "list_all (\<lambda>kv. json_str (snd kv) \<noteq> None) (anchors_json xs)"
    by (auto simp: anchors_json_def list_all_iff)
  moreover have "map (\<lambda>kv. (fst kv, raw_str (snd kv))) (anchors_json xs) = xs"
    by (auto simp: anchors_json_def raw_str_def intro: map_idI)
  ultimately show ?thesis by (simp add: anchors_from_def assms)
qed

lemma audit_keys: "keys_of (audit_fields a) \<subseteq> set audit_names"
  by (auto simp: audit_fields_def keys_of_def audit_names_def split: option.splits)

lemma audit_required_keys: "set (take 15 audit_names) \<subseteq> keys_of (audit_fields a)"
  by (simp add: audit_fields_def keys_of_def audit_names_def)

lemma audit_lookups:
  "map_of (audit_fields a) ''targets'' = Some (JArr (map target_as_dict (au_targets a)))"
  "field_or d ''contract_version'' (audit_fields a) = JStr ''1.0''"
  "field_or d ''deletion_id'' (audit_fields a) = JStr (au_id a)"
  "field_or d ''scope_ref'' (audit_fields a) = JStr (au_scope_ref a)"
  "field_or d ''run_ref'' (audit_fields a) = JStr (au_run_ref a)"
  "field_or d ''reason'' (audit_fields a) = JStr (value_in reason_values (au_reason a))"
  "field_or d ''target_generation_ref'' (audit_fields a) = JStr (au_generation a)"
  "field_or d ''authority_ref'' (audit_fields a) = JStr (au_authority_ref a)"
  "field_or d ''hold_decision_ref'' (audit_fields a) = JStr (au_hold_ref a)"
  "field_or d ''requested_at'' (audit_fields a) = JStr (au_requested_at a)"
  "field_or d ''updated_at'' (audit_fields a) = JStr (au_updated_at a)"
  "field_or d ''retry_count'' (audit_fields a) = JInt (au_retry a)"
  "field_or d ''state'' (audit_fields a) = JStr (value_in deletion_state_values (au_state a))"
  "field_or d ''outcome'' (audit_fields a) = JStr (value_in deletion_state_values (au_outcome a))"
  "field_or d ''error_code'' (audit_fields a) = JStr (value_in deletion_code_values (au_code a))"
  "field_or d ''generation_anchors'' (audit_fields a) = JObj (anchors_json (au_anchors a))"
  by (simp_all add: audit_fields_def field_or_def anchors_json_def)

lemma audit_optional_lookups:
  "raw_opt_identifier (field_or JNull ''identity_ref'' (audit_fields a)) = au_identity a"
  "field_or (JArr []) ''support_recovery'' (audit_fields a) = JArr (map proof_as_dict (au_support a))"
  by (auto simp: audit_fields_def field_or_def raw_opt_identifier_def raw_str_def split: option.splits)

lemma audit_leading_checks:
  assumes "audit_post_init a = Inr a"
  shows "guards (opaque_checks [au_id a, au_scope_ref a, au_run_ref a] @ [(\<not> matches_sha256 (au_generation a), corrupt)]
    @ opaque_checks [au_authority_ref a, au_hold_ref a] @ stamp_checks [au_requested_at a, au_updated_at a]
    @ [(au_retry a < 0, corrupt)]) = Inr ()"
  using assms by (auto simp: audit_post_init_def audit_checks_def bind_guards_Inr_iff guards_ok_iff)

lemma audit_round_trip:
  assumes "wf_audit a"
  shows "audit_from_dict (audit_as_dict a) = Inr a"
proof -
  have wf: "audit_post_init a = Inr a" "list_all wf_target (au_targets a)" "list_all wf_proof (au_support a)"
    "sort_fields (anchors_json (au_anchors a)) = anchors_json (au_anchors a)"
    using assms by (simp_all add: wf_audit_def)
  have "audit_construct (audit_fields a) (au_targets a) (au_anchors a) (au_support a) = Inr a"
    using audit_leading_checks [OF wf(1)] wf(1)
    by (cases a) (simp add: audit_construct_def audit_lookups audit_optional_lookups raw_str_def raw_int_def Let_def
        del: guards.simps)
  then show ?thesis
    using audit_keys [of a] audit_required_keys [of a] wf
    by (simp add: audit_from_dict_def audit_as_dict_def audit_lookups audit_optional_lookups targets_round_trip
        anchors_round_trip proofs_round_trip)
qed

end
