(* ===== verification/Deletion_Completion.thy ===== *)
theory Deletion_Completion
  imports Deletion_Audit_Laws
begin

text \<open>
  A deletion that nothing stands in the way of runs to its end: the steps of the coordinator over the
  workspace backend when no path is a link and no file is pinned.
\<close>

section \<open>A run directory without obstacles\<close>

definition plain_sessions :: "session_dir \<Rightarrow> bool" where
  "plain_sessions d \<longleftrightarrow> (case d of SD_Missing \<Rightarrow> True | SD_Link \<Rightarrow> False
     | SD_Files fs \<Rightarrow> list_all (\<lambda>f. \<not> is_link_file (snd f)) fs)"

definition fence_is_link :: "fs_node \<Rightarrow> bool" where
  "fence_is_link f \<longleftrightarrow> (case f of Link _ \<Rightarrow> True | _ \<Rightarrow> False)"

definition unobstructed :: "run_space \<Rightarrow> bool" where
  "unobstructed w \<longleftrightarrow> \<not> rs_is_link w \<and> \<not> rs_scratch_link w \<and> list_all (\<lambda>f. \<not> is_link_file (snd f)) (rs_files w)
     \<and> plain_sessions (rs_sessions w) \<and> rs_fences_safe w \<and> \<not> fence_is_link (rs_fence w) \<and> rs_pinned w = []"

definition run_classes :: "run_space \<Rightarrow> deletion_class set" where
  "run_classes w = class_for_relative ` fst ` set (rs_files w)"

lemma unobstructed_run_files: "unobstructed w \<Longrightarrow> run_files w = Inr (sorted_set (map fst (rs_files w)))"
  by (auto simp: run_files_def unobstructed_def safe_files_def run_exists_def sorted_set_def list_ex_iff list_all_iff)

lemma unobstructed_sessions: "unobstructed w \<Longrightarrow> \<exists>names. bound_sessions w = Inr names"
  by (auto simp: unobstructed_def bound_sessions_def plain_sessions_def safe_files_def list_ex_iff list_all_iff
      split: session_dir.splits)

lemma unlink_unobstructed:
  assumes "unobstructed w" "p \<noteq> In_Fences"
  obtains w' where "unlink p w = (Inr (), w')" "unobstructed w'"
    "rs_files w' = filter (\<lambda>f. In_Run (fst f) \<noteq> p) (rs_files w)"
    "rs_present w' = rs_present w" "rs_audits w' = rs_audits w" "rs_name w' = rs_name w"
proof -
  obtain w' where run: "unlink p w = (Inr (), w')" using assms by (simp add: unlink_def unobstructed_def)
  show thesis
  proof (rule that [OF run])
    show "unobstructed w'" using run assms
      by (auto simp: unlink_def unobstructed_def plain_sessions_def list_all_iff AList.delete_eq
          split: doc_path.splits session_dir.splits) fastforce
    show "rs_files w' = filter (\<lambda>f. In_Run (fst f) \<noteq> p) (rs_files w)" using run assms
      by (auto simp: unlink_def unobstructed_def AList.delete_eq split: doc_path.splits session_dir.splits intro!: filter_cong)
    show "rs_present w' = rs_present w" "rs_audits w' = rs_audits w" "rs_name w' = rs_name w" using run assms
      by (auto simp: unlink_def unobstructed_def split: doc_path.splits session_dir.splits)
  qed
qed

lemma unlink_all_unobstructed:
  "unobstructed w \<Longrightarrow> In_Fences \<notin> set ps \<Longrightarrow>
     \<exists>w'. unlink_all ps w = (Inr (), w') \<and> unobstructed w'
       \<and> rs_files w' = filter (\<lambda>f. In_Run (fst f) \<notin> set ps) (rs_files w) \<and> rs_present w' = rs_present w
       \<and> rs_audits w' = rs_audits w \<and> rs_name w' = rs_name w"
proof (induction ps arbitrary: w)
  case (Cons p ps)
  obtain w1 where one: "unlink p w = (Inr (), w1)" "unobstructed w1"
    "rs_files w1 = filter (\<lambda>f. In_Run (fst f) \<noteq> p) (rs_files w)"
    "rs_present w1 = rs_present w" "rs_audits w1 = rs_audits w" "rs_name w1 = rs_name w"
    using unlink_unobstructed [OF Cons.prems(1), of p] Cons.prems(2) by (auto simp: eq_commute)
  obtain w2 where two: "unlink_all ps w1 = (Inr (), w2)" "unobstructed w2"
    "rs_files w2 = filter (\<lambda>f. In_Run (fst f) \<notin> set ps) (rs_files w1)"
    "rs_present w2 = rs_present w1" "rs_audits w2 = rs_audits w1" "rs_name w2 = rs_name w1"
    using Cons.IH [OF one(2)] Cons.prems(2) by auto
  have "rs_files w2 = filter (\<lambda>f. In_Run (fst f) \<notin> set (p # ps)) (rs_files w)"
    using one(3) two(3) by (simp add: conj_commute cong: conj_cong)
  then show ?case using one two by (simp add: then_op_def)
qed simp

lemma unobstructed_paths:
  assumes "unobstructed w"
  obtains ps where "paths_for_class c w = Inr ps" "In_Fences \<notin> set ps"
    "\<forall>f \<in> set (rs_files w). In_Run (fst f) \<in> set ps \<longleftrightarrow> class_for_relative (fst f) = c"
proof -
  obtain names where names: "bound_sessions w = Inr names" using unobstructed_sessions [OF assms] by blast
  let ?ps = "map In_Run (filter (\<lambda>n. class_for_relative n = c) (sorted_set (map fst (rs_files w))))
    @ (if c = DC_SESSION_BINDING then map In_Sessions names else [])"
  have "paths_for_class c w = Inr ?ps"
    by (simp add: paths_for_class_def unobstructed_run_files [OF assms] names)
  moreover have "In_Fences \<notin> set ?ps" by auto
  moreover have "\<forall>f \<in> set (rs_files w). In_Run (fst f) \<in> set ?ps \<longleftrightarrow> class_for_relative (fst f) = c"
    by (auto simp: image_iff)
  ultimately show thesis by (rule that)
qed

section \<open>Deleting a class and all classes\<close>

lemma delete_class_unobstructed:
  assumes "unobstructed w" "cd_class c \<noteq> DC_SUPPORT_CONTENT"
  shows "\<exists>w'. workspace_delete c proofs at w = (Inr (), w') \<and> unobstructed w'
    \<and> rs_files w' = filter (\<lambda>f. class_for_relative (fst f) \<noteq> cd_class c) (rs_files w) \<and> rs_audits w' = rs_audits w
    \<and> rs_name w' = rs_name w"
proof -
  obtain ps where ps: "paths_for_class (cd_class c) w = Inr ps" "In_Fences \<notin> set ps"
    "\<forall>f \<in> set (rs_files w). In_Run (fst f) \<in> set ps \<longleftrightarrow> class_for_relative (fst f) = cd_class c"
    by (rule unobstructed_paths [OF assms(1)])
  obtain w' where w': "unlink_all ps w = (Inr (), w')" "unobstructed w'"
    "rs_files w' = filter (\<lambda>f. In_Run (fst f) \<notin> set ps) (rs_files w)" "rs_audits w' = rs_audits w" "rs_name w' = rs_name w"
    using unlink_all_unobstructed [OF assms(1) ps(2)] by blast
  have "rs_files w' = filter (\<lambda>f. class_for_relative (fst f) \<noteq> cd_class c) (rs_files w)"
    unfolding w'(3) by (rule filter_cong) (use ps(3) in auto)
  with w' assms(2) ps(1) show ?thesis by (simp add: workspace_delete_def then_op_def)
qed

text \<open>Targets the loop can finish: none added late, each found under its own class.\<close>

definition finishable :: "candidate list \<Rightarrow> target_record \<Rightarrow> bool" where
  "finishable cs t \<longleftrightarrow> tg_class t \<noteq> DC_SUPPORT_CONTENT \<and> \<not> never_adopted t
     \<and> (\<forall>c. candidate_at cs (tg_ref t) = Some c \<longrightarrow> cd_class c = tg_class t)"

definition found :: "candidate list \<Rightarrow> target_record list \<Rightarrow> deletion_class set" where
  "found cs ts = {c. \<exists>t \<in> set ts. tg_class t = c \<and> candidate_at cs (tg_ref t) \<noteq> None}"

lemma delete_targets_unobstructed:
  assumes "\<And>i c. \<not> os_inject env i c"
  shows "unobstructed w \<Longrightarrow> list_all (finishable cs) ts \<Longrightarrow>
    \<exists>ts' w'. delete_targets (workspace_backend ref run) env a cs i ts w = (Inr (ts', False), w') \<and> unobstructed w'
      \<and> rs_files w' = filter (\<lambda>f. class_for_relative (fst f) \<notin> found cs ts) (rs_files w)
      \<and> map tg_ref ts' = map tg_ref ts \<and> list_all (\<lambda>t. tg_status t \<in> {TS_DELETED, TS_ABSENT}) ts'
      \<and> rs_name w' = rs_name w"
proof (induction ts arbitrary: i w)
  case Nil
  then show ?case by (simp add: found_def)
next
  case (Cons t ts)
  have fin: "finishable cs t" and rest: "list_all (finishable cs) ts" using Cons.prems(2) by simp_all
  have no_proofs: "proofs_for a t = []" using fin by (simp add: proofs_for_def finishable_def)
  show ?case
  proof (cases "candidate_at cs (tg_ref t)")
    case None
    then have found: "found cs (t # ts) = found cs ts" by (auto simp: found_def)
    obtain t' where t': "target_step a cs t = Keep \<and> t' = t \<or> target_step a cs t = Gone \<and> t' = mark t TS_ABSENT RC_ALREADY_ABSENT"
      "tg_ref t' = tg_ref t" "tg_status t' \<in> {TS_DELETED, TS_ABSENT}"
      using None no_proofs fin by (cases "tg_status t \<in> {TS_DELETED, TS_ABSENT}")
        (auto simp: target_step_def finishable_def mark_def)
    obtain ts' w' where tail: "delete_targets (workspace_backend ref run) env a cs (Suc i) ts w = (Inr (ts', False), w')"
      "unobstructed w'" "rs_files w' = filter (\<lambda>f. class_for_relative (fst f) \<notin> found cs ts) (rs_files w)"
      "map tg_ref ts' = map tg_ref ts" "list_all (\<lambda>t. tg_status t \<in> {TS_DELETED, TS_ABSENT}) ts'" "rs_name w' = rs_name w"
      using Cons.IH [OF Cons.prems(1) rest] by metis
    have "delete_targets (workspace_backend ref run) env a cs i (t # ts) w = (Inr (t' # ts', False), w')"
      using t'(1) tail(1) by (auto simp: Let_def then_op_def)
    then show ?thesis using tail t' unfolding found by (intro exI [of _ "t' # ts'"] exI [of _ w']) auto
  next
    case (Some c)
    then have c: "cd_class c = tg_class t" "tg_class t \<noteq> DC_SUPPORT_CONTENT" using fin by (auto simp: finishable_def)
    have step: "target_step a cs t = Attempt c" using Some fin by (simp add: target_step_def finishable_def)
    obtain w1 where one: "workspace_delete c [] (os_event_time env) w = (Inr (), w1)" "unobstructed w1"
      "rs_files w1 = filter (\<lambda>f. class_for_relative (fst f) \<noteq> tg_class t) (rs_files w)" "rs_name w1 = rs_name w"
      using delete_class_unobstructed [OF Cons.prems(1), of c] c by metis
    obtain ts' w' where tail: "delete_targets (workspace_backend ref run) env a cs (Suc i) ts w1 = (Inr (ts', False), w')"
      "unobstructed w'" "rs_files w' = filter (\<lambda>f. class_for_relative (fst f) \<notin> found cs ts) (rs_files w1)"
      "map tg_ref ts' = map tg_ref ts" "list_all (\<lambda>t. tg_status t \<in> {TS_DELETED, TS_ABSENT}) ts'" "rs_name w' = rs_name w1"
      using Cons.IH [OF one(2) rest] by metis
    have found: "found cs (t # ts) = insert (tg_class t) (found cs ts)" using Some by (auto simp: found_def)
    have del: "db_delete (workspace_backend ref run) c [] (os_event_time env) w = (Inr (), w1)"
      using one(1) by (simp add: workspace_backend_def)
    have "delete_targets (workspace_backend ref run) env a cs i (t # ts) w = (Inr (mark t TS_DELETED RC_DELETED # ts', False), w')"
      using step no_proofs del tail(1) assms by (simp add: Let_def then_op_def)
    moreover have "rs_files w' = filter (\<lambda>f. class_for_relative (fst f) \<notin> found cs (t # ts)) (rs_files w)"
      unfolding tail(3) one(3) found by (auto intro: filter_cong)
    ultimately show ?thesis using tail one by (auto simp: mark_def)
  qed
qed

section \<open>The start and the end\<close>

lemma save_in_progress:
  assumes "unobstructed w" "fencing a" "raw_state w = Inr raw"
  shows "\<exists>w'. workspace_save a w = (Inr (), w') \<and> unobstructed w' \<and> fst ` set (rs_files w') = fst ` set (rs_files w)
    \<and> rs_name w' = rs_name w"
proof -
  let ?w1 = "w\<lparr>rs_audits := AList.update (au_id a) (FileJson (audit_as_dict a)) (rs_audits w)\<rparr>"
  let ?w2 = "?w1\<lparr>rs_fence := Contents (fence_json ?w1)\<rparr>"
  have fence: "set_fence_file True ?w1 = (Inr (), ?w2)"
    using assms(1) by (auto simp: set_fence_file_def unobstructed_def fence_is_link_def split: fs_node.splits)
  have free: "unobstructed ?w2" using assms(1) by (simp add: unobstructed_def fence_is_link_def)
  have "\<exists>w'. set_fence_state True ?w2 = (Inr (), w') \<and> unobstructed w' \<and> fst ` set (rs_files w') = fst ` set (rs_files w)
    \<and> rs_name w' = rs_name w"
  proof (cases "map_of (rs_files w) ''RUN_STATE.json''")
    case (Some f)
    then have mem: "(''RUN_STATE.json'', f) \<in> set (rs_files w)" by (rule map_of_SomeD)
    then obtain c where c: "f = RF_File c" using assms(1)
      by (cases f) (auto simp: unobstructed_def list_all_iff is_link_file_def)
    with assms(3) Some obtain kvs where kvs: "c = Some (JObj kvs)"
      by (auto simp: raw_state_def readable_def split: option.splits json.splits)
    have names: "fst ` set (AList.update ''RUN_STATE.json'' v (rs_files w)) = fst ` set (rs_files w)" for v :: run_file
      using mem by (force simp: dom_update)
    have links: "list_all (\<lambda>f. \<not> is_link_file (snd f)) (AList.update ''RUN_STATE.json'' (RF_File v) xs)"
      if "list_all (\<lambda>f. \<not> is_link_file (snd f)) xs" for v and xs :: "(string \<times> run_file) list"
      using that by (induction xs) (auto simp: is_link_file_def)
    show ?thesis
    proof (cases "field_or JNull ''deletion_fence'' kvs = JStr ''IN_PROGRESS''")
      case False
      then show ?thesis using Some c kvs names free links
        by (auto simp: set_fence_state_def set_file_def unobstructed_def Let_def)
    qed (use Some c kvs free in \<open>simp add: set_fence_state_def Let_def\<close>)
  qed (use free in \<open>simp add: set_fence_state_def\<close>)
  then show ?thesis using fence assms(2) by (simp add: workspace_save_def write_audit_def set_fence_def then_op_def fencing_def)
qed

lemma cleanup_unobstructed:
  assumes "unobstructed w" "rs_files w = []"
  shows "\<exists>w'. workspace_cleanup w = (Inr (), w') \<and> unobstructed w' \<and> rs_files w' = []"
proof -
  have "\<exists>w1. remove_run_dir w = (Inr (), w1) \<and> unobstructed w1 \<and> rs_files w1 = []"
    using assms by (auto simp: remove_run_dir_def unobstructed_def)
  then obtain w1 where one: "remove_run_dir w = (Inr (), w1)" "unobstructed w1" "rs_files w1 = []" by blast
  obtain names where names: "bound_sessions w1 = Inr names" using unobstructed_sessions [OF one(2)] by blast
  have "In_Fences \<notin> set (map In_Sessions names)" by auto
  from unlink_all_unobstructed [OF one(2) this] obtain w2 where
    "unlink_all (map In_Sessions names) w1 = (Inr (), w2)" "unobstructed w2" "rs_files w2 = []"
    using one(3) by auto
  then show ?thesis using one names by (simp add: workspace_cleanup_def then_op_def)
qed

lemma save_complete:
  assumes "unobstructed w" "rs_files w = []" "au_state a = DS_COMPLETE"
  shows "\<exists>w'. workspace_save a w = (Inr (), w')"
  using assms
  by (auto simp: workspace_save_def write_audit_def set_fence_def then_op_def set_fence_file_def set_fence_state_def
      unobstructed_def fence_is_link_def split: fs_node.splits)

end
