(* ===== verification/Deletion_Ending.thy ===== *)
theory Deletion_Ending
  imports Deletion_Completion
begin

text \<open>
  The end of a deletion: a plan nothing stands in the way of completes, a first deletion makes such a
  plan, and what a completed deletion leaves behind.
\<close>

section \<open>Audits on the way\<close>

lemma audit_ok_iff:
  "audit_post_init a = Inr a \<longleftrightarrow>
     opaque (au_id a) \<and> opaque (au_scope_ref a) \<and> opaque (au_run_ref a) \<and> matches_sha256 (au_generation a)
     \<and> opaque (au_authority_ref a) \<and> opaque (au_hold_ref a) \<and> matches_timestamp (au_requested_at a)
     \<and> matches_timestamp (au_updated_at a) \<and> 0 \<le> au_retry a \<and> length (au_targets a) \<le> 100000
     \<and> distinct (map tg_ref (au_targets a)) \<and> distinct (map fst (au_anchors a))
     \<and> list_all (\<lambda>(n, r). matches_identifier n \<and> matches_sha256 r) (au_anchors a)
     \<and> (case au_identity a of None \<Rightarrow> True | Some i \<Rightarrow> matches_sha256 i)
     \<and> distinct (map pf_artifact_ref (au_support a))
     \<and> list_all (\<lambda>p. sc_scope_ref (pf_context p) = au_scope_ref a \<and> pf_run_ref p = au_run_ref a) (au_support a)"
  unfolding audit_post_init_def bind_guards_Inr_iff audit_checks_def opaque_checks_def stamp_checks_def
  by (simp add: ball_Un not_less)

lemma hold_ok:
  "wf_hold h \<Longrightarrow> opaque (hd_authority_ref h) \<and> opaque (hd_decision_ref h)"
  unfolding wf_hold_def hold_post_init_def bind_guards_Inr_iff opaque_checks_def by simp

lemma started_ok:
  assumes "audit_post_init a = Inr a" "wf_hold h" "matches_timestamp now"
    and "distinct (map fst (bs_anchors s))" "list_all (\<lambda>(n, r). matches_identifier n \<and> matches_sha256 r) (bs_anchors s)"
  shows "audit_post_init (started a h s now) = Inr (started a h s now)"
  using assms hold_ok [OF assms(2)] unfolding audit_ok_iff by (simp add: started_def)

lemma ended_ok:
  assumes "audit_post_init a = Inr a" "map tg_ref ts = map tg_ref (au_targets a)" "matches_timestamp now"
  shows "audit_post_init (ended a ts now st code) = Inr (ended a ts now st code)"
proof -
  have "length ts = length (au_targets a)" using assms(2) by (metis length_map)
  with assms show ?thesis unfolding audit_ok_iff by (simp add: ended_def)
qed

lemma state_facts:
  assumes "workspace_state ref w = Inr s"
  shows "matches_sha256 (bs_generation s)" "distinct (map fst (bs_anchors s))"
    "list_all (\<lambda>(n, r). matches_identifier n \<and> matches_sha256 r) (bs_anchors s)"
    "\<exists>raw. raw_state w = Inr raw"
proof -
  have names: "matches_identifier ''execution_job''" "matches_identifier ''run_state''"
    by (simp_all add: pattern_defs char_defs)
  from assms obtain raw job where parts: "raw_state w = Inr raw" "run_job ref w = Inr job"
    by (auto simp: workspace_state_def bind_res_Inr_iff)
  then show "\<exists>raw. raw_state w = Inr raw" by simp
  show "matches_sha256 (bs_generation s)" "distinct (map fst (bs_anchors s))"
    "list_all (\<lambda>(n, r). matches_identifier n \<and> matches_sha256 r) (bs_anchors s)"
    using assms parts names by (auto simp: workspace_state_def Let_def split: option.splits)
qed

section \<open>A plan completes\<close>

definition carry_out ::
  "env_reference \<Rightarrow> string \<Rightarrow> outside \<Rightarrow> deletion_request \<Rightarrow> candidate list \<Rightarrow> deletion_audit \<Rightarrow> run_space
    \<Rightarrow> deletion_result res \<times> run_space"
where
  "carry_out ref run env q cs active =
     then_op (db_save (workspace_backend ref run) active) (\<lambda>_.
     then_op (delete_targets (workspace_backend ref run) env active cs 0 (au_targets active)) (\<lambda>(ts, failed).
       finish (workspace_backend ref run) env q active ts (failed \<or> any_never_adopted (au_targets active))))"

lemma finish_complete:
  assumes "audit_post_init a = Inr a" "map tg_ref ts = map tg_ref (au_targets a)"
    and "list_all (\<lambda>t. tg_status t \<in> {TS_DELETED, TS_ABSENT}) ts" "\<forall>n. matches_timestamp (os_clock env n)"
    and "unobstructed w" "rs_files w = []"
  shows "\<exists>x w'. finish (workspace_backend ref run) env q a ts False w = (Inr x, w') \<and> dx_state x = DS_COMPLETE"
proof -
  let ?c = "ended a ts (os_clock env 8) DS_IN_PROGRESS RC_NONE"
  let ?e = "ended ?c ts (os_clock env 9) DS_COMPLETE RC_NONE"
  have c: "audit_post_init ?c = Inr ?c" by (rule ended_ok) (use assms in auto)
  have e: "audit_post_init ?e = Inr ?e" by (rule ended_ok [OF c]) (use assms in \<open>auto simp: ended_def\<close>)
  obtain w1 where w1: "workspace_cleanup w = (Inr (), w1)" "unobstructed w1" "rs_files w1 = []"
    using cleanup_unobstructed [OF assms(5,6)] by blast
  have "au_state ?e = DS_COMPLETE" by (simp add: ended_def)
  then obtain w2 where w2: "workspace_save ?e w1 = (Inr (), w2)" using save_complete [OF w1(2,3)] by blast
  have backend: "db_cleanup (workspace_backend ref run) = workspace_cleanup" "db_save (workspace_backend ref run) = workspace_save"
    by (simp_all add: workspace_backend_def)
  have "\<not> list_ex (\<lambda>t. tg_status t = TS_FAILED) ts" using assms(3) by (auto simp: list_ex_iff list_all_iff)
  then have "finish (workspace_backend ref run) env q a ts False w = (Inr (result_of q ?e False), w2)"
    using c e w1(1) w2 by (simp add: finish_def backend save_and_report_def then_op_def)
  then show ?thesis by (simp add: result_of_def ended_def)
qed

lemma carry_out_completes:
  assumes free: "unobstructed w" and raw: "raw_state w = Inr raw"
    and active: "fencing active" "audit_post_init active = Inr active"
    and plan: "list_all (finishable cs) (au_targets active)" "run_classes w \<subseteq> found cs (au_targets active)"
    and env: "\<forall>n. matches_timestamp (os_clock env n)" "\<And>i c. \<not> os_inject env i c"
  shows "\<exists>x w'. carry_out ref run env q cs active w = (Inr x, w') \<and> dx_state x = DS_COMPLETE"
proof -
  obtain w1 where w1: "workspace_save active w = (Inr (), w1)" "unobstructed w1"
    "fst ` set (rs_files w1) = fst ` set (rs_files w)" using save_in_progress [OF free active(1) raw] by blast
  obtain ts w2 where w2: "delete_targets (workspace_backend ref run) env active cs 0 (au_targets active) w1 = (Inr (ts, False), w2)"
    "unobstructed w2" "rs_files w2 = filter (\<lambda>f. class_for_relative (fst f) \<notin> found cs (au_targets active)) (rs_files w1)"
    "map tg_ref ts = map tg_ref (au_targets active)" "list_all (\<lambda>t. tg_status t \<in> {TS_DELETED, TS_ABSENT}) ts"
    using delete_targets_unobstructed [OF env(2) w1(2) plan(1)] by blast
  have "class_for_relative (fst f) \<in> found cs (au_targets active)" if "f \<in> set (rs_files w1)" for f
  proof -
    have "fst f \<in> fst ` set (rs_files w)" using that w1(3) by (metis image_eqI)
    with plan(2) show ?thesis by (auto simp: run_classes_def)
  qed
  then have "rs_files w2 = []" using w2(3) by (auto simp: filter_empty_conv)
  moreover have "\<not> any_never_adopted (au_targets active)"
    using plan(1) by (auto simp: any_never_adopted_def list_ex_iff list_all_iff finishable_def)
  ultimately show ?thesis
    using finish_complete [OF active(2) w2(4,5) env(1) w2(2), of ref run q] w1(1) w2(1)
    by (simp add: carry_out_def then_op_def workspace_backend_def)
qed

section \<open>The plan of a run without support content\<close>

definition class_candidate :: "string \<Rightarrow> string \<Rightarrow> deletion_class \<Rightarrow> candidate" where
  "class_candidate run deletion_id c =
     \<lparr>cd_class = c, cd_ref = target_ref ''workspace'' run deletion_id c, cd_control = False\<rparr>"

text \<open>The references of one deletion do not collide.\<close>

definition refs_distinct :: "string \<Rightarrow> string \<Rightarrow> deletion_class set \<Rightarrow> bool" where
  "refs_distinct run deletion_id cs \<longleftrightarrow> inj_on (target_ref ''workspace'' run deletion_id) cs"

lemma str_less_irreflexive: "\<not> str_less s s"
  by (simp add: str_less_def)

lemma rising_distinct: "rising xs \<Longrightarrow> distinct xs"
  unfolding rising_def by (induction xs) (auto simp: str_less_irreflexive)

lemma targets_shape:
  assumes "unobstructed w"
  obtains ds where "workspace_targets deletion_id w = Inr (map (class_candidate (rs_name w) deletion_id) ds)" "distinct ds"
    "run_classes w \<subseteq> set ds" "set ds \<subseteq> insert DC_SESSION_BINDING (run_classes w)"
proof -
  obtain ps where ps: "paths_for_class DC_SESSION_BINDING w = Inr ps" by (rule unobstructed_paths [OF assms])
  let ?classes = "map class_for_relative (sorted_set (map fst (rs_files w)))
    @ (if rs_sessions w \<noteq> SD_Missing \<and> ps \<noteq> [] then [DC_SESSION_BINDING] else [])"
  let ?names = "sorted_set (map class_name ?classes)"
  let ?ds = "map class_of_name ?names"
  have set: "set ?ds = set ?classes" by (simp only: list.set_map set_sorted_set image_image class_of_class_name image_ident)
  show thesis
  proof (rule that)
    show "workspace_targets deletion_id w = Inr (map (class_candidate (rs_name w) deletion_id) ?ds)"
      by (simp add: workspace_targets_def unobstructed_run_files [OF assms] ps Let_def class_candidate_def comp_def)
    have "inj_on class_of_name (set ?names)" by (intro inj_onI) auto
    then show "distinct ?ds" using rising_distinct [OF rising_sorted_set] by (simp only: distinct_map simp_thms)
    show "run_classes w \<subseteq> set ?ds" unfolding set by (auto simp: run_classes_def)
    show "set ?ds \<subseteq> insert DC_SESSION_BINDING (run_classes w)" unfolding set by (auto simp: run_classes_def)
  qed
qed

lemma candidate_found:
  assumes "refs_distinct run did (set ds)" "distinct ds"
  shows "candidate_at (map (class_candidate run did) ds) r
    = (if \<exists>d \<in> set ds. r = target_ref ''workspace'' run did d
       then Some (class_candidate run did (the_inv_into (set ds) (target_ref ''workspace'' run did) r)) else None)"
proof -
  let ?kv = "map (\<lambda>c. (cd_ref c, c)) (map (class_candidate run did) ds)"
  have keys: "map fst ?kv = map (target_ref ''workspace'' run did) ds" by (simp add: class_candidate_def)
  have dist: "distinct (map fst (rev ?kv))"
    using assms unfolding rev_map [symmetric] keys by (simp add: distinct_map refs_distinct_def)
  have some: "candidate_at (map (class_candidate run did) ds) r = Some c \<longleftrightarrow> (r, c) \<in> set ?kv" for c
    unfolding candidate_at_def using map_of_eq_Some_iff [OF dist] by simp
  show ?thesis
  proof (cases "\<exists>d \<in> set ds. r = target_ref ''workspace'' run did d")
    case True
    then obtain d where d: "d \<in> set ds" "r = target_ref ''workspace'' run did d" by blast
    then have "the_inv_into (set ds) (target_ref ''workspace'' run did) r = d"
      using assms(1) by (simp add: the_inv_into_f_f refs_distinct_def)
    moreover have "(r, class_candidate run did d) \<in> set ?kv" using d by (auto simp: class_candidate_def)
    ultimately show ?thesis using True some by auto
  next
    case False
    then have "candidate_at (map (class_candidate run did) ds) r = None"
      using some by (cases "candidate_at (map (class_candidate run did) ds) r") (auto simp: class_candidate_def)
    with False show ?thesis by simp
  qed
qed

lemma candidate_of_class:
  assumes "refs_distinct run did (set ds)" "distinct ds" "d \<in> set ds"
  shows "candidate_at (map (class_candidate run did) ds) (target_ref ''workspace'' run did d) = Some (class_candidate run did d)"
  using assms candidate_found [OF assms(1,2)] by (auto simp: the_inv_into_f_f refs_distinct_def)

lemma few_classes: "distinct ds \<Longrightarrow> length (ds :: deletion_class list) \<le> 30"
proof -
  assume "distinct ds"
  then have "length ds = card (set ds)" by (simp add: distinct_card)
  also have "\<dots> \<le> card (set (map snd deletion_class_values))"
    by (rule card_mono) (use deletion_class_member in auto)
  also have "\<dots> \<le> length (map snd deletion_class_values)" by (rule card_length)
  also have "\<dots> = 30" by (simp add: deletion_class_values_def)
  finally show ?thesis .
qed

definition planned_class :: "string \<Rightarrow> string \<Rightarrow> deletion_class \<Rightarrow> target_record" where
  "planned_class run did c = planned_target (class_candidate run did c)"

definition first_plan :: "deletion_request \<Rightarrow> backend_state \<Rightarrow> hold_decision \<Rightarrow> deletion_class list \<Rightarrow> deletion_audit" where
  "first_plan q s h ds = (fresh_audit q (bs_generation s) (hd_authority_ref h) (hd_decision_ref h)
     (dq_requested_at q) 0 DS_PLANNED RC_NONE)\<lparr>au_targets := map (planned_class (dq_run_ref q) (dq_id q)) ds,
       au_anchors := bs_anchors s\<rparr>"

lemma planned_targets:
  "map_res (\<lambda>c. target_post_init (planned_target c)) (map (class_candidate run did) ds) = Inr (map (planned_class run did) ds)"
  by (rule map_res_map) (simp add: target_post_init_def planned_target_def class_candidate_def planned_class_def)

lemma first_plan_ok:
  assumes "opaque (dq_id q)" "opaque (dq_scope_ref q)" "opaque (dq_run_ref q)" "matches_timestamp (dq_requested_at q)"
    and "workspace_state ref w = Inr s" "wf_hold h"
    and "distinct ds" "refs_distinct (dq_run_ref q) (dq_id q) (set ds)"
  shows "audit_post_init (first_plan q s h ds) = Inr (first_plan q s h ds)"
proof -
  have refs: "map tg_ref (map (planned_class (dq_run_ref q) (dq_id q)) ds) = map (target_ref ''workspace'' (dq_run_ref q) (dq_id q)) ds"
    by (simp add: planned_class_def planned_target_def class_candidate_def)
  have distinct: "distinct (map tg_ref (map (planned_class (dq_run_ref q) (dq_id q)) ds))"
    unfolding refs using assms(7,8) by (simp add: distinct_map refs_distinct_def)
  show ?thesis
    using assms state_facts [OF assms(5)] hold_ok [OF assms(6)] few_classes [OF assms(7)] distinct
    unfolding audit_ok_iff by (simp add: first_plan_def fresh_audit_def comp_def)
qed

section \<open>A released deletion completes\<close>

text \<open>An outside in which nothing fails: two releases for this run, no injected failure, valid times.\<close>

definition releases :: "outside \<Rightarrow> string \<Rightarrow> bool" where
  "releases env run \<longleftrightarrow>
     (\<forall>n \<in> {0, 1}. case os_holds env n of
        Hold_Decision h \<Rightarrow> wf_hold h \<and> hd_scope_ref h = ''workspace'' \<and> hd_run_ref h = run \<and> hd_status h = HS_RELEASE
      | _ \<Rightarrow> False)
     \<and> (\<forall>n. matches_timestamp (os_clock env n)) \<and> (\<forall>i c. \<not> os_inject env i c)"

lemma releases_hold:
  assumes "releases env run" "n \<in> {0, 1}"
  obtains h where "safe_hold (os_holds env n) ''workspace'' run = Inr h" "wf_hold h" "hd_status h = HS_RELEASE"
proof (cases "os_holds env n")
  case (Hold_Decision h)
  with assms that [of h] show ?thesis by (auto simp: releases_def safe_hold_def)
qed (use assms in \<open>auto simp: releases_def\<close>)

text \<open>The audit a deletion of the run begins or goes on with.\<close>

definition resumable :: "string \<Rightarrow> string \<Rightarrow> backend_state \<Rightarrow> deletion_class list \<Rightarrow> deletion_audit \<Rightarrow> bool" where
  "resumable run did s ds a \<longleftrightarrow>
     audit_post_init a = Inr a \<and> au_support a = [] \<and> au_targets a \<noteq> [] \<and> generation_matches s a
     \<and> list_all (finishable (map (class_candidate run did) ds)) (au_targets a)
     \<and> set (map (target_ref ''workspace'' run did) ds) \<subseteq> set (map tg_ref (au_targets a))"

lemma finishable_found:
  assumes "refs_distinct run did (set ds)" "distinct ds"
    and "list_all (finishable (map (class_candidate run did) ds)) ts"
    and "set (map (target_ref ''workspace'' run did) ds) \<subseteq> set (map tg_ref ts)"
  shows "set ds \<subseteq> found (map (class_candidate run did) ds) ts"
proof
  fix d assume d: "d \<in> set ds"
  with assms(4) obtain t where t: "t \<in> set ts" "tg_ref t = target_ref ''workspace'' run did d" by auto
  have at: "candidate_at (map (class_candidate run did) ds) (tg_ref t) = Some (class_candidate run did d)"
    unfolding t(2) by (rule candidate_of_class [OF assms(1,2) d])
  with assms(3) t(1) have "tg_class t = d" by (auto simp: list_all_iff finishable_def class_candidate_def)
  with t(1) at show "d \<in> found (map (class_candidate run did) ds) ts" by (auto simp: found_def)
qed

lemma no_support_candidate:
  "DC_SUPPORT_CONTENT \<notin> set ds \<Longrightarrow> filter (\<lambda>c. cd_class c = DC_SUPPORT_CONTENT) (map (class_candidate run did) ds) = []"
  by (auto simp: filter_empty_conv class_candidate_def)

lemma delete_released_carries_out:
  assumes a: "audit_post_init a = Inr a" "au_support a = []" "au_targets a \<noteq> [] \<or> ds = []"
    and known: "set (map (target_ref ''workspace'' run did) ds) \<subseteq> set (map tg_ref (au_targets a))"
    and h: "wf_hold h" "matches_timestamp (os_clock env 6)" and s: "workspace_state ref w = Inr s"
    and "DC_SUPPORT_CONTENT \<notin> set ds"
    and first: "case current of Some b \<Rightarrow> b = a
      | None \<Rightarrow> a = first_plan q s h ds \<and> dq_run_ref q = run \<and> dq_id q = did"
  shows "delete_released (workspace_backend ref run) env q h s current (map (class_candidate run did) ds) w
    = carry_out ref run env q (map (class_candidate run did) ds) (started a h s (os_clock env 6)) w"
proof -
  let ?cs = "map (class_candidate run did) ds"
  have start: "(case current of Some a \<Rightarrow> Inr a
     | None \<Rightarrow> bind_res (map_res (\<lambda>c. target_post_init (planned_target c)) ?cs) (\<lambda>ts.
           audit_post_init ((fresh_audit q (bs_generation s) (hd_authority_ref h) (hd_decision_ref h)
             (dq_requested_at q) 0 DS_PLANNED RC_NONE)\<lparr>au_targets := ts, au_anchors := bs_anchors s\<rparr>))) = Inr a"
    using first a(1) by (auto simp: planned_targets first_plan_def split: option.splits)
  have one: "with_targets a ?cs = Inr a"
    using a(1,3) by (auto simp: with_targets_def) (cases a, simp)
  have two: "with_support bk a ?cs w = Inr a" for bk :: "run_space backend"
    using no_support_candidate [OF assms(8)] by (simp add: with_support_def)
  have "filter (\<lambda>c. cd_ref c \<notin> set (map tg_ref (au_targets a))) ?cs = []"
    using known by (auto simp: filter_empty_conv class_candidate_def)
  then have three: "with_added a ?cs = Inr a" by (simp add: with_added_def)
  have four: "audit_post_init (started a h s (os_clock env 6)) = Inr (started a h s (os_clock env 6))"
    by (rule started_ok [OF a(1) h]) (use state_facts [OF s] in blast)+
  show ?thesis
    unfolding delete_released_def start
    by (simp add: one two three four carry_out_def)
qed

lemma released_run_completes:
  assumes free: "unobstructed w" and s: "workspace_state ref w = Inr s" "deletable (dq_reason q) s"
    and loaded: "workspace_load (dq_id q) w = Inr current"
    and targets: "workspace_targets (dq_id q) w = Inr (map (class_candidate run (dq_id q)) ds)" "run_classes w \<subseteq> set ds" "distinct ds"
    and refs: "refs_distinct run (dq_id q) (set ds)" and run: "dq_run_ref q = run" "dq_scope_ref q = ''workspace''"
    and support: "DC_SUPPORT_CONTENT \<notin> set ds"
    and env: "\<forall>n. matches_timestamp (os_clock env n)" "\<And>i c. \<not> os_inject env i c" "wf_hold h"
    and request: "deletion_request_post_init q = Inr q"
    and current: "case current of None \<Rightarrow> True | Some a \<Rightarrow> resumable run (dq_id q) s ds a"
  shows "\<exists>x w'. run_released (workspace_backend ref run) env q h False w = (Inr x, w') \<and> dx_state x = DS_COMPLETE"
proof -
  let ?cs = "map (class_candidate run (dq_id q)) ds"
  let ?a = "case current of None \<Rightarrow> first_plan q s h ds | Some a \<Rightarrow> a"
  have q: "opaque (dq_id q)" "opaque (dq_scope_ref q)" "opaque (dq_run_ref q)" "matches_timestamp (dq_requested_at q)"
    using request unfolding deletion_request_post_init_def bind_guards_Inr_iff opaque_checks_def stamp_checks_def by simp_all
  have plan: "audit_post_init ?a = Inr ?a \<and> au_support ?a = [] \<and> (au_targets ?a \<noteq> [] \<or> ds = [])
      \<and> list_all (finishable ?cs) (au_targets ?a)
      \<and> set (map (target_ref ''workspace'' run (dq_id q)) ds) \<subseteq> set (map tg_ref (au_targets ?a))"
  proof (cases current)
    case None
    have "list_all (finishable ?cs) (map (planned_class run (dq_id q)) ds)"
      using candidate_of_class [OF refs targets(3)] support
      by (auto simp: list_all_iff finishable_def planned_class_def planned_target_def class_candidate_def never_adopted_def)
    with None first_plan_ok [OF q s(1) env(3) targets(3)] refs run show ?thesis
      by (simp add: first_plan_def fresh_audit_def) (auto simp: planned_class_def planned_target_def class_candidate_def)
  next
    case (Some a)
    with current show ?thesis by (simp add: resumable_def)
  qed
  let ?active = "started ?a h s (os_clock env 6)"
  have go: "delete_released (workspace_backend ref run) env q h s current ?cs w = carry_out ref run env q ?cs ?active w"
    by (rule delete_released_carries_out) (use plan env s support run in \<open>auto split: option.splits\<close>)
  have active: "audit_post_init ?active = Inr ?active"
    by (rule started_ok) (use plan env state_facts [OF s(1)] in blast)+
  have same: "au_targets ?active = au_targets ?a" by (simp add: started_def)
  obtain raw where raw: "raw_state w = Inr raw" using state_facts [OF s(1)] by blast
  have "fencing ?active" by (simp add: started_def fencing_def)
  moreover have "run_classes w \<subseteq> found ?cs (au_targets ?active)"
    using finishable_found [OF refs targets(3)] plan targets(2) unfolding same by blast
  ultimately obtain x w' where done_: "carry_out ref run env q ?cs ?active w = (Inr x, w')" "dx_state x = DS_COMPLETE"
    using carry_out_completes [OF free raw _ active, of ?cs env ref run q] env plan unfolding same by blast
  have match: "\<not> (case current of None \<Rightarrow> False | Some a \<Rightarrow> au_targets a \<noteq> [] \<and> \<not> generation_matches s a)"
    using current by (auto simp: resumable_def split: option.splits)
  have "run_released (workspace_backend ref run) env q h False w = (Inr x, w')"
    using s(2) loaded s(1) targets(1) match go done_(1)
    by (auto simp: run_released_def workspace_backend_def deletable_def)
  with done_(2) show ?thesis by blast
qed

lemma released_deletion_completes:
  assumes free: "unobstructed w" and s: "workspace_state ref w = Inr s" "deletable reason s"
    and refs: "refs_distinct (rs_name w) did (set ds)"
    and support: "DC_SUPPORT_CONTENT \<notin> run_classes w"
    and names: "opaque did" "opaque (rs_name w)" and env: "releases env (rs_name w)"
    and targets: "workspace_targets did w = Inr (map (class_candidate (rs_name w) did) ds)"
    and loaded: "workspace_load did w = Inr current"
    and current: "case current of None \<Rightarrow> True
      | Some a \<Rightarrow> resumable (rs_name w) did s ds a \<and> au_state a \<noteq> DS_COMPLETE
          \<and> (au_scope_ref a, au_run_ref a, au_reason a) = (''workspace'', rs_name w, reason)"
  shows "\<exists>x w'. run_deletion (workspace_backend ref (rs_name w)) env did reason False w = (Inr x, w') \<and> dx_state x = DS_COMPLETE"
proof -
  let ?run = "rs_name w"
  let ?q = "\<lparr>dq_id = did, dq_scope_ref = ''workspace'', dq_run_ref = ?run, dq_reason = reason, dq_requested_at = os_clock env 0\<rparr>"
  have times: "\<forall>n. matches_timestamp (os_clock env n)" "\<And>i c. \<not> os_inject env i c" using env by (auto simp: releases_def)
  have workspace: "opaque ''workspace''" by (simp add: opaque_def pattern_defs deletion_forbidden_def char_defs)
  have request: "deletion_request_post_init ?q = Inr ?q"
    using names times workspace by (simp add: deletion_request_post_init_def opaque_checks_def stamp_checks_def)
  obtain h where h: "safe_hold (os_holds env 0) ''workspace'' ?run = Inr h" "hd_status h = HS_RELEASE"
    using releases_hold [OF env, of 0] by auto
  obtain k where k: "safe_hold (os_holds env 1) ''workspace'' ?run = Inr k" "hd_status k = HS_RELEASE" "wf_hold k"
    using releases_hold [OF env, of 1] by auto
  obtain es where es: "workspace_targets did w = Inr (map (class_candidate ?run did) es)" "distinct es"
    "run_classes w \<subseteq> set es" "set es \<subseteq> insert DC_SESSION_BINDING (run_classes w)"
    by (rule targets_shape [OF free])
  have "inj (class_candidate ?run did)" by (rule injI) (simp add: class_candidate_def)
  then have ds: "ds = es" using targets es(1) by (simp add: inj_map_eq_map)
  have "DC_SUPPORT_CONTENT \<notin> set ds" using support es(4) unfolding ds by auto
  then obtain x w' where x: "run_released (workspace_backend ref ?run) env ?q k False w = (Inr x, w')" "dx_state x = DS_COMPLETE"
    using released_run_completes [OF free s(1), of ?q current ?run ds env k] s(2) loaded es refs times k(3) request current
    by (auto simp: ds split: option.splits)
  have lock: "db_lock (workspace_backend ref ?run) w = Inr ()"
    using free by (simp add: workspace_backend_def workspace_lock_def unobstructed_def)
  have "run_pending (workspace_backend ref ?run) env ?q current False w = (Inr x, w')"
    using h k lock x(1) by (simp add: run_pending_def Let_def)
  then have "run_deletion (workspace_backend ref ?run) env did reason False w = (Inr x, w')"
    using request loaded current
    by (auto simp: run_deletion_def workspace_backend_def split: option.splits)
  with x(2) show ?thesis by blast
qed

end
