(* ===== verification/Deletion_Replay.thy ===== *)
theory Deletion_Replay
  imports Deletion_Ending
begin

text \<open>
  What a completed deletion leaves behind, and what later deletions with its identity do.
\<close>

section \<open>How a deletion comes to report completion\<close>

lemma reports_complete_simps [simp]: "\<not> reports_complete (Inl e)" "reports_complete (Inr x) \<longleftrightarrow> dx_state x = DS_COMPLETE"
  by (simp_all add: reports_complete_def)

lemma refusals_not_complete:
  "save_and_report bk q a w = (r, w') \<Longrightarrow> au_state a \<noteq> DS_COMPLETE \<Longrightarrow> \<not> reports_complete r"
  by (auto simp: save_and_report_def then_op_def reports_complete_def result_of_def audit_post_init_def bind_res_Inr_iff
      split: sum.splits prod.splits)

lemma blocked_audits [simp]: "au_state (block a now code) = DS_BLOCKED" "au_state (fresh_audit q g u h t n st code) = st"
  by (simp_all add: block_def fresh_audit_def)

lemma refuse_unknown_not_complete: "refuse_unknown bk env q e dry w = (r, w') \<Longrightarrow> \<not> reports_complete r"
  by (auto simp: refuse_unknown_def blocked_preview_def reports_complete_def then_op_def
      dest: refusals_not_complete split: if_splits sum.splits option.splits)

lemma refuse_held_not_complete: "refuse_held bk q h now w = (r, w') \<Longrightarrow> \<not> reports_complete r"
  by (auto simp: refuse_held_def reports_complete_def then_op_def
      dest: refusals_not_complete split: if_splits sum.splits option.splits)

lemma refuse_running_not_complete: "refuse_running bk env q h s e code dry w = (r, w') \<Longrightarrow> \<not> reports_complete r"
  by (auto simp: refuse_running_def blocked_preview_def reports_complete_def
      dest: refusals_not_complete split: if_splits sum.splits option.splits)

lemma refuse_mismatch_not_complete: "refuse_mismatch bk q a now dry w = (r, w') \<Longrightarrow> \<not> reports_complete r"
  by (auto simp: refuse_mismatch_def then_op_def reports_complete_def result_of_def audit_post_init_def bind_res_Inr_iff
      split: sum.splits prod.splits if_splits)

lemma released_completion:
  assumes run: "run_released bk env q h dry w = (r, w')" and complete: "reports_complete r"
  shows "\<not> dry \<and> (\<exists>s current cs. db_load bk (dq_id q) w = Inr current \<and> db_state bk w = Inr s
    \<and> db_targets bk (dq_id q) w = Inr cs \<and> delete_released bk env q h s current cs w = (r, w'))"
proof -
  obtain current where loaded: "db_load bk (dq_id q) w = Inr current"
    using run complete by (cases "db_load bk (dq_id q) w") (auto simp: run_released_def reports_complete_def)
  obtain s where s: "db_state bk w = Inr s"
    using run complete loaded by (cases "db_state bk w") (auto simp: run_released_def reports_complete_def)
  have no_stop: False if "then_op m (\<lambda>_. refuse_running bk env q h s current code dry) w = (r, w')"
    for m :: "'a \<Rightarrow> unit res \<times> 'a" and code
    using that complete by (elim then_op_split) (auto dest: refuse_running_not_complete)
  let ?mismatch = "case current of None \<Rightarrow> False | Some a \<Rightarrow> au_targets a \<noteq> [] \<and> \<not> generation_matches s a"
  have "\<not> ?mismatch"
    using run loaded s complete by (auto simp: run_released_def split: if_splits dest: refuse_mismatch_not_complete)
  moreover from this have "\<not> bs_active s"
    using run loaded s no_stop complete by (auto simp: run_released_def split: if_splits dest: refuse_running_not_complete)
  moreover from calculation have "\<not> (\<not> bs_terminal s \<and> \<not> (dq_reason q = DR_EXPLICIT \<and> bs_canceled s))"
    using run loaded s complete by (auto simp: run_released_def split: if_splits dest: refuse_running_not_complete)
  ultimately have rest: "then_op (reads (db_targets bk (dq_id q))) (\<lambda>cs.
         if dry
         then then_op (returns (map_res (\<lambda>c. target_post_init (planned_target c)) cs)) (\<lambda>preview.
           returns (Inr \<lparr>dx_request = q, dx_state = DS_PLANNED, dx_outcome = DS_PLANNED, dx_dry_run = True,
             dx_retry = retry_so_far current, dx_code = RC_NONE, dx_targets = preview\<rparr>))
         else delete_released bk env q h s current cs) w = (r, w')"
    using run loaded s by (auto simp: run_released_def)
  obtain cs where cs: "db_targets bk (dq_id q) w = Inr cs"
    using rest complete by (cases "db_targets bk (dq_id q) w") (auto simp: reports_complete_def)
  with rest complete have "\<not> dry" by (auto simp: reports_complete_def split: sum.splits)
  with rest cs loaded s show ?thesis by auto
qed

lemma pending_completion:
  assumes run: "run_pending bk env q existing dry w = (r, w')" and complete: "reports_complete r"
  shows "\<exists>h s current cs. db_lock bk w = Inr () \<and> db_load bk (dq_id q) w = Inr current \<and> db_state bk w = Inr s
    \<and> db_targets bk (dq_id q) w = Inr cs \<and> delete_released bk env q h s current cs w = (r, w')"
proof -
  obtain h where h: "safe_hold (os_holds env 0) (dq_scope_ref q) (dq_run_ref q) = Inr h"
    using run complete
    by (cases "safe_hold (os_holds env 0) (dq_scope_ref q) (dq_run_ref q)")
      (auto simp: run_pending_def Let_def dest: refuse_unknown_not_complete)
  have free: "hd_status h = HS_RELEASE"
  proof (rule ccontr)
    assume held: "\<not> ?thesis"
    have "\<not> reports_complete r" if "then_op (reads (db_lock bk)) (\<lambda>_. refuse_held bk q h now) w = (r, w')" for now
      using that by (elim then_op_split) (auto dest: refuse_held_not_complete)
    with run h held complete show False
      by (auto simp: run_pending_def Let_def blocked_preview_def split: if_splits)
  qed
  have locked: "db_lock bk w = Inr ()"
    using run h free complete by (cases "db_lock bk w") (auto simp: run_pending_def Let_def reports_complete_def)
  obtain h' where h': "safe_hold (os_holds env 1) (dq_scope_ref q) (dq_run_ref q) = Inr h'"
    using run h free locked complete
    by (cases "safe_hold (os_holds env 1) (dq_scope_ref q) (dq_run_ref q)") (auto simp: run_pending_def Let_def reports_complete_def)
  have free': "hd_status h' = HS_RELEASE"
  proof (rule ccontr)
    assume "\<not> ?thesis"
    with run h h' free locked complete show False
      by (auto simp: run_pending_def Let_def blocked_preview_def split: if_splits dest: refuse_held_not_complete)
  qed
  have "run_released bk env q h' dry w = (r, w')"
    using run h h' free free' locked by (simp add: run_pending_def Let_def)
  from released_completion [OF this complete] locked show ?thesis by blast
qed

lemma deletion_completion:
  assumes run: "run_deletion bk env did reason dry w = (r, w')" and complete: "reports_complete r"
    and loaded: "db_load bk did w = Inr existing" "\<forall>a. existing = Some a \<longrightarrow> au_state a \<noteq> DS_COMPLETE"
  shows "\<exists>q h s cs. dq_id q = did \<and> dq_run_ref q = db_run_ref bk \<and> dq_scope_ref q = db_scope_ref bk \<and> dq_reason q = reason
    \<and> deletion_request_post_init q = Inr q \<and> db_lock bk w = Inr () \<and> db_state bk w = Inr s \<and> db_targets bk did w = Inr cs
    \<and> delete_released bk env q h s existing cs w = (r, w')"
proof -
  let ?q = "\<lparr>dq_id = did, dq_scope_ref = db_scope_ref bk, dq_run_ref = db_run_ref bk, dq_reason = reason,
    dq_requested_at = os_clock env 0\<rparr>"
  have q: "deletion_request_post_init ?q = Inr ?q"
    using run complete deletion_request_post_init_same
    by (cases "deletion_request_post_init ?q") (auto simp: run_deletion_def reports_complete_def)
  have "run_pending bk env ?q existing dry w = (r, w')"
    using run complete loaded q by (cases existing) (auto simp: run_deletion_def reports_complete_def split: if_splits)
  from pending_completion [OF this complete] obtain h s cs where
    "db_lock bk w = Inr ()" "db_state bk w = Inr s" "db_targets bk did w = Inr cs"
    "delete_released bk env ?q h s existing cs w = (r, w')"
    using loaded(1) by auto
  with q show ?thesis by (intro exI [of _ ?q] exI [of _ h] exI [of _ s] exI [of _ cs]) simp
qed

section \<open>What a completed deletion leaves behind\<close>

lemma finish_completion:
  assumes "finish bk env q a ts failed w = (r, w')" "reports_complete r"
  shows "\<exists>w1 b u. db_cleanup bk w = (Inr u, w1) \<and> db_save bk b w1 = (Inr (), w') \<and> au_state b = DS_COMPLETE
    \<and> au_id b = au_id a \<and> b = ended a ts (au_updated_at b) DS_COMPLETE RC_NONE \<and> r = Inr (result_of q b False)
    \<and> \<not> failed \<and> list_all (\<lambda>t. tg_status t \<noteq> TS_FAILED) ts \<and> audit_post_init b = Inr b"
proof -
  have partial: "\<not> reports_complete r2"
    if "save_and_report bk q (ended b ts now DS_PARTIAL code) w2 = (r2, w3)" for b now code w2 r2 w3
    using refusals_not_complete [OF that] by (simp add: ended_def)
  have ok: "\<not> (failed \<or> list_ex (\<lambda>t. tg_status t = TS_FAILED) ts)"
    using assms partial by (auto simp: finish_def split: if_splits)
  let ?c = "ended a ts (os_clock env 8) DS_IN_PROGRESS RC_NONE"
  have post: "audit_post_init ?c = Inr ?c"
    using assms ok by (cases "audit_post_init ?c") (auto simp: finish_def reports_complete_def audit_post_init_def bind_res_Inr_iff)
  obtain x w1 where clean: "db_cleanup bk w = (x, w1)" by fastforce
  obtain u where x: "x = Inr u"
    using assms ok post clean partial
    by (cases x) (auto simp: finish_def reports_complete_def split: err.splits)
  let ?b = "ended ?c ts (os_clock env 9) DS_COMPLETE RC_NONE"
  have "save_and_report bk q ?b w1 = (r, w')"
    using assms ok post clean x by (simp add: finish_def)
  then have "db_save bk ?b w1 = (Inr (), w') \<and> r = Inr (result_of q ?b False) \<and> audit_post_init ?b = Inr ?b"
    using assms(2) by (auto simp: save_and_report_def then_op_def reports_complete_def audit_post_init_def bind_res_Inr_iff
        split: sum.splits prod.splits)
  moreover have "?b = ended a ts (au_updated_at ?b) DS_COMPLETE RC_NONE" by (simp add: ended_def)
  ultimately show ?thesis using clean x ok
    by (intro exI [of _ w1] exI [of _ ?b] exI [of _ u]) (auto simp: ended_def list_ex_iff list_all_iff)
qed

lemma delete_released_completion:
  assumes run: "delete_released bk env q h s current cs w = (r, w')" and complete: "reports_complete r"
  shows "\<exists>a0 a1 a2 a3 active w1 w2 ts failed.
      (case current of
         Some a \<Rightarrow> Inr a
       | None \<Rightarrow> bind_res (map_res (\<lambda>c. target_post_init (planned_target c)) cs) (\<lambda>ts.
           audit_post_init ((fresh_audit q (bs_generation s) (hd_authority_ref h) (hd_decision_ref h)
             (dq_requested_at q) 0 DS_PLANNED RC_NONE)\<lparr>au_targets := ts, au_anchors := bs_anchors s\<rparr>))) = Inr a0
    \<and> with_targets a0 cs = Inr a1 \<and> with_support bk a1 cs w = Inr a2 \<and> with_added a2 cs = Inr a3
    \<and> active = started a3 h s (os_clock env 6) \<and> audit_post_init active = Inr active
    \<and> db_save bk active w = (Inr (), w1)
    \<and> delete_targets bk env active cs 0 (au_targets active) w1 = (Inr (ts, failed), w2)
    \<and> finish bk env q active ts (failed \<or> any_never_adopted (au_targets active)) w2 = (r, w')"
proof -
  have same: "audit_post_init a = Inr b \<Longrightarrow> b = a" for a b by (auto simp: audit_post_init_def bind_res_Inr_iff)
  have no_error: "r \<noteq> Inl e" for e using complete by auto
  from run obtain a0 where a0: "(case current of
         Some a \<Rightarrow> Inr a
       | None \<Rightarrow> bind_res (map_res (\<lambda>c. target_post_init (planned_target c)) cs) (\<lambda>ts.
           audit_post_init ((fresh_audit q (bs_generation s) (hd_authority_ref h) (hd_decision_ref h)
             (dq_requested_at q) 0 DS_PLANNED RC_NONE)\<lparr>au_targets := ts, au_anchors := bs_anchors s\<rparr>))) = Inr a0"
    unfolding delete_released_def by (elim then_op_split) (auto simp: no_error)
  with run obtain a1 where a1: "with_targets a0 cs = Inr a1"
    unfolding delete_released_def by (cases "with_targets a0 cs") (auto simp: no_error)
  from run a0 a1 obtain a2 where a2: "with_support bk a1 cs w = Inr a2"
    unfolding delete_released_def by (cases "with_support bk a1 cs w") (auto simp: no_error)
  from run a0 a1 a2 obtain a3 where a3: "with_added a2 cs = Inr a3"
    unfolding delete_released_def by (cases "with_added a2 cs") (auto simp: no_error)
  let ?active = "started a3 h s (os_clock env 6)"
  from run a0 a1 a2 a3 have post: "audit_post_init ?active = Inr ?active"
    unfolding delete_released_def by (cases "audit_post_init ?active") (auto simp: no_error dest: same)
  have start: "then_op (db_save bk ?active) (\<lambda>_. then_op (delete_targets bk env ?active cs 0 (au_targets ?active))
        (\<lambda>(ts, failed). finish bk env q ?active ts (failed \<or> any_never_adopted (au_targets ?active)))) w = (r, w')"
    using run a0 a1 a2 a3 post unfolding delete_released_def by simp
  then obtain w1 where w1: "db_save bk ?active w = (Inr (), w1)"
    and rest: "then_op (delete_targets bk env ?active cs 0 (au_targets ?active))
        (\<lambda>(ts, failed). finish bk env q ?active ts (failed \<or> any_never_adopted (au_targets ?active))) w1 = (r, w')"
    by (elim then_op_split) (auto simp: no_error)
  from rest obtain ts failed w2 where
    "delete_targets bk env ?active cs 0 (au_targets ?active) w1 = (Inr (ts, failed), w2)"
    "finish bk env q ?active ts (failed \<or> any_never_adopted (au_targets ?active)) w2 = (r, w')"
    by (elim then_op_split) (auto simp: no_error split: prod.splits)
  with a0 a1 a2 a3 post w1 show ?thesis by blast
qed

lemma unlink_sessions_effect:
  "unlink_all (map In_Sessions ns) w = (Inr (), w') \<Longrightarrow> rs_sessions w = SD_Files fs
     \<Longrightarrow> rs_sessions w' = SD_Files (filter (\<lambda>f. fst f \<notin> set ns) fs) \<and> rs_files w' = rs_files w
       \<and> rs_present w' = rs_present w \<and> rs_name w' = rs_name w"
proof (induction ns arbitrary: w fs)
  case (Cons n ns)
  have one: "unlink (In_Sessions n) w = (Inr (), w\<lparr>rs_sessions := SD_Files (AList.delete n fs)\<rparr>)"
    using Cons.prems by (auto simp: unlink_def then_op_def split: if_splits)
  let ?w = "w\<lparr>rs_sessions := SD_Files (AList.delete n fs)\<rparr>"
  have "unlink_all (map In_Sessions ns) ?w = (Inr (), w')" using Cons.prems(1) one by (simp add: then_op_def)
  from Cons.IH [OF this, of "AList.delete n fs"] show ?case by (simp add: AList.delete_eq) (auto intro: filter_cong)
qed simp

lemma cleanup_leaves_nothing:
  assumes "workspace_cleanup w = (Inr (), w')"
  shows "rs_files w' = [] \<and> \<not> rs_present w' \<and> bound_sessions w' = Inr []"
proof -
  from assms obtain w1 names where w1: "remove_run_dir w = (Inr (), w1)" "bound_sessions w1 = Inr names"
    "unlink_all (map In_Sessions names) w1 = (Inr (), w')"
    by (auto simp: workspace_cleanup_def then_op_def split: sum.splits prod.splits)
  have gone: "rs_files w1 = []" "\<not> rs_present w1"
    using w1(1) by (auto simp: remove_run_dir_def run_exists_def split: if_splits)
  show ?thesis
  proof (cases "rs_sessions w1")
    case (SD_Files fs)
    have eff: "rs_sessions w' = SD_Files (filter (\<lambda>f. fst f \<notin> set names) fs)" "rs_files w' = rs_files w1"
      "rs_present w' = rs_present w1" "rs_name w' = rs_name w1"
      using unlink_sessions_effect [OF w1(3) SD_Files] by simp_all
    let ?gs = "filter (\<lambda>f. fst f \<notin> set names) fs"
    have links: "\<not> list_ex (\<lambda>f. is_link_file (snd f)) fs"
      and names: "names = filter (\<lambda>n. case map_of fs n of Some f \<Rightarrow> session_bound (rs_name w1) f | None \<Rightarrow> False) (sorted_set (map fst fs))"
      using w1(2) SD_Files by (auto simp: bound_sessions_def safe_files_def split: if_splits)
    have same: "map_of ?gs n = map_of fs n" if "n \<notin> set names" for n
      using that by (induction fs) auto
    have "\<not> session_bound (rs_name w1) f" if "n \<in> set (sorted_set (map fst ?gs))" "map_of ?gs n = Some f" for n f
    proof -
      have n: "n \<in> fst ` set fs" "n \<notin> set names" using that(1) by auto
      with same that(2) have "map_of fs n = Some f" by simp
      with n show ?thesis unfolding names by auto
    qed
    then have filtered: "\<not> (case map_of ?gs n of Some f \<Rightarrow> session_bound (rs_name w1) f | None \<Rightarrow> False)"
      if "n \<in> set (sorted_set (map fst ?gs))" for n
      using that by (cases "map_of ?gs n") simp_all
    then have "filter (\<lambda>n. case map_of ?gs n of Some f \<Rightarrow> session_bound (rs_name w1) f | None \<Rightarrow> False)
        (sorted_set (map fst ?gs)) = []"
      unfolding filter_empty_conv by (blast intro: filtered)
    moreover have "\<not> list_ex (\<lambda>f. is_link_file (snd f)) ?gs" using links by (auto simp: list_ex_iff)
    ultimately have "bound_sessions w' = Inr []"
      unfolding bound_sessions_def eff(1,4) by (simp add: safe_files_def)
    with eff gone show ?thesis by simp
  qed (use w1 gone in \<open>auto simp: bound_sessions_def\<close>)
qed

lemma save_complete_effect:
  assumes "workspace_save a w = (Inr (), w')" "\<not> fencing a" "rs_files w = []"
  shows "rs_fence w' = Absent \<and> rs_files w' = [] \<and> rs_present w' = rs_present w \<and> rs_sessions w' = rs_sessions w
    \<and> rs_name w' = rs_name w \<and> map_of (rs_audits w') (au_id a) = Some (FileJson (audit_as_dict a))"
  using assms
  by (auto simp: workspace_save_def fencing_def write_audit_def set_fence_def then_op_def set_fence_file_def set_fence_state_def
      update_conv' split: if_splits fs_node.splits sum.splits prod.splits)

lemma completion_leaves_nothing:
  assumes "delete_released (workspace_backend ref run) env q h s current cs w = (r, w')" "reports_complete r"
  shows "rs_files w' = [] \<and> \<not> rs_present w' \<and> bound_sessions w' = Inr [] \<and> rs_fence w' = Absent"
proof -
  obtain active w1 w2 ts failed where
    "finish (workspace_backend ref run) env q active ts (failed \<or> any_never_adopted (au_targets active)) w2 = (r, w')"
    using delete_released_completion [OF assms] by blast
  from finish_completion [OF this assms(2)] obtain w3 b where
    clean: "workspace_cleanup w2 = (Inr (), w3)" and save: "workspace_save b w3 = (Inr (), w')" and b: "au_state b = DS_COMPLETE"
    by (auto simp: workspace_backend_def)
  have "\<not> fencing b" using b by (simp add: fencing_def)
  with cleanup_leaves_nothing [OF clean] save_complete_effect [OF save]
  have after: "rs_fence w' = Absent" "rs_files w' = []" "\<not> rs_present w'" "rs_sessions w' = rs_sessions w3" "rs_name w' = rs_name w3"
    "bound_sessions w3 = Inr []" by auto
  have "bound_sessions w' = bound_sessions w3" by (simp only: bound_sessions_def after(4,5))
  with after show ?thesis by simp
qed

section \<open>Dry runs\<close>

text \<open>Each refusal of a dry run reports without saving.\<close>

lemma dry_refusals:
  "keeps (=) (refuse_mismatch bk q a now True)" "keeps (=) (refuse_unknown bk env q e True)"
  "keeps (=) (refuse_running bk env q h s current code True)"
  by (auto simp: keeps_def refuse_mismatch_def refuse_unknown_def refuse_running_def then_op_def split: sum.splits)

definition cancels :: "'w backend \<Rightarrow> outside \<Rightarrow> deletion_reason \<Rightarrow> 'w \<Rightarrow> 'w \<Rightarrow> bool" where
  "cancels bk env reason w w' \<longleftrightarrow> reason = DR_EXPLICIT \<and> (\<exists>s. db_state bk w = Inr s \<and> bs_active s)
     \<and> (\<exists>x. db_cancel bk (os_clock env 10) (os_clock env 11) w = (x, w'))"

lemma dry_released:
  assumes run: "run_released bk env q h True w = (r, w')" and changed: "w' \<noteq> w"
  shows "cancels bk env (dq_reason q) w w'"
proof -
  have refuse: "refuse_mismatch bk q a now True w = (r, w') \<Longrightarrow> False"
    "refuse_running bk env q h s c code True w = (r, w') \<Longrightarrow> False" for a now s c code
    using changed dry_refusals(1,3) unfolding keeps_def by (metis snd_conv)+
  obtain current where loaded: "db_load bk (dq_id q) w = Inr current"
    using run changed by (cases "db_load bk (dq_id q) w") (auto simp: run_released_def)
  obtain s where s: "db_state bk w = Inr s"
    using run changed loaded by (cases "db_state bk w") (auto simp: run_released_def)
  have active: "bs_active s \<and> dq_reason q = DR_EXPLICIT"
  proof (rule ccontr)
    assume "\<not> ?thesis"
    with run loaded s changed show False
      by (auto simp: run_released_def then_op_def split: if_splits sum.splits dest: refuse)
  qed
  then have "then_op (db_cancel bk (os_clock env 10) (os_clock env 11))
      (\<lambda>_. refuse_running bk env q h s current RC_CANCELLATION_REQUESTED True) w = (r, w')"
    using run loaded s by (auto simp: run_released_def split: if_splits dest: refuse)
  then have "\<exists>x. db_cancel bk (os_clock env 10) (os_clock env 11) w = (x, w')"
  proof (cases rule: then_op_split)
    case (goes_on u w1)
    with keepsD [OF dry_refusals(3) goes_on(2)] show ?thesis by auto
  qed blast
  with active s show ?thesis by (auto simp: cancels_def)
qed

lemma dry_pending:
  assumes run: "run_pending bk env q e True w = (r, w')" and changed: "w' \<noteq> w"
  shows "cancels bk env (dq_reason q) w w'"
proof -
  have "refuse_unknown bk env q e True w = (r, w') \<Longrightarrow> False"
    using changed dry_refusals(2) unfolding keeps_def by (metis snd_conv)
  then have "\<exists>h. run_released bk env q h True w = (r, w')"
    using run changed by (auto simp: run_pending_def Let_def then_op_def blocked_preview_def split: sum.splits if_splits)
  then show ?thesis using dry_released [OF _ changed] by blast
qed

lemma dry_replay:
  assumes run: "replay_complete bk env q a True w = (r, w')" and changed: "w' \<noteq> w"
  shows "run_pending bk env q (Some a) True w = (r, w')"
proof -
  obtain loaded where read: "db_lock bk w = Inr ()" "db_load bk (dq_id q) w = Inr loaded"
    using run changed by (cases "db_lock bk w"; cases "db_load bk (dq_id q) w") (auto simp: replay_complete_def)
  show ?thesis
  proof (cases loaded)
    case (Some current)
    have "refuse_mismatch bk q current (os_clock env 1) True w \<noteq> (r, w')"
      using changed dry_refusals(1) unfolding keeps_def by (metis snd_conv)
    with run read Some changed show ?thesis
      by (cases "db_state bk w") (auto simp: replay_complete_def split: if_splits)
  qed (use run read in \<open>simp add: replay_complete_def\<close>)
qed

lemma dry_deletion:
  assumes run: "run_deletion bk env did reason True w = (r, w')" and changed: "w' \<noteq> w"
  shows "cancels bk env reason w w'"
proof -
  let ?q = "\<lparr>dq_id = did, dq_scope_ref = db_scope_ref bk, dq_run_ref = db_run_ref bk, dq_reason = reason,
    dq_requested_at = os_clock env 0\<rparr>"
  have q: "deletion_request_post_init ?q = Inr ?q"
    using run changed deletion_request_post_init_same by (cases "deletion_request_post_init ?q") (auto simp: run_deletion_def)
  obtain existing where "db_load bk did w = Inr existing"
    using run changed q by (cases "db_load bk did w") (auto simp: run_deletion_def)
  with run q changed have "\<exists>e. run_pending bk env ?q e True w = (r, w')"
    by (cases existing) (auto simp: run_deletion_def split: if_splits dest: dry_replay)
  then show ?thesis using dry_pending [OF _ changed] by fastforce
qed

end
