(* ===== verification/Deletion_Again.thy ===== *)
theory Deletion_Again
  imports Deletion_Replay
begin

text \<open>
  Running a deletion again: the audit a completed deletion leaves is read back, the run it describes
  is still the one on disk, and the outcome is reported without a change.
\<close>

section \<open>What a plan keeps\<close>

lemma delete_targets_keep:
  "delete_targets bk env a cs i ts w = (Inr (ts', failed), w')
     \<Longrightarrow> map tg_ref ts' = map tg_ref ts \<and> map tg_class ts' = map tg_class ts"
proof (induction ts arbitrary: i w ts' failed)
  case (Cons t ts)
  have go: "\<exists>rs. ts' = t2 # rs \<and> map tg_ref rs = map tg_ref ts \<and> map tg_class rs = map tg_class ts"
    if "then_op (delete_targets bk env a cs (Suc i) ts) (\<lambda>(rs, failed). returns (Inr (t2 # rs, failed))) w1
      = (Inr (ts', failed), w')" for t2 w1
    using that by (elim then_op_split) (auto dest: Cons.IH split: prod.splits)
  have mark: "tg_ref (mark t st code) = tg_ref t \<and> tg_class (mark t st code) = tg_class t" for st code
    by (simp add: mark_def)
  show ?case
  proof (cases "target_step a cs t")
    case (Attempt c)
    obtain q w1 where del: "db_delete bk c (proofs_for a t) (os_event_time env) w = (q, w1)" by fastforce
    then show ?thesis using Cons.prems Attempt mark
      by (auto simp: Let_def split: if_splits sum.splits err.splits dest: go)
  qed (use Cons.prems mark in \<open>auto simp: Let_def dest!: go\<close>)
qed simp

lemma scope_context_from_dict_wf: "scope_context_from_dict v = Inr c \<Longrightarrow> wf_context c"
  by (auto simp: scope_context_from_dict_def bind_res_Inr_iff split: json.splits if_splits dest: scope_context_wf)

lemma artifact_from_dict_parts:
  assumes "artifact_from_dict v = Inr a"
  shows "wf_context (sa_context a) \<and> list_all wf_approval (sa_approvals a)"
proof -
  obtain kvs where "artifact_from_fields kvs = Inr a"
    using assms by (auto simp: artifact_from_dict_def split: json.splits)
  then obtain vc ctx va as b where ctx: "scope_context_from_dict vc = Inr ctx" and as: "approvals_from va = Inr as"
    and b: "artifact_post_init b = Inr a" "sa_context b = ctx" "sa_approvals b = as"
    unfolding artifact_from_fields_def bind_res_Inr_iff by (force split: if_splits)
  from artifact_post_init_same [OF b(1)] b scope_context_from_dict_wf [OF ctx] approvals_from_wf [OF as]
  show ?thesis by simp
qed

lemma read_metadata_wf:
  assumes "read_metadata w n = Inr p"
  shows "wf_proof p"
proof -
  obtain v a where a: "artifact_from_dict v = Inr a" "artifact_proof a = Inr p"
    using assms by (auto simp: read_metadata_def split: option.splits run_file.splits sum.splits if_splits)
  have "p = \<lparr>
     pf_artifact_ref = sa_artifact_ref a, pf_request_ref = sa_request_ref a, pf_context = sa_context a,
     pf_run_ref = sa_run_ref a, pf_decision_ref = sa_decision_ref a, pf_subject_ref = sa_subject_ref a,
     pf_role_ref = sa_role_ref a, pf_capability_ref = sa_capability_ref a, pf_purpose = sa_purpose a,
     pf_authority_ref = sa_authority_ref a, pf_approvals = sa_approvals a, pf_allowed = sa_allowed a,
     pf_selected = sa_selected a, pf_created_at = sa_created_at a, pf_expires_at = sa_expires_at a\<rparr>"
    using a(2) unfolding artifact_proof_def by (rule proof_post_init_same)
  moreover from this have "proof_post_init p = Inr p" using a(2) by (simp add: artifact_proof_def)
  ultimately show ?thesis using artifact_from_dict_parts [OF a(1)] by (simp add: wf_proof_def)
qed

lemma prepared_proofs_wf:
  assumes "workspace_prepare c w = Inr ps"
  shows "list_all wf_proof ps"
proof -
  have "wf_proof p" if "p \<in> set ps" "map_res (read_metadata w) (metadata_names w) = Inr ps" for p
    using map_res_set [OF that(2,1)] read_metadata_wf by auto
  with assms show ?thesis by (auto simp: workspace_prepare_def list_all_iff split: if_splits)
qed

lemma planned_wf:
  assumes "map_res (\<lambda>c. target_post_init (planned_target c)) cs = Inr ts"
  shows "list_all wf_target ts \<and> map tg_class ts = map cd_class cs"
  using assms
  by (induction cs arbitrary: ts)
    (auto simp: bind_res_Inr_iff target_post_init_def wf_target_def planned_target_def split: if_splits)

lemma added_wf: "map_res (\<lambda>c. target_post_init (added_target c)) cs = Inr ts \<Longrightarrow> list_all wf_target ts"
  by (induction cs arbitrary: ts)
    (auto simp: bind_res_Inr_iff target_post_init_def wf_target_def split: if_splits)

text \<open>The plan of a first deletion.\<close>

definition sound_deletion_plan :: "backend_state \<Rightarrow> candidate list \<Rightarrow> deletion_audit \<Rightarrow> bool" where
  "sound_deletion_plan s cs a \<longleftrightarrow> au_anchors a = bs_anchors s \<and> au_generation a = bs_generation s
     \<and> list_all wf_target (au_targets a) \<and> list_all wf_proof (au_support a)
     \<and> set (map cd_class cs) \<subseteq> set (map tg_class (au_targets a))"

lemma first_plan_sound:
  assumes a0: "bind_res (map_res (\<lambda>c. target_post_init (planned_target c)) cs) (\<lambda>ts.
           audit_post_init ((fresh_audit q (bs_generation s) (hd_authority_ref h) (hd_decision_ref h)
             (dq_requested_at q) 0 DS_PLANNED RC_NONE)\<lparr>au_targets := ts, au_anchors := bs_anchors s\<rparr>)) = Inr a0"
    and a1: "with_targets a0 cs = Inr a1"
    and a2: "with_support (workspace_backend ref run) a1 cs w = Inr a2"
    and a3: "with_added a2 cs = Inr a3"
  shows "sound_deletion_plan s cs (started a3 h s now) \<and> au_id a3 = dq_id q \<and> au_scope_ref a3 = dq_scope_ref q
    \<and> au_run_ref a3 = dq_run_ref q \<and> au_reason a3 = dq_reason q"
proof -
  have same: "audit_post_init a = Inr b \<Longrightarrow> b = a" for a b by (auto simp: audit_post_init_def bind_res_Inr_iff)
  let ?keeps = "\<lambda>a. sound_deletion_plan s cs a \<and> au_id a = dq_id q \<and> au_scope_ref a = dq_scope_ref q
    \<and> au_run_ref a = dq_run_ref q \<and> au_reason a = dq_reason q"
  obtain ts where ts: "map_res (\<lambda>c. target_post_init (planned_target c)) cs = Inr ts"
    and "a0 = (fresh_audit q (bs_generation s) (hd_authority_ref h) (hd_decision_ref h)
             (dq_requested_at q) 0 DS_PLANNED RC_NONE)\<lparr>au_targets := ts, au_anchors := bs_anchors s\<rparr>"
    using a0 by (auto simp: bind_res_Inr_iff dest: same)
  then have 0: "?keeps a0" using planned_wf [OF ts] by (simp add: sound_deletion_plan_def fresh_audit_def)
  have 1: "?keeps a1"
  proof (cases "au_targets a0 = []")
    case True
    then have "a1 = a0\<lparr>au_targets := ts\<rparr>" using a1 ts by (simp add: with_targets_def same)
    with 0 planned_wf [OF ts] show ?thesis by (simp add: sound_deletion_plan_def)
  qed (use a1 0 in \<open>simp add: with_targets_def\<close>)
  have 2: "?keeps a2"
  proof (cases "a2 = a1")
    case False
    obtain c ps where "workspace_prepare c w = Inr ps" "audit_post_init (a1\<lparr>au_support := ps\<rparr>) = Inr a2"
      using a2 False by (auto simp: with_support_def workspace_backend_def bind_res_Inr_iff split: if_splits list.splits)
    with 1 same [of "a1\<lparr>au_support := ps\<rparr>" a2] prepared_proofs_wf show ?thesis by (simp add: sound_deletion_plan_def)
  qed (use 1 in simp)
  have "?keeps a3"
  proof (cases "a3 = a2")
    case False
    obtain new us where us: "map_res (\<lambda>c. target_post_init (added_target c)) new = Inr us"
      "audit_post_init (a2\<lparr>au_targets := au_targets a2 @ us\<rparr>) = Inr a3"
      using a3 False by (auto simp: with_added_def Let_def bind_res_Inr_iff split: if_splits)
    with 2 same [OF us(2)] added_wf [OF us(1)] show ?thesis by (auto simp: sound_deletion_plan_def)
  qed (use 2 in simp)
  then show ?thesis by (auto simp: started_def sound_deletion_plan_def)
qed

section \<open>The run a completed deletion describes\<close>

definition empty_generation :: "string \<Rightarrow> string" where
  "empty_generation run = stable_revision (JObj [
     (''scope_ref'', JStr ''workspace''), (''run_ref'', JStr run),
     (''state'', state_identity_json run []), (''job'', JNull)])"

lemma empty_run_state:
  "rs_files w = [] \<Longrightarrow> workspace_state ref w = Inr \<lparr>bs_generation = empty_generation (rs_name w),
     bs_active = False, bs_terminal = True, bs_canceled = False, bs_anchors = []\<rparr>"
  by (simp add: workspace_state_def raw_state_def run_job_def readable_def file_exists_def plain_file_def
      empty_generation_def Let_def)

lemma listed_files:
  assumes "run_files w = Inr names" "map_of (rs_files w) n = Some f"
  shows "n \<in> set names \<and> (\<exists>c. f = RF_File c)"
proof -
  have mem: "(n, f) \<in> set (rs_files w)" using assms(2) by (rule map_of_SomeD)
  then have "rs_files w \<noteq> []" by auto
  with assms(1) have names: "safe_files (rs_files w) = Inr names"
    by (auto simp: run_files_def run_exists_def split: if_splits)
  have "\<not> is_link_file f" using names mem by (auto simp: safe_files_def list_ex_iff split: if_splits)
  then have "\<exists>c. f = RF_File c" by (cases f) (simp_all add: is_link_file_def)
  moreover have "n \<in> fst ` set (rs_files w)" using mem by (metis fst_conv image_eqI)
  then have "n \<in> set names" using names by (auto simp only: safe_files_def set_sorted_set list.set_map sum.inject split: if_splits)
  ultimately show ?thesis by simp
qed

lemma targets_cover:
  assumes "workspace_targets did w = Inr cs" "map_of (rs_files w) n \<noteq> None"
  shows "class_for_relative n \<in> set (map cd_class cs)"
proof -
  obtain f where f: "map_of (rs_files w) n = Some f" using assms(2) by blast
  obtain names extra where names: "run_files w = Inr names"
    and cs: "map cd_class cs = map class_of_name (sorted_set (map class_name (map class_for_relative names @ extra)))"
    using assms(1) by (auto simp: workspace_targets_def bind_res_Inr_iff Let_def comp_def)
  have "n \<in> set names" using listed_files [OF names f] by simp
  then have "class_name (class_for_relative n) \<in> set (sorted_set (map class_name (map class_for_relative names @ extra)))"
    by simp
  then have "class_of_name (class_name (class_for_relative n)) \<in> set (map cd_class cs)"
    unfolding cs by (metis image_eqI list.set_map)
  then show ?thesis by simp
qed

lemma control_classes:
  "class_for_relative ''EXECUTION_JOB.json'' = DC_EXECUTION_JOB" "class_for_relative ''RUN_STATE.json'' = DC_RUN_STATE"
  "class_name DC_EXECUTION_JOB = ''execution_job''" "class_name DC_RUN_STATE = ''run_state''"
  by code_simp+

lemma anchors_have_targets:
  assumes "workspace_state ref w = Inr s" "workspace_targets did w = Inr cs" "n \<in> fst ` set (bs_anchors s)"
  shows "n \<in> class_name ` set (map cd_class cs)"
proof -
  have job: "''execution_job'' \<in> class_name ` set (map cd_class cs)" if "run_job ref w = Inr (Some j)" for j
  proof -
    have "map_of (rs_files w) ''EXECUTION_JOB.json'' \<noteq> None"
      using that by (auto simp: run_job_def readable_def split: option.splits)
    from targets_cover [OF assms(2) this] show ?thesis unfolding control_classes using control_classes(3) by (metis image_eqI)
  qed
  have state: "''run_state'' \<in> class_name ` set (map cd_class cs)" if "plain_file (map_of (rs_files w) ''RUN_STATE.json'')"
  proof -
    have "map_of (rs_files w) ''RUN_STATE.json'' \<noteq> None" using that by (simp add: plain_file_def split: option.splits)
    from targets_cover [OF assms(2) this] show ?thesis unfolding control_classes using control_classes(4) by (metis image_eqI)
  qed
  obtain job where "run_job ref w = Inr job" using assms(1) by (auto simp: workspace_state_def bind_res_Inr_iff)
  with assms(1,3) job state show ?thesis
    by (auto simp: workspace_state_def bind_res_Inr_iff Let_def split: option.splits if_splits)
qed

lemma anchors_sorted:
  assumes "workspace_state ref w = Inr s"
  shows "sort_fields (anchors_json (bs_anchors s)) = anchors_json (bs_anchors s)"
  using assms
  by (auto simp: workspace_state_def bind_res_Inr_iff Let_def anchors_json_def sort_fields_def char_defs split: option.splits if_splits)

lemma unanchored_generation:
  assumes "workspace_state ref w = Inr s" "workspace_targets did w = Inr cs" "bs_anchors s = []"
  shows "bs_generation s = empty_generation (rs_name w)"
proof -
  obtain names where names: "run_files w = Inr names" using assms(2) by (auto simp: workspace_targets_def bind_res_Inr_iff)
  have "\<not> plain_file (map_of (rs_files w) ''RUN_STATE.json'')" and job: "run_job ref w = Inr None"
    using assms(1,3) by (auto simp: workspace_state_def bind_res_Inr_iff Let_def split: option.splits if_splits)
  then have "map_of (rs_files w) ''RUN_STATE.json'' = None"
    using listed_files [OF names, of "''RUN_STATE.json''"]
    by (cases "map_of (rs_files w) ''RUN_STATE.json''") (force simp: plain_file_def)+
  then have "raw_state w = Inr []" by (simp add: raw_state_def readable_def)
  with assms(1) job show ?thesis by (auto simp: workspace_state_def empty_generation_def Let_def)
qed

section \<open>Again\<close>

text \<open>What no deletion changes: the name of the run and whether its directories are links.\<close>

definition run_place :: "run_space \<Rightarrow> (string \<times> bool \<times> bool) set" where
  "run_place w = {(rs_name w, rs_is_link w, rs_scratch_link w)}"

lemma set_fence_place: "set_fence active w = (r, w') \<Longrightarrow> run_place w' = run_place w"
proof -
  have state: "set_fence_state active w1 = (r1, w2) \<Longrightarrow> run_place w2 = run_place w1" for w1 r1 w2
    by (auto simp: set_fence_state_def set_file_def run_place_def Let_def
        split: option.splits run_file.splits json.splits if_splits)
  assume "set_fence active w = (r, w')"
  then show ?thesis unfolding set_fence_def
    by (elim then_op_split) (use set_fence_file_effect state in \<open>auto simp: run_place_def dest: set_fence_file_effect\<close>)
qed

lemma unlink_place: "unlink p w = (r, w') \<Longrightarrow> run_place w' = run_place w"
  by (auto simp: unlink_def run_place_def split: if_splits doc_path.splits session_dir.splits)

lemma unlink_all_place: "unlink_all ps w = (r, w') \<Longrightarrow> run_place w' = run_place w"
proof (induction ps arbitrary: w)
  case (Cons p ps)
  then have "then_op (unlink p) (\<lambda>_. unlink_all ps) w = (r, w')" by simp
  then show ?case by (elim then_op_split) (auto dest: unlink_place Cons.IH)
qed simp

lemma unlink_support_place: "unlink_support at proofs ps w = (r, w') \<Longrightarrow> run_place w' = run_place w"
proof (induction ps arbitrary: w)
  case (Cons p ps)
  have log: "record_removed at proofs w1 = (r1, w2) \<Longrightarrow> run_place w2 = run_place w1" for w1 r1 w2
    by (drule record_removed_effect) (auto simp: run_place_def)
  from Cons.prems have "then_op (unlink p) (\<lambda>_. then_op (record_removed at proofs) (\<lambda>_. unlink_support at proofs ps)) w = (r, w')"
    by simp
  then show ?case by (elim then_op_split) (simp_all add: unlink_place Cons.IH log)
qed simp

lemma delete_support_place: "delete_support at proofs ps w = (r, w') \<Longrightarrow> run_place w' = run_place w"
proof -
  have log: "record_removed at proofs w1 = (r1, w2) \<Longrightarrow> run_place w2 = run_place w1" for w1 r1 w2
    by (drule record_removed_effect) (auto simp: run_place_def)
  have again: "then_op (record_removed at proofs) (\<lambda>_. returns (Inl e)) w1 = (r1, w2) \<Longrightarrow> run_place w2 = run_place w1"
    for e :: err and w1 and r1 :: "unit res" and w2 by (elim then_op_split) (auto dest: log)
  assume "delete_support at proofs ps w = (r, w')"
  then show ?thesis
    by (auto simp: delete_support_def split: if_splits prod.splits sum.splits dest!: unlink_support_place log again)
qed

interpretation place: deletion_backend "workspace_backend ref run" run_place for ref run
proof unfold_locales
  fix a w r w' assume "db_save (workspace_backend ref run) a w = (r, w')"
  then have "workspace_save a w = (r, w')" by (simp add: workspace_backend_def)
  then show "run_place w' = run_place w" unfolding workspace_save_def
    by (elim then_op_split) (auto simp: write_audit_def run_place_def dest!: set_fence_place)
next
  fix t1 t2 w r w' assume "db_cancel (workspace_backend ref run) t1 t2 w = (r, w')"
  then have "workspace_cancel ref t1 t2 w = (r, w')" by (simp add: workspace_backend_def)
  then show "run_place w' = run_place w"
    by (auto simp: workspace_cancel_def set_file_def run_place_def split: sum.splits option.splits if_splits)
next
  fix c ps at w r w' assume "db_delete (workspace_backend ref run) c ps at w = (r, w')"
  then have "workspace_delete c ps at w = (r, w')" by (simp add: workspace_backend_def)
  then show "run_place w' \<subseteq> run_place w" unfolding workspace_delete_def
    by (elim then_op_split) (auto split: if_splits sum.splits dest!: delete_support_place unlink_all_place)
next
  fix w r w' assume "db_cleanup (workspace_backend ref run) w = (r, w')"
  then have "workspace_cleanup w = (r, w')" by (simp add: workspace_backend_def)
  moreover have dir: "remove_run_dir w1 = (r1, w2) \<Longrightarrow> run_place w2 = run_place w1" for w1 r1 w2
    by (auto simp: remove_run_dir_def run_place_def split: if_splits)
  ultimately show "run_place w' \<subseteq> run_place w" unfolding workspace_cleanup_def
    by (elim then_op_split) (auto split: sum.splits dest!: dir unlink_all_place)
qed

lemma replay_unchanged:
  assumes "workspace_load did w = Inr (Some a)" "au_state a = DS_COMPLETE"
    and "(au_scope_ref a, au_run_ref a, au_reason a) = (''workspace'', run, reason)"
    and "workspace_lock w = Inr ()" "workspace_state ref w = Inr s" "generation_matches s a"
    and "opaque did" "opaque run" "matches_timestamp (os_clock env 0)"
  shows "run_deletion (workspace_backend ref run) env did reason dry w
    = (Inr (result_of \<lparr>dq_id = did, dq_scope_ref = ''workspace'', dq_run_ref = run, dq_reason = reason,
        dq_requested_at = os_clock env 0\<rparr> a dry), w)"
proof -
  let ?q = "\<lparr>dq_id = did, dq_scope_ref = ''workspace'', dq_run_ref = run, dq_reason = reason,
        dq_requested_at = os_clock env 0\<rparr>"
  have "opaque ''workspace''" by (simp add: opaque_def pattern_defs deletion_forbidden_def char_defs)
  then have "deletion_request_post_init ?q = Inr ?q"
    using assms(7-) by (simp add: deletion_request_post_init_def opaque_checks_def stamp_checks_def)
  with assms show ?thesis by (simp add: run_deletion_def replay_complete_def workspace_backend_def)
qed

lemma completion_replays:
  assumes run: "run_deletion (workspace_backend ref (rs_name w)) env did reason dry w = (Inr x, w')"
    and complete: "dx_state x = DS_COMPLETE" and first: "workspace_load did w = Inr None"
    and clock: "matches_timestamp (os_clock env2 0)"
  shows "run_deletion (workspace_backend ref (rs_name w)) env2 did reason dry2 w'
    = (Inr (x\<lparr>dx_request := \<lparr>dq_id = did, dq_scope_ref = ''workspace'', dq_run_ref = rs_name w, dq_reason = reason,
        dq_requested_at = os_clock env2 0\<rparr>, dx_dry_run := dry2\<rparr>), w')"
proof -
  let ?bk = "workspace_backend ref (rs_name w)"
  have backend: "db_load ?bk = workspace_load" "db_state ?bk = workspace_state ref" "db_targets ?bk = workspace_targets"
    "db_lock ?bk = workspace_lock" "db_run_ref ?bk = rs_name w" "db_scope_ref ?bk = ''workspace''"
    "db_cleanup ?bk = workspace_cleanup" "db_save ?bk = workspace_save"
    by (simp_all add: workspace_backend_def)
  have load: "db_load ?bk did w = Inr None" using first by (simp add: backend)
  from deletion_completion [OF run _ load] complete obtain q h s cs where q: "dq_id q = did" "dq_run_ref q = rs_name w"
    "dq_scope_ref q = ''workspace''" "dq_reason q = reason" "deletion_request_post_init q = Inr q" "workspace_lock w = Inr ()"
    and s: "workspace_state ref w = Inr s" and cs: "workspace_targets did w = Inr cs"
    and del: "delete_released ?bk env q h s None cs w = (Inr x, w')"
    by (auto simp: backend)
  have rep: "reports_complete (Inr x)" using complete by simp
  from delete_released_completion [OF del rep] obtain a0 a1 a2 a3 active w1 w2 ts failed where
    a: "bind_res (map_res (\<lambda>c. target_post_init (planned_target c)) cs) (\<lambda>ts.
           audit_post_init ((fresh_audit q (bs_generation s) (hd_authority_ref h) (hd_decision_ref h)
             (dq_requested_at q) 0 DS_PLANNED RC_NONE)\<lparr>au_targets := ts, au_anchors := bs_anchors s\<rparr>)) = Inr a0"
      "with_targets a0 cs = Inr a1" "with_support ?bk a1 cs w = Inr a2" "with_added a2 cs = Inr a3"
    and active: "active = started a3 h s (os_clock env 6)" "audit_post_init active = Inr active"
    and targets: "delete_targets ?bk env active cs 0 (au_targets active) w1 = (Inr (ts, failed), w2)"
    and fin: "finish ?bk env q active ts (failed \<or> any_never_adopted (au_targets active)) w2 = (Inr x, w')"
    by auto
  have plan: "sound_deletion_plan s cs active" "au_id active = did" "au_scope_ref active = ''workspace''"
    "au_run_ref active = rs_name w" "au_reason active = reason"
    using first_plan_sound [OF a, of "os_clock env 6"] q active(1) by (auto simp: started_def)
  have kept: "map tg_ref ts = map tg_ref (au_targets active)" "map tg_class ts = map tg_class (au_targets active)"
    using delete_targets_keep [OF targets] by simp_all
  from finish_completion [OF fin rep] obtain w3 b where b: "workspace_cleanup w2 = (Inr (), w3)" "workspace_save b w3 = (Inr (), w')"
    "au_state b = DS_COMPLETE" "b = ended active ts (au_updated_at b) DS_COMPLETE RC_NONE" "x = result_of q b False"
    "audit_post_init b = Inr b" by (auto simp: backend)
  define moment where "moment = au_updated_at b"
  have b': "b = ended active ts moment DS_COMPLETE RC_NONE" using b(4) by (simp add: moment_def)
  have fields: "au_id b = did" "au_scope_ref b = ''workspace''" "au_run_ref b = rs_name w" "au_reason b = reason"
    "au_anchors b = bs_anchors s" "au_generation b = bs_generation s" "au_targets b = ts" "au_support b = au_support active"
    using plan unfolding b' by (simp_all add: ended_def sound_deletion_plan_def)
  have "list_all wf_target ts"
  proof -
    have "tg_ref ` set ts = tg_ref ` set (au_targets active)" using kept(1) by (metis list.set_map)
    with plan(1) show ?thesis unfolding sound_deletion_plan_def list_all_iff wf_target_def by (metis (mono_tags) image_iff)
  qed
  then have "wf_audit b"
    using plan(1) b(6) anchors_sorted [OF s] by (simp add: wf_audit_def fields sound_deletion_plan_def)
  have gone: "rs_files w' = []" using completion_leaves_nothing [OF del rep] by simp
  have "\<not> fencing b" "rs_files w3 = []" using b(3) cleanup_leaves_nothing [OF b(1)] by (simp_all add: fencing_def)
  from save_complete_effect [OF b(2) this] have "map_of (rs_audits w') did = Some (FileJson (audit_as_dict b))"
    by (simp add: fields)
  then have loaded: "workspace_load did w' = Inr (Some b)"
    using q(1,5) audit_round_trip [OF \<open>wf_audit b\<close>] b(6)
    unfolding audit_ok_iff fields(1) by (simp add: workspace_load_def read_audit_def)
  have place: "run_place w' = run_place w"
    using place.documents_never_appear [OF run] by (simp add: run_place_def)
  let ?s = "\<lparr>bs_generation = empty_generation (rs_name w), bs_active = False, bs_terminal = True, bs_canceled = False, bs_anchors = []\<rparr>"
  have "rs_name w' = rs_name w" using place by (simp add: run_place_def)
  then have state: "workspace_state ref w' = Inr ?s" using empty_run_state [of w' ref] gone by simp
  have "generation_matches ?s b"
  proof (cases "bs_anchors s = []")
    case True
    with unanchored_generation [OF s cs True] show ?thesis by (simp add: generation_matches_def fields)
  next
    case False
    have "status_of_class ts n \<noteq> None" if "n \<in> fst ` set (bs_anchors s)" for n
    proof -
      have "n \<in> class_name ` set (map cd_class cs)" by (rule anchors_have_targets [OF s cs that])
      then have "n \<in> class_name ` set (map tg_class ts)" using plan(1) unfolding kept sound_deletion_plan_def by blast
      then show ?thesis by (auto simp: status_of_class_def map_of_eq_None_iff image_image)
    qed
    then show ?thesis using False by (force simp: generation_matches_def fields list_all_iff)
  qed
  moreover have "workspace_lock w' = Inr ()" using q(6) place by (simp add: workspace_lock_def run_place_def)
  moreover have "opaque did" "opaque (rs_name w)" using b(6) unfolding audit_ok_iff fields by simp_all
  ultimately show ?thesis
    using replay_unchanged [OF loaded b(3), where run = "rs_name w" and s = ?s] state clock
    by (simp add: fields b(5) result_of_def)
qed

end
