(* ===== verification/Deletion_Samples.thy ===== *)
theory Deletion_Samples
  imports Deletion_Again Samples
begin

text \<open>
  A run with two source files, no job and no run state, and an outside that releases it. Digests
  stay uncomputed: the facts about them are those of every digest.
\<close>

definition noon_text :: string where
  "noon_text = ''2025-01-01T12:00:00Z''"

definition sample_hold :: "hold_status \<Rightarrow> hold_decision" where
  "sample_hold st = \<lparr>hd_scope_ref = ''workspace'', hd_run_ref = ''run-1'', hd_status = st,
     hd_authority_ref = ''legal-1'', hd_decision_ref = ''decision-1'', hd_decided_at = noon_text\<rparr>"

definition sample_outside :: "hold_status \<Rightarrow> outside" where
  "sample_outside st = \<lparr>os_holds = (\<lambda>_. Hold_Decision (sample_hold st)), os_inject = (\<lambda>_ _. False),
     os_clock = (\<lambda>_. noon_text), os_event_time = (\<lambda>_. noon_text)\<rparr>"

definition sample_space :: "doc_path list \<Rightarrow> run_space" where
  "sample_space pins = \<lparr>rs_name = ''run-1'', rs_is_link = False, rs_scratch_link = False, rs_present = True,
     rs_files = [(''inputs/a'', RF_File None), (''inputs/b'', RF_File None)], rs_sessions = SD_Missing,
     rs_fences_safe = True, rs_fence = Absent, rs_audits = [],
     rs_log = \<lparr>lg_file = Stream_Missing, lg_writable = True\<rparr>, rs_pinned = pins\<rparr>"

lemmas sample_run_defs = sample_space_def sample_outside_def sample_hold_def noon_text_def

definition sample_context :: scope_context where
  "sample_context = \<lparr>sc_user_ref = ''user-1'', sc_workspace_ref = ''workspace'', sc_scope_ref = ''workspace''\<rparr>"

lemma sample_opaque_names:
  "opaque ''workspace''" "opaque ''run-1''" "opaque ''delete-1''" "opaque ''legal-1''" "opaque ''decision-1''"
  "matches_timestamp noon_text"
  by (simp_all add: opaque_def pattern_defs deletion_forbidden_def char_defs noon_text_def)

definition sample_generation :: string where
  "sample_generation = stable_revision (JObj [
     (''scope_ref'', JStr ''workspace''), (''run_ref'', JStr ''run-1''),
     (''state'', state_identity_json ''run-1'' []), (''job'', JNull)])"

definition sample_target :: candidate where
  "sample_target = \<lparr>cd_class = DC_SOURCE_SNAPSHOT,
     cd_ref = target_ref ''workspace'' ''run-1'' ''delete-1'' DC_SOURCE_SNAPSHOT, cd_control = False\<rparr>"

lemma sample_state:
  "workspace_state ref (sample_space pins) = Inr \<lparr>bs_generation = sample_generation,
     bs_active = False, bs_terminal = True, bs_canceled = False, bs_anchors = []\<rparr>"
  by (simp add: workspace_state_def raw_state_def run_job_def sample_space_def readable_def file_exists_def plain_file_def
      sample_generation_def Let_def)

lemma sample_paths:
  "run_files (sample_space pins) = Inr [''inputs/a'', ''inputs/b'']"
  "bound_sessions (sample_space pins) = Inr []"
  "class_for_relative ''inputs/a'' = DC_SOURCE_SNAPSHOT" "class_for_relative ''inputs/b'' = DC_SOURCE_SNAPSHOT"
  by (simp_all add: run_files_def run_exists_def sample_space_def safe_files_def is_link_file_def sorted_set_def char_defs
      bound_sessions_def class_for_relative_def path_top_def path_name_def begins_def named_classes_def Let_def)

lemma sample_targets: "workspace_targets ''delete-1'' (sample_space pins) = Inr [sample_target]"
proof -
  have "sorted_set [n, n] = [n]" for n by (simp add: sorted_set_def)
  then show ?thesis
    by (simp add: workspace_targets_def paths_for_class_def sample_paths sample_target_def Let_def) (simp add: sample_space_def)
qed

section \<open>Running the sample\<close>

abbreviation sample_run :: "hold_status \<Rightarrow> doc_path list \<Rightarrow> deletion_result res \<times> run_space" where
  "sample_run st pins \<equiv> delete_workspace_run sample_ref (Some sample_context) [''operations''] (Some (sample_outside st))
     ''delete-1'' DR_EXPLICIT False (sample_space pins)"

lemma delete_workspace_run_cases:
  assumes "delete_workspace_run ref ctx roots provider did reason dry w = (r, w')"
  obtains e where "r = Inl e" "w' = w"
    | env where "provider = Some env" "opaque (rs_name w)" "run_deletion (workspace_backend ref (rs_name w)) env did reason dry w = (r, w')"
  using assms by (cases provider) (auto simp: delete_workspace_run_def split: if_splits)

lemma delete_workspace_run_start:
  assumes "sc_scope_ref ctx = ''workspace''" "length (remdups roots) = 1" "opaque (rs_name w)"
  shows "delete_workspace_run ref (Some ctx) roots (Some env) did reason dry w
    = run_deletion (workspace_backend ref (rs_name w)) env did reason dry w"
  using assms by (cases roots) (simp_all add: delete_workspace_run_def)

lemma sample_name [simp]: "rs_name (sample_space pins) = ''run-1''"
  by (simp add: sample_space_def)

lemma sample_run_start:
  "sample_run st pins = run_deletion (workspace_backend sample_ref ''run-1'') (sample_outside st) ''delete-1'' DR_EXPLICIT False (sample_space pins)"
  using delete_workspace_run_start [of sample_context "[''operations'']" "sample_space pins"] sample_opaque_names
  by (simp add: sample_context_def)

lemma sample_unobstructed: "unobstructed (sample_space [])"
  by (simp add: unobstructed_def sample_space_def is_link_file_def plain_sessions_def fence_is_link_def)

lemma sample_classes: "run_classes (sample_space pins) = {DC_SOURCE_SNAPSHOT}"
  by (simp add: run_classes_def sample_space_def class_for_relative_def path_top_def path_name_def Let_def)

lemma sample_releases: "releases (sample_outside HS_RELEASE) ''run-1''"
  using sample_opaque_names
  by (simp add: releases_def sample_outside_def wf_hold_def hold_post_init_def sample_hold_def opaque_checks_def stamp_checks_def)

lemma sample_completes:
  obtains x w' where "sample_run HS_RELEASE [] = (Inr x, w')" "dx_state x = DS_COMPLETE"
    "rs_files w' = []" "run_documents w' \<noteq> run_documents (sample_space [])"
proof -
  have targets: "workspace_targets ''delete-1'' (sample_space []) = Inr (map (class_candidate ''run-1'' ''delete-1'') [DC_SOURCE_SNAPSHOT])"
    by (simp add: sample_targets sample_target_def class_candidate_def)
  have load: "workspace_load ''delete-1'' (sample_space []) = Inr None"
    by (simp add: workspace_load_def sample_opaque_names) (simp add: sample_space_def)
  obtain x w' where run: "sample_run HS_RELEASE [] = (Inr x, w')" and x: "dx_state x = DS_COMPLETE"
    using released_deletion_completes [OF sample_unobstructed sample_state, of DR_EXPLICIT "''delete-1''" "[DC_SOURCE_SNAPSHOT]"
        "sample_outside HS_RELEASE" None sample_ref] targets load sample_releases sample_opaque_names
    unfolding sample_run_start by (auto simp: deletable_def refs_distinct_def sample_classes)
  have "rs_files w' = []"
  proof -
    have "reports_complete (Inr x)" using x by simp
    from deletion_completion [OF run [unfolded sample_run_start] this, of None] load
    obtain q h s cs where "delete_released (workspace_backend sample_ref ''run-1'') (sample_outside HS_RELEASE) q h s None cs (sample_space []) = (Inr x, w')"
      by (auto simp: workspace_backend_def)
    from completion_leaves_nothing [OF this] x show ?thesis by simp
  qed
  then have "In_Run ''inputs/a'' \<notin> run_documents w'" by (auto simp: run_documents_def file_names_def)
  moreover have "In_Run ''inputs/a'' \<in> run_documents (sample_space [])"
    by (simp add: run_documents_def file_names_def sample_space_def)
  ultimately have "run_documents w' \<noteq> run_documents (sample_space [])" by metis
  with \<open>rs_files w' = []\<close> show thesis using that run x by blast
qed

text \<open>A file that cannot be unlinked stops the deletion half way.\<close>

abbreviation stuck_pins :: "doc_path list" where
  "stuck_pins \<equiv> [In_Run ''inputs/b'']"

definition sample_audit :: "target_record list \<Rightarrow> deletion_state \<Rightarrow> deletion_code \<Rightarrow> deletion_audit" where
  "sample_audit ts state code = \<lparr>
     au_id = ''delete-1'', au_scope_ref = ''workspace'', au_run_ref = ''run-1'', au_reason = DR_EXPLICIT,
     au_generation = sample_generation, au_authority_ref = ''legal-1'', au_hold_ref = ''decision-1'',
     au_requested_at = noon_text, au_updated_at = noon_text, au_retry = 1, au_state = state,
     au_outcome = state, au_code = code, au_targets = ts, au_anchors = [], au_identity = None, au_support = []\<rparr>"

lemma sample_audit_ok: "audit_post_init (sample_audit [t] state code) = Inr (sample_audit [t] state code)"
  unfolding audit_ok_iff by (simp add: sample_audit_def sample_opaque_names sample_generation_def)

definition sample_target_record :: "target_status \<Rightarrow> deletion_code \<Rightarrow> target_record" where
  "sample_target_record st code = \<lparr>tg_ref = cd_ref sample_target, tg_class = DC_SOURCE_SNAPSHOT, tg_status = st, tg_code = code\<rparr>"

abbreviation sample_request :: deletion_request where
  "sample_request \<equiv> \<lparr>dq_id = ''delete-1'', dq_scope_ref = ''workspace'', dq_run_ref = ''run-1'', dq_reason = DR_EXPLICIT,
     dq_requested_at = noon_text\<rparr>"

definition sample_backend_state :: backend_state where
  "sample_backend_state = \<lparr>bs_generation = sample_generation, bs_active = False, bs_terminal = True, bs_canceled = False, bs_anchors = []\<rparr>"

lemma sample_delete_released:
  "delete_released (workspace_backend ref ''run-1'') (sample_outside HS_RELEASE) sample_request (sample_hold HS_RELEASE)
     sample_backend_state None [sample_target] w
   = carry_out ref ''run-1'' (sample_outside HS_RELEASE) sample_request [sample_target]
       (sample_audit [sample_target_record TS_PLANNED RC_NONE] DS_IN_PROGRESS RC_NONE) w"
proof -
  let ?ts = "[sample_target_record TS_PLANNED RC_NONE]"
  have t: "target_post_init (planned_target sample_target) = Inr (sample_target_record TS_PLANNED RC_NONE)"
    by (simp add: target_post_init_def planned_target_def sample_target_def sample_target_record_def)
  let ?a = "(sample_audit ?ts DS_PLANNED RC_NONE)\<lparr>au_retry := 0\<rparr>"
  have f: "(fresh_audit sample_request sample_generation ''legal-1'' ''decision-1'' noon_text 0 DS_PLANNED RC_NONE)
      \<lparr>au_targets := ?ts, au_anchors := []\<rparr> = ?a"
    by (simp add: fresh_audit_def sample_audit_def)
  have ok: "audit_post_init ?a = Inr ?a"
    unfolding audit_ok_iff by (simp add: sample_audit_def sample_opaque_names sample_generation_def)
  have a: "started ?a (sample_hold HS_RELEASE) sample_backend_state noon_text = sample_audit ?ts DS_IN_PROGRESS RC_NONE"
    by (simp add: started_def sample_audit_def sample_hold_def sample_backend_state_def)
  have parts: "hd_authority_ref (sample_hold HS_RELEASE) = ''legal-1''" "hd_decision_ref (sample_hold HS_RELEASE) = ''decision-1''"
    "os_clock (sample_outside HS_RELEASE) n = noon_text" "au_targets ?a = ?ts" "au_support ?a = []"
    "tg_ref (sample_target_record s c) = cd_ref sample_target" "cd_class sample_target = DC_SOURCE_SNAPSHOT"
    "bs_generation sample_backend_state = sample_generation" "bs_anchors sample_backend_state = []"
    for n s c
    by (simp_all add: sample_hold_def sample_outside_def sample_audit_def sample_target_record_def sample_target_def sample_backend_state_def)
  show ?thesis
    unfolding delete_released_def carry_out_def
    by (simp add: t f parts ok with_targets_def with_support_def with_added_def a sample_audit_ok)
qed

text \<open>The run as the stopped deletion leaves it: fenced, one file gone, a partial audit.\<close>

definition stuck_space :: run_space where
  "stuck_space = (sample_space stuck_pins)
     \<lparr>rs_files := [(''inputs/b'', RF_File None)], rs_fence := Contents (fence_json (sample_space [])),
      rs_audits := [(''delete-1'', FileJson (audit_as_dict
        (sample_audit [sample_target_record TS_FAILED RC_TARGET_DELETE_FAILED] DS_PARTIAL RC_TARGET_DELETE_FAILED)))]\<rparr>"

definition started_space :: run_space where
  "started_space = (sample_space stuck_pins)
     \<lparr>rs_fence := Contents (fence_json (sample_space [])),
      rs_audits := [(''delete-1'', FileJson (audit_as_dict (sample_audit [sample_target_record TS_PLANNED RC_NONE] DS_IN_PROGRESS RC_NONE)))]\<rparr>"

definition halfway_space :: run_space where
  "halfway_space = started_space\<lparr>rs_files := [(''inputs/b'', RF_File None)]\<rparr>"

lemma sample_paths_class:
  assumes "rs_files w = rs_files (sample_space [])" "\<not> rs_is_link w" "rs_sessions w = SD_Missing"
  shows "paths_for_class DC_SOURCE_SNAPSHOT w = Inr [In_Run ''inputs/a'', In_Run ''inputs/b'']"
proof -
  have "run_files w = run_files (sample_space [])" using assms by (simp add: run_files_def run_exists_def sample_space_def)
  moreover have "bound_sessions w = Inr []" using assms by (simp add: bound_sessions_def)
  ultimately show ?thesis by (simp add: paths_for_class_def sample_paths)
qed

lemma sample_save_start: "workspace_save (sample_audit [sample_target_record TS_PLANNED RC_NONE] DS_IN_PROGRESS RC_NONE) (sample_space stuck_pins)
    = (Inr (), started_space)"
  by (simp add: workspace_save_def write_audit_def set_fence_def set_fence_file_def set_fence_state_def sample_audit_def
      sample_space_def started_space_def fence_json_def then_op_def)

lemma sample_stop: "workspace_delete sample_target [] at started_space = (Inl PyOSError, halfway_space)"
proof -
  have "paths_for_class DC_SOURCE_SNAPSHOT started_space = Inr [In_Run ''inputs/a'', In_Run ''inputs/b'']"
    by (rule sample_paths_class) (simp_all add: started_space_def sample_space_def)
  then show ?thesis
    by (simp add: workspace_delete_def sample_target_def then_op_def unlink_def)
      (simp add: started_space_def halfway_space_def sample_space_def)
qed

lemma sample_end: "workspace_save (sample_audit [sample_target_record TS_FAILED RC_TARGET_DELETE_FAILED] DS_PARTIAL RC_TARGET_DELETE_FAILED)
    halfway_space = (Inr (), stuck_space)"
  by (simp add: workspace_save_def write_audit_def set_fence_def set_fence_file_def set_fence_state_def sample_audit_def
      sample_space_def started_space_def halfway_space_def stuck_space_def fence_json_def then_op_def)

lemma sample_stuck:
  "\<exists>x. sample_run HS_RELEASE stuck_pins = (Inr x, stuck_space) \<and> dx_state x = DS_PARTIAL"
proof -
  let ?bk = "workspace_backend sample_ref ''run-1''" and ?env = "sample_outside HS_RELEASE"
  let ?planned = "sample_target_record TS_PLANNED RC_NONE" and ?failed = "sample_target_record TS_FAILED RC_TARGET_DELETE_FAILED"
  let ?active = "sample_audit [?planned] DS_IN_PROGRESS RC_NONE"
  let ?partial = "sample_audit [?failed] DS_PARTIAL RC_TARGET_DELETE_FAILED"
  have step: "target_step ?active [sample_target] ?planned = Attempt sample_target"
    by (simp add: target_step_def candidate_at_def sample_target_record_def never_adopted_def)
  have parts: "proofs_for ?active ?planned = []" "mark ?planned TS_FAILED RC_TARGET_DELETE_FAILED = ?failed"
    "au_targets ?active = [?planned]" "tg_status ?failed = TS_FAILED" "os_clock ?env n = noon_text"
    "ended ?active [?failed] noon_text DS_PARTIAL RC_TARGET_DELETE_FAILED = ?partial" for n
    by (simp_all add: proofs_for_def sample_target_record_def mark_def sample_audit_def sample_outside_def ended_def)
  have backend: "db_delete ?bk = workspace_delete" "db_save ?bk = workspace_save" "db_load ?bk = workspace_load"
    "db_lock ?bk = workspace_lock" "db_state ?bk = workspace_state sample_ref" "db_targets ?bk = workspace_targets"
    "db_scope_ref ?bk = ''workspace''" "db_run_ref ?bk = ''run-1''"
    by (simp_all add: workspace_backend_def)
  have flags: "\<not> bs_active sample_backend_state" "bs_terminal sample_backend_state" "hd_status (sample_hold st) = st" for st
    by (simp_all add: sample_backend_state_def sample_hold_def)
  have out: "carry_out sample_ref ''run-1'' ?env sample_request [sample_target] ?active (sample_space stuck_pins)
      = (Inr (result_of sample_request ?partial False), stuck_space)"
    unfolding carry_out_def finish_def
    by (simp add: backend sample_save_start parts step sample_stop sample_end save_and_report_def sample_audit_ok then_op_def
        sample_outside_def Let_def)
  have rel: "safe_hold (os_holds ?env n) ''workspace'' ''run-1'' = Inr (sample_hold HS_RELEASE)" for n
    by (simp add: sample_outside_def safe_hold_def sample_hold_def)
  have post: "deletion_request_post_init sample_request = Inr sample_request"
    by (simp add: deletion_request_post_init_def opaque_checks_def stamp_checks_def sample_opaque_names)
  have load: "workspace_load ''delete-1'' (sample_space stuck_pins) = Inr None"
    by (simp add: workspace_load_def sample_opaque_names) (simp add: sample_space_def)
  have lock: "workspace_lock (sample_space stuck_pins) = Inr ()" by (simp add: workspace_lock_def sample_space_def)
  have st: "workspace_state sample_ref (sample_space stuck_pins) = Inr sample_backend_state"
    by (simp add: sample_state sample_backend_state_def)
  have deletion: "run_deletion ?bk ?env ''delete-1'' DR_EXPLICIT False (sample_space stuck_pins)
    = (Inr (result_of sample_request ?partial False), stuck_space)"
    using out sample_delete_released [of sample_ref "sample_space stuck_pins"] load lock rel post st sample_targets
    by (simp add: run_deletion_def run_pending_def run_released_def backend parts flags)
  then show ?thesis unfolding sample_run_start by (simp add: result_of_def sample_audit_def)
qed

end
