(* ===== verification/Deletion_Properties.thy ===== *)
theory Deletion_Properties
  imports Deletion_Samples
begin

text \<open>
  What deleting a workspace run promises: files go only under a release, a half deleted run refuses
  writes, a deletion nothing stands in the way of completes and leaves nothing, and a completed one is
  reported again unchanged; and where the coordinator falls short of its fence.
\<close>

section \<open>Release\<close>

text \<open>
  C23: files of a run and session bindings go only when both answers of the legal-hold provider are a
  release for this run, the run may be deleted for the given reason, and it is not a dry run; a
  deletion never adds one.
\<close>

theorem files_go_only_under_release:
  assumes run: "delete_workspace_run ref ctx roots provider did reason dry w = (r, w')"
    and changed: "run_documents w' \<noteq> run_documents w"
  shows "\<not> dry \<and> run_documents w' \<subset> run_documents w
    \<and> (\<exists>env s. provider = Some env \<and> released_by env 0 ''workspace'' (rs_name w) \<and> released_by env 1 ''workspace'' (rs_name w)
        \<and> workspace_state ref w = Inr s \<and> deletable reason s)"
  using run
proof (cases rule: delete_workspace_run_cases)
  case (2 env)
  from ws.documents_go_only_under_release [OF 2(3) changed] ws.documents_never_appear [OF 2(3)] changed 2(1)
  show ?thesis by (auto simp: workspace_backend_def)
qed (use changed in simp)

theorem files_go_only_under_release_witness:
  "\<exists>r w'. sample_run HS_RELEASE [] = (r, w') \<and> run_documents w' \<subset> run_documents (sample_space [])"
proof -
  obtain x w' where run: "sample_run HS_RELEASE [] = (Inr x, w')" and changed: "run_documents w' \<noteq> run_documents (sample_space [])"
    by (rule sample_completes)
  from files_go_only_under_release [OF run changed] run show ?thesis by blast
qed

text \<open>
  A run on hold in the registry keeps its files, whoever asks for the deletion, for whatever
  reason and at whatever time: the hold set last is the answer of every later lookup.
\<close>

theorem held_run_keeps_its_files:
  assumes hold: "set_decision registry ''workspace'' (rs_name w) HS_HOLD given now = (Inr h, registry')"
    and provider: "\<And>n. os_holds env n = registry_answer registry' ''workspace'' (rs_name w) (time n)"
    and run: "delete_workspace_run ref ctx roots (Some env) did reason dry w = (r, w')"
  shows "run_documents w' = run_documents w"
proof (rule ccontr)
  assume changed: "run_documents w' \<noteq> run_documents w"
  have "hd_status h = HS_HOLD" "hr_decisions registry' = AList.update (''workspace'', rs_name w) h (hr_decisions registry)"
    using hold by (auto simp: set_decision_def Let_def hold_post_init_def bind_res_Inr_iff split: if_splits sum.splits)
  then have "registry_answer registry' ''workspace'' (rs_name w) (time 0) \<in> {Hold_Raises, Hold_Decision h}"
    by (auto simp: registry_answer_def registry_lookup_def update_conv' split: sum.splits)
  with \<open>hd_status h = HS_HOLD\<close> have "\<not> released_by env 0 ''workspace'' (rs_name w)"
    by (auto simp: released_by_def provider safe_hold_def split: if_splits)
  moreover from run obtain "released_by env 0 ''workspace'' (rs_name w)"
  proof (cases rule: delete_workspace_run_cases)
    case (2 env')
    from ws.documents_go_only_under_release [OF 2(3) changed] 2(1) that show ?thesis by (simp add: workspace_backend_def)
  qed (use changed in simp)
  ultimately show False by blast
qed

definition sample_registry :: hold_registry where
  "sample_registry = \<lparr>hr_default = HS_RELEASE, hr_authority = ''legal-1'', hr_decisions = [], hr_revision = 0\<rparr>"

theorem held_run_keeps_its_files_witness:
  "\<exists>h registry'. set_decision sample_registry ''workspace'' ''run-1'' HS_HOLD (Some ''decision-1'') noon_text = (Inr h, registry')
     \<and> run_documents (snd (delete_workspace_run sample_ref (Some sample_context) [''operations'']
          (Some ((sample_outside HS_RELEASE)\<lparr>os_holds := (\<lambda>_. registry_answer registry' ''workspace'' ''run-1'' noon_text)\<rparr>))
          ''delete-1'' DR_EXPLICIT False (sample_space []))) = run_documents (sample_space [])"
proof -
  obtain h registry' where hold: "set_decision sample_registry ''workspace'' ''run-1'' HS_HOLD (Some ''decision-1'') noon_text = (Inr h, registry')"
    using sample_opaque_names by (simp add: set_decision_def sample_registry_def hold_post_init_def opaque_checks_def stamp_checks_def Let_def)
  let ?env = "(sample_outside HS_RELEASE)\<lparr>os_holds := (\<lambda>_. registry_answer registry' ''workspace'' ''run-1'' noon_text)\<rparr>"
  obtain r w' where run: "delete_workspace_run sample_ref (Some sample_context) [''operations''] (Some ?env)
      ''delete-1'' DR_EXPLICIT False (sample_space []) = (r, w')" by fastforce
  have "run_documents w' = run_documents (sample_space [])"
    by (rule held_run_keeps_its_files [OF _ _ run, of sample_registry "Some ''decision-1''" noon_text h registry' "\<lambda>_. noon_text"])
      (use hold in simp_all)
  with hold run show ?thesis by auto
qed

text \<open>
  A dry run changes nothing, with one exception: for an explicit deletion of an active run it
  requests the cancellation of the job.
\<close>

theorem dry_run_changes_nothing:
  assumes run: "delete_workspace_run ref ctx roots provider did reason True w = (r, w')"
  shows "w' = w \<or> (reason = DR_EXPLICIT \<and> (\<exists>s. workspace_state ref w = Inr s \<and> bs_active s)
    \<and> (\<exists>t1 t2 x. workspace_cancel ref t1 t2 w = (x, w')))"
  using run
proof (cases rule: delete_workspace_run_cases)
  case (2 env)
  from dry_deletion [OF 2(3)] show ?thesis by (auto simp: cancels_def workspace_backend_def)
qed simp

theorem dry_run_changes_nothing_witness:
  "snd (delete_workspace_run sample_ref (Some sample_context) [''operations''] (Some (sample_outside HS_RELEASE))
     ''delete-1'' DR_EXPLICIT True (sample_space [])) = sample_space []"
proof -
  obtain r w' where run: "delete_workspace_run sample_ref (Some sample_context) [''operations''] (Some (sample_outside HS_RELEASE))
     ''delete-1'' DR_EXPLICIT True (sample_space []) = (r, w')" by fastforce
  from dry_run_changes_nothing [OF run] run show ?thesis by (simp add: sample_state)
qed

section \<open>The fence\<close>

text \<open>
  C24: a deletion that removed files and did not report completion leaves the run fenced: the write
  barrier refuses every later mutation of the run, also when the deletion ended in an exception.
\<close>

theorem half_deleted_run_is_fenced:
  assumes run: "delete_workspace_run ref ctx roots provider did reason dry w = (r, w')"
    and changed: "run_documents w' \<noteq> run_documents w"
  shows "reports_complete r \<or> \<not> is_ok (workspace_mutation_guard (workspace_of w'))"
  using run
proof (cases rule: delete_workspace_run_cases)
  case (2 env)
  from ws.half_deleted_is_fenced [OF 2(3) changed] run_fenced_refuses show ?thesis by blast
qed (use changed in simp)

theorem half_deleted_run_is_fenced_witness:
  "\<exists>x. sample_run HS_RELEASE stuck_pins = (Inr x, stuck_space) \<and> run_documents stuck_space \<noteq> run_documents (sample_space stuck_pins)
     \<and> \<not> is_ok (workspace_mutation_guard (workspace_of stuck_space))"
proof -
  obtain x where run: "sample_run HS_RELEASE stuck_pins = (Inr x, stuck_space)" and x: "dx_state x = DS_PARTIAL"
    using sample_stuck by blast
  have "In_Run ''inputs/a'' \<notin> run_documents stuck_space" "In_Run ''inputs/a'' \<in> run_documents (sample_space stuck_pins)"
    by (auto simp: run_documents_def file_names_def stuck_space_def sample_space_def)
  then have changed: "run_documents stuck_space \<noteq> run_documents (sample_space stuck_pins)" by metis
  from half_deleted_run_is_fenced [OF run changed] x run changed show ?thesis by simp
qed

lemma set_fence_down:
  assumes "rs_fences_safe w" "\<not> fence_is_link (rs_fence w)" "In_Fences \<notin> set (rs_pinned w)"
    and "map_of (rs_files w) ''RUN_STATE.json'' = None"
  shows "set_fence False w = (Inr (), w\<lparr>rs_fence := Absent\<rparr>)"
  using assms
  by (cases "rs_fence w") (simp_all add: set_fence_def then_op_def set_fence_file_def set_fence_state_def fence_is_link_def)

lemma held_audit_ok:
  assumes "audit_post_init a = Inr a" "wf_hold h" "matches_timestamp now"
  shows "audit_post_init ((block a now code)\<lparr>au_authority_ref := hd_authority_ref h, au_hold_ref := hd_decision_ref h\<rparr>)
    = Inr ((block a now code)\<lparr>au_authority_ref := hd_authority_ref h, au_hold_ref := hd_decision_ref h\<rparr>)"
  using assms hold_ok [OF assms(2)] unfolding audit_ok_iff by (simp add: block_def)


definition stuck_audit :: deletion_audit where
  "stuck_audit = sample_audit [sample_target_record TS_FAILED RC_TARGET_DELETE_FAILED] DS_PARTIAL RC_TARGET_DELETE_FAILED"

lemma sample_audit_wf: "wf_audit (sample_audit [sample_target_record st c] state code)"
  using sample_audit_ok [of "sample_target_record st c" state code]
  by (simp add: wf_audit_def) (simp add: sample_audit_def sample_target_record_def sample_target_def wf_target_def anchors_json_def sort_fields_def)

lemma stuck_loaded: "workspace_load ''delete-1'' stuck_space = Inr (Some stuck_audit)"
  using audit_round_trip [OF sample_audit_wf]
  by (simp add: workspace_load_def sample_opaque_names stuck_audit_def) (simp add: stuck_space_def read_audit_def)


end
