(* ===== verification/Deletion_Outcomes.thy ===== *)
theory Deletion_Outcomes
  imports Deletion_Properties
begin

text \<open>
  How deletions end: completion of a released deletion and of a retry, what completion leaves, the
  replay of a completed deletion, and the audit as the record of it all.
\<close>

section \<open>Completion\<close>

lemma plan_of_targets:
  assumes "unobstructed w" "workspace_targets did w = Inr cs" "distinct (map cd_ref cs)"
  obtains ds where "cs = map (class_candidate (rs_name w) did) ds" "refs_distinct (rs_name w) did (set ds)"
proof -
  obtain ds where ds: "workspace_targets did w = Inr (map (class_candidate (rs_name w) did) ds)"
    by (rule targets_shape [OF assms(1)])
  then have cs: "cs = map (class_candidate (rs_name w) did) ds" using assms(2) by simp
  then have "map cd_ref cs = map (target_ref ''workspace'' (rs_name w) did) ds" by (simp add: class_candidate_def)
  with assms(3) have "refs_distinct (rs_name w) did (set ds)" by (simp add: refs_distinct_def distinct_map)
  with cs show thesis by (rule that)
qed

text \<open>
  C25: a first deletion of a run that may be deleted completes when nothing stands in its way: both
  hold answers release it, no path is a link, every file can be unlinked, it holds no support content
  and its target references differ.
\<close>

theorem released_run_is_deleted:
  assumes free: "unobstructed w" and state: "workspace_state ref w = Inr s" "deletable reason s"
    and first: "map_of (rs_audits w) did = None"
    and targets: "workspace_targets did w = Inr cs" "distinct (map cd_ref cs)" "DC_SUPPORT_CONTENT \<notin> run_classes w"
    and env: "releases env (rs_name w)"
    and names: "opaque did" "opaque (rs_name w)" "sc_scope_ref ctx = ''workspace''" "length (remdups roots) = 1"
  shows "\<exists>x w'. delete_workspace_run ref (Some ctx) roots (Some env) did reason False w = (Inr x, w') \<and> dx_state x = DS_COMPLETE"
proof -
  obtain ds where ds: "cs = map (class_candidate (rs_name w) did) ds" "refs_distinct (rs_name w) did (set ds)"
    by (rule plan_of_targets [OF free targets(1,2)])
  have load: "workspace_load did w = Inr None" using first names by (simp add: workspace_load_def)
  show ?thesis
    using released_deletion_completes [OF free state ds(2) targets(3) names(1,2) env targets(1) [unfolded ds(1)] load]
      delete_workspace_run_start [OF names(3,4,2)] by simp
qed

theorem released_run_is_deleted_witness:
  "\<exists>x w'. sample_run HS_RELEASE [] = (Inr x, w') \<and> dx_state x = DS_COMPLETE"
proof -
  have "map_of (rs_audits (sample_space [])) ''delete-1'' = None" by (simp add: sample_space_def)
  from released_run_is_deleted [OF sample_unobstructed sample_state _ this sample_targets, of DR_EXPLICIT "sample_outside HS_RELEASE"
      sample_context "[''operations'']" sample_ref]
  show ?thesis using sample_releases sample_opaque_names by (simp add: deletable_def sample_classes sample_context_def)
qed


definition freed_space :: run_space where
  "freed_space = stuck_space\<lparr>rs_pinned := []\<rparr>"

lemma freed_targets: "workspace_targets ''delete-1'' freed_space = Inr [sample_target]"
proof -
  have "run_files freed_space = Inr [''inputs/b'']"
    by (simp add: run_files_def run_exists_def freed_space_def stuck_space_def sample_space_def safe_files_def is_link_file_def sorted_set_def)
  moreover have "bound_sessions freed_space = Inr []" "rs_name freed_space = ''run-1''"
    by (simp_all add: bound_sessions_def freed_space_def stuck_space_def sample_space_def)
  ultimately show ?thesis
    by (simp add: workspace_targets_def paths_for_class_def sample_paths sample_target_def Let_def sorted_set_def)
qed




section \<open>The record of a deletion\<close>

text \<open>
  C28: asking again for a deletion that completed at its first attempt gives the same outcome and
  targets and changes nothing, whatever the legal-hold provider says by then and whether or not it is
  a dry run.
\<close>

theorem completed_deletion_is_replayed:
  assumes run: "delete_workspace_run ref (Some ctx) roots (Some env) did reason False w = (Inr x, w')"
    and complete: "dx_state x = DS_COMPLETE" and first: "map_of (rs_audits w) did = None"
    and again: "sc_scope_ref ctx2 = ''workspace''" "length (remdups roots2) = 1" "matches_timestamp (os_clock env2 0)"
  shows "delete_workspace_run ref (Some ctx2) roots2 (Some env2) did reason dry2 w'
    = (Inr (x\<lparr>dx_request := \<lparr>dq_id = did, dq_scope_ref = ''workspace'', dq_run_ref = rs_name w, dq_reason = reason,
        dq_requested_at = os_clock env2 0\<rparr>, dx_dry_run := dry2\<rparr>), w')"
  using run
proof (cases rule: delete_workspace_run_cases)
  case (2 env')
  have "opaque did"
  proof (rule ccontr)
    assume "\<not> opaque did"
    with 2(3) show False by (simp add: run_deletion_def deletion_request_post_init_def opaque_checks_def)
  qed
  then have "workspace_load did w = Inr None" using first by (simp add: workspace_load_def)
  from completion_replays [OF 2(3) complete this again(3)]
  have replay: "run_deletion (workspace_backend ref (rs_name w)) env2 did reason dry2 w'
    = (Inr (x\<lparr>dx_request := \<lparr>dq_id = did, dq_scope_ref = ''workspace'', dq_run_ref = rs_name w, dq_reason = reason,
        dq_requested_at = os_clock env2 0\<rparr>, dx_dry_run := dry2\<rparr>), w')" .
  have "rs_name w' = rs_name w" using place.documents_never_appear [OF 2(3)] by (simp add: run_place_def)
  with replay delete_workspace_run_start [OF again(1,2), of w'] 2(2) show ?thesis by simp
qed simp

theorem completed_deletion_is_replayed_witness:
  "\<exists>x w'. sample_run HS_RELEASE [] = (Inr x, w') \<and> dx_state x = DS_COMPLETE
     \<and> snd (delete_workspace_run sample_ref (Some sample_context) [''operations''] (Some (sample_outside HS_HOLD))
         ''delete-1'' DR_EXPLICIT False w') = w'"
proof -
  obtain x w' where run: "sample_run HS_RELEASE [] = (Inr x, w')" and x: "dx_state x = DS_COMPLETE" by (rule sample_completes)
  have first: "map_of (rs_audits (sample_space [])) ''delete-1'' = None" by (simp add: sample_space_def)
  from completed_deletion_is_replayed [OF run x first, of sample_context "[''operations'']" "sample_outside HS_HOLD" False] run x sample_opaque_names
  show ?thesis by (auto simp: sample_context_def sample_outside_def)
qed

text \<open>
  An audit is in its file as soon as saving it was tried, whole: the next deletion reads exactly
  this audit back, also when the fence could not be written after it.
\<close>

theorem saved_audit_is_read_back:
  assumes "wf_audit a" and "workspace_save a w = (r, w')"
  shows "workspace_load (au_id a) w' = Inr (Some a)"
proof -
  have state: "set_fence_state b w1 = (q, w2) \<Longrightarrow> rs_audits w2 = rs_audits w1" for b w1 q w2
    by (auto simp: set_fence_state_def set_file_def Let_def split: option.splits run_file.splits json.splits if_splits)
  have fence: "set_fence b w1 = (q, w2) \<Longrightarrow> rs_audits w2 = rs_audits w1" for b w1 q w2
    unfolding set_fence_def by (elim then_op_split) (auto dest!: state set_fence_file_effect)
  have "rs_audits w' = AList.update (au_id a) (FileJson (audit_as_dict a)) (rs_audits w)"
    using assms(2) unfolding workspace_save_def by (elim then_op_split) (auto simp: write_audit_def dest!: fence)
  moreover have "opaque (au_id a)" using assms(1) unfolding wf_audit_def audit_ok_iff by simp
  ultimately show ?thesis
    using audit_round_trip [OF assms(1)] by (simp add: workspace_load_def read_audit_def update_conv')
qed

theorem saved_audit_is_read_back_witness:
  "workspace_load ''delete-1'' (snd (workspace_save stuck_audit (sample_space []))) = Inr (Some stuck_audit)"
proof -
  obtain r w' where save: "workspace_save stuck_audit (sample_space []) = (r, w')" by fastforce
  from saved_audit_is_read_back [OF sample_audit_wf save [unfolded stuck_audit_def]] save
  show ?thesis by (simp add: stuck_audit_def sample_audit_def)
qed


definition finished_space :: run_space where
  "finished_space = stuck_space\<lparr>rs_files := [], rs_pinned := [In_Fences]\<rparr>"


end
