(* ===== verification/Support_Grants.thy ===== *)
theory Support_Grants
  imports Support_Log
begin

text \<open>
  Who may see which content (\<open>src/k_slide/content_support.py\<close>): the authorization decision a
  deployment issues for one run, the selections of a support request, the request itself with its
  checks, the reference authority, and the check of a request against the authority's current
  answer. The authority is asked again at every check: its n-th answer and the n-th clock reading are
  arguments.
\<close>

section \<open>Classes and their paths\<close>

definition artifact_for_class :: "support_class \<Rightarrow> storage_artifact" where
  "artifact_for_class c = (case c of
       SC_SOURCE_SNAPSHOT \<Rightarrow> ST_SOURCE_SNAPSHOT | SC_NORMALIZED_RENDER \<Rightarrow> ST_NORMALIZED_RENDER
     | SC_NATIVE_EXTRACTION \<Rightarrow> ST_NATIVE_EXTRACTION | SC_REGION_CROP \<Rightarrow> ST_REGION_CROP
     | SC_OCR_METADATA \<Rightarrow> ST_OCR_METADATA | SC_EVIDENCE_IR \<Rightarrow> ST_EVIDENCE_IR
     | SC_TRANSLATION_PATCH \<Rightarrow> ST_TRANSLATION_PATCH | SC_CANONICAL_IR \<Rightarrow> ST_CANONICAL_IR
     | SC_REPORT \<Rightarrow> ST_REPORT)"

definition content_artifacts :: "storage_artifact list" where
  "content_artifacts = map (artifact_for_class \<circ> snd) support_class_values"

definition path_matches_class :: "support_class \<Rightarrow> string \<Rightarrow> bool" where
  "path_matches_class c path =
     (let parts = split_at (CHR ''/'') path; top = hd parts; name = last parts; n = length parts in
      case c of
        SC_SOURCE_SNAPSHOT \<Rightarrow> top = ''inputs'' \<and> 2 \<le> n
      | SC_NORMALIZED_RENDER \<Rightarrow> top = ''normalized'' \<and> 2 \<le> n
          \<and> name \<notin> set [''DOCUMENT_MANIFEST.json'', ''NORMALIZATION_ERROR.json'']
      | SC_NATIVE_EXTRACTION \<Rightarrow> top = ''native'' \<and> 2 \<le> n
      | SC_REGION_CROP \<Rightarrow> top = ''regions'' \<and> 3 \<le> n
      | SC_OCR_METADATA \<Rightarrow> path = ''OCR_METADATA.json''
      | SC_EVIDENCE_IR \<Rightarrow> top = ''evidence'' \<and> 2 \<le> n
      | SC_TRANSLATION_PATCH \<Rightarrow> top = ''translations'' \<and> 2 \<le> n
      | SC_CANONICAL_IR \<Rightarrow> (top = ''ir'' \<and> 2 \<le> n) \<or> path = ''CONFLICT_REGISTRY.json''
      | SC_REPORT \<Rightarrow> n = 1 \<and> (take 3 name = ''05_'' \<or> take 3 name = ''07_''))"

section \<open>Decisions\<close>

datatype grant_status = GS_APPROVED | GS_DENIED | GS_REVOKED

definition grant_values :: "(string \<times> grant_status) list" where
  "grant_values = [(''APPROVED'', GS_APPROVED), (''DENIED'', GS_DENIED), (''REVOKED'', GS_REVOKED)]"

lemma member_of_grant [simp]: "member_of grant_values (JStr (value_in grant_values x)) = Inr x"
  by (cases x) (simp_all add: member_of_def grant_values_def)

record support_grant =
  gt_request_ref :: string
  gt_context :: scope_context
  gt_run_ref :: string
  gt_subject_ref :: string
  gt_role_ref :: string
  gt_capability_ref :: string
  gt_purpose :: support_purpose
  gt_authority_ref :: string
  gt_decision_ref :: string
  gt_approvals :: "support_approval list"
  gt_allowed :: "support_class list"
  gt_references :: "storage_reference list"
  gt_issued_at :: string
  gt_not_before_at :: string
  gt_expires_at :: string
  gt_status :: grant_status

definition reference_key :: "storage_reference \<Rightarrow> storage_artifact \<times> string" where
  "reference_key r = (sg_artifact r, sg_path r)"

definition in_run :: "support_grant \<Rightarrow> storage_reference \<Rightarrow> bool" where
  "in_run g r \<longleftrightarrow> sg_scope_ref r = Some (sc_scope_ref (gt_context g)) \<and> sg_run_ref r = Some (gt_run_ref g)"

definition grant_reference_checks :: "support_grant \<Rightarrow> storage_reference \<Rightarrow> (bool \<times> err) list" where
  "grant_reference_checks g r = [
     (sg_plane r \<noteq> PL_DURABLE, support_invalid),
     (\<not> in_run g r, conflict),
     (sg_artifact r \<notin> set content_artifacts, support_invalid)]"

definition window_ordered :: "support_grant \<Rightarrow> bool" where
  "window_ordered g \<longleftrightarrow>
     (case (support_time (gt_issued_at g), support_time (gt_not_before_at g), support_time (gt_expires_at g)) of
        (Some i, Some n, Some e) \<Rightarrow> i \<le> n \<and> n < e
      | _ \<Rightarrow> False)"

definition grant_checks :: "support_grant \<Rightarrow> (bool \<times> err) list" where
  "grant_checks g =
     identity_checks (context_names (gt_context g))
     @ identity_checks [gt_request_ref g, gt_run_ref g, gt_subject_ref g, gt_role_ref g, gt_capability_ref g,
         gt_authority_ref g, gt_decision_ref g]
     @ [(gt_approvals g = [], support_invalid),
        (\<not> distinct (map av_ref (gt_approvals g)), support_invalid),
        (\<not> distinct (gt_allowed g), support_invalid),
        (gt_allowed g = [] \<and> gt_references g = [], support_invalid)]
     @ concat (map (grant_reference_checks g) (gt_references g))
     @ [(\<not> distinct (map reference_key (gt_references g)), support_invalid)]
     @ time_checks [gt_issued_at g, gt_not_before_at g, gt_expires_at g]
     @ [(\<not> window_ordered g, support_invalid)]"

definition grant_post_init :: "support_grant \<Rightarrow> support_grant res" where
  "grant_post_init g = bind_res (guards (grant_checks g)) (\<lambda>_. Inr g)"

definition grant_fields :: "support_grant \<Rightarrow> (string \<times> json) list" where
  "grant_fields g = [
     (''contract_version'', JStr ''1.0''),
     (''access_request_ref'', JStr (gt_request_ref g)),
     (''scope_context'', scope_context_as_dict (gt_context g)),
     (''run_ref'', JStr (gt_run_ref g)),
     (''support_subject_ref'', JStr (gt_subject_ref g)),
     (''support_role_ref'', JStr (gt_role_ref g)),
     (''support_capability_ref'', JStr (gt_capability_ref g)),
     (''purpose'', JStr (value_in purpose_values (gt_purpose g))),
     (''authority_ref'', JStr (gt_authority_ref g)),
     (''decision_ref'', JStr (gt_decision_ref g)),
     (''approvals'', approvals_json (gt_approvals g)),
     (''allowed_artifact_classes'', classes_json (gt_allowed g)),
     (''allowed_references'', JArr (map reference_as_dict (gt_references g))),
     (''issued_at'', JStr (gt_issued_at g)),
     (''not_before_at'', JStr (gt_not_before_at g)),
     (''expires_at'', JStr (gt_expires_at g)),
     (''status'', JStr (value_in grant_values (gt_status g)))]"

definition grant_as_dict :: "support_grant \<Rightarrow> json" where
  "grant_as_dict g = JObj (grant_fields g)"

definition grant_names :: "string list" where
  "grant_names = [''contract_version'', ''access_request_ref'', ''scope_context'', ''run_ref'', ''support_subject_ref'',
     ''support_role_ref'', ''support_capability_ref'', ''purpose'', ''authority_ref'', ''decision_ref'', ''approvals'',
     ''allowed_artifact_classes'', ''allowed_references'', ''issued_at'', ''not_before_at'', ''expires_at'', ''status'']"

definition references_from :: "json \<Rightarrow> storage_reference list res" where
  "references_from v = bind_res (json_items v) (map_res reference_from_dict)"

definition grant_from_fields :: "(string \<times> json) list \<Rightarrow> support_grant res" where
  "grant_from_fields kvs =
     bind_res (scope_context_from_dict (field_or JNull ''scope_context'' kvs)) (\<lambda>ctx.
     bind_res (member_of purpose_values (field_or JNull ''purpose'' kvs)) (\<lambda>purpose.
     bind_res (approvals_from (field_or JNull ''approvals'' kvs)) (\<lambda>approvals.
     bind_res (classes_from (field_or JNull ''allowed_artifact_classes'' kvs)) (\<lambda>allowed.
     bind_res (references_from (field_or JNull ''allowed_references'' kvs)) (\<lambda>references.
     bind_res (member_of grant_values (field_or JNull ''status'' kvs)) (\<lambda>status.
       if field_or JNull ''contract_version'' kvs \<noteq> JStr ''1.0'' then Inl support_invalid
       else grant_post_init \<lparr>
         gt_request_ref = raw_str (field_or JNull ''access_request_ref'' kvs), gt_context = ctx,
         gt_run_ref = raw_str (field_or JNull ''run_ref'' kvs),
         gt_subject_ref = raw_str (field_or JNull ''support_subject_ref'' kvs),
         gt_role_ref = raw_str (field_or JNull ''support_role_ref'' kvs),
         gt_capability_ref = raw_str (field_or JNull ''support_capability_ref'' kvs), gt_purpose = purpose,
         gt_authority_ref = raw_str (field_or JNull ''authority_ref'' kvs),
         gt_decision_ref = raw_str (field_or JNull ''decision_ref'' kvs), gt_approvals = approvals,
         gt_allowed = allowed, gt_references = references,
         gt_issued_at = raw_str (field_or JNull ''issued_at'' kvs),
         gt_not_before_at = raw_str (field_or JNull ''not_before_at'' kvs),
         gt_expires_at = raw_str (field_or JNull ''expires_at'' kvs), gt_status = status\<rparr>))))))"

definition grant_from_dict :: "json \<Rightarrow> support_grant res" where
  "grant_from_dict v =
     (case v of
        JObj kvs \<Rightarrow>
          if keys_of kvs \<noteq> set grant_names
             \<or> \<not> list_all (\<lambda>n. json_array (field_or JNull n kvs))
                  [''approvals'', ''allowed_references'', ''allowed_artifact_classes'']
          then Inl support_invalid
          else catch_as SUPPORT_AUTHORIZATION_INVALID (grant_from_fields kvs)
      | _ \<Rightarrow> Inl support_invalid)"

definition wf_grant :: "support_grant \<Rightarrow> bool" where
  "wf_grant g \<longleftrightarrow> grant_post_init g = Inr g \<and> wf_context (gt_context g) \<and> list_all wf_approval (gt_approvals g)
     \<and> list_all wf_reference (gt_references g)"

section \<open>Selections and requests\<close>

record support_selection =
  se_class :: support_class
  se_reference :: storage_reference

definition selection_post_init :: "support_selection \<Rightarrow> support_selection res" where
  "selection_post_init x = bind_res (guards [
     (sg_plane (se_reference x) \<noteq> PL_DURABLE, support_invalid),
     (sg_artifact (se_reference x) \<noteq> artifact_for_class (se_class x), support_invalid),
     (\<not> path_matches_class (se_class x) (sg_path (se_reference x)), KSlideError PATH_OUTSIDE_ALLOWED_ROOT)])
     (\<lambda>_. Inr x)"

record support_request =
  bq_grant :: support_grant
  bq_selections :: "support_selection list"

definition selection_granted :: "support_grant \<Rightarrow> support_selection \<Rightarrow> bool" where
  "selection_granted g x \<longleftrightarrow> se_class x \<in> set (gt_allowed g)
     \<or> reference_key (se_reference x) \<in> set (map reference_key (gt_references g))"

fun selection_checks ::
  "support_grant \<Rightarrow> (storage_artifact \<times> string) list \<Rightarrow> support_selection list \<Rightarrow> (bool \<times> err) list"
where
  "selection_checks g seen [] = []"
| "selection_checks g seen (x # xs) =
     [(\<not> in_run g (se_reference x), conflict),
      (\<not> selection_granted g x, KSlideError SUPPORT_AUTHORIZATION_DENIED),
      (reference_key (se_reference x) \<in> set seen, support_invalid)]
     @ selection_checks g (reference_key (se_reference x) # seen) xs"

definition bundle_request_post_init :: "support_request \<Rightarrow> support_request res" where
  "bundle_request_post_init q = bind_res (guards (
     [(bq_selections q = [] \<or> 512 < length (bq_selections q), support_invalid)]
     @ selection_checks (bq_grant q) [] (bq_selections q))) (\<lambda>_. Inr q)"

definition wf_selection :: "support_selection \<Rightarrow> bool" where
  "wf_selection x \<longleftrightarrow> selection_post_init x = Inr x \<and> wf_reference (se_reference x)"

definition wf_bundle_request :: "support_request \<Rightarrow> bool" where
  "wf_bundle_request q \<longleftrightarrow> bundle_request_post_init q = Inr q \<and> wf_grant (bq_grant q) \<and> list_all wf_selection (bq_selections q)"

section \<open>The reference authority\<close>

type_synonym grant_key = "string \<times> string \<times> string \<times> string"

definition grant_key :: "support_grant \<Rightarrow> grant_key" where
  "grant_key g = (gt_request_ref g, sc_scope_ref (gt_context g), gt_run_ref g, gt_decision_ref g)"

type_synonym grant_registry = "(grant_key \<times> support_grant) list"

definition add_grant :: "support_grant \<Rightarrow> grant_registry \<Rightarrow> grant_registry" where
  "add_grant g r = AList.update (grant_key g) g r"

definition revoke_grant :: "string \<Rightarrow> grant_registry \<Rightarrow> grant_registry res" where
  "revoke_grant decision r =
     (case filter (\<lambda>kg. snd (snd (snd (fst kg))) = decision) r of
        [kg] \<Rightarrow> bind_res (grant_post_init ((snd kg)\<lparr>gt_status := GS_REVOKED\<rparr>)) (\<lambda>g.
                 Inr (AList.update (fst kg) g r))
      | _ \<Rightarrow> Inl support_invalid)"

text \<open>The lookup may raise, or give something that is no decision.\<close>

datatype authority_answer = Lookup_Raises | Lookup_Foreign | Lookup_Grant support_grant

definition resolve_grant :: "grant_registry \<Rightarrow> grant_key \<Rightarrow> authority_answer" where
  "resolve_grant r k = (case map_of r k of None \<Rightarrow> Lookup_Raises | Some g \<Rightarrow> Lookup_Grant g)"

section \<open>Asking the authority\<close>

record support_authority =
  ay_production :: bool
  ay_resolve :: "nat \<Rightarrow> grant_key \<Rightarrow> authority_answer"
  ay_clock :: "nat \<Rightarrow> utc"

abbreviation authority_unavailable :: err where
  "authority_unavailable \<equiv> KSlideError SUPPORT_AUTHORITY_UNAVAILABLE"

abbreviation support_denied :: err where
  "support_denied \<equiv> KSlideError SUPPORT_AUTHORIZATION_DENIED"

definition decision_binding :: "support_grant \<Rightarrow> (string \<times> json) list" where
  "decision_binding g = without_key ''status'' (grant_fields g)"

definition provider_decision :: "support_authority \<Rightarrow> bool \<Rightarrow> support_request \<Rightarrow> nat \<Rightarrow> support_grant res" where
  "provider_decision au production q n =
     (if production \<and> \<not> ay_production au then Inl authority_unavailable
      else case ay_resolve au n (grant_key (bq_grant q)) of
        Lookup_Grant g \<Rightarrow>
          if decision_binding g \<noteq> decision_binding (bq_grant q) then Inl authority_unavailable else Inr g
      | _ \<Rightarrow> Inl authority_unavailable)"

text \<open>\<open>_authorize\<close>, with the clock reading of the check.\<close>

definition grant_times :: "support_grant \<Rightarrow> (utc \<times> utc \<times> utc) res" where
  "grant_times g =
     (case (support_time (gt_issued_at g), support_time (gt_not_before_at g), support_time (gt_expires_at g)) of
        (Some i, Some n, Some e) \<Rightarrow> Inr (i, n, e)
      | _ \<Rightarrow> Inl support_invalid)"

definition authorize :: "support_authority \<Rightarrow> bool \<Rightarrow> support_request \<Rightarrow> nat \<Rightarrow> support_grant res" where
  "authorize au production q n =
     bind_res (provider_decision au production q n) (\<lambda>g.
       case gt_status g of
         GS_DENIED \<Rightarrow> Inl support_denied
       | GS_REVOKED \<Rightarrow> Inl (KSlideError SUPPORT_AUTHORIZATION_REVOKED)
       | GS_APPROVED \<Rightarrow>
           bind_res (grant_times g) (\<lambda>(issued, not_before, expires).
             if ay_clock au n < issued \<or> ay_clock au n < not_before then Inl support_denied
             else if expires \<le> ay_clock au n then Inl (KSlideError SUPPORT_AUTHORIZATION_EXPIRED)
             else if list_ex (\<lambda>a. av_status a \<noteq> AS_APPROVED) (gt_approvals g) then Inl support_denied
             else Inr g))"

text \<open>\<open>_failure_lifecycle\<close>.\<close>

definition failure_lifecycle :: "err \<Rightarrow> access_lifecycle \<times> access_result" where
  "failure_lifecycle e =
     (if e = KSlideError SUPPORT_AUTHORIZATION_EXPIRED then (AL_EXPIRED, AR_EXPIRED)
      else if e = KSlideError SUPPORT_AUTHORIZATION_REVOKED then (AL_REVOKED, AR_REVOKED)
      else (AL_DENIED, AR_DENIED))"

section \<open>Laws\<close>

lemma grant_post_init_same: "grant_post_init g = Inr h \<Longrightarrow> h = g"
  by (auto simp: grant_post_init_def bind_res_Inr_iff)

lemma references_round_trip [simp]:
  "list_all wf_reference rs \<Longrightarrow> references_from (JArr (map reference_as_dict rs)) = Inr rs"
  by (simp add: references_from_def) (rule map_res_map [where h = id, simplified], simp add: list_all_iff)

theorem grant_round_trip:
  assumes "wf_grant g"
  shows "grant_from_dict (grant_as_dict g) = Inr g"
proof -
  have "wf_context (gt_context g)" "list_all wf_approval (gt_approvals g)" "list_all wf_reference (gt_references g)"
    "grant_post_init g = Inr g"
    using assms by (simp_all add: wf_grant_def)
  then show ?thesis
    by (simp add: grant_from_dict_def grant_as_dict_def grant_fields_def grant_names_def keys_of_def field_or_def
        grant_from_fields_def raw_str_def, simp add: json_array_def approvals_json_def classes_json_def, cases g, simp)
qed

lemma grant_checks_status [simp]: "grant_checks (g\<lparr>gt_status := st\<rparr>) = grant_checks g"
proof -
  have "grant_reference_checks (g\<lparr>gt_status := st\<rparr>) = grant_reference_checks g"
    by (rule ext) (simp add: grant_reference_checks_def in_run_def)
  then show ?thesis by (simp add: grant_checks_def window_ordered_def)
qed

lemma wf_grant_status [simp]: "wf_grant (g\<lparr>gt_status := st\<rparr>) \<longleftrightarrow> wf_grant g"
  by (simp add: wf_grant_def grant_post_init_def bind_res_Inr_iff)

text \<open>Two well-formed decisions with the same binding differ in their status at most.\<close>

lemma binding_determines:
  assumes "decision_binding g = decision_binding h" "wf_grant g" "wf_grant h"
  shows "g\<lparr>gt_status := gt_status h\<rparr> = h"
proof -
  have post: "wf_grant (g\<lparr>gt_status := gt_status h\<rparr>)" using assms(2) by simp
  have "grant_as_dict (g\<lparr>gt_status := gt_status h\<rparr>) = grant_as_dict h"
    using assms(1) by (simp add: decision_binding_def without_key_def grant_as_dict_def grant_fields_def)
  with grant_round_trip [OF post] grant_round_trip [OF assms(3)] show ?thesis by simp
qed

end
