(* ===== verification/Support_Redaction.thy ===== *)
theory Support_Redaction
  imports Text
begin

text \<open>
  What \<open>src/k_slide/content_support.py\<close> takes out of selected content, and how it looks for secrets in
  a bundle: the patterns \<open>_SECRET_ASSIGNMENT\<close> and \<open>_SECRET_LABEL\<close> over bytes, \<open>_safe_content_bytes\<close> and
  \<open>_contains_secret_marker\<close>. A matcher gives what is left of the bytes after a match at their start.
  Both patterns are deterministic: after a label no shorter match of it lets the rest match.
\<close>

type_synonym matcher = "string \<Rightarrow> string option"

section \<open>Matching, replacing and searching\<close>

definition match_word :: "string \<Rightarrow> matcher" where
  "match_word w s = (if map lower_char (take (length w) s) = w then Some (drop (length w) s) else None)"

definition match_exact :: "string \<Rightarrow> matcher" where
  "match_exact w s = (if w \<noteq> [] \<and> take (length w) s = w then Some (drop (length w) s) else None)"

definition or_else :: "'a option \<Rightarrow> 'a option \<Rightarrow> 'a option" where
  "or_else a b = (case a of None \<Rightarrow> b | Some x \<Rightarrow> Some x)"

text \<open>\<open>pattern.sub(rep, s)\<close> and \<open>s.replace(w, rep)\<close>: from the left, without overlaps.\<close>

function sub_all :: "matcher \<Rightarrow> string \<Rightarrow> string \<Rightarrow> string" where
  "sub_all m rep [] = []"
| "sub_all m rep (c # cs) =
     (case m (c # cs) of
        Some r \<Rightarrow> if length r \<le> length cs then rep @ sub_all m rep r else c # sub_all m rep cs
      | None \<Rightarrow> c # sub_all m rep cs)"
  by pat_completeness auto
termination by (relation "measure (\<lambda>(m, rep, s). length s)") auto

fun has_match :: "matcher \<Rightarrow> string \<Rightarrow> bool" where
  "has_match m [] = (m [] \<noteq> None)"
| "has_match m (c # cs) = (m (c # cs) \<noteq> None \<or> has_match m cs)"

section \<open>The patterns\<close>

text \<open>\<open>\s\<close> over bytes.\<close>

definition space_byte :: "char \<Rightarrow> bool" where
  "space_byte c \<longleftrightarrow> code_of c = 32 \<or> (9 \<le> code_of c \<and> code_of c \<le> 13)"

definition key_gap :: "char \<Rightarrow> bool" where
  "key_gap c \<longleftrightarrow> space_byte c \<or> c \<in> set ''_.:/-''"

definition value_byte :: "char \<Rightarrow> bool" where
  "value_byte c \<longleftrightarrow> \<not> space_byte c \<and> c \<notin> set '',;}]''"

definition match_access_key :: matcher where
  "match_access_key s =
     (case match_word ''access'' s of None \<Rightarrow> None | Some r \<Rightarrow> match_word ''key'' (dropWhile key_gap r))"

definition match_credential :: matcher where
  "match_credential s =
     (case match_word ''credential'' s of None \<Rightarrow> None | Some r \<Rightarrow> or_else (match_word ''s'' r) (Some r))"

definition match_label :: matcher where
  "match_label s =
     or_else (match_access_key s)
     (or_else (match_word ''authorization'' s)
     (or_else (match_word ''password'' s)
     (or_else (match_word ''secret'' s)
     (or_else (match_word ''token'' s) (match_credential s)))))"

definition match_assignment :: matcher where
  "match_assignment s =
     (case match_label s of
        None \<Rightarrow> None
      | Some r \<Rightarrow>
          (case dropWhile space_byte r of
             [] \<Rightarrow> None
           | c # cs \<Rightarrow>
               if c \<notin> set '':=''  then None
               else (let v = dropWhile space_byte cs in
                     if v \<noteq> [] \<and> value_byte (hd v) then Some (dropWhile value_byte v) else None)))"

section \<open>Redaction\<close>

definition secret_placeholder :: string where
  "secret_placeholder = ''__KSLIDE_SECRET__''"

definition redacted_secret :: string where
  "redacted_secret = ''[REDACTED_SECRET]''"

text \<open>The access key of the process environment, none or empty when it is not set.\<close>

definition safe_content_bytes :: "string option \<Rightarrow> string \<Rightarrow> string" where
  "safe_content_bytes secret data =
     (let data = (case secret of None \<Rightarrow> data | Some k \<Rightarrow> sub_all (match_exact k) secret_placeholder data);
          data = sub_all match_assignment secret_placeholder data;
          data = sub_all match_label secret_placeholder data
      in sub_all (match_exact secret_placeholder) redacted_secret data)"

definition contains_secret_marker :: "string option \<Rightarrow> string \<Rightarrow> bool" where
  "contains_secret_marker secret data =
     (let scrubbed = sub_all (match_exact redacted_secret) [] data in
      has_match match_label scrubbed
      \<or> (case secret of None \<Rightarrow> False | Some k \<Rightarrow> k \<noteq> [] \<and> occurs_in k scrubbed))"

section \<open>Laws\<close>

lemma match_exact_empty [simp]: "match_exact [] s = None"
  by (simp add: match_exact_def)

text \<open>
  A matcher that reads on only as far as it must: a match at the start of a text is one at the start
  of any longer text, and takes something.
\<close>

definition steady :: "matcher \<Rightarrow> bool" where
  "steady m \<longleftrightarrow> (\<forall>u v. m u \<noteq> None \<longrightarrow> m (u @ v) \<noteq> None) \<and> (\<forall>s r. m s = Some r \<longrightarrow> length r < length s)"

lemma steady_extend: "steady m \<Longrightarrow> m (u @ v) = None \<Longrightarrow> m u = None"
  unfolding steady_def by metis

lemma steady_shorter: "steady m \<Longrightarrow> m s = Some r \<Longrightarrow> length r < length s"
  by (simp add: steady_def)

lemma steady_Nil: "steady m \<Longrightarrow> m [] = None"
  using steady_shorter [of m "[]"] by (cases "m []") auto

text \<open>A replacement leaves pieces of the text in which nothing matches, joined by the mark.\<close>

fun join_with :: "string \<Rightarrow> string list \<Rightarrow> string" where
  "join_with rep [] = []"
| "join_with rep [x] = x"
| "join_with rep (x # y # ys) = x @ rep @ join_with rep (y # ys)"

lemma join_with_Cons: "xs \<noteq> [] \<Longrightarrow> join_with rep (x # xs) = x @ rep @ join_with rep xs"
  by (cases xs) simp_all

lemma join_with_push: "join_with rep ((c # x) # xs) = c # join_with rep (x # xs)"
  by (cases xs) simp_all

lemma sub_all_pieces:
  assumes "steady m"
  shows "\<exists>x xs. sub_all m rep s = join_with rep (x # xs) \<and> (\<forall>y \<in> set (x # xs). \<not> has_match m y) \<and> prefix x s"
proof (induction s rule: length_induct)
  case (1 s)
  show ?case
  proof (cases s)
    case Nil
    then show ?thesis using steady_Nil [OF assms] by (intro exI [of _ "[]"]) simp
  next
    case (Cons c cs)
    show ?thesis
    proof (cases "m (c # cs)")
      case None
      obtain x xs where x: "sub_all m rep cs = join_with rep (x # xs)" "\<forall>y \<in> set (x # xs). \<not> has_match m y" "prefix x cs"
        using 1 Cons by (metis length_Cons lessI)
      from x(3) obtain v where "cs = x @ v" by (auto simp: prefix_def)
      with None have "m (c # x) = None" using steady_extend [OF assms, of "c # x" v] by simp
      with x have "sub_all m rep s = join_with rep ((c # x) # xs) \<and> (\<forall>y \<in> set ((c # x) # xs). \<not> has_match m y)
          \<and> prefix (c # x) s"
        using None Cons by (simp add: join_with_push)
      then show ?thesis by blast
    next
      case (Some r)
      with steady_shorter [OF assms Some] have less: "length r < length s" by (simp add: Cons)
      then obtain x xs where x: "sub_all m rep r = join_with rep (x # xs)" "\<forall>y \<in> set (x # xs). \<not> has_match m y"
        using 1 by blast
      with Some less have "sub_all m rep s = join_with rep ([] # x # xs) \<and> (\<forall>y \<in> set ([] # x # xs). \<not> has_match m y)
          \<and> prefix [] s"
        using steady_Nil [OF assms] by (simp add: Cons)
      then show ?thesis by blast
    qed
  qed
qed

lemma match_word_append: "match_word w u = Some r \<Longrightarrow> match_word w (u @ v) = Some (r @ v)"
  by (auto simp: match_word_def split: if_splits)
    (metis append_Nil2 diff_is_0_eq length_map length_take min.cobounded1 take_0 min_def nat_le_linear)+

lemma match_word_shorter: "w \<noteq> [] \<Longrightarrow> match_word w s = Some r \<Longrightarrow> length r < length s"
proof -
  assume w: "w \<noteq> []" and "match_word w s = Some r"
  then have "map lower_char (take (length w) s) = w" "r = drop (length w) s"
    by (auto simp: match_word_def split: if_splits)
  with w show "length r < length s" by (cases s) auto
qed

lemma dropWhile_append_some: "dropWhile p u \<noteq> [] \<Longrightarrow> dropWhile p (u @ v) = dropWhile p u @ v"
  by (induction u) auto

lemma match_access_append: "match_access_key u = Some r \<Longrightarrow> match_access_key (u @ v) = Some (r @ v)"
proof -
  assume "match_access_key u = Some r"
  then obtain x where x: "match_word ''access'' u = Some x" "match_word ''key'' (dropWhile key_gap x) = Some r"
    by (auto simp: match_access_key_def split: option.splits)
  then have "dropWhile key_gap x \<noteq> []" using match_word_shorter [OF _ x(2)] by (metis less_nat_zero_code list.size(3) list.simps(3))
  with x show "match_access_key (u @ v) = Some (r @ v)"
    by (simp add: match_access_key_def match_word_append dropWhile_append_some)
qed

lemma or_else_None [simp]: "or_else a b = None \<longleftrightarrow> a = None \<and> b = None"
  by (cases a) (simp_all add: or_else_def)

lemma or_else_Some: "or_else a b = Some r \<Longrightarrow> a = Some r \<or> b = Some r"
  by (cases a) (simp_all add: or_else_def)

lemma match_credential_None: "match_credential s = None \<longleftrightarrow> match_word ''credential'' s = None"
  by (auto simp: match_credential_def split: option.splits)

lemma match_label_extend:
  assumes "match_label (u @ v) = None"
  shows "match_label u = None"
proof -
  have word: "match_word w u = None" if "match_word w (u @ v) = None" for w
    using that match_word_append [of w u _ v] by (cases "match_word w u") auto
  have "match_access_key u = None" if "match_access_key (u @ v) = None"
    using that match_access_append [of u _ v] by (cases "match_access_key u") auto
  with assms word show ?thesis by (simp add: match_label_def match_credential_None)
qed

lemma match_label_shorter:
  assumes "match_label s = Some r"
  shows "length r < length s"
proof -
  have access: "length x < length s" if "match_access_key s = Some x" for x
  proof -
    obtain y where y: "match_word ''access'' s = Some y" "match_word ''key'' (dropWhile key_gap y) = Some x"
      using \<open>match_access_key s = Some x\<close> by (auto simp: match_access_key_def split: option.splits)
    have "length x < length (dropWhile key_gap y)" "length y < length s"
      using match_word_shorter [OF _ y(2)] match_word_shorter [OF _ y(1)] by simp_all
    with length_dropWhile_le [of key_gap y] show ?thesis by linarith
  qed
  have credential: "length x < length s" if "match_credential s = Some x" for x
  proof -
    obtain y where y: "match_word ''credential'' s = Some y" "match_word ''s'' y = Some x \<or> x = y"
      using \<open>match_credential s = Some x\<close>
      by (auto simp: match_credential_def split: option.splits dest!: or_else_Some)
    have "length y < length s" "length x \<le> length y"
      using y(2) match_word_shorter [OF _ y(1)] match_word_shorter [of "''s''" y x] by auto
    then show ?thesis by linarith
  qed
  have word: "length x < length s" if "match_word w s = Some x" "w \<noteq> []" for w x
    using match_word_shorter [OF that(2,1)] .
  from assms have "match_access_key s = Some r \<or> (\<exists>w. match_word w s = Some r \<and> w \<noteq> []) \<or> match_credential s = Some r"
    unfolding match_label_def by (elim or_else_Some [THEN disjE]) auto
  then show ?thesis by (elim disjE exE conjE) (fact access, fact word, fact credential)
qed

lemma steady_label: "steady match_label"
proof -
  have "match_label (u @ v) \<noteq> None" if "match_label u \<noteq> None" for u v
    using that match_label_extend [of u v] by (rule contrapos_nn)
  with match_label_shorter show ?thesis by (simp only: steady_def) blast
qed

section \<open>Redacted content\<close>

lemma found_append: "steady m \<Longrightarrow> has_match m u \<Longrightarrow> has_match m (u @ v)"
proof (induction u)
  case (Cons c u)
  then show ?case by (metis append_Cons has_match.simps(2) steady_extend)
qed (simp add: steady_Nil)

lemma found_suffix: "has_match m u \<Longrightarrow> has_match m (w @ u)"
  by (induction w) simp_all

text \<open>A text without a label meets the placeholder only where it begins.\<close>

lemma placeholder_label: "has_match match_label (take 15 secret_placeholder)"
  by code_simp

lemma placeholder_period:
  "k \<in> set [1..<15] \<Longrightarrow> take (17 - k) secret_placeholder \<noteq> drop k secret_placeholder"
proof -
  have "list_all (\<lambda>k. take (17 - k) secret_placeholder \<noteq> drop k secret_placeholder) [1..<15]" by code_simp
  then show "k \<in> set [1..<15] \<Longrightarrow> take (17 - k) secret_placeholder \<noteq> drop k secret_placeholder"
    by (simp add: list_all_iff)
qed

lemma no_placeholder_inside:
  assumes "\<not> has_match match_label u" "u \<noteq> []" "v = [] \<or> (\<exists>w. v = secret_placeholder @ w)"
  shows "match_exact secret_placeholder (u @ v) = None"
proof (rule ccontr)
  let ?p = secret_placeholder
  have len: "length ?p = 17" by (simp add: secret_placeholder_def)
  assume "match_exact ?p (u @ v) \<noteq> None"
  then have eq: "take 17 (u @ v) = ?p" by (auto simp: match_exact_def len split: if_splits)
  show False
  proof (cases "length u < 15")
    case False
    then have "take 15 ?p = take 15 u" using arg_cong [OF eq, of "take 15"] by simp
    then have "has_match match_label (take 15 u @ drop 15 u)" using found_append [OF steady_label] placeholder_label by metis
    with assms(1) show False by simp
  next
    case True
    let ?k = "length u"
    have "v \<noteq> []" using True arg_cong [OF eq, of length] len by auto
    with assms(3) obtain w where v: "v = ?p @ w" by blast
    have "drop ?k ?p = take (17 - ?k) ?p"
      using arg_cong [OF eq, of "drop ?k"] True by (simp add: v drop_take len)
    moreover have "?k \<in> set [1..<15]" using True assms(2) by (cases u) auto
    ultimately show False using placeholder_period [of ?k] by simp
  qed
qed

lemma sub_all_prefix_text:
  "\<not> has_match match_label u \<Longrightarrow> v = [] \<or> (\<exists>w. v = secret_placeholder @ w)
    \<Longrightarrow> sub_all (match_exact secret_placeholder) rep (u @ v) = u @ sub_all (match_exact secret_placeholder) rep v"
proof (induction u)
  case (Cons c u)
  then have "match_exact secret_placeholder ((c # u) @ v) = None" by (intro no_placeholder_inside) auto
  with Cons show ?case by simp
qed simp

lemma sub_all_placeholder:
  "sub_all (match_exact secret_placeholder) rep (secret_placeholder @ w)
    = rep @ sub_all (match_exact secret_placeholder) rep w"
proof -
  have "match_exact secret_placeholder (secret_placeholder @ w) = Some w"
    by (simp add: match_exact_def secret_placeholder_def)
  then show ?thesis by (simp add: secret_placeholder_def)
qed

lemma replace_marks:
  "\<forall>y \<in> set (x # xs). \<not> has_match match_label y \<Longrightarrow>
     sub_all (match_exact secret_placeholder) rep (join_with secret_placeholder (x # xs)) = join_with rep (x # xs)"
proof (induction xs arbitrary: x)
  case Nil
  then show ?case using sub_all_prefix_text [of x "[]" rep] by simp
next
  case (Cons y ys)
  then show ?case
    using sub_all_prefix_text [of x "secret_placeholder @ join_with secret_placeholder (y # ys)" rep]
    by (simp add: sub_all_placeholder)
qed

theorem redacted_pieces:
  "\<exists>pieces. safe_content_bytes secret data = join_with redacted_secret pieces
     \<and> (\<forall>x \<in> set pieces. \<not> has_match match_label x)"
proof -
  let ?d = "sub_all match_assignment secret_placeholder
     (case secret of None \<Rightarrow> data | Some k \<Rightarrow> sub_all (match_exact k) secret_placeholder data)"
  obtain x xs where "sub_all match_label secret_placeholder ?d = join_with secret_placeholder (x # xs)"
    and none: "\<forall>y \<in> set (x # xs). \<not> has_match match_label y"
    using sub_all_pieces [OF steady_label] by blast
  then have "safe_content_bytes secret data = join_with redacted_secret (x # xs)"
    using replace_marks [OF none] by (simp add: safe_content_bytes_def Let_def)
  with none show ?thesis by blast
qed

end
