(* ===== verification/Support_Bundles.thy ===== *)
theory Support_Bundles
  imports Support_Grants Support_Redaction
begin

text \<open>
  Making and reading a controlled support bundle (\<open>materialize_controlled_support_bundle\<close> and
  \<open>read_controlled_support_bundle\<close> of \<open>src/k_slide/content_support.py\<close>), as functions of the run's
  storage. Every check of the authority, and every reading of the clock, takes the next tick. The
  archive format, the redaction of the manifest and the process's access key are arguments; so is
  whether the archive or the metadata file can be written.
\<close>

section \<open>The storage of a run\<close>

text \<open>A selected path: a regular file, a path with a link in it, or something else that cannot be read.\<close>

datatype source_node = Source_File string | Source_Link | Source_Other

datatype bundle_node = Bundle_File string | Bundle_Link | Bundle_Other

datatype metadata_node = Metadata_File "json option" | Metadata_Link | Metadata_Other

text \<open>
  \<open>bw_support_dir\<close> is the answer of \<open>ensure_directory\<close> for the support directory: the deletion fence or
  an unsafe directory refuses. Bundles and metadata go by the artifact's name in that directory.
\<close>

record bundle_space =
  bw_scope_ref :: "string option"
  bw_run_ref :: "string option"
  bw_root :: "string list"
  bw_support_dir :: "unit res"
  bw_sources :: "(string list \<times> source_node) list"
  bw_bundles :: "(string \<times> bundle_node) list"
  bw_metadata :: "(string \<times> metadata_node) list"
  bw_central :: "string list option"
  bw_log :: support_log
  bw_tick :: nat

record bundle_world =
  bo_authority :: support_authority
  bo_production :: bool
  bo_secret :: "string option"
  bo_manifest_text :: "json \<Rightarrow> string"
  bo_pack :: "(string \<times> string) list \<Rightarrow> string"
  bo_unpack :: "string \<Rightarrow> (string \<times> string) list option"
  bo_zip_written :: bool
  bo_metadata_written :: bool

type_synonym 'a bundle_op = "bundle_space \<Rightarrow> 'a res \<times> bundle_space"

definition max_artifact_bytes :: nat where
  "max_artifact_bytes = 256 * 1024 * 1024"

section \<open>Identities\<close>

text \<open>\<open>json.dumps\<close> with \<open>ensure_ascii\<close>: what is not printable ASCII is escaped by its UTF-16 units.\<close>

definition unit_escape :: "nat \<Rightarrow> string" where
  "unit_escape n = CHR 0x5C # CHR ''u'' # map (\<lambda>i. hex_digit (n div 16 ^ (3 - i))) [0..<4]"

fun ascii_text :: "string \<Rightarrow> string" where
  "ascii_text [] = []"
| "ascii_text (c # cs) =
     (let n = code_of c; tail = (\<lambda>i. if i < length cs then code_of (cs ! i) mod 64 else 0) in
      if n < 127 then c # ascii_text cs
      else if n < 192 then unit_escape n @ ascii_text cs
      else if n < 224 then unit_escape ((n - 192) * 64 + tail 0) @ ascii_text (drop 1 cs)
      else if n < 240 then unit_escape ((n - 224) * 4096 + tail 0 * 64 + tail 1) @ ascii_text (drop 2 cs)
      else (let m = (n - 240) * 262144 + tail 0 * 4096 + tail 1 * 64 + tail 2 - 65536 in
            unit_escape (55296 + m div 1024) @ unit_escape (56320 + m mod 1024) @ ascii_text (drop 3 cs)))"

definition short_digest :: "json \<Rightarrow> string" where
  "short_digest v = take 40 (sha256_hex (ascii_text (encode_json (sort_keys v))))"

definition selection_identity :: "support_selection list \<Rightarrow> string" where
  "selection_identity xs = ''selection-'' @ short_digest (JArr (map (\<lambda>x. JObj [
     (''artifact_class'', JStr (value_in support_class_values (se_class x))),
     (''reference'', reference_as_dict (se_reference x))]) xs))"

definition artifact_identity :: "support_request \<Rightarrow> string" where
  "artifact_identity q = ''support-artifact-'' @ short_digest (JObj [
     (''access_request_ref'', JStr (gt_request_ref (bq_grant q))),
     (''scope_ref'', JStr (sc_scope_ref (gt_context (bq_grant q)))),
     (''run_ref'', JStr (gt_run_ref (bq_grant q))),
     (''decision_ref'', JStr (gt_decision_ref (bq_grant q))),
     (''selection_identity'', JStr (selection_identity (bq_selections q)))])"

section \<open>Checks and audits\<close>

definition tick :: "nat bundle_op" where
  "tick s = (Inr (bw_tick s), s\<lparr>bw_tick := bw_tick s + 1\<rparr>)"

definition check :: "bundle_world \<Rightarrow> support_request \<Rightarrow> support_grant bundle_op" where
  "check w q = then_op tick (\<lambda>n. returns (authorize (bo_authority w) (bo_production w) q n))"

text \<open>\<open>_audit_writer\<close>: the central root lies neither inside nor above the run.\<close>

definition audit_writer :: "bundle_space \<Rightarrow> unit res" where
  "audit_writer s =
     (case bw_central s of
        None \<Rightarrow> Inl support_audit_failed
      | Some central \<Rightarrow>
          if take (length central) (bw_root s) = central \<or> take (length (bw_root s)) central = bw_root s
          then Inl (KSlideError PATH_OUTSIDE_ALLOWED_ROOT) else Inr ())"

definition access_event ::
  "support_request \<Rightarrow> utc \<Rightarrow> access_lifecycle \<times> access_result \<Rightarrow> string option \<Rightarrow> support_event"
where
  "access_event q now kind artifact = (let g = bq_grant q in \<lparr>
     ev_occurred_at = time_text now, ev_lifecycle = fst kind, ev_result = snd kind, ev_request_ref = gt_request_ref g,
     ev_context = gt_context g, ev_run_ref = gt_run_ref g, ev_subject_ref = gt_subject_ref g,
     ev_role_ref = gt_role_ref g, ev_capability_ref = gt_capability_ref g, ev_purpose = gt_purpose g,
     ev_authority_ref = gt_authority_ref g, ev_decision_ref = gt_decision_ref g, ev_approvals = gt_approvals g,
     ev_allowed = gt_allowed g, ev_selected = map se_class (bq_selections q), ev_issued_at = gt_issued_at g,
     ev_not_before_at = gt_not_before_at g, ev_expires_at = gt_expires_at g, ev_artifact_ref = artifact\<rparr>)"

definition on_log :: "(support_log \<Rightarrow> 'a res \<times> support_log) \<Rightarrow> 'a bundle_op" where
  "on_log f s = (case f (bw_log s) of (r, l) \<Rightarrow> (r, s\<lparr>bw_log := l\<rparr>))"

definition audit_at ::
  "support_request \<Rightarrow> utc \<Rightarrow> access_lifecycle \<times> access_result \<Rightarrow> string option \<Rightarrow> unit bundle_op"
where
  "audit_at q now kind artifact =
     then_op (returns (event_post_init (access_event q now kind artifact))) (\<lambda>e. on_log (write_event e))"

definition audit_now ::
  "bundle_world \<Rightarrow> support_request \<Rightarrow> access_lifecycle \<times> access_result \<Rightarrow> string option \<Rightarrow> unit bundle_op"
where
  "audit_now w q kind artifact = then_op tick (\<lambda>n. audit_at q (ay_clock (bo_authority w) n) kind artifact)"

text \<open>\<open>except KSlideError\<close>: the failure is recorded and raised again.\<close>

definition audited :: "(err \<Rightarrow> unit bundle_op) \<Rightarrow> 'a bundle_op \<Rightarrow> 'a bundle_op" where
  "audited record m s =
     (case m s of
        (Inl (KSlideError c), s') \<Rightarrow> then_op (record (KSlideError c)) (\<lambda>_. returns (Inl (KSlideError c))) s'
      | r \<Rightarrow> r)"

section \<open>Selected content\<close>

definition unsafe_selected :: err where
  "unsafe_selected = KSlideError PATH_OUTSIDE_ALLOWED_ROOT"

text \<open>\<open>_resolve_selected\<close> and \<open>_read_selected\<close>.\<close>

definition outside_run :: "support_grant \<Rightarrow> bundle_space \<Rightarrow> bool" where
  "outside_run g s \<longleftrightarrow> bw_scope_ref s \<noteq> Some (sc_scope_ref (gt_context g)) \<or> bw_run_ref s \<noteq> Some (gt_run_ref g)"

definition resolve_reference :: "support_grant \<Rightarrow> storage_reference \<Rightarrow> bundle_space \<Rightarrow> string list res" where
  "resolve_reference g r s = bind_res (guards [
     (sg_plane r \<noteq> PL_DURABLE, invalid),
     (sg_scope_ref r \<noteq> bw_scope_ref s \<or> sg_run_ref r \<noteq> bw_run_ref s, conflict),
     (sg_scope_ref r \<noteq> Some (sc_scope_ref (gt_context g)), conflict),
     (\<not> safe_relative_path (sg_path r), unsafe_selected)]) (\<lambda>_. Inr (path_parts (sg_path r)))"

definition read_selected :: "bundle_world \<Rightarrow> support_grant \<Rightarrow> support_selection \<Rightarrow> bundle_space \<Rightarrow> string res" where
  "read_selected w g x s =
     (if outside_run g s then Inl conflict
      else bind_res (resolve_reference g (se_reference x) s) (\<lambda>parts.
        case map_of (bw_sources s) parts of
          Some (Source_File data) \<Rightarrow>
            if max_artifact_bytes < length data then Inl support_unavailable
            else Inr (safe_content_bytes (bo_secret w) data)
        | Some Source_Link \<Rightarrow> Inl unsafe_selected
        | _ \<Rightarrow> Inl support_unavailable))"

definition item_name :: "nat \<Rightarrow> support_class \<Rightarrow> string" where
  "item_name i c = ''items/'' @ pad_nat 4 i @ ''-'' @ value_in support_class_values c"

fun collect ::
  "bundle_world \<Rightarrow> support_request \<Rightarrow> support_grant \<Rightarrow> nat \<Rightarrow> nat \<Rightarrow> support_selection list
    \<Rightarrow> (string \<times> string) list bundle_op"
where
  "collect w q g i used [] = returns (Inr [])"
| "collect w q g i used (x # xs) =
     then_op (check w q) (\<lambda>_.
     then_op (reads (read_selected w g x)) (\<lambda>data.
       if max_artifact_bytes < used + length data then returns (Inl support_unavailable)
       else then_op (collect w q g (i + 1) (used + length data) xs) (\<lambda>rest.
         returns (Inr ((item_name i (se_class x), data) # rest)))))"

section \<open>Stored bundles\<close>

definition bundle_reference :: "bundle_space \<Rightarrow> string \<Rightarrow> storage_reference res" where
  "bundle_reference s ref = reference_post_init \<lparr>sg_plane = PL_DURABLE, sg_artifact = ST_SUPPORT_CONTENT,
     sg_path = ''support-content/'' @ ref @ ''.zip'', sg_scope_ref = bw_scope_ref s, sg_run_ref = bw_run_ref s\<rparr>"

text \<open>\<open>_load_artifact\<close>: the metadata beside the bundle.\<close>

definition load_artifact :: "string \<Rightarrow> bundle_space \<Rightarrow> support_artifact res" where
  "load_artifact ref s =
     (case map_of (bw_metadata s) ref of
        Some Metadata_Link \<Rightarrow> Inl unsafe_selected
      | Some (Metadata_File (Some v)) \<Rightarrow> artifact_from_dict v
      | _ \<Rightarrow> Inl support_unavailable)"

definition selection_matches_artifact :: "support_artifact \<Rightarrow> support_request \<Rightarrow> unit res" where
  "selection_matches_artifact a q = guards [
     (\<not> in_run (bq_grant q) (sa_reference a), conflict),
     (sa_request_ref a \<noteq> gt_request_ref (bq_grant q) \<or> sa_decision_ref a \<noteq> gt_decision_ref (bq_grant q), conflict),
     (sa_artifact_ref a \<noteq> artifact_identity q, conflict),
     (sa_selection_identity a \<noteq> selection_identity (bq_selections q), conflict)]"

definition write_bundle :: "bundle_world \<Rightarrow> string \<Rightarrow> string \<Rightarrow> unit bundle_op" where
  "write_bundle w ref data s =
     (if bo_zip_written w then (Inr (), s\<lparr>bw_bundles := AList.update ref (Bundle_File data) (bw_bundles s)\<rparr>)
      else (Inl PyOSError, s))"

definition write_metadata :: "bundle_world \<Rightarrow> string \<Rightarrow> json \<Rightarrow> unit bundle_op" where
  "write_metadata w ref v s =
     (if bo_metadata_written w
      then (Inr (), s\<lparr>bw_metadata := AList.update ref (Metadata_File (Some v)) (bw_metadata s)\<rparr>)
      else (Inl PyOSError, s))"

definition remove_copies :: "string \<Rightarrow> bundle_space \<Rightarrow> bundle_space" where
  "remove_copies ref s = s\<lparr>bw_bundles := AList.delete ref (bw_bundles s), bw_metadata := AList.delete ref (bw_metadata s)\<rparr>"

section \<open>Materialization\<close>

definition manifest_json :: "support_request \<Rightarrow> support_grant \<Rightarrow> nat \<Rightarrow> json" where
  "manifest_json q g items = JObj [
     (''schema_version'', JStr ''1.0''),
     (''support_artifact_ref'', JStr (artifact_identity q)),
     (''access_request_ref'', JStr (gt_request_ref g)),
     (''scope_ref'', JStr (sc_scope_ref (gt_context g))),
     (''run_ref'', JStr (gt_run_ref g)),
     (''purpose'', JStr (value_in purpose_values (gt_purpose g))),
     (''selected_artifact_classes'', classes_json (map se_class (bq_selections q))),
     (''item_count'', JInt (int items)),
     (''expires_at'', JStr (gt_expires_at g))]"

definition new_artifact :: "support_request \<Rightarrow> support_grant \<Rightarrow> storage_reference \<Rightarrow> utc \<Rightarrow> support_artifact" where
  "new_artifact q g r now = \<lparr>
     sa_artifact_ref = artifact_identity q, sa_reference = r, sa_request_ref = gt_request_ref g,
     sa_context = gt_context g, sa_run_ref = gt_run_ref g, sa_decision_ref = gt_decision_ref g,
     sa_subject_ref = gt_subject_ref g, sa_role_ref = gt_role_ref g, sa_capability_ref = gt_capability_ref g,
     sa_purpose = gt_purpose g, sa_authority_ref = gt_authority_ref g, sa_approvals = gt_approvals g,
     sa_allowed = gt_allowed g, sa_selection_identity = selection_identity (bq_selections q),
     sa_selected = map se_class (bq_selections q), sa_created_at = time_text now, sa_expires_at = gt_expires_at g\<rparr>"

definition materialized :: "access_lifecycle \<times> access_result" where
  "materialized = (AL_MATERIALIZED, AR_SUCCESS)"

text \<open>The artifact exists already: its metadata and the authority decide.\<close>

definition reuse_bundle :: "bundle_world \<Rightarrow> support_request \<Rightarrow> string \<Rightarrow> support_artifact bundle_op" where
  "reuse_bundle w q ref =
     then_op (reads (\<lambda>s.
       case (map_of (bw_bundles s) ref, map_of (bw_metadata s) ref) of
         (Some (Bundle_File _), Some (Metadata_File _)) \<Rightarrow> Inr ()
       | _ \<Rightarrow> Inl conflict)) (\<lambda>_.
     then_op (reads (load_artifact ref)) (\<lambda>existing.
     then_op (returns (selection_matches_artifact existing q)) (\<lambda>_.
     then_op (check w q) (\<lambda>_.
     then_op (audit_now w q materialized (Some (sa_artifact_ref existing))) (\<lambda>_.
       returns (Inr existing))))))"

text \<open>The last block, undone by any error.\<close>

definition publish ::
  "bundle_world \<Rightarrow> support_request \<Rightarrow> string \<Rightarrow> support_artifact \<Rightarrow> support_artifact bundle_op"
where
  "publish w q ref a s =
     (case then_op (check w q) (\<lambda>_.
           then_op (write_metadata w ref (artifact_as_dict a)) (\<lambda>_.
           then_op (check w q) (\<lambda>_. audit_now w q materialized (Some ref)))) s of
        (Inr _, s') \<Rightarrow> (Inr a, s')
      | (Inl e, s') \<Rightarrow> (Inl e, remove_copies ref s'))"

definition new_bundle ::
  "bundle_world \<Rightarrow> support_request \<Rightarrow> support_grant \<Rightarrow> utc \<Rightarrow> string \<Rightarrow> storage_reference \<Rightarrow> support_artifact bundle_op"
where
  "new_bundle w q g now ref r =
     then_op (audited (\<lambda>e. audit_now w q (failure_lifecycle e) None) (collect w q g 1 0 (bq_selections q))) (\<lambda>content.
     then_op (check w q) (\<lambda>_.
     then_op (write_bundle w ref (bo_pack w
       ((''support-manifest.json'', bo_manifest_text w (manifest_json q g (length content))) # content))) (\<lambda>_.
     then_op (returns (artifact_post_init (new_artifact q g r now))) (\<lambda>a. publish w q ref a))))"

text \<open>\<open>layout.resolve\<close> of the bundle and \<open>layout.path\<close> of the metadata refuse links.\<close>

definition links_refused :: "string \<Rightarrow> bundle_space \<Rightarrow> unit res" where
  "links_refused ref s =
     (if map_of (bw_bundles s) ref = Some Bundle_Link \<or> map_of (bw_metadata s) ref = Some Metadata_Link
      then Inl unsafe_selected else Inr ())"

definition materialize_bundle :: "bundle_world \<Rightarrow> support_request \<Rightarrow> support_artifact bundle_op" where
  "materialize_bundle w q =
     then_op (reads audit_writer) (\<lambda>_. then_op (reads (\<lambda>s. Inr (ay_clock (bo_authority w) (bw_tick s)))) (\<lambda>now.
     then_op (audited (\<lambda>e. audit_at q now (failure_lifecycle e) None) (check w q)) (\<lambda>g.
     then_op (reads (\<lambda>s. Inr (outside_run g s))) (\<lambda>foreign.
       if foreign then then_op (audit_at q now (AL_DENIED, AR_DENIED) None) (\<lambda>_. returns (Inl conflict))
       else then_op (reads bw_support_dir) (\<lambda>_.
         then_op (reads (\<lambda>s. bundle_reference s (artifact_identity q))) (\<lambda>r.
         then_op (reads (links_refused (artifact_identity q))) (\<lambda>_.
         then_op (reads (\<lambda>s. Inr (map_of (bw_bundles s) (artifact_identity q) \<noteq> None
             \<or> map_of (bw_metadata s) (artifact_identity q) \<noteq> None))) (\<lambda>occupied.
           if occupied then reuse_bundle w q (artifact_identity q)
           else new_bundle w q g now (artifact_identity q) r))))))))"

section \<open>Reading\<close>

definition item_member :: "string \<Rightarrow> bool" where
  "item_member n \<longleftrightarrow> (let rest = drop 10 n in
     take 6 n = ''items/'' \<and> matches_shape ''dddd'' (take 4 (drop 6 n)) \<and> rest \<noteq> [] \<and> hd rest = CHR ''-''
     \<and> tl rest \<noteq> [] \<and> list_all (\<lambda>c. is_lower_char c \<or> c = CHR ''_'') (tl rest))"

text \<open>A repeated member name reads as its last entry.\<close>

definition inspect_archive :: "bundle_world \<Rightarrow> string \<Rightarrow> unit res" where
  "inspect_archive w data =
     (case bo_unpack w data of
        None \<Rightarrow> Inl support_unavailable
      | Some members \<Rightarrow>
          let names = map fst members in
          if length (filter (\<lambda>n. n = ''support-manifest.json'') names) \<noteq> 1
             \<or> list_ex (\<lambda>n. n \<noteq> ''support-manifest.json'' \<and> \<not> item_member n) names
          then Inl support_unavailable
          else if list_ex (\<lambda>n. contains_secret_marker (bo_secret w) (the (map_of (rev members) n))) names
          then Inl support_unavailable else Inr ())"

definition stored_bytes :: "bundle_world \<Rightarrow> support_grant \<Rightarrow> support_artifact \<Rightarrow> bundle_space \<Rightarrow> string res" where
  "stored_bytes w g a s =
     bind_res (resolve_reference g (sa_reference a) s) (\<lambda>_.
       case map_of (bw_bundles s) (sa_artifact_ref a) of
         Some (Bundle_File data) \<Rightarrow>
           if max_artifact_bytes < length data \<or> contains_secret_marker (bo_secret w) data
           then Inl support_unavailable else Inr data
       | Some Bundle_Link \<Rightarrow> Inl unsafe_selected
       | _ \<Rightarrow> Inl support_unavailable)"

definition read_checks :: "bundle_world \<Rightarrow> support_request \<Rightarrow> support_artifact \<Rightarrow> string bundle_op" where
  "read_checks w q a =
     then_op (check w q) (\<lambda>_.
     then_op (returns (selection_matches_artifact a q)) (\<lambda>_.
     then_op (reads (load_artifact (sa_artifact_ref a))) (\<lambda>stored.
       if stored \<noteq> a then returns (Inl conflict)
       else then_op (reads (stored_bytes w (bq_grant q) stored)) (\<lambda>data.
         then_op (check w q) (\<lambda>_.
         then_op (returns (inspect_archive w data)) (\<lambda>_. returns (Inr data)))))))"

definition accessed :: "access_lifecycle \<times> access_result" where
  "accessed = (AL_ACCESSED, AR_SUCCESS)"

definition read_body :: "bundle_world \<Rightarrow> support_request \<Rightarrow> support_artifact \<Rightarrow> string bundle_op" where
  "read_body w q a =
     then_op (read_checks w q a) (\<lambda>data.
     then_op (audit_now w q accessed (Some (sa_artifact_ref a))) (\<lambda>_. returns (Inr data)))"

definition read_bundle :: "bundle_world \<Rightarrow> support_request \<Rightarrow> support_artifact \<Rightarrow> string bundle_op" where
  "read_bundle w q a =
     then_op (reads audit_writer) (\<lambda>_.
       audited (\<lambda>e. audit_now w q (failure_lifecycle e) (Some (sa_artifact_ref a))) (read_body w q a))"

end
