(* ===== verification/Support_Bundle_Laws.thy ===== *)
theory Support_Bundle_Laws
  imports Support_Bundles Deletion_Audit_Laws Paas_Claim_Laws
begin

text \<open>
  What making and reading a support bundle keeps: which checks of the authority stood, what the bundle
  holds, what is left after a failure, and what the access stream says.
\<close>

section \<open>Names with digests\<close>

lemma short_digest_hex: "list_all is_hex_char (short_digest v)" "length (short_digest v) = 40"
proof -
  have "length (sha_blocks n ws sha_init) = 8" for n ws by (simp add: length_sha_blocks sha_init_def)
  then have "list_all is_hex_char (sha256_hex s)" "length (sha256_hex s) = 64" for s
    using concat_hex_words by (simp_all add: sha256_hex_def Let_def)
  then show "list_all is_hex_char (short_digest v)" "length (short_digest v) = 40"
    by (auto simp: short_digest_def list_all_iff dest: in_set_takeD)
qed

lemma support_words_not_hex: "\<forall>w \<in> set support_forbidden. \<exists>c \<in> set w. \<not> is_hex_char c"
  by (simp add: support_forbidden_def char_defs)

lemma hex_not_special: "is_hex_char c \<Longrightarrow> c \<noteq> CHR ''/'' \<and> c \<noteq> CHR ''.'' \<and> c \<noteq> CHR 0x5C"
  by (auto simp: char_defs)

lemma has_ending_subset: "has_ending e t \<Longrightarrow> set e \<subseteq> set t"
  by (metis has_ending_def set_drop_subset)

lemma endings_dotted: "\<forall>e \<in> set content_suffixes. CHR ''.'' \<in> set e"
  by (simp add: content_suffixes_def)

lemma no_dot_in:
  assumes "CHR ''.'' \<notin> set s"
  shows "\<not> occurs_in ''..'' s" "\<not> list_ex (\<lambda>e. has_ending e (map lower_char s)) content_suffixes"
proof -
  show "\<not> occurs_in ''..'' s"
    using assms set_mono_sublist [of "''..''" s] by (auto simp: occurs_in_sublist)
  have "CHR ''.'' \<notin> lower_char ` set s"
  proof
    assume "CHR ''.'' \<in> lower_char ` set s"
    then obtain c where c: "c \<in> set s" "lower_char c = CHR ''.''" by force
    show False
    proof (cases "is_upper_char c")
      case True
      with c(2) show False by (cases c; cases "digit5 c") (auto simp: char_defs)
    next
      case False
      with c assms show False by (simp add: lower_char_def)
    qed
  qed
  then show "\<not> list_ex (\<lambda>e. has_ending e (map lower_char s)) content_suffixes"
    using endings_dotted by (fastforce simp: list_ex_iff dest: has_ending_subset)
qed

lemma digest_identity:
  assumes "support_identity p" "length p < 40" "CHR ''.'' \<notin> set p"
  shows "support_identity (p @ CHR ''-'' # short_digest v)"
proof -
  have dash: "\<forall>w \<in> set support_forbidden. lower_char CHR ''-'' \<notin> set w"
    by (simp add: support_forbidden_def char_defs)
  let ?s = "p @ CHR ''-'' # short_digest v"
  have words: "\<not> contains_word support_forbidden ?s"
    using contains_word_hex [OF support_words_not_hex short_digest_hex(1)] assms(1)
    by (simp add: contains_word_between [OF dash] support_identity_def)
  have "CHR ''.'' \<notin> set ?s" "CHR ''/'' \<notin> set ?s" "CHR 0x5C \<notin> set ?s"
    using assms(1,3) short_digest_hex(1) hex_not_special by (auto simp: support_identity_def list_all_iff)
  moreover obtain c cs where cs: "p = c # cs"
    using assms(1) by (cases p) (auto simp: support_identity_def matches_paas_identifier_def)
  then have "matches_paas_identifier ?s"
    using assms(1,2) short_digest_hex [of v]
    by (auto simp: support_identity_def matches_paas_identifier_def list_all_iff hex_alnum)
  ultimately show ?thesis using words no_dot_in [of ?s] by (simp add: support_identity_def)
qed

lemma artifact_identity_valid [simp]: "support_identity (artifact_identity q)"
proof -
  have "support_identity ''support-artifact''" by code_simp
  from digest_identity [OF this] show ?thesis by (simp add: artifact_identity_def)
qed

lemma selection_identity_valid [simp]: "support_identity (selection_identity xs)"
proof -
  have "support_identity ''selection''" by code_simp
  from digest_identity [OF this] show ?thesis by (simp add: selection_identity_def)
qed

section \<open>Times\<close>

lemma time_text_digits:
  assumes "valid_utc t"
  shows "matches_timestamp (time_text t)"
proof (cases t)
  case (UTC y mo d h mi sec us)
  have days: "days_in_month y mo \<le> 31" by (simp add: days_in_month_def)
  then have small: "y < 10000" "mo < 100" "d < 100" "h < 100" "mi < 100" "sec < 100" "us < 1000000"
    using assms by (simp_all add: UTC)
  obtain y1 y2 y3 y4 where y: "pad_nat 4 y = [y1, y2, y3, y4]" "list_all is_digit_char [y1, y2, y3, y4]"
    by (rule pad_four [OF small(1)])
  obtain m1 m2 where mo: "pad_nat 2 mo = [m1, m2]" "is_digit_char m1" "is_digit_char m2" by (rule pad_two [OF small(2)])
  obtain d1 d2 where d: "pad_nat 2 d = [d1, d2]" "is_digit_char d1" "is_digit_char d2" by (rule pad_two [OF small(3)])
  obtain h1 h2 where h: "pad_nat 2 h = [h1, h2]" "is_digit_char h1" "is_digit_char h2" by (rule pad_two [OF small(4)])
  obtain i1 i2 where i: "pad_nat 2 mi = [i1, i2]" "is_digit_char i1" "is_digit_char i2" by (rule pad_two [OF small(5)])
  obtain s1 s2 where s: "pad_nat 2 sec = [s1, s2]" "is_digit_char s1" "is_digit_char s2" by (rule pad_two [OF small(6)])
  have "length (pad_nat 6 us) = 6" using small(7) by (simp add: pad_length)
  then show ?thesis
    using y mo d h i s pad_digits [of 6 us]
    by (simp add: UTC matches_timestamp_def matches_shape_def list_all2_Cons1)
qed

lemma support_time_round: "valid_utc t \<Longrightarrow> support_time (time_text t) = Some t"
  using time_round_trip [of t undefined] time_text_digits [of t]
  by (auto simp: support_time_def time_of_def split: option.splits)

lemma support_time_text: "valid_utc t \<Longrightarrow> support_time (time_text t) \<noteq> None"
  by (simp add: support_time_round)

section \<open>Standing approval\<close>

text \<open>
  At a tick an approval stands when the authority answers with the very decision of the request, its
  status and every approval approved, at a time in the decision's window.
\<close>

definition stands :: "bundle_world \<Rightarrow> support_request \<Rightarrow> nat \<Rightarrow> bool" where
  "stands w q n \<longleftrightarrow> (let au = bo_authority w; g = bq_grant q in
     (bo_production w \<longrightarrow> ay_production au)
     \<and> ay_resolve au n (grant_key g) = Lookup_Grant (g\<lparr>gt_status := GS_APPROVED\<rparr>)
     \<and> list_all (\<lambda>a. av_status a = AS_APPROVED) (gt_approvals g)
     \<and> (\<exists>i b e. support_time (gt_issued_at g) = Some i \<and> support_time (gt_not_before_at g) = Some b
          \<and> support_time (gt_expires_at g) = Some e
          \<and> i \<le> ay_clock au n \<and> b \<le> ay_clock au n \<and> ay_clock au n < e))"

text \<open>The answers of an authority are decisions, which their constructor has checked.\<close>

definition typed_answers :: "bundle_world \<Rightarrow> bool" where
  "typed_answers w \<longleftrightarrow> (\<forall>n k g. ay_resolve (bo_authority w) n k = Lookup_Grant g \<longrightarrow> wf_grant g)"

lemma authorize_stands:
  assumes "authorize (bo_authority w) (bo_production w) q n = Inr g" "typed_answers w" "wf_bundle_request q"
  shows "stands w q n" "g = (bq_grant q)\<lparr>gt_status := GS_APPROVED\<rparr>"
proof -
  from assms(1) have answer: "ay_resolve (bo_authority w) n (grant_key (bq_grant q)) = Lookup_Grant g"
    and same: "decision_binding g = decision_binding (bq_grant q)"
    and prod: "bo_production w \<longrightarrow> ay_production (bo_authority w)" and status: "gt_status g = GS_APPROVED"
    and times: "\<exists>i b e. grant_times g = Inr (i, b, e) \<and> \<not> ay_clock (bo_authority w) n < i
        \<and> \<not> ay_clock (bo_authority w) n < b \<and> \<not> e \<le> ay_clock (bo_authority w) n"
    and approved: "\<not> list_ex (\<lambda>a. av_status a \<noteq> AS_APPROVED) (gt_approvals g)"
    by (auto simp: authorize_def provider_decision_def bind_res_Inr_iff
        split: if_splits authority_answer.splits grant_status.splits)
  have "wf_grant g" using answer assms(2) unfolding typed_answers_def by blast
  moreover have "wf_grant (bq_grant q)" using assms(3) by (simp add: wf_bundle_request_def)
  ultimately have "g\<lparr>gt_status := gt_status (bq_grant q)\<rparr> = bq_grant q" by (rule binding_determines [OF same])
  then have g: "bq_grant q\<lparr>gt_status := GS_APPROVED\<rparr> = g"
    using status by (cases g) (auto dest: arg_cong [where f = "gt_status_update (\<lambda>_. GS_APPROVED)"])
  then show "g = (bq_grant q)\<lparr>gt_status := GS_APPROVED\<rparr>" by simp
  have fields: "gt_approvals (bq_grant q) = gt_approvals g" "gt_issued_at (bq_grant q) = gt_issued_at g"
    "gt_not_before_at (bq_grant q) = gt_not_before_at g" "gt_expires_at (bq_grant q) = gt_expires_at g"
    by (simp_all add: g [symmetric])
  show "stands w q n"
    using times approved answer prod
    by (auto simp: stands_def Let_def g fields grant_times_def list_all_iff list_ex_iff not_less not_le
        split: option.splits)
qed

lemma stands_authorize:
  assumes "stands w q n"
  shows "authorize (bo_authority w) (bo_production w) q n = Inr ((bq_grant q)\<lparr>gt_status := GS_APPROVED\<rparr>)"
proof -
  have "decision_binding ((bq_grant q)\<lparr>gt_status := GS_APPROVED\<rparr>) = decision_binding (bq_grant q)"
    by (simp add: decision_binding_def without_key_def grant_fields_def)
  then show ?thesis
    using assms
    by (auto simp: stands_def Let_def authorize_def provider_decision_def grant_times_def list_all_iff list_ex_iff)
qed

lemma check_Inr:
  assumes "check w q s = (Inr g, s')" "typed_answers w" "wf_bundle_request q"
  shows "stands w q (bw_tick s) \<and> g = (bq_grant q)\<lparr>gt_status := GS_APPROVED\<rparr> \<and> s' = s\<lparr>bw_tick := bw_tick s + 1\<rparr>"
  using assms(1) authorize_stands [OF _ assms(2,3)]
  by (auto simp: check_def tick_def then_op_Inr_iff split: sum.splits)

section \<open>What the steps leave alone\<close>

definition only_log :: "bundle_space \<Rightarrow> bundle_space \<Rightarrow> bool" where
  "only_log s s' \<longleftrightarrow> s' = s\<lparr>bw_log := bw_log s', bw_tick := bw_tick s'\<rparr>"

lemma only_log_order [simp]: "reflp only_log" "transp only_log"
proof -
  show "reflp only_log" by (rule reflpI) (simp add: only_log_def)
  show "transp only_log"
  proof (rule transpI)
    fix a b c assume "only_log a b" "only_log b c"
    then show "only_log a c" by (cases a; cases b; cases c) (simp add: only_log_def)
  qed
qed

lemma keeps_log_reading [simp]: "keeps only_log (reads f)" "keeps only_log (returns x)"
  by (simp_all add: keeps_reads keeps_returns)

lemma keeps_log_then: "keeps only_log m \<Longrightarrow> (\<And>x. keeps only_log (f x)) \<Longrightarrow> keeps only_log (then_op m f)"
  by (rule keeps_then) simp_all

lemma keeps_log_tick [simp]: "keeps only_log tick"
  by (simp add: keeps_def tick_def only_log_def)

lemma keeps_log_check [simp]: "keeps only_log (check w q)"
  by (simp add: check_def keeps_log_then)

lemma keeps_log_write [simp]: "keeps only_log (on_log f)"
  by (simp add: keeps_def on_log_def only_log_def split: prod.splits)

lemma keeps_log_audit [simp]: "keeps only_log (audit_at q now kind a)" "keeps only_log (audit_now w q kind a)"
  by (simp_all add: audit_at_def audit_now_def keeps_log_then)

lemma audited_split:
  assumes "audited rec m s = (r, s')"
  obtains "m s = (r, s')" | c s1 where "m s = (Inl (KSlideError c), s1)"
    "then_op (rec (KSlideError c)) (\<lambda>_. returns (Inl (KSlideError c))) s1 = (r, s')"
proof -
  obtain x s1 where m: "m s = (x, s1)" by fastforce
  show thesis
  proof (cases "\<exists>c. x = Inl (KSlideError c)")
    case True
    with assms m that(2) show thesis by (auto simp: audited_def)
  next
    case False
    with assms m have "m s = (r, s')" by (auto simp: audited_def split: sum.splits err.splits)
    with that(1) show thesis .
  qed
qed

lemma keeps_log_audited [simp]:
  assumes "\<And>e. keeps only_log (rec e)" "keeps only_log m"
  shows "keeps only_log (audited rec m)"
proof (rule keepsI)
  fix s r s'
  assume "audited rec m s = (r, s')"
  then show "only_log s s'"
  proof (cases rule: audited_split)
    case 1
    with assms(2) show ?thesis by (rule keepsD)
  next
    case (2 c s1)
    have "keeps only_log (then_op (rec (KSlideError c)) (\<lambda>_. returns (Inl (KSlideError c) :: 'a res)))"
      by (simp add: assms(1) keeps_log_then)
    with 2(2) keepsD [OF assms(2) 2(1)] show ?thesis using keepsD transpD [OF only_log_order(2)] by metis
  qed
qed

lemma keeps_log_collect [simp]: "keeps only_log (collect w q g i used xs)"
  by (induction xs arbitrary: i used) (auto simp: intro!: keeps_log_then)

lemma keeps_log_reuse [simp]: "keeps only_log (reuse_bundle w q ref)"
  by (auto simp: reuse_bundle_def intro!: keeps_log_then)

lemma keeps_log_read [simp]: "keeps only_log (read_bundle w q a)"
proof -
  have "keeps only_log (read_body w q a)" by (auto simp: read_body_def read_checks_def intro!: keeps_log_then)
  then show ?thesis by (auto simp: read_bundle_def intro!: keeps_log_then)
qed

section \<open>Collecting the selected content\<close>

lemma read_selected_same: "only_log s s' \<Longrightarrow> read_selected w g x s' = read_selected w g x s"
  by (cases s; cases s') (simp add: only_log_def read_selected_def outside_run_def resolve_reference_def)

lemma collect_Inr:
  assumes "collect w q g i used xs s = (Inr items, s')" "typed_answers w" "wf_bundle_request q"
  shows "s' = s\<lparr>bw_tick := bw_tick s + length xs\<rparr> \<and> (\<forall>n \<in> {bw_tick s..<bw_tick s + length xs}. stands w q n)
    \<and> length items = length xs
    \<and> (\<forall>k < length xs. \<exists>data. read_selected w g (xs ! k) s = Inr data \<and> items ! k = (item_name (i + k) (se_class (xs ! k)), data))"
  using assms(1)
proof (induction xs arbitrary: i used s items)
  case (Cons x xs)
  let ?s1 = "s\<lparr>bw_tick := bw_tick s + 1\<rparr>"
  from Cons.prems obtain data rest where ok: "stands w q (bw_tick s)"
    and data: "read_selected w g x ?s1 = Inr data"
    and rest: "collect w q g (i + 1) (used + length data) xs ?s1 = (Inr rest, s')"
    and items: "items = (item_name i (se_class x), data) # rest"
    by (auto simp: op_Inr_iffs simp del: then_op_simps dest!: check_Inr [OF _ assms(2,3)] split: if_splits)
  have same: "only_log s ?s1" by (simp add: only_log_def)
  have at: "read_selected w g y ?s1 = read_selected w g y s" for y by (rule read_selected_same [OF same])
  from Cons.IH [OF rest] have IH: "s' = ?s1\<lparr>bw_tick := bw_tick s + 1 + length xs\<rparr>"
    "\<forall>n \<in> {bw_tick s + 1..<bw_tick s + 1 + length xs}. stands w q n" "length rest = length xs"
    "\<forall>k < length xs. \<exists>data. read_selected w g (xs ! k) s = Inr data
       \<and> rest ! k = (item_name (i + 1 + k) (se_class (xs ! k)), data)"
    by (simp_all add: at [simplified])
  have "stands w q n" if "n \<in> {bw_tick s..<bw_tick s + length (x # xs)}" for n
    using that ok IH(2) by (cases "n = bw_tick s") auto
  moreover have "\<exists>data. read_selected w g ((x # xs) ! k) s = Inr data
      \<and> items ! k = (item_name (i + k) (se_class ((x # xs) ! k)), data)" if "k < length (x # xs)" for k
    using that data IH(4) by (cases k) (simp_all add: items at [simplified])
  ultimately show ?case using IH(1,3) by (simp add: items)
qed simp

section \<open>Recorded accesses\<close>

definition access_line :: "support_request \<Rightarrow> utc \<Rightarrow> access_lifecycle \<times> access_result \<Rightarrow> string option \<Rightarrow> stream_line" where
  "access_line q now kind a = Line_Json (event_as_dict (access_event q now kind a))"

definition with_line :: "stream_line \<Rightarrow> bundle_space \<Rightarrow> bundle_space" where
  "with_line l s = s\<lparr>bw_log := (bw_log s)\<lparr>lg_file := append_line l (lg_file (bw_log s))\<rparr>\<rparr>"

lemma write_event_access:
  assumes "write_event e l = (Inr (), l')" "ev_lifecycle e \<noteq> AL_DELETED"
  shows "l' = l\<lparr>lg_file := append_line (Line_Json (event_as_dict e)) (lg_file l)\<rparr>"
  using assms by (auto simp: write_event_def split: if_splits)

lemma event_post_init_access:
  "event_post_init (access_event q now kind a) = Inr e \<Longrightarrow> e = access_event q now kind a"
  by (rule event_post_init_same)

lemma access_event_lifecycle [simp]: "ev_lifecycle (access_event q now kind a) = fst kind"
  by (simp add: access_event_def Let_def)

lemma audit_at_Inr:
  assumes "audit_at q now kind a s = (Inr (), s')" "fst kind \<noteq> AL_DELETED"
  shows "s' = with_line (access_line q now kind a) s"
proof -
  from assms(1) obtain e where e: "event_post_init (access_event q now kind a) = Inr e"
    and run: "on_log (write_event e) s = (Inr (), s')"
    by (auto simp: audit_at_def op_Inr_iffs simp del: then_op_simps)
  obtain l where l: "write_event e (bw_log s) = (Inr (), l)" "s' = s\<lparr>bw_log := l\<rparr>"
    using run by (cases "write_event e (bw_log s)") (auto simp: on_log_def)
  from event_post_init_access [OF e] assms(2) write_event_access [OF l(1)] l(2)
  show ?thesis by (simp add: with_line_def access_line_def)
qed

lemma audit_now_Inr:
  assumes "audit_now w q kind a s = (Inr (), s')" "fst kind \<noteq> AL_DELETED"
  shows "s' = with_line (access_line q (ay_clock (bo_authority w) (bw_tick s)) kind a) (s\<lparr>bw_tick := bw_tick s + 1\<rparr>)"
  using assms by (auto simp: audit_now_def tick_def then_op_Inr_iff dest!: audit_at_Inr)

text \<open>When the stream can be written, recording an access succeeds.\<close>

definition log_ready :: "bundle_space \<Rightarrow> bool" where
  "log_ready s \<longleftrightarrow> lg_writable (bw_log s) \<and> lg_file (bw_log s) \<noteq> Stream_Unreadable"

lemma access_event_valid:
  assumes "wf_bundle_request q" "valid_utc now" "case a of None \<Rightarrow> True | Some r \<Rightarrow> support_identity r"
  shows "event_post_init (access_event q now kind a) = Inr (access_event q now kind a)"
proof -
  have "grant_post_init (bq_grant q) = Inr (bq_grant q)" using assms(1) by (simp add: wf_bundle_request_def wf_grant_def)
  then have "\<forall>c \<in> set (grant_checks (bq_grant q)). \<not> fst c"
    by (simp add: grant_post_init_def bind_guards_Inr_iff)
  then show ?thesis
    using assms(2,3) support_time_text [OF assms(2)]
    by (auto simp: event_post_init_def bind_guards_Inr_iff access_event_def Let_def grant_checks_def identity_checks_def
        time_checks_def split: option.splits)
qed

lemma audit_at_ready:
  assumes "wf_bundle_request q" "valid_utc now" "case a of None \<Rightarrow> True | Some r \<Rightarrow> support_identity r"
    and "log_ready s" "fst kind \<noteq> AL_DELETED"
  shows "audit_at q now kind a s = (Inr (), with_line (access_line q now kind a) s)"
  using access_event_valid [OF assms(1-3)] assms(4,5)
  by (simp add: audit_at_def on_log_def write_event_def log_ready_def with_line_def access_line_def)

lemma audit_now_ready:
  assumes "wf_bundle_request q" "\<forall>n. valid_utc (ay_clock (bo_authority w) n)"
    and "case a of None \<Rightarrow> True | Some r \<Rightarrow> support_identity r" "log_ready s" "fst kind \<noteq> AL_DELETED"
  shows "audit_now w q kind a s
    = (Inr (), with_line (access_line q (ay_clock (bo_authority w) (bw_tick s)) kind a) (s\<lparr>bw_tick := bw_tick s + 1\<rparr>))"
proof -
  have "log_ready (s\<lparr>bw_tick := bw_tick s + 1\<rparr>)" using assms(4) by (simp add: log_ready_def)
  from audit_at_ready [OF assms(1) _ assms(3) this assms(5)] assms(2) show ?thesis
    by (simp add: audit_now_def tick_def)
qed

end
