(* ===== verification/Support_Bundle_Outcomes.thy ===== *)
theory Support_Bundle_Outcomes
  imports Support_Bundle_Laws
begin

text \<open>
  The outcomes of making and reading a bundle: what success means for the authority's answers, the
  files and the access stream, and what a failure leaves.
\<close>

section \<open>A new bundle\<close>

lemma write_bundle_Inr:
  "write_bundle w ref data s = (Inr x, s') \<Longrightarrow> s' = s\<lparr>bw_bundles := AList.update ref (Bundle_File data) (bw_bundles s)\<rparr>"
  by (auto simp: write_bundle_def split: if_splits)

lemma write_metadata_Inr:
  "write_metadata w ref v s = (Inr x, s')
    \<Longrightarrow> s' = s\<lparr>bw_metadata := AList.update ref (Metadata_File (Some v)) (bw_metadata s)\<rparr>"
  by (auto simp: write_metadata_def split: if_splits)

lemma publish_Inr:
  assumes "publish w q ref a s = (Inr b, s')" "typed_answers w" "wf_bundle_request q"
  shows "b = a \<and> stands w q (bw_tick s) \<and> stands w q (bw_tick s + 1)
    \<and> s' = with_line (access_line q (ay_clock (bo_authority w) (bw_tick s + 2)) materialized (Some ref))
        (s\<lparr>bw_metadata := AList.update ref (Metadata_File (Some (artifact_as_dict a))) (bw_metadata s), bw_tick := bw_tick s + 3\<rparr>)"
proof -
  let ?body = "then_op (check w q) (\<lambda>_. then_op (write_metadata w ref (artifact_as_dict a)) (\<lambda>_.
      then_op (check w q) (\<lambda>_. audit_now w q materialized (Some ref))))"
  from assms(1) have "?body s = (Inr (), s')" and b: "b = a"
    by (auto simp: publish_def split: prod.splits sum.splits)
  then obtain g1 s1 s2 g3 s3 where c1: "check w q s = (Inr g1, s1)"
    and m: "write_metadata w ref (artifact_as_dict a) s1 = (Inr (), s2)"
    and c2: "check w q s2 = (Inr g3, s3)"
    and l: "audit_now w q materialized (Some ref) s3 = (Inr (), s')"
    by (auto simp: then_op_Inr_iff simp del: then_op_simps)
  from check_Inr [OF c1 assms(2,3)] have 1: "stands w q (bw_tick s)" "s1 = s\<lparr>bw_tick := bw_tick s + 1\<rparr>" by simp_all
  from write_metadata_Inr [OF m] 1(2)
  have 2: "s2 = s\<lparr>bw_metadata := AList.update ref (Metadata_File (Some (artifact_as_dict a))) (bw_metadata s), bw_tick := bw_tick s + 1\<rparr>"
    by simp
  from check_Inr [OF c2 assms(2,3)] 2 have 3: "stands w q (bw_tick s + 1)"
    "s3 = s\<lparr>bw_metadata := AList.update ref (Metadata_File (Some (artifact_as_dict a))) (bw_metadata s), bw_tick := bw_tick s + 2\<rparr>"
    by simp_all
  have "s' = with_line (access_line q (ay_clock (bo_authority w) (bw_tick s3)) materialized (Some ref)) (s3\<lparr>bw_tick := bw_tick s3 + 1\<rparr>)"
    by (rule audit_now_Inr [OF l]) (simp add: materialized_def)
  with 1 3 b show ?thesis by (simp add: eval_nat_numeral)
qed

lemma audited_Inr: "audited rec m s = (Inr x, s') \<Longrightarrow> m s = (Inr x, s')"
  by (erule audited_split) (auto elim: then_op_split)

text \<open>What a new bundle consists of: the manifest, then the selected sources without secrets.\<close>

definition selected_source :: "bundle_world \<Rightarrow> bundle_space \<Rightarrow> support_selection \<Rightarrow> string \<Rightarrow> bool" where
  "selected_source w s x data \<longleftrightarrow> (\<exists>raw. map_of (bw_sources s) (path_parts (sg_path (se_reference x))) = Some (Source_File raw)
     \<and> length raw \<le> max_artifact_bytes \<and> data = safe_content_bytes (bo_secret w) raw)"

definition bundle_items ::
  "bundle_world \<Rightarrow> bundle_space \<Rightarrow> support_selection list \<Rightarrow> (string \<times> string) list \<Rightarrow> bool"
where
  "bundle_items w s xs items \<longleftrightarrow> length items = length xs
     \<and> (\<forall>k < length xs. fst (items ! k) = item_name (k + 1) (se_class (xs ! k)) \<and> selected_source w s (xs ! k) (snd (items ! k)))"

lemma read_selected_source: "read_selected w g x s = Inr data \<Longrightarrow> selected_source w s x data"
  by (auto simp: read_selected_def resolve_reference_def bind_res_Inr_iff selected_source_def
      split: if_splits option.splits source_node.splits)

definition grown :: "bundle_space \<Rightarrow> string \<Rightarrow> string \<Rightarrow> support_artifact \<Rightarrow> bundle_space" where
  "grown s ref data a = s\<lparr>bw_bundles := AList.update ref (Bundle_File data) (bw_bundles s),
     bw_metadata := AList.update ref (Metadata_File (Some (artifact_as_dict a))) (bw_metadata s)\<rparr>"

lemma new_bundle_Inr:
  assumes "new_bundle w q g now ref r s = (Inr a, s')" "typed_answers w" "wf_bundle_request q"
  shows "\<exists>items. bundle_items w s (bq_selections q) items
    \<and> artifact_post_init (new_artifact q g r now) = Inr a
    \<and> (\<forall>n \<in> {bw_tick s..<bw_tick s' - 1}. stands w q n)
    \<and> bw_tick s' = bw_tick s + length (bq_selections q) + 4
    \<and> s' = with_line (access_line q (ay_clock (bo_authority w) (bw_tick s' - 1)) materialized (Some ref))
        ((grown s ref (bo_pack w ((''support-manifest.json'', bo_manifest_text w (manifest_json q g (length items))) # items)) a)
          \<lparr>bw_tick := bw_tick s'\<rparr>)"
proof -
  from assms(1) obtain items s1 g2 s2 s3 b where
      c: "collect w q g 1 0 (bq_selections q) s = (Inr items, s1)"
    and k: "check w q s1 = (Inr g2, s2)"
    and z: "write_bundle w ref (bo_pack w ((''support-manifest.json'', bo_manifest_text w (manifest_json q g (length items))) # items)) s2
        = (Inr (), s3)"
    and b: "artifact_post_init (new_artifact q g r now) = Inr b"
    and pb: "publish w q ref b s3 = (Inr a, s')"
    by (auto simp: new_bundle_def op_Inr_iffs simp del: then_op_simps dest!: audited_Inr)
  from publish_Inr [OF pb assms(2,3)] have "a = b" by simp
  with b pb have a: "artifact_post_init (new_artifact q g r now) = Inr a" and p: "publish w q ref a s3 = (Inr a, s')"
    by simp_all
  let ?n = "length (bq_selections q)" and ?t = "bw_tick s"
  from collect_Inr [OF c assms(2,3)] have 1: "s1 = s\<lparr>bw_tick := ?t + ?n\<rparr>" "\<forall>n \<in> {?t..<?t + ?n}. stands w q n"
    and items: "bundle_items w s (bq_selections q) items"
    by (auto simp: bundle_items_def dest!: read_selected_source)
  from check_Inr [OF k assms(2,3)] 1(1) have 2: "stands w q (?t + ?n)" "s2 = s\<lparr>bw_tick := ?t + ?n + 1\<rparr>" by simp_all
  from publish_Inr [OF p assms(2,3)] write_bundle_Inr [OF z] 2(2)
  have 3: "stands w q (?t + ?n + 1)" "stands w q (?t + ?n + 2)"
    "s' = with_line (access_line q (ay_clock (bo_authority w) (?t + ?n + 3)) materialized (Some ref))
        ((grown s ref (bo_pack w ((''support-manifest.json'', bo_manifest_text w (manifest_json q g (length items))) # items)) a)
          \<lparr>bw_tick := ?t + ?n + 4\<rparr>)"
    by (simp_all add: grown_def eval_nat_numeral)
  have t: "bw_tick s' = ?t + ?n + 4" by (simp add: 3(3) with_line_def)
  have "stands w q n" if "n \<in> {?t..<bw_tick s' - 1}" for n
  proof -
    have n: "?t \<le> n" "n < ?t + ?n + 3" using \<open>n \<in> {?t..<bw_tick s' - 1}\<close> by (simp_all add: t)
    then consider "n < ?t + ?n" | "n = ?t + ?n" | "n = ?t + ?n + 1" | "n = ?t + ?n + 2" by linarith
    then show ?thesis by cases (use n 1(2) 2(1) 3(1,2) in simp_all)
  qed
  moreover have before: "bw_tick s' - 1 = ?t + ?n + 3" using t by simp
  have "s' = with_line (access_line q (ay_clock (bo_authority w) (bw_tick s' - 1)) materialized (Some ref))
      ((grown s ref (bo_pack w ((''support-manifest.json'', bo_manifest_text w (manifest_json q g (length items))) # items)) a)
        \<lparr>bw_tick := bw_tick s'\<rparr>)"
    unfolding before unfolding t by (rule 3(3))
  ultimately show ?thesis using items a t by blast
qed

section \<open>An existing bundle\<close>

lemma reuse_bundle_Inr:
  assumes "reuse_bundle w q ref s = (Inr a, s')" "typed_answers w" "wf_bundle_request q"
  shows "stands w q (bw_tick s) \<and> load_artifact ref s = Inr a \<and> selection_matches_artifact a q = Inr ()
    \<and> s' = with_line (access_line q (ay_clock (bo_authority w) (bw_tick s + 1)) materialized (Some (sa_artifact_ref a)))
        (s\<lparr>bw_tick := bw_tick s + 2\<rparr>)"
proof -
  from assms(1) obtain g s1 where load: "load_artifact ref s = Inr a" and ok: "selection_matches_artifact a q = Inr ()"
    and c: "check w q s = (Inr g, s1)" and l: "audit_now w q materialized (Some (sa_artifact_ref a)) s1 = (Inr (), s')"
    by (auto simp: reuse_bundle_def op_Inr_iffs simp del: then_op_simps)
  from check_Inr [OF c assms(2,3)] have 1: "stands w q (bw_tick s)" "s1 = s\<lparr>bw_tick := bw_tick s + 1\<rparr>" by simp_all
  have "s' = with_line (access_line q (ay_clock (bo_authority w) (bw_tick s1)) materialized (Some (sa_artifact_ref a)))
      (s1\<lparr>bw_tick := bw_tick s1 + 1\<rparr>)"
    by (rule audit_now_Inr [OF l]) (simp add: materialized_def)
  with 1 load ok show ?thesis by simp
qed

section \<open>Materialization\<close>

text \<open>What the two ways have in common, and what tells them apart.\<close>

definition free_name :: "string \<Rightarrow> bundle_space \<Rightarrow> bool" where
  "free_name ref s \<longleftrightarrow> map_of (bw_bundles s) ref = None \<and> map_of (bw_metadata s) ref = None"

abbreviation approved_grant :: "support_request \<Rightarrow> support_grant" where
  "approved_grant q \<equiv> (bq_grant q)\<lparr>gt_status := GS_APPROVED\<rparr>"

lemma materialize_Inr:
  assumes "materialize_bundle w q s = (Inr a, s')" "typed_answers w" "wf_bundle_request q"
  obtains (reused) "\<not> free_name (artifact_identity q) s" "\<not> outside_run (approved_grant q) s"
      "stands w q (bw_tick s)" "stands w q (bw_tick s + 1)" "load_artifact (artifact_identity q) s = Inr a"
      "selection_matches_artifact a q = Inr ()"
      "s' = with_line (access_line q (ay_clock (bo_authority w) (bw_tick s + 2)) materialized (Some (sa_artifact_ref a)))
        (s\<lparr>bw_tick := bw_tick s + 3\<rparr>)"
  | (made) items r where "free_name (artifact_identity q) s" "\<not> outside_run (approved_grant q) s"
      "bundle_reference s (artifact_identity q) = Inr r"
      "artifact_post_init (new_artifact q (approved_grant q) r (ay_clock (bo_authority w) (bw_tick s))) = Inr a"
      "bundle_items w s (bq_selections q) items"
      "\<forall>n \<in> {bw_tick s..<bw_tick s' - 1}. stands w q n" "bw_tick s' = bw_tick s + length (bq_selections q) + 5"
      "s' = with_line (access_line q (ay_clock (bo_authority w) (bw_tick s' - 1)) materialized (Some (artifact_identity q)))
        ((grown s (artifact_identity q) (bo_pack w ((''support-manifest.json'',
            bo_manifest_text w (manifest_json q (approved_grant q) (length items))) # items)) a)\<lparr>bw_tick := bw_tick s'\<rparr>)"
proof -
  let ?ref = "artifact_identity q" and ?s1 = "s\<lparr>bw_tick := bw_tick s + 1\<rparr>"
  let ?now = "ay_clock (bo_authority w) (bw_tick s)"
  from assms(1) obtain g s1 where c: "check w q s = (Inr g, s1)"
    and rest: "\<not> outside_run g s1" "\<exists>r. bundle_reference s1 ?ref = Inr r
      \<and> (if \<not> free_name ?ref s1 then reuse_bundle w q ?ref s1 = (Inr a, s')
          else new_bundle w q g ?now ?ref r s1 = (Inr a, s'))"
    by (auto simp: materialize_bundle_def op_Inr_iffs free_name_def simp del: then_op_simps dest!: audited_Inr
        split: if_splits)
  from check_Inr [OF c assms(2,3)] have 1: "stands w q (bw_tick s)" "g = approved_grant q" "s1 = ?s1" by simp_all
  have same: "outside_run g s1 = outside_run g s" "bundle_reference s1 ?ref = bundle_reference s ?ref"
    "free_name ?ref s1 = free_name ?ref s" "load_artifact ?ref s1 = load_artifact ?ref s"
    by (simp_all add: 1(3) outside_run_def bundle_reference_def free_name_def load_artifact_def)
  show thesis
  proof (cases "free_name ?ref s")
    case False
    with rest same have "reuse_bundle w q ?ref s1 = (Inr a, s')" by auto
    from reuse_bundle_Inr [OF this assms(2,3)] False rest(1) 1 same show thesis
      by (intro reused) (simp_all add: eval_nat_numeral)
  next
    case True
    with rest same obtain r where r: "bundle_reference s ?ref = Inr r"
      and new: "new_bundle w q g ?now ?ref r s1 = (Inr a, s')" by auto
    from new_bundle_Inr [OF new assms(2,3)] obtain items where
        n: "bundle_items w s1 (bq_selections q) items" "artifact_post_init (new_artifact q g r ?now) = Inr a"
        "\<forall>n \<in> {bw_tick s1..<bw_tick s' - 1}. stands w q n" "bw_tick s' = bw_tick s1 + length (bq_selections q) + 4"
        "s' = with_line (access_line q (ay_clock (bo_authority w) (bw_tick s' - 1)) materialized (Some ?ref))
          ((grown s1 ?ref (bo_pack w ((''support-manifest.json'', bo_manifest_text w (manifest_json q g (length items))) # items)) a)
            \<lparr>bw_tick := bw_tick s'\<rparr>)" by blast
    have items: "bundle_items w s (bq_selections q) items"
      using n(1) by (simp add: 1(3) bundle_items_def selected_source_def)
    have "stands w q n" if "n \<in> {bw_tick s..<bw_tick s' - 1}" for n
      using that n(3) 1(1,3) by (cases "n = bw_tick s") auto
    with n items r rest(1) True 1 same show thesis
      by (intro made [of r items]) (simp_all add: grown_def)
  qed
qed

section \<open>Failures\<close>

lemma new_artifact_ok:
  assumes "wf_bundle_request q" "\<not> outside_run (approved_grant q) s" "valid_utc now"
    and "bundle_reference s (artifact_identity q) = Inr r"
  shows "artifact_post_init (new_artifact q (approved_grant q) r now) = Inr (new_artifact q (approved_grant q) r now)"
proof -
  have "grant_post_init (bq_grant q) = Inr (bq_grant q)" using assms(1) by (simp add: wf_bundle_request_def wf_grant_def)
  then have ok: "\<forall>c \<in> set (grant_checks (bq_grant q)). \<not> fst c"
    by (simp add: grant_post_init_def bind_guards_Inr_iff)
  have r: "r = \<lparr>sg_plane = PL_DURABLE, sg_artifact = ST_SUPPORT_CONTENT,
      sg_path = ''support-content/'' @ artifact_identity q @ ''.zip'', sg_scope_ref = bw_scope_ref s, sg_run_ref = bw_run_ref s\<rparr>"
    using assms(4) reference_post_init_wf unfolding bundle_reference_def by blast
  show ?thesis
    using ok assms(2) support_time_text [OF assms(3)]
    by (auto simp: artifact_post_init_def bind_guards_Inr_iff new_artifact_def grant_checks_def identity_checks_def
        time_checks_def outside_run_def r)
qed

definition same_without :: "string \<Rightarrow> bundle_space \<Rightarrow> bundle_space \<Rightarrow> bool" where
  "same_without ref s s' \<longleftrightarrow> only_log (remove_copies ref s) (remove_copies ref s')"

lemma same_without_order [simp]: "reflp (same_without ref)" "transp (same_without ref)"
proof -
  show "reflp (same_without ref)" using reflpD [OF only_log_order(1)] by (simp add: reflp_def same_without_def)
  show "transp (same_without ref)"
    using transpD [OF only_log_order(2)] unfolding same_without_def by (intro transpI) blast
qed

lemma only_log_same_without: "only_log s s' \<Longrightarrow> same_without ref s s'"
  by (cases s; cases s') (simp add: only_log_def same_without_def remove_copies_def)

lemma keeps_only_log: "keeps only_log m \<Longrightarrow> keeps (same_without ref) m"
  by (simp add: keeps_def only_log_same_without)

lemma publish_Inl:
  assumes "publish w q ref a s = (Inl e, s')"
  shows "only_log (remove_copies ref s) s'"
proof -
  have "keeps (same_without ref) (write_metadata w ref v)" for v
    by (rule keepsI) (auto simp: write_metadata_def same_without_def remove_copies_def only_log_def delete_update_same split: if_splits)
  then have "keeps (same_without ref) (then_op (check w q) (\<lambda>_. then_op (write_metadata w ref (artifact_as_dict a)) (\<lambda>_.
      then_op (check w q) (\<lambda>_. audit_now w q materialized (Some ref)))))"
    by (intro keeps_then) (simp_all add: keeps_only_log)
  then show ?thesis
    using assms by (auto simp: publish_def same_without_def split: prod.splits sum.splits dest!: keepsD)
qed

lemma new_bundle_Inl:
  assumes "new_bundle w q g now ref r s = (Inl e, s')" "free_name ref s"
    and "artifact_post_init (new_artifact q g r now) = Inr a"
  shows "only_log s s'"
proof -
  let ?collect = "audited (\<lambda>e. audit_now w q (failure_lifecycle e) None) (collect w q g 1 0 (bq_selections q))"
  have log: "keeps only_log ?collect" by simp
  from assms(1) show ?thesis
    unfolding new_bundle_def
  proof (cases rule: then_op_split)
    case (raised x)
    from log this(1) show ?thesis by (rule keepsD)
  next
    case (goes_on content s1)
    have s1: "only_log s s1" using log goes_on(1) by (rule keepsD)
    from goes_on(2) show ?thesis
    proof (cases rule: then_op_split)
      case (raised x)
      with keepsD [OF keeps_log_check] s1 show ?thesis using transpD [OF only_log_order(2)] by blast
    next
      case (goes_on h s2)
      have s2: "only_log s s2" using keepsD [OF keeps_log_check goes_on(1)] s1 transpD [OF only_log_order(2)] by blast
      then have free: "free_name ref s2" using assms(2) by (cases s; cases s2) (simp add: only_log_def free_name_def)
      from goes_on(2) show ?thesis
      proof (cases rule: then_op_split)
        case (raised x)
        then have "s' = s2" by (auto simp: write_bundle_def split: if_splits)
        with s2 show ?thesis by simp
      next
        case (goes_on u s3)
        then have "publish w q ref a s3 = (Inl e, s')" by (simp add: assms(3))
        then have "only_log (remove_copies ref s3) s'" by (rule publish_Inl)
        moreover have "remove_copies ref s3 = s2"
          using write_bundle_Inr [OF goes_on(1)] free
          by (simp add: remove_copies_def free_name_def map_of_eq_None_iff delete_update_same)
        ultimately show ?thesis using s2 transpD [OF only_log_order(2)] by blast
      qed
    qed
  qed
qed

lemma materialize_Inl:
  assumes "materialize_bundle w q s = (Inl e, s')" "typed_answers w" "wf_bundle_request q"
    and "\<forall>n. valid_utc (ay_clock (bo_authority w) n)"
  shows "only_log s s'"
proof -
  let ?ref = "artifact_identity q" and ?now = "ay_clock (bo_authority w) (bw_tick s)"
  let ?first = "audited (\<lambda>e. audit_at q ?now (failure_lifecycle e) None) (check w q)"
  have first: "keeps only_log ?first" by simp
  show ?thesis
  proof (cases "audit_writer s")
    case (Inl x)
    with assms(1) have "s' = s" by (simp add: materialize_bundle_def)
    then show ?thesis using reflpD [OF only_log_order(1)] by simp
  next
    case (Inr u)
    let ?tail = "\<lambda>g. then_op (reads (\<lambda>s. Inr (outside_run g s))) (\<lambda>foreign.
       if foreign then then_op (audit_at q ?now (AL_DENIED, AR_DENIED) None) (\<lambda>_. returns (Inl conflict))
       else then_op (reads bw_support_dir) (\<lambda>_.
         then_op (reads (\<lambda>s. bundle_reference s ?ref)) (\<lambda>r.
         then_op (reads (links_refused ?ref)) (\<lambda>_.
         then_op (reads (\<lambda>s. Inr (map_of (bw_bundles s) ?ref \<noteq> None \<or> map_of (bw_metadata s) ?ref \<noteq> None))) (\<lambda>occupied.
           if occupied then reuse_bundle w q ?ref else new_bundle w q g ?now ?ref r)))))"
    from Inr assms(1) have "then_op ?first ?tail s = (Inl e, s')" by (simp add: materialize_bundle_def)
    then show ?thesis
    proof (cases rule: then_op_split)
      case (raised x)
      from first this(1) show ?thesis by (rule keepsD)
    next
      case (goes_on g s1)
      have s1: "only_log s s1" using first goes_on(1) by (rule keepsD)
      have g: "g = approved_grant q" using check_Inr [OF audited_Inr [OF goes_on(1)] assms(2,3)] by simp
      have "only_log s1 s'"
      proof (cases "outside_run g s1")
        case True
        have "keeps only_log (then_op (audit_at q ?now (AL_DENIED, AR_DENIED) None)
            (\<lambda>_. returns (Inl conflict :: support_artifact res)))" by (simp add: keeps_log_then)
        from keepsD [OF this] goes_on(2) True show ?thesis by simp
      next
        case False
        show ?thesis
        proof (cases "\<exists>r. bw_support_dir s1 = Inr () \<and> bundle_reference s1 ?ref = Inr r \<and> links_refused ?ref s1 = Inr ()")
          case outer: True
          then obtain r where r: "bw_support_dir s1 = Inr ()" "bundle_reference s1 ?ref = Inr r" "links_refused ?ref s1 = Inr ()"
            by blast
          show ?thesis
          proof (cases "free_name ?ref s1")
            case True
            with goes_on(2) False r have "new_bundle w q g ?now ?ref r s1 = (Inl e, s')"
              by (simp add: free_name_def)
            moreover have "artifact_post_init (new_artifact q g r ?now) = Inr (new_artifact q g r ?now)"
              using new_artifact_ok [OF assms(3) _ _ r(2)] False assms(4) by (simp add: g)
            ultimately show ?thesis using new_bundle_Inl True by blast
          next
            case occupied: False
            with goes_on(2) False r have "reuse_bundle w q ?ref s1 = (Inl e, s')" by (auto simp: free_name_def)
            from keepsD [OF keeps_log_reuse this] show ?thesis .
          qed
        next
          case refused: False
          then have "s' = s1" using goes_on(2) False by (auto split: sum.splits)
          then show ?thesis using reflpD [OF only_log_order(1)] by simp
        qed
      qed
      with s1 show ?thesis using transpD [OF only_log_order(2)] by blast
    qed
  qed
qed

section \<open>A successful read\<close>

lemma read_checks_Inr:
  assumes "read_checks w q a s = (Inr data, s')" "typed_answers w" "wf_bundle_request q"
  shows "stands w q (bw_tick s) \<and> stands w q (bw_tick s + 1) \<and> s' = s\<lparr>bw_tick := bw_tick s + 2\<rparr>
    \<and> selection_matches_artifact a q = Inr () \<and> load_artifact (sa_artifact_ref a) s = Inr a
    \<and> map_of (bw_bundles s) (sa_artifact_ref a) = Some (Bundle_File data) \<and> inspect_archive w data = Inr ()"
proof -
  from assms(1) obtain g1 s1 g2 where c1: "check w q s = (Inr g1, s1)" and m: "selection_matches_artifact a q = Inr ()"
    and l: "load_artifact (sa_artifact_ref a) s1 = Inr a" and d: "stored_bytes w (bq_grant q) a s1 = Inr data"
    and c2: "check w q s1 = (Inr g2, s')" and i: "inspect_archive w data = Inr ()"
    by (auto simp: read_checks_def op_Inr_iffs simp del: then_op_simps split: if_splits)
  from check_Inr [OF c1 assms(2,3)] have 1: "stands w q (bw_tick s)" "s1 = s\<lparr>bw_tick := bw_tick s + 1\<rparr>" by simp_all
  from check_Inr [OF c2 assms(2,3)] have 2: "stands w q (bw_tick s1)" "s' = s1\<lparr>bw_tick := bw_tick s1 + 1\<rparr>" by simp_all
  have "map_of (bw_bundles s) (sa_artifact_ref a) = Some (Bundle_File data)"
    using d by (auto simp: stored_bytes_def bind_res_Inr_iff 1(2) split: option.splits bundle_node.splits if_splits)
  with 1 2 m l i show ?thesis by (simp add: load_artifact_def)
qed

lemma read_bundle_Inr:
  assumes "read_bundle w q a s = (Inr data, s')" "typed_answers w" "wf_bundle_request q"
  shows "stands w q (bw_tick s) \<and> stands w q (bw_tick s + 1) \<and> selection_matches_artifact a q = Inr ()
    \<and> load_artifact (sa_artifact_ref a) s = Inr a \<and> map_of (bw_bundles s) (sa_artifact_ref a) = Some (Bundle_File data)
    \<and> inspect_archive w data = Inr ()
    \<and> s' = with_line (access_line q (ay_clock (bo_authority w) (bw_tick s + 2)) accessed (Some (sa_artifact_ref a)))
        (s\<lparr>bw_tick := bw_tick s + 3\<rparr>)"
proof -
  from assms(1) obtain s1 where c: "read_checks w q a s = (Inr data, s1)"
    and l: "audit_now w q accessed (Some (sa_artifact_ref a)) s1 = (Inr (), s')"
    by (auto simp: read_bundle_def read_body_def op_Inr_iffs simp del: then_op_simps dest!: audited_Inr)
  have "s' = with_line (access_line q (ay_clock (bo_authority w) (bw_tick s1)) accessed (Some (sa_artifact_ref a)))
      (s1\<lparr>bw_tick := bw_tick s1 + 1\<rparr>)"
    by (rule audit_now_Inr [OF l]) (simp add: accessed_def)
  with read_checks_Inr [OF c assms(2,3)] show ?thesis by (simp add: eval_nat_numeral)
qed

section \<open>The errors of a read\<close>

text \<open>
  Every failure of a read is an error of the program itself, so the \<open>except KSlideError\<close> that records it
  catches them all: what the decoders raise otherwise is turned into one, and they open no file.
\<close>

definition opens_no_file :: "'a res \<Rightarrow> bool" where
  "opens_no_file r \<longleftrightarrow> r \<noteq> Inl PyOSError"

lemma no_file_bind [intro!]: "opens_no_file m \<Longrightarrow> (\<And>x. opens_no_file (f x)) \<Longrightarrow> opens_no_file (bind_res m f)"
  by (cases m) (auto simp: opens_no_file_def)

lemma no_file_guards [simp]: "\<forall>g \<in> set gs. snd g \<noteq> PyOSError \<Longrightarrow> opens_no_file (guards gs)"
  by (induction gs rule: guards.induct) (auto simp: opens_no_file_def)

lemma no_file_simple [simp]:
  "opens_no_file (Inr x)" "opens_no_file (required_field k kvs)" "opens_no_file (member_of vs v)"
  "opens_no_file (json_items v)" "opens_no_file (approval_post_init a)" "e \<noteq> PyOSError \<Longrightarrow> opens_no_file (Inl e)"
proof -
  show "opens_no_file (json_items v)" by (cases v) (simp_all add: opens_no_file_def)
qed (auto simp: opens_no_file_def required_field_def member_of_def approval_post_init_def split: option.splits json.splits)

lemma no_file_map [intro!]: "(\<And>x. opens_no_file (f x)) \<Longrightarrow> opens_no_file (map_res f xs)"
  by (induction xs) auto

lemma no_file_parts [simp]:
  "opens_no_file (approvals_from v)" "opens_no_file (classes_from v)" "opens_no_file (reference_from_dict v)"
  "opens_no_file (scope_context_from_dict v)" "opens_no_file (artifact_post_init a)"
proof -
  have "opens_no_file (approval_from_item v)" for v
    by (cases v) (auto simp: approval_from_item_def)
  then show "opens_no_file (approvals_from v)" "opens_no_file (classes_from v)"
    by (auto simp: approvals_from_def classes_from_def)
  show "opens_no_file (artifact_post_init a)"
    by (auto simp: artifact_post_init_def identity_checks_def time_checks_def)
  have "opens_no_file (catch_corrupt m)" for m :: "'b res"
    by (cases m rule: catch_corrupt.cases) (simp_all add: opens_no_file_def)
  then show "opens_no_file (reference_from_dict v)"
    by (cases v) (auto simp: reference_from_dict_def)
  show "opens_no_file (scope_context_from_dict v)"
    by (cases v) (auto simp: scope_context_from_dict_def scope_context_post_init_def Let_def)
qed

definition own_error :: "'a res \<Rightarrow> bool" where
  "own_error r \<longleftrightarrow> (\<forall>e. r = Inl e \<longrightarrow> (\<exists>c. e = KSlideError c))"

lemma own_error_simple [simp]: "own_error (Inr x)" "own_error (Inl (KSlideError c))"
  by (simp_all add: own_error_def)

lemma own_error_bind [intro!]: "own_error m \<Longrightarrow> (\<And>x. own_error (f x)) \<Longrightarrow> own_error (bind_res m f)"
  by (cases m) (auto simp: own_error_def)

lemma own_error_guards [simp]: "\<forall>g \<in> set gs. \<exists>c. snd g = KSlideError c \<Longrightarrow> own_error (guards gs)"
  by (induction gs rule: guards.induct) (auto simp: own_error_def)

lemma own_error_artifact: "own_error (artifact_from_dict v)"
proof -
  have "own_error (catch_as c m)" if "opens_no_file m" for c and m :: "'b res"
    using that by (cases "(c, m)" rule: catch_as.cases) (auto simp: opens_no_file_def own_error_def)
  moreover have "opens_no_file (artifact_from_fields kvs)" for kvs
    unfolding artifact_from_fields_def by (intro no_file_bind) auto
  ultimately show ?thesis by (cases v) (auto simp: artifact_from_dict_def)
qed

lemma own_error_read_checks: "own_error (fst (read_checks w q a s))"
proof -
  have split: "own_error (fst (then_op m f s))" if "\<And>s. own_error (fst (m s))" "\<And>x s. own_error (fst (f x s))"
    for m :: "'b bundle_op" and f :: "'b \<Rightarrow> 'c bundle_op" and s
    using that(1) [of s] that(2) by (cases "m s") (auto simp: then_op_def own_error_def split: sum.splits)
  have "own_error (authorize au p q n)" for au p n
    by (auto simp: authorize_def provider_decision_def grant_times_def
        split: authority_answer.splits grant_status.splits option.splits prod.splits intro!: own_error_bind)
  then have "own_error (fst (check w q s))" for s by (simp add: check_def tick_def)
  moreover have "own_error (load_artifact ref s)" for ref s
    using own_error_artifact by (auto simp: load_artifact_def unsafe_selected_def split: option.splits metadata_node.splits)
  moreover have "own_error (selection_matches_artifact a q)" by (auto simp: selection_matches_artifact_def)
  moreover have "own_error (stored_bytes w g b s)" for g b s
    by (auto simp: stored_bytes_def resolve_reference_def unsafe_selected_def split: option.splits bundle_node.splits)
  moreover have "own_error (inspect_archive w data)" for data
    by (auto simp: inspect_archive_def Let_def split: option.splits)
  ultimately show ?thesis
    unfolding read_checks_def by (intro split) (auto simp: reads_def returns_def simp del: then_op_simps intro!: split)
qed

section \<open>Every attempt is recorded\<close>

definition only_tick :: "bundle_space \<Rightarrow> bundle_space \<Rightarrow> bool" where
  "only_tick s s' \<longleftrightarrow> s' = s\<lparr>bw_tick := bw_tick s'\<rparr>"

lemma only_tick_order [simp]: "reflp only_tick" "transp only_tick"
proof -
  show "reflp only_tick" by (rule reflpI) (simp add: only_tick_def)
  show "transp only_tick"
  proof (rule transpI)
    fix a b c assume "only_tick a b" "only_tick b c"
    then show "only_tick a c" by (cases a; cases b; cases c) (simp add: only_tick_def)
  qed
qed

lemma keeps_tick_reading [simp]: "keeps only_tick (reads f)" "keeps only_tick (returns x)"
  by (simp_all add: keeps_reads keeps_returns)

lemma keeps_tick_then: "keeps only_tick m \<Longrightarrow> (\<And>x. keeps only_tick (f x)) \<Longrightarrow> keeps only_tick (then_op m f)"
  by (rule keeps_then) simp_all

lemma keeps_tick_check [simp]: "keeps only_tick (check w q)"
proof -
  have "keeps only_tick tick" by (simp add: keeps_def tick_def only_tick_def)
  then show ?thesis by (simp add: check_def keeps_tick_then)
qed

lemma keeps_tick_checks [simp]: "keeps only_tick (read_checks w q a)"
  by (auto simp: read_checks_def intro!: keeps_tick_then)

lemma keeps_tick_collect [simp]: "keeps only_tick (collect w q g i used xs)"
  by (induction xs arbitrary: i used) (auto simp: intro!: keeps_tick_then)

lemma only_tick_ready: "only_tick s s' \<Longrightarrow> log_ready s \<Longrightarrow> log_ready s'"
  by (cases s; cases s') (simp add: only_tick_def log_ready_def)

lemma only_tick_shift: "only_tick s s1 \<Longrightarrow> s1\<lparr>bw_tick := n\<rparr> = s\<lparr>bw_tick := n\<rparr>"
  by (cases s; cases s1) (simp add: only_tick_def)

definition attempt_kind :: "'a res \<Rightarrow> access_lifecycle \<times> access_result" where
  "attempt_kind r = (case r of Inr _ \<Rightarrow> accessed | Inl e \<Rightarrow> failure_lifecycle e)"

lemma failure_lifecycle_kept [simp]: "fst (failure_lifecycle e) \<noteq> AL_DELETED"
  by (simp add: failure_lifecycle_def)

lemma read_bundle_recorded:
  assumes "read_bundle w q a s = (r, s')" "audit_writer s = Inr ()" "log_ready s" "wf_bundle_request q"
    and "\<forall>n. valid_utc (ay_clock (bo_authority w) n)" "support_identity (sa_artifact_ref a)"
  shows "\<exists>n. s' = with_line (access_line q (ay_clock (bo_authority w) n) (attempt_kind r) (Some (sa_artifact_ref a)))
    (s\<lparr>bw_tick := bw_tick s'\<rparr>)"
proof -
  let ?a = "Some (sa_artifact_ref a)"
  have id: "case ?a of None \<Rightarrow> True | Some r \<Rightarrow> support_identity r" using assms(6) by simp
  have ready: "audit_now w q k ?a s1
      = (Inr (), with_line (access_line q (ay_clock (bo_authority w) (bw_tick s1)) k ?a) (s\<lparr>bw_tick := bw_tick s1 + 1\<rparr>))"
    if "only_tick s s1" "fst k \<noteq> AL_DELETED" for s1 k
    using audit_now_ready [OF assms(4,5) id only_tick_ready [OF that(1) assms(3)] that(2)] only_tick_shift [OF that(1)] by simp
  have tick: "bw_tick (with_line l (s\<lparr>bw_tick := n\<rparr>)) = n" for l n by (simp add: with_line_def)
  obtain x s1 where c: "read_checks w q a s = (x, s1)" by fastforce
  have s1: "only_tick s s1" using keepsD [OF keeps_tick_checks c] .
  from assms(1,2) have run: "audited (\<lambda>e. audit_now w q (failure_lifecycle e) ?a) (read_body w q a) s = (r, s')"
    by (simp add: read_bundle_def)
  show ?thesis
  proof (cases x)
    case (Inr data)
    with c ready [OF s1, of accessed] run show ?thesis
      by (auto simp: audited_def read_body_def accessed_def attempt_kind_def tick)
  next
    case (Inl e)
    with c have body: "read_body w q a s = (Inl e, s1)" by (simp add: read_body_def)
    from own_error_read_checks [of w q a s] c Inl obtain k where k: "e = KSlideError k" by (auto simp: own_error_def)
    with body run ready [OF s1, of "failure_lifecycle e"] show ?thesis
      by (auto simp: audited_def attempt_kind_def tick)
  qed
qed

end
