(* ===== verification/Support_Delivery.thy ===== *)
theory Support_Delivery
  imports Support_Bundle_Outcomes
begin

text \<open>
  Delivery: a request whose approval stands gets its bundle, and the bundle is read back. Here the
  checks of a request are used the other way round: what a valid request says of its selections.
\<close>

section \<open>Valid requests\<close>

lemma selection_checks_sound:
  "\<forall>c \<in> set (selection_checks g seen xs). \<not> fst c \<Longrightarrow>
     (\<forall>x \<in> set xs. in_run g (se_reference x) \<and> selection_granted g x \<and> reference_key (se_reference x) \<notin> set seen)
     \<and> distinct (map (\<lambda>x. reference_key (se_reference x)) xs)"
proof (induction xs arbitrary: seen)
  case (Cons x xs)
  let ?k = "reference_key (se_reference x)"
  have head: "in_run g (se_reference x)" "selection_granted g x" "?k \<notin> set seen"
    and tail: "\<forall>c \<in> set (selection_checks g (?k # seen) xs). \<not> fst c"
    using Cons.prems by simp_all
  from Cons.IH [OF tail] have "\<forall>y \<in> set xs. in_run g (se_reference y) \<and> selection_granted g y
      \<and> reference_key (se_reference y) \<notin> set (?k # seen)" "distinct (map (\<lambda>x. reference_key (se_reference x)) xs)"
    by simp_all
  with head show ?case by fastforce
qed simp

lemma valid_request:
  assumes "wf_bundle_request q"
  shows "bq_selections q \<noteq> []" "length (bq_selections q) \<le> 512"
    and "x \<in> set (bq_selections q) \<Longrightarrow> in_run (bq_grant q) (se_reference x) \<and> selection_granted (bq_grant q) x
      \<and> wf_reference (se_reference x) \<and> sg_plane (se_reference x) = PL_DURABLE
      \<and> sg_artifact (se_reference x) = artifact_for_class (se_class x)
      \<and> path_matches_class (se_class x) (sg_path (se_reference x))"
    and "distinct (map (\<lambda>x. reference_key (se_reference x)) (bq_selections q))"
proof -
  have "\<forall>c \<in> set ((bq_selections q = [] \<or> 512 < length (bq_selections q), support_invalid)
      # selection_checks (bq_grant q) [] (bq_selections q)). \<not> fst c"
    using assms unfolding wf_bundle_request_def bundle_request_post_init_def bind_guards_Inr_iff append_Cons append_Nil by blast
  then have checks: "\<forall>c \<in> set (selection_checks (bq_grant q) [] (bq_selections q)). \<not> fst c"
    and size: "\<not> (bq_selections q = [] \<or> 512 < length (bq_selections q))"
    by simp_all
  show "bq_selections q \<noteq> []" "length (bq_selections q) \<le> 512" using size by auto
  show "distinct (map (\<lambda>x. reference_key (se_reference x)) (bq_selections q))"
    using selection_checks_sound [OF checks] by blast
  assume x: "x \<in> set (bq_selections q)"
  then have "wf_selection x" using assms by (simp add: wf_bundle_request_def list_all_iff)
  with x selection_checks_sound [OF checks]
  show "in_run (bq_grant q) (se_reference x) \<and> selection_granted (bq_grant q) x
      \<and> wf_reference (se_reference x) \<and> sg_plane (se_reference x) = PL_DURABLE
      \<and> sg_artifact (se_reference x) = artifact_for_class (se_class x)
      \<and> path_matches_class (se_class x) (sg_path (se_reference x))"
    by (auto simp: wf_selection_def selection_post_init_def bind_res_Inr_iff split: if_splits)
qed

lemma in_run_status [simp]: "in_run (g\<lparr>gt_status := st\<rparr>) r = in_run g r"
  by (simp add: in_run_def)

lemma outside_run_status [simp]: "outside_run (g\<lparr>gt_status := st\<rparr>) s = outside_run g s"
  by (simp add: outside_run_def)

section \<open>Collecting what is there\<close>

definition source_bytes :: "bundle_space \<Rightarrow> support_selection \<Rightarrow> string" where
  "source_bytes s x =
     (case map_of (bw_sources s) (path_parts (sg_path (se_reference x))) of Some (Source_File raw) \<Rightarrow> raw | _ \<Rightarrow> [])"

definition shown_bytes :: "bundle_world \<Rightarrow> bundle_space \<Rightarrow> support_selection \<Rightarrow> string" where
  "shown_bytes w s x = safe_content_bytes (bo_secret w) (source_bytes s x)"

text \<open>Every selected file is there, and the redacted content stays within the limit.\<close>

definition content_available :: "bundle_world \<Rightarrow> bundle_space \<Rightarrow> support_selection list \<Rightarrow> bool" where
  "content_available w s xs \<longleftrightarrow>
     (\<forall>x \<in> set xs. map_of (bw_sources s) (path_parts (sg_path (se_reference x))) = Some (Source_File (source_bytes s x))
        \<and> length (source_bytes s x) \<le> max_artifact_bytes)
     \<and> sum_list (map (\<lambda>x. length (shown_bytes w s x)) xs) \<le> max_artifact_bytes"

lemma read_selected_available:
  assumes "wf_bundle_request q" "x \<in> set (bq_selections q)" "\<not> outside_run (bq_grant q) s"
    and "map_of (bw_sources s) (path_parts (sg_path (se_reference x))) = Some (Source_File (source_bytes s x))"
    and "length (source_bytes s x) \<le> max_artifact_bytes"
  shows "read_selected w (approved_grant q) x s = Inr (shown_bytes w s x)"
proof -
  have "safe_relative_path (sg_path (se_reference x))"
    using valid_request(3) [OF assms(1,2)] by (auto simp: wf_reference_def reference_post_init_def split: if_splits)
  with valid_request(3) [OF assms(1,2)] assms(3-5) show ?thesis
    by (simp add: read_selected_def resolve_reference_def in_run_def outside_run_def shown_bytes_def)
qed

lemma collect_available:
  assumes "\<forall>n \<in> {bw_tick s..<bw_tick s + length xs}. stands w q n"
    and "\<forall>x \<in> set xs. read_selected w (approved_grant q) x s = Inr (f x)"
    and "used + sum_list (map (\<lambda>x. length (f x)) xs) \<le> max_artifact_bytes"
  shows "\<exists>items. collect w q (approved_grant q) i used xs s = (Inr items, s\<lparr>bw_tick := bw_tick s + length xs\<rparr>)
    \<and> items = map (\<lambda>(k, x). (item_name k (se_class x), f x)) (zip [i..<i + length xs] xs)"
  using assms
proof (induction xs arbitrary: i used s)
  case (Cons x xs)
  let ?s1 = "s\<lparr>bw_tick := bw_tick s + 1\<rparr>"
  have "stands w q (bw_tick s)" using Cons.prems(1) by simp
  then have check: "check w q s = (Inr (approved_grant q), ?s1)"
    by (simp add: check_def tick_def stands_authorize)
  have same: "read_selected w g y ?s1 = read_selected w g y s" for g y
    by (rule read_selected_same) (simp add: only_log_def)
  have "\<exists>items. collect w q (approved_grant q) (i + 1) (used + length (f x)) xs ?s1
      = (Inr items, ?s1\<lparr>bw_tick := bw_tick ?s1 + length xs\<rparr>)
    \<and> items = map (\<lambda>(k, x). (item_name k (se_class x), f x)) (zip [i + 1..<i + 1 + length xs] xs)"
    by (rule Cons.IH) (use Cons.prems same in auto)
  with check same Cons.prems(2,3) show ?case by (auto simp: upt_conv_Cons simp del: upt_Suc)
qed simp

section \<open>The name of the bundle\<close>

lemma split_at_single: "c \<notin> set s \<Longrightarrow> split_at c s = [s]"
  by (induction s) auto

lemma split_at_append: "c \<notin> set s \<Longrightarrow> split_at c (s @ c # t) = s # split_at c t"
  by (induction s) auto

lemma bundle_path_safe:
  assumes "CHR ''/'' \<notin> set ref" "CHR 0x5C \<notin> set ref" "char_of (0::nat) \<notin> set ref" "CHR ''.'' \<notin> set ref"
  shows "safe_relative_path (''support-content/'' @ ref @ ''.zip'')"
proof -
  have "split_at (CHR ''/'') (''support-content'' @ CHR ''/'' # (ref @ ''.zip'')) = [''support-content'', ref @ ''.zip'']"
    using assms(1) by (subst split_at_append) (simp_all add: split_at_single)
  moreover have "''..'' \<noteq> ref @ ''.zip''" by (cases ref) auto
  moreover have "char_of (0::nat) = CHR 0x00" by code_simp
  with assms(3) have "char_of (0::nat) \<notin> set (''support-content/'' @ ref @ ''.zip'')" by simp
  ultimately show ?thesis using assms by (auto simp: safe_relative_path_def path_parts_def)
qed

lemma artifact_identity_chars:
  "CHR ''/'' \<notin> set (artifact_identity q)" "CHR 0x5C \<notin> set (artifact_identity q)"
  "CHR ''.'' \<notin> set (artifact_identity q)" "char_of (0::nat) \<notin> set (artifact_identity q)"
proof -
  have zero: "char_of (0::nat) = CHR 0x00" by code_simp
  have "is_hex_char c \<Longrightarrow> c \<noteq> CHR 0x00" for c by (auto simp: char_defs)
  then show "CHR ''/'' \<notin> set (artifact_identity q)" "CHR 0x5C \<notin> set (artifact_identity q)"
    "CHR ''.'' \<notin> set (artifact_identity q)" "char_of (0::nat) \<notin> set (artifact_identity q)"
    using short_digest_hex(1) hex_not_special by (force simp: artifact_identity_def zero list_all_iff)+
qed

lemma bundle_reference_ok:
  assumes "wf_bundle_request q" "\<not> outside_run (bq_grant q) s"
  shows "bundle_reference s (artifact_identity q) = Inr \<lparr>sg_plane = PL_DURABLE, sg_artifact = ST_SUPPORT_CONTENT,
     sg_path = ''support-content/'' @ artifact_identity q @ ''.zip'', sg_scope_ref = bw_scope_ref s, sg_run_ref = bw_run_ref s\<rparr>"
proof -
  obtain x where x: "x \<in> set (bq_selections q)" using valid_request(1) [OF assms(1)] by (cases "bq_selections q") auto
  have "optional_identifier (bw_scope_ref s)" "optional_identifier (bw_run_ref s)"
    using valid_request(3) [OF assms(1) x] assms(2)
    by (auto simp: wf_reference_def reference_post_init_def in_run_def outside_run_def split: if_splits)
  with bundle_path_safe [of "artifact_identity q"] artifact_identity_chars [of q] assms(2) show ?thesis
    by (simp add: bundle_reference_def reference_post_init_def storage_policy_def outside_run_def)
qed

section \<open>Approved content is materialized\<close>

definition numbered_items :: "bundle_world \<Rightarrow> bundle_space \<Rightarrow> support_selection list \<Rightarrow> (string \<times> string) list" where
  "numbered_items w s xs = map (\<lambda>(k, x). (item_name k (se_class x), shown_bytes w s x)) (zip [1..<1 + length xs] xs)"

lemma length_numbered_items [simp]: "length (numbered_items w s xs) = length xs"
  by (simp add: numbered_items_def del: upt_Suc upt.simps)

definition bundle_members :: "bundle_world \<Rightarrow> support_request \<Rightarrow> bundle_space \<Rightarrow> (string \<times> string) list" where
  "bundle_members w q s = (''support-manifest.json'',
     bo_manifest_text w (manifest_json q (approved_grant q) (length (bq_selections q)))) # numbered_items w s (bq_selections q)"

text \<open>The run is the one of the request, its support directory can be used and the artifact is new.\<close>

definition ready_for :: "bundle_world \<Rightarrow> support_request \<Rightarrow> bundle_space \<Rightarrow> bool" where
  "ready_for w q s \<longleftrightarrow> audit_writer s = Inr () \<and> log_ready s \<and> \<not> outside_run (bq_grant q) s
     \<and> bw_support_dir s = Inr () \<and> free_name (artifact_identity q) s
     \<and> bo_zip_written w \<and> bo_metadata_written w \<and> (\<forall>n. valid_utc (ay_clock (bo_authority w) n))"

definition made_artifact :: "bundle_world \<Rightarrow> support_request \<Rightarrow> bundle_space \<Rightarrow> support_artifact" where
  "made_artifact w q s = new_artifact q (approved_grant q)
     \<lparr>sg_plane = PL_DURABLE, sg_artifact = ST_SUPPORT_CONTENT,
      sg_path = ''support-content/'' @ artifact_identity q @ ''.zip'', sg_scope_ref = bw_scope_ref s, sg_run_ref = bw_run_ref s\<rparr>
     (ay_clock (bo_authority w) (bw_tick s))"

lemma check_stands: "stands w q (bw_tick s) \<Longrightarrow> check w q s = (Inr (approved_grant q), s\<lparr>bw_tick := bw_tick s + 1\<rparr>)"
  by (simp add: check_def tick_def stands_authorize)

lemma publish_ok:
  assumes "stands w q (bw_tick s)" "stands w q (bw_tick s + 1)" "bo_metadata_written w" "log_ready s"
    and "wf_bundle_request q" "\<forall>n. valid_utc (ay_clock (bo_authority w) n)" "support_identity ref"
  shows "publish w q ref a s = (Inr a, with_line (access_line q (ay_clock (bo_authority w) (bw_tick s + 2)) materialized (Some ref))
    (s\<lparr>bw_metadata := AList.update ref (Metadata_File (Some (artifact_as_dict a))) (bw_metadata s), bw_tick := bw_tick s + 3\<rparr>))"
proof -
  let ?s2 = "s\<lparr>bw_metadata := AList.update ref (Metadata_File (Some (artifact_as_dict a))) (bw_metadata s), bw_tick := bw_tick s + 1\<rparr>"
  let ?s3 = "?s2\<lparr>bw_tick := bw_tick ?s2 + 1\<rparr>"
  have "check w q s = (Inr (approved_grant q), s\<lparr>bw_tick := bw_tick s + 1\<rparr>)" by (rule check_stands) fact
  moreover have "write_metadata w ref (artifact_as_dict a) (s\<lparr>bw_tick := bw_tick s + 1\<rparr>) = (Inr (), ?s2)"
    using assms(3) by (simp add: write_metadata_def)
  moreover have "check w q ?s2 = (Inr (approved_grant q), ?s3)" by (rule check_stands) (simp add: assms(2) [simplified])
  moreover have "log_ready ?s3" using assms(4) by (simp add: log_ready_def)
  with assms(5-7) have "audit_now w q materialized (Some ref) ?s3
      = (Inr (), with_line (access_line q (ay_clock (bo_authority w) (bw_tick ?s3)) materialized (Some ref)) (?s3\<lparr>bw_tick := bw_tick ?s3 + 1\<rparr>))"
    by (intro audit_now_ready) (simp_all add: materialized_def)
  ultimately show ?thesis by (simp add: publish_def eval_nat_numeral)
qed

lemma new_bundle_run:
  assumes "collect w q g 1 0 (bq_selections q) s = (Inr items, s1)" "check w q s1 = (Inr h, s2)"
    and "write_bundle w ref (bo_pack w ((''support-manifest.json'', bo_manifest_text w (manifest_json q g (length items))) # items)) s2
      = (Inr (), s3)"
    and "artifact_post_init (new_artifact q g r now) = Inr a" "publish w q ref a s3 = x"
  shows "new_bundle w q g now ref r s = x"
  using assms by (simp add: new_bundle_def audited_def)

definition before_publication :: "bundle_world \<Rightarrow> support_request \<Rightarrow> bundle_space \<Rightarrow> bundle_space" where
  "before_publication w q s = s\<lparr>bw_tick := bw_tick s + length (bq_selections q) + 2,
     bw_bundles := AList.update (artifact_identity q) (Bundle_File (bo_pack w (bundle_members w q s))) (bw_bundles s)\<rparr>"

lemma materialize_reaches_publication:
  assumes "wf_bundle_request q" "ready_for w q s" "content_available w s (bq_selections q)"
    and "\<forall>n \<in> {bw_tick s..bw_tick s + length (bq_selections q) + 1}. stands w q n"
  shows "materialize_bundle w q s = publish w q (artifact_identity q) (made_artifact w q s) (before_publication w q s)"
proof -
  let ?n = "length (bq_selections q)" and ?t = "bw_tick s" and ?ref = "artifact_identity q"
  let ?s1 = "s\<lparr>bw_tick := ?t + 1\<rparr>" and ?s2 = "s\<lparr>bw_tick := ?t + 1 + ?n\<rparr>" and ?s3 = "s\<lparr>bw_tick := ?t + ?n + 2\<rparr>"
  let ?now = "ay_clock (bo_authority w) ?t"
  have outer: "audit_writer s = Inr ()" "log_ready s" "\<not> outside_run (bq_grant q) s" "bw_support_dir s = Inr ()"
    "free_name ?ref s" "bo_zip_written w" "bo_metadata_written w" "\<forall>n. valid_utc (ay_clock (bo_authority w) n)"
    using assms(2) by (simp_all add: ready_for_def)
  have first: "check w q s = (Inr (approved_grant q), ?s1)" by (rule check_stands) (use assms(4) in simp)
  have "read_selected w g x ?s1 = read_selected w g x s" for g x
    by (rule read_selected_same) (simp add: only_log_def)
  with read_selected_available [OF assms(1) _ outer(3)] assms(3)
  have "\<forall>x \<in> set (bq_selections q). read_selected w (approved_grant q) x ?s1 = Inr (shown_bytes w s x)"
    by (simp add: content_available_def)
  moreover have "\<forall>n \<in> {bw_tick ?s1..<bw_tick ?s1 + ?n}. stands w q n" using assms(4) by auto
  moreover have "0 + sum_list (map (\<lambda>x. length (shown_bytes w s x)) (bq_selections q)) \<le> max_artifact_bytes"
    using assms(3) by (simp add: content_available_def)
  ultimately have content: "collect w q (approved_grant q) 1 0 (bq_selections q) ?s1 = (Inr (numbered_items w s (bq_selections q)), ?s2)"
    using collect_available [of ?s1 "bq_selections q" w q "shown_bytes w s" 0 1] by (simp add: numbered_items_def)
  have second: "check w q ?s2 = (Inr (approved_grant q), ?s3)"
    using check_stands [of w q ?s2] assms(4) by (simp add: ac_simps)
  have members: "(''support-manifest.json'', bo_manifest_text w (manifest_json q (approved_grant q)
      (length (numbered_items w s (bq_selections q))))) # numbered_items w s (bq_selections q) = bundle_members w q s"
    by (simp add: bundle_members_def)
  have zip: "write_bundle w ?ref (bo_pack w (bundle_members w q s)) ?s3 = (Inr (), before_publication w q s)"
    using outer(6) by (simp add: write_bundle_def before_publication_def)
  have made: "artifact_post_init (made_artifact w q s) = Inr (made_artifact w q s)"
    using new_artifact_ok [OF assms(1) _ _ bundle_reference_ok [OF assms(1) outer(3)]] outer(3,8)
    by (simp add: made_artifact_def)
  have new: "new_bundle w q (approved_grant q) ?now ?ref
      \<lparr>sg_plane = PL_DURABLE, sg_artifact = ST_SUPPORT_CONTENT,
       sg_path = ''support-content/'' @ ?ref @ ''.zip'', sg_scope_ref = bw_scope_ref s, sg_run_ref = bw_run_ref s\<rparr> ?s1
    = publish w q ?ref (made_artifact w q s) (before_publication w q s)"
  proof (rule new_bundle_run [OF content second _ _ refl])
    show "write_bundle w ?ref (bo_pack w ((''support-manifest.json'', bo_manifest_text w (manifest_json q (approved_grant q)
        (length (numbered_items w s (bq_selections q))))) # numbered_items w s (bq_selections q))) ?s3
      = (Inr (), before_publication w q s)"
      unfolding members by (rule zip)
  qed (use made in \<open>simp add: made_artifact_def\<close>)
  have "bundle_reference ?s1 ?ref = bundle_reference s ?ref" by (simp add: bundle_reference_def)
  with bundle_reference_ok [OF assms(1) outer(3)] outer first new show ?thesis
    by (simp add: materialize_bundle_def audited_def free_name_def links_refused_def outside_run_def)
qed

lemma materialize_ok:
  assumes "wf_bundle_request q" "ready_for w q s" "content_available w s (bq_selections q)"
    and "\<forall>n \<in> {bw_tick s..bw_tick s + length (bq_selections q) + 3}. stands w q n"
  shows "materialize_bundle w q s = (Inr (made_artifact w q s),
    with_line (access_line q (ay_clock (bo_authority w) (bw_tick s + length (bq_selections q) + 4)) materialized (Some (artifact_identity q)))
      ((grown s (artifact_identity q) (bo_pack w (bundle_members w q s)) (made_artifact w q s))
        \<lparr>bw_tick := bw_tick s + length (bq_selections q) + 5\<rparr>))"
proof -
  let ?s4 = "before_publication w q s" and ?m = "bw_tick s + length (bq_selections q)"
  have outer: "log_ready s" "bo_metadata_written w" "\<forall>n. valid_utc (ay_clock (bo_authority w) n)"
    using assms(2) by (simp_all add: ready_for_def)
  have ticks: "bw_tick ?s4 = ?m + 2" "bw_tick ?s4 + 1 = ?m + 3" "bw_tick ?s4 + 2 = ?m + 4" "bw_tick ?s4 + 3 = ?m + 5"
    by (simp_all add: before_publication_def)
  have stands: "stands w q (bw_tick ?s4)" "stands w q (bw_tick ?s4 + 1)" unfolding ticks using assms(4) by auto
  have ready: "log_ready ?s4" using outer(1) by (simp add: log_ready_def before_publication_def)
  have same: "?s4\<lparr>bw_metadata := v, bw_tick := n\<rparr> = s\<lparr>bw_bundles := bw_bundles ?s4, bw_metadata := v, bw_tick := n\<rparr>" for v n
    by (simp add: before_publication_def)
  have parts: "bw_metadata ?s4 = bw_metadata s"
    "bw_bundles ?s4 = AList.update (artifact_identity q) (Bundle_File (bo_pack w (bundle_members w q s))) (bw_bundles s)"
    by (simp_all add: before_publication_def)
  from publish_ok [OF stands outer(2) ready assms(1) outer(3) artifact_identity_valid, of q "made_artifact w q s"]
  have "publish w q (artifact_identity q) (made_artifact w q s) ?s4 = (Inr (made_artifact w q s),
      with_line (access_line q (ay_clock (bo_authority w) (?m + 4)) materialized (Some (artifact_identity q)))
        ((grown s (artifact_identity q) (bo_pack w (bundle_members w q s)) (made_artifact w q s))\<lparr>bw_tick := ?m + 5\<rparr>))"
    unfolding ticks(3,4) same parts grown_def .
  with materialize_reaches_publication [OF assms(1-3)] assms(4) show ?thesis by simp
qed

text \<open>
  An approval that is withdrawn after the archive was written, between the last two checks, makes the
  request fail without a line in the audit stream.
\<close>

theorem late_denial_is_not_recorded:
  assumes "wf_bundle_request q" "ready_for w q s" "content_available w s (bq_selections q)" "typed_answers w"
    and "\<forall>n \<in> {bw_tick s..bw_tick s + length (bq_selections q) + 2}. stands w q n"
    and "\<not> stands w q (bw_tick s + length (bq_selections q) + 3)"
  shows "\<exists>e s'. materialize_bundle w q s = (Inl e, s') \<and> bw_log s' = bw_log s"
proof -
  let ?s4 = "before_publication w q s"
  let ?s5 = "?s4\<lparr>bw_tick := bw_tick ?s4 + 1\<rparr>"
  let ?s6 = "?s5\<lparr>bw_metadata := AList.update (artifact_identity q) (Metadata_File (Some (artifact_as_dict (made_artifact w q s)))) (bw_metadata ?s5)\<rparr>"
  have ticks: "bw_tick ?s4 = bw_tick s + length (bq_selections q) + 2" "bw_tick ?s6 = bw_tick s + length (bq_selections q) + 3"
    by (simp_all add: before_publication_def)
  have "check w q ?s4 = (Inr (approved_grant q), ?s5)"
    by (rule check_stands) (use assms(5) in \<open>simp add: ticks\<close>)
  moreover have "write_metadata w (artifact_identity q) (artifact_as_dict (made_artifact w q s)) ?s5 = (Inr (), ?s6)"
    using assms(2) by (simp add: ready_for_def write_metadata_def)
  moreover obtain e s7 where "check w q ?s6 = (Inl e, s7)" "bw_log s7 = bw_log s"
  proof -
    obtain x s7 where c: "check w q ?s6 = (x, s7)" by fastforce
    then have "bw_log s7 = bw_log s"
      by (auto simp: check_def tick_def before_publication_def)
    moreover have "\<exists>e. x = Inl e"
    proof (cases x)
      case (Inr g)
      with c have "stands w q (bw_tick ?s6)" using check_Inr [OF _ assms(4,1)] by blast
      with assms(6) show ?thesis unfolding ticks(2) by simp
    qed simp
    ultimately show thesis using c that by blast
  qed
  ultimately have "publish w q (artifact_identity q) (made_artifact w q s) ?s4 = (Inl e, remove_copies (artifact_identity q) s7)"
    by (simp add: publish_def)
  moreover have "bw_log (remove_copies (artifact_identity q) s7) = bw_log s"
    using \<open>bw_log s7 = bw_log s\<close> by (simp add: remove_copies_def)
  ultimately show ?thesis
    using materialize_reaches_publication [OF assms(1-3)] assms(5) by auto
qed

section \<open>A materialized bundle is read back\<close>

lemma item_name_member:
  assumes "k < 10000"
  shows "item_member (item_name k c)"
proof -
  obtain a b d e where "pad_nat 4 k = [a, b, d, e]" "list_all is_digit_char [a, b, d, e]" by (rule pad_four [OF assms])
  then show ?thesis
    by (cases c) (simp_all add: item_member_def item_name_def matches_shape_def support_class_values_def char_defs)
qed

lemma item_name_no_manifest: "item_name k c \<noteq> ''support-manifest.json''"
  by (simp add: item_name_def)

lemma numbered_names:
  assumes "length xs \<le> 512" "n \<in> set (map fst (numbered_items w s xs))"
  shows "item_member n" "n \<noteq> ''support-manifest.json''"
proof -
  from assms(2) obtain k x where n: "n = item_name k (se_class x)" "(k, x) \<in> set (zip [1..<1 + length xs] xs)"
    by (auto simp: numbered_items_def)
  then have "k < 10000" using assms(1) by (auto dest!: set_zip_leftD)
  then show "item_member n" "n \<noteq> ''support-manifest.json''" by (simp_all add: n(1) item_name_member item_name_no_manifest)
qed

text \<open>No member, and not the archive itself, looks like a secret, and the archive is within the limit.\<close>

definition clean_bundle :: "bundle_world \<Rightarrow> (string \<times> string) list \<Rightarrow> bool" where
  "clean_bundle w members \<longleftrightarrow> bo_unpack w (bo_pack w members) = Some members
     \<and> length (bo_pack w members) \<le> max_artifact_bytes
     \<and> \<not> contains_secret_marker (bo_secret w) (bo_pack w members)
     \<and> (\<forall>m \<in> set members. \<not> contains_secret_marker (bo_secret w) (snd m))"

lemma inspect_members:
  assumes "wf_bundle_request q" "clean_bundle w (bundle_members w q s)"
  shows "inspect_archive w (bo_pack w (bundle_members w q s)) = Inr ()"
proof -
  let ?ms = "bundle_members w q s" and ?xs = "bq_selections q"
  note names = numbered_names [OF valid_request(2) [OF assms(1)], where w = w and s = s]
  have none: "filter (\<lambda>n. n = ''support-manifest.json'') (map fst (numbered_items w s ?xs)) = []"
    using names(2) by (auto simp: filter_empty_conv simp del: set_map)
  have "\<forall>n \<in> set (map fst ?ms). n = ''support-manifest.json'' \<or> item_member n"
    using names(1) by (auto simp: bundle_members_def simp del: set_map)
  moreover have "\<not> contains_secret_marker (bo_secret w) (the (map_of (rev ?ms) n))" if "n \<in> set (map fst ?ms)" for n
  proof -
    have "n \<in> fst ` set (rev ?ms)" using that by simp
    then obtain v where v: "map_of (rev ?ms) n = Some v" by (metis map_of_eq_None_iff not_None_eq)
    then have "(n, v) \<in> set ?ms" by (metis map_of_SomeD set_rev)
    with assms(2) v show ?thesis by (auto simp: clean_bundle_def)
  qed
  ultimately show ?thesis
    using none assms(2)
    by (auto simp: inspect_archive_def clean_bundle_def Let_def list_ex_iff bundle_members_def simp del: set_map)
qed

lemma made_artifact_wf:
  assumes "wf_bundle_request q" "\<not> outside_run (bq_grant q) s" "\<forall>n. valid_utc (ay_clock (bo_authority w) n)"
  shows "wf_artifact (made_artifact w q s)"
proof -
  have "artifact_post_init (made_artifact w q s) = Inr (made_artifact w q s)"
    using new_artifact_ok [OF assms(1) _ _ bundle_reference_ok [OF assms(1,2)]] assms(2,3) by (simp add: made_artifact_def)
  moreover have "wf_reference (sa_reference (made_artifact w q s))"
    using bundle_reference_ok [OF assms(1,2)] reference_post_init_wf
    by (auto simp: bundle_reference_def made_artifact_def new_artifact_def dest!: reference_post_init_wf)
  moreover have "wf_context (gt_context (bq_grant q))" "list_all wf_approval (gt_approvals (bq_grant q))"
    using assms(1) by (simp_all add: wf_bundle_request_def wf_grant_def)
  ultimately show ?thesis by (simp add: wf_artifact_def) (simp add: made_artifact_def new_artifact_def)
qed

lemma read_made:
  assumes "wf_bundle_request q" "ready_for w q s" "clean_bundle w (bundle_members w q s)"
    and "load_artifact (artifact_identity q) s1 = Inr (made_artifact w q s)"
    and "map_of (bw_bundles s1) (artifact_identity q) = Some (Bundle_File (bo_pack w (bundle_members w q s)))"
    and "bw_scope_ref s1 = bw_scope_ref s" "bw_run_ref s1 = bw_run_ref s" "bw_root s1 = bw_root s" "bw_central s1 = bw_central s"
    and "log_ready s1" "stands w q (bw_tick s1)" "stands w q (bw_tick s1 + 1)"
  shows "fst (read_bundle w q (made_artifact w q s) s1) = Inr (bo_pack w (bundle_members w q s))"
proof -
  let ?a = "made_artifact w q s" and ?data = "bo_pack w (bundle_members w q s)"
  let ?s2 = "s1\<lparr>bw_tick := bw_tick s1 + 1\<rparr>" and ?s3 = "s1\<lparr>bw_tick := bw_tick s1 + 2\<rparr>"
  have outer: "\<not> outside_run (bq_grant q) s" "audit_writer s = Inr ()" "\<forall>n. valid_utc (ay_clock (bo_authority w) n)"
    using assms(2) by (simp_all add: ready_for_def)
  have id: "sa_artifact_ref ?a = artifact_identity q" by (simp add: made_artifact_def new_artifact_def)
  have first: "check w q s1 = (Inr (approved_grant q), ?s2)" by (rule check_stands) fact
  have second: "check w q ?s2 = (Inr (approved_grant q), ?s3)" using check_stands [of w q ?s2] assms(12) by simp
  have matches: "selection_matches_artifact ?a q = Inr ()"
    using outer(1) by (simp add: selection_matches_artifact_def made_artifact_def new_artifact_def in_run_def outside_run_def)
  have "safe_relative_path (''support-content/'' @ artifact_identity q @ ''.zip'')"
    using bundle_path_safe [of "artifact_identity q"] artifact_identity_chars [of q] by simp
  then have "stored_bytes w (bq_grant q) ?a ?s2 = Inr ?data"
    using assms(3,5-7) outer(1)
    by (simp add: stored_bytes_def id resolve_reference_def clean_bundle_def)
      (simp add: made_artifact_def new_artifact_def outside_run_def)
  moreover have "load_artifact (sa_artifact_ref ?a) ?s2 = Inr ?a" using assms(4) by (simp add: id load_artifact_def)
  ultimately have checks: "read_checks w q ?a s1 = (Inr ?data, ?s3)"
    using first second matches inspect_members [OF assms(1,3)] by (simp add: read_checks_def)
  have "log_ready ?s3" using assms(10) by (simp add: log_ready_def)
  then have "fst (audit_now w q accessed (Some (sa_artifact_ref ?a)) ?s3) = Inr ()"
    using audit_now_ready [OF assms(1) outer(3), of "Some (sa_artifact_ref ?a)" ?s3 accessed] by (simp add: id accessed_def)
  then obtain s4 where "audit_now w q accessed (Some (sa_artifact_ref ?a)) ?s3 = (Inr (), s4)" by (metis prod.collapse)
  with checks have "read_body w q ?a s1 = (Inr ?data, s4)" by (simp add: read_body_def)
  moreover have "audit_writer s1 = Inr ()" using outer(2) unfolding audit_writer_def assms(8,9) .
  ultimately show ?thesis by (simp add: read_bundle_def audited_def)
qed

theorem materialize_then_read:
  assumes "wf_bundle_request q" "ready_for w q s" "content_available w s (bq_selections q)"
    and "\<forall>n \<in> {bw_tick s..bw_tick s + length (bq_selections q) + 6} - {bw_tick s + length (bq_selections q) + 4}. stands w q n"
    and "clean_bundle w (bundle_members w q s)"
  shows "\<exists>s1. materialize_bundle w q s = (Inr (made_artifact w q s), s1)
    \<and> fst (read_bundle w q (made_artifact w q s) s1) = Inr (bo_pack w (bundle_members w q s))"
proof -
  let ?ref = "artifact_identity q" and ?n = "length (bq_selections q)"
  let ?s1 = "with_line (access_line q (ay_clock (bo_authority w) (bw_tick s + ?n + 4)) materialized (Some ?ref))
      ((grown s ?ref (bo_pack w (bundle_members w q s)) (made_artifact w q s))\<lparr>bw_tick := bw_tick s + ?n + 5\<rparr>)"
  have made: "materialize_bundle w q s = (Inr (made_artifact w q s), ?s1)"
    by (rule materialize_ok [OF assms(1-3)]) (use assms(4) in auto)
  have outer: "\<not> outside_run (bq_grant q) s" "log_ready s" "\<forall>n. valid_utc (ay_clock (bo_authority w) n)"
    using assms(2) by (simp_all add: ready_for_def)
  have "load_artifact ?ref ?s1 = Inr (made_artifact w q s)"
    using made_artifact_wf [OF assms(1) outer(1,3)] by (simp add: load_artifact_def with_line_def grown_def update_conv)
  moreover have "log_ready ?s1"
    using outer(2) by (auto simp: log_ready_def with_line_def grown_def append_line_def split: stream_file.splits)
  moreover have "stands w q (bw_tick ?s1)" "stands w q (bw_tick ?s1 + 1)"
    using assms(4) by (auto simp: with_line_def)
  ultimately have "fst (read_bundle w q (made_artifact w q s) ?s1) = Inr (bo_pack w (bundle_members w q s))"
    by (intro read_made [OF assms(1,2,5)]) (simp_all add: with_line_def grown_def update_conv)
  with made show ?thesis by blast
qed

end
