(* ===== verification/Support_Retention.thy ===== *)
theory Support_Retention
  imports Support_Bundles Deletion_Workspace
begin

text \<open>
  What retention takes away by age: expired support copies (\<open>cleanup_expired_support_content\<close>) and
  old lines of the access stream (\<open>cleanup_support_access_audit\<close>, both \<open>src/k_slide/content_support.py\<close>),
  and old deletion audits (\<open>_audit_files\<close> and the audit loop of
  \<open>_cleanup_operational_metadata_at_root\<close> in \<open>src/k_slide/deletion.py\<close>). The n-th answer of the
  legal-hold provider is an argument. Telemetry events are not modelled.
\<close>

section \<open>Lines of the access stream\<close>

text \<open>What a hold lookup says when only its status is read: nothing usable, or the status.\<close>

definition bare_status :: "hold_answer \<Rightarrow> hold_status res" where
  "bare_status a = (case a of Hold_Decision h \<Rightarrow> Inr (hd_status h) | _ \<Rightarrow> Inl (KSlideError LEGAL_HOLD_UNKNOWN))"

record swept =
  sw_kept :: "stream_line list"
  sw_expired :: "string list"
  sw_retained :: "string list"

definition event_label :: "support_event \<Rightarrow> string" where
  "event_label e = (case ev_artifact_ref e of Some r \<Rightarrow> if r = [] then ev_request_ref e else r | None \<Rightarrow> ev_request_ref e)"

definition keep_line :: "support_event \<Rightarrow> swept \<Rightarrow> swept" where
  "keep_line e r = r\<lparr>sw_kept := Line_Json (event_as_dict e) # sw_kept r, sw_retained := event_label e # sw_retained r\<rparr>"

definition drop_line :: "support_event \<Rightarrow> swept \<Rightarrow> swept" where
  "drop_line e r = r\<lparr>sw_expired := event_label e # sw_expired r\<rparr>"

text \<open>Within the retention time, or of another scope.\<close>

definition line_current :: "string \<Rightarrow> utc \<Rightarrow> support_event \<Rightarrow> bool" where
  "line_current scope cutoff e \<longleftrightarrow> sc_scope_ref (ev_context e) \<noteq> scope
     \<or> (case support_time (ev_occurred_at e) of None \<Rightarrow> True | Some t \<Rightarrow> cutoff \<le> t)"

fun sweep :: "string \<Rightarrow> utc \<Rightarrow> (nat \<Rightarrow> hold_answer) \<Rightarrow> nat \<Rightarrow> stream_line list \<Rightarrow> swept res" where
  "sweep scope cutoff holds n [] = Inr \<lparr>sw_kept = [], sw_expired = [], sw_retained = []\<rparr>"
| "sweep scope cutoff holds n (l # ls) =
     (case line_event l of
        Inl _ \<Rightarrow> Inl support_audit_failed
      | Inr e \<Rightarrow>
          if line_current scope cutoff e
          then bind_res (sweep scope cutoff holds n ls) (\<lambda>r. Inr (keep_line e r))
          else bind_res (bare_status (holds n)) (\<lambda>st.
            bind_res (sweep scope cutoff holds (n + 1) ls) (\<lambda>r.
              Inr (if st = HS_RELEASE then drop_line e r else keep_line e r))))"

text \<open>The file is read, and rewritten when a line expired; the writer's lock is not taken.\<close>

definition sweep_file ::
  "string \<Rightarrow> utc \<Rightarrow> (nat \<Rightarrow> hold_answer) \<Rightarrow> stream_file \<Rightarrow> swept option res"
where
  "sweep_file scope cutoff holds f =
     (case f of
        Stream_Missing \<Rightarrow> Inr None
      | Stream_Unreadable \<Rightarrow> Inl support_audit_failed
      | Stream_Lines ls \<Rightarrow> bind_res (sweep scope cutoff holds 0 ls) (\<lambda>r. Inr (Some r)))"

definition rewrite_file :: "bool \<Rightarrow> swept option \<Rightarrow> stream_file \<Rightarrow> stream_file" where
  "rewrite_file dry r f =
     (case r of Some x \<Rightarrow> if sw_expired x \<noteq> [] \<and> \<not> dry then Stream_Lines (sw_kept x) else f | None \<Rightarrow> f)"

definition cleanup_stream ::
  "string \<Rightarrow> utc \<Rightarrow> (nat \<Rightarrow> hold_answer) \<Rightarrow> bool \<Rightarrow> support_log \<Rightarrow> swept option res \<times> support_log"
where
  "cleanup_stream scope cutoff holds dry s =
     (case sweep_file scope cutoff holds (lg_file s) of
        Inl e \<Rightarrow> (Inl e, s)
      | Inr r \<Rightarrow> (Inr r, s\<lparr>lg_file := rewrite_file dry r (lg_file s)\<rparr>))"

section \<open>Expired support copies\<close>

datatype support_dir = Dir_Missing | Dir_Unsafe | Dir_Present

datatype run_entry = Entry_Link | Entry_Other | Entry_Dir

text \<open>A run directory with its support copies; metadata goes by the stem of its file.\<close>

record stored_run =
  ru_name :: string
  ru_entry :: run_entry
  ru_support :: support_dir
  ru_metadata :: "(string \<times> metadata_node) list"
  ru_bundles :: "(string \<times> bundle_node) list"

record copy_store =
  cs_runs :: "stored_run list"
  cs_log :: support_log

record copies_result =
  cp_removed :: "string list"
  cp_planned :: "string list"
  cp_retained :: "string list"

abbreviation retention_refused :: err where
  "retention_refused \<equiv> KSlideError RETENTION_REFUSED"

definition run_named :: "string \<Rightarrow> copy_store \<Rightarrow> stored_run option" where
  "run_named n s = find (\<lambda>r. ru_name r = n) (cs_runs s)"

definition update_run :: "string \<Rightarrow> (stored_run \<Rightarrow> stored_run) \<Rightarrow> copy_store \<Rightarrow> copy_store" where
  "update_run n f s = s\<lparr>cs_runs := map (\<lambda>r. if ru_name r = n then f r else r) (cs_runs s)\<rparr>"

definition expired_artifact :: "stored_run \<Rightarrow> string \<Rightarrow> support_artifact res" where
  "expired_artifact r stem =
     (case map_of (ru_metadata r) stem of
        Some (Metadata_File (Some v)) \<Rightarrow> (case artifact_from_dict v of Inr a \<Rightarrow> Inr a | Inl _ \<Rightarrow> Inl retention_refused)
      | _ \<Rightarrow> Inl retention_refused)"

definition cleaned_event :: "support_artifact \<Rightarrow> utc \<Rightarrow> support_event res" where
  "cleaned_event a now = event_post_init \<lparr>
     ev_occurred_at = time_text now, ev_lifecycle = AL_CLEANED, ev_result = AR_CLEANED, ev_request_ref = sa_request_ref a,
     ev_context = sa_context a, ev_run_ref = sa_run_ref a, ev_subject_ref = sa_subject_ref a,
     ev_role_ref = sa_role_ref a, ev_capability_ref = sa_capability_ref a, ev_purpose = sa_purpose a,
     ev_authority_ref = sa_authority_ref a, ev_decision_ref = sa_decision_ref a, ev_approvals = sa_approvals a,
     ev_allowed = sa_allowed a, ev_selected = sa_selected a, ev_issued_at = sa_created_at a,
     ev_not_before_at = sa_created_at a, ev_expires_at = sa_expires_at a, ev_artifact_ref = Some (sa_artifact_ref a)\<rparr>"

text \<open>Bundle first, then the metadata, then the event.\<close>

definition remove_copy :: "string \<Rightarrow> string \<Rightarrow> support_artifact \<Rightarrow> utc \<Rightarrow> copy_store \<Rightarrow> unit res \<times> copy_store" where
  "remove_copy run stem a now s =
     (case run_named run s of
        None \<Rightarrow> (Inl PyOSError, s)
      | Some r \<Rightarrow>
          if map_of (ru_bundles r) (sa_artifact_ref a) = Some Bundle_Link then (Inl unsafe_path, s)
          else if map_of (ru_bundles r) (sa_artifact_ref a) = Some Bundle_Other then (Inl PyOSError, s)
          else let s1 = update_run run (\<lambda>r. r\<lparr>ru_bundles := AList.delete (sa_artifact_ref a) (ru_bundles r),
                   ru_metadata := AList.delete stem (ru_metadata r)\<rparr>) s in
            case cleaned_event a now of
              Inl e \<Rightarrow> (Inl e, s1)
            | Inr e \<Rightarrow> (case write_event e (cs_log s1) of (x, l) \<Rightarrow> (x, s1\<lparr>cs_log := l\<rparr>)))"

definition no_copies :: copies_result where
  "no_copies = \<lparr>cp_removed = [], cp_planned = [], cp_retained = []\<rparr>"

definition join_copies :: "copies_result \<Rightarrow> copies_result \<Rightarrow> copies_result" where
  "join_copies a b = \<lparr>cp_removed = cp_removed a @ cp_removed b, cp_planned = cp_planned a @ cp_planned b,
     cp_retained = cp_retained a @ cp_retained b\<rparr>"

definition clean_one ::
  "scope_context \<Rightarrow> (string \<Rightarrow> string \<Rightarrow> hold_answer) \<Rightarrow> utc \<Rightarrow> bool \<Rightarrow> string \<Rightarrow> string \<Rightarrow> copy_store
    \<Rightarrow> copies_result res \<times> copy_store"
where
  "clean_one ctx holds now dry run stem =
     then_op (reads (\<lambda>s. case run_named run s of None \<Rightarrow> Inl retention_refused | Some r \<Rightarrow> expired_artifact r stem)) (\<lambda>a.
     if sa_run_ref a \<noteq> run \<or> sa_context a \<noteq> ctx then returns (Inl conflict)
     else if (case support_time (sa_expires_at a) of None \<Rightarrow> False | Some t \<Rightarrow> now < t)
     then returns (Inr (no_copies\<lparr>cp_retained := [sa_artifact_ref a]\<rparr>))
     else then_op (returns (bare_status (holds run stem))) (\<lambda>st.
       if st \<noteq> HS_RELEASE then returns (Inr (no_copies\<lparr>cp_retained := [sa_artifact_ref a]\<rparr>))
       else if dry then returns (Inr (no_copies\<lparr>cp_planned := [sa_artifact_ref a]\<rparr>))
       else then_op (remove_copy run stem a now) (\<lambda>_. returns (Inr (no_copies\<lparr>cp_removed := [sa_artifact_ref a]\<rparr>)))))"

fun in_sequence :: "('s \<Rightarrow> copies_result res \<times> 's) list \<Rightarrow> 's \<Rightarrow> copies_result res \<times> 's" where
  "in_sequence [] s = (Inr no_copies, s)"
| "in_sequence (m # ms) s = then_op m (\<lambda>a. then_op (in_sequence ms) (\<lambda>b. returns (Inr (join_copies a b)))) s"

text \<open>The files go in the order of their names, suffix included.\<close>

definition stems_in_order :: "stored_run \<Rightarrow> string list" where
  "stems_in_order r = map (\<lambda>n. take (length n - 5) n) (sorted_set (map (\<lambda>m. fst m @ ''.json'') (ru_metadata r)))"

definition clean_run ::
  "scope_context \<Rightarrow> (string \<Rightarrow> string \<Rightarrow> hold_answer) \<Rightarrow> utc \<Rightarrow> bool \<Rightarrow> string \<Rightarrow> copy_store \<Rightarrow> copies_result res \<times> copy_store"
where
  "clean_run ctx holds now dry run s =
     (case run_named run s of
        None \<Rightarrow> (Inr no_copies, s)
      | Some r \<Rightarrow>
          if ru_entry r = Entry_Link then (Inl retention_refused, s)
          else if ru_entry r = Entry_Other \<or> ru_support r = Dir_Missing then (Inr no_copies, s)
          else if ru_support r = Dir_Unsafe then (Inl retention_refused, s)
          else in_sequence (map (clean_one ctx holds now dry run) (stems_in_order r)) s)"

definition cleanup_expired_copies ::
  "scope_context \<Rightarrow> (string \<Rightarrow> string \<Rightarrow> hold_answer) \<Rightarrow> utc \<Rightarrow> bool \<Rightarrow> copy_store \<Rightarrow> copies_result res \<times> copy_store"
where
  "cleanup_expired_copies ctx holds now dry s =
     (if sc_scope_ref ctx \<noteq> ''workspace'' then (Inl conflict, s)
      else in_sequence (map (clean_run ctx holds now dry)
        (filter (\<lambda>n. take 1 n \<noteq> ''_'') (sorted_set (map ru_name (cs_runs s))))) s)"

section \<open>Deletion audits\<close>

definition audit_file :: "string \<Rightarrow> string \<times> job_file \<Rightarrow> (string \<times> deletion_audit) res" where
  "audit_file scope f =
     (case read_audit (snd f) of
        Inl _ \<Rightarrow> Inl corrupt
      | Inr a \<Rightarrow> if au_scope_ref a \<noteq> scope then Inl conflict else Inr (fst f, a))"

definition audits_by_name :: "(string \<times> job_file) list \<Rightarrow> (string \<times> job_file) list" where
  "audits_by_name fs = map (\<lambda>n. (n, the (map_of fs n))) (sorted_set (map fst fs))"

definition stamp_time :: "string \<Rightarrow> utc res" where
  "stamp_time s =
     (case iso_local (replace_z s) of
        None \<Rightarrow> Inl PyValueError
      | Some (l, east, off) \<Rightarrow> (case to_utc east off l of None \<Rightarrow> Inl PyValueError | Some t \<Rightarrow> Inr t))"

fun expire_audits ::
  "utc \<Rightarrow> (string \<Rightarrow> hold_answer) \<Rightarrow> bool \<Rightarrow> (string \<times> deletion_audit) list \<Rightarrow> (string \<times> job_file) list
    \<Rightarrow> (string list \<times> string list) res \<times> (string \<times> job_file) list"
where
  "expire_audits cutoff holds dry [] fs = (Inr ([], []), fs)"
| "expire_audits cutoff holds dry ((n, a) # as) fs =
     (case stamp_time (au_updated_at a) of
        Inl e \<Rightarrow> (Inl e, fs)
      | Inr t \<Rightarrow>
          if t < cutoff then
            (case safe_hold (holds n) (au_scope_ref a) (au_run_ref a) of
               Inl e \<Rightarrow> (Inl e, fs)
             | Inr h \<Rightarrow>
                 if hd_status h \<noteq> HS_RELEASE
                 then then_op (expire_audits cutoff holds dry as) (\<lambda>(x, r). returns (Inr (x, au_id a # r))) fs
                 else then_op (expire_audits cutoff holds dry as) (\<lambda>(x, r). returns (Inr (au_id a # x, r)))
                   (if dry then fs else AList.delete n fs))
          else then_op (expire_audits cutoff holds dry as) (\<lambda>(x, r). returns (Inr (x, au_id a # r))) fs)"

definition cleanup_audits ::
  "string \<Rightarrow> utc \<Rightarrow> (string \<Rightarrow> hold_answer) \<Rightarrow> bool \<Rightarrow> (string \<times> job_file) list
    \<Rightarrow> (string list \<times> string list) res \<times> (string \<times> job_file) list"
where
  "cleanup_audits scope cutoff holds dry =
     then_op (reads (\<lambda>fs. map_res (audit_file scope) (audits_by_name fs))) (expire_audits cutoff holds dry)"

end
