(* ===== verification/Support_Retention_Laws.thy ===== *)
theory Support_Retention_Laws
  imports Support_Retention Deletion_Audit_Laws Paas_Claim_Laws
begin

text \<open>
  What retention may take: lines of the access stream and support copies that are old, of the scope
  asked for, and released; and what it takes beside that.
\<close>

section \<open>The access stream\<close>

definition released_line :: "string \<Rightarrow> utc \<Rightarrow> (nat \<Rightarrow> hold_answer) \<Rightarrow> support_event \<Rightarrow> bool" where
  "released_line scope cutoff holds e \<longleftrightarrow> sc_scope_ref (ev_context e) = scope
     \<and> (\<exists>t. support_time (ev_occurred_at e) = Some t \<and> t < cutoff)
     \<and> (\<exists>n h. holds n = Hold_Decision h \<and> hd_status h = HS_RELEASE)"

lemma bare_status_Inr: "bare_status a = Inr st \<longleftrightarrow> (\<exists>h. a = Hold_Decision h \<and> hd_status h = st)"
  by (auto simp: bare_status_def split: hold_answer.splits)

lemma line_not_current:
  "\<not> line_current scope cutoff e \<longleftrightarrow> sc_scope_ref (ev_context e) = scope
     \<and> (\<exists>t. support_time (ev_occurred_at e) = Some t \<and> t < cutoff)"
  by (auto simp: line_current_def not_le split: option.splits)

lemma line_event_wf: "line_event l = Inr e \<Longrightarrow> wf_event e"
  by (auto simp: line_event_def split: stream_line.splits dest: event_from_dict_wf)

lemma line_event_written: "wf_event e \<Longrightarrow> line_event (Line_Json (event_as_dict e)) = Inr e"
  by (simp add: line_event_def)

lemma sweep_sound:
  assumes "sweep scope cutoff holds n ls = Inr r"
  shows "\<exists>es K. map_res line_event ls = Inr es \<and> map_res line_event (sw_kept r) = Inr (nths es K)
    \<and> (\<forall>i < length es. i \<notin> K \<longrightarrow> released_line scope cutoff holds (es ! i))
    \<and> (sw_expired r = [] \<longrightarrow> nths es K = es)"
  using assms
proof (induction ls arbitrary: n r)
  case Nil
  then show ?case by (intro exI [of _ "[]"]) auto
next
  case (Cons l ls)
  from Cons.prems obtain e where e: "line_event l = Inr e" by (auto split: sum.splits)
  have wf: "wf_event e" using line_event_wf [OF e] .
  obtain m r' where rest: "sweep scope cutoff holds m ls = Inr r'"
    and r: "r = keep_line e r' \<or> (r = drop_line e r' \<and> released_line scope cutoff holds e)"
    using Cons.prems e
    by (auto simp: bind_res_Inr_iff bare_status_Inr released_line_def line_not_current split: if_splits)
  from Cons.IH [OF rest] obtain es K where IH: "map_res line_event ls = Inr es"
    "map_res line_event (sw_kept r') = Inr (nths es K)"
    "\<forall>i < length es. i \<notin> K \<longrightarrow> released_line scope cutoff holds (es ! i)" "sw_expired r' = [] \<longrightarrow> nths es K = es" by blast
  have all: "map_res line_event (l # ls) = Inr (e # es)" using e IH(1) by simp
  from r show ?case
  proof
    assume r: "r = keep_line e r'"
    let ?K = "insert 0 (Suc ` K)"
    have "{j. Suc j \<in> ?K} = K" by auto
    then have "nths (e # es) ?K = e # nths es K" by (simp add: nths_Cons)
    moreover have "\<forall>i < length (e # es). i \<notin> ?K \<longrightarrow> released_line scope cutoff holds ((e # es) ! i)"
      using IH(3) by (auto simp: less_Suc_eq_0_disj)
    ultimately show ?case
      using all IH(2,4) line_event_written [OF wf] r by (intro exI [of _ "e # es"] exI [of _ ?K]) (simp add: keep_line_def)
  next
    assume r: "r = drop_line e r' \<and> released_line scope cutoff holds e"
    let ?K = "Suc ` K"
    have "{j. Suc j \<in> ?K} = K" by auto
    then have "nths (e # es) ?K = nths es K" by (simp add: nths_Cons)
    moreover have "\<forall>i < length (e # es). i \<notin> ?K \<longrightarrow> released_line scope cutoff holds ((e # es) ! i)"
      using IH(3) r by (auto simp: less_Suc_eq_0_disj)
    ultimately show ?case
      using all IH(2) r by (intro exI [of _ "e # es"] exI [of _ ?K]) (simp add: drop_line_def)
  qed
qed

lemma cleanup_stream_sound:
  assumes "cleanup_stream scope cutoff holds dry s = (Inr (Some r), s')"
  shows "\<exists>es K. stream_events (lg_file s) = Inr es \<and> stream_events (lg_file s') = Inr (nths es K)
    \<and> (\<forall>i < length es. i \<notin> K \<longrightarrow> released_line scope cutoff holds (es ! i) \<and> \<not> dry)"
proof -
  from assms obtain ls where ls: "lg_file s = Stream_Lines ls" "sweep scope cutoff holds 0 ls = Inr r"
    and s': "lg_file s' = rewrite_file dry (Some r) (lg_file s)"
    by (auto simp: cleanup_stream_def sweep_file_def bind_res_Inr_iff split: sum.splits stream_file.splits)
  from sweep_sound [OF ls(2)] obtain es K where es: "map_res line_event ls = Inr es"
    "map_res line_event (sw_kept r) = Inr (nths es K)"
    "\<forall>i < length es. i \<notin> K \<longrightarrow> released_line scope cutoff holds (es ! i)" by blast
  show ?thesis
  proof (cases "sw_expired r \<noteq> [] \<and> \<not> dry")
    case True
    with s' ls(1) have "stream_events (lg_file s') = Inr (nths es K)"
      using es(2) by (simp add: rewrite_file_def stream_events_def)
    with es(1,3) ls(1) True show ?thesis by (intro exI [of _ es] exI [of _ K]) (simp add: stream_events_def)
  next
    case False
    with s' have "lg_file s' = lg_file s" by (auto simp: rewrite_file_def)
    with es(1) ls(1) show ?thesis by (intro exI [of _ es] exI [of _ "{..<length es}"]) (simp add: stream_events_def)
  qed
qed

text \<open>The cleanup reads the stream and replaces it later; what is written in between is gone.\<close>

theorem cleanup_loses_a_written_access:
  assumes "sweep_file scope cutoff holds (lg_file s) = Inr (Some r)" "sw_expired r \<noteq> []"
    and "write_event e s = (Inr (), s')"
  shows "rewrite_file False (Some r) (lg_file s') = rewrite_file False (Some r) (lg_file s)"
  using assms(2) by (simp add: rewrite_file_def)

section \<open>Deletion audits\<close>

definition released_audit :: "utc \<Rightarrow> (string \<Rightarrow> hold_answer) \<Rightarrow> string \<times> deletion_audit \<Rightarrow> bool" where
  "released_audit cutoff holds f \<longleftrightarrow>
     (\<exists>t h. stamp_time (au_updated_at (snd f)) = Inr t \<and> t < cutoff
        \<and> safe_hold (holds (fst f)) (au_scope_ref (snd f)) (au_run_ref (snd f)) = Inr h \<and> hd_status h = HS_RELEASE)"

lemma expire_audits_sound:
  "expire_audits cutoff holds dry as fs = (x, fs') \<Longrightarrow> map_of fs' n \<noteq> map_of fs n
     \<Longrightarrow> \<not> dry \<and> map_of fs' n = None \<and> (\<exists>a. (n, a) \<in> set as \<and> released_audit cutoff holds (n, a))"
proof (induction as arbitrary: fs x)
  case Nil
  then show ?case by simp
next
  case (Cons f as)
  obtain m a where f: "f = (m, a)" by fastforce
  let ?go = "expire_audits cutoff holds dry as"
  have tail: "\<not> dry \<and> map_of fs' n = None \<and> (\<exists>b. (n, b) \<in> set (f # as) \<and> released_audit cutoff holds (n, b))"
    if "then_op ?go g fs1 = (x, fs')" "\<And>y. \<exists>z. g y = returns z" "map_of fs' n \<noteq> map_of fs1 n" for g fs1
    using that(1)
  proof (cases rule: then_op_split)
    case (raised e)
    with Cons.IH [OF this(1) that(3)] show ?thesis by auto
  next
    case (goes_on y s1)
    with that(2) [of y] have s1: "s1 = fs'" by auto
    from Cons.IH [OF goes_on(1) [unfolded s1] that(3)] show ?thesis by auto
  qed
  obtain t where t: "stamp_time (au_updated_at a) = Inr t"
    using Cons.prems by (cases "stamp_time (au_updated_at a)") (auto simp: f)
  show ?case
  proof (cases "t < cutoff")
    case False
    with Cons.prems t show ?thesis by (intro tail [where g = "\<lambda>(x, r). returns (Inr (x, au_id a # r))" and ?fs1.0 = fs])
      (auto simp: f split: prod.splits)
  next
    case True
    obtain h where h: "safe_hold (holds m) (au_scope_ref a) (au_run_ref a) = Inr h"
      using Cons.prems t True by (cases "safe_hold (holds m) (au_scope_ref a) (au_run_ref a)") (auto simp: f)
    show ?thesis
    proof (cases "hd_status h = HS_RELEASE \<and> \<not> dry")
      case False
      then have "\<exists>g. then_op ?go g fs = (x, fs') \<and> (\<forall>y. \<exists>z. g y = returns z)"
        using Cons.prems t True h by (auto simp: f split: if_splits prod.splits)
      with tail Cons.prems(2) show ?thesis by blast
    next
      case released: True
      let ?g = "\<lambda>(y, r). returns (Inr (au_id a # y, r)) :: (string \<times> job_file) list \<Rightarrow> (string list \<times> string list) res \<times> (string \<times> job_file) list"
      have run: "then_op ?go ?g (AList.delete m fs) = (x, fs')" using Cons.prems(1) t True h released by (simp add: f)
      show ?thesis
      proof (cases "map_of fs' n = map_of (AList.delete m fs) n")
        case False
        from tail [OF run _ False] show ?thesis by (auto split: prod.splits)
      next
        case same: True
        with Cons.prems(2) have "n = m" by (cases "n = m") simp_all
        with same t True h released show ?thesis
          by (auto simp: f released_audit_def delete_conv' intro!: exI [of _ a])
      qed
    qed
  qed
qed

section \<open>Support copies\<close>

definition released_copy ::
  "scope_context \<Rightarrow> (string \<Rightarrow> string \<Rightarrow> hold_answer) \<Rightarrow> utc \<Rightarrow> stored_run \<Rightarrow> string \<Rightarrow> string \<Rightarrow> bool"
where
  "released_copy ctx holds now r stem ref \<longleftrightarrow> (\<exists>v a t h.
     map_of (ru_metadata r) stem = Some (Metadata_File (Some v)) \<and> artifact_from_dict v = Inr a
     \<and> sa_artifact_ref a = ref \<and> sa_run_ref a = ru_name r \<and> sa_context a = ctx
     \<and> support_time (sa_expires_at a) = Some t \<and> t \<le> now
     \<and> holds (ru_name r) stem = Hold_Decision h \<and> hd_status h = HS_RELEASE)"

definition copies_left ::
  "scope_context \<Rightarrow> (string \<Rightarrow> string \<Rightarrow> hold_answer) \<Rightarrow> utc \<Rightarrow> stored_run \<Rightarrow> stored_run \<Rightarrow> bool"
where
  "copies_left ctx holds now r r' \<longleftrightarrow> ru_name r' = ru_name r
     \<and> (\<forall>k. map_of (ru_metadata r') k = map_of (ru_metadata r) k
          \<or> (map_of (ru_metadata r') k = None \<and> (\<exists>ref. released_copy ctx holds now r k ref)))
     \<and> (\<forall>ref. map_of (ru_bundles r') ref = map_of (ru_bundles r) ref
          \<or> (map_of (ru_bundles r') ref = None \<and> (\<exists>stem. released_copy ctx holds now r stem ref)))"

definition copies_safe ::
  "scope_context \<Rightarrow> (string \<Rightarrow> string \<Rightarrow> hold_answer) \<Rightarrow> utc \<Rightarrow> copy_store \<Rightarrow> copy_store \<Rightarrow> bool"
where
  "copies_safe ctx holds now s s' \<longleftrightarrow> list_all2 (copies_left ctx holds now) (cs_runs s) (cs_runs s')"

lemma copies_left_refl [simp]: "copies_left ctx holds now r r"
  by (simp add: copies_left_def)

lemma copies_left_trans:
  assumes "copies_left ctx holds now a b" "copies_left ctx holds now b c"
  shows "copies_left ctx holds now a c"
proof -
  have earlier: "released_copy ctx holds now a stem ref" if "released_copy ctx holds now b stem ref" for stem ref
    using that assms(1) unfolding released_copy_def copies_left_def by (metis option.distinct(1))
  show ?thesis using assms earlier unfolding copies_left_def by metis
qed

lemma copies_safe_order [simp]: "reflp (copies_safe ctx holds now)" "transp (copies_safe ctx holds now)"
proof -
  show "reflp (copies_safe ctx holds now)" by (rule reflpI) (simp add: copies_safe_def list.rel_refl)
  show "transp (copies_safe ctx holds now)"
    unfolding copies_safe_def by (intro transpI) (blast intro: list_all2_trans copies_left_trans)
qed

lemma run_named_Some: "run_named n s = Some r \<Longrightarrow> ru_name r = n \<and> r \<in> set (cs_runs s)"
  by (auto simp: run_named_def find_Some_iff)

lemma artifact_expiry:
  assumes "artifact_from_dict v = Inr a"
  shows "\<exists>t. support_time (sa_expires_at a) = Some t"
proof -
  obtain b where b: "artifact_post_init b = Inr a"
    using assms by (fastforce simp: artifact_from_dict_def artifact_from_fields_def bind_res_Inr_iff
        split: json.splits if_splits)
  with artifact_post_init_same [OF b] have "artifact_post_init a = Inr a" by simp
  then show ?thesis by (simp add: artifact_post_init_def bind_guards_Inr_iff time_checks_def)
qed

lemma remove_copy_safe:
  assumes "remove_copy run stem a now s = (x, s')" "distinct (map ru_name (cs_runs s))"
    and "run_named run s = Some r" "released_copy ctx holds now r stem (sa_artifact_ref a)"
  shows "copies_safe ctx holds now s s'"
proof -
  let ?cut = "\<lambda>r. r\<lparr>ru_bundles := AList.delete (sa_artifact_ref a) (ru_bundles r), ru_metadata := AList.delete stem (ru_metadata r)\<rparr>"
  have only: "q = r" if "q \<in> set (cs_runs s)" "ru_name q = run" for q
    using that run_named_Some [OF assms(3)] assms(2) by (metis distinct_map inj_onD)
  have cut: "copies_left ctx holds now r (?cut r)"
    using assms(4) by (auto simp: copies_left_def delete_conv')
  have "copies_left ctx holds now q (if ru_name q = run then ?cut q else q)" if "q \<in> set (cs_runs s)" for q
    using only [OF that] cut by auto
  then have "copies_safe ctx holds now s (update_run run ?cut s)"
    by (auto simp: copies_safe_def update_run_def list_all2_conv_all_nth)
  moreover have "cs_runs s' = cs_runs s \<or> cs_runs s' = cs_runs (update_run run ?cut s)"
    using assms(1,3) by (auto simp: remove_copy_def Let_def update_run_def split: if_splits sum.splits prod.splits)
  ultimately show ?thesis
    using reflpD [OF copies_safe_order(1)] by (auto simp: copies_safe_def list.rel_refl)
qed

text \<open>The names of the runs are those of the directory: distinct, and kept.\<close>

definition copies_step ::
  "scope_context \<Rightarrow> (string \<Rightarrow> string \<Rightarrow> hold_answer) \<Rightarrow> utc \<Rightarrow> copy_store \<Rightarrow> copy_store \<Rightarrow> bool"
where
  "copies_step ctx holds now s s' \<longleftrightarrow> distinct (map ru_name (cs_runs s)) \<longrightarrow> copies_safe ctx holds now s s'"

lemma copies_safe_names: "copies_safe ctx holds now s s' \<Longrightarrow> map ru_name (cs_runs s') = map ru_name (cs_runs s)"
  by (auto simp: copies_safe_def copies_left_def list_all2_conv_all_nth intro!: nth_equalityI)

lemma copies_step_order [simp]: "reflp (copies_step ctx holds now)" "transp (copies_step ctx holds now)"
proof -
  show "reflp (copies_step ctx holds now)"
    using reflpD [OF copies_safe_order(1)] by (intro reflpI) (simp add: copies_step_def)
  show "transp (copies_step ctx holds now)"
    using transpD [OF copies_safe_order(2)] copies_safe_names unfolding copies_step_def by (intro transpI) metis
qed

lemma clean_one_safe: "keeps (copies_step ctx holds now) (clean_one ctx holds now dry run stem)"
proof (rule keepsI)
  fix s x s'
  assume run: "clean_one ctx holds now dry run stem s = (x, s')"
  show "copies_step ctx holds now s s'"
  proof (cases "s' = s")
    case True
    then show ?thesis using reflpD [OF copies_step_order(1)] by simp
  next
    case False
    with run obtain r a h u where r: "run_named run s = Some r" and a: "expired_artifact r stem = Inr a"
      and own: "sa_run_ref a = run" "sa_context a = ctx"
      and old: "\<not> (case support_time (sa_expires_at a) of None \<Rightarrow> False | Some t \<Rightarrow> now < t)"
      and hold: "holds run stem = Hold_Decision h" "hd_status h = HS_RELEASE"
      and rem: "remove_copy run stem a now s = (u, s')"
      by (auto simp: clean_one_def bare_status_def then_op_def split: option.splits sum.splits if_splits hold_answer.splits prod.splits)
    obtain v where v: "map_of (ru_metadata r) stem = Some (Metadata_File (Some v))" "artifact_from_dict v = Inr a"
      using a by (auto simp: expired_artifact_def split: option.splits metadata_node.splits sum.splits)
    obtain t where "support_time (sa_expires_at a) = Some t" "t \<le> now"
      using artifact_expiry [OF v(2)] old by auto
    with v own hold run_named_Some [OF r] have "released_copy ctx holds now r stem (sa_artifact_ref a)"
      unfolding released_copy_def
      by (intro exI [of _ v] exI [of _ a] exI [of _ t] exI [of _ h]) simp
    with remove_copy_safe [OF rem _ r] show ?thesis by (simp add: copies_step_def)
  qed
qed

lemma in_sequence_keeps:
  assumes "reflp R" "transp R" "\<And>m. m \<in> set ms \<Longrightarrow> keeps R m"
  shows "keeps R (in_sequence ms)"
  using assms(3)
proof (induction ms)
  case Nil
  show ?case using reflpD [OF assms(1)] by (simp add: keeps_def)
next
  case (Cons m ms)
  have "in_sequence (m # ms) = then_op m (\<lambda>a. then_op (in_sequence ms) (\<lambda>b. returns (Inr (join_copies a b))))" by (rule ext) simp
  with Cons assms(1,2) show ?case by (auto intro!: keeps_then keeps_returns)
qed

text \<open>What every single artifact keeps, the whole cleanup keeps.\<close>

lemma cleanup_keeps:
  assumes "reflp R" "transp R" "\<And>run stem. keeps R (clean_one ctx holds now dry run stem)"
  shows "keeps R (cleanup_expired_copies ctx holds now dry)"
proof -
  have seq: "keeps R (in_sequence (map (clean_one ctx holds now dry run) stems))" for run stems
    by (rule in_sequence_keeps [OF assms(1,2)]) (auto simp: assms(3))
  have run: "keeps R (clean_run ctx holds now dry run)" for run
    using keepsD [OF seq] reflpD [OF assms(1)]
    by (intro keepsI) (auto simp: clean_run_def split: option.splits if_splits)
  have "keeps R (in_sequence (map (clean_run ctx holds now dry) names))" for names
    by (rule in_sequence_keeps [OF assms(1,2)]) (auto simp: run)
  from keepsD [OF this] reflpD [OF assms(1)] show ?thesis
    by (intro keepsI) (auto simp: cleanup_expired_copies_def split: if_splits)
qed

lemma cleanup_copies_safe: "keeps (copies_step ctx holds now) (cleanup_expired_copies ctx holds now dry)"
  by (rule cleanup_keeps) (simp_all add: clean_one_safe)

lemma cleanup_dry: "keeps (=) (cleanup_expired_copies ctx holds now True)"
proof (rule cleanup_keeps)
  show "keeps (=) (clean_one ctx holds now True run stem)" for run stem
    by (rule keepsI) (auto simp: clean_one_def then_op_def reads_def returns_def split: option.splits sum.splits if_splits prod.splits)
qed (simp_all add: reflp_def transp_def)

end
