(* ===== verification/Support_Properties.thy ===== *)
theory Support_Properties
  imports Support_Delivery Support_Retention_Laws
begin

text \<open>
  What controlled support access promises: content leaves a run only under an approval that stands at
  every check, redacted and recorded; a failure leaves no copy; an approved request is served; and
  retention takes only expired, released copies.
\<close>

text \<open>
  The witnesses use one request: a report of a run, an authority that approves at every lookup, and a
  stored archive format.
\<close>

section \<open>The request\<close>

definition support_ctx :: scope_context where
  "support_ctx = \<lparr>sc_user_ref = ''user-1'', sc_workspace_ref = ''workspace-1'', sc_scope_ref = ''workspace''\<rparr>"

definition support_grant_1 :: support_grant where
  "support_grant_1 = \<lparr>gt_request_ref = ''request-1'', gt_context = support_ctx, gt_run_ref = ''run-1'',
     gt_subject_ref = ''subject-1'', gt_role_ref = ''role-1'', gt_capability_ref = ''capability-1'',
     gt_purpose = SP_INCIDENT_DIAGNOSTIC, gt_authority_ref = ''authority-1'', gt_decision_ref = ''decision-1'',
     gt_approvals = [\<lparr>av_ref = ''approval-1'', av_status = AS_APPROVED\<rparr>], gt_allowed = [SC_REPORT], gt_references = [],
     gt_issued_at = time_text (UTC 2026 1 1 0 0 0 0), gt_not_before_at = time_text (UTC 2026 1 1 0 0 0 0),
     gt_expires_at = time_text (UTC 2026 1 2 0 0 0 0), gt_status = GS_APPROVED\<rparr>"

definition report_selection :: support_selection where
  "report_selection = \<lparr>se_class = SC_REPORT, se_reference = \<lparr>sg_plane = PL_DURABLE, sg_artifact = ST_REPORT,
     sg_path = ''05_final_report.md'', sg_scope_ref = Some ''workspace'', sg_run_ref = Some ''run-1''\<rparr>\<rparr>"

definition report_request :: support_request where
  "report_request = \<lparr>bq_grant = support_grant_1, bq_selections = [report_selection]\<rparr>"

definition noon :: utc where
  "noon = UTC 2026 1 1 12 0 0 0"

lemma sample_window:
  "support_time (time_text (UTC 2026 1 1 0 0 0 0)) = Some (UTC 2026 1 1 0 0 0 0)"
  "support_time (time_text (UTC 2026 1 2 0 0 0 0)) = Some (UTC 2026 1 2 0 0 0 0)"
  by (rule support_time_round, simp add: days_in_month_def)+

lemma sample_identities:
  "list_all support_identity [''user-1'', ''workspace-1'', ''workspace'', ''request-1'', ''run-1'', ''subject-1'', ''role-1'',
     ''capability-1'', ''authority-1'', ''decision-1'', ''approval-1'']"
  by code_simp

lemma sample_scope: "list_all safe_identity [''user-1'', ''workspace-1'', ''workspace'']"
  by code_simp

lemma sample_identifiers: "list_all matches_identifier [''workspace'', ''run-1'']" "safe_relative_path ''05_final_report.md''"
  by code_simp+

lemma sample_order: "UTC 2026 1 1 0 0 0 0 \<le> UTC 2026 1 1 0 0 0 0" "UTC 2026 1 1 0 0 0 0 < UTC 2026 1 2 0 0 0 0"
  by code_simp+

lemma support_grant_ok: "wf_grant support_grant_1"
proof -
  have "wf_context support_ctx"
    using sample_scope by (simp add: wf_context_def scope_context_post_init_def support_ctx_def)
  moreover have "grant_post_init support_grant_1 = Inr support_grant_1"
    using sample_identities sample_order sample_window
    by (simp add: grant_post_init_def grant_checks_def identity_checks_def time_checks_def context_names_def
        window_ordered_def support_grant_1_def support_ctx_def)
  ultimately show ?thesis
    using sample_identities by (simp add: wf_grant_def) (simp add: support_grant_1_def wf_approval_def)
qed

lemma report_path: "path_matches_class SC_REPORT ''05_final_report.md''"
  by code_simp

lemma report_selection_ok: "wf_selection report_selection"
  using sample_identifiers report_path
  by (simp add: wf_selection_def selection_post_init_def wf_reference_def reference_post_init_def report_selection_def
      artifact_for_class_def storage_policy_def optional_identifier_def)

lemma report_request_ok: "wf_bundle_request report_request"
  using support_grant_ok report_selection_ok
  by (simp add: wf_bundle_request_def bundle_request_post_init_def report_request_def)
    (simp add: report_selection_def in_run_def selection_granted_def support_grant_1_def support_ctx_def)

section \<open>The outside\<close>

definition pack_stored :: "(string \<times> string) list \<Rightarrow> string" where
  "pack_stored ms = concat (map (\<lambda>(n, d). n @ ''|'' @ d @ ''|'') ms)"

fun pairs_of :: "string list \<Rightarrow> (string \<times> string) list" where
  "pairs_of (n # d # xs) = (n, d) # pairs_of xs"
| "pairs_of xs = []"

definition unpack_stored :: "string \<Rightarrow> (string \<times> string) list option" where
  "unpack_stored s = Some (pairs_of (split_at (CHR ''|'') s))"

definition steady_authority :: "(nat \<Rightarrow> authority_answer) \<Rightarrow> support_authority" where
  "steady_authority answers = \<lparr>ay_production = False, ay_resolve = (\<lambda>n k. answers n), ay_clock = (\<lambda>n. noon)\<rparr>"

definition approving_world :: bundle_world where
  "approving_world = \<lparr>bo_authority = steady_authority (\<lambda>n. Lookup_Grant support_grant_1), bo_production = False,
     bo_secret = None, bo_manifest_text = (\<lambda>v. ''{}''), bo_pack = pack_stored, bo_unpack = unpack_stored,
     bo_zip_written = True, bo_metadata_written = True\<rparr>"

definition report_space :: bundle_space where
  "report_space = \<lparr>bw_scope_ref = Some ''workspace'', bw_run_ref = Some ''run-1'', bw_root = [''srv'', ''run-1''],
     bw_support_dir = Inr (), bw_sources = [([''05_final_report.md''], Source_File ''Revenue AccessKey=abc up'')],
     bw_bundles = [], bw_metadata = [], bw_central = Some [''var''],
     bw_log = \<lparr>lg_file = Stream_Lines [], lg_writable = True\<rparr>, bw_tick = 0\<rparr>"

lemma approving_clock: "\<forall>n. valid_utc (ay_clock (bo_authority approving_world) n)"
  by (simp add: approving_world_def steady_authority_def noon_def days_in_month_def)

lemma approving_answers: "typed_answers approving_world"
  using support_grant_ok by (simp add: typed_answers_def approving_world_def steady_authority_def)

lemma approving_stands: "stands approving_world report_request n"
proof -
  have "support_grant_1\<lparr>gt_status := GS_APPROVED\<rparr> = support_grant_1" by (simp add: support_grant_1_def)
  moreover have "UTC 2026 1 1 0 0 0 0 \<le> noon" "noon < UTC 2026 1 2 0 0 0 0" by code_simp+
  ultimately show ?thesis
    by (simp add: stands_def Let_def approving_world_def steady_authority_def report_request_def del: One_nat_def)
      (simp add: support_grant_1_def sample_window del: time_text.simps One_nat_def)
qed

lemma report_parts: "path_parts ''05_final_report.md'' = [''05_final_report.md'']"
  by code_simp

lemma report_bytes: "source_bytes report_space report_selection = ''Revenue AccessKey=abc up''"
  by (simp add: source_bytes_def report_selection_def report_parts report_space_def)

lemma report_shown: "shown_bytes approving_world report_space report_selection = ''Revenue __KSLIDE_[REDACTED_SECRET]__ up''"
proof -
  have "safe_content_bytes None ''Revenue AccessKey=abc up'' = ''Revenue __KSLIDE_[REDACTED_SECRET]__ up''" by code_simp
  then show ?thesis by (simp add: shown_bytes_def report_bytes) (simp add: approving_world_def)
qed

lemma report_ready: "ready_for approving_world report_request report_space"
  using approving_clock
  by (simp add: ready_for_def audit_writer_def log_ready_def outside_run_def free_name_def report_space_def
      report_request_def support_grant_1_def support_ctx_def) (simp add: approving_world_def)

lemma report_available: "content_available approving_world report_space (bq_selections report_request)"
proof -
  have "map_of (bw_sources report_space) (path_parts (sg_path (se_reference report_selection)))
      = Some (Source_File (source_bytes report_space report_selection))"
    by (simp add: report_bytes) (simp add: report_selection_def report_parts report_space_def)
  then show ?thesis
    by (simp add: content_available_def report_request_def report_shown) (simp add: report_bytes max_artifact_bytes_def)
qed

lemma report_members:
  "bundle_members approving_world report_request report_space
    = [(''support-manifest.json'', ''{}''), (''items/0001-report'', ''Revenue __KSLIDE_[REDACTED_SECRET]__ up'')]"
proof -
  have "item_name 1 SC_REPORT = ''items/0001-report''" by code_simp
  then show ?thesis
    by (simp add: bundle_members_def numbered_items_def report_request_def report_shown)
      (simp add: report_selection_def approving_world_def)
qed

lemma report_clean: "clean_bundle approving_world (bundle_members approving_world report_request report_space)"
proof -
  let ?ms = "[(''support-manifest.json'', ''{}''), (''items/0001-report'', ''Revenue __KSLIDE_[REDACTED_SECRET]__ up'')]"
  have "unpack_stored (pack_stored ?ms) = Some ?ms" by code_simp
  moreover have "\<not> contains_secret_marker None (pack_stored ?ms)" by code_simp
  moreover have "\<not> contains_secret_marker None ''{}''" "\<not> contains_secret_marker None ''Revenue __KSLIDE_[REDACTED_SECRET]__ up''"
    by code_simp+
  moreover have "length (pack_stored ?ms) \<le> max_artifact_bytes" by (simp add: pack_stored_def max_artifact_bytes_def)
  ultimately show ?thesis
    unfolding clean_bundle_def report_members by (simp add: approving_world_def)
qed

section \<open>Approval and content\<close>

text \<open>
  C34: a read that returns a bundle asked the authority twice and found its approval standing both
  times; the bytes are those stored for this very request, its members are the manifest and numbered
  items without a secret marker, and exactly one access was added to the audit stream.
\<close>

theorem bundles_are_read_under_standing_approval:
  assumes "read_bundle w q a s = (Inr data, s')" "typed_answers w" "wf_bundle_request q"
  shows "stands w q (bw_tick s) \<and> stands w q (bw_tick s + 1)
    \<and> load_artifact (artifact_identity q) s = Inr a \<and> in_run (bq_grant q) (sa_reference a)
    \<and> map_of (bw_bundles s) (artifact_identity q) = Some (Bundle_File data)
    \<and> (\<exists>members. bo_unpack w data = Some members
        \<and> (\<forall>n \<in> set (map fst members). (n = ''support-manifest.json'' \<or> item_member n)
            \<and> \<not> contains_secret_marker (bo_secret w) (the (map_of (rev members) n))))
    \<and> s' = with_line (access_line q (ay_clock (bo_authority w) (bw_tick s + 2)) accessed (Some (artifact_identity q)))
        (s\<lparr>bw_tick := bw_tick s + 3\<rparr>)"
proof -
  note read = read_bundle_Inr [OF assms]
  then have "sa_artifact_ref a = artifact_identity q" "in_run (bq_grant q) (sa_reference a)"
    by (auto simp: selection_matches_artifact_def split: if_splits)
  moreover have "\<exists>members. bo_unpack w data = Some members
      \<and> (\<forall>n \<in> set (map fst members). (n = ''support-manifest.json'' \<or> item_member n)
          \<and> \<not> contains_secret_marker (bo_secret w) (the (map_of (rev members) n)))"
    using read by (auto simp: inspect_archive_def Let_def list_ex_iff split: option.splits if_splits simp del: set_map)
  ultimately show ?thesis using read by simp
qed

lemma report_delivered:
  "\<exists>s1 s2. materialize_bundle approving_world report_request report_space
      = (Inr (made_artifact approving_world report_request report_space), s1)
    \<and> read_bundle approving_world report_request (made_artifact approving_world report_request report_space) s1
      = (Inr (pack_stored (bundle_members approving_world report_request report_space)), s2)"
proof -
  obtain s1 where "materialize_bundle approving_world report_request report_space
      = (Inr (made_artifact approving_world report_request report_space), s1)"
    "fst (read_bundle approving_world report_request (made_artifact approving_world report_request report_space) s1)
      = Inr (bo_pack approving_world (bundle_members approving_world report_request report_space))"
    using materialize_then_read [OF report_request_ok report_ready report_available _ report_clean] approving_stands by blast
  moreover have "bo_pack approving_world = pack_stored" by (simp add: approving_world_def)
  ultimately show ?thesis by (metis prod.collapse)
qed

lemma bundles_are_read_under_standing_approval_witness:
  "\<exists>s a data s'. read_bundle approving_world report_request a s = (Inr data, s')
    \<and> stands approving_world report_request (bw_tick s)
    \<and> map_of (bw_bundles s) (artifact_identity report_request) = Some (Bundle_File data)"
  using report_delivered bundles_are_read_under_standing_approval [OF _ approving_answers report_request_ok] by blast

text \<open>
  C35: a new bundle is the manifest followed by one numbered item per selection, each the redacted bytes
  of a regular file of the run whose reference is in the granted run, of a granted class and at a path
  of this class; the approval stood at every check on the way, and beside bundle, metadata and one
  recorded event nothing changed.
\<close>

theorem new_bundles_hold_the_granted_content:
  assumes "materialize_bundle w q s = (Inr a, s')" "free_name (artifact_identity q) s"
    and "typed_answers w" "wf_bundle_request q"
  shows "(\<forall>n \<in> {bw_tick s..bw_tick s + length (bq_selections q) + 3}. stands w q n)
    \<and> (\<exists>items. length items = length (bq_selections q)
        \<and> (\<forall>k < length items. \<forall>x. x = bq_selections q ! k \<longrightarrow> fst (items ! k) = item_name (k + 1) (se_class x)
            \<and> selected_source w s x (snd (items ! k)) \<and> in_run (bq_grant q) (se_reference x)
            \<and> selection_granted (bq_grant q) x \<and> path_matches_class (se_class x) (sg_path (se_reference x)))
        \<and> s' = with_line (access_line q (ay_clock (bo_authority w) (bw_tick s' - 1)) materialized (Some (artifact_identity q)))
            ((grown s (artifact_identity q) (bo_pack w ((''support-manifest.json'',
                bo_manifest_text w (manifest_json q (approved_grant q) (length items))) # items)) a)\<lparr>bw_tick := bw_tick s'\<rparr>))"
  using assms(1,3,4)
proof (cases rule: materialize_Inr)
  case reused
  with assms(2) show ?thesis by simp
next
  case (made items r)
  from made(5) have len: "length items = length (bq_selections q)"
    and item: "\<And>k. k < length items \<Longrightarrow> fst (items ! k) = item_name (k + 1) (se_class (bq_selections q ! k))
      \<and> selected_source w s (bq_selections q ! k) (snd (items ! k))"
    by (simp_all add: bundle_items_def)
  have "\<forall>k < length items. \<forall>x. x = bq_selections q ! k \<longrightarrow> fst (items ! k) = item_name (k + 1) (se_class x)
            \<and> selected_source w s x (snd (items ! k)) \<and> in_run (bq_grant q) (se_reference x)
            \<and> selection_granted (bq_grant q) x \<and> path_matches_class (se_class x) (sg_path (se_reference x))"
    using item valid_request(3) [OF assms(4) nth_mem] len by simp
  moreover have "\<forall>n \<in> {bw_tick s..bw_tick s + length (bq_selections q) + 3}. stands w q n"
    using made(6,7) by auto
  ultimately show ?thesis using made(8) len by blast
qed

lemma report_name_free: "free_name (artifact_identity report_request) report_space"
  by (simp add: free_name_def report_space_def)

lemma new_bundles_hold_the_granted_content_witness:
  "\<exists>a s' (items :: (string \<times> string) list).
    materialize_bundle approving_world report_request report_space = (Inr a, s') \<and> length items = 1
    \<and> selected_source approving_world report_space report_selection (snd (items ! 0))
    \<and> stands approving_world report_request 4"
proof -
  obtain a s' where run: "materialize_bundle approving_world report_request report_space = (Inr a, s')"
    using report_delivered by blast
  have one: "bq_selections report_request = [report_selection]" "bw_tick report_space = 0"
    by (simp_all add: report_request_def report_space_def)
  note all = new_bundles_hold_the_granted_content [OF run report_name_free approving_answers report_request_ok, unfolded one]
  from all have "stands approving_world report_request 4" by simp
  moreover from all obtain items :: "(string \<times> string) list" where "length items = Suc 0"
    "selected_source approving_world report_space report_selection (snd (items ! 0))" by auto
  ultimately show ?thesis using run by auto
qed

text \<open>
  C36: the bytes content is replaced by are pieces between redaction marks, and no credential label is
  left inside a piece, whatever the bytes and the process's own access key are.
\<close>

theorem no_label_survives_between_marks:
  "\<exists>pieces. safe_content_bytes secret data = join_with redacted_secret pieces
     \<and> \<not> list_ex (has_match match_label) pieces"
  using redacted_pieces [of secret data] by (auto simp: list_ex_iff)

text \<open>
  What the patterns miss: a removed label can leave the halves of another one around the mark, which the
  check at reading, where marks are taken out first, then finds; and a trailing slash hides the name of an
  excluded file from the class check, though both spellings name the same file.
\<close>

theorem redacted_content_can_be_refused:
  "contains_secret_marker None (safe_content_bytes None ''passtokenword'')"
  by code_simp

theorem excluded_file_by_another_spelling:
  "path_matches_class SC_NORMALIZED_RENDER ''normalized/DOCUMENT_MANIFEST.json/''
    \<and> safe_relative_path ''normalized/DOCUMENT_MANIFEST.json/''
    \<and> path_parts ''normalized/DOCUMENT_MANIFEST.json/'' = path_parts ''normalized/DOCUMENT_MANIFEST.json''
    \<and> \<not> path_matches_class SC_NORMALIZED_RENDER ''normalized/DOCUMENT_MANIFEST.json''"
  by code_simp

section \<open>Failures and the record of attempts\<close>


text \<open>The approval is withdrawn while the bundle is written: the last check fails.\<close>

definition withdrawing_world :: bundle_world where
  "withdrawing_world = approving_world\<lparr>bo_authority :=
     steady_authority (\<lambda>n. if n < 4 then Lookup_Grant support_grant_1 else Lookup_Raises)\<rparr>"

lemma withdrawing_clock: "\<forall>n. valid_utc (ay_clock (bo_authority withdrawing_world) n)"
  by (simp add: withdrawing_world_def steady_authority_def noon_def days_in_month_def)

lemma withdrawing_answers: "typed_answers withdrawing_world"
  using support_grant_ok by (simp add: typed_answers_def withdrawing_world_def steady_authority_def)



text \<open>An authority that answers no lookup.\<close>

definition silent_world :: bundle_world where
  "silent_world = approving_world\<lparr>bo_authority := steady_authority (\<lambda>n. Lookup_Raises)\<rparr>"

lemma silent_clock: "\<forall>n. valid_utc (ay_clock (bo_authority silent_world) n)"
  by (simp add: silent_world_def steady_authority_def noon_def days_in_month_def)


section \<open>Approved requests are served\<close>



section \<open>Retention of copies\<close>

text \<open>
  C40: whatever the cleanup of expired copies does, errors included, a bundle or metadata file that is
  gone belonged to an artifact of this run and scope that had expired and that the legal-hold provider
  released; a dry run changes nothing.
\<close>

theorem only_expired_released_copies_go:
  assumes "cleanup_expired_copies ctx holds now dry s = (x, s')" "distinct (map ru_name (cs_runs s))"
  shows "list_all2 (copies_left ctx holds now) (cs_runs s) (cs_runs s') \<and> (dry \<longrightarrow> s' = s)"
  using keepsD [OF cleanup_copies_safe assms(1)] assms keepsD [OF cleanup_dry, of ctx holds now s x s']
  by (cases dry) (simp_all add: copies_step_def copies_safe_def)

text \<open>An expired copy in a run directory, released.\<close>

definition report_copy :: stored_run where
  "report_copy = \<lparr>ru_name = ''run-1'', ru_entry = Entry_Dir, ru_support = Dir_Present,
     ru_metadata = [(''copy'', Metadata_File (Some (artifact_as_dict (made_artifact approving_world report_request report_space))))],
     ru_bundles = [(artifact_identity report_request, Bundle_File ''archive'')]\<rparr>"

definition copy_shelf :: copy_store where
  "copy_shelf = \<lparr>cs_runs = [report_copy], cs_log = \<lparr>lg_file = Stream_Lines [], lg_writable = True\<rparr>\<rparr>"

definition copy_release :: hold_decision where
  "copy_release = \<lparr>hd_scope_ref = ''workspace'', hd_run_ref = ''run-1'', hd_status = HS_RELEASE,
     hd_authority_ref = ''authority-1'', hd_decision_ref = ''decision-1'', hd_decided_at = time_text noon\<rparr>"

definition release_all :: "string \<Rightarrow> string \<Rightarrow> hold_answer" where
  "release_all run stem = Hold_Decision copy_release"

abbreviation later :: utc where
  "later \<equiv> UTC 2026 1 3 0 0 0 0"

lemma report_copy_cleaned:
  "\<exists>x s'. cleanup_expired_copies support_ctx release_all later False copy_shelf = (x, s')
    \<and> map ru_bundles (cs_runs s') = [[]]"
proof -
  let ?a = "made_artifact approving_world report_request report_space"
  have fields: "sa_run_ref ?a = ''run-1''" "sa_context ?a = support_ctx" "sa_artifact_ref ?a = artifact_identity report_request"
    "sa_expires_at ?a = time_text (UTC 2026 1 2 0 0 0 0)"
    by (simp_all add: made_artifact_def new_artifact_def report_request_def support_grant_1_def del: time_text.simps)
  have "\<not> outside_run (bq_grant report_request) report_space" using report_ready by (simp add: ready_for_def)
  then have "wf_artifact ?a" by (rule made_artifact_wf [OF report_request_ok _ approving_clock])
  then have artifact: "expired_artifact report_copy ''copy'' = Inr ?a"
    by (simp add: expired_artifact_def report_copy_def)
  have named: "run_named ''run-1'' copy_shelf = Some report_copy"
    by (simp add: run_named_def copy_shelf_def report_copy_def)
  have old: "\<not> later < UTC 2026 1 2 0 0 0 0" by code_simp
  obtain x s' where rem: "remove_copy ''run-1'' ''copy'' ?a later copy_shelf = (x, s')" by fastforce
  have gone: "map ru_bundles (cs_runs s') = [[]]"
    using rem named
    by (auto simp: remove_copy_def Let_def fields update_run_def report_copy_def copy_shelf_def split: sum.splits prod.splits)
  have "\<exists>y. clean_one support_ctx release_all later False ''run-1'' ''copy'' copy_shelf = (y, s')"
    using rem old
    by (cases x) (simp_all add: clean_one_def named artifact fields sample_window bare_status_def release_all_def copy_release_def del: time_text.simps One_nat_def)
  then obtain y where one: "clean_one support_ctx release_all later False ''run-1'' ''copy'' copy_shelf = (y, s')" by blast
  have "\<exists>y. clean_run support_ctx release_all later False ''run-1'' copy_shelf = (y, s')"
    using one by (cases y) (simp_all add: clean_run_def named, simp_all add: report_copy_def stems_in_order_def sorted_set_def)
  then obtain z where run: "clean_run support_ctx release_all later False ''run-1'' copy_shelf = (z, s')" by blast
  have "sorted_set (map ru_name (cs_runs copy_shelf)) = [''run-1'']" by (simp add: copy_shelf_def report_copy_def sorted_set_def)
  then have "\<exists>y. cleanup_expired_copies support_ctx release_all later False copy_shelf = (y, s')"
    using run by (cases z) (simp_all add: cleanup_expired_copies_def support_ctx_def)
  with gone show ?thesis by auto
qed

lemma only_expired_released_copies_go_witness:
  "\<exists>x s'. cleanup_expired_copies support_ctx release_all later False copy_shelf = (x, s')
    \<and> map ru_bundles (cs_runs s') = [[]]
    \<and> list_all2 (copies_left support_ctx release_all later) (cs_runs copy_shelf) (cs_runs s')"
proof -
  obtain x s' where "cleanup_expired_copies support_ctx release_all later False copy_shelf = (x, s')"
    "map ru_bundles (cs_runs s') = [[]]" using report_copy_cleaned by auto
  moreover have "distinct (map ru_name (cs_runs copy_shelf))" by (simp add: copy_shelf_def)
  ultimately show ?thesis using only_expired_released_copies_go by auto
qed

end
