(* ===== verification/Spec2Isabelle.thy ===== *)
theory Spec2Isabelle
  imports Engine_Properties Execution_Properties Controller_Properties Lifecycle_Properties
    Paas_Worker Admission_Properties Claim_Properties Scope_Properties Record_Properties
    Rollout_Properties Revocation_Properties Recovery_Properties
    Deletion_Outcomes Support_Properties
begin

text \<open>
  K-Slide: the durable execution core, the scoped job service, candidate rollout control, the
  deletion of runs and controlled access to their content.

  K-Slide turns a document into reviewed English slides in resumable steps. This development models
  the part of it that must survive crashes, concurrent clients and administrative decisions
  (\<open>src/k_slide\<close>): which state a run may reach, how its progress is recorded, who may work on it, which
  release candidate may serve it, and how it is removed.

  The parts and how they interact.

  Engine state (\<open>state.py\<close>, \<open>queue.py\<close>, \<open>environment.py\<close>, the content hash of \<open>evidence_ir.py\<close>):
  \<open>Run_State\<close> has the phases of a run and their transition table, \<open>Work_Queue\<close> its work units,
  \<open>Environment\<close> the identity of the runtime it was started in, \<open>Json\<close> the canonical JSON text with
  SHA-256 as it is computed.

  Execution contract (\<open>execution.py\<close>): \<open>Execution_Contract\<close> (enumerations, data classes and the checks
  of their constructors), \<open>Execution_Codec\<close> (the sealed JSON form of jobs and checkpoints), \<open>Run_Store\<close>
  (the two file adapters: load, create, compare-and-set and the operations built on it: checkpoint,
  step, cancellation, retry, result), \<open>Controller\<close> (one engine step over any store and
  \<open>sync_workspace_execution\<close>), \<open>Storage_Guard\<close> (the write barrier of \<open>storage.py\<close> that the workspace
  adapter asks before each write). A store is a record of its files; each operation is the load
  (\<open>plan_...\<close> computes the next job from it) and the commit under the lock, so \<open>Store_Interleaving\<close> can
  let several clients interleave between the two.

  Scoped job service (\<open>paas.py\<close>): \<open>Paas_Types\<close> and \<open>Paas_Records\<close> (identities, references, admission
  records, queue and control state, views, with their codecs), \<open>Paas_Admission\<close> (reading, recovering and
  normalizing the state of a scope, the slot), \<open>Paas_Scope\<close> and \<open>Paas_Service\<close> (submission, claim,
  claim-next, cancellation, the store view a worker gets, the compatibility layout),
  \<open>Paas_Submission\<close> (submission as the sequence of its writes, to stop it between them),
  \<open>Paas_Worker\<close> (the service with several scopes, the controller, the worker loop and the reference
  engine). Workers write through the store of the execution contract; every write is followed by the
  normalization of the scope.

  Rollout control (\<open>rollout.py\<close>, \<open>candidate_revocation.py\<close>): \<open>Control_Signature\<close> (canonical text,
  HMAC-SHA-256, control times), \<open>Rollout\<close> (policy, state, head, commands, history), \<open>Rollout_Control\<close>
  (admission, transition with its three writes, revocation and recovery events), \<open>Revocation\<close> and
  \<open>Ledger\<close> (events, ledger state, replay, append in three writes). Admission reads the rollout and the
  ledger of the candidate.

  Deletion (\<open>deletion.py\<close>, \<open>content_support.py\<close>, \<open>storage.py\<close>): \<open>Storage_References\<close> (artifact classes and
  planes), \<open>Support_Records\<close> and \<open>Support_Log\<close> (controlled support copies, their deletion records and
  the access stream), \<open>Deletion_Audit\<close> (hold decisions, the reference hold registry, targets, audits),
  \<open>Deletion_Run\<close> (\<open>DeletionCoordinator.run\<close> over any backend: a record of operations),
  \<open>Deletion_Workspace\<close> (\<open>WorkspaceDeletionBackend\<close> and \<open>delete_workspace_run\<close> on the files of one run).
  The fence a deletion puts up is the file \<open>Storage_Guard\<close> reads.

  Support access (\<open>content_support.py\<close>, the audit loop of \<open>deletion.py\<close>): \<open>Support_Grants\<close> (decisions,
  selections, the reference authority, \<open>_authorize\<close>), \<open>Support_Redaction\<close> (the patterns that take secrets
  out of content, as matchers over bytes), \<open>Support_Bundles\<close> (making and reading a bundle over the
  storage of a run), \<open>Support_Retention\<close> (expiry of copies, of lines of the access stream, of deletion
  audits). A bundle's metadata is the artifact \<open>Support_Log\<close> describes; a deletion of the run turns it
  into the deletion records of \<open>Support_Records\<close>. Each check of the authority takes the next tick, and
  the answers and clock readings are functions of the tick.

  Interfaces. Four locales state what one component promises another; each is interpreted on the
  model. \<open>cas_store\<close> (\<open>Run_Store_Laws\<close>) is a store with load and revision-checked commit; its clients
  interleave in \<open>Store_Interleaving\<close>, and \<open>fs\<close> interprets it on the durable file store.
  \<open>run_store_contract\<close> (\<open>Controller_Laws\<close>) is the store an execution controller drives; \<open>file_ops\<close>
  interprets it on the durable store and \<open>view_ops\<close> (\<open>Paas_View_Laws\<close>) on the store view of a claimed
  scoped job. \<open>deletion_backend\<close> and its extension \<open>fenced_backend\<close> (\<open>Deletion_Laws\<close>) are what the
  deletion coordinator needs; \<open>ws\<close> (\<open>Deletion_Guard_Laws\<close>) and \<open>place\<close> (\<open>Deletion_Again\<close>) interpret
  them on the workspace backend.

  What is shown. \<open>Execution_Properties\<close>: accepted commits form one serial history under any
  interleaving, the durable adapter refines a map of jobs, jobs survive their JSON form, operations
  only advance a job, ended jobs stay ended, retries are bounded, a recorded deletion stops writes.
  \<open>Controller_Properties\<close>: an operation executes once, results are committed.
  \<open>Admission_Properties\<close>, \<open>Claim_Properties\<close>, \<open>Scope_Properties\<close>, \<open>Record_Properties\<close>: recovery of an
  interrupted submission, order of admissions, exclusiveness of the slot, isolation of scopes,
  capacity, codecs, termination of the reference engine. \<open>Rollout_Properties\<close>,
  \<open>Revocation_Properties\<close>, \<open>Recovery_Properties\<close>: the control directory follows an abstract rollout
  machine, commands are not replayed, interrupted transitions and revocations fail closed, admission
  holds exactly under authorization. \<open>Deletion_Properties\<close>, \<open>Deletion_Outcomes\<close>: files go only under a
  release, half deleted runs are fenced, deletions complete, leave nothing and are replayed.
  \<open>Support_Properties\<close>, over \<open>Support_Bundle_Laws\<close>, \<open>Support_Bundle_Outcomes\<close>, \<open>Support_Delivery\<close> and
  \<open>Support_Retention_Laws\<close>: content leaves a run only under an approval that stands at every check,
  redacted and recorded; a failed request leaves no copy, an approved one is served; only expired,
  released copies, lines and audits go.
  \<open>Engine_Properties\<close>, \<open>Lifecycle_Properties\<close>: the phases of a run and the record that follows them.
  Several theorems show where the code falls short: two mirrors under one revision, a marker that
  blocks its scope, a transition before the last one, a fence lost to a hold or left by a completion,
  a late denial that is not recorded, an access line lost to the cleanup, marks that hide a label.

  Conventions. A string is its list of UTF-8 bytes; \<open>\d\<close> is an ASCII digit. Errors are values: the
  code of a \<open>KSlideError\<close>, or the Python exception that escapes (\<open>PyTypeError\<close>, \<open>PyValueError\<close>,
  \<open>PyKeyError\<close>, \<open>PyOSError\<close>); messages are left out. Python integers are \<open>int\<close>; a boolean read as an
  integer becomes 0 or 1; JSON numbers with a fraction are not modelled, JSON objects are association
  lists, and a decoder refuses foreign JSON types also where Python would let a falsy one pass.
  Readings of the clock are arguments, a function of the position of the reading in the operation.
  What comes from outside is an argument as well: the engine, the hold provider and the support
  authority (functions that may raise), the archive format and the sanitized text of a manifest, the
  access key of the process, the environment and policy checks, the failure injector. An operation under a lock is
  one step; the writes inside it are separate where a stop between them matters (submission, rollout
  transition, ledger event, audit and fence). Loops are structural or bounded by the list they walk;
  the worker loop and the reference engine take the number of steps as fuel, and
  \<open>reference_engine_terminates\<close> shows how many are enough.

  Not modelled. Path resolution and symbolic-link checks of the storage layout, except links among
  the files of a deleted run and of a control directory; file locks themselves; the scratch
  directory; the scoped deletion backend; the expiry of telemetry events, and of the second file of the
  access stream and of audits under a nested root; root overlap checks of the cleanups; compression and
  the temporary file of an archive; deployment adapters loaded by name. Ingest, extraction,
  rendering, translation checks and the conflict registry work on extracted text through third-party
  libraries and Unicode regular expressions; policies, telemetry, certification, the command line and
  the evaluation tools are outside the run of a job.
\<close>

end
